(* ===== verification/Prelude.thy ===== *)
theory Prelude
  imports Main "HOL-Library.Word" "HOL-Library.Sublist"
begin

text \<open>
  Shared vocabulary of the development: the parts of the Go language and of its standard
  library that the sharding code uses (maps with nil, strings, errors, fixed-width integers,
  \<^verbatim>\<open>time\<close>, \<^verbatim>\<open>strings\<close>, \<^verbatim>\<open>path\<close>, \<^verbatim>\<open>strconv\<close>, \<^verbatim>\<open>slices\<close>), with the lemmas every component
  shares. Go strings are byte strings, so \<^typ>\<open>string\<close> (a list of 8-bit characters) is
  their exact model.
\<close>

named_theorems go_simps \<open>defining equations of the Go runtime and library model\<close>
named_theorems meta_simps \<open>equations of the Kubernetes metadata vocabulary\<close>

section \<open>Maps, errors and results\<close>

text \<open>
  A Go map is nil or a finite map. Reading a missing key or a nil map gives the zero value;
  the empty string is the zero value of the string maps used for labels.
\<close>

type_synonym str_map = "string \<rightharpoonup> string"
type_synonym go_map = "str_map option"

definition as_map :: "go_map \<Rightarrow> str_map" where
  "as_map m = (case m of None \<Rightarrow> Map.empty | Some f \<Rightarrow> f)"

definition map_get :: "go_map \<Rightarrow> string \<Rightarrow> string" where
  "map_get m k = (case as_map m k of None \<Rightarrow> [] | Some v \<Rightarrow> v)"

definition map_has :: "go_map \<Rightarrow> string \<Rightarrow> bool" where
  "map_has m k \<longleftrightarrow> as_map m k \<noteq> None"

text \<open>The \<^verbatim>\<open>delete\<close> builtin: a no-op on a nil map.\<close>

definition map_delete :: "string \<Rightarrow> go_map \<Rightarrow> go_map" where
  "map_delete k m = map_option (\<lambda>f. f(k := None)) m"

lemma as_map_simps [simp]: "as_map None = Map.empty" "as_map (Some f) = f"
  by (simp_all add: as_map_def)

lemma as_map_delete [simp]: "as_map (map_delete k m) = (as_map m)(k := None)"
  by (cases m) (simp_all add: map_delete_def fun_upd_idem)

lemma map_get_nonempty_has: "map_get m k \<noteq> [] \<Longrightarrow> map_has m k"
  by (auto simp: map_get_def map_has_def split: option.splits)

lemma map_get_SomeI: "as_map m k = Some v \<Longrightarrow> map_get m k = v"
  by (simp add: map_get_def)

lemma map_get_delete: "map_get (map_delete k m) k' = (if k' = k then [] else map_get m k')"
  by (simp add: map_get_def)

lemma map_has_delete: "map_has (map_delete k m) k' \<longleftrightarrow> k' \<noteq> k \<and> map_has m k'"
  by (simp add: map_has_def)

text \<open>
  An error carries the reason the API machinery's \<^verbatim>\<open>IsNotFound\<close>, \<^verbatim>\<open>IsAlreadyExists\<close> and
  \<^verbatim>\<open>IsConflict\<close> ask for, and its message. Wrapping with \<^verbatim>\<open>fmt.Errorf("...: %w", err)\<close>
  prefixes the message and keeps the reason, which those predicates find through \<^verbatim>\<open>errors.As\<close>.
  The reasons of \<^verbatim>\<open>context.Canceled\<close> and \<^verbatim>\<open>context.DeadlineExceeded\<close> are those \<^verbatim>\<open>errors.Is\<close> looks for.
\<close>

datatype err_reason = ReasonOther | ReasonNotFound | ReasonAlreadyExists | ReasonConflict | ReasonCanceled | ReasonDeadlineExceeded

record go_error =
  err_reason :: err_reason
  err_msg :: string

definition errorf :: "string \<Rightarrow> go_error" where
  "errorf s = \<lparr>err_reason = ReasonOther, err_msg = s\<rparr>"

definition wrapf :: "string \<Rightarrow> go_error \<Rightarrow> go_error" where
  "wrapf s e = e\<lparr>err_msg := s @ '': '' @ err_msg e\<rparr>"

definition IsNotFound :: "go_error \<Rightarrow> bool" where
  "IsNotFound e \<longleftrightarrow> err_reason e = ReasonNotFound"

definition IsAlreadyExists :: "go_error \<Rightarrow> bool" where
  "IsAlreadyExists e \<longleftrightarrow> err_reason e = ReasonAlreadyExists"

lemma wrapf_reason [simp]: "err_reason (wrapf s e) = err_reason e"
  by (simp add: wrapf_def)

lemma IsNotFound_wrapf [simp]: "IsNotFound (wrapf s e) = IsNotFound e"
  by (simp add: IsNotFound_def)

lemma errorf_not_NotFound [simp]: "\<not> IsNotFound (errorf s)"
  by (simp add: IsNotFound_def errorf_def)

section \<open>Lists\<close>

lemma find_snoc: "List.find P (xs @ [y]) =
  (case List.find P xs of Some z \<Rightarrow> Some z | None \<Rightarrow> if P y then Some y else None)"
  by (induction xs) auto

lemma find_SomeD: "List.find P xs = Some x \<Longrightarrow> x \<in> set xs \<and> P x"
  by (induction xs) (auto split: if_splits)

lemma find_append: "List.find P (xs @ ys) =
  (case List.find P xs of Some z \<Rightarrow> Some z | None \<Rightarrow> List.find P ys)"
  by (induction xs) auto

section \<open>Fixed-width integers and durations\<close>

definition wrap64 :: "int \<Rightarrow> int" where
  "wrap64 x = (x + 2 ^ 63) mod 2 ^ 64 - 2 ^ 63"

definition wrap32 :: "int \<Rightarrow> int" where
  "wrap32 x = (x + 2 ^ 31) mod 2 ^ 32 - 2 ^ 31"

abbreviation in64 :: "int \<Rightarrow> bool" where
  "in64 x \<equiv> - (2 ^ 63) \<le> x \<and> x < 2 ^ 63"

abbreviation in32 :: "int \<Rightarrow> bool" where
  "in32 x \<equiv> - (2 ^ 31) \<le> x \<and> x < 2 ^ 31"

lemma wrap64_id: "in64 x \<Longrightarrow> wrap64 x = x"
  by (simp add: wrap64_def)

lemma wrap32_id: "in32 x \<Longrightarrow> wrap32 x = x"
  by (simp add: wrap32_def)

lemma wrap64_bounds: "in64 (wrap64 x)"
  by (simp add: wrap64_def)

lemma wrap32_bounds: "in32 (wrap32 x)"
  by (simp add: wrap32_def)

text \<open>
  A \<^verbatim>\<open>time.Duration\<close> is a signed 64-bit count of nanoseconds. A \<^verbatim>\<open>time.Time\<close> is an
  instant in nanoseconds; instants are read as unbounded integers. \<^verbatim>\<open>Time.Sub\<close>
  saturates, the addition of durations wraps around.
\<close>

type_synonym time = int
type_synonym duration = int

definition Second :: duration where "Second = 1000000000"
definition Minute :: duration where "Minute = 60000000000"

definition time_Sub :: "time \<Rightarrow> time \<Rightarrow> duration" where
  "time_Sub t u = max (- (2 ^ 63)) (min (2 ^ 63 - 1) (t - u))"

definition time_Add :: "time \<Rightarrow> duration \<Rightarrow> time" where
  "time_Add t d = t + d"

definition dur_add :: "duration \<Rightarrow> duration \<Rightarrow> duration" where
  "dur_add a b = wrap64 (a + b)"

definition dur_mul :: "duration \<Rightarrow> duration \<Rightarrow> duration" where
  "dur_mul a b = wrap64 (a * b)"

text \<open>Go's integer division and remainder truncate towards zero.\<close>

definition trunc_div :: "int \<Rightarrow> int \<Rightarrow> int" where
  "trunc_div a b =
     (if (a < 0) = (b < 0) then \<bar>a\<bar> div \<bar>b\<bar> else - (\<bar>a\<bar> div \<bar>b\<bar>))"

definition trunc_mod :: "int \<Rightarrow> int \<Rightarrow> int" where
  "trunc_mod a b = a - trunc_div a b * b"

text \<open>
  \<^verbatim>\<open>Duration.Round(m)\<close>: the nearest multiple of \<open>m\<close>, halves away from zero, saturating;
  \<^verbatim>\<open>Duration.Seconds()\<close> followed by the conversion to an integer truncates.
\<close>

definition dur_Round :: "duration \<Rightarrow> duration \<Rightarrow> duration" where
  "dur_Round d m =
     (if m \<le> 0 then d
      else let r = trunc_mod d m in
        if d < 0 then
          (if - r + - r < m then d - r
           else if - (2 ^ 63) \<le> d - m - r then d - m - r else - (2 ^ 63))
        else
          (if r + r < m then d - r
           else if d + m - r < 2 ^ 63 then d + m - r else 2 ^ 63 - 1))"

definition dur_whole_seconds :: "duration \<Rightarrow> int" where
  "dur_whole_seconds d = trunc_div d Second"

lemma trunc_div_mult [simp]: "b \<noteq> 0 \<Longrightarrow> trunc_div (a * b) b = a"
  by (auto simp: trunc_div_def abs_mult mult_less_0_iff)

lemma dur_Round_multiple: "0 < m \<Longrightarrow> dur_Round (k * m) m = k * m"
  by (simp add: dur_Round_def trunc_mod_def Let_def)

lemma whole_seconds_Round: "dur_whole_seconds (dur_Round (k * Second) Second) = k"
proof -
  have "0 < Second" by (simp add: Second_def)
  then show ?thesis by (simp add: dur_Round_multiple dur_whole_seconds_def)
qed

lemma time_Sub_exact: "in64 (t - u) \<Longrightarrow> time_Sub t u = t - u"
  by (simp add: time_Sub_def)

lemma time_Sub_mono: "now \<le> now' \<Longrightarrow> time_Sub t now' \<le> time_Sub t now"
  by (auto simp: time_Sub_def)

end
