(* ===== verification/Go_Strings.thy ===== *)
theory Go_Strings
  imports Prelude
begin

text \<open>
  The string functions of Go's standard library that the sharding code calls:
  \<^verbatim>\<open>strings.HasPrefix\<close>, \<^verbatim>\<open>TrimPrefix\<close>, \<^verbatim>\<open>TrimSuffix\<close>, \<^verbatim>\<open>Join\<close>, \<^verbatim>\<open>path.Clean\<close> and
  \<^verbatim>\<open>path.Join\<close>, \<^verbatim>\<open>strconv.FormatInt\<close> and \<^verbatim>\<open>ParseInt\<close> in base 10, \<^verbatim>\<open>hex.EncodeToString\<close>,
  \<^verbatim>\<open>unicode.ToUpper\<close> on ASCII letters.
\<close>

section \<open>Prefixes, suffixes and joining\<close>

definition HasPrefix :: "string \<Rightarrow> string \<Rightarrow> bool" where
  "HasPrefix s p \<longleftrightarrow> take (length p) s = p"

definition TrimPrefix :: "string \<Rightarrow> string \<Rightarrow> string" where
  "TrimPrefix s p = (if HasPrefix s p then drop (length p) s else s)"

definition HasSuffix :: "string \<Rightarrow> string \<Rightarrow> bool" where
  "HasSuffix s p \<longleftrightarrow> length p \<le> length s \<and> drop (length s - length p) s = p"

definition TrimSuffix :: "string \<Rightarrow> string \<Rightarrow> string" where
  "TrimSuffix s p = (if HasSuffix s p then take (length s - length p) s else s)"

text \<open>\<^verbatim>\<open>%q\<close> on text without quotes and control characters.\<close>

definition quote :: "string \<Rightarrow> string" where
  "quote s = CHR 0x22 # s @ [CHR 0x22]"

text \<open>\<^verbatim>\<open>strings.ReplaceAll\<close> for a pattern that is not empty.\<close>

function ReplaceAll :: "string \<Rightarrow> string \<Rightarrow> string \<Rightarrow> string" where
  "ReplaceAll [] old new = []"
| "ReplaceAll (c # s) old new =
     (if old \<noteq> [] \<and> HasPrefix (c # s) old then new @ ReplaceAll (drop (length old) (c # s)) old new
      else c # ReplaceAll s old new)"
  by pat_completeness auto
termination by (relation "measure (\<lambda>(s, old, new). length s)") auto

fun join_with :: "string \<Rightarrow> string list \<Rightarrow> string" where
  "join_with sep [] = []"
| "join_with sep [x] = x"
| "join_with sep (x # y # ys) = x @ sep @ join_with sep (y # ys)"

lemma HasPrefix_append [simp]: "HasPrefix (p @ s) p"
  by (simp add: HasPrefix_def)

lemma TrimPrefix_append [simp]: "TrimPrefix (p @ s) p = s"
  by (simp add: TrimPrefix_def)

lemma HasPrefix_iff: "HasPrefix s p \<longleftrightarrow> (\<exists>r. s = p @ r)"
  by (metis HasPrefix_append HasPrefix_def append_take_drop_id)

lemma join_with_snoc:
  "xs \<noteq> [] \<Longrightarrow> join_with sep (xs @ [y]) = join_with sep xs @ sep @ y"
proof (induction xs)
  case (Cons x xs)
  then show ?case by (cases xs) auto
qed simp

section \<open>Splitting at a separator\<close>

fun split_acc :: "char \<Rightarrow> string \<Rightarrow> string \<Rightarrow> string list" where
  "split_acc c acc [] = [rev acc]"
| "split_acc c acc (x # xs) =
     (if x = c then rev acc # split_acc c [] xs else split_acc c (x # acc) xs)"

definition split_char :: "char \<Rightarrow> string \<Rightarrow> string list" where
  "split_char c s = split_acc c [] s"

lemma split_acc_no_sep: "c \<notin> set s \<Longrightarrow> split_acc c acc s = [rev acc @ s]"
  by (induction s arbitrary: acc) auto

lemma split_acc_sep:
  "c \<notin> set s \<Longrightarrow> split_acc c acc (s @ c # t) = (rev acc @ s) # split_char c t"
  by (induction s arbitrary: acc) (auto simp: split_char_def)

lemma split_char_sep: "c \<notin> set s \<Longrightarrow> split_char c (s @ c # t) = s # split_char c t"
  by (simp add: split_char_def split_acc_sep)

lemma split_char_no_sep: "c \<notin> set s \<Longrightarrow> split_char c s = [s]"
  by (simp add: split_char_def split_acc_no_sep)

text \<open>Splitting is the inverse of joining when no part contains the separator.\<close>

lemma split_char_join:
  "xs \<noteq> [] \<Longrightarrow> (\<forall>x \<in> set xs. c \<notin> set x) \<Longrightarrow> split_char c (join_with [c] xs) = xs"
proof (induction xs rule: induct_list012)
  case (2 x)
  then show ?case by (simp add: split_char_no_sep)
next
  case (3 x y zs)
  then have "split_char c (join_with [c] (y # zs)) = y # zs" by simp
  with 3 show ?case by (simp add: split_char_sep)
qed simp

lemma join_with_inj:
  assumes "length xs = length ys" and "xs \<noteq> []"
    and "\<forall>x \<in> set xs. c \<notin> set x" and "\<forall>y \<in> set ys. c \<notin> set y"
    and "join_with [c] xs = join_with [c] ys"
  shows "xs = ys"
proof -
  have "ys \<noteq> []" using assms(1,2) by auto
  then have "split_char c (join_with [c] ys) = ys" using assms(4) by (rule split_char_join)
  moreover have "split_char c (join_with [c] xs) = xs" using assms(2,3) by (rule split_char_join)
  ultimately show ?thesis using assms(5) by simp
qed

section \<open>Lexical path cleaning\<close>

text \<open>
  \<^verbatim>\<open>path.Clean\<close> eliminates empty and \<^verbatim>\<open>.\<close> elements and resolves \<^verbatim>\<open>..\<close> against the
  preceding element (at the root it is dropped); the empty result is \<^verbatim>\<open>.\<close>, or \<^verbatim>\<open>/\<close> for a
  rooted path. \<^verbatim>\<open>path.Join\<close> joins the non-empty elements with slashes and cleans.
\<close>

fun clean_elems :: "bool \<Rightarrow> string list \<Rightarrow> string list \<Rightarrow> string list" where
  "clean_elems rooted out [] = rev out"
| "clean_elems rooted out (e # es) =
     (if e = [] \<or> e = ''.'' then clean_elems rooted out es
      else if e = ''..'' then
        (case out of
           [] \<Rightarrow> if rooted then clean_elems rooted [] es else clean_elems rooted [''..''] es
         | p # ps \<Rightarrow> if p = ''..'' then clean_elems rooted (''..'' # out) es
                     else clean_elems rooted ps es)
      else clean_elems rooted (e # out) es)"

definition path_Clean :: "string \<Rightarrow> string" where
  "path_Clean p =
     (let rooted = HasPrefix p ''/'';
          body = join_with ''/'' (clean_elems rooted [] (split_char (CHR ''/'') p));
          res = (if rooted then CHR ''/'' # body else body)
      in if res = [] then ''.'' else res)"

definition path_Join :: "string list \<Rightarrow> string" where
  "path_Join es =
     (let ne = filter (\<lambda>e. e \<noteq> []) es
      in if ne = [] then [] else path_Clean (join_with ''/'' ne))"

definition plain_elem :: "string \<Rightarrow> bool" where
  "plain_elem e \<longleftrightarrow> e \<noteq> [] \<and> e \<noteq> ''.'' \<and> e \<noteq> ''..'' \<and> CHR ''/'' \<notin> set e"

lemma clean_elems_plain:
  "list_all plain_elem es \<Longrightarrow> clean_elems rooted out es = rev out @ es"
  by (induction es arbitrary: out) (auto simp: plain_elem_def)

lemma clean_elems_skip [simp]: "clean_elems rooted out ([] # es) = clean_elems rooted out es"
  by simp

text \<open>A rooted path of plain elements is already clean.\<close>

lemma path_Clean_plain:
  assumes "list_all plain_elem es" and "es \<noteq> []"
  shows "path_Clean (CHR ''/'' # join_with ''/'' es) = CHR ''/'' # join_with ''/'' es"
proof -
  have ns: "\<forall>e \<in> set es. CHR ''/'' \<notin> set e"
    using assms(1) by (auto simp: plain_elem_def list_all_iff)
  have "split_char (CHR ''/'') (CHR ''/'' # join_with ''/'' es) = [] # es"
    using split_char_join [OF assms(2) ns] split_char_sep [of "CHR ''/''" "[]"] by simp
  then show ?thesis
    by (simp add: path_Clean_def HasPrefix_def Let_def clean_elems_plain assms(1))
qed

section \<open>Decimal numerals\<close>

definition digit_char :: "nat \<Rightarrow> char" where
  "digit_char d = char_of (48 + d)"

fun format_nat :: "nat \<Rightarrow> string" where
  "format_nat n =
     (if n < 10 then [digit_char n] else format_nat (n div 10) @ [digit_char (n mod 10)])"

declare format_nat.simps [simp del]

definition FormatInt :: "int \<Rightarrow> string" where
  "FormatInt i = (if i < 0 then CHR ''-'' # format_nat (nat (- i)) else format_nat (nat i))"

lemma digit_char_inj: "a < 10 \<Longrightarrow> b < 10 \<Longrightarrow> digit_char a = digit_char b \<Longrightarrow> a = b"
proof -
  assume ab: "a < 10" "b < 10" and eq: "digit_char a = digit_char b"
  from eq have "(of_char (digit_char a) :: nat) = of_char (digit_char b)" by (rule arg_cong)
  then have "(48 + a) mod 256 = (48 + b) mod 256" by (simp add: digit_char_def)
  with ab show "a = b" by simp
qed

lemma format_nat_nonempty: "format_nat n \<noteq> []"
  by (subst format_nat.simps) simp

lemma format_nat_inj: "format_nat m = format_nat n \<Longrightarrow> m = n"
proof (induction m arbitrary: n rule: format_nat.induct)
  case (1 m)
  have snoc: "format_nat k = (if k < 10 then [] else format_nat (k div 10)) @ [digit_char (k mod 10)]"
    for k by (subst format_nat.simps) simp
  from "1.prems" have front: "(if m < 10 then [] else format_nat (m div 10)) =
      (if n < 10 then [] else format_nat (n div 10))"
    and "digit_char (m mod 10) = digit_char (n mod 10)"
    by (simp_all only: snoc [of m] snoc [of n] append1_eq_conv)
  then have low: "m mod 10 = n mod 10" by (intro digit_char_inj) simp_all
  show ?case
  proof (cases "m < 10")
    case True
    then have "n < 10" using front format_nat_nonempty [of "n div 10"] by (auto split: if_splits)
    with True low show ?thesis by simp
  next
    case False
    then have "\<not> n < 10" using front format_nat_nonempty [of "m div 10"] by (auto split: if_splits)
    with False front have "format_nat (m div 10) = format_nat (n div 10)" by simp
    with False "1.IH" have "m div 10 = n div 10" by blast
    with low show ?thesis by (metis mult_div_mod_eq)
  qed
qed

text \<open>
  \<^verbatim>\<open>strconv.ParseInt\<close> in base 10: an optional sign and at least one digit, in the range of the given
  number of bits.
\<close>

definition digit_val :: "char \<Rightarrow> nat option" where
  "digit_val c = (let n = (of_char c :: nat) in if 48 \<le> n \<and> n \<le> 57 then Some (n - 48) else None)"

fun parse_digits :: "nat \<Rightarrow> string \<Rightarrow> nat option" where
  "parse_digits acc [] = Some acc"
| "parse_digits acc (c # cs) =
     (case digit_val c of None \<Rightarrow> None | Some d \<Rightarrow> parse_digits (10 * acc + d) cs)"

definition parse_nat :: "string \<Rightarrow> nat option" where
  "parse_nat s = (if s = [] then None else parse_digits 0 s)"

definition split_sign :: "string \<Rightarrow> bool \<times> string" where
  "split_sign s = (case s of [] \<Rightarrow> (False, [])
     | c # r \<Rightarrow> if c = CHR ''-'' then (True, r) else if c = CHR ''+'' then (False, r) else (False, s))"

definition ParseInt :: "nat \<Rightarrow> string \<Rightarrow> go_error + int" where
  "ParseInt bits s =
     (let (neg, ds) = split_sign s; q = CHR 0x22 # s @ [CHR 0x22] in
      case parse_nat ds of
        None \<Rightarrow> Inl (errorf (''strconv.ParseInt: parsing '' @ q @ '': invalid syntax''))
      | Some n \<Rightarrow>
          (let v = (if neg then - int n else int n) in
           if - (2 ^ (bits - 1)) \<le> v \<and> v < 2 ^ (bits - 1) then Inr v
           else Inl (errorf (''strconv.ParseInt: parsing '' @ q @ '': value out of range''))))"

lemma parse_digits_append: "parse_digits acc (s @ t) =
  (case parse_digits acc s of None \<Rightarrow> None | Some n \<Rightarrow> parse_digits n t)"
  by (induction s arbitrary: acc) (auto split: option.splits)

lemma digit_val_char: "d < 10 \<Longrightarrow> digit_val (digit_char d) = Some d"
  by (simp add: digit_val_def digit_char_def Let_def)

lemma parse_format_digits: "parse_digits 0 (format_nat n) = Some n"
proof (induction n rule: format_nat.induct)
  case (1 n)
  then show ?case
    by (subst format_nat.simps) (simp add: digit_val_char parse_digits_append)
qed

lemma format_nat_digits: "c \<in> set (format_nat n) \<Longrightarrow> digit_val c \<noteq> None"
proof (induction n rule: format_nat.induct)
  case (1 n)
  from "1.prems" have "c \<in> set (if n < 10 then [digit_char n] else format_nat (n div 10) @ [digit_char (n mod 10)])"
    by (simp only: format_nat.simps [of n])
  with "1.IH" show ?case by (auto simp: digit_val_char split: if_splits)
qed

lemma parse_nat_format: "parse_nat (format_nat n) = Some n"
  by (simp add: parse_nat_def format_nat_nonempty parse_format_digits)

lemma split_sign_format: "split_sign (format_nat n) = (False, format_nat n)"
proof -
  obtain c cs where c: "format_nat n = c # cs" using format_nat_nonempty [of n] by (cases "format_nat n") auto
  then have "digit_val c \<noteq> None" using format_nat_digits [of c n] by simp
  then have "c \<noteq> CHR ''-''" "c \<noteq> CHR ''+''" by (auto simp: digit_val_def)
  with c show ?thesis by (simp add: split_sign_def)
qed

lemma ParseInt_FormatInt:
  assumes "- (2 ^ (bits - 1)) \<le> i" and "i < 2 ^ (bits - 1)"
  shows "ParseInt bits (FormatInt i) = Inr i"
proof (cases "i < 0")
  case True
  then have "split_sign (FormatInt i) = (True, format_nat (nat (- i)))" by (simp add: FormatInt_def split_sign_def)
  with True assms show ?thesis by (simp add: ParseInt_def parse_nat_format Let_def)
next
  case False
  then have "split_sign (FormatInt i) = (False, format_nat (nat i))" by (simp add: FormatInt_def split_sign_format)
  with False assms show ?thesis by (simp add: ParseInt_def parse_nat_format Let_def)
qed

section \<open>Hexadecimal encoding\<close>

definition hex_digit :: "nat \<Rightarrow> char" where
  "hex_digit n = (if n < 10 then char_of (48 + n) else char_of (87 + n))"

fun hex_EncodeToString :: "string \<Rightarrow> string" where
  "hex_EncodeToString [] = []"
| "hex_EncodeToString (c # cs) =
     (let n = (of_char c :: nat) in hex_digit (n div 16) # hex_digit (n mod 16) # hex_EncodeToString cs)"

lemma hex_length: "length (hex_EncodeToString s) = 2 * length s"
  by (induction s rule: hex_EncodeToString.induct) (simp_all add: Let_def)

lemma hex_digit_inj: "a < 16 \<Longrightarrow> b < 16 \<Longrightarrow> hex_digit a = hex_digit b \<Longrightarrow> a = b"
proof -
  assume a: "a < 16" "b < 16" "hex_digit a = hex_digit b"
  have "of_char (hex_digit n) = (if n < 10 then 48 + n else 87 + n)" if "n < 16" for n :: nat
    using that by (simp add: hex_digit_def)
  then have "(if a < 10 then 48 + a else 87 + a) = (if b < 10 then 48 + b else 87 + b)"
    using a by metis
  then show "a = b" by (simp split: if_splits)
qed

lemma of_char_less_256: "(of_char c :: nat) < 256"
  by simp

lemma hex_inj: "hex_EncodeToString s = hex_EncodeToString t \<Longrightarrow> s = t"
proof (induction s arbitrary: t rule: hex_EncodeToString.induct)
  case 1
  then show ?case by (cases t) (simp_all add: Let_def)
next
  case (2 c cs)
  then obtain d ds where t: "t = d # ds" by (cases t) (simp_all add: Let_def)
  let ?c = "of_char c :: nat" and ?d = "of_char d :: nat"
  from 2 t have eq: "hex_digit (?c div 16) = hex_digit (?d div 16)" "hex_digit (?c mod 16) = hex_digit (?d mod 16)"
      "hex_EncodeToString cs = hex_EncodeToString ds"
    by (simp_all add: Let_def)
  have "?c < 16 * 16" "?d < 16 * 16" using of_char_less_256 [of c] of_char_less_256 [of d] by simp_all
  then have "?c div 16 < 16" "?d div 16 < 16" by (simp_all only: less_mult_imp_div_less)
  then have "?c div 16 = ?d div 16" "?c mod 16 = ?d mod 16"
    using hex_digit_inj [OF _ _ eq(1)] hex_digit_inj [OF _ _ eq(2)] by simp_all
  then have "?c = ?d" by (metis div_mult_mod_eq)
  with 2 eq(3) t show ?case by simp
qed

section \<open>Upper case\<close>

text \<open>\<^verbatim>\<open>unicode.ToUpper\<close> on the ASCII range; other bytes are left alone.\<close>

definition to_upper :: "char \<Rightarrow> char" where
  "to_upper c = (let n = (of_char c :: nat) in if 97 \<le> n \<and> n \<le> 122 then char_of (n - 32) else c)"

lemma to_upper_idem: "to_upper (to_upper c) = to_upper c"
  by (auto simp: to_upper_def Let_def)

end
