(* ===== verification/Consistent_Hash.thy ===== *)
theory Consistent_Hash
  imports Go_Strings
begin

text \<open>
  The package \<^verbatim>\<open>pkg/sharding/consistenthash\<close> (\<^verbatim>\<open>ring.go\<close>). The 64-bit digest is a parameter
  (the code's \<^verbatim>\<open>DefaultHash\<close> is a third-party function): no property of it is needed for
  the ring to work, only for the ring not to depend on the order of its nodes. The ring keeps a
  sorted token list and a map from tokens to nodes; \<open>ref_hash\<close> is the reference: the node of
  the next token clockwise. The locale \<open>consistent_hash\<close> is what the assignment code relies on.
\<close>

type_synonym token = "64 word"
type_synonym hash_fun = "string \<Rightarrow> token"

definition DefaultTokensPerNode :: int where
  "DefaultTokensPerNode = 100"

record hash_ring =
  hr_hash :: hash_fun
  hr_tokensPerNode :: int
  hr_tokens :: "token list"
  hr_tokenToNode :: "token \<rightharpoonup> string"

section \<open>Operations\<close>

definition IsEmpty :: "hash_ring \<Rightarrow> bool" where
  "IsEmpty r \<longleftrightarrow> length (hr_tokens r) = 0"

text \<open>The inner loop of \<^verbatim>\<open>AddNodes\<close>, from token number \<open>i\<close> on.\<close>

function add_node_tokens :: "hash_ring \<Rightarrow> string \<Rightarrow> int \<Rightarrow> hash_ring" where
  "add_node_tokens r node i =
     (if i < hr_tokensPerNode r then
        let t = hr_hash r (node @ FormatInt i)
        in add_node_tokens
             (r\<lparr>hr_tokens := hr_tokens r @ [t],
                hr_tokenToNode := (hr_tokenToNode r)(t \<mapsto> node)\<rparr>) node (i + 1)
      else r)"
  by pat_completeness auto
termination
  by (relation "measure (\<lambda>(r, node, i). nat (hr_tokensPerNode r - i))") (auto simp: Let_def)

declare add_node_tokens.simps [simp del]

fun add_nodes_loop :: "hash_ring \<Rightarrow> string list \<Rightarrow> hash_ring" where
  "add_nodes_loop r [] = r"
| "add_nodes_loop r (node # nodes) = add_nodes_loop (add_node_tokens r node 0) nodes"

definition AddNodes :: "hash_ring \<Rightarrow> string list \<Rightarrow> hash_ring" where
  "AddNodes r nodes =
     (let r' = add_nodes_loop r nodes in r'\<lparr>hr_tokens := sort (hr_tokens r')\<rparr>)"

definition New :: "hash_fun \<Rightarrow> hash_fun option \<Rightarrow> int \<Rightarrow> string list \<Rightarrow> hash_ring" where
  "New defaultHash hash tokensPerNode initialNodes =
     AddNodes
       \<lparr>hr_hash = (case hash of None \<Rightarrow> defaultHash | Some h \<Rightarrow> h),
        hr_tokensPerNode = (if tokensPerNode \<le> 0 then DefaultTokensPerNode else tokensPerNode),
        hr_tokens = [], hr_tokenToNode = Map.empty\<rparr>
       initialNodes"

text \<open>\<^verbatim>\<open>slices.BinarySearch\<close>: the position at which the target is, or would be inserted.\<close>

function bs_loop :: "token list \<Rightarrow> token \<Rightarrow> nat \<Rightarrow> nat \<Rightarrow> nat" where
  "bs_loop xs target i j =
     (if i < j then
        let h = (i + j) div 2
        in if xs ! h < target then bs_loop xs target (h + 1) j else bs_loop xs target i h
      else i)"
  by pat_completeness auto
termination
  by (relation "measure (\<lambda>(xs, target, i, j). j - i)") auto

declare bs_loop.simps [simp del]

definition BinarySearch :: "token list \<Rightarrow> token \<Rightarrow> nat \<times> bool" where
  "BinarySearch xs target =
     (let i = bs_loop xs target 0 (length xs)
      in (i, i < length xs \<and> xs ! i = target))"

definition ring_Hash :: "hash_ring \<Rightarrow> string \<Rightarrow> string" where
  "ring_Hash r key =
     (if IsEmpty r then []
      else
        let h = hr_hash r key;
            i = fst (BinarySearch (hr_tokens r) h);
            i' = (if i = length (hr_tokens r) then 0 else i)
        in case hr_tokenToNode r (hr_tokens r ! i') of None \<Rightarrow> [] | Some node \<Rightarrow> node)"

section \<open>Reference: the next token clockwise\<close>

definition node_tokens :: "hash_fun \<Rightarrow> int \<Rightarrow> string \<Rightarrow> token list" where
  "node_tokens h k node = map (\<lambda>i. h (node @ FormatInt (int i))) [0..<nat k]"

definition all_tokens :: "hash_fun \<Rightarrow> int \<Rightarrow> string list \<Rightarrow> token list" where
  "all_tokens h k nodes = concat (map (node_tokens h k) nodes)"

text \<open>A token belongs to the last node that was added with it.\<close>

definition token_owner :: "hash_fun \<Rightarrow> int \<Rightarrow> string list \<Rightarrow> token \<Rightarrow> string option" where
  "token_owner h k nodes t = List.find (\<lambda>n. t \<in> set (node_tokens h k n)) (rev nodes)"

definition succ_token :: "token set \<Rightarrow> token \<Rightarrow> token" where
  "succ_token T x = (if \<exists>t \<in> T. x \<le> t then Min {t \<in> T. x \<le> t} else Min T)"

definition ref_hash :: "hash_fun \<Rightarrow> int \<Rightarrow> string list \<Rightarrow> string \<Rightarrow> string" where
  "ref_hash h k nodes key =
     (if nodes = [] then []
      else the (token_owner h k nodes (succ_token (set (all_tokens h k nodes)) (h key))))"

definition ring_inv :: "hash_ring \<Rightarrow> bool" where
  "ring_inv r \<longleftrightarrow> sorted (hr_tokens r) \<and> set (hr_tokens r) = dom (hr_tokenToNode r)"

section \<open>The token loops\<close>

primrec assign_tokens :: "string \<Rightarrow> token list \<Rightarrow> (token \<rightharpoonup> string) \<Rightarrow> (token \<rightharpoonup> string)" where
  "assign_tokens node [] m = m"
| "assign_tokens node (t # ts) m = assign_tokens node ts (m(t \<mapsto> node))"

lemma add_node_tokens_eq:
  assumes "0 \<le> i"
  shows "add_node_tokens r node i =
     (let ts = map (\<lambda>j. hr_hash r (node @ FormatInt (int j))) [nat i..<nat (hr_tokensPerNode r)]
      in r\<lparr>hr_tokens := hr_tokens r @ ts,
           hr_tokenToNode := assign_tokens node ts (hr_tokenToNode r)\<rparr>)"
  using assms
proof (induction r node i rule: add_node_tokens.induct)
  case (1 r node i)
  show ?case
  proof (cases "i < hr_tokensPerNode r")
    case True
    have upt: "[nat i..<nat (hr_tokensPerNode r)] = nat i # [nat (i + 1)..<nat (hr_tokensPerNode r)]"
      using True "1.prems" by (simp add: upt_conv_Cons nat_add_distrib)
    show ?thesis
      using True "1.prems" "1.IH" [OF True refl]
      by (subst add_node_tokens.simps) (simp add: Let_def upt fun_upd_def)
  next
    case False
    then show ?thesis by (subst add_node_tokens.simps) (simp add: Let_def)
  qed
qed

lemma add_node_tokens_0: "add_node_tokens r node 0 =
  r\<lparr>hr_tokens := hr_tokens r @ node_tokens (hr_hash r) (hr_tokensPerNode r) node,
    hr_tokenToNode := assign_tokens node (node_tokens (hr_hash r) (hr_tokensPerNode r) node)
      (hr_tokenToNode r)\<rparr>"
  by (subst add_node_tokens_eq) (simp_all add: Let_def node_tokens_def)

lemma add_nodes_loop_eq: "add_nodes_loop r nodes =
  r\<lparr>hr_tokens := hr_tokens r @ all_tokens (hr_hash r) (hr_tokensPerNode r) nodes,
    hr_tokenToNode := fold (\<lambda>n. assign_tokens n (node_tokens (hr_hash r) (hr_tokensPerNode r) n)) nodes
      (hr_tokenToNode r)\<rparr>"
  by (induction nodes arbitrary: r) (simp_all add: add_node_tokens_0 all_tokens_def)

lemma assign_tokens_apply: "assign_tokens n ts m t = (if t \<in> set ts then Some n else m t)"
  by (induction ts arbitrary: m) auto

lemma fold_assign_apply:
  "fold (\<lambda>n. assign_tokens n (f n)) nodes m t =
     (case List.find (\<lambda>n. t \<in> set (f n)) (rev nodes) of Some n \<Rightarrow> Some n | None \<Rightarrow> m t)"
  by (induction nodes arbitrary: m) (auto simp: assign_tokens_apply find_snoc split: option.splits)

lemma AddNodes_fields [simp]:
  "hr_hash (AddNodes r nodes) = hr_hash r"
  "hr_tokensPerNode (AddNodes r nodes) = hr_tokensPerNode r"
  "hr_tokens (AddNodes r nodes) =
     sort (hr_tokens r @ all_tokens (hr_hash r) (hr_tokensPerNode r) nodes)"
  "hr_tokenToNode (AddNodes r nodes) t =
     (case token_owner (hr_hash r) (hr_tokensPerNode r) nodes t of
        Some n \<Rightarrow> Some n | None \<Rightarrow> hr_tokenToNode r t)"
  by (simp_all add: AddNodes_def add_nodes_loop_eq Let_def fold_assign_apply token_owner_def)

lemma token_owner_None_iff: "token_owner h k nodes t = None \<longleftrightarrow> t \<notin> set (all_tokens h k nodes)"
  by (auto simp: token_owner_def all_tokens_def find_None_iff)

lemma token_owner_SomeD:
  "token_owner h k nodes t = Some n \<Longrightarrow> n \<in> set nodes \<and> t \<in> set (node_tokens h k n)"
  by (auto simp: token_owner_def dest!: find_SomeD)

lemma ring_inv_AddNodes: "ring_inv r \<Longrightarrow> ring_inv (AddNodes r nodes)"
  using token_owner_None_iff [of "hr_hash r" "hr_tokensPerNode r" nodes]
  by (auto simp: ring_inv_def dom_def split: option.splits)

section \<open>Binary search\<close>

lemma bs_loop_correct:
  assumes "sorted xs" and "i \<le> j" and "j \<le> length xs"
    and "\<forall>m < i. xs ! m < x" and "\<forall>m. j \<le> m \<and> m < length xs \<longrightarrow> x \<le> xs ! m"
  shows "bs_loop xs x i j \<le> j \<and> (\<forall>m < bs_loop xs x i j. xs ! m < x) \<and>
    (\<forall>m. bs_loop xs x i j \<le> m \<and> m < length xs \<longrightarrow> x \<le> xs ! m)"
  using assms
proof (induction xs x i j rule: bs_loop.induct)
  case (1 xs x i j)
  show ?case
  proof (cases "i < j")
    case True
    define h where "h = (i + j) div 2"
    have h: "i \<le> h" "h < j" using True by (auto simp: h_def)
    show ?thesis
    proof (cases "xs ! h < x")
      case True': True
      have lo: "\<forall>m < h + 1. xs ! m < x"
        using sorted_nth_mono [OF "1.prems"(1), of _ h] True' h "1.prems"(3)
        by (auto simp: less_Suc_eq_le) (meson le_less_trans less_le_trans)
      have eq: "bs_loop xs x i j = bs_loop xs x (h + 1) j"
        using True True' by (subst bs_loop.simps) (simp add: h_def)
      show ?thesis
        unfolding eq by (rule "1.IH"(1) [OF True h_def True' "1.prems"(1) _ "1.prems"(3) lo "1.prems"(5)])
          (use h in simp)
    next
      case False
      have hi: "\<forall>m. h \<le> m \<and> m < length xs \<longrightarrow> x \<le> xs ! m"
        using sorted_nth_mono [OF "1.prems"(1), of h] False by (auto simp: not_less intro: order_trans)
      have eq: "bs_loop xs x i j = bs_loop xs x i h"
        using True False by (subst bs_loop.simps) (simp add: h_def)
      have "bs_loop xs x i h \<le> h \<and> (\<forall>m < bs_loop xs x i h. xs ! m < x) \<and>
        (\<forall>m. bs_loop xs x i h \<le> m \<and> m < length xs \<longrightarrow> x \<le> xs ! m)"
        by (rule "1.IH"(2) [OF True h_def False "1.prems"(1) h(1) _ "1.prems"(4) hi])
          (use h "1.prems"(3) in simp)
      then show ?thesis unfolding eq using h(2) by (meson less_imp_le order_trans)
    qed
  next
    case False
    then have "bs_loop xs x i j = i" by (subst bs_loop.simps) simp
    with False "1.prems" show ?thesis by simp
  qed
qed

text \<open>The returned position counts the tokens below the target.\<close>

lemma BinarySearch_position:
  assumes "sorted xs"
  shows "(\<forall>m < fst (BinarySearch xs x). xs ! m < x) \<and>
    (\<forall>m. fst (BinarySearch xs x) \<le> m \<and> m < length xs \<longrightarrow> x \<le> xs ! m)"
    and "fst (BinarySearch xs x) \<le> length xs"
proof -
  have "bs_loop xs x 0 (length xs) \<le> length xs \<and> (\<forall>m < bs_loop xs x 0 (length xs). xs ! m < x) \<and>
    (\<forall>m. bs_loop xs x 0 (length xs) \<le> m \<and> m < length xs \<longrightarrow> x \<le> xs ! m)"
    by (rule bs_loop_correct [OF assms]) auto
  then show "(\<forall>m < fst (BinarySearch xs x). xs ! m < x) \<and>
    (\<forall>m. fst (BinarySearch xs x) \<le> m \<and> m < length xs \<longrightarrow> x \<le> xs ! m)"
    and "fst (BinarySearch xs x) \<le> length xs"
    by (simp_all add: BinarySearch_def Let_def)
qed

text \<open>On a sorted token list the search followed by the wrap to 0 finds the next token.\<close>

lemma sorted_Min_nth0: "sorted xs \<Longrightarrow> xs \<noteq> [] \<Longrightarrow> Min (set xs) = xs ! 0" for xs :: "token list"
  by (intro Min_eqI) (auto simp: in_set_conv_nth sorted_nth_mono)

lemma search_succ_token:
  fixes xs :: "token list" and x :: token
  assumes "sorted xs" and "xs \<noteq> []"
  defines "p \<equiv> fst (BinarySearch xs x)"
  shows "xs ! (if p = length xs then 0 else p) = succ_token (set xs) x"
proof (cases "p = length xs")
  case True
  then have "\<not> (\<exists>t \<in> set xs. x \<le> t)"
    using BinarySearch_position(1) [OF assms(1), of x] by (auto simp: p_def in_set_conv_nth) (metis linorder_not_less)
  with True assms(1,2) show ?thesis by (simp add: succ_token_def sorted_Min_nth0)
next
  case False
  with BinarySearch_position(2) [OF assms(1), of x] have p: "p < length xs" by (simp add: p_def)
  have lo: "\<forall>m < p. xs ! m < x" and hi: "\<forall>m. p \<le> m \<and> m < length xs \<longrightarrow> x \<le> xs ! m"
    using BinarySearch_position(1) [OF assms(1), of x] by (simp_all add: p_def)
  have "Min {t \<in> set xs. x \<le> t} = xs ! p"
  proof (rule Min_eqI)
    show "xs ! p \<in> {t \<in> set xs. x \<le> t}" using p hi by simp
    fix t assume "t \<in> {t \<in> set xs. x \<le> t}"
    then obtain m where m: "m < length xs" "t = xs ! m" "x \<le> t" by (auto simp: in_set_conv_nth)
    with lo have "p \<le> m" by (metis linorder_not_less)
    with m assms(1) show "xs ! p \<le> t" by (simp add: sorted_nth_mono)
  qed simp
  moreover have "\<exists>t \<in> set xs. x \<le> t" using p hi by (meson nth_mem order_refl)
  ultimately show ?thesis using False by (simp add: succ_token_def)
qed

lemma succ_token_mem: "finite T \<Longrightarrow> T \<noteq> {} \<Longrightarrow> succ_token T x \<in> T"
  using Min_in [of "{t \<in> T. x \<le> t}"] Min_in [of T] by (auto simp: succ_token_def)

text \<open>
  Adding tokens either keeps the successor or moves it onto one of the new tokens. Both cases of
  the definition choose the least token of some upper part of the ring.
\<close>

lemma Min_Un_cases: "finite A \<Longrightarrow> finite B \<Longrightarrow> A \<noteq> {} \<Longrightarrow> Min (A \<union> B) \<in> A \<Longrightarrow> Min (A \<union> B) = Min A"
  for A B :: "token set"
  by (metis Min_Un Min_le UnCI antisym finite_UnI Min_in Un_upper1 Min_antimono)

lemma succ_token_Un:
  assumes "finite A" and "finite B" and "A \<noteq> {}" and "succ_token (A \<union> B) x \<in> A"
  shows "succ_token (A \<union> B) x = succ_token A x"
proof -
  let ?up = "\<lambda>T. {t \<in> T. x \<le> t}"
  have up: "?up (A \<union> B) = ?up A \<union> ?up B" by auto
  show ?thesis
  proof (cases "\<exists>t \<in> A \<union> B. x \<le> t")
    case True
    have mem: "Min (?up (A \<union> B)) \<in> ?up (A \<union> B)" using True assms(1,2) by (intro Min_in) auto
    with assms(4) True have A: "Min (?up (A \<union> B)) \<in> ?up A" by (auto simp: succ_token_def)
    then have "Min (?up (A \<union> B)) = Min (?up A)"
      unfolding up using assms(1,2) by (intro Min_Un_cases) auto
    moreover have "\<exists>t \<in> A. x \<le> t" using A by blast
    ultimately show ?thesis using True by (simp only: succ_token_def if_True)
  next
    case False
    with assms show ?thesis using Min_Un_cases [of A B] by (auto simp: succ_token_def)
  qed
qed

section \<open>The ring computes the reference\<close>

definition eff_hash :: "hash_fun \<Rightarrow> hash_fun option \<Rightarrow> hash_fun" where
  "eff_hash dh h = (case h of None \<Rightarrow> dh | Some f \<Rightarrow> f)"

definition eff_tokens :: "int \<Rightarrow> int" where
  "eff_tokens k = (if k \<le> 0 then DefaultTokensPerNode else k)"

lemma eff_tokens_pos: "0 < eff_tokens k"
  by (simp add: eff_tokens_def DefaultTokensPerNode_def)

lemma node_tokens_nonempty: "0 < k \<Longrightarrow> node_tokens h k n \<noteq> []"
  by (simp add: node_tokens_def)

lemma all_tokens_nonempty: "0 < k \<Longrightarrow> nodes \<noteq> [] \<Longrightarrow> all_tokens h k nodes \<noteq> []"
  by (cases nodes) (simp_all add: all_tokens_def node_tokens_nonempty)

lemma all_tokens_simps [simp]:
  "all_tokens h k [] = []"
  "all_tokens h k (n # ns) = node_tokens h k n @ all_tokens h k ns"
  "all_tokens h k (xs @ ys) = all_tokens h k xs @ all_tokens h k ys"
  by (simp_all add: all_tokens_def)

lemma New_fields [simp]:
  "hr_hash (New dh h k nodes) = eff_hash dh h"
  "hr_tokensPerNode (New dh h k nodes) = eff_tokens k"
  "hr_tokens (New dh h k nodes) = sort (all_tokens (eff_hash dh h) (eff_tokens k) nodes)"
  "hr_tokenToNode (New dh h k nodes) = token_owner (eff_hash dh h) (eff_tokens k) nodes"
  by (auto simp: New_def eff_hash_def eff_tokens_def intro!: ext split: option.splits)

lemma ring_inv_New: "ring_inv (New dh h k nodes)"
  unfolding New_def by (rule ring_inv_AddNodes) (simp add: ring_inv_def)

lemma New_Hash: "ring_Hash (New dh h k nodes) key = ref_hash (eff_hash dh h) (eff_tokens k) nodes key"
proof (cases "nodes = []")
  case True
  then show ?thesis by (simp add: ring_Hash_def IsEmpty_def ref_hash_def)
next
  case False
  let ?h = "eff_hash dh h" and ?k = "eff_tokens k"
  let ?ts = "sort (all_tokens ?h ?k nodes)"
  have ne: "all_tokens ?h ?k nodes \<noteq> []"
    using False eff_tokens_pos by (intro all_tokens_nonempty) simp_all
  then have ts: "sorted ?ts" "?ts \<noteq> []" "set ?ts = set (all_tokens ?h ?k nodes)"
    by (simp_all flip: set_empty)
  have "succ_token (set (all_tokens ?h ?k nodes)) (?h key) \<in> set (all_tokens ?h ?k nodes)"
    using ne by (intro succ_token_mem) auto
  then obtain n where "token_owner ?h ?k nodes (succ_token (set (all_tokens ?h ?k nodes)) (?h key)) = Some n"
    using token_owner_None_iff [of ?h ?k nodes] by fastforce
  with False ne search_succ_token [OF ts(1,2), of "?h key"] show ?thesis
    by (simp add: ring_Hash_def IsEmpty_def ref_hash_def Let_def ts(3))
qed

lemma succ_owner:
  assumes "0 < k" and "nodes \<noteq> []"
  obtains n where "token_owner h k nodes (succ_token (set (all_tokens h k nodes)) x) = Some n"
    and "n \<in> set nodes"
proof -
  have "succ_token (set (all_tokens h k nodes)) x \<in> set (all_tokens h k nodes)"
    using assms all_tokens_nonempty [of k nodes h] by (intro succ_token_mem) auto
  then obtain n where "token_owner h k nodes (succ_token (set (all_tokens h k nodes)) x) = Some n"
    using token_owner_None_iff [of h k nodes] by fastforce
  with that token_owner_SomeD [OF this] show ?thesis by blast
qed

lemma ref_hash_mem: "0 < k \<Longrightarrow> nodes \<noteq> [] \<Longrightarrow> ref_hash h k nodes key \<in> set nodes"
  using succ_owner [of k nodes h "h key"] by (metis option.sel ref_hash_def)

text \<open>Who owns a token is decided by the last node that has it.\<close>

lemma token_owner_insert:
  "token_owner h k (xs @ n # ys) t = Some n \<or>
   token_owner h k (xs @ n # ys) t = token_owner h k (xs @ ys) t"
  by (auto simp: token_owner_def find_append split: option.splits)

lemma token_owner_insert_new:
  "t \<notin> set (all_tokens h k (xs @ ys)) \<Longrightarrow> t \<in> set (node_tokens h k n) \<Longrightarrow>
     token_owner h k (xs @ n # ys) t = Some n"
  using token_owner_insert [of h k xs n ys t] token_owner_None_iff [of h k "xs @ n # ys" t]
    token_owner_None_iff [of h k "xs @ ys" t] by auto

lemma ref_hash_insert:
  assumes "0 < k"
  shows "ref_hash h k (xs @ n # ys) key = n \<or> ref_hash h k (xs @ n # ys) key = ref_hash h k (xs @ ys) key"
proof (cases "xs @ ys = []")
  case True
  then show ?thesis using ref_hash_mem [OF assms, of "[n]" h key] by simp
next
  case False
  let ?A = "set (all_tokens h k (xs @ ys))" and ?B = "set (node_tokens h k n)"
  let ?s = "succ_token (?A \<union> ?B) (h key)"
  have set: "set (all_tokens h k (xs @ n # ys)) = ?A \<union> ?B" by auto
  have ne: "?A \<noteq> {}" using all_tokens_nonempty [OF assms False, of h] by simp
  have "xs @ n # ys \<noteq> []" by simp
  from succ_owner [OF assms this, of h "h key"]
  obtain m where m: "token_owner h k (xs @ n # ys) ?s = Some m" unfolding set by blast
  have ref: "ref_hash h k (xs @ n # ys) key = m"
    using m by (simp add: ref_hash_def set del: all_tokens_simps)
  have mem: "?s \<in> ?A \<union> ?B" using ne by (intro succ_token_mem) auto
  show ?thesis
  proof (cases "?s \<in> ?A")
    case True
    then have s: "?s = succ_token ?A (h key)" using ne by (intro succ_token_Un) auto
    then have "ref_hash h k (xs @ ys) key = the (token_owner h k (xs @ ys) ?s)"
      using False by (auto simp: ref_hash_def simp del: all_tokens_simps)
    with m ref token_owner_insert [of h k xs n ys ?s] show ?thesis by (metis option.sel)
  next
    case False
    with mem have "?s \<in> ?B" by blast
    with token_owner_insert_new [OF False] m ref show ?thesis by simp
  qed
qed

text \<open>Without token collisions between nodes, the owner of a token does not depend on the order.\<close>

definition no_collisions :: "hash_fun \<Rightarrow> int \<Rightarrow> string set \<Rightarrow> bool" where
  "no_collisions h k N \<longleftrightarrow>
     (\<forall>a \<in> N. \<forall>b \<in> N. a \<noteq> b \<longrightarrow> set (node_tokens h k a) \<inter> set (node_tokens h k b) = {})"

lemma token_owner_unique:
  assumes "no_collisions h k (set nodes)" and "n \<in> set nodes" and "t \<in> set (node_tokens h k n)"
  shows "token_owner h k nodes t = Some n"
proof -
  have "t \<in> set (all_tokens h k nodes)" using assms(2,3) by (auto simp: all_tokens_def)
  then obtain m where m: "token_owner h k nodes t = Some m"
    using token_owner_None_iff [of h k nodes t] by fastforce
  from token_owner_SomeD [OF m] assms have "m = n" by (auto simp: no_collisions_def)
  with m show ?thesis by simp
qed

lemma ref_hash_set:
  assumes "no_collisions h k (set xs)" and "set xs = set ys" and "0 < k"
  shows "ref_hash h k xs key = ref_hash h k ys key"
proof (cases "xs = []")
  case True
  with assms(2) show ?thesis by (simp add: ref_hash_def)
next
  case False
  have toks: "set (all_tokens h k xs) = set (all_tokens h k ys)" using assms(2) by (simp add: all_tokens_def)
  let ?s = "succ_token (set (all_tokens h k xs)) (h key)"
  obtain n where n: "token_owner h k xs ?s = Some n" "n \<in> set xs"
    using succ_owner [OF assms(3) False] by blast
  then have "token_owner h k ys ?s = Some n"
    using token_owner_SomeD [OF n(1)] assms(1,2) by (intro token_owner_unique) auto
  with n False assms(2) show ?thesis by (auto simp: ref_hash_def toks)
qed

section \<open>The interface the assignment code relies on\<close>

text \<open>
  \<open>assign nodes key\<close> is the node a key is mapped to. Nothing is assigned without nodes, every
  assignment is to one of the nodes, and a node that joins anywhere in the list only attracts keys.
\<close>

locale consistent_hash =
  fixes assign :: "string list \<Rightarrow> string \<Rightarrow> string"
  assumes assign_Nil: "assign [] key = []"
    and assign_mem: "nodes \<noteq> [] \<Longrightarrow> assign nodes key \<in> set nodes"
    and assign_insert: "assign (xs @ n # ys) key = n \<or> assign (xs @ n # ys) key = assign (xs @ ys) key"
begin

lemma assign_nonempty: "[] \<notin> set nodes \<Longrightarrow> assign nodes key = [] \<longleftrightarrow> nodes = []"
  using assign_mem [of nodes key] assign_Nil by (cases "nodes = []") auto

text \<open>Scaling out: keys that move, move to one of the new nodes.\<close>

lemma assign_scale_out: "assign (xs @ ys) key \<in> set ys \<or> assign (xs @ ys) key = assign xs key"
proof (induction ys rule: rev_induct)
  case (snoc y ys)
  with assign_insert [of "xs @ ys" y "[]" key] show ?case by auto
qed simp

text \<open>Losing nodes: keys of the remaining nodes stay where they are.\<close>

lemma assign_filter_aux:
  "P (assign (xs @ ys) key) \<Longrightarrow> assign (xs @ filter P ys) key = assign (xs @ ys) key"
proof (induction ys arbitrary: xs)
  case (Cons y ys)
  show ?case
  proof (cases "P y")
    case True
    with Cons.IH [of "xs @ [y]"] Cons.prems show ?thesis by simp
  next
    case False
    with Cons.prems have eq: "assign (xs @ y # ys) key = assign (xs @ ys) key"
      using assign_insert [of xs y ys key] by auto
    with Cons.prems Cons.IH [of xs] False show ?thesis by simp
  qed
qed simp

lemma assign_filter: "P (assign nodes key) \<Longrightarrow> assign (filter P nodes) key = assign nodes key"
  using assign_filter_aux [of P "[]" nodes key] by simp

end

text \<open>The ring as \<^verbatim>\<open>FromLeases\<close> builds it (no hash override, default token count).\<close>

definition default_assign :: "hash_fun \<Rightarrow> string list \<Rightarrow> string \<Rightarrow> string" where
  "default_assign dh nodes key = ring_Hash (New dh None 0 nodes) key"

interpretation ring: consistent_hash "\<lambda>nodes. ring_Hash (New dh h k nodes)" for dh h k
proof
  show "ring_Hash (New dh h k []) key = []" for key
    by (simp add: ring_Hash_def IsEmpty_def)
  show "nodes \<noteq> [] \<Longrightarrow> ring_Hash (New dh h k nodes) key \<in> set nodes" for nodes key
    unfolding New_Hash by (rule ref_hash_mem [OF eff_tokens_pos])
  show "ring_Hash (New dh h k (xs @ n # ys)) key = n \<or>
      ring_Hash (New dh h k (xs @ n # ys)) key = ring_Hash (New dh h k (xs @ ys)) key" for xs n ys key
    unfolding New_Hash by (rule ref_hash_insert [OF eff_tokens_pos])
qed

section \<open>Properties\<close>

text \<open>C10: Hashing a key onto a new ring gives the node of the next token clockwise: the owner
  of the least token that is at least the key's digest, or of the least token of all when there
  is none; the empty string exactly when the ring has no nodes (for non-empty names).\<close>

theorem Hash_is_next_token:
  "ring_Hash (New dh h k nodes) key = ref_hash (eff_hash dh h) (eff_tokens k) nodes key \<and>
   (IsEmpty (New dh h k nodes) \<longleftrightarrow> nodes = [])"
  using all_tokens_nonempty [OF eff_tokens_pos, of nodes "eff_hash dh h" k]
  by (auto simp: New_Hash IsEmpty_def)

text \<open>C11: A node that joins, anywhere in the list, only attracts keys: every key is mapped to
  the new node or to the node it was mapped to before. This needs no assumption on the hash
  function, token collisions included.\<close>

theorem joining_node_only_attracts:
  "ring_Hash (New dh h k (xs @ n # ys)) key \<in> {n, ring_Hash (New dh h k (xs @ ys)) key}"
  using ring.assign_insert [of dh h k xs n ys key] by blast

text \<open>When nodes leave the ring, the keys of the remaining nodes do not move.\<close>

theorem leaving_nodes_keep_others:
  assumes "P (ring_Hash (New dh h k nodes) key)"
  shows "ring_Hash (New dh h k (filter P nodes)) key = ring_Hash (New dh h k nodes) key"
  using assms by (rule ring.assign_filter)

text \<open>A small digest for the witnesses: the length of the string.\<close>

definition length_hash :: hash_fun where
  "length_hash s = of_nat (length s)"

lemma length_hash_ring:
  "ring_Hash (New length_hash None 1 [''a'', ''bbb'']) ''xy'' = ''a''"
  by code_simp

lemma leaving_nodes_keep_others_witness:
  "ring_Hash (New length_hash None 1 (filter (\<lambda>n. n \<noteq> ''bbb'') [''a'', ''bbb''])) ''xy'' = ''a''"
  using leaving_nodes_keep_others [of "\<lambda>n. n \<noteq> ''bbb''" length_hash None 1 "[''a'', ''bbb'']" "''xy''"]
  by (simp add: length_hash_ring)

text \<open>C12: When no two nodes share a token, the order in which the nodes are listed does not
  matter: the webhook and the sharder agree whatever order their caches list leases in.\<close>

theorem Hash_order_independent:
  assumes "no_collisions (eff_hash dh h) (eff_tokens k) (set xs)" and "set xs = set ys"
  shows "ring_Hash (New dh h k xs) key = ring_Hash (New dh h k ys) key"
  unfolding New_Hash using assms eff_tokens_pos by (rule ref_hash_set)

lemma Hash_order_independent_witness:
  "ring_Hash (New length_hash None 1 [''bbb'', ''a'']) ''xy'' = ''a''"
proof -
  have "no_collisions (eff_hash length_hash None) (eff_tokens 1) (set [''a'', ''bbb''])"
    by (simp add: no_collisions_def eff_hash_def eff_tokens_def node_tokens_def length_hash_def
        FormatInt_def format_nat.simps)
  from Hash_order_independent [OF this, of "[''bbb'', ''a'']" "''xy''"] show ?thesis
    by (simp add: length_hash_ring insert_commute)
qed

text \<open>C16: \<^verbatim>\<open>AddNodes\<close> keeps the ring well-formed: the token list stays sorted, and the token
  map has an entry for exactly the tokens of the list, so \<^verbatim>\<open>Hash\<close> never reads a missing entry.\<close>

theorem AddNodes_keeps_invariant:
  assumes "ring_inv r"
  shows "ring_inv (AddNodes r nodes)"
  using assms by (rule ring_inv_AddNodes)

lemma AddNodes_keeps_invariant_witness:
  "ring_inv (AddNodes (New length_hash None 1 [''a'']) [''bbb''])"
  by (rule AddNodes_keeps_invariant) (rule ring_inv_New)

end
