(* ===== verification/Api_Types.thy ===== *)
theory Api_Types
  imports Go_Strings
begin

text \<open>
  The data the controllers exchange through the API server. The Kubernetes types carry the
  fields the sharding code reads or writes; the \<^verbatim>\<open>ControllerRing\<close> API, its well-known labels
  and the label helper functions follow \<^verbatim>\<open>pkg/apis/sharding/v1alpha1\<close>.
\<close>

section \<open>Kubernetes object metadata\<close>

record owner_ref =
  or_APIVersion :: string
  or_Kind :: string
  or_Name :: string
  or_Controller :: "bool option"

record object_meta =
  om_Name :: string
  om_GenerateName :: string
  om_Namespace :: string
  om_UID :: string
  om_ResourceVersion :: string
  om_Generation :: int
  om_DeletionTimestamp :: "time option"
  om_Labels :: go_map
  om_Annotations :: go_map
  om_OwnerReferences :: "owner_ref list"

record gvk =
  gvk_Group :: string
  gvk_Version :: string
  gvk_Kind :: string

record group_resource =
  gr_Group :: string
  gr_Resource :: string

text \<open>\<^verbatim>\<open>metav1.PartialObjectMetadata\<close>: type and metadata of an arbitrary object.\<close>

record partial_object =
  po_GVK :: gvk
  po_Meta :: object_meta

type_synonym nsname = "string \<times> string"

definition ObjectKeyFromObject :: "object_meta \<Rightarrow> nsname" where
  "ObjectKeyFromObject m = (om_Namespace m, om_Name m)"

definition empty_meta :: object_meta where
  "empty_meta = \<lparr>om_Name = [], om_GenerateName = [], om_Namespace = [], om_UID = [],
     om_ResourceVersion = [], om_Generation = 0, om_DeletionTimestamp = None, om_Labels = None,
     om_Annotations = None, om_OwnerReferences = []\<rparr>"

section \<open>Label selectors\<close>

datatype selector_op = OpIn | OpNotIn | OpExists | OpDoesNotExist

record selector_req =
  sr_Key :: string
  sr_Operator :: selector_op
  sr_Values :: "string list"

record label_selector =
  ls_MatchLabels :: "(string \<times> string) list"
  ls_MatchExpressions :: "selector_req list"

text \<open>The selectors handed to list calls: an equality set or a converted label selector.\<close>

datatype selector = SelectorFromSet "(string \<times> string) list" | SelectorFromLabels label_selector

section \<open>Leases\<close>

record lease_spec =
  HolderIdentity :: "string option"
  LeaseDurationSeconds :: "int option"
  AcquireTime :: "time option"
  RenewTime :: "time option"
  LeaseTransitions :: "int option"

record lease =
  l_Meta :: object_meta
  l_Spec :: lease_spec

section \<open>The ControllerRing API\<close>

definition NamespaceSystem :: string where
  "NamespaceSystem = ''sharding-system''"

definition AppControllerSharding :: string where
  "AppControllerSharding = ''controller-sharding''"

definition alphaPrefix :: string where
  "alphaPrefix = ''alpha.sharding.timebertt.dev/''"

definition LabelControllerRing :: string where
  "LabelControllerRing = alphaPrefix @ ''controllerring''"

definition LabelState :: string where
  "LabelState = alphaPrefix @ ''state''"

definition LabelShardPrefix :: string where
  "LabelShardPrefix = ''shard.'' @ alphaPrefix"

definition LabelDrainPrefix :: string where
  "LabelDrainPrefix = ''drain.'' @ alphaPrefix"

definition IdentityShardLeaseController :: string where
  "IdentityShardLeaseController = ''shardlease-controller''"

definition LabelShard :: "string \<Rightarrow> string" where
  "LabelShard ringName = LabelShardPrefix @ ringName"

definition LabelDrain :: "string \<Rightarrow> string" where
  "LabelDrain ringName = LabelDrainPrefix @ ringName"

record ring_resource =
  rr_GroupResource :: group_resource
  rr_ControlledResources :: "group_resource list"

record ring_spec =
  rs_Resources :: "ring_resource list"
  rs_NamespaceSelector :: "label_selector option"

record condition =
  cond_Type :: string
  cond_Status :: string
  cond_ObservedGeneration :: int
  cond_LastTransitionTime :: time
  cond_Reason :: string
  cond_Message :: string

record ring_status =
  st_ObservedGeneration :: int
  st_Shards :: int
  st_AvailableShards :: int
  st_Conditions :: "condition list"

record controller_ring =
  cr_Meta :: object_meta
  cr_Spec :: ring_spec
  cr_Status :: ring_status

definition ControllerRingReady :: string where
  "ControllerRingReady = ''Ready''"

definition LeaseSelector :: "controller_ring \<Rightarrow> selector" where
  "LeaseSelector c = SelectorFromSet [(LabelControllerRing, om_Name (cr_Meta c))]"

definition ring_LabelShard :: "controller_ring \<Rightarrow> string" where
  "ring_LabelShard c = LabelShard (om_Name (cr_Meta c))"

definition ring_LabelDrain :: "controller_ring \<Rightarrow> string" where
  "ring_LabelDrain c = LabelDrain (om_Name (cr_Meta c))"

section \<open>The label vocabulary as an interface\<close>

text \<open>
  Every component addresses sharded objects through two label keys per ring. What they rely on
  is that keys of different rings differ and that a shard key is never a drain key; the effect
  of the two label patches of the protocol on any other ring follows.
\<close>

locale ring_labels =
  fixes shard_key :: "string \<Rightarrow> string" and drain_key :: "string \<Rightarrow> string"
  assumes shard_key_inj: "shard_key a = shard_key b \<Longrightarrow> a = b"
    and drain_key_inj: "drain_key a = drain_key b \<Longrightarrow> a = b"
    and shard_neq_drain: "shard_key a \<noteq> drain_key b"
begin

lemma keys_eq_iff [simp]:
  "shard_key a = shard_key b \<longleftrightarrow> a = b"
  "drain_key a = drain_key b \<longleftrightarrow> a = b"
  "shard_key a \<noteq> drain_key b"
  "drain_key b \<noteq> shard_key a"
  using shard_key_inj drain_key_inj shard_neq_drain by (blast, blast, blast, metis)

text \<open>Removing both labels of a ring leaves the assignment of every other ring alone.\<close>

lemma release_other_ring:
  "r' \<noteq> r \<Longrightarrow> (m(shard_key r := None, drain_key r := None)) (shard_key r') = m (shard_key r')"
  "r' \<noteq> r \<Longrightarrow> (m(shard_key r := None, drain_key r := None)) (drain_key r') = m (drain_key r')"
  by simp_all

lemma release_own_ring:
  "(m(shard_key r := None, drain_key r := None)) (shard_key r) = None"
  "(m(shard_key r := None, drain_key r := None)) (drain_key r) = None"
  by simp_all

lemma drain_keeps_assignment:
  "(m(drain_key r \<mapsto> v)) (shard_key r') = m (shard_key r')"
  by simp

end

lemma LabelShard_neq_LabelDrain: "LabelShard a \<noteq> LabelDrain b"
  by (simp add: LabelShard_def LabelDrain_def LabelShardPrefix_def LabelDrainPrefix_def)

interpretation labels: ring_labels LabelShard LabelDrain
proof
  show "LabelShard a = LabelShard b \<Longrightarrow> a = b" for a b by (simp add: LabelShard_def)
  show "LabelDrain a = LabelDrain b \<Longrightarrow> a = b" for a b by (simp add: LabelDrain_def)
  show "LabelShard a \<noteq> LabelDrain b" for a b by (rule LabelShard_neq_LabelDrain)
qed

end
