(* ===== verification/Leases.thy ===== *)
theory Leases
  imports Api_Types
begin

text \<open>
  The package \<^verbatim>\<open>pkg/sharding/leases\<close>: the times of a shard lease (\<^verbatim>\<open>times.go\<close>), the state
  machine over them (\<^verbatim>\<open>state.go\<close>) and the shard list of a ring (\<^verbatim>\<open>shards.go\<close>). Durations
  are 64-bit: \<^verbatim>\<open>Time.Sub\<close> saturates and the sums of durations wrap. The reference
  \<open>spec_state\<close> is the intended state on unbounded time, which the code computes as long as
  no sum leaves 64 bits.
\<close>

section \<open>Shard states\<close>

datatype shard_state = Unknown | Orphaned | Dead | Uncertain | Expired | Ready

text \<open>The \<^verbatim>\<open>iota\<close> values, which \<^verbatim>\<open>IsAvailable\<close> compares.\<close>

fun state_rank :: "shard_state \<Rightarrow> nat" where
  "state_rank Unknown = 0"
| "state_rank Orphaned = 1"
| "state_rank Dead = 2"
| "state_rank Uncertain = 3"
| "state_rank Expired = 4"
| "state_rank Ready = 5"

instantiation shard_state :: linorder
begin

definition less_eq_shard_state :: "shard_state \<Rightarrow> shard_state \<Rightarrow> bool" where
  "less_eq_shard_state a b \<longleftrightarrow> state_rank a \<le> state_rank b"

definition less_shard_state :: "shard_state \<Rightarrow> shard_state \<Rightarrow> bool" where
  "less_shard_state a b \<longleftrightarrow> state_rank a < state_rank b"

instance
proof
  fix x y z :: shard_state
  show "(x < y) = (x \<le> y \<and> \<not> y \<le> x)"
    by (auto simp: less_eq_shard_state_def less_shard_state_def)
  show "x \<le> x" by (simp add: less_eq_shard_state_def)
  show "x \<le> y \<Longrightarrow> y \<le> z \<Longrightarrow> x \<le> z" by (simp add: less_eq_shard_state_def)
  show "x \<le> y \<or> y \<le> x" by (auto simp: less_eq_shard_state_def)
  show "x \<le> y \<Longrightarrow> y \<le> x \<Longrightarrow> x = y"
    by (cases x; cases y) (simp_all add: less_eq_shard_state_def)
qed

end

definition KnownShardStates :: "shard_state list" where
  "KnownShardStates = [Orphaned, Dead, Uncertain, Expired, Ready]"

fun state_String :: "shard_state \<Rightarrow> string" where
  "state_String Orphaned = ''orphaned''"
| "state_String Dead = ''dead''"
| "state_String Uncertain = ''uncertain''"
| "state_String Expired = ''expired''"
| "state_String Ready = ''ready''"
| "state_String Unknown = ''unknown''"

definition StateFromString :: "string \<Rightarrow> shard_state" where
  "StateFromString s =
     (if s = ''orphaned'' then Orphaned
      else if s = ''dead'' then Dead
      else if s = ''uncertain'' then Uncertain
      else if s = ''expired'' then Expired
      else if s = ''ready'' then Ready
      else Unknown)"

definition IsAvailable :: "shard_state \<Rightarrow> bool" where
  "IsAvailable s \<longleftrightarrow> Uncertain \<le> s"

section \<open>Lease times\<close>

definition defaultLeaseDuration :: duration where
  "defaultLeaseDuration = 15 * Second"

definition leaseTTL :: duration where
  "leaseTTL = Minute"

record times =
  Expiration :: time
  LeaseDuration :: duration
  ToExpired :: duration
  ToUncertain :: duration
  ToOrphaned :: duration

definition ToTimes :: "lease \<Rightarrow> time \<Rightarrow> times" where
  "ToTimes l now =
     (let (expiration, leaseDuration) =
        (case (AcquireTime (l_Spec l), RenewTime (l_Spec l), LeaseDurationSeconds (l_Spec l)) of
           (Some a, Some renewTime, Some durationSeconds) \<Rightarrow>
             (let d = dur_mul durationSeconds Second in (time_Add renewTime d, d))
         | _ \<Rightarrow> (now, defaultLeaseDuration));
        toExpired = time_Sub expiration now
      in \<lparr>Expiration = expiration, LeaseDuration = leaseDuration, ToExpired = toExpired,
          ToUncertain = dur_add toExpired leaseDuration,
          ToOrphaned = dur_add toExpired leaseTTL\<rparr>)"

definition toState :: "lease \<Rightarrow> times \<Rightarrow> shard_state" where
  "toState l t =
     (if (case HolderIdentity (l_Spec l) of
            None \<Rightarrow> True | Some holder \<Rightarrow> holder = [] \<or> holder \<noteq> om_Name (l_Meta l))
      then if ToOrphaned t \<le> 0 then Orphaned else Dead
      else if ToUncertain t \<le> 0 then Uncertain
      else if ToExpired t \<le> 0 then Expired
      else Ready)"

definition ToState :: "lease \<Rightarrow> time \<Rightarrow> shard_state" where
  "ToState l now = toState l (ToTimes l now)"

section \<open>Shards\<close>

record shard =
  sh_ID :: string
  sh_State :: shard_state
  sh_Times :: times

type_synonym shards = "shard list"

definition zero_shard :: shard where
  "zero_shard = \<lparr>sh_ID = [], sh_State = Unknown,
     sh_Times = \<lparr>Expiration = 0, LeaseDuration = 0, ToExpired = 0, ToUncertain = 0, ToOrphaned = 0\<rparr>\<rparr>"

fun ByID :: "shards \<Rightarrow> string \<Rightarrow> shard" where
  "ByID [] i = zero_shard"
| "ByID (s # ss) i = (if sh_ID s = i then s else ByID ss i)"

fun AvailableShards :: "shards \<Rightarrow> shards" where
  "AvailableShards [] = []"
| "AvailableShards (s # ss) =
     (if IsAvailable (sh_State s) then s # AvailableShards ss else AvailableShards ss)"

fun IDs :: "shards \<Rightarrow> string list" where
  "IDs [] = []"
| "IDs (s # ss) = sh_ID s # IDs ss"

definition ToShard :: "lease \<Rightarrow> time \<Rightarrow> shard" where
  "ToShard l now =
     (let t = ToTimes l now
      in \<lparr>sh_ID = om_Name (l_Meta l), sh_State = toState l t, sh_Times = t\<rparr>)"

fun ToShards :: "lease list \<Rightarrow> time \<Rightarrow> shards" where
  "ToShards [] now = []"
| "ToShards (l # ls) now = ToShard l now # ToShards ls now"

section \<open>Reference: the intended state on unbounded time\<close>

text \<open>A lease is held when its holder is the (non-empty) name of the shard.\<close>

definition held :: "lease \<Rightarrow> bool" where
  "held l \<longleftrightarrow> om_Name (l_Meta l) \<noteq> [] \<and> HolderIdentity (l_Spec l) = Some (om_Name (l_Meta l))"

definition complete :: "lease \<Rightarrow> bool" where
  "complete l \<longleftrightarrow> AcquireTime (l_Spec l) \<noteq> None \<and> RenewTime (l_Spec l) \<noteq> None \<and>
     LeaseDurationSeconds (l_Spec l) \<noteq> None"

definition lease_secs :: "lease \<Rightarrow> int" where
  "lease_secs l = (case LeaseDurationSeconds (l_Spec l) of None \<Rightarrow> 15 | Some d \<Rightarrow> d)"

definition expires_at :: "lease \<Rightarrow> time" where
  "expires_at l = (case RenewTime (l_Spec l) of None \<Rightarrow> 0 | Some r \<Rightarrow> r + lease_secs l * Second)"

definition spec_state :: "lease \<Rightarrow> time \<Rightarrow> shard_state" where
  "spec_state l now =
     (if held l then
        (if expires_at l + lease_secs l * Second \<le> now then Uncertain
         else if expires_at l \<le> now then Expired else Ready)
      else if expires_at l + Minute \<le> now then Orphaned else Dead)"

text \<open>
  The instants at which 64-bit durations are exact: 146 years around the expiration, with the
  32-bit lease duration the API type enforces.
\<close>

definition sane_times :: "lease \<Rightarrow> time \<Rightarrow> bool" where
  "sane_times l now \<longleftrightarrow> in32 (lease_secs l) \<and> \<bar>expires_at l - now\<bar> \<le> 2 ^ 62"

section \<open>States\<close>

lemma IsAvailable_simps [simp]:
  "IsAvailable Ready" "IsAvailable Expired" "IsAvailable Uncertain"
  "\<not> IsAvailable Dead" "\<not> IsAvailable Orphaned" "\<not> IsAvailable Unknown"
  by (simp_all add: IsAvailable_def less_eq_shard_state_def)

lemma state_le_simps [simp]:
  "Orphaned \<le> Dead" "Uncertain \<le> Expired" "Uncertain \<le> Ready" "Expired \<le> Ready"
  by (simp_all add: less_eq_shard_state_def)

lemma toState_held: "toState l t =
  (if held l then if ToUncertain t \<le> 0 then Uncertain else if ToExpired t \<le> 0 then Expired else Ready
   else if ToOrphaned t \<le> 0 then Orphaned else Dead)"
  by (auto simp: toState_def held_def split: option.splits)

lemma ToState_cases_held: "held l \<Longrightarrow> ToState l now \<in> {Ready, Expired, Uncertain}"
  by (simp add: ToState_def toState_held)

lemma ToState_cases_not_held: "\<not> held l \<Longrightarrow> ToState l now \<in> {Dead, Orphaned}"
  by (simp add: ToState_def toState_held)

lemma IsAvailable_ToState [simp]: "IsAvailable (ToState l now) \<longleftrightarrow> held l"
  by (simp add: ToState_def toState_held)

lemma StateFromString_String [simp]: "StateFromString (state_String s) = s"
  by (cases s) (simp_all add: StateFromString_def)

lemma state_String_inj: "state_String a = state_String b \<Longrightarrow> a = b"
  by (metis StateFromString_String)

section \<open>Times\<close>

lemma default_dur_adds:
  "dur_add 0 defaultLeaseDuration = 15 * Second" "dur_add 0 leaseTTL = Minute"
  by (simp_all add: dur_add_def wrap64_def defaultLeaseDuration_def leaseTTL_def Second_def Minute_def)

lemma incomplete_ToTimes:
  assumes "\<not> complete l"
  shows "ToTimes l now = \<lparr>Expiration = now, LeaseDuration = 15 * Second,
     ToExpired = 0, ToUncertain = 15 * Second, ToOrphaned = Minute\<rparr>"
proof -
  have "(case (AcquireTime (l_Spec l), RenewTime (l_Spec l), LeaseDurationSeconds (l_Spec l)) of
      (Some a, Some r, Some s) \<Rightarrow> (let d = dur_mul s Second in (time_Add r d, d))
    | _ \<Rightarrow> (now, defaultLeaseDuration)) = (now, defaultLeaseDuration)"
    using assms by (auto simp: complete_def split: option.splits)
  moreover have "time_Sub now now = 0" by (simp add: time_Sub_def)
  ultimately show ?thesis
    by (simp add: ToTimes_def default_dur_adds) (simp add: defaultLeaseDuration_def)
qed

lemma lease_secs_mul: "in32 d \<Longrightarrow> dur_mul d Second = d * Second"
  unfolding dur_mul_def by (rule wrap64_id) (simp add: Second_def)

lemma complete_ToTimes:
  assumes "complete l" and "sane_times l now"
  shows "Expiration (ToTimes l now) = expires_at l"
    and "LeaseDuration (ToTimes l now) = lease_secs l * Second"
    and "ToExpired (ToTimes l now) = expires_at l - now"
    and "ToUncertain (ToTimes l now) = expires_at l - now + lease_secs l * Second"
    and "ToOrphaned (ToTimes l now) = expires_at l - now + Minute"
proof -
  obtain a r d where f: "AcquireTime (l_Spec l) = Some a" "RenewTime (l_Spec l) = Some r"
      "LeaseDurationSeconds (l_Spec l) = Some d"
    using assms(1) by (auto simp: complete_def)
  have d: "in32 d" using assms(2) f by (simp add: sane_times_def lease_secs_def)
  have eq: "ToTimes l now = \<lparr>Expiration = expires_at l, LeaseDuration = d * Second,
      ToExpired = time_Sub (expires_at l) now,
      ToUncertain = dur_add (time_Sub (expires_at l) now) (d * Second),
      ToOrphaned = dur_add (time_Sub (expires_at l) now) leaseTTL\<rparr>"
    using f lease_secs_mul [OF d]
    by (simp add: ToTimes_def expires_at_def lease_secs_def time_Add_def Let_def)
  have b: "- (2 ^ 62) \<le> expires_at l - now" "expires_at l - now \<le> 2 ^ 62"
    using assms(2) by (auto simp: sane_times_def)
  have sub: "time_Sub (expires_at l) now = expires_at l - now"
    using b by (intro time_Sub_exact) simp
  have unc: "dur_add (expires_at l - now) (d * Second) = expires_at l - now + d * Second"
    unfolding dur_add_def using b d by (intro wrap64_id) (simp add: Second_def)
  have orp: "dur_add (expires_at l - now) leaseTTL = expires_at l - now + Minute"
    unfolding dur_add_def leaseTTL_def using b by (intro wrap64_id) (simp add: Minute_def)
  show "Expiration (ToTimes l now) = expires_at l"
    "LeaseDuration (ToTimes l now) = lease_secs l * Second"
    "ToExpired (ToTimes l now) = expires_at l - now"
    "ToUncertain (ToTimes l now) = expires_at l - now + lease_secs l * Second"
    "ToOrphaned (ToTimes l now) = expires_at l - now + Minute"
    using f by (simp_all add: eq sub unc orp lease_secs_def)
qed

lemma ToState_spec: "complete l \<Longrightarrow> sane_times l now \<Longrightarrow> ToState l now = spec_state l now"
  by (auto simp: ToState_def toState_held spec_state_def complete_ToTimes)

lemma spec_state_mono: "0 \<le> lease_secs l \<Longrightarrow> now \<le> now' \<Longrightarrow> spec_state l now' \<le> spec_state l now"
  by (auto simp: spec_state_def Second_def Minute_def)

section \<open>Shards of a ring\<close>

lemma ToShards_map: "ToShards ls now = map (\<lambda>l. ToShard l now) ls"
  by (induction ls) simp_all

lemma IDs_map: "IDs ss = map sh_ID ss"
  by (induction ss) simp_all

lemma AvailableShards_filter: "AvailableShards ss = filter (\<lambda>s. IsAvailable (sh_State s)) ss"
  by (induction ss) simp_all

lemma ToShard_fields [simp]:
  "sh_ID (ToShard l now) = om_Name (l_Meta l)"
  "sh_State (ToShard l now) = ToState l now"
  "sh_Times (ToShard l now) = ToTimes l now"
  by (simp_all add: ToShard_def ToState_def Let_def)

text \<open>The available shard names: those of the held leases, in list order, at any time.\<close>

lemma available_ids:
  "IDs (AvailableShards (ToShards ls now)) = map (\<lambda>l. om_Name (l_Meta l)) (filter held ls)"
  by (simp add: IDs_map AvailableShards_filter ToShards_map filter_map comp_def)

lemma ByID_find:
  "ByID ss i = (case List.find (\<lambda>s. sh_ID s = i) ss of None \<Rightarrow> zero_shard | Some s \<Rightarrow> s)"
  by (induction ss) auto

lemma ByID_available:
  "IsAvailable (sh_State (ByID (ToShards ls now) i)) \<longleftrightarrow>
     (case List.find (\<lambda>l. om_Name (l_Meta l) = i) ls of None \<Rightarrow> False | Some l \<Rightarrow> held l)"
  by (induction ls) (auto simp: zero_shard_def)

lemma ByID_available_unique:
  assumes "distinct (map (\<lambda>l. om_Name (l_Meta l)) ls)"
  shows "IsAvailable (sh_State (ByID (ToShards ls now) i)) \<longleftrightarrow>
     (\<exists>l \<in> set ls. om_Name (l_Meta l) = i \<and> held l)"
  using assms by (induction ls) (force simp: zero_shard_def image_iff)+

section \<open>Properties\<close>

text \<open>
  A sample lease for the witnesses: shard \<^verbatim>\<open>s1\<close>, renewed at second 100 for 10 seconds.
\<close>

definition sample_lease :: "string \<Rightarrow> lease" where
  "sample_lease holder = \<lparr>l_Meta = empty_meta\<lparr>om_Name := ''s1''\<rparr>,
     l_Spec = \<lparr>HolderIdentity = Some holder, LeaseDurationSeconds = Some 10,
       AcquireTime = Some (50 * Second), RenewTime = Some (100 * Second),
       LeaseTransitions = None\<rparr>\<rparr>"

lemmas sample_lease_simps = sample_lease_def empty_meta_def held_def complete_def lease_secs_def
  expires_at_def sane_times_def Second_def Minute_def

text \<open>C13: On a lease that carries all its times, the 64-bit computation of \<^verbatim>\<open>ToState\<close> gives
  exactly the state intended on unbounded time: Ready before the expiration, Expired for one
  more lease duration, Uncertain from then on; Dead after release or acquisition by the sharder,
  Orphaned one minute after the expiration.\<close>

theorem ToState_refines_spec:
  assumes "complete l" and "sane_times l now"
  shows "ToState l now = spec_state l now"
  using assms by (rule ToState_spec)

lemma ToState_refines_spec_witness:
  "ToState (sample_lease ''s1'') (115 * Second) = Expired"
proof -
  have "complete (sample_lease ''s1'')" "sane_times (sample_lease ''s1'') (115 * Second)"
    by (simp_all add: sample_lease_simps)
  then show ?thesis
    using ToState_refines_spec [of "sample_lease ''s1''" "115 * Second"]
    by (simp add: spec_state_def sample_lease_simps)
qed

text \<open>As time passes a lease that nobody touches only moves down the order of
  \<^verbatim>\<open>ShardState\<close>: Ready, Expired, Uncertain while it is held, Dead, Orphaned otherwise. It never
  comes back.\<close>

theorem ToState_antimono:
  assumes "complete l" and "0 \<le> lease_secs l" and "now \<le> now'"
    and "sane_times l now" and "sane_times l now'"
  shows "ToState l now' \<le> ToState l now"
  using assms by (simp add: ToState_spec spec_state_mono)

lemma ToState_antimono_witness:
  "ToState (sample_lease ''s1'') (121 * Second) \<le> ToState (sample_lease ''s1'') (101 * Second)"
  by (rule ToState_antimono) (simp_all add: sample_lease_simps)

text \<open>Whether a shard is available for assignments depends only on who holds its lease,
  never on the clock: expiry alone does not make a shard unavailable, only its release or its
  acquisition by the sharder does. And \<^verbatim>\<open>ToState\<close> never answers Unknown.\<close>

theorem availability_is_holding:
  "(IsAvailable (ToState l now) \<longleftrightarrow> held l) \<and> ToState l now \<noteq> Unknown"
  by (simp add: ToState_def toState_held)

text \<open>A lease that misses its acquire time, renew time or duration is Expired (held) or
  Dead (not held) at every instant: it never becomes Uncertain, so it is never acquired, and
  never Orphaned, so it is never collected.\<close>

theorem incomplete_lease_is_stuck:
  assumes "\<not> complete l"
  shows "ToState l now = (if held l then Expired else Dead)"
  using incomplete_ToTimes [OF assms]
  by (simp add: ToState_def toState_held Second_def Minute_def)

lemma incomplete_lease_is_stuck_witness:
  "ToState ((sample_lease ''s1'')\<lparr>l_Spec := (l_Spec (sample_lease ''s1''))\<lparr>RenewTime := None\<rparr>\<rparr>)
     (10 ^ 15 * Second) = Expired"
  by (subst incomplete_lease_is_stuck) (simp_all add: sample_lease_simps)

text \<open>The state label is a faithful encoding: reading back what \<^verbatim>\<open>String\<close> printed gives
  the state, and a label prints back unchanged exactly when it names a state.\<close>

theorem state_label_roundtrip:
  "StateFromString (state_String s) = s \<and>
   (state_String (StateFromString x) = x \<longleftrightarrow> x \<in> state_String ` set (Unknown # KnownShardStates))"
proof -
  have "x = state_String (StateFromString x) \<Longrightarrow> x \<in> state_String ` set (Unknown # KnownShardStates)"
    using state_String.elims by (cases "StateFromString x") (force simp: KnownShardStates_def)+
  moreover have "state_String (StateFromString (state_String s')) = state_String s'" for s'
    by simp
  ultimately show ?thesis by (metis StateFromString_String imageE)
qed

text \<open>The sum of durations wraps: a held lease that expires further in the future than a
  64-bit duration can tell is judged Uncertain.\<close>

theorem far_future_lease_wraps:
  assumes "held l" and "complete l" and "0 < lease_secs l" and "in32 (lease_secs l)"
    and "2 ^ 63 - 1 \<le> expires_at l - now"
  shows "ToState l now = Uncertain"
proof -
  obtain a r d where f: "AcquireTime (l_Spec l) = Some a" "RenewTime (l_Spec l) = Some r"
      "LeaseDurationSeconds (l_Spec l) = Some d"
    using assms(2) by (auto simp: complete_def)
  have d: "0 < d" "in32 d" using assms(3,4) f by (simp_all add: lease_secs_def)
  have "ToUncertain (ToTimes l now) = dur_add (time_Sub (expires_at l) now) (d * Second)"
    using f lease_secs_mul [OF d(2)]
    by (simp add: ToTimes_def expires_at_def lease_secs_def time_Add_def Let_def)
  moreover have "time_Sub (expires_at l) now = 2 ^ 63 - 1"
    using assms(5) by (simp add: time_Sub_def)
  moreover have "(2 ^ 64 - 1 + d * Second) mod 2 ^ 64 = d * Second - 1"
  proof -
    have "(2 ^ 64 - 1 + d * Second) mod 2 ^ 64 = ((d * Second - 1) + 2 ^ 64) mod 2 ^ 64"
      by (simp add: algebra_simps)
    also have "\<dots> = d * Second - 1"
      using d by (simp only: mod_add_self2) (simp add: Second_def)
    finally show ?thesis .
  qed
  ultimately have "ToUncertain (ToTimes l now) \<le> 0"
    using d by (simp add: dur_add_def wrap64_def Second_def)
  then show ?thesis using assms(1) by (simp add: ToState_def toState_held)
qed

lemma far_future_lease_wraps_witness:
  "ToState (sample_lease ''s1'') (- (10 ^ 10) * Second) = Uncertain"
  by (rule far_future_lease_wraps) (simp_all add: sample_lease_simps)

end
