(* ===== verification/K8s_Lib.thy ===== *)
theory K8s_Lib
  imports Api_Types
begin

text \<open>
  The boundary to the code outside the repository. Functions of \<^verbatim>\<open>k8s.io/apimachinery\<close> and
  \<^verbatim>\<open>sigs.k8s.io/controller-runtime\<close> that the sharding code calls are fields of \<open>k8s_lib\<close>; the
  API server behind a client is a field record over an arbitrary world type. What a property
  assumes of them is one of the predicates below, each the documented behaviour of one function.
  \<open>std_lib\<close> is an instance on which the assumptions hold.
\<close>

section \<open>Pure library functions\<close>

record k8s_lib =
  lib_GetControllerOf :: "object_meta \<Rightarrow> owner_ref option"
  lib_ParseGroupVersion :: "string \<Rightarrow> go_error + string \<times> string"
  lib_SetMetaDataLabel :: "object_meta \<Rightarrow> string \<Rightarrow> string \<Rightarrow> object_meta"
  lib_LabelSelectorAsSelector :: "label_selector option \<Rightarrow> go_error + selector"
  lib_SetControllerReference :: "object_meta \<Rightarrow> object_meta \<Rightarrow> go_error + object_meta"
  lib_SetStatusCondition :: "condition list \<Rightarrow> condition \<Rightarrow> condition list"
  lib_TerminalError :: "go_error \<Rightarrow> go_error"
  lib_gr_String :: "group_resource \<Rightarrow> string"

text \<open>\<^verbatim>\<open>GetControllerOf\<close> returns the owner reference with \<^verbatim>\<open>controller=true\<close>, if any.\<close>

definition GetControllerOf_doc :: "k8s_lib \<Rightarrow> bool" where
  "GetControllerOf_doc lib \<longleftrightarrow>
     (\<forall>m. lib_GetControllerOf lib m =
        List.find (\<lambda>r. or_Controller r = Some True) (om_OwnerReferences m))"

text \<open>The \<^verbatim>\<open>apiVersion\<close> of a group and version; \<^verbatim>\<open>ParseGroupVersion\<close> takes it apart again.\<close>

definition apiVersion :: "string \<Rightarrow> string \<Rightarrow> string" where
  "apiVersion g v = (if g = [] then v else g @ ''/'' @ v)"

definition ParseGroupVersion_doc :: "k8s_lib \<Rightarrow> bool" where
  "ParseGroupVersion_doc lib \<longleftrightarrow>
     (\<forall>g v. CHR ''/'' \<notin> set g \<and> CHR ''/'' \<notin> set v \<and> v \<noteq> [] \<longrightarrow>
        lib_ParseGroupVersion lib (apiVersion g v) = Inr (g, v))"

text \<open>\<^verbatim>\<open>SetMetaDataLabel\<close> sets one label, allocating the map if it is nil.\<close>

definition SetMetaDataLabel_doc :: "k8s_lib \<Rightarrow> bool" where
  "SetMetaDataLabel_doc lib \<longleftrightarrow>
     (\<forall>m k v. lib_SetMetaDataLabel lib m k v =
        m\<lparr>om_Labels := Some ((as_map (om_Labels m))(k \<mapsto> v))\<rparr>)"

section \<open>The API server behind a client\<close>

text \<open>
  Reads return an error or the object; writes also return the world after the call and, like the
  Go client, the object as the server answered it. A failed write may or may not have changed the
  world.
\<close>

record 'w client =
  c_GetRing :: "'w \<Rightarrow> nsname \<Rightarrow> go_error + controller_ring"
  c_GetLease :: "'w \<Rightarrow> nsname \<Rightarrow> go_error + lease"
  c_ListLeases :: "'w \<Rightarrow> selector \<Rightarrow> go_error + lease list"
  c_ListNamespaces :: "'w \<Rightarrow> selector \<Rightarrow> go_error + string list"
  c_PatchLease :: "'w \<Rightarrow> lease \<Rightarrow> lease \<Rightarrow> (go_error + lease) \<times> 'w"
  c_UpdateLease :: "'w \<Rightarrow> lease \<Rightarrow> (go_error + lease) \<times> 'w"
  c_DeleteLease :: "'w \<Rightarrow> lease \<Rightarrow> go_error option \<times> 'w"
  c_KindsFor :: "'w \<Rightarrow> group_resource \<Rightarrow> go_error + gvk list"
  c_RawPatch :: "'w \<Rightarrow> partial_object \<Rightarrow> string \<Rightarrow> go_error option \<times> 'w"

section \<open>Reconcile results\<close>

text \<open>\<^verbatim>\<open>reconcile.Result\<close> with its requeue delay, or the error of the reconciliation.\<close>

record rec_result =
  RequeueAfter :: duration

definition no_requeue :: rec_result where
  "no_requeue = \<lparr>RequeueAfter = 0\<rparr>"

section \<open>An instance of the library functions\<close>

definition std_parse_gv :: "string \<Rightarrow> go_error + string \<times> string" where
  "std_parse_gv s =
     (case split_char (CHR ''/'') s of
        [v] \<Rightarrow> Inr ([], v) | [g, v] \<Rightarrow> Inr (g, v) | _ \<Rightarrow> Inl (errorf ''unexpected GroupVersion string''))"

definition std_lib :: k8s_lib where
  "std_lib =
     \<lparr>lib_GetControllerOf = \<lambda>m. List.find (\<lambda>r. or_Controller r = Some True) (om_OwnerReferences m),
      lib_ParseGroupVersion = std_parse_gv,
      lib_SetMetaDataLabel = \<lambda>m k v. m\<lparr>om_Labels := Some ((as_map (om_Labels m))(k \<mapsto> v))\<rparr>,
      lib_LabelSelectorAsSelector = \<lambda>s. (case s of None \<Rightarrow> Inr (SelectorFromSet [])
        | Some ls \<Rightarrow> Inr (SelectorFromLabels ls)),
      lib_SetControllerReference = \<lambda>owner m. Inr (m\<lparr>om_OwnerReferences := om_OwnerReferences m @
        [\<lparr>or_APIVersion = ''sharding.timebertt.dev/v1alpha1'', or_Kind = ''ControllerRing'',
          or_Name = om_Name owner, or_Controller = Some True\<rparr>]\<rparr>),
      lib_SetStatusCondition = \<lambda>cs c. (if \<exists>d \<in> set cs. cond_Type d = cond_Type c
        then map (\<lambda>d. if cond_Type d = cond_Type c
          then c\<lparr>cond_LastTransitionTime := cond_LastTransitionTime d\<rparr> else d) cs
        else cs @ [c]),
      lib_TerminalError = \<lambda>e. wrapf ''terminal error'' e,
      lib_gr_String = \<lambda>gr. (if gr_Group gr = [] then gr_Resource gr
        else gr_Resource gr @ ''.'' @ gr_Group gr)\<rparr>"

lemma std_lib_doc:
  "GetControllerOf_doc std_lib" "ParseGroupVersion_doc std_lib" "SetMetaDataLabel_doc std_lib"
proof -
  show "GetControllerOf_doc std_lib" "SetMetaDataLabel_doc std_lib"
    by (simp_all add: GetControllerOf_doc_def SetMetaDataLabel_doc_def std_lib_def)
  show "ParseGroupVersion_doc std_lib"
    by (auto simp: ParseGroupVersion_doc_def std_lib_def std_parse_gv_def apiVersion_def
        split_char_no_sep split_char_sep)
qed

section \<open>An in-memory API server\<close>

text \<open>
  A concrete world for evaluating the controllers: it answers reads from lists, checks resource
  versions on lease writes and records raw patches.
\<close>

record store =
  sto_rings :: "controller_ring list"
  sto_leases :: "lease list"
  sto_namespaces :: "string list"
  sto_patches :: "(partial_object \<times> string) list"

definition not_found :: go_error where
  "not_found = \<lparr>err_reason = ReasonNotFound, err_msg = ''not found''\<rparr>"

definition conflict :: go_error where
  "conflict = \<lparr>err_reason = ReasonConflict, err_msg = ''conflict''\<rparr>"

fun selects :: "selector \<Rightarrow> go_map \<Rightarrow> bool" where
  "selects (SelectorFromSet kvs) m = list_all (\<lambda>(k, v). as_map m k = Some v) kvs"
| "selects (SelectorFromLabels ls) m = list_all (\<lambda>(k, v). as_map m k = Some v) (ls_MatchLabels ls)"

definition store_write_lease :: "store \<Rightarrow> lease \<Rightarrow> (go_error + lease) \<times> store" where
  "store_write_lease w l =
     (case List.find (\<lambda>x. ObjectKeyFromObject (l_Meta x) = ObjectKeyFromObject (l_Meta l)) (sto_leases w) of
        None \<Rightarrow> (Inl not_found, w)
      | Some x \<Rightarrow>
          if om_ResourceVersion (l_Meta x) \<noteq> om_ResourceVersion (l_Meta l) then (Inl conflict, w)
          else let l' = l\<lparr>l_Meta := (l_Meta l)\<lparr>om_ResourceVersion := om_ResourceVersion (l_Meta l) @ ''+''\<rparr>\<rparr>
            in (Inr l', w\<lparr>sto_leases := map (\<lambda>y.
                 if ObjectKeyFromObject (l_Meta y) = ObjectKeyFromObject (l_Meta l) then l' else y) (sto_leases w)\<rparr>))"

definition store_client :: "store client" where
  "store_client =
     \<lparr>c_GetRing = \<lambda>w k. (case List.find (\<lambda>r. ObjectKeyFromObject (cr_Meta r) = k) (sto_rings w) of
        None \<Rightarrow> Inl not_found | Some r \<Rightarrow> Inr r),
      c_GetLease = \<lambda>w k. (case List.find (\<lambda>l. ObjectKeyFromObject (l_Meta l) = k) (sto_leases w) of
        None \<Rightarrow> Inl not_found | Some l \<Rightarrow> Inr l),
      c_ListLeases = \<lambda>w sel. Inr (filter (\<lambda>l. selects sel (om_Labels (l_Meta l))) (sto_leases w)),
      c_ListNamespaces = \<lambda>w sel. Inr (sto_namespaces w),
      c_PatchLease = \<lambda>w l base. store_write_lease w l,
      c_UpdateLease = store_write_lease,
      c_DeleteLease = \<lambda>w l. (None, w\<lparr>sto_leases := filter (\<lambda>x.
        ObjectKeyFromObject (l_Meta x) \<noteq> ObjectKeyFromObject (l_Meta l)) (sto_leases w)\<rparr>),
      c_KindsFor = \<lambda>w gr. Inr [\<lparr>gvk_Group = gr_Group gr, gvk_Version = ''v1'', gvk_Kind = gr_Resource gr\<rparr>],
      c_RawPatch = \<lambda>w obj p. (None, w\<lparr>sto_patches := sto_patches w @ [(obj, p)]\<rparr>)\<rparr>"

end
