(* ===== verification/Ring.thy ===== *)
theory Ring
  imports Consistent_Hash Leases K8s_Lib
begin

text \<open>
  The package \<^verbatim>\<open>pkg/sharding/ring\<close> (\<^verbatim>\<open>ring.go\<close>), which builds the hash ring of the available
  shards from the leases of a ring, and the operation counters of \<^verbatim>\<open>pkg/metrics/operations.go\<close>.
  Increments of counters are recorded in order as a log of operation events.
\<close>

datatype op_event =
    AssignmentsTotal string group_resource
  | MovementsTotal string group_resource
  | DrainsTotal string group_resource
  | RingCalculationsTotal string

type_synonym op_log = "op_event list"

text \<open>The world a component acts on: what the API server holds, and the counters.\<close>

record 'w world =
  w_api :: 'w
  w_ops :: op_log

definition observe :: "op_event \<Rightarrow> 'w world \<Rightarrow> 'w world" where
  "observe e w = w\<lparr>w_ops := w_ops w @ [e]\<rparr>"

lemma observe_simps [simp]:
  "w_api (observe e w) = w_api w"
  "w_ops (observe e w) = w_ops w @ [e]"
  by (simp_all add: observe_def)

definition FromLeases ::
  "hash_fun \<Rightarrow> controller_ring \<Rightarrow> lease list \<Rightarrow> time \<Rightarrow> 'w world \<Rightarrow> hash_ring \<times> shards \<times> 'w world"
where
  "FromLeases dh controllerRing leaseList now w =
     (let shards = ToShards leaseList now;
          availableShards = IDs (AvailableShards shards);
          ring = New dh None 0 availableShards
      in (ring, shards, observe (RingCalculationsTotal (om_Name (cr_Meta controllerRing))) w))"

definition held_names :: "lease list \<Rightarrow> string list" where
  "held_names ls = map (\<lambda>l. om_Name (l_Meta l)) (filter held ls)"

lemma FromLeases_eq: "FromLeases dh cr ls now w =
  (New dh None 0 (held_names ls), ToShards ls now,
   observe (RingCalculationsTotal (om_Name (cr_Meta cr))) w)"
  by (simp add: FromLeases_def available_ids held_names_def Let_def)

lemma held_names_nonempty: "[] \<notin> set (held_names ls)"
  by (auto simp: held_names_def held_def)

text \<open>The shard the leases of a ring assign a key to; the empty string when none is available.\<close>

definition desired_shard :: "hash_fun \<Rightarrow> lease list \<Rightarrow> string \<Rightarrow> string" where
  "desired_shard dh ls key = ring_Hash (New dh None 0 (held_names ls)) key"

lemma desired_shard_empty_iff: "desired_shard dh ls key = [] \<longleftrightarrow> filter held ls = []"
  unfolding desired_shard_def
  using ring.assign_nonempty [OF held_names_nonempty, of dh None 0 ls key]
  by (simp add: held_names_def)

lemma desired_shard_held:
  assumes "desired_shard dh ls key \<noteq> []"
  shows "\<exists>l \<in> set ls. held l \<and> om_Name (l_Meta l) = desired_shard dh ls key"
proof -
  have "held_names ls \<noteq> []" using assms by (simp add: desired_shard_empty_iff held_names_def)
  then have "desired_shard dh ls key \<in> set (held_names ls)"
    unfolding desired_shard_def by (rule ring.assign_mem)
  then show ?thesis by (auto simp: held_names_def)
qed

section \<open>Properties\<close>

text \<open>The ring built from a set of leases does not depend on the clock: at any two instants,
  every key is hashed to the same shard, which holds its lease; there is no shard exactly when no
  lease is held. The webhook and the sharder thus agree as long as they see the same leases.\<close>

theorem FromLeases_time_independent:
  "ring_Hash (fst (FromLeases dh cr ls now w)) key = ring_Hash (fst (FromLeases dh cr ls now' w)) key \<and>
   (ring_Hash (fst (FromLeases dh cr ls now w)) key = [] \<longleftrightarrow> filter held ls = []) \<and>
   (ring_Hash (fst (FromLeases dh cr ls now w)) key = [] \<or>
    (\<exists>l \<in> set ls. IsAvailable (ToState l now) \<and> om_Name (l_Meta l) = ring_Hash (fst (FromLeases dh cr ls now w)) key))"
  using desired_shard_empty_iff [of dh ls key] desired_shard_held [of dh ls key]
  by (auto simp: FromLeases_eq desired_shard_def)

text \<open>Failover is minimal: when the leases of some shards are lost (acquired by the sharder,
  released or deleted), only keys of those shards are hashed elsewhere.\<close>

theorem failover_moves_only_lost_shards:
  assumes "ring_Hash (fst (FromLeases dh cr ls now w)) key \<notin> lost"
  shows "ring_Hash (fst (FromLeases dh cr (filter (\<lambda>l. om_Name (l_Meta l) \<notin> lost) ls) now w)) key =
    ring_Hash (fst (FromLeases dh cr ls now w)) key"
proof -
  have "held_names (filter (\<lambda>l. om_Name (l_Meta l) \<notin> lost) ls) = filter (\<lambda>n. n \<notin> lost) (held_names ls)"
    by (induction ls) (simp_all add: held_names_def)
  with assms ring.assign_filter [of "\<lambda>n. n \<notin> lost" dh None 0 "held_names ls" key]
  show ?thesis by (simp add: FromLeases_eq)
qed

lemma failover_moves_only_lost_shards_witness:
  "ring_Hash (fst (FromLeases length_hash undefined
      (filter (\<lambda>l. om_Name (l_Meta l) \<notin> {''s2''}) [sample_lease ''s1'']) 0 \<lparr>w_api = (), w_ops = []\<rparr>)) ''k'' = ''s1''"
proof -
  have "desired_shard length_hash [sample_lease ''s1''] ''k'' = ''s1''"
    using desired_shard_held [of length_hash "[sample_lease ''s1'']" "''k''"]
      desired_shard_empty_iff [of length_hash "[sample_lease ''s1'']" "''k''"]
    by (auto simp: sample_lease_simps)
  then have "ring_Hash (fst (FromLeases length_hash undefined [sample_lease ''s1''] 0
      \<lparr>w_api = (), w_ops = []\<rparr>)) ''k'' = ''s1''"
    by (simp add: FromLeases_eq desired_shard_def)
  then show ?thesis
    by (subst failover_moves_only_lost_shards) simp_all
qed

end
