(* ===== verification/Sharding_Key.thy ===== *)
theory Sharding_Key
  imports K8s_Lib
begin

text \<open>
  The package \<^verbatim>\<open>pkg/sharding/key\<close> (\<^verbatim>\<open>key.go\<close>): the hash key of an object, computed from the
  object itself for ring resources and from its controller for controlled resources. A key
  function returns an error, the empty key (do not assign) or the key.
\<close>

type_synonym key_func = "partial_object \<Rightarrow> go_error + string"

definition gvk_Empty :: "gvk \<Rightarrow> bool" where
  "gvk_Empty g \<longleftrightarrow> gvk_Group g = [] \<and> gvk_Version g = [] \<and> gvk_Kind g = []"

definition forMetadata :: "string \<Rightarrow> string \<Rightarrow> string \<Rightarrow> string \<Rightarrow> string" where
  "forMetadata grp kind namespace name =
     grp @ ''/'' @ kind @ ''/'' @ namespace @ ''/'' @ name"

definition ForObject :: key_func where
  "ForObject obj =
     (let g = po_GVK obj; m = po_Meta obj in
      if gvk_Empty g then Inl (errorf ''apiVersion and kind must not be empty'')
      else if om_Name m = [] then
        (if om_GenerateName m \<noteq> []
         then Inl (errorf ''generateName is not supported on ring resources that are not controlled by another resource'')
         else Inl (errorf ''name must not be empty''))
      else Inr (forMetadata (gvk_Group g) (gvk_Kind g) (om_Namespace m) (om_Name m)))"

definition ForController :: "k8s_lib \<Rightarrow> key_func" where
  "ForController lib obj =
     (case lib_GetControllerOf lib (po_Meta obj) of
        None \<Rightarrow> Inr []
      | Some ref \<Rightarrow>
          if or_APIVersion ref = [] then Inl (errorf ''apiVersion of controller reference must not be empty'')
          else if or_Kind ref = [] then Inl (errorf ''kind of controller reference must not be empty'')
          else if or_Name ref = [] then Inl (errorf ''name of controller reference must not be empty'')
          else (case lib_ParseGroupVersion lib (or_APIVersion ref) of
                  Inl err \<Rightarrow> Inl (wrapf ''invalid apiVersion of controller reference'' err)
                | Inr (grp, version) \<Rightarrow>
                    Inr (forMetadata grp (or_Kind ref) (om_Namespace (po_Meta obj)) (or_Name ref))))"

text \<open>The two sets of \<^verbatim>\<open>FuncForResource\<close>, filled by the nested loops over the ring's resources.\<close>

fun collect_resources ::
  "ring_resource list \<Rightarrow> group_resource set \<times> group_resource set \<Rightarrow> group_resource set \<times> group_resource set"
where
  "collect_resources [] acc = acc"
| "collect_resources (rr # rrs) (ringResources, controlledResources) =
     collect_resources rrs
       (insert (rr_GroupResource rr) ringResources,
        fold insert (rr_ControlledResources rr) controlledResources)"

definition FuncForResource :: "k8s_lib \<Rightarrow> group_resource \<Rightarrow> controller_ring \<Rightarrow> go_error + key_func" where
  "FuncForResource lib gr ring =
     (let (ringResources, controlledResources) = collect_resources (rs_Resources (cr_Spec ring)) ({}, {})
      in if gr \<in> ringResources then Inr ForObject
         else if gr \<in> controlledResources then Inr (ForController lib)
         else Inl (errorf (''object's resource '' @ quote (lib_gr_String lib gr) @ '' was not found in ControllerRing'')))"

definition ring_resources :: "controller_ring \<Rightarrow> group_resource set" where
  "ring_resources ring = rr_GroupResource ` set (rs_Resources (cr_Spec ring))"

definition controlled_resources :: "controller_ring \<Rightarrow> group_resource set" where
  "controlled_resources ring = (\<Union>rr \<in> set (rs_Resources (cr_Spec ring)). set (rr_ControlledResources rr))"

section \<open>Lemmas\<close>

lemma fold_insert_set: "fold insert xs A = A \<union> set xs"
  by (induction xs arbitrary: A) auto

lemma collect_resources_eq: "collect_resources rrs (A, B) =
  (A \<union> rr_GroupResource ` set rrs, B \<union> (\<Union>rr \<in> set rrs. set (rr_ControlledResources rr)))"
  by (induction rrs arbitrary: A B) (auto simp: fold_insert_set)

lemma FuncForResource_eq: "FuncForResource lib gr ring =
  (if gr \<in> ring_resources ring then Inr ForObject
   else if gr \<in> controlled_resources ring then Inr (ForController lib)
   else Inl (errorf (''object's resource '' @ quote (lib_gr_String lib gr) @ '' was not found in ControllerRing'')))"
  by (simp add: FuncForResource_def collect_resources_eq ring_resources_def controlled_resources_def)

lemma forMetadata_join: "forMetadata g k ns n = join_with ''/'' [g, k, ns, n]"
  by (simp add: forMetadata_def)

lemma forMetadata_nonempty [simp]: "forMetadata g k ns n \<noteq> []"
  by (simp add: forMetadata_def)

definition slash_free :: "string list \<Rightarrow> bool" where
  "slash_free xs \<longleftrightarrow> (\<forall>x \<in> set xs. CHR ''/'' \<notin> set x)"

lemma forMetadata_inj:
  assumes "slash_free [g, k, ns, n]" and "slash_free [g', k', ns', n']"
    and "forMetadata g k ns n = forMetadata g' k' ns' n'"
  shows "g = g' \<and> k = k' \<and> ns = ns' \<and> n = n'"
proof -
  have "[g, k, ns, n] = [g', k', ns', n']"
    using assms by (intro join_with_inj [of _ _ "CHR ''/''"])
      (simp_all add: forMetadata_join slash_free_def)
  then show ?thesis by simp
qed

lemma ForObject_Inr: "ForObject obj = Inr key \<longleftrightarrow>
  \<not> gvk_Empty (po_GVK obj) \<and> om_Name (po_Meta obj) \<noteq> [] \<and>
  key = forMetadata (gvk_Group (po_GVK obj)) (gvk_Kind (po_GVK obj)) (om_Namespace (po_Meta obj)) (om_Name (po_Meta obj))"
  by (auto simp: ForObject_def Let_def)

text \<open>A reference that names the owner the way the API server writes it.\<close>

definition refers_to :: "owner_ref \<Rightarrow> partial_object \<Rightarrow> bool" where
  "refers_to ref owner \<longleftrightarrow>
     or_APIVersion ref = apiVersion (gvk_Group (po_GVK owner)) (gvk_Version (po_GVK owner)) \<and>
     or_Kind ref = gvk_Kind (po_GVK owner) \<and> or_Name ref = om_Name (po_Meta owner)"

definition valid_gvk :: "gvk \<Rightarrow> bool" where
  "valid_gvk g \<longleftrightarrow> gvk_Version g \<noteq> [] \<and> gvk_Kind g \<noteq> [] \<and>
     CHR ''/'' \<notin> set (gvk_Group g) \<and> CHR ''/'' \<notin> set (gvk_Version g)"

lemma ForController_owner:
  assumes "ParseGroupVersion_doc lib" and "valid_gvk (po_GVK owner)" and "om_Name (po_Meta owner) \<noteq> []"
    and "lib_GetControllerOf lib (po_Meta obj) = Some ref" and "refers_to ref owner"
  shows "ForController lib obj = Inr (forMetadata (gvk_Group (po_GVK owner)) (gvk_Kind (po_GVK owner))
     (om_Namespace (po_Meta obj)) (om_Name (po_Meta owner)))"
proof -
  have "lib_ParseGroupVersion lib (or_APIVersion ref) =
      Inr (gvk_Group (po_GVK owner), gvk_Version (po_GVK owner))"
    using assms(1,2,5) by (simp add: ParseGroupVersion_doc_def valid_gvk_def refers_to_def)
  moreover have "or_APIVersion ref \<noteq> []"
    using assms(2,5) by (simp add: refers_to_def apiVersion_def valid_gvk_def)
  ultimately show ?thesis
    using assms(2-5) by (simp add: ForController_def refers_to_def valid_gvk_def)
qed

section \<open>Properties\<close>

definition sample_owner :: "string \<Rightarrow> partial_object" where
  "sample_owner ns = \<lparr>po_GVK = \<lparr>gvk_Group = [], gvk_Version = ''v1'', gvk_Kind = ''Secret''\<rparr>,
     po_Meta = empty_meta\<lparr>om_Name := ''foo'', om_Namespace := ns\<rparr>\<rparr>"

definition sample_owned :: partial_object where
  "sample_owned = \<lparr>po_GVK = \<lparr>gvk_Group = [], gvk_Version = ''v1'', gvk_Kind = ''ConfigMap''\<rparr>,
     po_Meta = empty_meta\<lparr>om_Name := ''bar'', om_Namespace := ''default'',
       om_OwnerReferences := [\<lparr>or_APIVersion = ''v1'', or_Kind = ''Secret'', or_Name = ''foo'',
         or_Controller = Some True\<rparr>]\<rparr>\<rparr>"

lemmas sample_key_simps = sample_owner_def sample_owned_def empty_meta_def valid_gvk_def refers_to_def
  apiVersion_def

text \<open>C14: An object and the main object that controls it get the same hash key, hence the same
  shard, when they live in the same namespace.\<close>

theorem owner_and_owned_share_key:
  assumes "ParseGroupVersion_doc lib" and "valid_gvk (po_GVK owner)" and "om_Name (po_Meta owner) \<noteq> []"
    and "lib_GetControllerOf lib (po_Meta obj) = Some ref" and "refers_to ref owner"
    and "om_Namespace (po_Meta obj) = om_Namespace (po_Meta owner)"
  shows "ForController lib obj = ForObject owner"
  using assms ForController_owner [OF assms(1-5)]
  by (simp add: ForObject_def gvk_Empty_def valid_gvk_def Let_def)

lemma owner_and_owned_share_key_witness:
  "ForController std_lib sample_owned = ForObject (sample_owner ''default'')"
  by (rule owner_and_owned_share_key
        [where ref = "\<lparr>or_APIVersion = ''v1'', or_Kind = ''Secret'', or_Name = ''foo'', or_Controller = Some True\<rparr>"])
    (simp_all add: std_lib_doc sample_key_simps, simp add: std_lib_def)

text \<open>A namespaced object controlled by a cluster-scoped owner never gets its owner's key:
  \<^verbatim>\<open>ForController\<close> puts the namespace of the controlled object into the key, the owner's own key
  has none.\<close>

theorem cluster_scoped_owner_key_differs:
  assumes "ParseGroupVersion_doc lib" and "valid_gvk (po_GVK owner)" and "om_Name (po_Meta owner) \<noteq> []"
    and "lib_GetControllerOf lib (po_Meta obj) = Some ref" and "refers_to ref owner"
    and "om_Namespace (po_Meta owner) = []" and "om_Namespace (po_Meta obj) \<noteq> []"
  shows "\<exists>k k'. ForController lib obj = Inr k \<and> ForObject owner = Inr k' \<and> k \<noteq> k'"
  using assms ForController_owner [OF assms(1-5)]
  by (auto simp: ForObject_def gvk_Empty_def valid_gvk_def Let_def forMetadata_def)

lemma cluster_scoped_owner_key_differs_witness:
  "\<exists>k k'. ForController std_lib sample_owned = Inr k \<and> ForObject (sample_owner []) = Inr k' \<and> k \<noteq> k'"
  by (rule cluster_scoped_owner_key_differs
        [where ref = "\<lparr>or_APIVersion = ''v1'', or_Kind = ''Secret'', or_Name = ''foo'', or_Controller = Some True\<rparr>"])
    (simp_all add: std_lib_doc sample_key_simps, simp add: std_lib_def)

text \<open>C15: Keys identify objects: two objects with the same key have the same group, kind,
  namespace and name (names of API objects contain no slash). The version is not part of the key.\<close>

theorem key_identifies_object:
  assumes "ForObject a = Inr k" and "ForObject b = Inr k"
    and "slash_free [gvk_Group (po_GVK a), gvk_Kind (po_GVK a), om_Namespace (po_Meta a), om_Name (po_Meta a)]"
    and "slash_free [gvk_Group (po_GVK b), gvk_Kind (po_GVK b), om_Namespace (po_Meta b), om_Name (po_Meta b)]"
  shows "gvk_Group (po_GVK a) = gvk_Group (po_GVK b) \<and> gvk_Kind (po_GVK a) = gvk_Kind (po_GVK b) \<and>
    om_Namespace (po_Meta a) = om_Namespace (po_Meta b) \<and> om_Name (po_Meta a) = om_Name (po_Meta b)"
  using assms(1,2) by (intro forMetadata_inj [OF assms(3,4)]) (simp add: ForObject_Inr)

lemma key_identifies_object_witness:
  "gvk_Kind (po_GVK (sample_owner ''default'')) =
   gvk_Kind (po_GVK ((sample_owner ''default'')\<lparr>po_GVK := \<lparr>gvk_Group = [], gvk_Version = ''v2'', gvk_Kind = ''Secret''\<rparr>\<rparr>))"
proof -
  let ?a = "sample_owner ''default''"
  let ?b = "?a\<lparr>po_GVK := \<lparr>gvk_Group = [], gvk_Version = ''v2'', gvk_Kind = ''Secret''\<rparr>\<rparr>"
  have "ForObject ?a = Inr ''/Secret/default/foo''" "ForObject ?b = Inr ''/Secret/default/foo''"
    by (simp_all add: sample_key_simps ForObject_def gvk_Empty_def forMetadata_def Let_def)
  from key_identifies_object [OF this] show ?thesis by (simp add: sample_key_simps slash_free_def)
qed

text \<open>Which key function a resource gets: its own key for a main resource of the ring (also
  when it is listed as controlled elsewhere), its controller's for a controlled resource, an error
  for any other.\<close>

theorem FuncForResource_cases:
  "(case FuncForResource lib gr ring of
      Inr f \<Rightarrow> gr \<in> ring_resources ring \<and> f = ForObject \<or>
        gr \<in> controlled_resources ring \<and> gr \<notin> ring_resources ring \<and> f = ForController lib
    | Inl e \<Rightarrow> gr \<notin> ring_resources ring \<and> gr \<notin> controlled_resources ring)"
  by (simp add: FuncForResource_eq)

end
