(* ===== verification/Pager.thy ===== *)
theory Pager
  imports K8s_Lib
begin

text \<open>
  The package \<^verbatim>\<open>pkg/utils/pager\<close> and the list option of \<^verbatim>\<open>pkg/utils/client/options.go\<close>. The
  lister is a parameter that may answer every call differently (it gets the number of the call);
  the context is a predicate on the iterations before which it is found cancelled. The paging loop
  may run forever on a server that always returns a continue token, so it is a
  \<^theory_text>\<open>partial_function (option)\<close>; on a server that serves finitely many pages it returns.

  \<^verbatim>\<open>eachListChunkBuffered\<close> runs the paging loop in a goroutine that hands chunks to the caller
  over a buffered channel. Its result is defined sequentially, with the cancellations the goroutine
  notices; the step relation \<open>buf_step\<close> is the concurrent execution, and every interleaving of it is
  shown to give the sequential result or, once the context is cancelled, the context's error.
\<close>

section \<open>List options\<close>

record list_raw =
  raw_ResourceVersion :: string
  raw_ResourceVersionMatch :: string

record list_options =
  lo_Limit :: int
  lo_Continue :: string
  lo_Raw :: "list_raw option"

record get_options =
  go_Raw :: "string option"

type_synonym list_option = "list_options \<Rightarrow> list_options"

definition zero_raw :: list_raw where
  "zero_raw = \<lparr>raw_ResourceVersion = [], raw_ResourceVersionMatch = []\<rparr>"

definition zero_list_options :: list_options where
  "zero_list_options = \<lparr>lo_Limit = 0, lo_Continue = [], lo_Raw = None\<rparr>"

definition ResourceVersion_ApplyToList :: "string \<Rightarrow> list_option" where
  "ResourceVersion_ApplyToList r opts =
     (let raw = (case lo_Raw opts of None \<Rightarrow> zero_raw | Some x \<Rightarrow> x)
      in opts\<lparr>lo_Raw := Some (raw\<lparr>raw_ResourceVersion := r\<rparr>)\<rparr>)"

text \<open>For gets, the raw options carry the resource version only.\<close>

definition ResourceVersion_ApplyToGet :: "string \<Rightarrow> get_options \<Rightarrow> get_options" where
  "ResourceVersion_ApplyToGet r opts =
     (let raw = (case go_Raw opts of None \<Rightarrow> [] | Some x \<Rightarrow> x) in opts\<lparr>go_Raw := Some r\<rparr>)"

section \<open>The pager\<close>

definition defaultPageSize :: int where "defaultPageSize = 500"
definition defaultPageBufferSize :: int where "defaultPageBufferSize = 10"

record list_pager =
  PageSize :: int
  PageBufferSize :: int

definition pager_New :: list_pager where
  "pager_New = \<lparr>PageSize = defaultPageSize, PageBufferSize = defaultPageBufferSize\<rparr>"

record 'a page =
  pg_Items :: "'a list"
  pg_Continue :: string

type_synonym 'a lister = "nat \<Rightarrow> list_options \<Rightarrow> go_error + 'a page"
type_synonym ('s, 'a) visitor = "'s \<Rightarrow> 'a \<Rightarrow> go_error option \<times> 's"

definition ctx_err :: go_error where
  "ctx_err = errorf ''context canceled''"

definition next_options :: "list_options \<Rightarrow> 'a page \<Rightarrow> list_options" where
  "next_options opts pg =
     (let raw = (case lo_Raw opts of None \<Rightarrow> zero_raw | Some x \<Rightarrow> x)
      in opts\<lparr>lo_Continue := pg_Continue pg,
              lo_Raw := Some (raw\<lparr>raw_ResourceVersion := [], raw_ResourceVersionMatch := []\<rparr>)\<rparr>)"

partial_function (option) chunk_loop ::
  "(nat \<Rightarrow> bool) \<Rightarrow> 'a lister \<Rightarrow> ('s, 'a list) visitor \<Rightarrow> nat \<Rightarrow> list_options \<Rightarrow> 's \<Rightarrow> (go_error option \<times> 's) option"
where
  "chunk_loop cancelled lst fn n opts s =
     (if cancelled n then Some (Some ctx_err, s)
      else case lst n opts of
        Inl err \<Rightarrow> Some (Some err, s)
      | Inr pg \<Rightarrow>
          (case fn s (pg_Items pg) of
             (Some err, s') \<Rightarrow> Some (Some err, s')
           | (None, s') \<Rightarrow>
               if pg_Continue pg = [] then Some (None, s')
               else chunk_loop cancelled lst fn (Suc n) (next_options opts pg) s'))"

definition eachListChunk ::
  "list_pager \<Rightarrow> (nat \<Rightarrow> bool) \<Rightarrow> 'a lister \<Rightarrow> ('s, 'a list) visitor \<Rightarrow> list_option list \<Rightarrow> 's \<Rightarrow> (go_error option \<times> 's) option"
where
  "eachListChunk p cancelled lst fn opts s =
     (let options = fold (\<lambda>opt. opt) opts zero_list_options;
          options' = (if lo_Limit options = 0 then options\<lparr>lo_Limit := PageSize p\<rparr> else options)
      in if lo_Limit options' < 0
         then Some (Some (errorf (''ListPager.PageSize must be >= 0, got '' @ FormatInt (lo_Limit options'))), s)
         else chunk_loop cancelled lst fn 0 options' s)"

definition eachListChunkBuffered ::
  "list_pager \<Rightarrow> (nat \<Rightarrow> bool) \<Rightarrow> 'a lister \<Rightarrow> ('s, 'a list) visitor \<Rightarrow> list_option list \<Rightarrow> 's \<Rightarrow> (go_error option \<times> 's) option"
where
  "eachListChunkBuffered p cancelled lst fn opts s =
     (if PageBufferSize p < 0
      then Some (Some (errorf (''ListPager.PageBufferSize must be >= 0, got '' @ FormatInt (PageBufferSize p))), s)
      else eachListChunk p cancelled lst fn opts s)"

text \<open>
  The loop over the items of one chunk is apimachinery's \<^verbatim>\<open>meta.EachListItem\<close>: a parameter,
  documented to call the function on every item in order and to stop at the first error.
\<close>

type_synonym ('s, 'a) each_item = "('s, 'a) visitor \<Rightarrow> ('s, 'a list) visitor"

fun visit_items :: "('s, 'a) each_item" where
  "visit_items fn s [] = (None, s)"
| "visit_items fn s (x # xs) =
     (case fn s x of (Some err, s') \<Rightarrow> (Some err, s') | (None, s') \<Rightarrow> visit_items fn s' xs)"

definition EachListItem ::
  "('s, 'a) each_item \<Rightarrow> list_pager \<Rightarrow> (nat \<Rightarrow> bool) \<Rightarrow> 'a lister \<Rightarrow> ('s, 'a) visitor \<Rightarrow> list_option list \<Rightarrow> 's \<Rightarrow> (go_error option \<times> 's) option"
where
  "EachListItem each p cancelled lst fn opts s = eachListChunkBuffered p cancelled lst (each fn) opts s"

text \<open>\<^verbatim>\<open>EachListItemWithAlloc\<close> differs in the copy it hands to the function, not in the calls.\<close>

definition EachListItemWithAlloc ::
  "('s, 'a) each_item \<Rightarrow> list_pager \<Rightarrow> (nat \<Rightarrow> bool) \<Rightarrow> 'a lister \<Rightarrow> ('s, 'a) visitor \<Rightarrow> list_option list \<Rightarrow> 's \<Rightarrow> (go_error option \<times> 's) option"
where
  "EachListItemWithAlloc eachAlloc p cancelled lst fn opts s = eachListChunkBuffered p cancelled lst (eachAlloc fn) opts s"

section \<open>A paginating server\<close>

text \<open>
  The API server's contract for paging: it serves fixed pages; the token of page \<open>i\<close> (all
  different and non-empty) asks for page \<open>i + 1\<close>; a resource version together with a continue
  token is refused.
\<close>

definition serves_pages :: "'a lister \<Rightarrow> 'a list list \<Rightarrow> (nat \<Rightarrow> string) \<Rightarrow> bool" where
  "serves_pages lst pages tok \<longleftrightarrow> pages \<noteq> [] \<and> (\<forall>i. tok i \<noteq> []) \<and>
     (\<forall>n opts i. i < length pages \<and> lo_Continue opts = (if i = 0 then [] else tok (i - 1)) \<and>
        (i = 0 \<or> (\<exists>r. lo_Raw opts = Some r \<and> raw_ResourceVersion r = [] \<and> raw_ResourceVersionMatch r = [])) \<longrightarrow>
        lst n opts = Inr \<lparr>pg_Items = pages ! i, pg_Continue = (if Suc i < length pages then tok i else [])\<rparr>)"

definition list_server :: "'a list list \<Rightarrow> 'a lister" where
  "list_server pages n opts =
     (let i = length (lo_Continue opts) in
      if i \<noteq> 0 \<and> (case lo_Raw opts of None \<Rightarrow> False | Some r \<Rightarrow> raw_ResourceVersion r \<noteq> [])
      then Inl (errorf ''specifying resource version is not allowed when using continue'')
      else if i < length pages
      then Inr \<lparr>pg_Items = pages ! i, pg_Continue = (if Suc i < length pages then replicate (Suc i) CHR ''t'' else [])\<rparr>
      else Inl (errorf ''invalid continue token''))"

lemma list_server_serves: "pages \<noteq> [] \<Longrightarrow> serves_pages (list_server pages) pages (\<lambda>i. replicate (Suc i) CHR ''t'')"
  by (auto simp: serves_pages_def list_server_def Let_def)

section \<open>Paging visits everything once\<close>

lemma chunk_loop_pages:
  assumes "serves_pages lst pages tok" and "\<And>n. \<not> cancelled n"
    and "i < length pages" and "lo_Continue opts = (if i = 0 then [] else tok (i - 1))"
    and "i = 0 \<or> (\<exists>r. lo_Raw opts = Some r \<and> raw_ResourceVersion r = [] \<and> raw_ResourceVersionMatch r = [])"
  shows "chunk_loop cancelled lst fn n opts s = Some (visit_items fn s (drop i pages))"
  using assms(3-)
proof (induction "length pages - i" arbitrary: i n opts s)
  case (Suc k)
  have pg: "lst n opts = Inr \<lparr>pg_Items = pages ! i, pg_Continue = (if Suc i < length pages then tok i else [])\<rparr>"
    using assms(1) Suc.prems by (auto simp: serves_pages_def)
  have dr: "drop i pages = pages ! i # drop (Suc i) pages"
    using Suc.prems(1) by (simp add: Cons_nth_drop_Suc)
  show ?case
  proof (cases "Suc i < length pages")
    case True
    have tok: "tok i \<noteq> []" using assms(1) by (simp add: serves_pages_def)
    have IH: "chunk_loop cancelled lst fn (Suc n) (next_options opts \<lparr>pg_Items = pages ! i, pg_Continue = tok i\<rparr>) s'
        = Some (visit_items fn s' (drop (Suc i) pages))" for s'
      using True Suc.hyps(2) by (intro Suc.hyps(1)) (simp_all add: next_options_def Let_def)
    show ?thesis
      by (subst chunk_loop.simps) (simp add: assms(2) pg dr True tok IH split: prod.splits option.splits)
  next
    case False
    then show ?thesis
      by (subst chunk_loop.simps) (simp add: assms(2) pg dr split: prod.splits option.splits)
  qed
qed simp

lemma visit_items_append: "visit_items fn s (xs @ ys) =
  (case visit_items fn s xs of (Some err, s') \<Rightarrow> (Some err, s') | (None, s') \<Rightarrow> visit_items fn s' ys)"
  by (induction xs arbitrary: s) (auto split: prod.splits option.splits)

lemma visit_items_concat: "visit_items (visit_items fn) s pages = visit_items fn s (concat pages)"
  by (induction pages arbitrary: s) (auto simp: visit_items_append split: prod.splits option.splits)

section \<open>The buffered execution\<close>

text \<open>
  The state of a run: the chunks the paging goroutine still has to send, the channel buffer,
  whether the channel is closed and the goroutine's result (in \<^verbatim>\<open>bgResultC\<close> once it is closed),
  whether the caller's context was cancelled, the state of the visitor, and the value returned once
  the call has returned. Returning cancels the context of the goroutine (the deferred \<^verbatim>\<open>cancel\<close>).
\<close>

record ('c, 's) buf_state =
  bs_todo :: "'c list"
  bs_buf :: "'c list"
  bs_closed :: bool
  bs_bg :: "go_error option"
  bs_cancelled :: bool
  bs_vis :: 's
  bs_ret :: "go_error option option"

definition ctx_done :: "('c, 's) buf_state \<Rightarrow> bool" where
  "ctx_done st \<longleftrightarrow> bs_cancelled st \<or> bs_ret st \<noteq> None"

text \<open>The body of the receiving loop.\<close>

definition consume :: "('s, 'c) visitor \<Rightarrow> ('c, 's) buf_state \<Rightarrow> 'c \<Rightarrow> ('c, 's) buf_state" where
  "consume fn st c =
     (if ctx_done st then st\<lparr>bs_ret := Some (Some ctx_err)\<rparr>
      else case fn (bs_vis st) c of
        (Some err, s') \<Rightarrow> st\<lparr>bs_vis := s', bs_ret := Some (Some err)\<rparr>
      | (None, s') \<Rightarrow> st\<lparr>bs_vis := s'\<rparr>)"

inductive buf_step ::
  "nat \<Rightarrow> ('s, 'c) visitor \<Rightarrow> go_error option \<Rightarrow> ('c, 's) buf_state \<Rightarrow> ('c, 's) buf_state \<Rightarrow> bool"
  for cap fn bgResult
where
  send: "\<not> bs_closed st \<Longrightarrow> bs_todo st = c # cs \<Longrightarrow> length (bs_buf st) < cap \<Longrightarrow>
     buf_step cap fn bgResult st (st\<lparr>bs_todo := cs, bs_buf := bs_buf st @ [c]\<rparr>)"
| stop: "\<not> bs_closed st \<Longrightarrow> ctx_done st \<Longrightarrow> bs_todo st \<noteq> [] \<or> bgResult \<noteq> None \<Longrightarrow>
     buf_step cap fn bgResult st (st\<lparr>bs_closed := True, bs_bg := Some ctx_err\<rparr>)"
| close: "\<not> bs_closed st \<Longrightarrow> bs_todo st = [] \<Longrightarrow>
     buf_step cap fn bgResult st (st\<lparr>bs_closed := True, bs_bg := bgResult\<rparr>)"
| receive: "bs_ret st = None \<Longrightarrow> bs_buf st = c # cs \<Longrightarrow>
     buf_step cap fn bgResult st (consume fn (st\<lparr>bs_buf := cs\<rparr>) c)"
| handoff: "bs_ret st = None \<Longrightarrow> bs_buf st = [] \<Longrightarrow> \<not> bs_closed st \<Longrightarrow> bs_todo st = c # cs \<Longrightarrow>
     buf_step cap fn bgResult st (consume fn (st\<lparr>bs_todo := cs\<rparr>) c)"
| drained: "bs_ret st = None \<Longrightarrow> bs_buf st = [] \<Longrightarrow> bs_closed st \<Longrightarrow>
     buf_step cap fn bgResult st (st\<lparr>bs_ret := Some (bs_bg st)\<rparr>)"
| cancel: "\<not> bs_cancelled st \<Longrightarrow> buf_step cap fn bgResult st (st\<lparr>bs_cancelled := True\<rparr>)"

inductive_simps buf_step_iff: "buf_step cap fn bgResult st st'"

definition buf_init :: "'c list \<Rightarrow> 's \<Rightarrow> ('c, 's) buf_state" where
  "buf_init chunks s = \<lparr>bs_todo = chunks, bs_buf = [], bs_closed = False, bs_bg = None, bs_cancelled = False,
     bs_vis = s, bs_ret = None\<rparr>"

text \<open>The sequential result: visit the chunks in order; without an error, the goroutine's result.\<close>

definition seq_result :: "('s, 'c) visitor \<Rightarrow> go_error option \<Rightarrow> 's \<Rightarrow> 'c list \<Rightarrow> go_error option \<times> 's" where
  "seq_result fn bgResult s chunks =
     (case visit_items fn s chunks of (Some err, s') \<Rightarrow> (Some err, s') | (None, s') \<Rightarrow> (bgResult, s'))"

definition visited_prefix :: "('s, 'c) visitor \<Rightarrow> 's \<Rightarrow> 'c list \<Rightarrow> 'c list \<Rightarrow> 's \<Rightarrow> bool" where
  "visited_prefix fn s chunks rest s' \<longleftrightarrow> (\<exists>pre. chunks = pre @ rest \<and> visit_items fn s pre = (None, s'))"

lemma visited_prefix_refl: "visited_prefix fn s chunks chunks s"
  by (simp add: visited_prefix_def)

lemma visited_prefix_next:
  "visited_prefix fn s chunks (c # rest) s' \<Longrightarrow> fn s' c = (None, s'') \<Longrightarrow> visited_prefix fn s chunks rest s''"
proof (unfold visited_prefix_def, elim exE conjE)
  fix pre
  assume "fn s' c = (None, s'')" and "chunks = pre @ c # rest" and "visit_items fn s pre = (None, s')"
  then show "\<exists>pre. chunks = pre @ rest \<and> visit_items fn s pre = (None, s'')"
    by (intro exI [of _ "pre @ [c]"]) (simp add: visit_items_append)
qed

lemma visited_prefix_result:
  "visited_prefix fn s chunks rest s' \<Longrightarrow> seq_result fn bg s chunks = seq_result fn bg s' rest"
  by (auto simp: visited_prefix_def seq_result_def visit_items_append)

definition buf_inv :: "('s, 'c) visitor \<Rightarrow> go_error option \<Rightarrow> 's \<Rightarrow> 'c list \<Rightarrow> ('c, 's) buf_state \<Rightarrow> bool" where
  "buf_inv fn bgResult s chunks st \<longleftrightarrow>
     (case bs_ret st of
        None \<Rightarrow> visited_prefix fn s chunks (bs_buf st @ bs_todo st) (bs_vis st) \<and>
          (bs_closed st \<longrightarrow> bs_todo st = [] \<and> bs_bg st = bgResult \<or> bs_cancelled st \<and> bs_bg st = Some ctx_err)
      | Some r \<Rightarrow> (r, bs_vis st) = seq_result fn bgResult s chunks \<or>
          bs_cancelled st \<and> r = Some ctx_err \<and> (\<exists>rest. visited_prefix fn s chunks rest (bs_vis st)))"

lemma buf_inv_consume:
  assumes "bs_ret st = None" and "visited_prefix fn s chunks (c # bs_buf st @ bs_todo st) (bs_vis st)"
    and "bs_closed st \<longrightarrow> bs_todo st = [] \<and> bs_bg st = bgResult \<or> bs_cancelled st \<and> bs_bg st = Some ctx_err"
  shows "buf_inv fn bgResult s chunks (consume fn st c)"
  using assms visited_prefix_result [OF assms(2), of bgResult]
  by (auto simp: buf_inv_def consume_def ctx_done_def seq_result_def split: prod.splits option.splits
      dest: visited_prefix_next)

lemma buf_inv_step:
  "buf_step cap fn bgResult st st' \<Longrightarrow> buf_inv fn bgResult s chunks st \<Longrightarrow> buf_inv fn bgResult s chunks st'"
proof (induction rule: buf_step.induct)
  case (receive st c cs)
  then show ?case by (intro buf_inv_consume) (auto simp: buf_inv_def)
next
  case (handoff st c cs)
  then show ?case by (intro buf_inv_consume) (auto simp: buf_inv_def)
next
  case (drained st)
  then show ?case
    by (auto simp: buf_inv_def seq_result_def dest: visited_prefix_result [where bg = bgResult])
qed (auto simp: buf_inv_def ctx_done_def split: option.splits)

lemma buf_inv_run:
  "(buf_step cap fn bgResult)\<^sup>*\<^sup>* st st' \<Longrightarrow> buf_inv fn bgResult s chunks st \<Longrightarrow> buf_inv fn bgResult s chunks st'"
  by (induction rule: rtranclp_induct) (auto intro: buf_inv_step)

lemma buf_inv_init: "buf_inv fn bgResult s chunks (buf_init chunks s)"
  by (simp add: buf_inv_def buf_init_def visited_prefix_refl)

lemma consume_frame [simp]:
  "bs_cancelled (consume fn st c) = bs_cancelled st" "bs_todo (consume fn st c) = bs_todo st"
  "bs_buf (consume fn st c) = bs_buf st" "bs_closed (consume fn st c) = bs_closed st"
  by (auto simp: consume_def split: prod.splits option.splits)

text \<open>Neither the call nor the goroutine gets stuck, even if nobody ever cancels the context.\<close>

lemma buf_progress:
  assumes "bs_ret st = None \<or> \<not> bs_closed st"
  shows "\<exists>st'. buf_step cap fn bgResult st st' \<and> bs_cancelled st' = bs_cancelled st"
proof (cases "bs_ret st")
  case None
  show ?thesis
  proof (cases "bs_buf st")
    case Nil
    then show ?thesis
    proof (cases "bs_closed st")
      case True
      with None Nil show ?thesis by (intro exI conjI, rule buf_step.drained) auto
    next
      case False
      show ?thesis
      proof (cases "bs_todo st")
        case Nil': Nil
        with False show ?thesis by (intro exI conjI, rule buf_step.close) auto
      next
        case (Cons c cs)
        with None Nil False show ?thesis by (intro exI conjI, rule buf_step.handoff) auto
      qed
    qed
  next
    case (Cons c cs)
    with None show ?thesis by (intro exI conjI, rule buf_step.receive) auto
  qed
next
  case (Some r)
  with assms show ?thesis
    by (cases "bs_todo st = []") (fastforce intro: buf_step.close buf_step.stop simp: ctx_done_def)+
qed

definition buf_measure :: "('c, 's) buf_state \<Rightarrow> nat" where
  "buf_measure st = 2 * length (bs_todo st) + length (bs_buf st) + (if bs_closed st then 0 else 1)
     + (if bs_ret st = None then 1 else 0) + (if bs_cancelled st then 0 else 1)"

lemma buf_measure_step: "buf_step cap fn bgResult st st' \<Longrightarrow> buf_measure st' < buf_measure st"
  by (induction rule: buf_step.induct)
    (auto simp: buf_measure_def consume_def ctx_done_def split: prod.splits option.splits)

section \<open>Properties\<close>

text \<open>Paging is complete and in order: on a server that serves a list in any number of pages
  and refuses a resource version together with a continue token, \<^verbatim>\<open>EachListItemWithAlloc\<close> with the
  resource version option returns, and it has called the function on exactly the items of all pages
  in order, up to the first error.\<close>

theorem paging_visits_all_items:
  assumes "serves_pages lst pages tok" and "0 \<le> PageSize p" and "0 \<le> PageBufferSize p"
  shows "EachListItemWithAlloc visit_items p (\<lambda>_. False) lst fn [ResourceVersion_ApplyToList rv] s =
    Some (visit_items fn s (concat pages))"
proof -
  have "chunk_loop (\<lambda>_. False) lst (visit_items fn) 0 opts s = Some (visit_items fn s (concat pages))"
    if "lo_Continue opts = []" for opts
    using chunk_loop_pages [OF assms(1), of "\<lambda>_. False" 0 opts "visit_items fn" 0 s] that assms(1)
    by (simp add: visit_items_concat serves_pages_def)
  with assms(2,3) show ?thesis
    by (simp add: EachListItemWithAlloc_def eachListChunkBuffered_def eachListChunk_def
        ResourceVersion_ApplyToList_def zero_list_options_def Let_def)
qed

lemma paging_visits_all_items_witness:
  "EachListItemWithAlloc visit_items pager_New (\<lambda>_. False) (list_server [[1, 2], [3 :: nat]])
     (\<lambda>s x. (None, s @ [x])) [ResourceVersion_ApplyToList ''0''] [] = Some (None, [1, 2, 3])"
  using paging_visits_all_items [OF list_server_serves [of "[[1, 2], [3 :: nat]]"], of pager_New
      "\<lambda>s x. (None, s @ [x])" "''0''" "[]"]
  by (simp add: pager_New_def defaultPageSize_def defaultPageBufferSize_def)

text \<open>C21: Buffering is invisible: in every interleaving of the paging goroutine, the caller and a
  cancellation of the context, for every buffer size (0 included), a call that returned has
  visited the chunks and returned the error exactly as the sequential loop does, or the context was
  cancelled and it returned the context's error after visiting some of the first chunks. As long
  as the call has not returned or the goroutine has not stopped, one of them can make a step without
  a cancellation, and every run is finite: the call returns and no goroutine is left behind.\<close>

theorem buffered_paging_refines_sequential:
  assumes "(buf_step cap fn bgResult)\<^sup>*\<^sup>* (buf_init chunks s) st"
  shows "(\<forall>r. bs_ret st = Some r \<longrightarrow> (r, bs_vis st) = seq_result fn bgResult s chunks \<or>
      bs_cancelled st \<and> r = Some ctx_err \<and> (\<exists>n. visit_items fn s (take n chunks) = (None, bs_vis st))) \<and>
    (bs_ret st = None \<or> \<not> bs_closed st \<longrightarrow>
      (\<exists>st'. buf_step cap fn bgResult st st' \<and> bs_cancelled st' = bs_cancelled st)) \<and>
    (\<forall>st'. buf_step cap fn bgResult st st' \<longrightarrow> buf_measure st' < buf_measure st)"
proof -
  have "\<exists>n. visit_items fn s (take n chunks) = (None, bs_vis st)" if "visited_prefix fn s chunks rest (bs_vis st)" for rest
    using that by (metis visited_prefix_def append_eq_conv_conj)
  then show ?thesis
    using buf_inv_run [OF assms buf_inv_init] buf_progress [of st cap fn bgResult]
    by (auto simp: buf_inv_def buf_measure_step)
qed

lemma buffered_paging_refines_sequential_witness:
  "\<exists>st. (buf_step 0 (\<lambda>s x. (None, s @ [x])) None)\<^sup>*\<^sup>* (buf_init [1 :: nat] []) st \<and>
     bs_ret st = Some None \<and> bs_vis st = [1]"
proof -
  let ?fn = "\<lambda>s x. (None :: go_error option, s @ [x :: nat])"
  let ?s0 = "buf_init [1] []"
  let ?s1 = "?s0\<lparr>bs_todo := [], bs_vis := [1]\<rparr>"
  let ?st = "?s1\<lparr>bs_closed := True, bs_ret := Some None\<rparr>"
  have 1: "buf_step 0 ?fn None ?s0 ?s1"
    using buf_step.handoff [of ?s0 1 "[]" 0 ?fn None] by (simp add: buf_init_def consume_def ctx_done_def)
  have 2: "buf_step 0 ?fn None ?s1 (?s1\<lparr>bs_closed := True\<rparr>)"
    using buf_step.close [of ?s1 0 ?fn None] by (simp add: buf_init_def)
  have 3: "buf_step 0 ?fn None (?s1\<lparr>bs_closed := True\<rparr>) ?st"
    using buf_step.drained [of "?s1\<lparr>bs_closed := True\<rparr>" 0 ?fn None] by (simp add: buf_init_def)
  have run: "(buf_step 0 ?fn None)\<^sup>*\<^sup>* ?s0 ?st"
    using 1 2 3 by (meson rtranclp.rtrancl_refl rtranclp.rtrancl_into_rtrancl)
  have "bs_vis ?st = [1]"
    using buffered_paging_refines_sequential [OF run] by (simp add: seq_result_def buf_init_def)
  with run show ?thesis by (intro exI [of _ ?st]) simp
qed

end
