(* ===== verification/Sharder.thy ===== *)
theory Sharder
  imports Ring Sharding_Key Pager
begin

text \<open>
  The sharder controller, \<^verbatim>\<open>pkg/controller/sharder/reconciler.go\<close>: the operation it builds from the
  leases and namespaces of a ring, the work items it compiles from the listed objects, the drain
  and move patches, and the reconciliation as a whole; \<^verbatim>\<open>FormatErrors\<close> of \<^verbatim>\<open>pkg/utils/errors\<close>.
  A multierror is the list of its errors (nil is the empty list); appending flattens. The work
  generator is a program of channel sends, which this theory runs in program order; the concurrent
  execution with a bounded queue and parallel workers is in the theory \<open>Resync\<close>.
\<close>

section \<open>Errors of many operations\<close>

definition FormatErrors :: "go_error list \<Rightarrow> string" where
  "FormatErrors es =
     (if length es = 1 then err_msg (es ! 0)
      else FormatInt (int (length es)) @ '' errors occurred: '' @ join_with '', '' (map err_msg es))"

definition ErrorOrNil :: "go_error list \<Rightarrow> go_error option" where
  "ErrorOrNil es = (if es = [] then None else Some (errorf (FormatErrors es)))"

section \<open>The operation\<close>

record sharder_config =
  cfg_SyncPeriod :: duration
  cfg_ConcurrentMoves :: int
  cfg_NamespaceSelector :: "label_selector option"

record operation =
  op_ControllerRing :: controller_ring
  op_Namespaces :: "string set"
  op_HashRing :: hash_ring
  op_Shards :: shards
  op_Concurrency :: int

record work_item =
  wi_drain :: bool
  wi_gr :: group_resource
  wi_gvk :: gvk
  wi_key :: nsname
  wi_resourceVersion :: string
  wi_currentShard :: string

definition GetSelectedNamespaces ::
  "k8s_lib \<Rightarrow> sharder_config \<Rightarrow> 'w client \<Rightarrow> 'w \<Rightarrow> controller_ring \<Rightarrow> go_error + string set"
where
  "GetSelectedNamespaces lib cfg c w controllerRing =
     (let namespaceSelector =
        (case rs_NamespaceSelector (cr_Spec controllerRing) of
           Some s \<Rightarrow> Some s | None \<Rightarrow> cfg_NamespaceSelector cfg)
      in case lib_LabelSelectorAsSelector lib namespaceSelector of
           Inl err \<Rightarrow> Inl (lib_TerminalError lib err)
         | Inr sel \<Rightarrow>
             (case c_ListNamespaces c w sel of
                Inl err \<Rightarrow> Inl (wrapf ''error listing selected namespaces for ControllerRing'' err)
              | Inr namespaceList \<Rightarrow> Inr (fold insert namespaceList {})))"

definition NewOperation ::
  "k8s_lib \<Rightarrow> hash_fun \<Rightarrow> sharder_config \<Rightarrow> 'w client \<Rightarrow> time \<Rightarrow> controller_ring \<Rightarrow> 'w world \<Rightarrow> (go_error + operation) \<times> 'w world"
where
  "NewOperation lib dh cfg c now controllerRing w =
     (case c_ListLeases c (w_api w) (LeaseSelector controllerRing) of
        Inl err \<Rightarrow> (Inl (wrapf ''error listing Leases for ControllerRing'' err), w)
      | Inr leaseList \<Rightarrow>
          (let (hashRing, shards, w1) = FromLeases dh controllerRing leaseList now w in
           case GetSelectedNamespaces lib cfg c (w_api w1) controllerRing of
             Inl err \<Rightarrow> (Inl err, w1)
           | Inr namespaces \<Rightarrow>
               (Inr \<lparr>op_ControllerRing = controllerRing, op_Namespaces = namespaces, op_HashRing = hashRing,
                     op_Shards = shards, op_Concurrency = cfg_ConcurrentMoves cfg\<rparr>, w1)))"

section \<open>Work items\<close>

definition workItemForObject ::
  "k8s_lib \<Rightarrow> operation \<Rightarrow> group_resource \<Rightarrow> bool \<Rightarrow> partial_object \<Rightarrow> go_error + work_item option"
where
  "workItemForObject lib o' gr controlled obj =
     (let keyFunc = (if controlled then ForController lib else ForObject) in
      case keyFunc obj of
        Inl err \<Rightarrow> Inl err
      | Inr hashKey \<Rightarrow>
          if hashKey = [] then Inr None
          else
            (let desiredShard = ring_Hash (op_HashRing o') hashKey;
                 currentShard = map_get (om_Labels (po_Meta obj)) (ring_LabelShard (op_ControllerRing o')) in
             if desiredShard = [] then Inr None
             else if desiredShard = currentShard then Inr None
             else
               (let w = \<lparr>wi_drain = False, wi_gr = gr, wi_gvk = po_GVK obj, wi_key = ObjectKeyFromObject (po_Meta obj),
                         wi_resourceVersion = om_ResourceVersion (po_Meta obj), wi_currentShard = currentShard\<rparr> in
                if currentShard \<noteq> [] \<and> IsAvailable (sh_State (ByID (op_Shards o') currentShard)) \<and> \<not> controlled
                then Inr (Some (w\<lparr>wi_drain := True\<rparr>))
                else Inr (Some w))))"

text \<open>The function handed to the pager, with the queued items and the errors as its state.\<close>

definition compile_object ::
  "k8s_lib \<Rightarrow> operation \<Rightarrow> group_resource \<Rightarrow> bool \<Rightarrow> (work_item list \<times> go_error list, partial_object) visitor"
where
  "compile_object lib o' gr controlled = (\<lambda>(ws, es) obj.
     if om_Namespace (po_Meta obj) \<notin> op_Namespaces o' then (None, (ws, es))
     else case workItemForObject lib o' gr controlled obj of
       Inl err \<Rightarrow> (None, (ws, es @ [err]))
     | Inr None \<Rightarrow> (None, (ws, es))
     | Inr (Some w) \<Rightarrow> (None, (ws @ [w], es)))"

type_synonym object_lister = "gvk \<Rightarrow> partial_object lister"
type_synonym item_loop = "(work_item list \<times> go_error list, partial_object) each_item"

definition compileWorkItemsForResource ::
  "k8s_lib \<Rightarrow> item_loop \<Rightarrow> (nat \<Rightarrow> bool) \<Rightarrow> object_lister \<Rightarrow> 'w client \<Rightarrow> 'w \<Rightarrow> operation \<Rightarrow>
     group_resource \<Rightarrow> bool \<Rightarrow> (work_item list \<times> go_error list) option"
where
  "compileWorkItemsForResource lib each cancelled lst c w o' gr controlled =
     (case c_KindsFor c w gr of
        Inl err \<Rightarrow> Some ([], [wrapf (''error determining kinds for resource '' @ quote (lib_gr_String lib gr)) err])
      | Inr [] \<Rightarrow> Some ([], [errorf (''no kinds found for resource '' @ quote (lib_gr_String lib gr))])
      | Inr (gvk # _) \<Rightarrow>
          (case EachListItemWithAlloc each pager_New cancelled (lst gvk) (compile_object lib o' gr controlled)
                  [ResourceVersion_ApplyToList ''0''] ([], []) of
             None \<Rightarrow> None
           | Some (err, (ws, es)) \<Rightarrow>
               Some (ws, es @ (case err of None \<Rightarrow> []
                 | Some e \<Rightarrow> [wrapf (''error listing '' @ lib_gr_String lib gr) e]))))"

text \<open>
  \<^verbatim>\<open>compileWorkItemsForRing\<close> as the sequence of its channel sends: the work items of each resource
  go to the queue while it is listed, then its (possibly nil) error to the error channel.
\<close>

datatype prod_action = SendWork work_item | SendErr "go_error list"

definition resource_actions :: "(work_item list \<times> go_error list) option \<Rightarrow> prod_action list option" where
  "resource_actions r = map_option (\<lambda>(ws, es). map SendWork ws @ [SendErr es]) r"

fun append_actions :: "prod_action list option \<Rightarrow> prod_action list option \<Rightarrow> prod_action list option" where
  "append_actions (Some a) (Some b) = Some (a @ b)"
| "append_actions _ _ = None"

fun ring_compilations :: "ring_resource list \<Rightarrow> (group_resource \<times> bool) list" where
  "ring_compilations [] = []"
| "ring_compilations (rr # rrs) =
     (rr_GroupResource rr, False) # map (\<lambda>cr. (cr, True)) (rr_ControlledResources rr) @ ring_compilations rrs"

definition compileWorkItemsForRing ::
  "k8s_lib \<Rightarrow> item_loop \<Rightarrow> (nat \<Rightarrow> bool) \<Rightarrow> object_lister \<Rightarrow> 'w client \<Rightarrow> 'w \<Rightarrow> operation \<Rightarrow> prod_action list option"
where
  "compileWorkItemsForRing lib each cancelled lst c w o' =
     foldr (\<lambda>(gr, controlled) acts.
        append_actions (resource_actions (compileWorkItemsForResource lib each cancelled lst c w o' gr controlled)) acts)
       (ring_compilations (rs_Resources (cr_Spec (op_ControllerRing o')))) (Some [])"

section \<open>Draining and moving\<close>

definition drain_patch :: "controller_ring \<Rightarrow> string \<Rightarrow> string" where
  "drain_patch ring resourceVersion =
     ''{'' @ quote ''metadata'' @ '':{'' @ quote ''resourceVersion'' @ '':'' @ quote resourceVersion @ '','' @
     quote ''labels'' @ '':{'' @ quote (ring_LabelDrain ring) @ '':'' @ quote ''true'' @ ''}}}''"

definition move_patch :: "controller_ring \<Rightarrow> string \<Rightarrow> string" where
  "move_patch ring resourceVersion =
     ''{'' @ quote ''metadata'' @ '':{'' @ quote ''resourceVersion'' @ '':'' @ quote resourceVersion @ '','' @
     quote ''labels'' @ '':{'' @ quote (ring_LabelShard ring) @ '':null,'' @ quote (ring_LabelDrain ring) @ '':null}}}''"

definition object_key_string :: "object_meta \<Rightarrow> string" where
  "object_key_string m = om_Namespace m @ ''/'' @ om_Name m"

definition drainObject ::
  "k8s_lib \<Rightarrow> 'w client \<Rightarrow> operation \<Rightarrow> partial_object \<Rightarrow> group_resource \<Rightarrow> 'w world \<Rightarrow> go_error option \<times> 'w world"
where
  "drainObject lib c o' obj gr w =
     (let patch = drain_patch (op_ControllerRing o') (om_ResourceVersion (po_Meta obj));
          (err, api) = c_RawPatch c (w_api w) obj patch;
          w1 = w\<lparr>w_api := api\<rparr>
      in case err of
           Some e \<Rightarrow> (Some (wrapf (''error draining '' @ lib_gr_String lib gr @ '' '' @ quote (object_key_string (po_Meta obj))) e), w1)
         | None \<Rightarrow> (None, observe (DrainsTotal (om_Name (cr_Meta (op_ControllerRing o'))) gr) w1))"

definition moveObject ::
  "k8s_lib \<Rightarrow> 'w client \<Rightarrow> operation \<Rightarrow> partial_object \<Rightarrow> group_resource \<Rightarrow> 'w world \<Rightarrow> go_error option \<times> 'w world"
where
  "moveObject lib c o' obj gr w =
     (let patch = move_patch (op_ControllerRing o') (om_ResourceVersion (po_Meta obj));
          (err, api) = c_RawPatch c (w_api w) obj patch;
          w1 = w\<lparr>w_api := api\<rparr>
      in case err of
           Some e \<Rightarrow> (Some (wrapf (''error moving '' @ lib_gr_String lib gr @ '' '' @ quote (object_key_string (po_Meta obj))) e), w1)
         | None \<Rightarrow> (None, observe (MovementsTotal (om_Name (cr_Meta (op_ControllerRing o'))) gr) w1))"

text \<open>The body of \<^verbatim>\<open>processNextWorkItem\<close> for an item taken from the queue.\<close>

definition work_object :: "work_item \<Rightarrow> partial_object" where
  "work_object wi = \<lparr>po_GVK = wi_gvk wi, po_Meta = empty_meta\<lparr>om_Name := snd (wi_key wi),
     om_Namespace := fst (wi_key wi), om_ResourceVersion := wi_resourceVersion wi\<rparr>\<rparr>"

definition process_item ::
  "k8s_lib \<Rightarrow> 'w client \<Rightarrow> operation \<Rightarrow> work_item \<Rightarrow> 'w world \<Rightarrow> go_error option \<times> 'w world"
where
  "process_item lib c o' wi w =
     (if wi_drain wi then drainObject lib c o' (work_object wi) (wi_gr wi) w
      else moveObject lib c o' (work_object wi) (wi_gr wi) w)"

section \<open>Reconciliation\<close>

text \<open>The resync in program order: every send is received at once, every item processed at once.\<close>

fun run_actions ::
  "k8s_lib \<Rightarrow> 'w client \<Rightarrow> operation \<Rightarrow> prod_action list \<Rightarrow> 'w world \<Rightarrow> go_error list \<times> 'w world"
where
  "run_actions lib c o' [] w = ([], w)"
| "run_actions lib c o' (SendErr es # acts) w =
     (let (es', w') = run_actions lib c o' acts w in (es @ es', w'))"
| "run_actions lib c o' (SendWork wi # acts) w =
     (let (err, w1) = process_item lib c o' wi w;
          (es', w') = run_actions lib c o' acts w1
      in ((case err of None \<Rightarrow> [] | Some e \<Rightarrow> [e]) @ es', w'))"

definition ResyncControllerRing ::
  "k8s_lib \<Rightarrow> item_loop \<Rightarrow> (nat \<Rightarrow> bool) \<Rightarrow> object_lister \<Rightarrow> 'w client \<Rightarrow> operation \<Rightarrow> 'w world \<Rightarrow>
     (go_error option \<times> 'w world) option"
where
  "ResyncControllerRing lib each cancelled lst c o' w =
     (case compileWorkItemsForRing lib each cancelled lst c (w_api w) o' of
        None \<Rightarrow> None
      | Some acts \<Rightarrow> (let (es, w') = run_actions lib c o' acts w in Some (ErrorOrNil es, w')))"

definition sharder_Reconcile ::
  "k8s_lib \<Rightarrow> hash_fun \<Rightarrow> sharder_config \<Rightarrow> item_loop \<Rightarrow> (nat \<Rightarrow> bool) \<Rightarrow> object_lister \<Rightarrow> 'w client \<Rightarrow> time \<Rightarrow>
     nsname \<Rightarrow> 'w world \<Rightarrow> ((go_error + rec_result) \<times> 'w world) option"
where
  "sharder_Reconcile lib dh cfg each cancelled lst c now req w =
     (case c_GetRing c (w_api w) req of
        Inl err \<Rightarrow>
          if IsNotFound err then Some (Inr no_requeue, w)
          else Some (Inl (wrapf ''error retrieving object from store'' err), w)
      | Inr controllerRing \<Rightarrow>
          (case NewOperation lib dh cfg c now controllerRing w of
             (Inl err, w1) \<Rightarrow> Some (Inl err, w1)
           | (Inr o', w1) \<Rightarrow>
               (case ResyncControllerRing lib each cancelled lst c o' w1 of
                  None \<Rightarrow> None
                | Some (Some err, w2) \<Rightarrow> Some (Inl err, w2)
                | Some (None, w2) \<Rightarrow> Some (Inr \<lparr>RequeueAfter = cfg_SyncPeriod cfg\<rparr>, w2))))"

section \<open>Lemmas\<close>

text \<open>An operation that was built from a list of leases.\<close>

definition op_from :: "hash_fun \<Rightarrow> lease list \<Rightarrow> time \<Rightarrow> operation \<Rightarrow> bool" where
  "op_from dh ls now o' \<longleftrightarrow>
     op_HashRing o' = New dh None 0 (held_names ls) \<and> op_Shards o' = ToShards ls now"

lemma NewOperation_op_from:
  assumes "NewOperation lib dh cfg c now ring w = (Inr o', w')"
  shows "\<exists>ls. c_ListLeases c (w_api w) (LeaseSelector ring) = Inr ls \<and> op_from dh ls now o' \<and>
    op_ControllerRing o' = ring \<and> GetSelectedNamespaces lib cfg c (w_api w) ring = Inr (op_Namespaces o')"
  using assms by (auto simp: NewOperation_def FromLeases_eq op_from_def Let_def split: sum.splits)

definition object_key :: "k8s_lib \<Rightarrow> bool \<Rightarrow> key_func" where
  "object_key lib controlled = (if controlled then ForController lib else ForObject)"

definition current_shard :: "operation \<Rightarrow> partial_object \<Rightarrow> string" where
  "current_shard o' obj = map_get (om_Labels (po_Meta obj)) (ring_LabelShard (op_ControllerRing o'))"

lemma workItemForObject_Some:
  "workItemForObject lib o' gr controlled obj = Inr (Some wi) \<longleftrightarrow>
     (\<exists>k. object_key lib controlled obj = Inr k \<and> k \<noteq> [] \<and> ring_Hash (op_HashRing o') k \<noteq> [] \<and>
        ring_Hash (op_HashRing o') k \<noteq> current_shard o' obj) \<and>
     wi = \<lparr>wi_drain = (current_shard o' obj \<noteq> [] \<and>
             IsAvailable (sh_State (ByID (op_Shards o') (current_shard o' obj))) \<and> \<not> controlled),
           wi_gr = gr, wi_gvk = po_GVK obj, wi_key = ObjectKeyFromObject (po_Meta obj),
           wi_resourceVersion = om_ResourceVersion (po_Meta obj), wi_currentShard = current_shard o' obj\<rparr>"
  by (auto simp: workItemForObject_def object_key_def current_shard_def Let_def split: sum.splits)

lemma wi_drain_iff:
  assumes "op_from dh ls now o'" and "distinct (map (\<lambda>l. om_Name (l_Meta l)) ls)"
    and "workItemForObject lib o' gr False obj = Inr (Some wi)"
  shows "wi_drain wi \<longleftrightarrow> (\<exists>l \<in> set ls. held l \<and> om_Name (l_Meta l) = current_shard o' obj)"
  using assms ByID_available_unique [OF assms(2), of now "current_shard o' obj"]
  by (auto simp: workItemForObject_Some op_from_def held_def)

lemma workItemForObject_Inl:
  "workItemForObject lib o' gr controlled obj = Inl e \<longleftrightarrow> object_key lib controlled obj = Inl e"
  by (auto simp: workItemForObject_def object_key_def Let_def split: sum.splits)

definition work_of :: "k8s_lib \<Rightarrow> operation \<Rightarrow> group_resource \<Rightarrow> bool \<Rightarrow> partial_object \<Rightarrow> work_item list" where
  "work_of lib o' gr controlled obj =
     (case workItemForObject lib o' gr controlled obj of Inr (Some w) \<Rightarrow> [w] | _ \<Rightarrow> [])"

definition errs_of :: "k8s_lib \<Rightarrow> operation \<Rightarrow> group_resource \<Rightarrow> bool \<Rightarrow> partial_object \<Rightarrow> go_error list" where
  "errs_of lib o' gr controlled obj =
     (case workItemForObject lib o' gr controlled obj of Inl e \<Rightarrow> [e] | _ \<Rightarrow> [])"

definition selected :: "operation \<Rightarrow> partial_object list \<Rightarrow> partial_object list" where
  "selected o' objs = filter (\<lambda>obj. om_Namespace (po_Meta obj) \<in> op_Namespaces o') objs"

lemma compile_object_eq: "compile_object lib o' gr controlled (ws, es) obj = (None,
  if om_Namespace (po_Meta obj) \<in> op_Namespaces o'
  then (ws @ work_of lib o' gr controlled obj, es @ errs_of lib o' gr controlled obj) else (ws, es))"
  by (auto simp: compile_object_def work_of_def errs_of_def split: sum.splits option.splits)

lemma compile_objects:
  "visit_items (compile_object lib o' gr controlled) (ws, es) objs =
     (None, (ws @ concat (map (work_of lib o' gr controlled) (selected o' objs)),
             es @ concat (map (errs_of lib o' gr controlled) (selected o' objs))))"
  by (induction objs arbitrary: ws es) (simp_all add: compile_object_eq selected_def)

lemma compile_resource:
  assumes "c_KindsFor c w gr = Inr (gvk # gvks)" and "serves_pages (lst gvk) pages tok"
  shows "compileWorkItemsForResource lib visit_items (\<lambda>_. False) lst c w o' gr controlled =
    Some (concat (map (work_of lib o' gr controlled) (selected o' (concat pages))),
          concat (map (errs_of lib o' gr controlled) (selected o' (concat pages))))"
proof -
  have "chunk_loop (\<lambda>_. False) (lst gvk) (visit_items (compile_object lib o' gr controlled)) 0 opts s =
      Some (visit_items (compile_object lib o' gr controlled) s (concat pages))"
    if "lo_Continue opts = []" for opts s
    using chunk_loop_pages [OF assms(2), of "\<lambda>_. False" 0 opts _ 0 s] that assms(2)
    by (simp add: visit_items_concat serves_pages_def)
  then show ?thesis
    by (simp add: compileWorkItemsForResource_def assms(1) EachListItemWithAlloc_def eachListChunkBuffered_def
        eachListChunk_def pager_New_def defaultPageSize_def defaultPageBufferSize_def compile_objects
        ResourceVersion_ApplyToList_def zero_list_options_def Let_def)
qed

section \<open>Properties\<close>

definition sample_op :: "string set \<Rightarrow> operation" where
  "sample_op nss = \<lparr>op_ControllerRing = \<lparr>cr_Meta = empty_meta\<lparr>om_Name := ''ring''\<rparr>,
       cr_Spec = \<lparr>rs_Resources = [], rs_NamespaceSelector = None\<rparr>,
       cr_Status = \<lparr>st_ObservedGeneration = 0, st_Shards = 0, st_AvailableShards = 0, st_Conditions = []\<rparr>\<rparr>,
     op_Namespaces = nss, op_HashRing = New length_hash None 0 (held_names [sample_lease ''s1'']),
     op_Shards = ToShards [sample_lease ''s1''] 0, op_Concurrency = 1\<rparr>"

definition sample_object :: "string \<Rightarrow> str_map \<Rightarrow> partial_object" where
  "sample_object ns labels = (sample_owner ns)\<lparr>po_Meta := (po_Meta (sample_owner ns))\<lparr>om_Labels := Some labels\<rparr>\<rparr>"

lemma sample_op_from: "op_from length_hash [sample_lease ''s1''] 0 (sample_op nss)"
  by (simp add: op_from_def sample_op_def)

lemma sample_op_hash: "ring_Hash (op_HashRing (sample_op nss)) key = ''s1''"
  using desired_shard_held [of length_hash "[sample_lease ''s1'']" key]
    desired_shard_empty_iff [of length_hash "[sample_lease ''s1'']" key]
  by (auto simp: sample_op_def desired_shard_def sample_lease_simps)

lemma sample_work: "\<exists>wi. workItemForObject std_lib (sample_op nss) gr False
    (sample_object ''default'' [LabelShard ''ring'' \<mapsto> ''s9'']) = Inr (Some wi)"
  by (simp add: workItemForObject_Some object_key_def ForObject_Inr sample_op_hash current_shard_def)
    (simp add: sample_object_def sample_owner_def gvk_Empty_def empty_meta_def map_get_def sample_op_def
      ring_LabelShard_def)

text \<open>C17: No takeover without a drain: for a main object, a work item asks for a drain exactly
  when the shard the object is assigned to still holds its lease. Only unassigned objects and
  objects of shards that lost their lease are moved right away.\<close>

theorem no_takeover_without_drain:
  assumes "op_from dh ls now o'" and "distinct (map (\<lambda>l. om_Name (l_Meta l)) ls)"
    and "workItemForObject lib o' gr False obj = Inr (Some wi)"
  shows "wi_drain wi \<longleftrightarrow> (\<exists>l \<in> set ls. held l \<and> om_Name (l_Meta l) = current_shard o' obj)"
  using assms by (rule wi_drain_iff)

lemma no_takeover_without_drain_witness:
  "\<exists>wi. workItemForObject std_lib (sample_op {''default''}) \<lparr>gr_Group = [], gr_Resource = ''secrets''\<rparr> False
      (sample_object ''default'' [LabelShard ''ring'' \<mapsto> ''s9'']) = Inr (Some wi) \<and> \<not> wi_drain wi"
proof -
  obtain wi where wi: "workItemForObject std_lib (sample_op {''default''}) \<lparr>gr_Group = [], gr_Resource = ''secrets''\<rparr> False
      (sample_object ''default'' [LabelShard ''ring'' \<mapsto> ''s9'']) = Inr (Some wi)"
    using sample_work by blast
  have "\<not> wi_drain wi"
    using no_takeover_without_drain [OF sample_op_from _ wi]
    by (simp add: current_shard_def sample_object_def sample_op_def map_get_def ring_LabelShard_def sample_lease_simps)
  with wi show ?thesis by blast
qed

text \<open>C18: Work is compiled for exactly the misplaced objects: when the API server pages through
  the objects of a resource, the queue receives, in list order, one item per object of a selected
  namespace whose key is hashed to another shard than it is assigned to, and the errors are those
  of the key functions; a correctly assigned object causes no work.\<close>

theorem compile_exactly_misplaced_objects:
  assumes "c_KindsFor c w gr = Inr (gvk # gvks)" and "serves_pages (lst gvk) pages tok"
  shows "\<exists>ws es. compileWorkItemsForResource lib visit_items (\<lambda>_. False) lst c w o' gr controlled = Some (ws, es) \<and>
    map wi_key ws = map (\<lambda>obj. ObjectKeyFromObject (po_Meta obj)) (filter (\<lambda>obj.
      \<exists>k. object_key lib controlled obj = Inr k \<and> k \<noteq> [] \<and> ring_Hash (op_HashRing o') k \<noteq> [] \<and>
        ring_Hash (op_HashRing o') k \<noteq> current_shard o' obj) (selected o' (concat pages))) \<and>
    set es = {e. \<exists>obj \<in> set (selected o' (concat pages)). object_key lib controlled obj = Inl e}"
proof -
  have work: "map wi_key (work_of lib o' gr controlled obj) =
    (if \<exists>k. object_key lib controlled obj = Inr k \<and> k \<noteq> [] \<and> ring_Hash (op_HashRing o') k \<noteq> [] \<and>
        ring_Hash (op_HashRing o') k \<noteq> current_shard o' obj then [ObjectKeyFromObject (po_Meta obj)] else [])" for obj
    using workItemForObject_Some [of lib o' gr controlled obj]
    by (cases "workItemForObject lib o' gr controlled obj") (auto simp: work_of_def split: option.splits)
  have "map wi_key (concat (map (work_of lib o' gr controlled) objs)) = map (\<lambda>obj. ObjectKeyFromObject (po_Meta obj))
      (filter (\<lambda>obj. \<exists>k. object_key lib controlled obj = Inr k \<and> k \<noteq> [] \<and> ring_Hash (op_HashRing o') k \<noteq> [] \<and>
        ring_Hash (op_HashRing o') k \<noteq> current_shard o' obj) objs)" for objs
    by (induction objs) (simp_all add: work)
  moreover have "set (concat (map (errs_of lib o' gr controlled) objs)) =
      {e. \<exists>obj \<in> set objs. object_key lib controlled obj = Inl e}" for objs
    by (auto simp: errs_of_def workItemForObject_Inl split: sum.splits) (metis workItemForObject_Inl)+
  ultimately show ?thesis using compile_resource [where lst = lst and gvk = gvk and pages = pages, OF assms] by simp
qed

lemma compile_exactly_misplaced_objects_witness:
  "\<exists>ws. compileWorkItemsForResource std_lib visit_items (\<lambda>_. False)
      (\<lambda>_. list_server [[sample_object ''default'' [LabelShard ''ring'' \<mapsto> ''s9'']], [sample_object ''other'' Map.empty]])
      store_client undefined (sample_op {''default''}) \<lparr>gr_Group = [], gr_Resource = ''secrets''\<rparr> False = Some (ws, []) \<and>
      map wi_key ws = [(''default'', ''foo'')]"
proof -
  let ?gr = "\<lparr>gr_Group = [], gr_Resource = ''secrets''\<rparr>"
  let ?pages = "[[sample_object ''default'' [LabelShard ''ring'' \<mapsto> ''s9'']], [sample_object ''other'' Map.empty]]"
  have sel: "selected (sample_op {''default''}) (concat ?pages) = [sample_object ''default'' [LabelShard ''ring'' \<mapsto> ''s9'']]"
    by (simp add: selected_def sample_op_def sample_object_def sample_owner_def empty_meta_def)
  have key: "object_key std_lib False (sample_object ns m) = Inr (''/Secret/'' @ ns @ ''/foo'')" for ns m
    by (simp add: object_key_def ForObject_Inr sample_object_def sample_owner_def gvk_Empty_def empty_meta_def forMetadata_def)
  have cur: "current_shard (sample_op {''default''}) (sample_object ns [LabelShard ''ring'' \<mapsto> ''s9'']) = ''s9''" for ns
    by (simp add: current_shard_def sample_object_def sample_op_def map_get_def ring_LabelShard_def empty_meta_def)
  have "c_KindsFor store_client w ?gr = Inr [\<lparr>gvk_Group = [], gvk_Version = ''v1'', gvk_Kind = ''secrets''\<rparr>]" for w
    by (simp add: store_client_def)
  from compile_exactly_misplaced_objects [where lst = "\<lambda>_. list_server ?pages" and pages = ?pages and lib = std_lib and
      o' = "sample_op {''default''}" and controlled = False, OF this list_server_serves]
  moreover have "ObjectKeyFromObject (po_Meta (sample_object ns m)) = (ns, ''foo'')" for ns m
    by (simp add: sample_object_def sample_owner_def ObjectKeyFromObject_def)
  ultimately show ?thesis
    unfolding sel by (auto simp: key cur sample_op_hash)
qed

text \<open>The sharder never drains or moves cluster-scoped objects: their empty namespace is not
  the name of any selected namespace, so a ring resource that is cluster-scoped gets neither work
  items nor errors, whatever shard its objects are assigned to.\<close>

theorem cluster_scoped_objects_are_skipped:
  assumes "c_KindsFor c w gr = Inr (gvk # gvks)" and "serves_pages (lst gvk) pages tok"
    and "[] \<notin> op_Namespaces o'" and "\<forall>obj \<in> set (concat pages). om_Namespace (po_Meta obj) = []"
  shows "compileWorkItemsForResource lib visit_items (\<lambda>_. False) lst c w o' gr controlled = Some ([], [])"
proof -
  have "selected o' (concat pages) = []"
    using assms(3,4) unfolding selected_def by (intro filter_False) metis
  with compile_resource [where lst = lst and gvk = gvk and pages = pages, OF assms(1,2)] show ?thesis by simp
qed

lemma cluster_scoped_objects_are_skipped_witness:
  "compileWorkItemsForResource std_lib visit_items (\<lambda>_. False)
      (\<lambda>_. list_server [[sample_object [] [LabelShard ''ring'' \<mapsto> ''s9'']]]) store_client undefined (sample_op {''default''})
      \<lparr>gr_Group = [], gr_Resource = ''secrets''\<rparr> False = Some ([], [])"
  by (rule cluster_scoped_objects_are_skipped [where pages = "[[sample_object [] [LabelShard ''ring'' \<mapsto> ''s9'']]]" and
      lst = "\<lambda>_. list_server [[sample_object [] [LabelShard ''ring'' \<mapsto> ''s9'']]]", OF _ list_server_serves])
    (simp_all add: store_client_def sample_op_def sample_object_def sample_owner_def empty_meta_def)

end
