(* ===== verification/Webhook.thy ===== *)
theory Webhook
  imports Ring Sharding_Key
begin

text \<open>
  The package \<^verbatim>\<open>pkg/webhook/sharder\<close>: the webhook path of a ring and its inverse (\<^verbatim>\<open>add.go\<close>),
  the admission handler that assigns objects on creation and update (\<^verbatim>\<open>handler.go\<close>) and the
  assignment counter (\<^verbatim>\<open>metrics.go\<close>). Decoding the raw object is a parameter (\<^verbatim>\<open>json.Unmarshal\<close>
  of apimachinery). The effect of the returned JSON patch on the object is the API server's; its
  documented behaviour on the label map is the predicate \<open>JSONPatch_doc\<close>.
\<close>

section \<open>Webhook paths\<close>

definition webhookPathPrefix :: string where
  "webhookPathPrefix = ''/webhooks/sharder/controllerring/''"

definition WebhookPathForControllerRing :: "controller_ring \<Rightarrow> string" where
  "WebhookPathForControllerRing ring = path_Join [webhookPathPrefix, om_Name (cr_Meta ring)]"

definition named_ring :: "string \<Rightarrow> controller_ring" where
  "named_ring name = \<lparr>cr_Meta = empty_meta\<lparr>om_Name := name\<rparr>,
     cr_Spec = \<lparr>rs_Resources = [], rs_NamespaceSelector = None\<rparr>,
     cr_Status = \<lparr>st_ObservedGeneration = 0, st_Shards = 0, st_AvailableShards = 0, st_Conditions = []\<rparr>\<rparr>"

definition ControllerRingForWebhookPath :: "string \<Rightarrow> go_error + controller_ring" where
  "ControllerRingForWebhookPath requestPath =
     (if \<not> HasPrefix requestPath webhookPathPrefix
      then Inl (errorf (''unexpected request path: '' @ requestPath))
      else let name = TrimPrefix requestPath webhookPathPrefix
        in if name = [] then Inl (errorf (''unexpected request path: '' @ requestPath))
           else Inr (named_ring name))"

text \<open>The context carries the request path under one key, if it was put there.\<close>

type_synonym request_context = "string option"

definition NewContextWithRequestPath :: "request_context \<Rightarrow> string \<Rightarrow> request_context" where
  "NewContextWithRequestPath ctx urlPath = Some urlPath"

definition RequestPathFromContext :: "request_context \<Rightarrow> go_error + string" where
  "RequestPathFromContext ctx =
     (case ctx of Some v \<Rightarrow> Inr v | None \<Rightarrow> Inl (errorf ''no request path found in context''))"

section \<open>The admission handler\<close>

text \<open>\<^verbatim>\<open>strings.NewReplacer("~", "~0", "/", "~1")\<close>: one pass over the bytes.\<close>

fun rfc6901Encoder :: "string \<Rightarrow> string" where
  "rfc6901Encoder [] = []"
| "rfc6901Encoder (c # cs) =
     (if c = CHR ''~'' then ''~0'' @ rfc6901Encoder cs
      else if c = CHR ''/'' then ''~1'' @ rfc6901Encoder cs
      else c # rfc6901Encoder cs)"

datatype patch_value = EmptyObject | StringValue string

record patch_op =
  op_Operation :: string
  op_Path :: string
  op_Value :: patch_value

datatype admission_response =
    Errored nat go_error
  | Allowed string
  | Patched string "patch_op list"

record admission_request =
  req_Resource :: group_resource
  req_ObjectRaw :: string
  req_DryRun :: "bool option"

definition StatusInternalServerError :: nat where "StatusInternalServerError = 500"
definition StatusBadRequest :: nat where "StatusBadRequest = 400"

definition ControllerRingForRequest :: "'w client \<Rightarrow> 'w \<Rightarrow> request_context \<Rightarrow> go_error + controller_ring" where
  "ControllerRingForRequest c w ctx =
     (case RequestPathFromContext ctx of
        Inl err \<Rightarrow> Inl err
      | Inr requestPath \<Rightarrow>
          (case ControllerRingForWebhookPath requestPath of
             Inl err \<Rightarrow> Inl err
           | Inr controllerRing \<Rightarrow>
               (case c_GetRing c w (ObjectKeyFromObject (cr_Meta controllerRing)) of
                  Inl err \<Rightarrow> Inl (wrapf ''error getting ControllerRing'' err)
                | Inr ring \<Rightarrow> Inr ring)))"

definition ObserveAssignment :: "string \<Rightarrow> group_resource \<Rightarrow> 'w world \<Rightarrow> 'w world" where
  "ObserveAssignment controllerRingName gr w = observe (AssignmentsTotal controllerRingName gr) w"

definition assignment_patches :: "go_map \<Rightarrow> string \<Rightarrow> string \<Rightarrow> patch_op list" where
  "assignment_patches labels labelShard shard =
     (if labels = None
      then [\<lparr>op_Operation = ''add'', op_Path = ''/metadata/labels'', op_Value = EmptyObject\<rparr>] else []) @
     [\<lparr>op_Operation = ''add'', op_Path = ''/metadata/labels/'' @ rfc6901Encoder labelShard,
       op_Value = StringValue shard\<rparr>]"

definition Handle ::
  "k8s_lib \<Rightarrow> hash_fun \<Rightarrow> (string \<Rightarrow> go_error + partial_object) \<Rightarrow> 'w client \<Rightarrow> time \<Rightarrow>
     request_context \<Rightarrow> admission_request \<Rightarrow> 'w world \<Rightarrow> admission_response \<times> 'w world"
where
  "Handle lib dh unmarshal reader now ctx req w =
     (case ControllerRingForRequest reader (w_api w) ctx of
        Inl err \<Rightarrow> (Errored StatusInternalServerError (wrapf ''error determining ControllerRing for request'' err), w)
      | Inr controllerRing \<Rightarrow>
     (case unmarshal (req_ObjectRaw req) of
        Inl err \<Rightarrow> (Errored StatusInternalServerError (wrapf ''error decoding object'' err), w)
      | Inr obj \<Rightarrow>
     (let labels = om_Labels (po_Meta obj); labelShard = ring_LabelShard controllerRing in
      if map_get labels labelShard \<noteq> [] then (Allowed ''object is already assigned'', w)
      else
     (case FuncForResource lib (req_Resource req) controllerRing of
        Inl err \<Rightarrow> (Errored StatusBadRequest (wrapf ''error determining hash key func for object'' err), w)
      | Inr keyFunc \<Rightarrow>
     (case keyFunc obj of
        Inl err \<Rightarrow> (Errored StatusBadRequest (wrapf ''error calculating hash key for object'' err), w)
      | Inr hashKey \<Rightarrow>
      if hashKey = [] then (Allowed ''object should not be assigned'', w)
      else
     (case c_ListLeases reader (w_api w) (LeaseSelector controllerRing) of
        Inl err \<Rightarrow> (Errored StatusInternalServerError (wrapf ''error listing Leases for ControllerRing'' err), w)
      | Inr leaseList \<Rightarrow>
     (let (hashRing, shards, w1) = FromLeases dh controllerRing leaseList now w;
          shard = ring_Hash hashRing hashKey in
      if shard = [] then (Allowed ''there is no available shard'', w1)
      else
       (let patches = assignment_patches labels labelShard shard;
            w2 = (if req_DryRun req = Some True then w1
                  else ObserveAssignment (om_Name (cr_Meta controllerRing)) (req_Resource req) w1)
        in (Patched ''assigning object'' patches, w2)))))))))"

section \<open>Registration of the handler\<close>

text \<open>\<^verbatim>\<open>AddToManager\<close>: unset dependencies are completed, then the handler is registered.\<close>

record ('reader, 'clock, 'metrics) webhook_handler =
  wh_Reader :: "'reader option"
  wh_Clock :: "'clock option"
  wh_Metrics :: "'metrics option"

definition webhook_AddToManager ::
  "'reader \<Rightarrow> 'clock \<Rightarrow> 'metrics \<Rightarrow> ('reader, 'clock, 'metrics) webhook_handler \<Rightarrow>
     ('reader, 'clock, 'metrics) webhook_handler \<times> string"
where
  "webhook_AddToManager mgrCache realClock realMetrics h =
     (let h1 = (if wh_Reader h = None then h\<lparr>wh_Reader := Some mgrCache\<rparr> else h);
          h2 = (if wh_Clock h1 = None then h1\<lparr>wh_Clock := Some realClock\<rparr> else h1);
          h3 = (if wh_Metrics h2 = None then h2\<lparr>wh_Metrics := Some realMetrics\<rparr> else h2)
      in (h3, webhookPathPrefix))"

section \<open>Applying the patch\<close>

text \<open>RFC 6901 decoding of a path token: \<^verbatim>\<open>~1\<close> is a slash, \<^verbatim>\<open>~0\<close> a tilde.\<close>

fun rfc6901_decode :: "string \<Rightarrow> string" where
  "rfc6901_decode (c # d # cs) =
     (if c = CHR ''~'' \<and> d = CHR ''1'' then CHR ''/'' # rfc6901_decode cs
      else if c = CHR ''~'' \<and> d = CHR ''0'' then CHR ''~'' # rfc6901_decode cs
      else c # rfc6901_decode (d # cs))"
| "rfc6901_decode cs = cs"

text \<open>
  RFC 6902 on the label map: \<^verbatim>\<open>add\<close> of an object replaces the labels, \<^verbatim>\<open>add\<close> of a member of an
  existing label map sets it.
\<close>

definition JSONPatch_doc :: "(patch_op list \<Rightarrow> go_map \<Rightarrow> go_map) \<Rightarrow> bool" where
  "JSONPatch_doc apply_patch \<longleftrightarrow>
     (\<forall>m. apply_patch [] m = m) \<and>
     (\<forall>m ps. apply_patch (\<lparr>op_Operation = ''add'', op_Path = ''/metadata/labels'', op_Value = EmptyObject\<rparr> # ps) m
        = apply_patch ps (Some Map.empty)) \<and>
     (\<forall>f tok v ps. CHR ''/'' \<notin> set tok \<longrightarrow>
        apply_patch (\<lparr>op_Operation = ''add'', op_Path = ''/metadata/labels/'' @ tok, op_Value = StringValue v\<rparr> # ps) (Some f)
        = apply_patch ps (Some (f(rfc6901_decode tok \<mapsto> v))))"

fun std_apply_patch :: "patch_op list \<Rightarrow> go_map \<Rightarrow> go_map" where
  "std_apply_patch [] m = m"
| "std_apply_patch (p # ps) m = std_apply_patch ps
     (case op_Value p of
        EmptyObject \<Rightarrow> Some Map.empty
      | StringValue v \<Rightarrow> Some ((as_map m)(rfc6901_decode (TrimPrefix (op_Path p) ''/metadata/labels/'') \<mapsto> v)))"

lemma std_apply_patch_doc: "JSONPatch_doc std_apply_patch"
proof -
  have "TrimPrefix (''/metadata/labels/'' @ tok) ''/metadata/labels/'' = tok" for tok
    by (rule TrimPrefix_append)
  then show ?thesis by (simp add: JSONPatch_doc_def)
qed

section \<open>Lemmas\<close>

lemma rfc6901_no_slash: "CHR ''/'' \<notin> set (rfc6901Encoder s)"
  by (induction s) auto

lemma rfc6901_decode_plain: "c \<noteq> CHR ''~'' \<Longrightarrow> rfc6901_decode (c # s) = c # rfc6901_decode s"
  by (cases s) auto

lemma rfc6901_roundtrip: "rfc6901_decode (rfc6901Encoder s) = s"
  by (induction s) (auto simp: rfc6901_decode_plain)

lemma assignment_patches_apply:
  assumes "JSONPatch_doc apply_patch"
  shows "apply_patch (assignment_patches labels k v) labels = Some ((as_map labels)(k \<mapsto> v))"
  using assms
  by (cases labels) (simp_all add: JSONPatch_doc_def assignment_patches_def rfc6901_no_slash rfc6901_roundtrip)

lemma prefix_join: "webhookPathPrefix @ s = CHR ''/'' # join_with ''/'' [''webhooks'', ''sharder'', ''controllerring'', s]"
  by (simp add: webhookPathPrefix_def)

lemma WebhookPath_eq: "plain_elem (om_Name (cr_Meta ring)) \<Longrightarrow>
  WebhookPathForControllerRing ring = webhookPathPrefix @ om_Name (cr_Meta ring)"
proof -
  assume plain: "plain_elem (om_Name (cr_Meta ring))"
  let ?n = "om_Name (cr_Meta ring)"
  let ?es = "[''webhooks'', ''sharder'', ''controllerring'', ?n]"
  have ne: "?n \<noteq> []" using plain by (simp add: plain_elem_def)
  have split: "split_char (CHR ''/'') (webhookPathPrefix @ CHR ''/'' # ?n) =
      [[], ''webhooks'', ''sharder'', ''controllerring'', [], ?n]"
    using plain by (simp add: webhookPathPrefix_def split_char_def split_acc_no_sep plain_elem_def)
  have "path_Clean (webhookPathPrefix @ CHR ''/'' # ?n) = CHR ''/'' # join_with ''/'' ?es"
    using plain by (simp add: path_Clean_def split Let_def)
      (simp add: HasPrefix_def webhookPathPrefix_def plain_elem_def)
  with ne show ?thesis
    by (simp add: WebhookPathForControllerRing_def path_Join_def prefix_join Let_def)
      (simp add: webhookPathPrefix_def)
qed

lemma webhook_path_back: "plain_elem (om_Name (cr_Meta ring)) \<Longrightarrow>
  ControllerRingForWebhookPath (WebhookPathForControllerRing ring) = Inr (named_ring (om_Name (cr_Meta ring)))"
  by (simp add: WebhookPath_eq ControllerRingForWebhookPath_def plain_elem_def)

text \<open>Everything the handler needs to reach the assignment.\<close>

definition assignable ::
  "k8s_lib \<Rightarrow> (string \<Rightarrow> go_error + partial_object) \<Rightarrow> 'w client \<Rightarrow> request_context \<Rightarrow> admission_request \<Rightarrow>
     'w world \<Rightarrow> controller_ring \<Rightarrow> partial_object \<Rightarrow> key_func \<Rightarrow> string \<Rightarrow> lease list \<Rightarrow> bool"
where
  "assignable lib unmarshal reader ctx req w ring obj keyFunc hashKey ls \<longleftrightarrow>
     ControllerRingForRequest reader (w_api w) ctx = Inr ring \<and>
     unmarshal (req_ObjectRaw req) = Inr obj \<and>
     map_get (om_Labels (po_Meta obj)) (ring_LabelShard ring) = [] \<and>
     FuncForResource lib (req_Resource req) ring = Inr keyFunc \<and>
     keyFunc obj = Inr hashKey \<and> hashKey \<noteq> [] \<and>
     c_ListLeases reader (w_api w) (LeaseSelector ring) = Inr ls"

lemma Handle_assignable:
  assumes "assignable lib unmarshal reader ctx req w ring obj keyFunc hashKey ls"
  shows "Handle lib dh unmarshal reader now ctx req w =
    (let w1 = observe (RingCalculationsTotal (om_Name (cr_Meta ring))) w in
     if desired_shard dh ls hashKey = [] then (Allowed ''there is no available shard'', w1)
     else (Patched ''assigning object''
             (assignment_patches (om_Labels (po_Meta obj)) (ring_LabelShard ring) (desired_shard dh ls hashKey)),
           if req_DryRun req = Some True then w1
           else observe (AssignmentsTotal (om_Name (cr_Meta ring)) (req_Resource req)) w1))"
  using assms
  by (simp add: assignable_def Handle_def FromLeases_eq Let_def ObserveAssignment_def desired_shard_def)

lemma Handle_not_assignable:
  assumes "\<nexists>ring obj keyFunc hashKey ls. assignable lib unmarshal reader ctx req w ring obj keyFunc hashKey ls"
  shows "snd (Handle lib dh unmarshal reader now ctx req w) = w \<and>
    (\<forall>msg ps. fst (Handle lib dh unmarshal reader now ctx req w) \<noteq> Patched msg ps)"
  using assms by (auto simp: assignable_def Handle_def Let_def split: sum.splits prod.splits)

section \<open>Properties\<close>

text \<open>The webhook path of a ring leads back to the ring: for every valid object name the
  path that the webhook configuration carries is parsed to that name.\<close>

theorem webhook_path_roundtrip:
  assumes "plain_elem (om_Name (cr_Meta ring))"
  shows "ControllerRingForWebhookPath (WebhookPathForControllerRing ring) = Inr (named_ring (om_Name (cr_Meta ring)))"
  using assms by (rule webhook_path_back)

lemma webhook_path_roundtrip_witness:
  "ControllerRingForWebhookPath (WebhookPathForControllerRing (named_ring ''my-ring'')) = Inr (named_ring ''my-ring'')"
  using webhook_path_roundtrip [of "named_ring ''my-ring''"]
  by (simp add: named_ring_def plain_elem_def)

text \<open>The escaping of label keys in patch paths is lossless and leaves no slash that would
  be read as a path separator.\<close>

theorem rfc6901_encoding:
  "rfc6901_decode (rfc6901Encoder s) = s \<and> CHR ''/'' \<notin> set (rfc6901Encoder s)"
  by (simp add: rfc6901_roundtrip rfc6901_no_slash)

definition sample_world :: "store world" where
  "sample_world = \<lparr>w_api = \<lparr>sto_rings = [(named_ring ''ring'')\<lparr>cr_Spec := \<lparr>rs_Resources =
       [\<lparr>rr_GroupResource = \<lparr>gr_Group = [], gr_Resource = ''secrets''\<rparr>, rr_ControlledResources = []\<rparr>],
       rs_NamespaceSelector = None\<rparr>\<rparr>],
     sto_leases = [(sample_lease ''s1'')\<lparr>l_Meta := (l_Meta (sample_lease ''s1''))
       \<lparr>om_Labels := Some [LabelControllerRing \<mapsto> ''ring'']\<rparr>\<rparr>],
     sto_namespaces = [''default''], sto_patches = []\<rparr>, w_ops = []\<rparr>"

definition sample_request :: admission_request where
  "sample_request = \<lparr>req_Resource = \<lparr>gr_Group = [], gr_Resource = ''secrets''\<rparr>,
     req_ObjectRaw = [], req_DryRun = None\<rparr>"

definition sample_ctx :: request_context where
  "sample_ctx = Some ''/webhooks/sharder/controllerring/ring''"

lemmas sample_world_simps = sample_world_def sample_request_def sample_ctx_def named_ring_def
  store_client_def ControllerRingForRequest_def RequestPathFromContext_def ControllerRingForWebhookPath_def
  webhookPathPrefix_def HasPrefix_def TrimPrefix_def ObjectKeyFromObject_def LeaseSelector_def

lemma sample_assignable:
  "assignable lib (\<lambda>_. Inr (sample_owner ''default'')) store_client sample_ctx sample_request sample_world
     (hd (sto_rings (w_api sample_world))) (sample_owner ''default'') ForObject ''/Secret/default/foo''
     (sto_leases (w_api sample_world))"
  by (simp add: assignable_def sample_world_simps sample_owner_def sample_lease_def empty_meta_def
      map_get_def FuncForResource_eq ring_resources_def ForObject_def gvk_Empty_def forMetadata_def Let_def)

lemma sample_desired: "desired_shard dh (sto_leases (w_api sample_world)) key = ''s1''"
  using desired_shard_held [of dh "sto_leases (w_api sample_world)" key]
    desired_shard_empty_iff [of dh "sto_leases (w_api sample_world)" key]
  by (auto simp: sample_world_def sample_lease_simps)

text \<open>The webhook never reassigns: an object that carries a shard label for the ring is let
  through without a patch, and nothing is counted.\<close>

theorem webhook_never_reassigns:
  assumes "ControllerRingForRequest reader (w_api w) ctx = Inr ring"
    and "unmarshal (req_ObjectRaw req) = Inr obj"
    and "map_get (om_Labels (po_Meta obj)) (ring_LabelShard ring) \<noteq> []"
  shows "Handle lib dh unmarshal reader now ctx req w = (Allowed ''object is already assigned'', w)"
  using assms by (simp add: Handle_def Let_def)

lemma webhook_never_reassigns_witness:
  "Handle std_lib length_hash
     (\<lambda>_. Inr ((sample_owner ''default'')\<lparr>po_Meta := empty_meta\<lparr>om_Labels := Some [LabelShard ''ring'' \<mapsto> ''s9'']\<rparr>\<rparr>))
     store_client 0 sample_ctx sample_request sample_world = (Allowed ''object is already assigned'', sample_world)"
  by (rule webhook_never_reassigns [where ring = "hd (sto_rings (w_api sample_world))", OF _ refl])
    (simp_all add: sample_world_simps empty_meta_def map_get_def ring_LabelShard_def)

text \<open>An unassigned object of a ring resource is assigned whenever a shard is available: the
  handler answers with the patch for the shard the ring hashes the object to, counts one ring
  calculation and, unless the request is a dry run, one assignment; without an available shard the
  object is let through unassigned.\<close>

theorem webhook_assigns:
  assumes "assignable lib unmarshal reader ctx req w ring obj keyFunc hashKey ls"
  shows "Handle lib dh unmarshal reader now ctx req w =
    (let w1 = observe (RingCalculationsTotal (om_Name (cr_Meta ring))) w in
     if desired_shard dh ls hashKey = [] then (Allowed ''there is no available shard'', w1)
     else (Patched ''assigning object''
             (assignment_patches (om_Labels (po_Meta obj)) (ring_LabelShard ring) (desired_shard dh ls hashKey)),
           if req_DryRun req = Some True then w1
           else observe (AssignmentsTotal (om_Name (cr_Meta ring)) (req_Resource req)) w1))"
  using assms by (rule Handle_assignable)

lemma webhook_assigns_witness:
  "fst (Handle std_lib length_hash (\<lambda>_. Inr (sample_owner ''default'')) store_client 0 sample_ctx sample_request sample_world) =
   Patched ''assigning object'' (assignment_patches None (LabelShard ''ring'') ''s1'')"
  using webhook_assigns [OF sample_assignable, of std_lib length_hash 0]
  by (simp add: sample_desired Let_def)
    (simp add: sample_owner_def empty_meta_def sample_world_def named_ring_def ring_LabelShard_def)

text \<open>Whatever the handler patches is right: the patch assigns the object to a shard that
  holds its lease, the object was unassigned, and applying it sets the ring's shard label and
  changes no other label, also when the object had no label map at all.\<close>

theorem webhook_patch_sound:
  assumes "Handle lib dh unmarshal reader now ctx req w = (Patched msg ps, w')"
    and "JSONPatch_doc apply_patch"
  shows "\<exists>ring obj l. ControllerRingForRequest reader (w_api w) ctx = Inr ring \<and>
    unmarshal (req_ObjectRaw req) = Inr obj \<and>
    map_get (om_Labels (po_Meta obj)) (ring_LabelShard ring) = [] \<and>
    (\<exists>ls. c_ListLeases reader (w_api w) (LeaseSelector ring) = Inr ls \<and> l \<in> set ls) \<and> held l \<and>
    apply_patch ps (om_Labels (po_Meta obj)) =
      Some ((as_map (om_Labels (po_Meta obj)))(ring_LabelShard ring \<mapsto> om_Name (l_Meta l)))"
proof -
  obtain ring obj keyFunc hashKey ls where a:
      "assignable lib unmarshal reader ctx req w ring obj keyFunc hashKey ls"
    using Handle_not_assignable [of lib unmarshal reader ctx req w dh now] assms(1) by fastforce
  let ?d = "desired_shard dh ls hashKey"
  have d: "?d \<noteq> []" and ps: "ps = assignment_patches (om_Labels (po_Meta obj)) (ring_LabelShard ring) ?d"
    using assms(1) Handle_assignable [OF a, of dh now] by (auto simp: Let_def split: if_splits)
  obtain l where "l \<in> set ls" "held l" "om_Name (l_Meta l) = ?d"
    using desired_shard_held [OF d] by blast
  with a ps assignment_patches_apply [OF assms(2)] show ?thesis
    unfolding assignable_def by (intro exI [of _ ring] exI [of _ obj] exI [of _ l]) simp
qed

lemma webhook_patch_sound_witness:
  "\<exists>ring obj l. ControllerRingForRequest store_client (w_api sample_world) sample_ctx = Inr ring \<and>
    (Inr (sample_owner ''default'') :: go_error + partial_object) = Inr obj \<and>
    map_get (om_Labels (po_Meta obj)) (ring_LabelShard ring) = [] \<and>
    (\<exists>ls. c_ListLeases store_client (w_api sample_world) (LeaseSelector ring) = Inr ls \<and> l \<in> set ls) \<and> held l \<and>
    std_apply_patch (assignment_patches None (LabelShard ''ring'') ''s1'') (om_Labels (po_Meta obj)) =
      Some ((as_map (om_Labels (po_Meta obj)))(ring_LabelShard ring \<mapsto> om_Name (l_Meta l)))"
proof -
  have "fst (Handle std_lib length_hash (\<lambda>_. Inr (sample_owner ''default'')) store_client 0 sample_ctx sample_request sample_world) =
     Patched ''assigning object'' (assignment_patches None (LabelShard ''ring'') ''s1'')"
    using Handle_assignable [OF sample_assignable, of std_lib length_hash 0]
    by (simp add: sample_desired Let_def)
      (simp add: sample_owner_def empty_meta_def sample_world_def named_ring_def ring_LabelShard_def)
  then obtain w' where "Handle std_lib length_hash (\<lambda>_. Inr (sample_owner ''default'')) store_client 0 sample_ctx
      sample_request sample_world = (Patched ''assigning object'' (assignment_patches None (LabelShard ''ring'') ''s1''), w')"
    by (metis prod.collapse)
  from webhook_patch_sound [OF this std_apply_patch_doc] show ?thesis .
qed

end
