(* ===== verification/Shard_Controller.thy ===== *)
theory Shard_Controller
  imports K8s_Lib
begin

text \<open>
  The library for sharded controllers: the builder of \<^verbatim>\<open>pkg/shard/controller/builder.go\<close> and the
  wrapping reconciler of \<^verbatim>\<open>pkg/shard/controller/reconciler.go\<close>, which delegates to the actual
  reconciler only for objects of this shard and acknowledges drains. The object kind of the builder
  is a type name; the client reads and patches objects by their metadata. Interface values that may
  be nil are options.
\<close>

section \<open>The sharded reconciler\<close>

record 'w object_client =
  oc_Get :: "'w \<Rightarrow> string \<Rightarrow> nsname \<Rightarrow> go_error + partial_object"
  oc_Patch :: "'w \<Rightarrow> partial_object \<Rightarrow> partial_object \<Rightarrow> go_error option \<times> 'w"

type_synonym 'w reconciler = "nsname \<Rightarrow> 'w \<Rightarrow> (go_error + rec_result) \<times> 'w"

record 'w shard_reconciler =
  sr_Object :: string
  sr_Client :: "'w object_client"
  sr_ControllerRingName :: string
  sr_ShardName :: string
  sr_Do :: "'w reconciler"

text \<open>The object without the two labels of the ring; \<^verbatim>\<open>delete\<close> changes its label map in place.\<close>

definition release_object :: "string \<Rightarrow> partial_object \<Rightarrow> partial_object" where
  "release_object ring obj = obj\<lparr>po_Meta := (po_Meta obj)\<lparr>om_Labels :=
     map_delete (LabelDrain ring) (map_delete (LabelShard ring) (om_Labels (po_Meta obj)))\<rparr>\<rparr>"

definition shard_Reconcile :: "'w shard_reconciler \<Rightarrow> 'w reconciler" where
  "shard_Reconcile r request w =
     (case oc_Get (sr_Client r) w (sr_Object r) request of
        Inl err \<Rightarrow>
          if IsNotFound err then (Inr no_requeue, w)
          else (Inl (wrapf ''error retrieving object from store for determining responsibility'' err), w)
      | Inr obj \<Rightarrow>
          (let labels = om_Labels (po_Meta obj);
               labelShard = LabelShard (sr_ControllerRingName r);
               labelDrain = LabelDrain (sr_ControllerRingName r) in
           if \<not> map_has labels labelShard \<or> map_get labels labelShard \<noteq> sr_ShardName r then (Inr no_requeue, w)
           else if map_has labels labelDrain then
             (case oc_Patch (sr_Client r) w (release_object (sr_ControllerRingName r) obj) obj of
                (Some err, w') \<Rightarrow> (Inl (wrapf ''error draining object'' err), w')
              | (None, w') \<Rightarrow> (Inr no_requeue, w'))
           else sr_Do r request w))"

section \<open>The builder\<close>

record 'w shard_builder =
  b_object :: "string option"
  b_client :: "'w object_client option"
  b_controllerRingName :: string
  b_shardName :: string
  b_err :: "go_error option"

definition WithClient :: "'w object_client option \<Rightarrow> 'w shard_builder \<Rightarrow> 'w shard_builder" where
  "WithClient c b = b\<lparr>b_client := c\<rparr>"

definition NewShardedReconciler :: "'w object_client option \<Rightarrow> 'w shard_builder" where
  "NewShardedReconciler mgrClient = WithClient mgrClient
     \<lparr>b_object = None, b_client = None, b_controllerRingName = [], b_shardName = [], b_err = None\<rparr>"

definition For :: "string option \<Rightarrow> 'w shard_builder \<Rightarrow> 'w shard_builder" where
  "For object b =
     (if b_object b \<noteq> None then b\<lparr>b_err := Some (errorf ''must not call For() more than once'')\<rparr>
      else b\<lparr>b_object := object\<rparr>)"

definition InControllerRing :: "string \<Rightarrow> 'w shard_builder \<Rightarrow> 'w shard_builder" where
  "InControllerRing name b = b\<lparr>b_controllerRingName := name\<rparr>"

definition WithShardName :: "string \<Rightarrow> 'w shard_builder \<Rightarrow> 'w shard_builder" where
  "WithShardName name b = b\<lparr>b_shardName := name\<rparr>"

definition Build :: "'w reconciler option \<Rightarrow> 'w shard_builder \<Rightarrow> go_error + 'w shard_reconciler" where
  "Build r b =
     (case b_err b of
        Some err \<Rightarrow> Inl err
      | None \<Rightarrow>
          (case r of
             None \<Rightarrow> Inl (errorf ''must provide a non-nil Reconciler'')
           | Some do' \<Rightarrow>
               (case b_object b of
                  None \<Rightarrow> Inl (errorf ''missing object kind, must call to For()'')
                | Some object \<Rightarrow>
                    (case b_client b of
                       None \<Rightarrow> Inl (errorf ''missing client'')
                     | Some c \<Rightarrow>
                         if b_controllerRingName b = [] then Inl (errorf ''missing ControllerRing name'')
                         else if b_shardName b = [] then Inl (errorf ''missing shard name'')
                         else Inr \<lparr>sr_Object = object, sr_Client = c, sr_ControllerRingName = b_controllerRingName b,
                           sr_ShardName = b_shardName b, sr_Do = do'\<rparr>))))"

text \<open>\<^verbatim>\<open>utilruntime.Must\<close> panics on an error.\<close>

definition MustBuild :: "'w reconciler option \<Rightarrow> 'w shard_builder \<Rightarrow> 'w shard_reconciler option" where
  "MustBuild r b = (case Build r b of Inl err \<Rightarrow> None | Inr result \<Rightarrow> Some result)"

section \<open>Lemmas\<close>

definition assigned_to :: "string \<Rightarrow> string \<Rightarrow> partial_object \<Rightarrow> bool" where
  "assigned_to ring sh obj \<longleftrightarrow> as_map (om_Labels (po_Meta obj)) (LabelShard ring) = Some sh"

definition drained :: "string \<Rightarrow> partial_object \<Rightarrow> bool" where
  "drained ring obj \<longleftrightarrow> map_has (om_Labels (po_Meta obj)) (LabelDrain ring)"

lemma assigned_iff: "assigned_to ring sh obj \<longleftrightarrow>
  map_has (om_Labels (po_Meta obj)) (LabelShard ring) \<and> map_get (om_Labels (po_Meta obj)) (LabelShard ring) = sh"
  by (auto simp: assigned_to_def map_has_def map_get_def)

lemma shard_Reconcile_eq:
  assumes "oc_Get (sr_Client r) w (sr_Object r) req = Inr obj"
  shows "shard_Reconcile r req w =
    (if \<not> assigned_to (sr_ControllerRingName r) (sr_ShardName r) obj then (Inr no_requeue, w)
     else if drained (sr_ControllerRingName r) obj then
       (case oc_Patch (sr_Client r) w (release_object (sr_ControllerRingName r) obj) obj of
          (Some err, w') \<Rightarrow> (Inl (wrapf ''error draining object'' err), w')
        | (None, w') \<Rightarrow> (Inr no_requeue, w'))
     else sr_Do r req w)"
  using assms by (simp add: shard_Reconcile_def assigned_iff drained_def Let_def)

lemma release_labels: "as_map (om_Labels (po_Meta (release_object ring obj))) =
  (as_map (om_Labels (po_Meta obj)))(LabelShard ring := None, LabelDrain ring := None)"
  by (simp add: release_object_def)

section \<open>Properties\<close>

text \<open>C25: At most one shard works on an object: reconciling on a shard has no effect but that of
  the actual reconciler, and this one runs only if the object is assigned to the shard and not
  drained, and then no shard of another name is assigned; otherwise the only change is the
  acknowledgement of a drain.\<close>

theorem only_assigned_shard_reconciles:
  assumes "oc_Get (sr_Client r) w (sr_Object r) req = Inr obj"
  shows "(shard_Reconcile r req w = sr_Do r req w \<and> assigned_to (sr_ControllerRingName r) (sr_ShardName r) obj \<and>
       \<not> drained (sr_ControllerRingName r) obj \<and>
       (\<forall>other. assigned_to (sr_ControllerRingName r) other obj \<longrightarrow> other = sr_ShardName r)) \<or>
     (\<not> (assigned_to (sr_ControllerRingName r) (sr_ShardName r) obj \<and> \<not> drained (sr_ControllerRingName r) obj) \<and>
      (snd (shard_Reconcile r req w) = w \<or>
       assigned_to (sr_ControllerRingName r) (sr_ShardName r) obj \<and> drained (sr_ControllerRingName r) obj \<and>
       snd (shard_Reconcile r req w) = snd (oc_Patch (sr_Client r) w (release_object (sr_ControllerRingName r) obj) obj)))"
  using shard_Reconcile_eq [OF assms] by (auto simp: assigned_to_def split: prod.splits option.splits)

definition sample_shard_object :: partial_object where
  "sample_shard_object = \<lparr>po_GVK = \<lparr>gvk_Group = [], gvk_Version = ''v1'', gvk_Kind = ''Secret''\<rparr>,
     po_Meta = empty_meta\<lparr>om_Name := ''foo'', om_Labels := Some [LabelShard ''ring'' \<mapsto> ''s1'', LabelDrain ''ring'' \<mapsto> ''true'']\<rparr>\<rparr>"

text \<open>A reconciler over a world that holds one object; the actual reconciler would remove it.\<close>

definition sample_reconciler :: "string \<Rightarrow> partial_object option shard_reconciler" where
  "sample_reconciler sh = \<lparr>sr_Object = ''Secret'', sr_Client = \<lparr>oc_Get = \<lambda>w k n. (case w of None \<Rightarrow> Inl not_found | Some ob \<Rightarrow> Inr ob),
       oc_Patch = \<lambda>w ob base. (None, Some ob)\<rparr>,
     sr_ControllerRingName = ''ring'', sr_ShardName = sh, sr_Do = \<lambda>req w. (Inr no_requeue, None)\<rparr>"

lemma only_assigned_shard_reconciles_witness:
  "snd (shard_Reconcile (sample_reconciler ''s1'') ([], ''foo'') (Some sample_shard_object)) =
     Some (release_object ''ring'' sample_shard_object)"
proof -
  let ?r = "sample_reconciler ''s1''"
  have "oc_Get (sr_Client ?r) (Some sample_shard_object) (sr_Object ?r) ([], ''foo'') = Inr sample_shard_object"
    by (simp add: sample_reconciler_def)
  note shown = only_assigned_shard_reconciles [OF this]
  have "drained ''ring'' sample_shard_object" "assigned_to ''ring'' ''s1'' sample_shard_object"
    by (simp_all add: drained_def assigned_to_def sample_shard_object_def map_has_def)
  then show ?thesis
    using shown shard_Reconcile_eq [of ?r "Some sample_shard_object" "([], ''foo'')" sample_shard_object]
    by (auto simp: sample_reconciler_def)
qed

text \<open>The acknowledgement of a drain gives up exactly this ring's claim: both labels of the ring
  are removed, every other label, also those of other rings, is kept.\<close>

theorem drain_ack_releases:
  "as_map (om_Labels (po_Meta (release_object ring obj))) k =
     (if k = LabelShard ring \<or> k = LabelDrain ring then None else as_map (om_Labels (po_Meta obj)) k) \<and>
   (r' \<noteq> ring \<longrightarrow> (assigned_to r' sh (release_object ring obj) \<longleftrightarrow> assigned_to r' sh obj) \<and>
      (drained r' (release_object ring obj) \<longleftrightarrow> drained r' obj))"
  using labels.release_other_ring [of r' ring "as_map (om_Labels (po_Meta obj))"]
  by (simp add: release_labels assigned_to_def drained_def map_has_def)

lemma drain_ack_releases_witness:
  "assigned_to ''other'' ''s1'' (release_object ''ring'' sample_shard_object) \<longleftrightarrow> assigned_to ''other'' ''s1'' sample_shard_object"
  using drain_ack_releases [of "''ring''" sample_shard_object "[]" "''other''" "''s1''"] by simp

text \<open>The builder builds exactly the complete configurations: \<^verbatim>\<open>Build\<close> succeeds if and only if
  \<^verbatim>\<open>For\<close> was called once with an object, and client, ring name, shard name and reconciler are
  given, and the result carries them.\<close>

theorem builder_complete:
  "(\<exists>r. Build d (WithShardName s (InControllerRing n (For ob (NewShardedReconciler c)))) = Inr r) \<longleftrightarrow>
     d \<noteq> None \<and> ob \<noteq> None \<and> c \<noteq> None \<and> n \<noteq> [] \<and> s \<noteq> [] \<and>
     Build d (WithShardName s (InControllerRing n (For ob (NewShardedReconciler c)))) =
       Inr \<lparr>sr_Object = the ob, sr_Client = the c, sr_ControllerRingName = n, sr_ShardName = s, sr_Do = the d\<rparr> \<and>
     (\<forall>ob'. \<exists>e. Build d (For ob' (For ob (NewShardedReconciler c))) = Inl e)"
  by (cases d; cases ob; cases c)
    (simp_all add: Build_def WithShardName_def InControllerRing_def For_def NewShardedReconciler_def WithClient_def)

end
