(* ===== verification/System.thy ===== *)
theory System
  imports Sharder Webhook Shard_Controller
begin

text \<open>
  The components together, for one sharded main object of one ring. The state is the history of
  the object's versions in the API server (the last one is current), the leases of the ring, and per
  shard whether its process runs, which version its watch cache shows and whether its reconciler is
  working on the object. Caches lag behind by any amount but never go back. Every write to the object
  carries the resource version it is based on, so it succeeds only on the current version. What the
  sharder decides is \<open>workItemForObject\<close>, what a shard decides is the check of the sharded
  reconciler on its cached version, what the webhook answers is the assignment of its handler.

  The sharder and the webhook read leases from caches: each of their decisions is made on some list of leases, which need
  not be the one of the state. For the webhook and for drains the list is arbitrary. For a move without a drain there is one
  condition, which the code does not ensure: the shard of the object has not regained its lease since
  the list was made. Theory \<open>Exclusion\<close> has the run that shows what happens otherwise.

  Facts from outside the sharder are in the rules. Leader election: a running shard holds its
  lease, since it terminates when it loses it. The work queue does not process an object twice at a
  time, so a shard does not acknowledge a drain while its reconciler works on the object. A starting
  shard lists the current version.
\<close>

section \<open>Effects on the object\<close>

definition set_labels :: "partial_object \<Rightarrow> str_map \<Rightarrow> partial_object" where
  "set_labels obj m = obj\<lparr>po_Meta := (po_Meta obj)\<lparr>om_Labels := Some m\<rparr>\<rparr>"

text \<open>The merge patch of a drain sets one label; the merge patch of a move removes both.\<close>

definition drain_object :: "string \<Rightarrow> partial_object \<Rightarrow> partial_object" where
  "drain_object ring obj = set_labels obj ((as_map (om_Labels (po_Meta obj)))(LabelDrain ring \<mapsto> ''true''))"

text \<open>
  Admission of a main object: the webhook assigns an unassigned object to the shard of its key, for the leases it lists. The
  failure policy is to ignore calls that fail, so the object may also pass unassigned. A write that the webhook
  rejects does not happen.
\<close>

definition assign_object :: "hash_fun \<Rightarrow> lease list \<Rightarrow> string \<Rightarrow> partial_object \<Rightarrow> partial_object" where
  "assign_object dh ls ring obj =
     (case ForObject obj of
        Inl _ \<Rightarrow> obj
      | Inr k \<Rightarrow>
          if map_get (om_Labels (po_Meta obj)) (LabelShard ring) \<noteq> [] \<or> k = [] \<or> desired_shard dh ls k = [] then obj
          else set_labels obj ((as_map (om_Labels (po_Meta obj)))(LabelShard ring \<mapsto> desired_shard dh ls k)))"

definition admits :: "hash_fun \<Rightarrow> string \<Rightarrow> partial_object \<Rightarrow> partial_object \<Rightarrow> bool" where
  "admits dh ring obj obj' \<longleftrightarrow> obj' = obj \<or> (\<exists>ls. obj' = assign_object dh ls ring obj)"

section \<open>Steps\<close>

record sys =
  sy_hist :: "partial_object list"
  sy_leases :: "lease list"
  sy_alive :: "string set"
  sy_cache :: "string \<Rightarrow> nat"
  sy_work :: "string set"

abbreviation current :: "sys \<Rightarrow> partial_object" where
  "current s \<equiv> last (sy_hist s)"

definition put :: "partial_object \<Rightarrow> sys \<Rightarrow> sys" where
  "put obj s = s\<lparr>sy_hist := sy_hist s @ [obj]\<rparr>"

definition holds_lease :: "lease list \<Rightarrow> string \<Rightarrow> bool" where
  "holds_lease ls sh \<longleftrightarrow> (\<exists>l \<in> set ls. held l \<and> om_Name (l_Meta l) = sh)"

text \<open>A shard that holds its lease but did not in an older list of the leases.\<close>

definition regained :: "lease list \<Rightarrow> lease list \<Rightarrow> string \<Rightarrow> bool" where
  "regained old ls sh \<longleftrightarrow> holds_lease ls sh \<and> \<not> holds_lease old sh"

abbreviation distinct_names :: "lease list \<Rightarrow> bool" where
  "distinct_names ls \<equiv> distinct (map (\<lambda>l. om_Name (l_Meta l)) ls)"

inductive sys_step :: "k8s_lib \<Rightarrow> hash_fun \<Rightarrow> string \<Rightarrow> sys \<Rightarrow> sys \<Rightarrow> bool" for lib dh ring where
  observe_version: "sh \<in> sy_alive s \<Longrightarrow> sy_cache s sh < n \<Longrightarrow> n < length (sy_hist s) \<Longrightarrow>
     sys_step lib dh ring s (s\<lparr>sy_cache := (sy_cache s)(sh := n)\<rparr>)"
| begin_work: "sh \<in> sy_alive s \<Longrightarrow> assigned_to ring sh (sy_hist s ! sy_cache s sh) \<Longrightarrow> \<not> drained ring (sy_hist s ! sy_cache s sh) \<Longrightarrow>
     sys_step lib dh ring s (s\<lparr>sy_work := insert sh (sy_work s)\<rparr>)"
| end_work: "sys_step lib dh ring s (s\<lparr>sy_work := sy_work s - {sh}\<rparr>)"
| ack_drain: "sh \<in> sy_alive s \<Longrightarrow> sh \<notin> sy_work s \<Longrightarrow> Suc (sy_cache s sh) = length (sy_hist s) \<Longrightarrow>
     assigned_to ring sh (current s) \<Longrightarrow> drained ring (current s) \<Longrightarrow>
     admits dh ring (release_object ring (current s)) obj \<Longrightarrow> sys_step lib dh ring s (put obj s)"
| sharder_drain: "op_from dh ls now o' \<Longrightarrow> om_Name (cr_Meta (op_ControllerRing o')) = ring \<Longrightarrow>
     workItemForObject lib o' gr False (current s) = Inr (Some wi) \<Longrightarrow> wi_drain wi \<Longrightarrow>
     sys_step lib dh ring s (put (drain_object ring (current s)) s)"
| sharder_move: "op_from dh ls now o' \<Longrightarrow> distinct_names ls \<Longrightarrow> \<not> regained ls (sy_leases s) (current_shard o' (current s)) \<Longrightarrow> om_Name (cr_Meta (op_ControllerRing o')) = ring \<Longrightarrow>
     workItemForObject lib o' gr False (current s) = Inr (Some wi) \<Longrightarrow> \<not> wi_drain wi \<Longrightarrow>
     admits dh ring (release_object ring (current s)) obj \<Longrightarrow> sys_step lib dh ring s (put obj s)"
| other_write: "as_map (om_Labels (po_Meta obj)) (LabelShard ring) = as_map (om_Labels (po_Meta (current s))) (LabelShard ring) \<Longrightarrow>
     as_map (om_Labels (po_Meta obj)) (LabelDrain ring) = as_map (om_Labels (po_Meta (current s))) (LabelDrain ring) \<Longrightarrow>
     admits dh ring obj obj' \<Longrightarrow> sys_step lib dh ring s (put obj' s)"
| stop: "sys_step lib dh ring s (s\<lparr>sy_alive := sy_alive s - {sh}, sy_work := sy_work s - {sh}\<rparr>)"
| start: "sh \<notin> sy_alive s \<Longrightarrow> holds_lease (sy_leases s) sh \<Longrightarrow>
     sys_step lib dh ring s (s\<lparr>sy_alive := insert sh (sy_alive s), sy_cache := (sy_cache s)(sh := length (sy_hist s) - 1)\<rparr>)"
| leases_change: "\<forall>sh \<in> sy_alive s. holds_lease ls sh \<Longrightarrow> distinct (map (\<lambda>l. om_Name (l_Meta l)) ls) \<Longrightarrow>
     sys_step lib dh ring s (s\<lparr>sy_leases := ls\<rparr>)"

definition sys_init :: "partial_object \<Rightarrow> sys" where
  "sys_init obj = \<lparr>sy_hist = [obj], sy_leases = [], sy_alive = {}, sy_cache = \<lambda>_. 0, sy_work = {}\<rparr>"

section \<open>Lemmas\<close>

lemma set_labels_simps [simp]:
  "as_map (om_Labels (po_Meta (set_labels obj m))) = m" "po_GVK (set_labels obj m) = po_GVK obj"
  "om_Name (po_Meta (set_labels obj m)) = om_Name (po_Meta obj)" "om_Namespace (po_Meta (set_labels obj m)) = om_Namespace (po_Meta obj)"
  "om_GenerateName (po_Meta (set_labels obj m)) = om_GenerateName (po_Meta obj)"
  by (simp_all add: set_labels_def)

lemma release_meta [simp]:
  "po_GVK (release_object ring obj) = po_GVK obj" "om_Name (po_Meta (release_object ring obj)) = om_Name (po_Meta obj)"
  "om_Namespace (po_Meta (release_object ring obj)) = om_Namespace (po_Meta obj)"
  "om_GenerateName (po_Meta (release_object ring obj)) = om_GenerateName (po_Meta obj)"
  by (simp_all add: release_object_def)

lemma ForObject_relabel [simp]:
  "ForObject (set_labels obj m) = ForObject obj" "ForObject (release_object ring obj) = ForObject obj"
  by (simp_all add: ForObject_def Let_def)

lemma drain_object_assigned [simp]: "assigned_to ring sh (drain_object ring obj) \<longleftrightarrow> assigned_to ring sh obj"
  by (simp add: drain_object_def assigned_to_def)

lemma admits_keeps:
  assumes "admits dh ring obj obj'" and "assigned_to ring sh obj" and "sh \<noteq> []"
  shows "obj' = obj"
  using assms by (cases "ForObject obj") (auto simp: admits_def assign_object_def assigned_to_def map_get_def)

lemma current_shard_assigned:
  "om_Name (cr_Meta (op_ControllerRing o')) = ring \<Longrightarrow> assigned_to ring sh obj \<Longrightarrow> current_shard o' obj = sh"
  by (auto simp: current_shard_def assigned_to_def map_get_def ring_LabelShard_def)

section \<open>The invariant\<close>

text \<open>
  A running shard that could still see an undrained version assigned to it is assigned the object
  ever since that version.
\<close>

definition undisturbed :: "string \<Rightarrow> sys \<Rightarrow> string \<Rightarrow> bool" where
  "undisturbed ring s sh \<longleftrightarrow> (\<forall>i j. sy_cache s sh \<le> i \<and> i \<le> j \<and> j < length (sy_hist s) \<and>
     assigned_to ring sh (sy_hist s ! i) \<and> \<not> drained ring (sy_hist s ! i) \<longrightarrow> assigned_to ring sh (sy_hist s ! j))"

definition sys_inv :: "string \<Rightarrow> sys \<Rightarrow> bool" where
  "sys_inv ring s \<longleftrightarrow> sy_hist s \<noteq> [] \<and> distinct (map (\<lambda>l. om_Name (l_Meta l)) (sy_leases s)) \<and>
     (\<forall>sh \<in> sy_alive s. holds_lease (sy_leases s) sh \<and> sy_cache s sh < length (sy_hist s) \<and> undisturbed ring s sh) \<and>
     (\<forall>sh \<in> sy_work s. sh \<in> sy_alive s \<and> assigned_to ring sh (current s))"

lemma undisturbed_later:
  assumes "undisturbed ring s sh" and "sy_hist s' = sy_hist s" and "sy_cache s sh \<le> sy_cache s' sh"
  shows "undisturbed ring s' sh"
  using assms(1) unfolding undisturbed_def assms(2) by (meson assms(3) order_trans)

lemma undisturbed_last: "Suc (sy_cache s sh) = length (sy_hist s) \<Longrightarrow> undisturbed ring s sh"
  unfolding undisturbed_def by (metis le_antisym less_Suc_eq_le order_trans)

lemma sys_invD:
  assumes "sys_inv ring s"
  shows "sy_hist s \<noteq> []" "distinct (map (\<lambda>l. om_Name (l_Meta l)) (sy_leases s))"
    "sh \<in> sy_alive s \<Longrightarrow> holds_lease (sy_leases s) sh" "sh \<in> sy_alive s \<Longrightarrow> sy_cache s sh < length (sy_hist s)"
    "sh \<in> sy_alive s \<Longrightarrow> undisturbed ring s sh"
    "sh \<in> sy_work s \<Longrightarrow> sh \<in> sy_alive s" "sh \<in> sy_work s \<Longrightarrow> assigned_to ring sh (current s)"
  using assms by (simp_all add: sys_inv_def)

text \<open>Steps that do not write the object: new state components, the same history.\<close>

lemma sys_inv_frame:
  assumes inv: "sys_inv ring s" and h: "sy_hist s' = sy_hist s"
    and ls: "distinct (map (\<lambda>l. om_Name (l_Meta l)) (sy_leases s'))" "\<And>sh. sh \<in> sy_alive s' \<Longrightarrow> holds_lease (sy_leases s') sh"
    and c: "\<And>sh. sh \<in> sy_alive s' \<Longrightarrow> (sh \<in> sy_alive s \<and> sy_cache s sh \<le> sy_cache s' sh \<and> sy_cache s' sh < length (sy_hist s)) \<or>
      Suc (sy_cache s' sh) = length (sy_hist s)"
    and w: "\<And>sh. sh \<in> sy_work s' \<Longrightarrow> sh \<in> sy_alive s' \<and> assigned_to ring sh (current s)"
  shows "sys_inv ring s'"
proof -
  have "sy_cache s' sh < length (sy_hist s') \<and> undisturbed ring s' sh" if "sh \<in> sy_alive s'" for sh
    using c [OF that] undisturbed_later [OF sys_invD(5) [OF inv] h] undisturbed_last [of s' sh ring] h by auto
  then show ?thesis using inv h ls w by (simp add: sys_inv_def)
qed

lemma sys_inv_init: "sys_inv ring (sys_init obj)"
  by (simp add: sys_inv_def sys_init_def)

lemma undisturbed_current:
  assumes "undisturbed ring s sh" and "sy_cache s sh \<le> i" and "i < length (sy_hist s)"
    and "assigned_to ring sh (sy_hist s ! i)" and "\<not> drained ring (sy_hist s ! i)"
  shows "assigned_to ring sh (current s)"
proof -
  have "sy_hist s \<noteq> []" and "i \<le> length (sy_hist s) - 1" using assms(3) by auto
  then show ?thesis
    using assms unfolding undisturbed_def by (metis last_conv_nth diff_less length_greater_0_conv less_numeral_extra(1))
qed

text \<open>A write keeps the invariant if it takes the object only from a shard that acknowledges a drain.\<close>

lemma sys_inv_put:
  assumes inv: "sys_inv ring s"
    and keeps: "\<And>sh. sh \<in> sy_alive s \<Longrightarrow> assigned_to ring sh (current s) \<Longrightarrow>
      assigned_to ring sh obj \<or> sh \<notin> sy_work s \<and> Suc (sy_cache s sh) = length (sy_hist s) \<and> drained ring (current s)"
  shows "sys_inv ring (put obj s)"
proof -
  have "undisturbed ring (put obj s) sh" if sh: "sh \<in> sy_alive s" for sh
    unfolding undisturbed_def
  proof (intro allI impI, elim conjE)
    fix i j
    let ?h = "sy_hist (put obj s)"
    assume ij: "sy_cache (put obj s) sh \<le> i" "i \<le> j" "j < length ?h" and a: "assigned_to ring sh (?h ! i)" "\<not> drained ring (?h ! i)"
    have u: "undisturbed ring s sh" and ne: "sy_hist s \<noteq> []" using inv sh by (auto simp: sys_inv_def)
    show "assigned_to ring sh (?h ! j)"
    proof (cases "i < length (sy_hist s)")
      case True
      then have old: "assigned_to ring sh (sy_hist s ! i)" "\<not> drained ring (sy_hist s ! i)" "sy_cache s sh \<le> i"
        using a ij by (auto simp: put_def nth_append)
      have cur: "assigned_to ring sh (current s)" using undisturbed_current [OF u old(3) True old(1,2)] .
      have "\<not> (Suc (sy_cache s sh) = length (sy_hist s) \<and> drained ring (current s))"
      proof
        assume d: "Suc (sy_cache s sh) = length (sy_hist s) \<and> drained ring (current s)"
        then have "i = length (sy_hist s) - 1" using old(3) True by linarith
        then have "current s = sy_hist s ! i" using ne by (simp add: last_conv_nth)
        with d old(2) show False by simp
      qed
      then have "assigned_to ring sh obj" using keeps [OF sh cur] by blast
      moreover have "assigned_to ring sh (sy_hist s ! j)" if "j < length (sy_hist s)"
        using u old ij that unfolding undisturbed_def by blast
      ultimately show ?thesis using ij(3) by (auto simp: put_def nth_append)
    next
      case False
      then have "j = i" using ij by (simp add: put_def)
      then show ?thesis using a(1) by simp
    qed
  qed
  moreover have "\<forall>sh \<in> sy_work s. assigned_to ring sh obj"
    using inv keeps by (auto simp: sys_inv_def)
  ultimately show ?thesis using inv by (auto simp: sys_inv_def put_def)
qed

lemma alive_nonempty: "sys_inv ring s \<Longrightarrow> sh \<in> sy_alive s \<Longrightarrow> sh \<noteq> []"
  by (auto simp: sys_inv_def holds_lease_def held_def)

lemma sys_inv_step: "sys_step lib dh ring s s' \<Longrightarrow> sys_inv ring s \<Longrightarrow> sys_inv ring s'"
proof (induction rule: sys_step.induct)
  case (observe_version sh s n)
  note inv = observe_version.prems
  show ?case
    by (rule sys_inv_frame [OF inv]) (use sys_invD [OF inv] observe_version in \<open>simp_all split: if_splits\<close>)
next
  case (begin_work sh s)
  note inv = begin_work.prems
  have "assigned_to ring sh (current s)"
    by (rule undisturbed_current [OF sys_invD(5) [OF inv] order_refl]) (use sys_invD(4) [OF inv] begin_work in simp_all)
  then show ?case
    by - (rule sys_inv_frame [OF inv], use sys_invD [OF inv] begin_work in auto)
next
  case (end_work s sh)
  note inv = end_work.prems
  show ?case by (rule sys_inv_frame [OF inv]) (use sys_invD [OF inv] in auto)
next
  case (ack_drain sh s obj)
  then show ?case by (intro sys_inv_put) (auto simp: assigned_to_def)
next
  case (sharder_drain ls now o' s gr wi)
  then show ?case by (intro sys_inv_put) auto
next
  case (sharder_move ls now o' s gr wi obj)
  have "\<not> assigned_to ring sh (current s)" if sh: "sh \<in> sy_alive s" for sh
  proof
    assume "assigned_to ring sh (current s)"
    then have cur: "current_shard o' (current s) = sh" using sharder_move(4) by (simp add: current_shard_assigned)
    have "holds_lease (sy_leases s) sh" using sh sharder_move.prems by (simp add: sys_inv_def)
    then have "holds_lease ls sh" using sharder_move(3) cur by (simp add: regained_def)
    then show False using wi_drain_iff [OF sharder_move(1,2,5)] sharder_move(6) cur by (simp add: holds_lease_def)
  qed
  with sharder_move.prems show ?case by (intro sys_inv_put) auto
next
  case (other_write obj s obj')
  have "assigned_to ring sh obj'" if "sh \<in> sy_alive s" "assigned_to ring sh (current s)" for sh
  proof -
    have "assigned_to ring sh obj" using that(2) other_write(1) by (simp add: assigned_to_def)
    then show ?thesis
      using admits_keeps [OF other_write(3)] alive_nonempty [OF other_write.prems that(1)] by metis
  qed
  with other_write.prems show ?case by (intro sys_inv_put) auto
next
  case (stop s sh)
  note inv = stop.prems
  show ?case by (rule sys_inv_frame [OF inv]) (use sys_invD [OF inv] in auto)
next
  case (start sh s)
  note inv = start.prems
  have "0 < length (sy_hist s)" using sys_invD(1) [OF inv] by simp
  then show ?case
    by - (rule sys_inv_frame [OF inv], use sys_invD [OF inv] start in \<open>auto split: if_splits\<close>)
next
  case (leases_change s ls)
  note inv = leases_change.prems
  show ?case by (rule sys_inv_frame [OF inv]) (use sys_invD [OF inv] leases_change in auto)
qed

lemma sys_inv_run: "(sys_step lib dh ring)\<^sup>*\<^sup>* s s' \<Longrightarrow> sys_inv ring s \<Longrightarrow> sys_inv ring s'"
  by (induction rule: rtranclp_induct) (auto intro: sys_inv_step)

text \<open>The object the API server stores after it asked the webhook; \<open>None\<close>: an error response denies the request.\<close>

definition admitted :: "(patch_op list \<Rightarrow> go_map \<Rightarrow> go_map) \<Rightarrow> partial_object \<Rightarrow> admission_response \<Rightarrow> partial_object option" where
  "admitted apply_patch obj resp =
     (case resp of
        Patched msg ps \<Rightarrow> Some (obj\<lparr>po_Meta := (po_Meta obj)\<lparr>om_Labels := apply_patch ps (om_Labels (po_Meta obj))\<rparr>\<rparr>)
      | Allowed msg \<Rightarrow> Some obj
      | Errored code err \<Rightarrow> None)"

lemma assign_object_assigned:
  assumes "ForObject obj = Inr k" and "k \<noteq> []" and "desired_shard dh ls k \<noteq> []"
    and "map_get (om_Labels (po_Meta obj)) (LabelShard ring) = []"
  shows "assigned_to ring (desired_shard dh ls k) (assign_object dh ls ring obj)"
  using assms by (simp add: assign_object_def assigned_to_def)

lemma released_unassigned: "map_get (om_Labels (po_Meta (release_object ring obj))) (LabelShard ring) = []"
  using release_labels [of ring obj] by (simp add: map_get_def)

lemma drain_object_ForObject [simp]: "ForObject (drain_object ring obj) = ForObject obj"
  by (simp add: drain_object_def)

lemma correctly_assigned_no_work:
  assumes "op_from dh ls now o'" and "ForObject obj = Inr k"
    and "assigned_to (om_Name (cr_Meta (op_ControllerRing o'))) (desired_shard dh ls k) obj"
  shows "workItemForObject lib o' gr False obj = Inr None"
  using assms current_shard_assigned [OF refl assms(3)]
  by (simp add: workItemForObject_def op_from_def desired_shard_def current_shard_def Let_def)

lemma assign_object_ForObject [simp]: "ForObject (assign_object dh ls ring obj) = ForObject obj"
  by (simp add: assign_object_def split: sum.split)

text \<open>
  When a request is rejected: the ring or the object cannot be read, or the object is unassigned and its key or the
  leases cannot be determined.
\<close>

definition request_rejected ::
  "k8s_lib \<Rightarrow> (string \<Rightarrow> go_error + partial_object) \<Rightarrow> 'w client \<Rightarrow> 'w \<Rightarrow> request_context \<Rightarrow> admission_request \<Rightarrow> bool"
where
  "request_rejected lib unmarshal reader api ctx req \<longleftrightarrow>
     (\<forall>ring obj. ControllerRingForRequest reader api ctx = Inr ring \<and> unmarshal (req_ObjectRaw req) = Inr obj \<longrightarrow>
        map_get (om_Labels (po_Meta obj)) (ring_LabelShard ring) = [] \<and>
        (\<forall>f k. FuncForResource lib (req_Resource req) ring = Inr f \<and> f obj = Inr k \<longrightarrow>
           k \<noteq> [] \<and> isl (c_ListLeases reader api (LeaseSelector ring))))"

lemma Handle_rejects:
  "admitted apply_patch obj (fst (Handle lib dh unmarshal reader now ctx req w)) = None \<longleftrightarrow>
     request_rejected lib unmarshal reader (w_api w) ctx req"
  by (auto simp: request_rejected_def admitted_def Handle_def FromLeases_eq Let_def isl_def split: sum.split)

lemma Handle_keeps_assigned:
  assumes "ControllerRingForRequest reader (w_api w) ctx = Inr ring" and "unmarshal (req_ObjectRaw req) = Inr obj"
    and "map_get (om_Labels (po_Meta obj)) (ring_LabelShard ring) \<noteq> []"
  shows "admitted apply_patch obj (fst (Handle lib dh unmarshal reader now ctx req w)) = Some obj"
  using assms by (simp add: admitted_def Handle_def Let_def)

lemma Handle_assigns:
  assumes "ControllerRingForRequest reader (w_api w) ctx = Inr ring" and "unmarshal (req_ObjectRaw req) = Inr obj"
    and "map_get (om_Labels (po_Meta obj)) (ring_LabelShard ring) = []"
    and "FuncForResource lib (req_Resource req) ring = Inr f" and "f obj = Inr k"
    and "c_ListLeases reader (w_api w) (LeaseSelector ring) = Inr ls" and "JSONPatch_doc apply_patch"
  shows "admitted apply_patch obj (fst (Handle lib dh unmarshal reader now ctx req w)) =
    Some (if k = [] \<or> desired_shard dh ls k = [] then obj
      else set_labels obj ((as_map (om_Labels (po_Meta obj)))(ring_LabelShard ring \<mapsto> desired_shard dh ls k)))"
  using assms(1-6) assignment_patches_apply [OF assms(7)]
  by (simp add: admitted_def Handle_def FromLeases_eq desired_shard_def set_labels_def Let_def)

lemma admitted_Handle:
  assumes "ControllerRingForRequest reader (w_api w) ctx = Inr ring" and "unmarshal (req_ObjectRaw req) = Inr obj"
    and "FuncForResource lib (req_Resource req) ring = Inr ForObject" and "ForObject obj = Inr k"
    and "c_ListLeases reader (w_api w) (LeaseSelector ring) = Inr ls" and "JSONPatch_doc apply_patch"
  shows "admitted apply_patch obj (fst (Handle lib dh unmarshal reader now ctx req w)) =
    Some (assign_object dh ls (om_Name (cr_Meta ring)) obj)"
proof (cases "map_get (om_Labels (po_Meta obj)) (ring_LabelShard ring) = []")
  case True
  from Handle_assigns [where apply_patch = apply_patch and unmarshal = unmarshal, OF assms(1,2) True assms(3-6)] show ?thesis
    using True assms(4) by (simp add: assign_object_def ring_LabelShard_def)
next
  case False
  from Handle_keeps_assigned [where unmarshal = unmarshal, OF assms(1,2) False] show ?thesis
    using False assms(4) by (simp add: assign_object_def ring_LabelShard_def)
qed

lemma working_shard_unique:
  assumes "(sys_step lib dh ring)\<^sup>*\<^sup>* (sys_init obj) s" and "sh1 \<in> sy_work s" and "sh2 \<in> sy_work s"
  shows "sh1 = sh2"
proof -
  have inv: "sys_inv ring s" using sys_inv_run [OF assms(1) sys_inv_init] .
  have "assigned_to ring sh1 (current s)" "assigned_to ring sh2 (current s)"
    using sys_invD(7) [OF inv] assms(2,3) by blast+
  then show ?thesis by (simp add: assigned_to_def)
qed

section \<open>Properties\<close>


definition sample_sys :: sys where
  "sample_sys = \<lparr>sy_hist = [sample_object ''default'' [LabelShard ''ring'' \<mapsto> ''s1'']], sy_leases = [sample_lease ''s1''],
     sy_alive = {''s1''}, sy_cache = \<lambda>_. 0, sy_work = {''s1''}\<rparr>"

lemma sample_sys_reachable:
  "(sys_step lib dh ''ring'')\<^sup>*\<^sup>* (sys_init (sample_object ''default'' [LabelShard ''ring'' \<mapsto> ''s1''])) sample_sys"
proof -
  let ?obj = "sample_object ''default'' [LabelShard ''ring'' \<mapsto> ''s1'']" and ?step = "sys_step lib dh ''ring''"
  define s1 where "s1 = (sys_init ?obj)\<lparr>sy_leases := [sample_lease ''s1'']\<rparr>"
  define s2 where "s2 = s1\<lparr>sy_alive := insert ''s1'' (sy_alive s1), sy_cache := (sy_cache s1)(''s1'' := length (sy_hist s1) - 1)\<rparr>"
  have l: "holds_lease [sample_lease ''s1''] ''s1''" by (simp add: holds_lease_def sample_lease_simps)
  have "?step (sys_init ?obj) s1"
    unfolding s1_def by (rule sys_step.leases_change) (simp_all add: sys_init_def)
  moreover have "?step s1 s2"
    unfolding s2_def by (rule sys_step.start) (simp_all add: s1_def sys_init_def l)
  moreover have "?step s2 (s2\<lparr>sy_work := insert ''s1'' (sy_work s2)\<rparr>)"
    by (rule sys_step.begin_work) (simp_all add: s2_def s1_def sys_init_def assigned_to_def drained_def map_has_def
        sample_object_def LabelShard_neq_LabelDrain [symmetric])
  moreover have "s2\<lparr>sy_work := insert ''s1'' (sy_work s2)\<rparr> = sample_sys"
    by (simp add: s2_def s1_def sys_init_def sample_sys_def fun_eq_iff)
  ultimately show ?thesis by (simp add: converse_rtranclp_into_rtranclp)
qed


text \<open>C9: What the webhook handler makes of a request, for every resource of a ring and on every path. The request is rejected exactly
  if the ring or the object cannot be read, or the object is not assigned and the resource is not part of the ring, the
  key cannot be determined or the leases cannot be listed. Otherwise the object is stored as it is if it
  is assigned, has an empty key or no shard is available, and else with the shard label set to the shard that its key hashes to
  among the listed leases, all other labels being kept.\<close>

theorem handler_implements_admission:
  assumes "JSONPatch_doc apply_patch"
  shows "(admitted apply_patch obj (fst (Handle lib dh unmarshal reader now ctx req w)) = None \<longleftrightarrow>
      request_rejected lib unmarshal reader (w_api w) ctx req) \<and>
    (\<forall>ring f k ls. ControllerRingForRequest reader (w_api w) ctx = Inr ring \<and> unmarshal (req_ObjectRaw req) = Inr obj \<longrightarrow>
      (map_get (om_Labels (po_Meta obj)) (ring_LabelShard ring) \<noteq> [] \<longrightarrow>
         admitted apply_patch obj (fst (Handle lib dh unmarshal reader now ctx req w)) = Some obj) \<and>
      (map_get (om_Labels (po_Meta obj)) (ring_LabelShard ring) = [] \<and> FuncForResource lib (req_Resource req) ring = Inr f \<and>
         f obj = Inr k \<and> c_ListLeases reader (w_api w) (LeaseSelector ring) = Inr ls \<longrightarrow>
         admitted apply_patch obj (fst (Handle lib dh unmarshal reader now ctx req w)) =
           Some (if k = [] \<or> desired_shard dh ls k = [] then obj
             else set_labels obj ((as_map (om_Labels (po_Meta obj)))(ring_LabelShard ring \<mapsto> desired_shard dh ls k)))))"
proof (intro conjI allI impI; (elim conjE)?)
  fix ring f k ls
  assume r: "ControllerRingForRequest reader (w_api w) ctx = Inr ring" "unmarshal (req_ObjectRaw req) = Inr obj"
  show "admitted apply_patch obj (fst (Handle lib dh unmarshal reader now ctx req w)) = Some obj"
    if "map_get (om_Labels (po_Meta obj)) (ring_LabelShard ring) \<noteq> []"
    by (rule Handle_keeps_assigned [where unmarshal = unmarshal, OF r that])
  assume "map_get (om_Labels (po_Meta obj)) (ring_LabelShard ring) = []" "FuncForResource lib (req_Resource req) ring = Inr f"
    "f obj = Inr k" "c_ListLeases reader (w_api w) (LeaseSelector ring) = Inr ls"
  from Handle_assigns [where unmarshal = unmarshal, OF r this assms]
  show "admitted apply_patch obj (fst (Handle lib dh unmarshal reader now ctx req w)) = Some (if k = [] \<or> desired_shard dh ls k = [] then obj
      else set_labels obj ((as_map (om_Labels (po_Meta obj)))(ring_LabelShard ring \<mapsto> desired_shard dh ls k)))" .
qed (rule Handle_rejects)

lemma handler_implements_admission_witness:
  "admitted std_apply_patch (sample_owner ''default'') (fst (Handle std_lib length_hash (\<lambda>_. Inr (sample_owner ''default''))
      store_client 0 sample_ctx sample_request sample_world)) =
    Some (set_labels (sample_owner ''default'') ((as_map (om_Labels (po_Meta (sample_owner ''default''))))(LabelShard ''ring'' \<mapsto> ''s1'')))"
proof -
  let ?ring = "hd (sto_rings (w_api sample_world))"
  have "ring_LabelShard ?ring = LabelShard ''ring''" by (simp add: sample_world_def named_ring_def ring_LabelShard_def)
  with sample_assignable [of std_lib] sample_desired show ?thesis
    using handler_implements_admission [OF std_apply_patch_doc, of "sample_owner ''default''" std_lib length_hash "\<lambda>_. Inr (sample_owner ''default'')"
        store_client 0 sample_ctx sample_request sample_world]
    unfolding assignable_def by (elim conjE) (simp del: as_map_simps)
qed

end
