(* ===== verification/Resync.thy ===== *)
theory Resync
  imports Sharder "HOL-Library.Multiset"
begin

text \<open>
  The concurrent execution of \<^verbatim>\<open>ResyncControllerRing\<close> (\<^verbatim>\<open>pkg/controller/sharder/reconciler.go\<close>): a
  work generator sends work items to a queue that buffers as many items as there are workers, every
  worker runs \<^verbatim>\<open>processNextWorkItem\<close> in a loop, generator and workers send their errors over an
  unbuffered channel to the caller, which returns once all of them have stopped. One step of the
  relation \<open>resync_step\<close> is one channel operation or one API call of one of them. The generator is
  its program of sends, as compiled by \<open>compileWorkItemsForRing\<close>; \<open>boundary\<close> tells at which numbers
  of remaining sends the pager is about to fetch or hand over a page, the points where it notices
  that the context is cancelled and gives up the resource it lists.
\<close>

section \<open>State and steps\<close>

datatype worker = Idle | Busy work_item | Reporting "go_error option" | Stopped

record 'w resync =
  rs_prod :: "prod_action list option"
  rs_queue :: "work_item list"
  rs_workers :: "worker list"
  rs_errs :: "go_error list"
  rs_cancelled :: bool
  rs_world :: "'w world"
  rs_log :: "work_item list"
  rs_ret :: "go_error option option"

text \<open>
  \<open>rs_prod\<close> is \<open>None\<close> once the generator has closed the queue. \<open>rs_log\<close> is a history of the
  processed items. Making a channel of negative size panics, so the start has no state then.
\<close>

definition resync_init :: "int \<Rightarrow> prod_action list \<Rightarrow> 'w world \<Rightarrow> 'w resync option" where
  "resync_init concurrency acts w =
     (if concurrency < 0 then None
      else Some \<lparr>rs_prod = Some acts, rs_queue = [], rs_workers = replicate (nat concurrency) Idle, rs_errs = [],
        rs_cancelled = False, rs_world = w, rs_log = [], rs_ret = None\<rparr>)"

fun is_send_work :: "prod_action \<Rightarrow> bool" where
  "is_send_work (SendWork _) = True"
| "is_send_work (SendErr _) = False"

definition err_list :: "go_error option \<Rightarrow> go_error list" where
  "err_list e = (case e of None \<Rightarrow> [] | Some x \<Rightarrow> [x])"

inductive resync_step ::
  "k8s_lib \<Rightarrow> 'w client \<Rightarrow> operation \<Rightarrow> (nat \<Rightarrow> bool) \<Rightarrow> nat \<Rightarrow> 'w resync \<Rightarrow> 'w resync \<Rightarrow> bool"
  for lib c o' boundary cap
where
  send_work: "rs_prod s = Some (SendWork wi # acts) \<Longrightarrow> length (rs_queue s) < cap \<Longrightarrow>
     resync_step lib c o' boundary cap s (s\<lparr>rs_prod := Some acts, rs_queue := rs_queue s @ [wi]\<rparr>)"
| send_err: "rs_prod s = Some (SendErr es # acts) \<Longrightarrow> rs_ret s = None \<Longrightarrow>
     resync_step lib c o' boundary cap s (s\<lparr>rs_prod := Some acts, rs_errs := rs_errs s @ es\<rparr>)"
| give_up: "rs_cancelled s \<Longrightarrow> rs_prod s = Some acts \<Longrightarrow> boundary (length acts) \<Longrightarrow> rs_ret s = None \<Longrightarrow>
     dropWhile is_send_work acts = SendErr es # acts' \<Longrightarrow>
     resync_step lib c o' boundary cap s (s\<lparr>rs_prod := Some acts', rs_errs := rs_errs s @ es @ [ctx_err]\<rparr>)"
| close_work: "rs_prod s = Some [] \<Longrightarrow> resync_step lib c o' boundary cap s (s\<lparr>rs_prod := None\<rparr>)"
| take_item: "i < length (rs_workers s) \<Longrightarrow> rs_workers s ! i = Idle \<Longrightarrow> rs_queue s = wi # q \<Longrightarrow>
     resync_step lib c o' boundary cap s (s\<lparr>rs_queue := q, rs_workers := (rs_workers s)[i := Busy wi]\<rparr>)"
| work: "i < length (rs_workers s) \<Longrightarrow> rs_workers s ! i = Busy wi \<Longrightarrow>
     process_item lib c o' wi (rs_world s) = (e, w') \<Longrightarrow>
     resync_step lib c o' boundary cap s (s\<lparr>rs_world := w', rs_log := rs_log s @ [wi],
       rs_workers := (rs_workers s)[i := Reporting e]\<rparr>)"
| report: "i < length (rs_workers s) \<Longrightarrow> rs_workers s ! i = Reporting e \<Longrightarrow> rs_ret s = None \<Longrightarrow>
     resync_step lib c o' boundary cap s (s\<lparr>rs_errs := rs_errs s @ err_list e, rs_workers := (rs_workers s)[i := Idle]\<rparr>)"
| queue_closed: "i < length (rs_workers s) \<Longrightarrow> rs_workers s ! i = Idle \<Longrightarrow> rs_prod s = None \<Longrightarrow> rs_queue s = [] \<Longrightarrow>
     resync_step lib c o' boundary cap s (s\<lparr>rs_workers := (rs_workers s)[i := Stopped]\<rparr>)"
| ctx_stop: "i < length (rs_workers s) \<Longrightarrow> rs_workers s ! i = Idle \<Longrightarrow> rs_cancelled s \<Longrightarrow>
     resync_step lib c o' boundary cap s (s\<lparr>rs_workers := (rs_workers s)[i := Stopped]\<rparr>)"
| finish: "rs_prod s = None \<Longrightarrow> list_all (\<lambda>w. w = Stopped) (rs_workers s) \<Longrightarrow> rs_ret s = None \<Longrightarrow>
     resync_step lib c o' boundary cap s (s\<lparr>rs_ret := Some (ErrorOrNil (rs_errs s))\<rparr>)"
| cancel: "\<not> rs_cancelled s \<Longrightarrow> resync_step lib c o' boundary cap s (s\<lparr>rs_cancelled := True\<rparr>)"

inductive_cases resync_stepE: "resync_step lib c o' boundary cap s s'"

section \<open>Accounting for items and errors\<close>

lemma sum_list_update_add:
  fixes f :: "'a \<Rightarrow> 'b :: comm_monoid_add"
  shows "i < length xs \<Longrightarrow> sum_list (map f (xs[i := y])) + f (xs ! i) = sum_list (map f xs) + f y"
proof (induction xs arbitrary: i)
  case (Cons x xs)
  then show ?case by (cases i) (auto simp: algebra_simps split: nat.splits)
qed simp

fun act_items :: "prod_action \<Rightarrow> work_item multiset" where
  "act_items (SendWork wi) = {#wi#}"
| "act_items (SendErr _) = {#}"

fun act_errs :: "prod_action \<Rightarrow> go_error multiset" where
  "act_errs (SendWork wi) = {#}"
| "act_errs (SendErr es) = mset es"

fun worker_items :: "worker \<Rightarrow> work_item multiset" where
  "worker_items (Busy wi) = {#wi#}"
| "worker_items _ = {#}"

fun worker_errs :: "worker \<Rightarrow> go_error multiset" where
  "worker_errs (Reporting e) = mset (err_list e)"
| "worker_errs _ = {#}"

definition prod_acts :: "'w resync \<Rightarrow> prod_action list" where
  "prod_acts s = (case rs_prod s of None \<Rightarrow> [] | Some acts \<Rightarrow> acts)"

definition items_in :: "'w resync \<Rightarrow> work_item multiset" where
  "items_in s = sum_list (map act_items (prod_acts s)) + mset (rs_queue s)
     + sum_list (map worker_items (rs_workers s)) + mset (rs_log s)"

definition errs_in :: "'w resync \<Rightarrow> go_error multiset" where
  "errs_in s = sum_list (map act_errs (prod_acts s)) + sum_list (map worker_errs (rs_workers s)) + mset (rs_errs s)"

definition run_log :: "k8s_lib \<Rightarrow> 'w client \<Rightarrow> operation \<Rightarrow> work_item list \<Rightarrow> 'w world \<Rightarrow> go_error list \<times> 'w world" where
  "run_log lib c o' items w = run_actions lib c o' (map SendWork items) w"

lemma run_actions_append: "run_actions lib c o' (a @ b) w =
  (let (es, w1) = run_actions lib c o' a w; (es', w2) = run_actions lib c o' b w1 in (es @ es', w2))"
  by (induction lib c o' a w rule: run_actions.induct) (simp_all add: Let_def split: prod.splits)

lemma run_log_snoc: "run_log lib c o' items w = (es, w1) \<Longrightarrow> process_item lib c o' wi w1 = (e, w2) \<Longrightarrow>
  run_log lib c o' (items @ [wi]) w = (es @ err_list e, w2)"
  by (simp add: run_log_def run_actions_append err_list_def split: option.splits)

lemma run_send_errs: "run_actions lib c o' (map SendErr ess) w = (concat ess, w)"
  by (induction ess) simp_all

section \<open>The invariant\<close>

definition resync_control :: "nat \<Rightarrow> 'w resync \<Rightarrow> bool" where
  "resync_control cap s \<longleftrightarrow>
     length (rs_workers s) = cap \<and> length (rs_queue s) \<le> cap \<and>
     (\<not> rs_cancelled s \<and> Stopped \<in> set (rs_workers s) \<longrightarrow> rs_prod s = None \<and> rs_queue s = []) \<and>
     (rs_ret s \<noteq> None \<longrightarrow> rs_prod s = None \<and> list_all (\<lambda>x. x = Stopped) (rs_workers s) \<and>
        rs_ret s = Some (ErrorOrNil (rs_errs s)))"

definition resync_inv ::
  "k8s_lib \<Rightarrow> 'w client \<Rightarrow> operation \<Rightarrow> nat \<Rightarrow> prod_action list \<Rightarrow> 'w world \<Rightarrow> 'w resync \<Rightarrow> bool"
where
  "resync_inv lib c o' cap acts w s \<longleftrightarrow>
     (\<exists>les. run_log lib c o' (rs_log s) w = (les, rs_world s) \<and>
        (\<not> rs_cancelled s \<longrightarrow> items_in s = sum_list (map act_items acts) \<and>
           errs_in s = sum_list (map act_errs acts) + mset les)) \<and>
     items_in s \<subseteq># sum_list (map act_items acts) \<and>
     resync_control cap s"

lemma sum_list_replicate_empty [simp]: "sum_list (replicate n {#}) = {#}"
  by (induction n) simp_all

lemma resync_inv_init:
  assumes "resync_init concurrency acts w = Some s"
  shows "resync_inv lib c o' (nat concurrency) acts w s"
  using assms
  by (auto simp: resync_init_def resync_inv_def resync_control_def run_log_def items_in_def errs_in_def prod_acts_def
      map_replicate_const split: if_splits)

text \<open>Replacing one worker moves what it holds.\<close>

lemma worker_swap:
  assumes "i < length ws"
  shows "sum_list (map worker_items (ws[i := x])) + worker_items (ws ! i) = sum_list (map worker_items ws) + worker_items x"
    and "sum_list (map worker_errs (ws[i := x])) + worker_errs (ws ! i) = sum_list (map worker_errs ws) + worker_errs x"
  using sum_list_update_add [OF assms] by metis+

lemma dropped_items: "sum_list (map act_items (dropWhile is_send_work acts)) \<subseteq># sum_list (map act_items acts)"
proof -
  have "sum_list (map act_items acts) = sum_list (map act_items (takeWhile is_send_work acts))
      + sum_list (map act_items (dropWhile is_send_work acts))"
    by (metis takeWhile_dropWhile_id map_append sum_list_append)
  then show ?thesis by simp
qed

text \<open>Every step keeps the items it does not process, and drops some only after a cancellation.\<close>

lemma step_items:
  assumes "resync_step lib c o' boundary cap s s'"
  shows "items_in s' \<subseteq># items_in s" and "\<not> rs_cancelled s' \<Longrightarrow> items_in s' = items_in s"
proof -
  have "items_in s' \<subseteq># items_in s \<and> (\<not> rs_cancelled s' \<longrightarrow> items_in s' = items_in s)"
    using assms
  proof cases
    case (give_up acts es acts')
    then show ?thesis
      using dropped_items [of acts] by (simp add: items_in_def prod_acts_def subset_mset.add_mono)
  next
    case (take_item i wi q)
    then show ?thesis using worker_swap(1) [of i "rs_workers s" "Busy wi"] by (simp add: items_in_def prod_acts_def)
  next
    case (work i wi e w')
    then show ?thesis using worker_swap(1) [of i "rs_workers s" "Reporting e"] by (simp add: items_in_def prod_acts_def)
  next
    case (report i e)
    then show ?thesis using worker_swap(1) [of i "rs_workers s" Idle] by (simp add: items_in_def prod_acts_def)
  next
    case (queue_closed i)
    then show ?thesis using worker_swap(1) [of i "rs_workers s" Stopped] by (simp add: items_in_def prod_acts_def)
  next
    case (ctx_stop i)
    then show ?thesis using worker_swap(1) [of i "rs_workers s" Stopped] by (simp add: items_in_def prod_acts_def)
  qed (simp_all add: items_in_def prod_acts_def)
  then show "items_in s' \<subseteq># items_in s" and "\<not> rs_cancelled s' \<Longrightarrow> items_in s' = items_in s" by blast+
qed

lemma step_errs:
  assumes "resync_step lib c o' boundary cap s s'" and "run_log lib c o' (rs_log s) w = (les, rs_world s)"
    and "\<not> rs_cancelled s \<longrightarrow> errs_in s = E + mset les"
  shows "\<exists>les'. run_log lib c o' (rs_log s') w = (les', rs_world s') \<and>
    (\<not> rs_cancelled s' \<longrightarrow> errs_in s' = E + mset les')"
  using assms(1)
proof cases
  case (take_item i wi q)
  then show ?thesis using assms worker_swap(2) [of i "rs_workers s" "Busy wi"] by (simp add: errs_in_def prod_acts_def)
next
  case (work i wi e w')
  then show ?thesis
    using assms run_log_snoc [OF assms(2) work(4)] worker_swap(2) [of i "rs_workers s" "Reporting e"]
    by (auto simp: errs_in_def prod_acts_def algebra_simps intro!: exI [of _ "les @ err_list e"])
next
  case (report i e)
  then have "sum_list (map worker_errs (rs_workers s)) =
      mset (err_list e) + sum_list (map worker_errs ((rs_workers s)[i := Idle]))"
    using worker_swap(2) [of i "rs_workers s" Idle] by (simp add: add.commute)
  with report show ?thesis using assms by (simp add: errs_in_def prod_acts_def ac_simps)
next
  case (queue_closed i)
  then show ?thesis using assms worker_swap(2) [of i "rs_workers s" Stopped] by (simp add: errs_in_def prod_acts_def)
next
  case (ctx_stop i)
  then show ?thesis using assms by simp
qed (use assms in \<open>simp_all add: errs_in_def prod_acts_def algebra_simps\<close>)

lemma set_update_Stopped: "i < length ws \<Longrightarrow> Stopped \<in> set (ws[i := x]) \<Longrightarrow> x = Stopped \<or> Stopped \<in> set ws"
  using set_update_subset_insert [of ws i x] by auto

lemma step_control:
  assumes "resync_step lib c o' boundary cap s s'" and "resync_control cap s"
  shows "resync_control cap s'"
  using assms by cases (auto simp: resync_control_def list_all_length dest: set_update_Stopped)

lemma resync_inv_step:
  assumes "resync_step lib c o' boundary cap s s'" and "resync_inv lib c o' cap acts w s"
  shows "resync_inv lib c o' cap acts w s'"
proof -
  obtain les where les: "run_log lib c o' (rs_log s) w = (les, rs_world s)"
      "\<not> rs_cancelled s \<longrightarrow> items_in s = sum_list (map act_items acts) \<and> errs_in s = sum_list (map act_errs acts) + mset les"
    using assms(2) by (auto simp: resync_inv_def)
  have canc: "\<not> rs_cancelled s' \<Longrightarrow> \<not> rs_cancelled s" using assms(1) by cases auto
  obtain les' where "run_log lib c o' (rs_log s') w = (les', rs_world s')"
      "\<not> rs_cancelled s' \<longrightarrow> errs_in s' = sum_list (map act_errs acts) + mset les'"
    using step_errs [OF assms(1) les(1)] les(2) by blast
  moreover have "\<not> rs_cancelled s' \<longrightarrow> items_in s' = sum_list (map act_items acts)"
    using step_items(2) [OF assms(1)] canc les(2) by simp
  moreover have "items_in s' \<subseteq># sum_list (map act_items acts)"
    using step_items(1) [OF assms(1)] assms(2) by (auto simp: resync_inv_def intro: subset_mset.order_trans)
  moreover have "resync_control cap s'"
    using step_control [OF assms(1)] assms(2) by (simp add: resync_inv_def)
  ultimately show ?thesis by (simp add: resync_inv_def)
qed

lemma resync_inv_run:
  assumes "(resync_step lib c o' boundary cap)\<^sup>*\<^sup>* s s'" and "resync_inv lib c o' cap acts w s"
  shows "resync_inv lib c o' cap acts w s'"
  using assms by (induction rule: rtranclp_induct) (auto intro: resync_inv_step)

section \<open>Progress and termination\<close>

fun worker_weight :: "worker \<Rightarrow> nat" where
  "worker_weight Idle = 1"
| "worker_weight (Busy _) = 4"
| "worker_weight (Reporting _) = 2"
| "worker_weight Stopped = 0"

definition resync_measure :: "'w resync \<Rightarrow> nat" where
  "resync_measure s = (case rs_prod s of None \<Rightarrow> 0 | Some acts \<Rightarrow> 5 * length acts + 1) + 4 * length (rs_queue s)
     + sum_list (map worker_weight (rs_workers s)) + (if rs_ret s = None then 1 else 0) + (if rs_cancelled s then 0 else 1)"

lemma resync_measure_step:
  assumes "resync_step lib c o' boundary cap s s'"
  shows "resync_measure s' < resync_measure s"
  using assms
proof cases
  case (give_up acts es acts')
  then show ?thesis using length_dropWhile_le [of is_send_work acts] by (simp add: resync_measure_def)
next
  case (take_item i wi q)
  then show ?thesis using sum_list_update_add [of i "rs_workers s" worker_weight "Busy wi"] by (simp add: resync_measure_def)
next
  case (work i wi e w')
  then show ?thesis using sum_list_update_add [of i "rs_workers s" worker_weight "Reporting e"] by (simp add: resync_measure_def)
next
  case (report i e)
  then show ?thesis using sum_list_update_add [of i "rs_workers s" worker_weight Idle] by (simp add: resync_measure_def)
next
  case (queue_closed i)
  then show ?thesis using sum_list_update_add [of i "rs_workers s" worker_weight Stopped] by (simp add: resync_measure_def)
next
  case (ctx_stop i)
  then show ?thesis using sum_list_update_add [of i "rs_workers s" worker_weight Stopped] by (simp add: resync_measure_def)
qed (simp_all add: resync_measure_def)

text \<open>
  With at least one worker and without a cancellation, a resync that has not returned can go on:
  a busy worker finishes its item, an idle one takes an item, or the generator sends.
\<close>

lemma empty_queue_progress:
  assumes "0 < cap" and "\<not> rs_cancelled s" and "rs_ret s = None" and "i < length (rs_workers s)" and "rs_workers s ! i = Idle" and "rs_queue s = []"
  shows "\<exists>s'. resync_step lib c o' boundary cap s s' \<and> \<not> rs_cancelled s'"
proof -
  consider wi acts where "rs_prod s = Some (SendWork wi # acts)" | es acts where "rs_prod s = Some (SendErr es # acts)"
    | "rs_prod s = Some []" | "rs_prod s = None"
    by (metis neq_Nil_conv option.exhaust prod_action.exhaust)
  then show ?thesis
  proof cases
    case 1
    with assms show ?thesis by - (intro exI conjI, rule resync_step.send_work, auto)
  next
    case 2
    with assms show ?thesis by - (intro exI conjI, rule resync_step.send_err, auto)
  next
    case 3
    with assms show ?thesis by - (intro exI conjI, rule resync_step.close_work, auto)
  next
    case 4
    with assms show ?thesis by - (intro exI conjI, rule resync_step.queue_closed, auto)
  qed
qed

lemma resync_progress:
  assumes "resync_control cap s" and "0 < cap" and "\<not> rs_cancelled s" and "rs_ret s = None"
  shows "\<exists>s'. resync_step lib c o' boundary cap s s' \<and> \<not> rs_cancelled s'"
proof -
  have len: "length (rs_workers s) = cap" using assms(1) by (simp add: resync_control_def)
  consider (busy) i wi where "i < cap" "rs_workers s ! i = Busy wi"
    | (reporting) i e where "i < cap" "rs_workers s ! i = Reporting e"
    | (idle) i where "i < cap" "rs_workers s ! i = Idle"
    | (stopped) "\<forall>i < cap. rs_workers s ! i = Stopped"
    by (metis worker.exhaust)
  then show ?thesis
  proof cases
    case busy
    obtain e w' where "process_item lib c o' wi (rs_world s) = (e, w')" by fastforce
    with busy assms(3) len show ?thesis by - (intro exI conjI, rule resync_step.work, auto)
  next
    case reporting
    with assms(3,4) len show ?thesis by - (intro exI conjI, rule resync_step.report, auto)
  next
    case idle
    show ?thesis
    proof (cases "rs_queue s")
      case Cons
      with idle assms(3) len show ?thesis by - (intro exI conjI, rule resync_step.take_item, auto)
    next
      case Nil
      then show ?thesis using empty_queue_progress [OF assms(2-4) _ _ Nil] idle len by blast
    qed
  next
    case stopped
    then have "list_all (\<lambda>w. w = Stopped) (rs_workers s)" using len by (simp add: list_all_length)
    moreover from stopped have "Stopped \<in> set (rs_workers s)" using len assms(2) by (metis nth_mem)
    then have "rs_prod s = None" using assms(1,3) by (simp add: resync_control_def)
    ultimately show ?thesis using assms(3,4) by - (intro exI conjI, rule resync_step.finish, auto)
  qed
qed

text \<open>After a cancellation, the workers may stop while the generator fills the queue.\<close>

lemma stop_workers:
  assumes "rs_cancelled s" and "rs_workers s = replicate k Stopped @ replicate n Idle"
  shows "(resync_step lib c o' boundary cap)\<^sup>*\<^sup>* s (s\<lparr>rs_workers := replicate (k + n) Stopped\<rparr>)"
  using assms
proof (induction n arbitrary: k s)
  case 0
  then have "s\<lparr>rs_workers := replicate (k + 0) Stopped\<rparr> = s" by (cases s) simp
  then show ?case by simp
next
  case (Suc n)
  let ?s = "s\<lparr>rs_workers := replicate (Suc k) Stopped @ replicate n Idle\<rparr>"
  have "(rs_workers s)[k := Stopped] = replicate (Suc k) Stopped @ replicate n Idle"
    using Suc.prems(2) by (simp add: list_update_append replicate_app_Cons_same)
  then have "resync_step lib c o' boundary cap s ?s"
    using resync_step.ctx_stop [of k s lib c o' boundary cap] Suc.prems by (simp add: nth_append)
  moreover have "(resync_step lib c o' boundary cap)\<^sup>*\<^sup>* ?s (?s\<lparr>rs_workers := replicate (Suc k + n) Stopped\<rparr>)"
    using Suc.prems(1) by (intro Suc.IH) simp_all
  ultimately show ?case by (simp add: converse_rtranclp_into_rtranclp)
qed

lemma fill_queue:
  assumes "rs_prod s = Some (map SendWork xs @ acts)" and "length (rs_queue s) + length xs \<le> cap"
  shows "(resync_step lib c o' boundary cap)\<^sup>*\<^sup>* s (s\<lparr>rs_prod := Some acts, rs_queue := rs_queue s @ xs\<rparr>)"
  using assms
proof (induction xs arbitrary: s)
  case Nil
  then have "s\<lparr>rs_prod := Some acts, rs_queue := rs_queue s @ []\<rparr> = s" by (cases s) simp
  then show ?case by simp
next
  case (Cons x xs)
  let ?s = "s\<lparr>rs_prod := Some (map SendWork xs @ acts), rs_queue := rs_queue s @ [x]\<rparr>"
  have "resync_step lib c o' boundary cap s ?s"
    using resync_step.send_work [of s x _ cap] Cons.prems by simp
  moreover have "(resync_step lib c o' boundary cap)\<^sup>*\<^sup>* ?s (?s\<lparr>rs_prod := Some acts, rs_queue := rs_queue ?s @ xs\<rparr>)"
    using Cons.prems by (intro Cons.IH) simp_all
  ultimately show ?case by (simp add: converse_rtranclp_into_rtranclp)
qed

text \<open>Once all workers have stopped, a full queue blocks the generator for good.\<close>

lemma blocked_generator:
  assumes "rs_prod s = Some (SendWork wi # acts)" and "cap \<le> length (rs_queue s)" and "rs_cancelled s"
    and "\<And>i. i < length (rs_workers s) \<Longrightarrow> rs_workers s ! i = Stopped" and "\<not> boundary (Suc (length acts))"
  shows "\<not> resync_step lib c o' boundary cap s s'"
proof
  assume "resync_step lib c o' boundary cap s s'"
  then show False using assms by cases auto
qed

lemma finished_accounts:
  assumes "resync_inv lib c o' cap acts w s" and "rs_ret s = Some r" and "\<not> rs_cancelled s"
  shows "\<exists>les. run_log lib c o' (rs_log s) w = (les, rs_world s) \<and> mset (rs_log s) = sum_list (map act_items acts) \<and>
    mset (rs_errs s) = sum_list (map act_errs acts) + mset les \<and> r = ErrorOrNil (rs_errs s)"
proof -
  from assms have ctl: "rs_prod s = None" "list_all (\<lambda>x. x = Stopped) (rs_workers s)" "rs_queue s = []" "r = ErrorOrNil (rs_errs s)"
    by (auto simp: resync_inv_def resync_control_def list_all_iff) (metis last_in_set length_0_conv le_zero_eq)
  then have "map worker_items (rs_workers s) = replicate (length (rs_workers s)) {#}"
      "map worker_errs (rs_workers s) = replicate (length (rs_workers s)) {#}"
    by (auto intro!: nth_equalityI simp: list_all_length)
  with ctl assms(1,3) show ?thesis by (auto simp: resync_inv_def items_in_def errs_in_def prod_acts_def)
qed

text \<open>Processing the logged items and then reporting the generator's errors is a run of a permutation.\<close>

lemma acts_accounts:
  "mset acts = image_mset SendWork (sum_list (map act_items acts)) + mset (filter (\<lambda>a. \<not> is_send_work a) acts)"
proof (induction acts)
  case (Cons a acts)
  then show ?case by (cases a) simp_all
qed simp

lemma run_errs_only:
  "run_actions lib c o' (filter (\<lambda>a. \<not> is_send_work a) acts) w = (es, w') \<Longrightarrow>
     w' = w \<and> mset es = sum_list (map act_errs acts)"
proof (induction acts arbitrary: es)
  case (Cons a acts)
  then show ?case by (cases a) (auto split: prod.splits)
qed simp

section \<open>Properties\<close>

definition sample_item :: work_item where
  "sample_item = \<lparr>wi_drain = True, wi_gr = \<lparr>gr_Group = [], gr_Resource = ''secrets''\<rparr>,
     wi_gvk = \<lparr>gvk_Group = [], gvk_Version = ''v1'', gvk_Kind = ''Secret''\<rparr>, wi_key = (''default'', ''foo''),
     wi_resourceVersion = ''7'', wi_currentShard = ''s1''\<rparr>"

definition empty_store_world :: "store world" where
  "empty_store_world = \<lparr>w_api = \<lparr>sto_rings = [], sto_leases = [], sto_namespaces = [], sto_patches = []\<rparr>, w_ops = []\<rparr>"

definition sample_start :: "work_item list \<Rightarrow> store resync" where
  "sample_start items = \<lparr>rs_prod = Some (map SendWork items), rs_queue = [], rs_workers = [Idle], rs_errs = [],
     rs_cancelled = False, rs_world = empty_store_world, rs_log = [], rs_ret = None\<rparr>"

lemma sample_start: "resync_init 1 (map SendWork items) empty_store_world = Some (sample_start items)"
  by (simp add: resync_init_def sample_start_def)

text \<open>One worker processes one item and the resync returns.\<close>

lemma sample_run:
  assumes "process_item lib c o' wi empty_store_world = (e, w')"
  shows "\<exists>s. (resync_step lib c o' boundary 1)\<^sup>*\<^sup>* (sample_start [wi]) s \<and> rs_ret s = Some (ErrorOrNil (err_list e)) \<and>
    \<not> rs_cancelled s \<and> rs_world s = w'"
proof -
  let ?step = "resync_step lib c o' boundary 1" let ?s0 = "sample_start [wi]"
  let ?s1 = "?s0\<lparr>rs_prod := Some [], rs_queue := [wi]\<rparr>" let ?s2 = "?s1\<lparr>rs_prod := None\<rparr>"
  let ?s3 = "?s2\<lparr>rs_queue := [], rs_workers := [Busy wi]\<rparr>"
  let ?s4 = "?s3\<lparr>rs_world := w', rs_log := [wi], rs_workers := [Reporting e]\<rparr>"
  let ?s5 = "?s4\<lparr>rs_errs := err_list e, rs_workers := [Idle]\<rparr>" let ?s6 = "?s5\<lparr>rs_workers := [Stopped]\<rparr>"
  let ?s7 = "?s6\<lparr>rs_ret := Some (ErrorOrNil (err_list e))\<rparr>"
  have "?step ?s0 ?s1" using resync_step.send_work [of ?s0 wi "[]" 1] by (simp add: sample_start_def)
  moreover have "?step ?s1 ?s2" by (rule resync_step.close_work) simp
  moreover have "?step ?s2 ?s3" using resync_step.take_item [of 0 ?s2 wi "[]"] by (simp add: sample_start_def)
  moreover have "?step ?s3 ?s4" using resync_step.work [of 0 ?s3 wi lib c o' e w'] assms by (simp add: sample_start_def)
  moreover have "?step ?s4 ?s5" using resync_step.report [of 0 ?s4 e] by (simp add: sample_start_def)
  moreover have "?step ?s5 ?s6" using resync_step.queue_closed [of 0 ?s5] by (simp add: sample_start_def)
  moreover have "?step ?s6 ?s7" using resync_step.finish [of ?s6] by (simp add: sample_start_def)
  ultimately have "?step\<^sup>*\<^sup>* ?s0 ?s7" by (meson converse_rtranclp_into_rtranclp rtranclp.rtrancl_refl)
  then show ?thesis by (intro exI [of _ ?s7]) (simp add: sample_start_def)
qed

text \<open>C19: The parallel resync does what a sequential one does: whatever the interleaving of the
  work generator and the workers, a resync that returned without its context being cancelled has
  processed every compiled work item exactly once; API state, metrics and the reported errors are
  those of executing the generator's actions one after the other in some order.\<close>

theorem concurrent_resync_is_sequential:
  assumes "resync_init concurrency acts w = Some s0"
    and "(resync_step lib c o' boundary (nat concurrency))\<^sup>*\<^sup>* s0 s" and "rs_ret s = Some r" and "\<not> rs_cancelled s"
  shows "\<exists>acts' es. mset acts' = mset acts \<and> run_actions lib c o' acts' w = (es, rs_world s) \<and>
    mset (rs_errs s) = mset es \<and> r = ErrorOrNil (rs_errs s)"
proof -
  let ?rest = "filter (\<lambda>a. \<not> is_send_work a) acts"
  obtain les where les: "run_log lib c o' (rs_log s) w = (les, rs_world s)"
      "mset (rs_log s) = sum_list (map act_items acts)" "mset (rs_errs s) = sum_list (map act_errs acts) + mset les"
      "r = ErrorOrNil (rs_errs s)"
    using finished_accounts [OF resync_inv_run [OF assms(2) resync_inv_init [OF assms(1)]] assms(3,4)] by blast
  obtain es' w' where rest: "run_actions lib c o' ?rest (rs_world s) = (es', w')" by fastforce
  note rest' = run_errs_only [OF rest]
  have "mset (map SendWork (rs_log s) @ ?rest) = mset acts"
    using acts_accounts [of acts] les(2) by simp
  moreover have "run_actions lib c o' (map SendWork (rs_log s) @ ?rest) w = (les @ es', rs_world s)"
    using les(1) rest rest' by (simp add: run_actions_append run_log_def)
  moreover have "mset (rs_errs s) = mset (les @ es')" using les(3) rest' by simp
  ultimately show ?thesis using les(4) by blast
qed

lemma concurrent_resync_is_sequential_witness:
  "\<exists>es w'. run_actions std_lib store_client (sample_op {}) [SendWork sample_item] empty_store_world = (es, w') \<and>
     length (sto_patches (w_api w')) = 1"
proof -
  obtain e w' where p: "process_item std_lib store_client (sample_op {}) sample_item empty_store_world = (e, w')"
    by fastforce
  obtain s where s: "(resync_step std_lib store_client (sample_op {}) (\<lambda>_. False) (nat 1))\<^sup>*\<^sup>* (sample_start [sample_item]) s"
      "rs_ret s = Some (ErrorOrNil (err_list e))" "\<not> rs_cancelled s" "rs_world s = w'"
    using sample_run [OF p, of "\<lambda>_. False"] by auto
  obtain es where "run_actions std_lib store_client (sample_op {}) [SendWork sample_item] empty_store_world = (es, w')"
    using concurrent_resync_is_sequential [OF sample_start s(1,2,3)] s(4) by auto
  moreover have "length (sto_patches (w_api w')) = 1"
    using p by (auto simp: process_item_def drainObject_def sample_item_def store_client_def Let_def
        empty_store_world_def observe_def split: option.splits)
  ultimately show ?thesis by blast
qed

text \<open>C20: A resync returns: with at least one worker, as long as its context is not cancelled, a
  resync that has not returned can make a step without a cancellation, and no run goes on
  forever.\<close>

theorem resync_returns:
  assumes "resync_init concurrency acts w = Some s0" and "0 < concurrency"
    and "(resync_step lib c o' boundary (nat concurrency))\<^sup>*\<^sup>* s0 s"
  shows "(rs_ret s = None \<and> \<not> rs_cancelled s \<longrightarrow>
      (\<exists>s'. resync_step lib c o' boundary (nat concurrency) s s' \<and> \<not> rs_cancelled s')) \<and>
    (\<forall>s'. resync_step lib c o' boundary (nat concurrency) s s' \<longrightarrow> resync_measure s' < resync_measure s)"
proof -
  have "resync_control (nat concurrency) s"
    using resync_inv_run [OF assms(3) resync_inv_init [OF assms(1)]] by (simp add: resync_inv_def)
  with assms(2) show ?thesis by (auto intro: resync_progress resync_measure_step)
qed

lemma resync_returns_witness:
  "\<exists>s'. resync_step std_lib store_client (sample_op {}) (\<lambda>_. False) (nat 1) (sample_start [sample_item, sample_item]) s' \<and>
     \<not> rs_cancelled s'"
  using resync_returns [OF sample_start [of "[sample_item, sample_item]"] _ rtranclp.rtrancl_refl, of std_lib store_client "sample_op {}" "\<lambda>_. False"]
  by (simp add: sample_start_def)

text \<open>No object is patched twice by one resync: at any moment, cancelled or not, the processed
  items are among the compiled ones, each at most as often as it was compiled.\<close>

theorem items_processed_at_most_once:
  assumes "resync_init concurrency acts w = Some s0"
    and "(resync_step lib c o' boundary (nat concurrency))\<^sup>*\<^sup>* s0 s"
  shows "mset (rs_log s) \<subseteq># mset [wi. SendWork wi \<leftarrow> acts]"
proof -
  have "sum_list (map act_items acts) = mset [wi. SendWork wi \<leftarrow> acts]"
  proof (induction acts)
    case (Cons a acts)
    then show ?case by (cases a) simp_all
  qed simp
  moreover have "mset (rs_log s) \<subseteq># items_in s" by (simp add: items_in_def)
  moreover have "items_in s \<subseteq># sum_list (map act_items acts)"
    using resync_inv_run [OF assms(2) resync_inv_init [OF assms(1)]] by (simp add: resync_inv_def)
  ultimately show ?thesis by (metis subset_mset.order_trans)
qed

lemma items_processed_at_most_once_witness:
  "\<exists>s. (resync_step std_lib store_client (sample_op {}) (\<lambda>_. True) (nat 1))\<^sup>*\<^sup>* (sample_start [sample_item]) s \<and>
     rs_ret s \<noteq> None \<and> mset (rs_log s) \<subseteq># {#sample_item#}"
proof -
  obtain e w' where p: "process_item std_lib store_client (sample_op {}) sample_item empty_store_world = (e, w')"
    by fastforce
  obtain s where "(resync_step std_lib store_client (sample_op {}) (\<lambda>_. True) (nat 1))\<^sup>*\<^sup>* (sample_start [sample_item]) s"
      "rs_ret s \<noteq> None"
    using sample_run [OF p, of "\<lambda>_. True"] by auto
  moreover from this(1) have "mset (rs_log s) \<subseteq># {#sample_item#}"
    using items_processed_at_most_once [OF sample_start] by fastforce
  ultimately show ?thesis by blast
qed

text \<open>C22: A cancelled resync can hang: sending to the queue does not watch the context. When the
  pager hands over a page with more misplaced objects than there are workers and the context is
  then cancelled, the workers may stop first, the generator blocks on the full queue, and the resync
  never returns. Without workers (\<^verbatim>\<open>concurrentMoves: 0\<close>) this needs no cancellation at all.\<close>

theorem cancelled_resync_can_hang:
  assumes "resync_init concurrency acts w = Some s0" and "acts = map SendWork items @ rest"
    and "nat concurrency < length items" and "\<And>k. boundary k \<Longrightarrow> k \<le> length rest"
  shows "(\<exists>s. (resync_step lib c o' boundary (nat concurrency))\<^sup>*\<^sup>* s0 s \<and> rs_ret s = None \<and>
      (\<nexists>s'. resync_step lib c o' boundary (nat concurrency) s s')) \<and>
    (concurrency = 0 \<longrightarrow> (\<forall>s'. resync_step lib c o' boundary (nat concurrency) s0 s' \<longrightarrow> s' = s0\<lparr>rs_cancelled := True\<rparr>))"
proof
  let ?n = "nat concurrency" let ?step = "resync_step lib c o' boundary (nat concurrency)"
  have s0: "rs_prod s0 = Some acts" "rs_queue s0 = []" "rs_workers s0 = replicate ?n Idle" "\<not> rs_cancelled s0" "rs_ret s0 = None"
    using assms(1) by (auto simp: resync_init_def split: if_splits)
  let ?s1 = "s0\<lparr>rs_cancelled := True\<rparr>" let ?s2 = "?s1\<lparr>rs_workers := replicate ?n Stopped\<rparr>"
  have tail: "drop ?n items = items ! ?n # drop (Suc ?n) items" using assms(3) by (simp add: Cons_nth_drop_Suc)
  let ?acts = "map SendWork (drop ?n items) @ rest"
  let ?s3 = "?s2\<lparr>rs_prod := Some ?acts, rs_queue := take ?n items\<rparr>"
  have "?step s0 ?s1" using s0 by (intro resync_step.cancel) simp
  moreover have "?step\<^sup>*\<^sup>* ?s1 ?s2" using stop_workers [of ?s1 0 ?n lib c o' boundary ?n] s0 by simp
  moreover have "?step\<^sup>*\<^sup>* ?s2 ?s3"
    using fill_queue [of ?s2 "take ?n items" ?acts ?n lib c o' boundary] s0 assms(2)
    by (simp flip: map_append append_assoc)
  ultimately have "?step\<^sup>*\<^sup>* s0 ?s3" by (meson converse_rtranclp_into_rtranclp rtranclp_trans)
  moreover have "\<not> ?step ?s3 s'" for s'
    using assms(3) assms(4) [of "Suc (length (map SendWork (drop (Suc ?n) items) @ rest))"] tail
    by (intro blocked_generator) auto
  ultimately show "\<exists>s. ?step\<^sup>*\<^sup>* s0 s \<and> rs_ret s = None \<and> (\<nexists>s'. ?step s s')"
    using s0(5) by (intro exI [of _ ?s3]) auto
  show "concurrency = 0 \<longrightarrow> (\<forall>s'. ?step s0 s' \<longrightarrow> s' = ?s1)"
    using s0 assms(2,3) by (auto elim!: resync_stepE simp: neq_Nil_conv)
qed

lemma cancelled_resync_can_hang_witness:
  "\<exists>s. (resync_step std_lib store_client (sample_op {}) (\<lambda>_. False) (nat 1))\<^sup>*\<^sup>* (sample_start [sample_item, sample_item]) s \<and>
     rs_ret s = None \<and> (\<nexists>s'. resync_step std_lib store_client (sample_op {}) (\<lambda>_. False) (nat 1) s s')"
  using cancelled_resync_can_hang [OF sample_start [of "[sample_item, sample_item]"], of "[sample_item, sample_item]" "[]"
      "\<lambda>_. False" std_lib store_client "sample_op {}"]
  by simp

end
