(* ===== verification/Webhosting_Types.thy ===== *)
theory Webhosting_Types
  imports K8s_Lib
begin

text \<open>
  The data of the example operator in \<^verbatim>\<open>webhosting-operator\<close>: its API types and constants
  (\<^verbatim>\<open>pkg/apis/webhosting/v1alpha1\<close>), the Kubernetes workload objects its controller writes, with the
  fields it reads or sets, and the helpers of \<^verbatim>\<open>pkg/utils/kubernetes.go\<close>. Phases are strings, as in the
  source; a slice that is nil or empty is the empty list.
\<close>

section \<open>Constants\<close>

definition WebhostingNamespaceSystem :: string where
  "WebhostingNamespaceSystem = ''webhosting-system''"

definition WebhostingOperatorName :: string where
  "WebhostingOperatorName = ''webhosting-operator''"

definition LabelKeyProject :: string where
  "LabelKeyProject = ''webhosting.timebertt.dev/project''"

definition LabelValueProject :: string where
  "LabelValueProject = ''true''"

definition LabelKeySkipWorkload :: string where
  "LabelKeySkipWorkload = ''skip-workload''"

definition LabelSelectorProject :: selector where
  "LabelSelectorProject = SelectorFromSet [(LabelKeyProject, LabelValueProject)]"

section \<open>Themes and websites\<close>

record theme_spec =
  ts_Color :: string
  ts_FontFamily :: string

record theme =
  th_Meta :: object_meta
  th_Spec :: theme_spec

record website_spec =
  wsp_Theme :: string

record website_status =
  wst_ObservedGeneration :: int
  wst_Phase :: string
  wst_LastTransitionTime :: "time option"

record website =
  web_Meta :: object_meta
  web_Spec :: website_spec
  web_Status :: website_status

definition PhasePending :: string where "PhasePending = ''Pending''"
definition PhaseReady :: string where "PhaseReady = ''Ready''"
definition PhaseError :: string where "PhaseError = ''Error''"
definition PhaseTerminating :: string where "PhaseTerminating = ''Terminating''"

definition AllWebsitePhases :: "string list" where
  "AllWebsitePhases = [PhasePending, PhaseReady, PhaseError, PhaseTerminating]"

section \<open>Workload objects\<close>

text \<open>The data of a ConfigMap is an association list in iteration order.\<close>

record config_map =
  cm_Meta :: object_meta
  cm_Data :: "(string \<times> string) list"

record service_port =
  sp_Name :: string
  sp_Port :: int
  sp_TargetPort :: string
  sp_Protocol :: string

record service =
  svc_Meta :: object_meta
  svc_Type :: string
  svc_Selector :: go_map
  svc_Ports :: "service_port list"
  svc_ClusterIP :: string

record ingress_path =
  ip_Path :: string
  ip_PathType :: string
  ip_ServiceName :: string
  ip_PortName :: string

record ingress_rule =
  ir_Host :: string
  ir_Paths :: "ingress_path list"

record ingress_tls =
  tls_Hosts :: "string list"
  tls_SecretName :: string

record ingress =
  ing_Meta :: object_meta
  ing_ClassName :: "string option"
  ing_Rules :: "ingress_rule list"
  ing_TLS :: "ingress_tls list"

record container_port =
  ctp_Name :: string
  ctp_ContainerPort :: int
  ctp_Protocol :: string

record volume_mount =
  vm_Name :: string
  vm_ReadOnly :: bool
  vm_MountPath :: string

text \<open>The last field stands for the rest of a container, which the operator leaves alone.\<close>

record container =
  ctr_Name :: string
  ctr_Image :: string
  ctr_ImagePullPolicy :: string
  ctr_Ports :: "container_port list"
  ctr_VolumeMounts :: "volume_mount list"
  ctr_Rest :: string

record configmap_volume =
  vol_Name :: string
  vol_ConfigMapName :: string
  vol_Items :: "(string \<times> string) list"
  vol_DefaultMode :: "int option"

record dep_condition =
  dc_Type :: string
  dc_Status :: string
  dc_Reason :: string

record deployment =
  dep_Meta :: object_meta
  dep_Replicas :: "int option"
  dep_Selector :: "label_selector option"
  dep_RevisionHistoryLimit :: "int option"
  dep_TemplateLabels :: go_map
  dep_TemplateAnnotations :: go_map
  dep_Containers :: "container list"
  dep_Volumes :: "configmap_volume list"
  dep_ObservedGeneration :: int
  dep_Conditions :: "dep_condition list"

section \<open>Readiness of a deployment\<close>

fun GetDeploymentCondition :: "dep_condition list \<Rightarrow> string \<Rightarrow> dep_condition option" where
  "GetDeploymentCondition [] conditionType = None"
| "GetDeploymentCondition (cond # conditions) conditionType =
     (if dc_Type cond = conditionType then Some cond else GetDeploymentCondition conditions conditionType)"

definition IsDeploymentReady :: "deployment \<Rightarrow> bool" where
  "IsDeploymentReady d =
     (if dep_ObservedGeneration d < om_Generation (dep_Meta d) then False
      else
        (case GetDeploymentCondition (dep_Conditions d) ''Available'' of
           None \<Rightarrow> False
         | Some available \<Rightarrow>
             if dc_Status available \<noteq> ''True'' then False
             else
               (case GetDeploymentCondition (dep_Conditions d) ''Progressing'' of
                  None \<Rightarrow> False
                | Some progressing \<Rightarrow>
                    if dc_Status progressing \<noteq> ''True'' \<or> dc_Reason progressing \<noteq> ''NewReplicaSetAvailable'' then False
                    else True)))"

text \<open>\<^verbatim>\<open>RunningInCluster\<close>: a heuristic on the file system and the environment.\<close>

definition RunningInCluster :: "(string \<Rightarrow> bool) \<Rightarrow> (string \<Rightarrow> string) \<Rightarrow> bool" where
  "RunningInCluster stat_ok getenv =
     (if stat_ok ''/var/run/secrets/kubernetes.io/serviceaccount/namespace'' then True
      else getenv ''KUBERNETES_SERVICE_HOST'' \<noteq> [])"

section \<open>Lemmas\<close>

lemma GetDeploymentCondition_find: "GetDeploymentCondition cs t = List.find (\<lambda>c. dc_Type c = t) cs"
  by (induction cs) simp_all

text \<open>Ready means: the current generation is observed, and the first condition of each of the two types is true.\<close>

lemma IsDeploymentReady_iff: "IsDeploymentReady d \<longleftrightarrow>
  om_Generation (dep_Meta d) \<le> dep_ObservedGeneration d \<and>
  (\<exists>a p. List.find (\<lambda>c. dc_Type c = ''Available'') (dep_Conditions d) = Some a \<and> dc_Status a = ''True'' \<and>
     List.find (\<lambda>c. dc_Type c = ''Progressing'') (dep_Conditions d) = Some p \<and> dc_Status p = ''True'' \<and>
     dc_Reason p = ''NewReplicaSetAvailable'')"
  by (auto simp: IsDeploymentReady_def GetDeploymentCondition_find split: option.splits if_splits)

end
