(* ===== verification/Predicates.thy ===== *)
theory Predicates
  imports Leases Webhosting_Types
begin

text \<open>
  Event filters and event mappings: \<^verbatim>\<open>pkg/sharding/predicate\<close>, \<^verbatim>\<open>pkg/sharding/handler\<close>, the
  \<^verbatim>\<open>LeasePredicate\<close> methods of the three controllers (\<^verbatim>\<open>pkg/controller/*/add.go\<close>) and the
  predicate of the shard library (\<^verbatim>\<open>pkg/shard/controller/predicate.go\<close>). The combinators of
  controller-runtime's predicate package are the parameter \<open>pred_lib\<close>.
\<close>

section \<open>Events and predicate combinators\<close>

datatype api_object =
    OLease lease
  | ORing controller_ring
  | OSecret object_meta "(string \<times> string) list"
  | OWebsite website
  | ODeployment deployment
  | OConfigMap config_map
  | OOther object_meta

fun obj_meta :: "api_object \<Rightarrow> object_meta" where
  "obj_meta (OLease l) = l_Meta l"
| "obj_meta (ORing r) = cr_Meta r"
| "obj_meta (OSecret m d) = m"
| "obj_meta (OWebsite w) = web_Meta w"
| "obj_meta (ODeployment d) = dep_Meta d"
| "obj_meta (OConfigMap c) = cm_Meta c"
| "obj_meta (OOther m) = m"

datatype event =
    CreateEvent api_object
  | UpdateEvent api_object api_object
  | DeleteEvent api_object bool
  | GenericEvent api_object

type_synonym predicate = "event \<Rightarrow> bool"

record pred_funcs =
  CreateFunc :: "(api_object \<Rightarrow> bool) option"
  UpdateFunc :: "(api_object \<Rightarrow> api_object \<Rightarrow> bool) option"
  DeleteFunc :: "(api_object \<Rightarrow> bool \<Rightarrow> bool) option"
  GenericFunc :: "(api_object \<Rightarrow> bool) option"

definition no_funcs :: pred_funcs where
  "no_funcs = \<lparr>CreateFunc = None, UpdateFunc = None, DeleteFunc = None, GenericFunc = None\<rparr>"

record pred_lib =
  pl_And :: "predicate list \<Rightarrow> predicate"
  pl_Or :: "predicate list \<Rightarrow> predicate"
  pl_Funcs :: "pred_funcs \<Rightarrow> predicate"
  pl_NewPredicateFuncs :: "(api_object \<Rightarrow> bool) \<Rightarrow> predicate"
  pl_GenerationChanged :: predicate
  pl_AnnotationChanged :: predicate

text \<open>
  The documented behaviour: \<^verbatim>\<open>And\<close> and \<^verbatim>\<open>Or\<close> combine pointwise; a missing function of
  \<^verbatim>\<open>Funcs\<close> lets the event pass; \<^verbatim>\<open>NewPredicateFuncs\<close> applies the filter to the object, the new
  one for updates; \<^verbatim>\<open>GenerationChangedPredicate\<close> drops updates without a generation change,
  \<^verbatim>\<open>AnnotationChangedPredicate\<close> those without a change of the annotations.
\<close>

fun funcs_eval :: "pred_funcs \<Rightarrow> predicate" where
  "funcs_eval p (CreateEvent ob) = (case CreateFunc p of None \<Rightarrow> True | Some f \<Rightarrow> f ob)"
| "funcs_eval p (UpdateEvent old new) = (case UpdateFunc p of None \<Rightarrow> True | Some f \<Rightarrow> f old new)"
| "funcs_eval p (DeleteEvent ob u) = (case DeleteFunc p of None \<Rightarrow> True | Some f \<Rightarrow> f ob u)"
| "funcs_eval p (GenericEvent ob) = (case GenericFunc p of None \<Rightarrow> True | Some f \<Rightarrow> f ob)"

fun event_object :: "event \<Rightarrow> api_object" where
  "event_object (CreateEvent ob) = ob"
| "event_object (UpdateEvent old new) = new"
| "event_object (DeleteEvent ob u) = ob"
| "event_object (GenericEvent ob) = ob"

fun generation_changed :: predicate where
  "generation_changed (UpdateEvent old new) \<longleftrightarrow>
     om_Generation (obj_meta new) \<noteq> om_Generation (obj_meta old)"
| "generation_changed e \<longleftrightarrow> True"

fun annotations_changed :: predicate where
  "annotations_changed (UpdateEvent old new) \<longleftrightarrow>
     as_map (om_Annotations (obj_meta new)) \<noteq> as_map (om_Annotations (obj_meta old))"
| "annotations_changed e \<longleftrightarrow> True"

definition predicates_doc :: "pred_lib \<Rightarrow> bool" where
  "predicates_doc pl \<longleftrightarrow>
     (\<forall>ps e. pl_And pl ps e \<longleftrightarrow> (\<forall>p \<in> set ps. p e)) \<and>
     (\<forall>ps e. pl_Or pl ps e \<longleftrightarrow> (\<exists>p \<in> set ps. p e)) \<and>
     (\<forall>f e. pl_Funcs pl f e = funcs_eval f e) \<and>
     (\<forall>f e. pl_NewPredicateFuncs pl f e = f (event_object e)) \<and>
     (\<forall>e. pl_GenerationChanged pl e = generation_changed e) \<and>
     (\<forall>e. pl_AnnotationChanged pl e = annotations_changed e)"

section \<open>Predicates\<close>

definition IsShardLease :: "pred_lib \<Rightarrow> predicate" where
  "IsShardLease pl = pl_NewPredicateFuncs pl (\<lambda>obj.
     case obj of
       OLease lease \<Rightarrow> map_get (om_Labels (l_Meta lease)) LabelControllerRing \<noteq> []
     | _ \<Rightarrow> False)"

definition ShardLeaseStateChanged :: "pred_lib \<Rightarrow> time \<Rightarrow> predicate" where
  "ShardLeaseStateChanged pl now = pl_Funcs pl (no_funcs\<lparr>UpdateFunc := Some (\<lambda>old new.
     case (old, new) of
       (OLease oldLease, OLease newLease) \<Rightarrow> ToState oldLease now \<noteq> ToState newLease now
     | _ \<Rightarrow> False)\<rparr>)"

definition ShardLeaseAvailabilityChanged :: "pred_lib \<Rightarrow> time \<Rightarrow> predicate" where
  "ShardLeaseAvailabilityChanged pl now = pl_Funcs pl (no_funcs\<lparr>
     CreateFunc := Some (\<lambda>obj. case obj of OLease lease \<Rightarrow> IsAvailable (ToState lease now) | _ \<Rightarrow> False),
     UpdateFunc := Some (\<lambda>old new.
       case (old, new) of
         (OLease oldLease, OLease newLease) \<Rightarrow>
           IsAvailable (ToState oldLease now) \<noteq> IsAvailable (ToState newLease now)
       | _ \<Rightarrow> False),
     DeleteFunc := Some (\<lambda>obj deleteStateUnknown.
       case obj of
         OLease lease \<Rightarrow> if deleteStateUnknown then True else IsAvailable (ToState lease now)
       | _ \<Rightarrow> False)\<rparr>)"

definition ControllerRingCreatedOrUpdated :: "pred_lib \<Rightarrow> predicate" where
  "ControllerRingCreatedOrUpdated pl = pl_And pl
     [pl_GenerationChanged pl,
      pl_Funcs pl (no_funcs\<lparr>CreateFunc := Some (\<lambda>_. True), UpdateFunc := Some (\<lambda>_ _. True),
        DeleteFunc := Some (\<lambda>_ _. False)\<rparr>)]"

definition controllerring_LeasePredicate :: "pred_lib \<Rightarrow> time \<Rightarrow> predicate" where
  "controllerring_LeasePredicate pl now = pl_And pl
     [IsShardLease pl,
      pl_Or pl
        [pl_Funcs pl (no_funcs\<lparr>CreateFunc := Some (\<lambda>_. True), UpdateFunc := Some (\<lambda>_ _. False),
           DeleteFunc := Some (\<lambda>_ _. True)\<rparr>),
         ShardLeaseAvailabilityChanged pl now]]"

definition shardlease_LeasePredicate :: "pred_lib \<Rightarrow> time \<Rightarrow> predicate" where
  "shardlease_LeasePredicate pl now = pl_And pl
     [IsShardLease pl, ShardLeaseStateChanged pl now,
      pl_Funcs pl (no_funcs\<lparr>DeleteFunc := Some (\<lambda>_ _. False)\<rparr>)]"

definition sharder_LeasePredicate :: "pred_lib \<Rightarrow> time \<Rightarrow> predicate" where
  "sharder_LeasePredicate pl now = pl_And pl [IsShardLease pl, ShardLeaseAvailabilityChanged pl now]"

text \<open>The shard library: \<^verbatim>\<open>Predicate\<close>, \<^verbatim>\<open>isAssigned\<close>, \<^verbatim>\<open>isDrained\<close>.\<close>

definition isAssigned :: "pred_lib \<Rightarrow> string \<Rightarrow> string \<Rightarrow> predicate" where
  "isAssigned pl controllerRingName shardName = pl_NewPredicateFuncs pl (\<lambda>obj.
     map_get (om_Labels (obj_meta obj)) (LabelShard controllerRingName) = shardName)"

definition isDrained :: "pred_lib \<Rightarrow> string \<Rightarrow> predicate" where
  "isDrained pl controllerRingName = pl_NewPredicateFuncs pl (\<lambda>obj.
     map_has (om_Labels (obj_meta obj)) (LabelDrain controllerRingName))"

definition shard_Predicate :: "pred_lib \<Rightarrow> string \<Rightarrow> string \<Rightarrow> predicate list \<Rightarrow> predicate" where
  "shard_Predicate pl controllerRingName shardName predicates = pl_Or pl
     [isDrained pl controllerRingName,
      pl_And pl [isAssigned pl controllerRingName shardName, pl_And pl predicates]]"

section \<open>Event mappings\<close>

definition MapControllerRingToLeases :: "'w client \<Rightarrow> 'w \<Rightarrow> api_object \<Rightarrow> nsname list" where
  "MapControllerRingToLeases reader w obj =
     (case obj of
        ORing controllerRing \<Rightarrow>
          (case c_ListLeases reader w (LeaseSelector controllerRing) of
             Inl err \<Rightarrow> []
           | Inr leaseList \<Rightarrow> map (\<lambda>lease. ObjectKeyFromObject (l_Meta lease)) leaseList)
      | _ \<Rightarrow> [])"

definition MapLeaseToControllerRing :: "api_object \<Rightarrow> nsname list" where
  "MapLeaseToControllerRing obj =
     (let ring = map_get (om_Labels (obj_meta obj)) LabelControllerRing
      in if ring = [] then [] else [([], ring)])"

section \<open>Lemmas\<close>

lemma predicates_docD:
  assumes "predicates_doc pl"
  shows "pl_And pl ps e \<longleftrightarrow> (\<forall>p \<in> set ps. p e)" "pl_Or pl ps e \<longleftrightarrow> (\<exists>p \<in> set ps. p e)"
    "pl_Funcs pl f e = funcs_eval f e" "pl_NewPredicateFuncs pl g e = g (event_object e)"
    "pl_GenerationChanged pl e = generation_changed e" "pl_AnnotationChanged pl e = annotations_changed e"
  using assms by (auto simp: predicates_doc_def)

definition std_pred_lib :: pred_lib where
  "std_pred_lib = \<lparr>pl_And = \<lambda>ps e. list_all (\<lambda>p. p e) ps, pl_Or = \<lambda>ps e. list_ex (\<lambda>p. p e) ps,
     pl_Funcs = funcs_eval, pl_NewPredicateFuncs = \<lambda>f e. f (event_object e),
     pl_GenerationChanged = generation_changed, pl_AnnotationChanged = annotations_changed\<rparr>"

lemma std_pred_lib_doc: "predicates_doc std_pred_lib"
  by (simp add: predicates_doc_def std_pred_lib_def list_all_iff list_ex_iff)

definition ring_of_lease :: "lease \<Rightarrow> string" where
  "ring_of_lease l = map_get (om_Labels (l_Meta l)) LabelControllerRing"

lemmas pred_defs = IsShardLease_def ShardLeaseStateChanged_def ShardLeaseAvailabilityChanged_def
  ControllerRingCreatedOrUpdated_def controllerring_LeasePredicate_def shardlease_LeasePredicate_def
  sharder_LeasePredicate_def isAssigned_def isDrained_def shard_Predicate_def no_funcs_def
  ring_of_lease_def

section \<open>Properties\<close>

definition sample_ring_lease :: "string \<Rightarrow> lease" where
  "sample_ring_lease holder = (sample_lease holder)\<lparr>l_Meta :=
     (l_Meta (sample_lease holder))\<lparr>om_Labels := Some [LabelControllerRing \<mapsto> ''ring'']\<rparr>\<rparr>"

text \<open>The sharder resyncs a ring exactly when the set of available shards may have changed:
  on creation of a held shard lease, on an update that gains or loses the holder, on deletion of a
  held lease or when the final state of a deleted lease is unknown. Renewals and mere expiry never
  trigger a resync.\<close>

theorem sharder_reacts_to_availability:
  assumes "predicates_doc pl"
  shows "(sharder_LeasePredicate pl now (CreateEvent (OLease l)) \<longleftrightarrow> ring_of_lease l \<noteq> [] \<and> held l) \<and>
    (sharder_LeasePredicate pl now (UpdateEvent (OLease l) (OLease l')) \<longleftrightarrow>
      ring_of_lease l' \<noteq> [] \<and> held l \<noteq> held l') \<and>
    (sharder_LeasePredicate pl now (DeleteEvent (OLease l) unknown) \<longleftrightarrow>
      ring_of_lease l \<noteq> [] \<and> (unknown \<or> held l))"
  using assms by (auto simp: pred_defs predicates_docD)

lemma sharder_reacts_to_availability_witness:
  "\<not> sharder_LeasePredicate std_pred_lib 0 (UpdateEvent (OLease (sample_ring_lease ''s1''))
      (OLease ((sample_ring_lease ''s1'')\<lparr>l_Spec := (l_Spec (sample_ring_lease ''s1''))\<lparr>RenewTime := Some 7\<rparr>\<rparr>)))"
  using sharder_reacts_to_availability [OF std_pred_lib_doc, of 0 "sample_ring_lease ''s1''"
      "(sample_ring_lease ''s1'')\<lparr>l_Spec := (l_Spec (sample_ring_lease ''s1''))\<lparr>RenewTime := Some 7\<rparr>\<rparr>"]
  by (simp add: sample_ring_lease_def sample_lease_simps)

text \<open>What the two status controllers react to, as a case analysis on the event.\<close>

fun lease_set_event :: "event \<Rightarrow> bool" where
  "lease_set_event (UpdateEvent (OLease l) (OLease l')) = (held l \<noteq> held l')"
| "lease_set_event (UpdateEvent _ _) = False"
| "lease_set_event _ = True"

fun lease_state_event :: "time \<Rightarrow> event \<Rightarrow> bool" where
  "lease_state_event now (UpdateEvent (OLease l) (OLease l')) = (ToState l now \<noteq> ToState l' now)"
| "lease_state_event now (UpdateEvent _ _) = False"
| "lease_state_event now (DeleteEvent _ _) = False"
| "lease_state_event now _ = True"

definition on_shard_lease :: "event \<Rightarrow> bool" where
  "on_shard_lease e \<longleftrightarrow> (case event_object e of OLease l \<Rightarrow> ring_of_lease l \<noteq> [] | _ \<Rightarrow> False)"

text \<open>The controllerring controller reacts to every creation and deletion of a shard lease
  (it counts shards) and to exactly those updates that change availability; the shardlease
  controller reacts to creations and to exactly the updates that change the state, never to
  deletions.\<close>

theorem status_controllers_react:
  assumes "predicates_doc pl"
  shows "(controllerring_LeasePredicate pl now e \<longleftrightarrow> on_shard_lease e \<and> lease_set_event e) \<and>
    (shardlease_LeasePredicate pl now e \<longleftrightarrow> on_shard_lease e \<and> lease_state_event now e)"
  using assms
  by (cases e) (auto simp: pred_defs on_shard_lease_def predicates_docD split: api_object.splits)

lemma status_controllers_react_witness:
  "controllerring_LeasePredicate std_pred_lib 0 (DeleteEvent (OLease (sample_ring_lease ''x'')) False) \<and>
   \<not> shardlease_LeasePredicate std_pred_lib 0 (DeleteEvent (OLease (sample_ring_lease ''x'')) False)"
  using status_controllers_react [OF std_pred_lib_doc, of 0 "DeleteEvent (OLease (sample_ring_lease ''x'')) False"]
  by (simp add: on_shard_lease_def sample_ring_lease_def ring_of_lease_def map_get_def sample_lease_simps)

text \<open>A sharded controller is notified of an object exactly when the object carries the
  ring's drain label or when it is assigned to this shard and all other predicates accept the
  event.\<close>

theorem shard_predicate_spec:
  assumes "predicates_doc pl"
  shows "shard_Predicate pl ring shard ps e \<longleftrightarrow>
    map_has (om_Labels (obj_meta (event_object e))) (LabelDrain ring) \<or>
    map_get (om_Labels (obj_meta (event_object e))) (LabelShard ring) = shard \<and> (\<forall>p \<in> set ps. p e)"
  using assms by (simp add: pred_defs predicates_docD)

lemma shard_predicate_spec_witness:
  "shard_Predicate std_pred_lib ''ring'' ''s1'' [\<lambda>_. False]
     (CreateEvent (OOther (empty_meta\<lparr>om_Labels := Some [LabelDrain ''ring'' \<mapsto> ''true'']\<rparr>)))"
  by (subst shard_predicate_spec [OF std_pred_lib_doc]) (simp add: map_has_def)

end
