(* ===== verification/Shardlease.thy ===== *)
theory Shardlease
  imports Leases K8s_Lib
begin

text \<open>
  The shardlease controller, \<^verbatim>\<open>pkg/controller/shardlease/reconciler.go\<close>: it maintains the state
  label of shard leases, takes over the leases of shards that stopped renewing, and collects leases
  that were given up. The clock is read once, as in the code. The object returned by a patch is
  the one later updated or deleted.
\<close>

section \<open>Reconciliation\<close>

text \<open>
  The acquired lease. The new duration is a 32-bit product, the transition counter a 32-bit sum.
\<close>

definition acquire :: "lease \<Rightarrow> times \<Rightarrow> time \<Rightarrow> lease" where
  "acquire lease t now =
     (let transitions = (case LeaseTransitions (l_Spec lease) of None \<Rightarrow> 0 | Some n \<Rightarrow> n)
      in lease\<lparr>l_Spec := (l_Spec lease)\<lparr>
           HolderIdentity := Some IdentityShardLeaseController,
           LeaseDurationSeconds := Some (wrap32 (2 * wrap32 (dur_whole_seconds (dur_Round (LeaseDuration t) Second)))),
           AcquireTime := Some now,
           RenewTime := Some now,
           LeaseTransitions := Some (wrap32 (transitions + 1))\<rparr>\<rparr>)"

definition label_state :: "k8s_lib \<Rightarrow> lease \<Rightarrow> shard_state \<Rightarrow> lease" where
  "label_state lib lease st = lease\<lparr>l_Meta := lib_SetMetaDataLabel lib (l_Meta lease) LabelState (state_String st)\<rparr>"

text \<open>Acting on the state, with the lease as the state label patch returned it.\<close>

definition act_on_state ::
  "'w client \<Rightarrow> time \<Rightarrow> shard \<Rightarrow> lease \<Rightarrow> 'w \<Rightarrow> (go_error + rec_result) \<times> 'w"
where
  "act_on_state c now sh lease w =
     (case sh_State sh of
        Ready \<Rightarrow> (Inr \<lparr>RequeueAfter = ToExpired (sh_Times sh)\<rparr>, w)
      | Expired \<Rightarrow> (Inr \<lparr>RequeueAfter = ToUncertain (sh_Times sh)\<rparr>, w)
      | Uncertain \<Rightarrow>
          (case c_UpdateLease c w (acquire lease (sh_Times sh) now) of
             (Inl err, w') \<Rightarrow> (Inl (wrapf ''error acquiring shard lease'' err), w')
           | (Inr lease', w') \<Rightarrow> (Inr \<lparr>RequeueAfter = LeaseDuration (sh_Times sh)\<rparr>, w'))
      | Dead \<Rightarrow> (Inr \<lparr>RequeueAfter = ToOrphaned (sh_Times sh)\<rparr>, w)
      | Orphaned \<Rightarrow>
          (case c_DeleteLease c w lease of
             (Some err, w') \<Rightarrow> (Inl err, w')
           | (None, w') \<Rightarrow> (Inr no_requeue, w'))
      | Unknown \<Rightarrow> (Inr no_requeue, w))"

definition shardlease_Reconcile ::
  "k8s_lib \<Rightarrow> 'w client \<Rightarrow> time \<Rightarrow> nsname \<Rightarrow> 'w \<Rightarrow> (go_error + rec_result) \<times> 'w"
where
  "shardlease_Reconcile lib c now req w =
     (case c_GetLease c w req of
        Inl err \<Rightarrow>
          if IsNotFound err then (Inr no_requeue, w)
          else (Inl (wrapf ''error retrieving object from store'' err), w)
      | Inr lease \<Rightarrow>
          (let controllerRingName = map_get (om_Labels (l_Meta lease)) LabelControllerRing in
           if controllerRingName = [] then (Inr no_requeue, w)
           else case c_GetRing c w ([], controllerRingName) of
             Inl err \<Rightarrow>
               if \<not> IsNotFound err then (Inl (wrapf ''error checking for existence of ControllerRing'' err), w)
               else (Inr no_requeue, w)
           | Inr _ \<Rightarrow>
               (let previousState = StateFromString (map_get (om_Labels (l_Meta lease)) LabelState);
                    sh = ToShard lease now in
                if previousState \<noteq> sh_State sh then
                  (case c_PatchLease c w (label_state lib lease (sh_State sh)) lease of
                     (Inl err, w') \<Rightarrow> (Inl (wrapf ''failed to update state label on lease'' err), w')
                   | (Inr lease', w') \<Rightarrow> act_on_state c now sh lease' w')
                else act_on_state c now sh lease w)))"

section \<open>Lemmas\<close>

text \<open>A lease the controller is responsible for: labelled for a ring that exists.\<close>

definition ring_lease :: "'w client \<Rightarrow> 'w \<Rightarrow> nsname \<Rightarrow> lease \<Rightarrow> bool" where
  "ring_lease c w req l \<longleftrightarrow> c_GetLease c w req = Inr l \<and> map_get (om_Labels (l_Meta l)) LabelControllerRing \<noteq> [] \<and>
     (\<exists>r. c_GetRing c w ([], map_get (om_Labels (l_Meta l)) LabelControllerRing) = Inr r)"

text \<open>The lease and the world after the state label is maintained, or the error of the patch.\<close>

definition labelled :: "k8s_lib \<Rightarrow> 'w client \<Rightarrow> time \<Rightarrow> lease \<Rightarrow> 'w \<Rightarrow> (go_error + lease) \<times> 'w" where
  "labelled lib c now l w =
     (if StateFromString (map_get (om_Labels (l_Meta l)) LabelState) \<noteq> ToState l now
      then c_PatchLease c w (label_state lib l (ToState l now)) l else (Inr l, w))"

lemma Reconcile_ring_lease:
  assumes "ring_lease c w req l"
  shows "shardlease_Reconcile lib c now req w =
    (case labelled lib c now l w of
       (Inl err, w') \<Rightarrow> (Inl (wrapf ''failed to update state label on lease'' err), w')
     | (Inr l', w') \<Rightarrow> act_on_state c now (ToShard l now) l' w')"
  using assms by (auto simp: shardlease_Reconcile_def ring_lease_def labelled_def Let_def)

lemma acquire_not_held: "om_Name (l_Meta l) \<noteq> IdentityShardLeaseController \<Longrightarrow> \<not> held (acquire l t now)"
  by (simp add: held_def acquire_def Let_def)

lemma acquire_fields:
  "complete (acquire l t now)" "RenewTime (l_Spec (acquire l t now)) = Some now"
  "l_Meta (acquire l t now) = l_Meta l"
  by (simp_all add: complete_def acquire_def Let_def)

lemma acquire_secs:
  assumes "LeaseDuration t = d * Second" and "in32 (2 * d)"
  shows "lease_secs (acquire l t now) = 2 * d"
proof -
  have "in32 d" using assms(2) by simp
  then show ?thesis
    using assms by (simp add: acquire_def lease_secs_def Let_def whole_seconds_Round wrap32_id)
qed

lemma spec_state_step:
  assumes "0 \<le> lease_secs l" and "now \<le> t"
  shows "spec_state l now = Ready \<Longrightarrow> (spec_state l t = Ready \<longleftrightarrow> t < expires_at l)"
    and "spec_state l now = Expired \<Longrightarrow> (spec_state l t = Expired \<longleftrightarrow> t < expires_at l + lease_secs l * Second)"
    and "spec_state l now = Dead \<Longrightarrow> (spec_state l t = Dead \<longleftrightarrow> t < expires_at l + Minute)"
  using assms by (auto simp: spec_state_def Second_def split: if_splits)

text \<open>When the controller looks at an untouched lease again, from its state.\<close>

definition next_check :: "lease \<Rightarrow> time \<Rightarrow> time" where
  "next_check l now =
     (case ToState l now of Ready \<Rightarrow> expires_at l | Expired \<Rightarrow> expires_at l + lease_secs l * Second
      | Dead \<Rightarrow> expires_at l + Minute | _ \<Rightarrow> now)"

lemma act_on_state_requeue:
  assumes "complete l" and "sane_times l now" and "ToState l now \<in> {Ready, Expired, Dead}"
  shows "act_on_state c now (ToShard l now) l' w = (Inr \<lparr>RequeueAfter = next_check l now - now\<rparr>, w)"
  using assms by (auto simp: act_on_state_def next_check_def complete_ToTimes)

section \<open>Properties\<close>

text \<open>C23: The lease of a live shard is never taken: as long as less than one lease duration has
  passed since the expiration of a held lease, the controller writes at most the state label, and
  as long as a released or acquired lease expired less than a minute ago it is not deleted.\<close>

theorem live_lease_untouched:
  assumes "ring_lease c w req l" and "complete l" and "sane_times l now"
    and "if held l then now < expires_at l + lease_secs l * Second else now < expires_at l + Minute"
  shows "snd (shardlease_Reconcile lib c now req w) = w \<or>
    snd (shardlease_Reconcile lib c now req w) = snd (c_PatchLease c w (label_state lib l (ToState l now)) l)"
proof -
  have "ToState l now \<in> {Ready, Expired, Dead}"
    using assms(4) by (auto simp: ToState_spec [OF assms(2,3)] spec_state_def split: if_splits)
  note requeue = act_on_state_requeue [OF assms(2,3) this]
  have "snd (shardlease_Reconcile lib c now req w) = snd (labelled lib c now l w)"
    by (simp add: Reconcile_ring_lease [OF assms(1)] requeue split: prod.splits sum.splits)
  then show ?thesis by (simp add: labelled_def split: if_splits)
qed

definition sample_lease_store :: "lease \<Rightarrow> store" where
  "sample_lease_store l = \<lparr>sto_rings = [\<lparr>cr_Meta = empty_meta\<lparr>om_Name := ''ring''\<rparr>,
       cr_Spec = \<lparr>rs_Resources = [], rs_NamespaceSelector = None\<rparr>,
       cr_Status = \<lparr>st_ObservedGeneration = 0, st_Shards = 0, st_AvailableShards = 0, st_Conditions = []\<rparr>\<rparr>],
     sto_leases = [l], sto_namespaces = [], sto_patches = []\<rparr>"

definition labelled_lease :: "string \<Rightarrow> string \<Rightarrow> lease" where
  "labelled_lease holder st = (sample_lease holder)\<lparr>l_Meta := (l_Meta (sample_lease holder))\<lparr>om_Labels :=
     Some [LabelControllerRing \<mapsto> ''ring'', LabelState \<mapsto> st]\<rparr>\<rparr>"

lemma labelled_lease_labels:
  "map_get (om_Labels (l_Meta (labelled_lease holder st))) LabelControllerRing = ''ring''"
  "map_get (om_Labels (l_Meta (labelled_lease holder st))) LabelState = st"
  by (simp_all add: labelled_lease_def map_get_def LabelControllerRing_def LabelState_def)

lemma sample_ring_lease:
  "ring_lease store_client (sample_lease_store (labelled_lease holder st)) ([], ''s1'') (labelled_lease holder st)"
  unfolding ring_lease_def labelled_lease_labels
  by (simp add: sample_lease_store_def store_client_def ObjectKeyFromObject_def)
    (simp add: labelled_lease_def sample_lease_def empty_meta_def)

lemma live_lease_untouched_witness:
  "snd (shardlease_Reconcile std_lib store_client (115 * Second) ([], ''s1'') (sample_lease_store (labelled_lease ''s1'' ''expired'')))
     = sample_lease_store (labelled_lease ''s1'' ''expired'') \<or>
   snd (shardlease_Reconcile std_lib store_client (115 * Second) ([], ''s1'') (sample_lease_store (labelled_lease ''s1'' ''expired'')))
     = snd (c_PatchLease store_client (sample_lease_store (labelled_lease ''s1'' ''expired'')) (label_state std_lib
         (labelled_lease ''s1'' ''expired'') (ToState (labelled_lease ''s1'' ''expired'') (115 * Second))) (labelled_lease ''s1'' ''expired''))"
  by (rule live_lease_untouched [OF sample_ring_lease]) (simp_all add: labelled_lease_def sample_lease_simps)

text \<open>Failover: when a shard has not renewed its lease for a lease duration past the
  expiration, reconciling it (with a successful label patch) updates it to a lease that is not held
  by the shard any more, so the shard leaves the ring; the acquired lease stays Dead for twice the
  lease duration and one minute and is Orphaned from then on.\<close>

theorem uncertain_lease_is_acquired:
  assumes "ring_lease c w req l" and "complete l" and "sane_times l now" and "held l"
    and "expires_at l + lease_secs l * Second \<le> now" and "labelled lib c now l w = (Inr l', w')"
    and "l_Spec l' = l_Spec l" and "om_Name (l_Meta l') = om_Name (l_Meta l)"
    and "om_Name (l_Meta l) \<noteq> IdentityShardLeaseController" and "0 \<le> lease_secs l" and "in32 (2 * lease_secs l)"
  shows "\<exists>a. snd (shardlease_Reconcile lib c now req w) = snd (c_UpdateLease c w' a) \<and> l_Meta a = l_Meta l' \<and> \<not> held a \<and>
    (\<forall>t. sane_times a t \<longrightarrow>
      ToState a t = (if t < now + 2 * lease_secs l * Second + Minute then Dead else Orphaned))"
proof -
  let ?a = "acquire l' (ToTimes l now) now"
  have "ToState l now = Uncertain"
    using assms(4,5) by (simp add: ToState_spec [OF assms(2,3)] spec_state_def)
  then have "snd (shardlease_Reconcile lib c now req w) = snd (c_UpdateLease c w' ?a)"
    by (simp add: Reconcile_ring_lease [OF assms(1)] assms(6) act_on_state_def split: prod.splits sum.splits)
  moreover have nh: "\<not> held ?a" using assms(8,9) by (simp add: acquire_not_held)
  moreover have "lease_secs ?a = 2 * lease_secs l"
    using complete_ToTimes(2) [OF assms(2,3)] assms(11) by (rule acquire_secs)
  then have "spec_state ?a t = (if t < now + 2 * lease_secs l * Second + Minute then Dead else Orphaned)" for t
    using nh by (simp add: spec_state_def expires_at_def acquire_fields)
  ultimately show ?thesis
    by (intro exI [of _ ?a]) (simp add: acquire_fields ToState_spec)
qed

lemma uncertain_lease_is_acquired_witness:
  "\<exists>a. snd (shardlease_Reconcile std_lib store_client (120 * Second) ([], ''s1'') (sample_lease_store (labelled_lease ''s1'' ''uncertain'')))
     = snd (c_UpdateLease store_client (sample_lease_store (labelled_lease ''s1'' ''uncertain'')) a) \<and> \<not> held a"
proof -
  let ?l = "labelled_lease ''s1'' ''uncertain''"
  have st: "ToState ?l (120 * Second) = Uncertain"
    by (subst ToState_spec) (simp_all add: spec_state_def labelled_lease_def sample_lease_simps)
  have "labelled std_lib store_client (120 * Second) ?l (sample_lease_store ?l) = (Inr ?l, sample_lease_store ?l)"
    by (simp add: labelled_def labelled_lease_labels st StateFromString_def)
  then show ?thesis
    using uncertain_lease_is_acquired [OF sample_ring_lease, of "''s1''" "''uncertain''" "120 * Second" std_lib ?l "sample_lease_store ?l"]
    by (auto simp: labelled_lease_def sample_lease_simps IdentityShardLeaseController_def)
qed

text \<open>C24: The controller wakes up exactly at the next transition: a lease that is Ready, Expired or
  Dead keeps its state until the requeue delay has passed and has left it at that instant.\<close>

theorem requeue_hits_next_transition:
  assumes "ring_lease c w req l" and "complete l" and "0 \<le> lease_secs l" and "ToState l now \<in> {Ready, Expired, Dead}"
    and "shardlease_Reconcile lib c now req w = (Inr r, w')"
    and "sane_times l now" and "sane_times l t" and "now \<le> t"
  shows "0 < RequeueAfter r \<and> (ToState l t = ToState l now \<longleftrightarrow> t < now + RequeueAfter r)"
proof -
  have "RequeueAfter r = next_check l now - now"
    using assms(5) unfolding Reconcile_ring_lease [OF assms(1)] act_on_state_requeue [OF assms(2,6,4)]
    by (auto split: prod.splits sum.splits)
  then show ?thesis
    using assms(4) spec_state_step [OF assms(3,8)]
    by (auto simp: next_check_def ToState_spec [OF assms(2,6)] ToState_spec [OF assms(2,7)])
      (auto simp: spec_state_def split: if_splits)
qed

lemma requeue_hits_next_transition_witness:
  "\<exists>r. fst (shardlease_Reconcile std_lib store_client (105 * Second) ([], ''s1'') (sample_lease_store (labelled_lease ''s1'' ''ready''))) = Inr r \<and>
     0 < RequeueAfter r"
proof -
  let ?l = "labelled_lease ''s1'' ''ready''"
  have sane: "complete ?l" "0 \<le> lease_secs ?l" "sane_times ?l (105 * Second)"
    by (simp_all add: labelled_lease_def sample_lease_simps)
  have st: "ToState ?l (105 * Second) = Ready"
    by (subst ToState_spec [OF sane(1,3)]) (simp add: spec_state_def labelled_lease_def sample_lease_simps)
  have "labelled std_lib store_client (105 * Second) ?l (sample_lease_store ?l) = (Inr ?l, sample_lease_store ?l)"
    by (simp add: labelled_def labelled_lease_labels st StateFromString_def)
  then obtain r where r: "shardlease_Reconcile std_lib store_client (105 * Second) ([], ''s1'') (sample_lease_store ?l) =
      (Inr r, sample_lease_store ?l)"
    using Reconcile_ring_lease [OF sample_ring_lease] st by (simp add: act_on_state_def)
  then show ?thesis
    using requeue_hits_next_transition [OF sample_ring_lease sane(1,2) _ r sane(3) sane(3)] st by simp
qed

end
