(* ===== verification/Config.thy ===== *)
theory Config
  imports Api_Types Complex_Main
begin

text \<open>
  The configuration of the sharder: the types and defaulting functions of
  \<^verbatim>\<open>pkg/apis/config/v1alpha1\<close> (with the generated covering defaulter) and the translation into
  manager options of \<^verbatim>\<open>cmd/sharder/app/options.go\<close>. Pointers are options; reading through a nil
  pointer panics, which is the result \<open>None\<close>. The defaulting functions of component-base, the
  constants of the Kubernetes packages, file and environment access and the label selector
  functions are fields of \<open>config_lib\<close>.
\<close>

section \<open>Types\<close>

record client_connection =
  cc_QPS :: rat
  cc_Burst :: int

record leader_election =
  le_LeaderElect :: "bool option"
  le_LeaseDuration :: duration
  le_RenewDeadline :: duration
  le_RetryPeriod :: duration
  le_ResourceLock :: string
  le_ResourceName :: string
  le_ResourceNamespace :: string

record debugging =
  dbg_EnableProfiling :: "bool option"
  dbg_EnableContentionProfiling :: "bool option"

record health_endpoint =
  he_BindAddress :: string

record metrics_endpoint =
  me_BindAddress :: string

record sharder_controller =
  sc_SyncPeriod :: "duration option"
  sc_ConcurrentMoves :: "int option"

record controller_config =
  ctl_Sharder :: "sharder_controller option"

record webhook_server =
  ws_CertDir :: "string option"
  ws_CertName :: "string option"
  ws_KeyName :: "string option"

record service_reference =
  sv_Namespace :: string
  sv_Name :: string
  sv_Path :: "string option"

record webhook_client_config =
  wcc_URL :: "string option"
  wcc_Service :: "service_reference option"
  wcc_CABundle :: string

record webhook_config =
  wc_Annotations :: go_map
  wc_ClientConfig :: "webhook_client_config option"
  wc_NamespaceSelector :: "label_selector option"

record webhook =
  wh_Server :: "webhook_server option"
  wh_Config :: "webhook_config option"

record config_v1alpha1 =
  c_ClientConnection :: "client_connection option"
  c_LeaderElection :: "leader_election option"
  c_Debugging :: "debugging option"
  c_Health :: health_endpoint
  c_Metrics :: metrics_endpoint
  c_Controller :: controller_config
  c_Webhook :: webhook
  c_GracefulShutdownTimeout :: "duration option"

definition zero_leader_election :: leader_election where
  "zero_leader_election = \<lparr>le_LeaderElect = None, le_LeaseDuration = 0, le_RenewDeadline = 0, le_RetryPeriod = 0,
     le_ResourceLock = [], le_ResourceName = [], le_ResourceNamespace = []\<rparr>"

definition zero_config :: config_v1alpha1 where
  "zero_config = \<lparr>c_ClientConnection = None, c_LeaderElection = None, c_Debugging = None,
     c_Health = \<lparr>he_BindAddress = []\<rparr>, c_Metrics = \<lparr>me_BindAddress = []\<rparr>, c_Controller = \<lparr>ctl_Sharder = None\<rparr>,
     c_Webhook = \<lparr>wh_Server = None, wh_Config = None\<rparr>, c_GracefulShutdownTimeout = None\<rparr>"

section \<open>Code outside the repository\<close>

record config_lib =
  cl_RecommendedLeaderElection :: "leader_election \<Rightarrow> leader_election"
  cl_RecommendedDebugging :: "debugging \<Rightarrow> debugging"
  cl_LeasesResourceLock :: string
  cl_LabelMetadataName :: string
  cl_KubeSystem :: string

text \<open>
  Component-base documents that its recommended defaults fill unset fields: afterwards the two
  switches are set, and what was set is kept.
\<close>

definition recommended_doc :: "config_lib \<Rightarrow> bool" where
  "recommended_doc cl \<longleftrightarrow> cl_LeasesResourceLock cl \<noteq> [] \<and>
     (\<forall>l. le_LeaderElect (cl_RecommendedLeaderElection cl l) \<noteq> None \<and>
        (\<forall>b. le_LeaderElect l = Some b \<longrightarrow> le_LeaderElect (cl_RecommendedLeaderElection cl l) = Some b) \<and>
        (le_ResourceLock l \<noteq> [] \<longrightarrow> le_ResourceLock (cl_RecommendedLeaderElection cl l) = le_ResourceLock l) \<and>
        cl_RecommendedLeaderElection cl (cl_RecommendedLeaderElection cl l) = cl_RecommendedLeaderElection cl l \<and>
        (\<forall>n ns. cl_RecommendedLeaderElection cl (l\<lparr>le_ResourceName := n, le_ResourceNamespace := ns\<rparr>) =
           (cl_RecommendedLeaderElection cl l)\<lparr>le_ResourceName := n, le_ResourceNamespace := ns\<rparr>)) \<and>
     (\<forall>d. dbg_EnableProfiling (cl_RecommendedDebugging cl d) \<noteq> None \<and>
        (\<forall>b. dbg_EnableProfiling d = Some b \<longrightarrow> dbg_EnableProfiling (cl_RecommendedDebugging cl d) = Some b) \<and>
        dbg_EnableContentionProfiling (cl_RecommendedDebugging cl d) = dbg_EnableContentionProfiling d)"

section \<open>Defaults\<close>

definition SetDefaults_SharderConfig :: "config_v1alpha1 \<Rightarrow> config_v1alpha1" where
  "SetDefaults_SharderConfig obj =
     (let obj = (if c_ClientConnection obj = None then obj\<lparr>c_ClientConnection := Some \<lparr>cc_QPS = 0, cc_Burst = 0\<rparr>\<rparr> else obj);
          obj = (if c_LeaderElection obj = None then obj\<lparr>c_LeaderElection := Some zero_leader_election\<rparr> else obj);
          obj = (if c_Debugging obj = None
            then obj\<lparr>c_Debugging := Some \<lparr>dbg_EnableProfiling = None, dbg_EnableContentionProfiling = None\<rparr>\<rparr> else obj)
      in if c_GracefulShutdownTimeout obj = None then obj\<lparr>c_GracefulShutdownTimeout := Some (15 * Second)\<rparr> else obj)"

definition SetDefaults_LeaderElectionConfiguration :: "config_lib \<Rightarrow> leader_election \<Rightarrow> leader_election" where
  "SetDefaults_LeaderElectionConfiguration cl obj =
     (let obj = (if le_ResourceLock obj = [] then obj\<lparr>le_ResourceLock := cl_LeasesResourceLock cl\<rparr> else obj);
          obj = cl_RecommendedLeaderElection cl obj;
          obj = (if le_ResourceName obj = [] then obj\<lparr>le_ResourceName := ''sharder''\<rparr> else obj)
      in if le_ResourceNamespace obj = [] then obj\<lparr>le_ResourceNamespace := NamespaceSystem\<rparr> else obj)"

definition SetDefaults_DebuggingConfiguration :: "config_lib \<Rightarrow> debugging \<Rightarrow> debugging" where
  "SetDefaults_DebuggingConfiguration cl obj =
     (let obj = cl_RecommendedDebugging cl obj
      in if dbg_EnableContentionProfiling obj = None then obj\<lparr>dbg_EnableContentionProfiling := Some False\<rparr> else obj)"

definition SetDefaults_HealthEndpoint :: "health_endpoint \<Rightarrow> health_endpoint" where
  "SetDefaults_HealthEndpoint obj = (if he_BindAddress obj = [] then obj\<lparr>he_BindAddress := '':8081''\<rparr> else obj)"

definition SetDefaults_MetricsEndpoint :: "metrics_endpoint \<Rightarrow> metrics_endpoint" where
  "SetDefaults_MetricsEndpoint obj = (if me_BindAddress obj = [] then obj\<lparr>me_BindAddress := '':8080''\<rparr> else obj)"

definition SetDefaults_Controller :: "controller_config \<Rightarrow> controller_config" where
  "SetDefaults_Controller obj =
     (if ctl_Sharder obj = None then obj\<lparr>ctl_Sharder := Some \<lparr>sc_SyncPeriod = None, sc_ConcurrentMoves = None\<rparr>\<rparr> else obj)"

definition SetDefaults_SharderController :: "sharder_controller \<Rightarrow> sharder_controller" where
  "SetDefaults_SharderController obj =
     (let obj = (if sc_SyncPeriod obj = None then obj\<lparr>sc_SyncPeriod := Some (5 * Minute)\<rparr> else obj)
      in if sc_ConcurrentMoves obj = None then obj\<lparr>sc_ConcurrentMoves := Some 100\<rparr> else obj)"

definition SetDefaults_Webhook :: "webhook \<Rightarrow> webhook" where
  "SetDefaults_Webhook obj =
     (let obj = (if wh_Server obj = None
            then obj\<lparr>wh_Server := Some \<lparr>ws_CertDir = None, ws_CertName = None, ws_KeyName = None\<rparr>\<rparr> else obj)
      in if wh_Config obj = None
         then obj\<lparr>wh_Config := Some \<lparr>wc_Annotations = None, wc_ClientConfig = None, wc_NamespaceSelector = None\<rparr>\<rparr> else obj)"

definition SetDefaults_WebhookConfig :: "config_lib \<Rightarrow> webhook_config \<Rightarrow> webhook_config" where
  "SetDefaults_WebhookConfig cl obj =
     (let obj = (if wc_ClientConfig obj = None
            then obj\<lparr>wc_ClientConfig := Some \<lparr>wcc_URL = None, wcc_Service = None, wcc_CABundle = []\<rparr>\<rparr> else obj)
      in if wc_NamespaceSelector obj = None
         then obj\<lparr>wc_NamespaceSelector := Some \<lparr>ls_MatchLabels = [], ls_MatchExpressions =
           [\<lparr>sr_Key = cl_LabelMetadataName cl, sr_Operator = OpNotIn, sr_Values = [cl_KubeSystem cl, NamespaceSystem]\<rparr>]\<rparr>\<rparr>
         else obj)"

definition SetDefaults_WebhookClientConfig :: "webhook_client_config \<Rightarrow> webhook_client_config" where
  "SetDefaults_WebhookClientConfig obj =
     (if wcc_URL obj = None \<and> wcc_Service obj = None
      then obj\<lparr>wcc_Service := Some \<lparr>sv_Namespace = [], sv_Name = [], sv_Path = None\<rparr>\<rparr> else obj)"

definition SetDefaults_ServiceReference :: "service_reference \<Rightarrow> service_reference" where
  "SetDefaults_ServiceReference obj =
     (let obj = (if sv_Namespace obj = [] then obj\<lparr>sv_Namespace := NamespaceSystem\<rparr> else obj)
      in if sv_Name obj = [] then obj\<lparr>sv_Name := ''sharder''\<rparr> else obj)"

text \<open>The generated defaulter calls the defaulting function of every nested object that is set.\<close>

definition default_client_config :: "webhook_client_config \<Rightarrow> webhook_client_config" where
  "default_client_config cc =
     (let cc = SetDefaults_WebhookClientConfig cc
      in cc\<lparr>wcc_Service := map_option SetDefaults_ServiceReference (wcc_Service cc)\<rparr>)"

definition default_webhook_config :: "config_lib \<Rightarrow> webhook_config \<Rightarrow> webhook_config" where
  "default_webhook_config cl wc =
     (let wc = SetDefaults_WebhookConfig cl wc
      in wc\<lparr>wc_ClientConfig := map_option default_client_config (wc_ClientConfig wc)\<rparr>)"

definition SetObjectDefaults_SharderConfig :: "config_lib \<Rightarrow> config_v1alpha1 \<Rightarrow> config_v1alpha1" where
  "SetObjectDefaults_SharderConfig cl c =
     (let c = SetDefaults_SharderConfig c;
          c = c\<lparr>c_LeaderElection := map_option (SetDefaults_LeaderElectionConfiguration cl) (c_LeaderElection c)\<rparr>;
          c = c\<lparr>c_Debugging := map_option (SetDefaults_DebuggingConfiguration cl) (c_Debugging c)\<rparr>;
          c = c\<lparr>c_Health := SetDefaults_HealthEndpoint (c_Health c)\<rparr>;
          c = c\<lparr>c_Metrics := SetDefaults_MetricsEndpoint (c_Metrics c)\<rparr>;
          c = c\<lparr>c_Controller := SetDefaults_Controller (c_Controller c)\<rparr>;
          c = c\<lparr>c_Controller := (c_Controller c)\<lparr>ctl_Sharder := map_option SetDefaults_SharderController (ctl_Sharder (c_Controller c))\<rparr>\<rparr>;
          c = c\<lparr>c_Webhook := SetDefaults_Webhook (c_Webhook c)\<rparr>
      in c\<lparr>c_Webhook := (c_Webhook c)\<lparr>wh_Config := map_option (default_webhook_config cl) (wh_Config (c_Webhook c))\<rparr>\<rparr>)"

section \<open>Lemmas\<close>

text \<open>An instance: the recommended values of component-base.\<close>

definition std_config_lib :: config_lib where
  "std_config_lib = \<lparr>
     cl_RecommendedLeaderElection = \<lambda>l. l\<lparr>
       le_LeaseDuration := (if le_LeaseDuration l = 0 then 15 * Second else le_LeaseDuration l),
       le_RenewDeadline := (if le_RenewDeadline l = 0 then 10 * Second else le_RenewDeadline l),
       le_RetryPeriod := (if le_RetryPeriod l = 0 then 2 * Second else le_RetryPeriod l),
       le_LeaderElect := Some (case le_LeaderElect l of None \<Rightarrow> True | Some b \<Rightarrow> b)\<rparr>,
     cl_RecommendedDebugging = \<lambda>d. d\<lparr>dbg_EnableProfiling := Some (case dbg_EnableProfiling d of None \<Rightarrow> True | Some b \<Rightarrow> b)\<rparr>,
     cl_LeasesResourceLock = ''leases'', cl_LabelMetadataName = ''kubernetes.io/metadata.name'', cl_KubeSystem = ''kube-system''\<rparr>"

lemma std_config_lib_doc: "recommended_doc std_config_lib"
  by (auto simp: recommended_doc_def std_config_lib_def Second_def)

lemma recommended_docD:
  assumes "recommended_doc cl"
  shows "\<exists>b. le_LeaderElect (cl_RecommendedLeaderElection cl l) = Some b"
    and "\<exists>b. dbg_EnableProfiling (cl_RecommendedDebugging cl d) = Some b"
    and "cl_RecommendedLeaderElection cl (cl_RecommendedLeaderElection cl l) = cl_RecommendedLeaderElection cl l"
    and "cl_RecommendedLeaderElection cl (l\<lparr>le_ResourceName := n, le_ResourceNamespace := ns\<rparr>) =
      (cl_RecommendedLeaderElection cl l)\<lparr>le_ResourceName := n, le_ResourceNamespace := ns\<rparr>"
    and "le_ResourceLock l \<noteq> [] \<Longrightarrow> le_ResourceLock (cl_RecommendedLeaderElection cl l) \<noteq> []"
    and "dbg_EnableProfiling d = Some b \<Longrightarrow> cl_RecommendedDebugging cl d = d"
    and "dbg_EnableContentionProfiling (cl_RecommendedDebugging cl d) = dbg_EnableContentionProfiling d"
    and "cl_LeasesResourceLock cl \<noteq> []"
proof -
  note doc = assms [unfolded recommended_doc_def]
  show "\<exists>b. le_LeaderElect (cl_RecommendedLeaderElection cl l) = Some b"
    "\<exists>b. dbg_EnableProfiling (cl_RecommendedDebugging cl d) = Some b"
    "cl_RecommendedLeaderElection cl (cl_RecommendedLeaderElection cl l) = cl_RecommendedLeaderElection cl l"
    "cl_RecommendedLeaderElection cl (l\<lparr>le_ResourceName := n, le_ResourceNamespace := ns\<rparr>) =
      (cl_RecommendedLeaderElection cl l)\<lparr>le_ResourceName := n, le_ResourceNamespace := ns\<rparr>"
    "dbg_EnableContentionProfiling (cl_RecommendedDebugging cl d) = dbg_EnableContentionProfiling d"
    "cl_LeasesResourceLock cl \<noteq> []"
    using doc by blast+
  show "le_ResourceLock l \<noteq> [] \<Longrightarrow> le_ResourceLock (cl_RecommendedLeaderElection cl l) \<noteq> []"
    using doc by metis
  show "dbg_EnableProfiling d = Some b \<Longrightarrow> cl_RecommendedDebugging cl d = d"
    using doc by (metis debugging.equality old.unit.exhaust)
qed

lemma leader_defaults_idem:
  assumes "recommended_doc cl"
  shows "SetDefaults_LeaderElectionConfiguration cl (SetDefaults_LeaderElectionConfiguration cl l) =
    SetDefaults_LeaderElectionConfiguration cl l"
proof -
  define r where "r = cl_RecommendedLeaderElection cl
    (if le_ResourceLock l = [] then l\<lparr>le_ResourceLock := cl_LeasesResourceLock cl\<rparr> else l)"
  define n where "n = (if le_ResourceName r = [] then ''sharder'' else le_ResourceName r)"
  define ns where "ns = (if le_ResourceNamespace r = [] then NamespaceSystem else le_ResourceNamespace r)"
  have eq: "SetDefaults_LeaderElectionConfiguration cl l = r\<lparr>le_ResourceName := n, le_ResourceNamespace := ns\<rparr>"
    by (simp add: SetDefaults_LeaderElectionConfiguration_def Let_def r_def n_def ns_def)
  have "le_ResourceLock r \<noteq> []"
    unfolding r_def using recommended_docD(5,8) [OF assms] by simp
  moreover have "cl_RecommendedLeaderElection cl (r\<lparr>le_ResourceName := n, le_ResourceNamespace := ns\<rparr>) =
      r\<lparr>le_ResourceName := n, le_ResourceNamespace := ns\<rparr>"
    using recommended_docD(3,4) [OF assms] by (simp add: r_def)
  moreover have "n \<noteq> []" "ns \<noteq> []" by (simp_all add: n_def ns_def NamespaceSystem_def)
  ultimately show ?thesis
    unfolding eq by (simp add: SetDefaults_LeaderElectionConfiguration_def)
qed

lemma debugging_defaults_set:
  assumes "recommended_doc cl"
  shows "\<exists>b. dbg_EnableProfiling (SetDefaults_DebuggingConfiguration cl d) = Some b"
    and "\<exists>b. dbg_EnableContentionProfiling (SetDefaults_DebuggingConfiguration cl d) = Some b"
  using recommended_docD(2) [OF assms, of d] by (auto simp: SetDefaults_DebuggingConfiguration_def Let_def)

lemma debugging_defaults_idem:
  assumes "recommended_doc cl"
  shows "SetDefaults_DebuggingConfiguration cl (SetDefaults_DebuggingConfiguration cl d) = SetDefaults_DebuggingConfiguration cl d"
    (is "SetDefaults_DebuggingConfiguration cl ?d = ?d")
proof -
  have "cl_RecommendedDebugging cl ?d = ?d"
    using recommended_docD(6) [OF assms] debugging_defaults_set(1) [OF assms] by blast
  moreover have "dbg_EnableContentionProfiling ?d \<noteq> None"
    using debugging_defaults_set(2) [OF assms, of d] by simp
  ultimately show ?thesis by (subst SetDefaults_DebuggingConfiguration_def) (simp add: Let_def)
qed

lemma endpoint_defaults_idem:
  "SetDefaults_HealthEndpoint (SetDefaults_HealthEndpoint h) = SetDefaults_HealthEndpoint h"
  "SetDefaults_MetricsEndpoint (SetDefaults_MetricsEndpoint m) = SetDefaults_MetricsEndpoint m"
  "SetDefaults_SharderController (SetDefaults_SharderController sc) = SetDefaults_SharderController sc"
  by (simp_all add: SetDefaults_HealthEndpoint_def SetDefaults_MetricsEndpoint_def SetDefaults_SharderController_def Let_def)

lemma service_defaults_idem: "SetDefaults_ServiceReference (SetDefaults_ServiceReference s) = SetDefaults_ServiceReference s"
  by (simp add: SetDefaults_ServiceReference_def Let_def NamespaceSystem_def)

lemma client_config_defaults:
  "default_client_config (default_client_config cc) = default_client_config cc"
  "wcc_URL (default_client_config cc) \<noteq> None \<or> wcc_Service (default_client_config cc) \<noteq> None"
  by (auto simp: default_client_config_def SetDefaults_WebhookClientConfig_def Let_def option.map_comp comp_def
      service_defaults_idem)

lemma webhook_config_defaults:
  "default_webhook_config cl (default_webhook_config cl wc) = default_webhook_config cl wc"
  "\<exists>cc. wc_ClientConfig (default_webhook_config cl wc) = Some (default_client_config cc)"
  "wc_NamespaceSelector (default_webhook_config cl wc) \<noteq> None"
  by (auto simp: default_webhook_config_def SetDefaults_WebhookConfig_def Let_def option.map_comp comp_def
      client_config_defaults(1))

text \<open>The defaulted configuration, field by field.\<close>

lemma default_fields:
  "c_ClientConnection (SetObjectDefaults_SharderConfig cl c) =
     Some (case c_ClientConnection c of None \<Rightarrow> \<lparr>cc_QPS = 0, cc_Burst = 0\<rparr> | Some x \<Rightarrow> x)"
  "c_LeaderElection (SetObjectDefaults_SharderConfig cl c) =
     Some (SetDefaults_LeaderElectionConfiguration cl (case c_LeaderElection c of None \<Rightarrow> zero_leader_election | Some x \<Rightarrow> x))"
  "c_Debugging (SetObjectDefaults_SharderConfig cl c) =
     Some (SetDefaults_DebuggingConfiguration cl (case c_Debugging c of
       None \<Rightarrow> \<lparr>dbg_EnableProfiling = None, dbg_EnableContentionProfiling = None\<rparr> | Some x \<Rightarrow> x))"
  "c_Health (SetObjectDefaults_SharderConfig cl c) = SetDefaults_HealthEndpoint (c_Health c)"
  "c_Metrics (SetObjectDefaults_SharderConfig cl c) = SetDefaults_MetricsEndpoint (c_Metrics c)"
  "ctl_Sharder (c_Controller (SetObjectDefaults_SharderConfig cl c)) =
     Some (SetDefaults_SharderController (case ctl_Sharder (c_Controller c) of
       None \<Rightarrow> \<lparr>sc_SyncPeriod = None, sc_ConcurrentMoves = None\<rparr> | Some x \<Rightarrow> x))"
  "wh_Server (c_Webhook (SetObjectDefaults_SharderConfig cl c)) =
     Some (case wh_Server (c_Webhook c) of None \<Rightarrow> \<lparr>ws_CertDir = None, ws_CertName = None, ws_KeyName = None\<rparr> | Some x \<Rightarrow> x)"
  "wh_Config (c_Webhook (SetObjectDefaults_SharderConfig cl c)) =
     Some (default_webhook_config cl (case wh_Config (c_Webhook c) of
       None \<Rightarrow> \<lparr>wc_Annotations = None, wc_ClientConfig = None, wc_NamespaceSelector = None\<rparr> | Some x \<Rightarrow> x))"
  "c_GracefulShutdownTimeout (SetObjectDefaults_SharderConfig cl c) =
     Some (case c_GracefulShutdownTimeout c of None \<Rightarrow> 15 * Second | Some x \<Rightarrow> x)"
  by (auto simp: SetObjectDefaults_SharderConfig_def SetDefaults_SharderConfig_def SetDefaults_Controller_def
      SetDefaults_Webhook_def Let_def split: option.splits)

section \<open>Properties\<close>

text \<open>Defaulting is idempotent: defaulting a defaulted configuration again changes nothing,
  and every value the user set explicitly for the sharder controller survives.\<close>

theorem config_defaults_idempotent:
  assumes "recommended_doc cl"
  shows "SetObjectDefaults_SharderConfig cl (SetObjectDefaults_SharderConfig cl c) = SetObjectDefaults_SharderConfig cl c \<and>
    (\<forall>sc n. ctl_Sharder (c_Controller c) = Some sc \<and> sc_ConcurrentMoves sc = Some n \<longrightarrow>
      (\<exists>sc'. ctl_Sharder (c_Controller (SetObjectDefaults_SharderConfig cl c)) = Some sc' \<and> sc_ConcurrentMoves sc' = Some n))"
proof -
  have "SetObjectDefaults_SharderConfig cl (SetObjectDefaults_SharderConfig cl c) = SetObjectDefaults_SharderConfig cl c"
    by (rule config_v1alpha1.equality)
      (simp_all add: default_fields leader_defaults_idem [OF assms] debugging_defaults_idem [OF assms] endpoint_defaults_idem
        webhook_config_defaults(1) controller_config.equality webhook.equality)
  moreover have "sc_ConcurrentMoves (SetDefaults_SharderController sc) = Some n" if "sc_ConcurrentMoves sc = Some n" for sc n
    using that by (simp add: SetDefaults_SharderController_def Let_def)
  ultimately show ?thesis by (auto simp: default_fields)
qed

lemma config_defaults_idempotent_witness:
  "SetObjectDefaults_SharderConfig std_config_lib (SetObjectDefaults_SharderConfig std_config_lib zero_config) =
     SetObjectDefaults_SharderConfig std_config_lib zero_config"
  using config_defaults_idempotent [OF std_config_lib_doc, of zero_config] by blast

end
