(* ===== verification/Controllerring.thy ===== *)
theory Controllerring
  imports Config Webhook
begin

text \<open>
  The controllerring controller, \<^verbatim>\<open>pkg/controller/controllerring/reconciler.go\<close>: it applies one
  webhook configuration per ring and maintains the status of the ring. The client is the record of
  the other controllers, extended by the calls only this one makes. \<^verbatim>\<open>CapitalizeFirst\<close> of
  \<^verbatim>\<open>pkg/utils/strings.go\<close> is modelled on ASCII text, which all messages it is given start with;
  it panics on the empty string. \<open>None\<close> is a panic.
\<close>

section \<open>Types\<close>

datatype operation_type = OpCreate | OpUpdate | OpDelete | OpConnect | OperationAll
datatype scope_type = AllScopes | NamespacedScope | ClusterScope
datatype failure_policy = PolicyIgnore | PolicyFail
datatype side_effect_class = SideEffectClassNone | SideEffectClassOther

record webhook_rule =
  ru_Operations :: "operation_type list"
  ru_APIGroups :: "string list"
  ru_APIVersions :: "string list"
  ru_Resources :: "string list"
  ru_Scope :: "scope_type option"

record mutating_webhook =
  mw_Name :: string
  mw_ClientConfig :: webhook_client_config
  mw_NamespaceSelector :: "label_selector option"
  mw_ObjectSelector :: "label_selector option"
  mw_FailurePolicy :: "failure_policy option"
  mw_TimeoutSeconds :: "int option"
  mw_SideEffects :: "side_effect_class option"
  mw_AdmissionReviewVersions :: "string list"
  mw_Rules :: "webhook_rule list"

record webhook_configuration =
  mwc_APIVersion :: string
  mwc_Kind :: string
  mwc_Meta :: object_meta
  mwc_Webhooks :: "mutating_webhook list"

record 'w ring_client = "'w client" +
  rcl_ApplyWebhookConfig :: "'w \<Rightarrow> webhook_configuration \<Rightarrow> go_error option \<times> 'w"
  rcl_UpdateStatus :: "'w \<Rightarrow> controller_ring \<Rightarrow> go_error option \<times> 'w"
  rcl_WarningEvent :: "'w \<Rightarrow> controller_ring \<Rightarrow> string \<Rightarrow> string \<Rightarrow> 'w"

section \<open>Utilities\<close>

fun CapitalizeFirst :: "string \<Rightarrow> string option" where
  "CapitalizeFirst [] = None"
| "CapitalizeFirst (r # rs) = Some (to_upper r # rs)"

section \<open>The webhook configuration\<close>

definition RuleForResource :: "group_resource \<Rightarrow> webhook_rule" where
  "RuleForResource gr = \<lparr>ru_Operations = [OpCreate, OpUpdate], ru_APIGroups = [gr_Group gr], ru_APIVersions = [''*''],
     ru_Resources = [gr_Resource gr], ru_Scope = Some AllScopes\<rparr>"

fun rules_for_resources :: "ring_resource list \<Rightarrow> webhook_rule list" where
  "rules_for_resources [] = []"
| "rules_for_resources (rr # rrs) =
     RuleForResource (rr_GroupResource rr) # map RuleForResource (rr_ControlledResources rr) @ rules_for_resources rrs"

definition client_config_with_path :: "string \<Rightarrow> webhook_client_config \<Rightarrow> webhook_client_config" where
  "client_config_with_path webhookPath cc =
     (let cc = (case wcc_Service cc of None \<Rightarrow> cc
            | Some service \<Rightarrow> cc\<lparr>wcc_Service := Some (service\<lparr>sv_Path := Some webhookPath\<rparr>)\<rparr>)
      in case wcc_URL cc of None \<Rightarrow> cc
         | Some url \<Rightarrow> cc\<lparr>wcc_URL := Some (TrimSuffix url ''/'' @ webhookPath)\<rparr>)"

definition WebhookForControllerRing :: "controller_ring \<Rightarrow> webhook_config \<Rightarrow> mutating_webhook option" where
  "WebhookForControllerRing controllerRing config =
     (case wc_ClientConfig config of
        None \<Rightarrow> None
      | Some clientConfig \<Rightarrow>
          (let wh = \<lparr>mw_Name = ''sharder.sharding.timebertt.dev'',
                 mw_ClientConfig = clientConfig,
                 mw_NamespaceSelector = wc_NamespaceSelector config,
                 mw_ObjectSelector = Some \<lparr>ls_MatchLabels = [], ls_MatchExpressions =
                   [\<lparr>sr_Key = ring_LabelShard controllerRing, sr_Operator = OpDoesNotExist, sr_Values = []\<rparr>]\<rparr>,
                 mw_FailurePolicy = Some PolicyIgnore, mw_TimeoutSeconds = Some 5,
                 mw_SideEffects = Some SideEffectClassNone, mw_AdmissionReviewVersions = [''v1''], mw_Rules = []\<rparr>;
               wh = (if rs_NamespaceSelector (cr_Spec controllerRing) \<noteq> None
                 then wh\<lparr>mw_NamespaceSelector := rs_NamespaceSelector (cr_Spec controllerRing)\<rparr> else wh);
               webhookPath = WebhookPathForControllerRing controllerRing;
               wh = wh\<lparr>mw_ClientConfig := client_config_with_path webhookPath (mw_ClientConfig wh)\<rparr>
           in Some (wh\<lparr>mw_Rules := mw_Rules wh @ rules_for_resources (rs_Resources (cr_Spec controllerRing))\<rparr>)))"

definition WebhookConfigForControllerRing :: "controller_ring \<Rightarrow> webhook_config \<Rightarrow> webhook_configuration option" where
  "WebhookConfigForControllerRing controllerRing config =
     map_option (\<lambda>wh. \<lparr>mwc_APIVersion = ''admissionregistration.k8s.io/v1'', mwc_Kind = ''MutatingWebhookConfiguration'',
        mwc_Meta = empty_meta\<lparr>om_Name := ''controllerring-'' @ om_Name (cr_Meta controllerRing),
          om_Labels := Some [''app.kubernetes.io/name'' \<mapsto> AppControllerSharding,
            LabelControllerRing \<mapsto> om_Name (cr_Meta controllerRing)],
          om_Annotations := wc_Annotations config\<rparr>,
        mwc_Webhooks = [wh]\<rparr>)
      (WebhookForControllerRing controllerRing config)"

definition owned_webhook_config :: "k8s_lib \<Rightarrow> webhook_config \<Rightarrow> controller_ring \<Rightarrow> (go_error + webhook_configuration) option" where
  "owned_webhook_config lib config controllerRing =
     map_option (\<lambda>webhookConfig.
        case lib_SetControllerReference lib (cr_Meta controllerRing) (mwc_Meta webhookConfig) of
          Inl err \<Rightarrow> Inl (wrapf ''error setting controller reference'' err)
        | Inr m \<Rightarrow> Inr (webhookConfig\<lparr>mwc_Meta := m\<rparr>))
      (WebhookConfigForControllerRing controllerRing config)"

definition reconcileWebhooks ::
  "k8s_lib \<Rightarrow> webhook_config \<Rightarrow> 'w ring_client \<Rightarrow> controller_ring \<Rightarrow> 'w \<Rightarrow> (go_error option \<times> 'w) option"
where
  "reconcileWebhooks lib config c controllerRing w =
     (case owned_webhook_config lib config controllerRing of
        None \<Rightarrow> None
      | Some (Inl err) \<Rightarrow> Some (Some err, w)
      | Some (Inr webhookConfig) \<Rightarrow> Some (rcl_ApplyWebhookConfig c w webhookConfig))"

section \<open>The status\<close>

definition OptionallyUpdateStatus ::
  "k8s_lib \<Rightarrow> 'w ring_client \<Rightarrow> controller_ring \<Rightarrow> controller_ring \<Rightarrow> (condition \<Rightarrow> condition) \<Rightarrow> 'w \<Rightarrow> go_error option \<times> 'w"
where
  "OptionallyUpdateStatus lib c controllerRing before mutate w =
     (let generation = om_Generation (cr_Meta controllerRing);
          readyCondition = mutate \<lparr>cond_Type = ControllerRingReady, cond_Status = [], cond_ObservedGeneration = generation,
            cond_LastTransitionTime = 0, cond_Reason = [], cond_Message = []\<rparr>;
          status = (cr_Status controllerRing)\<lparr>st_ObservedGeneration := generation\<rparr>;
          status = status\<lparr>st_Conditions := lib_SetStatusCondition lib (st_Conditions status) readyCondition\<rparr>
      in if status = cr_Status before then (None, w)
         else rcl_UpdateStatus c w (controllerRing\<lparr>cr_Status := status\<rparr>))"

definition success_condition :: "condition \<Rightarrow> condition" where
  "success_condition ready = ready\<lparr>cond_Status := ''True'', cond_Reason := ''ReconciliationSucceeded'',
     cond_Message := ''ControllerRing was successfully reconciled''\<rparr>"

definition updateStatusSuccess ::
  "k8s_lib \<Rightarrow> 'w ring_client \<Rightarrow> controller_ring \<Rightarrow> controller_ring \<Rightarrow> 'w \<Rightarrow> go_error option \<times> 'w"
where
  "updateStatusSuccess lib c controllerRing before w =
     (case OptionallyUpdateStatus lib c controllerRing before success_condition w of
        (Some err, w') \<Rightarrow> (Some (wrapf ''error updating ControllerRing status'' err), w')
      | (None, w') \<Rightarrow> (None, w'))"

definition error_condition :: "string \<Rightarrow> condition \<Rightarrow> condition" where
  "error_condition message ready = ready\<lparr>cond_Status := ''False'', cond_Reason := ''ReconciliationFailed'', cond_Message := message\<rparr>"

definition updateStatusError ::
  "k8s_lib \<Rightarrow> 'w ring_client \<Rightarrow> go_error \<Rightarrow> controller_ring \<Rightarrow> controller_ring \<Rightarrow> 'w \<Rightarrow> (go_error \<times> 'w) option"
where
  "updateStatusError lib c reconcileError controllerRing before w =
     (case CapitalizeFirst (err_msg reconcileError) of
        None \<Rightarrow> None
      | Some message \<Rightarrow>
          (let w1 = rcl_WarningEvent c w controllerRing ''ReconciliationFailed'' message;
               (_, w2) = OptionallyUpdateStatus lib c controllerRing before (error_condition message) w1
           in Some (reconcileError, w2)))"

section \<open>Reconciliation\<close>

definition fail_with ::
  "k8s_lib \<Rightarrow> 'w ring_client \<Rightarrow> go_error \<Rightarrow> controller_ring \<Rightarrow> controller_ring \<Rightarrow> 'w \<Rightarrow> ((go_error + rec_result) \<times> 'w) option"
where
  "fail_with lib c err ring before w = map_option (\<lambda>(e, w'). (Inl e, w')) (updateStatusError lib c err ring before w)"

definition controllerring_Reconcile ::
  "k8s_lib \<Rightarrow> webhook_config \<Rightarrow> 'w ring_client \<Rightarrow> time \<Rightarrow> nsname \<Rightarrow> 'w \<Rightarrow> ((go_error + rec_result) \<times> 'w) option"
where
  "controllerring_Reconcile lib config c now req w =
     (case c_GetRing c w req of
        Inl err \<Rightarrow>
          if IsNotFound err then Some (Inr no_requeue, w)
          else Some (Inl (wrapf ''error retrieving object from store'' err), w)
      | Inr controllerRing \<Rightarrow>
          (let before = controllerRing in
           case reconcileWebhooks lib config c controllerRing w of
             None \<Rightarrow> None
           | Some (Some err, w1) \<Rightarrow>
               fail_with lib c (wrapf ''error reconciling webhooks for ControllerRing'' err) controllerRing before w1
           | Some (None, w1) \<Rightarrow>
               (case c_ListLeases c w1 (LeaseSelector controllerRing) of
                  Inl err \<Rightarrow> fail_with lib c (wrapf ''error listing Leases for ControllerRing'' err) controllerRing before w1
                | Inr leaseList \<Rightarrow>
                    (let shs = ToShards leaseList now;
                         ring' = controllerRing\<lparr>cr_Status := (cr_Status controllerRing)\<lparr>
                           st_Shards := wrap32 (int (length shs)),
                           st_AvailableShards := wrap32 (int (length (AvailableShards shs)))\<rparr>\<rparr>
                     in case updateStatusSuccess lib c ring' before w1 of
                          (Some err, w2) \<Rightarrow> Some (Inl err, w2)
                        | (None, w2) \<Rightarrow> Some (Inr no_requeue, w2)))))"

section \<open>Lemmas\<close>

text \<open>
  Which requests the API server sends for a rule, as the documentation of \<^verbatim>\<open>RuleWithOperations\<close> says: stars match everything, a
  resource is followed by its subresource, if any, and a rule without a subresource does not match subresources. And when a label
  selector accepts labels.
\<close>

record admission_attributes =
  at_Operation :: operation_type
  at_Resource :: group_resource
  at_Version :: string
  at_Subresource :: string
  at_Namespace :: string

definition splitResource :: "string \<Rightarrow> string \<times> string" where
  "splitResource res = (takeWhile (\<lambda>c. c \<noteq> CHR ''/'') res, drop 1 (dropWhile (\<lambda>c. c \<noteq> CHR ''/'') res))"

definition star_or :: "string \<Rightarrow> string list \<Rightarrow> bool" where
  "star_or x xs \<longleftrightarrow> ''*'' \<in> set xs \<or> x \<in> set xs"

definition scope_matches :: "scope_type option \<Rightarrow> string \<Rightarrow> bool" where
  "scope_matches scope ns \<longleftrightarrow> (case scope of Some NamespacedScope \<Rightarrow> ns \<noteq> [] | Some ClusterScope \<Rightarrow> ns = [] | _ \<Rightarrow> True)"

definition rule_matches :: "webhook_rule \<Rightarrow> admission_attributes \<Rightarrow> bool" where
  "rule_matches ru rq \<longleftrightarrow>
     (OperationAll \<in> set (ru_Operations ru) \<or> at_Operation rq \<in> set (ru_Operations ru)) \<and>
     star_or (gr_Group (at_Resource rq)) (ru_APIGroups ru) \<and> star_or (at_Version rq) (ru_APIVersions ru) \<and>
     (\<exists>res \<in> set (ru_Resources ru). case splitResource res of (r, sub) \<Rightarrow>
        (r = ''*'' \<or> r = gr_Resource (at_Resource rq)) \<and> (sub = ''*'' \<or> sub = at_Subresource rq)) \<and>
     scope_matches (ru_Scope ru) (at_Namespace rq)"

fun req_matches :: "selector_req \<Rightarrow> go_map \<Rightarrow> bool" where
  "req_matches r m =
     (case sr_Operator r of
        OpIn \<Rightarrow> map_has m (sr_Key r) \<and> map_get m (sr_Key r) \<in> set (sr_Values r)
      | OpNotIn \<Rightarrow> \<not> (map_has m (sr_Key r) \<and> map_get m (sr_Key r) \<in> set (sr_Values r))
      | OpExists \<Rightarrow> map_has m (sr_Key r)
      | OpDoesNotExist \<Rightarrow> \<not> map_has m (sr_Key r))"

definition label_selector_matches :: "label_selector \<Rightarrow> go_map \<Rightarrow> bool" where
  "label_selector_matches ls m \<longleftrightarrow>
     list_all (\<lambda>(k, v). as_map m k = Some v) (ls_MatchLabels ls) \<and> list_all (\<lambda>r. req_matches r m) (ls_MatchExpressions ls)"

text \<open>A resource without wildcards and subresource.\<close>

definition plain_resource :: "group_resource \<Rightarrow> bool" where
  "plain_resource gr \<longleftrightarrow> gr_Group gr \<noteq> ''*'' \<and> gr_Resource gr \<noteq> ''*'' \<and> CHR ''/'' \<notin> set (gr_Resource gr)"

lemma rule_matches_RuleForResource:
  assumes "plain_resource gr"
  shows "rule_matches (RuleForResource gr) rq \<longleftrightarrow> at_Operation rq \<in> {OpCreate, OpUpdate} \<and> at_Resource rq = gr \<and> at_Subresource rq = []"
proof -
  have "takeWhile (\<lambda>c. c \<noteq> CHR ''/'') (gr_Resource gr) = gr_Resource gr" "dropWhile (\<lambda>c. c \<noteq> CHR ''/'') (gr_Resource gr) = []"
    using assms by (auto simp: plain_resource_def takeWhile_eq_all_conv)
  then have "splitResource (gr_Resource gr) = (gr_Resource gr, [])" unfolding splitResource_def by (simp only: drop_Nil)
  then show ?thesis
    using assms by (auto simp: rule_matches_def RuleForResource_def star_or_def scope_matches_def plain_resource_def)
qed

lemma rules_match:
  assumes "\<forall>rr \<in> set rrs. plain_resource (rr_GroupResource rr) \<and> list_all plain_resource (rr_ControlledResources rr)"
  shows "(\<exists>ru \<in> set (rules_for_resources rrs). rule_matches ru rq) \<longleftrightarrow> at_Operation rq \<in> {OpCreate, OpUpdate} \<and> at_Subresource rq = [] \<and>
     (\<exists>rr \<in> set rrs. at_Resource rq = rr_GroupResource rr \<or> at_Resource rq \<in> set (rr_ControlledResources rr))"
  using assms by (induction rrs) (auto simp: rule_matches_RuleForResource bex_Un ball_Un list_all_iff)

lemma WebhookForControllerRing_fields:
  assumes "WebhookForControllerRing ring config = Some wh"
  shows "mw_Rules wh = rules_for_resources (rs_Resources (cr_Spec ring))"
    and "mw_ObjectSelector wh = Some \<lparr>ls_MatchLabels = [], ls_MatchExpressions =
       [\<lparr>sr_Key = ring_LabelShard ring, sr_Operator = OpDoesNotExist, sr_Values = []\<rparr>]\<rparr>"
    and "\<exists>cc. wc_ClientConfig config = Some cc \<and>
       mw_ClientConfig wh = client_config_with_path (WebhookPathForControllerRing ring) cc"
    and "mw_NamespaceSelector wh = (case rs_NamespaceSelector (cr_Spec ring) of
       Some s \<Rightarrow> Some s | None \<Rightarrow> wc_NamespaceSelector config)"
  using assms by (auto simp: WebhookForControllerRing_def Let_def split: option.splits)

lemma WebhookForControllerRing_Some:
  "wc_ClientConfig config \<noteq> None \<Longrightarrow> \<exists>wh. WebhookForControllerRing ring config = Some wh"
  by (auto simp: WebhookForControllerRing_def Let_def)

lemma client_config_paths:
  "wcc_Service (client_config_with_path p cc) = map_option (\<lambda>s. s\<lparr>sv_Path := Some p\<rparr>) (wcc_Service cc)"
  "wcc_URL (client_config_with_path p cc) = map_option (\<lambda>u. TrimSuffix u ''/'' @ p) (wcc_URL cc)"
  by (auto simp: client_config_with_path_def Let_def split: option.splits)

text \<open>\<^verbatim>\<open>SetStatusCondition\<close> leaves a condition with the given contents, and setting it again is a no-op.\<close>

definition SetStatusCondition_doc :: "k8s_lib \<Rightarrow> bool" where
  "SetStatusCondition_doc lib \<longleftrightarrow> (\<forall>cs c.
     (\<exists>d \<in> set (lib_SetStatusCondition lib cs c). cond_Type d = cond_Type c \<and> cond_Status d = cond_Status c \<and>
        cond_Reason d = cond_Reason c \<and> cond_Message d = cond_Message c \<and> cond_ObservedGeneration d = cond_ObservedGeneration c) \<and>
     lib_SetStatusCondition lib (lib_SetStatusCondition lib cs c) c = lib_SetStatusCondition lib cs c)"

lemma std_lib_status_doc: "SetStatusCondition_doc std_lib"
proof -
  have eq: "lib_SetStatusCondition std_lib cs c = (if \<exists>d \<in> set cs. cond_Type d = cond_Type c
      then map (\<lambda>d. if cond_Type d = cond_Type c then c\<lparr>cond_LastTransitionTime := cond_LastTransitionTime d\<rparr> else d) cs
      else cs @ [c])" for cs c
    by (simp add: std_lib_def)
  have "lib_SetStatusCondition std_lib (lib_SetStatusCondition std_lib cs c) c = lib_SetStatusCondition std_lib cs c" for cs c
  proof (cases "\<exists>d \<in> set cs. cond_Type d = cond_Type c")
    case True
    let ?f = "\<lambda>d. if cond_Type d = cond_Type c then c\<lparr>cond_LastTransitionTime := cond_LastTransitionTime d\<rparr> else d"
    from True obtain d where "d \<in> set cs" "cond_Type d = cond_Type c" by blast
    then have "\<exists>d \<in> set (map ?f cs). cond_Type d = cond_Type c" by (intro bexI [of _ "?f d"]) auto
    moreover have "map ?f (map ?f cs) = map ?f cs" by simp
    ultimately show ?thesis using True eq [of cs c] eq [of "map ?f cs" c] by simp
  next
    case False
    then have "map (\<lambda>d. if cond_Type d = cond_Type c then c\<lparr>cond_LastTransitionTime := cond_LastTransitionTime d\<rparr> else d) (cs @ [c]) = cs @ [c]"
      by (auto intro: map_idI)
    then show ?thesis using False eq [of cs c] eq [of "cs @ [c]" c] by simp
  qed
  moreover have "\<exists>d \<in> set (lib_SetStatusCondition std_lib cs c). cond_Type d = cond_Type c \<and> cond_Status d = cond_Status c \<and>
      cond_Reason d = cond_Reason c \<and> cond_Message d = cond_Message c \<and> cond_ObservedGeneration d = cond_ObservedGeneration c" for cs c
  proof (cases "\<exists>d \<in> set cs. cond_Type d = cond_Type c")
    case True
    then obtain d where "d \<in> set cs" "cond_Type d = cond_Type c" by blast
    then have "c\<lparr>cond_LastTransitionTime := cond_LastTransitionTime d\<rparr> \<in> set (lib_SetStatusCondition std_lib cs c)"
      by (auto simp: eq image_iff intro: bexI [of _ d])
    then show ?thesis by (rule rev_bexI) simp
  next
    case False
    then show ?thesis by (simp add: eq)
  qed
  ultimately show ?thesis by (simp add: SetStatusCondition_doc_def)
qed

text \<open>The status a successful reconciliation leads to.\<close>

definition ready_condition :: "int \<Rightarrow> condition" where
  "ready_condition generation = success_condition \<lparr>cond_Type = ControllerRingReady, cond_Status = [],
     cond_ObservedGeneration = generation, cond_LastTransitionTime = 0, cond_Reason = [], cond_Message = []\<rparr>"

definition reconciled_status :: "k8s_lib \<Rightarrow> controller_ring \<Rightarrow> lease list \<Rightarrow> ring_status" where
  "reconciled_status lib ring ls =
     (cr_Status ring)\<lparr>st_Shards := wrap32 (int (length ls)),
      st_AvailableShards := wrap32 (int (length (filter held ls))), st_ObservedGeneration := om_Generation (cr_Meta ring),
      st_Conditions := lib_SetStatusCondition lib (st_Conditions (cr_Status ring)) (ready_condition (om_Generation (cr_Meta ring)))\<rparr>"

lemma length_available: "length (AvailableShards (ToShards ls now)) = length (filter held ls)"
  using arg_cong [OF available_ids [of ls now], of length] by (simp add: IDs_map)

lemma length_ToShards: "length (ToShards ls now) = length ls"
  by (simp add: ToShards_map)

lemma Reconcile_success:
  assumes "c_GetRing c w req = Inr ring" and "reconcileWebhooks lib config c ring w = Some (None, w1)"
    and "c_ListLeases c w1 (LeaseSelector ring) = Inr ls"
  shows "controllerring_Reconcile lib config c now req w =
    Some (if reconciled_status lib ring ls = cr_Status ring then (Inr no_requeue, w1)
      else case rcl_UpdateStatus c w1 (ring\<lparr>cr_Status := reconciled_status lib ring ls\<rparr>) of
        (Some err, w2) \<Rightarrow> (Inl (wrapf ''error updating ControllerRing status'' err), w2)
      | (None, w2) \<Rightarrow> (Inr no_requeue, w2))"
proof -
  let ?r = "ring\<lparr>cr_Status := (cr_Status ring)\<lparr>st_Shards := wrap32 (int (length ls)),
    st_AvailableShards := wrap32 (int (length (filter held ls)))\<rparr>\<rparr>"
  have "OptionallyUpdateStatus lib c ?r ring success_condition w1 =
      (if reconciled_status lib ring ls = cr_Status ring then (None, w1)
       else rcl_UpdateStatus c w1 (ring\<lparr>cr_Status := reconciled_status lib ring ls\<rparr>))"
    by (simp add: OptionallyUpdateStatus_def reconciled_status_def ready_condition_def Let_def)
  then show ?thesis
    using assms by (simp add: controllerring_Reconcile_def updateStatusSuccess_def length_available length_ToShards Let_def
        split: prod.splits option.splits)
qed

lemma fail_with_wrapped: "\<exists>w'. fail_with lib c (wrapf (x # msg) err) ring before w = Some (Inl (wrapf (x # msg) err), w')"
  by (simp add: fail_with_def updateStatusError_def wrapf_def Let_def split: prod.splits)

section \<open>Properties\<close>

text \<open>C26: The webhook configuration and the webhook handler agree, for a ring whose resources are named without wildcards and subresources,
  whatever the configuration: the API server sends exactly the creations and updates, in all versions and scopes, of the
  resources for which the handler finds a key function, and of these the objects without the ring's shard
  label; the objects that the handler takes for unassigned are these and the ones whose label is empty, which are not sent. The path of the service or
  of the URL leads back to the ring.\<close>

theorem webhook_configuration_fits_handler:
  assumes "WebhookForControllerRing ring config = Some wh"
    and "\<forall>gr \<in> ring_resources ring \<union> controlled_resources ring. plain_resource gr"
  shows "((\<exists>ru \<in> set (mw_Rules wh). rule_matches ru rq) \<longleftrightarrow>
      at_Operation rq \<in> {OpCreate, OpUpdate} \<and> at_Subresource rq = [] \<and> (\<exists>f. FuncForResource lib (at_Resource rq) ring = Inr f)) \<and>
    (\<exists>sel. mw_ObjectSelector wh = Some sel \<and> (\<forall>m. label_selector_matches sel m \<longleftrightarrow> \<not> map_has m (ring_LabelShard ring)) \<and>
      (\<forall>m. map_get m (ring_LabelShard ring) = [] \<longleftrightarrow> label_selector_matches sel m \<or> as_map m (ring_LabelShard ring) = Some [])) \<and>
    (plain_elem (om_Name (cr_Meta ring)) \<longrightarrow>
      (\<forall>svc. wcc_Service (mw_ClientConfig wh) = Some svc \<longrightarrow> (\<exists>p. sv_Path svc = Some p \<and>
         ControllerRingForWebhookPath p = Inr (named_ring (om_Name (cr_Meta ring))))) \<and>
      (\<forall>url. wcc_URL (mw_ClientConfig wh) = Some url \<longrightarrow> (\<exists>base p. url = base @ p \<and>
         ControllerRingForWebhookPath p = Inr (named_ring (om_Name (cr_Meta ring))))))"
proof (intro conjI)
  note f = WebhookForControllerRing_fields [OF assms(1)]
  have "\<forall>rr \<in> set (rs_Resources (cr_Spec ring)). plain_resource (rr_GroupResource rr) \<and> list_all plain_resource (rr_ControlledResources rr)"
    using assms(2) by (auto simp: ring_resources_def controlled_resources_def list_all_iff)
  from rules_match [OF this, of rq]
  show "(\<exists>ru \<in> set (mw_Rules wh). rule_matches ru rq) \<longleftrightarrow>
      at_Operation rq \<in> {OpCreate, OpUpdate} \<and> at_Subresource rq = [] \<and> (\<exists>f. FuncForResource lib (at_Resource rq) ring = Inr f)"
    unfolding f(1) FuncForResource_eq by (auto simp: ring_resources_def controlled_resources_def)
  show "\<exists>sel. mw_ObjectSelector wh = Some sel \<and> (\<forall>m. label_selector_matches sel m \<longleftrightarrow> \<not> map_has m (ring_LabelShard ring)) \<and>
      (\<forall>m. map_get m (ring_LabelShard ring) = [] \<longleftrightarrow> label_selector_matches sel m \<or> as_map m (ring_LabelShard ring) = Some [])"
    by (simp add: f(2) label_selector_matches_def map_has_def map_get_def split: option.split)
  show "plain_elem (om_Name (cr_Meta ring)) \<longrightarrow>
      (\<forall>svc. wcc_Service (mw_ClientConfig wh) = Some svc \<longrightarrow> (\<exists>p. sv_Path svc = Some p \<and>
         ControllerRingForWebhookPath p = Inr (named_ring (om_Name (cr_Meta ring))))) \<and>
      (\<forall>url. wcc_URL (mw_ClientConfig wh) = Some url \<longrightarrow> (\<exists>base p. url = base @ p \<and>
         ControllerRingForWebhookPath p = Inr (named_ring (om_Name (cr_Meta ring)))))"
    using f(3) webhook_path_back [of ring] by (auto simp: client_config_paths) metis
qed

definition sample_webhook_config :: webhook_config where
  "sample_webhook_config = default_webhook_config std_config_lib
     \<lparr>wc_Annotations = None, wc_ClientConfig = None, wc_NamespaceSelector = None\<rparr>"

lemma sample_webhook: "\<exists>wh. WebhookForControllerRing ring sample_webhook_config = Some wh"
proof (rule WebhookForControllerRing_Some)
  show "wc_ClientConfig sample_webhook_config \<noteq> None"
    using webhook_config_defaults(2) by (metis option.distinct(1) sample_webhook_config_def)
qed

lemma webhook_configuration_fits_handler_witness:
  "\<exists>wh sel. WebhookForControllerRing (hd (sto_rings (w_api sample_world))) sample_webhook_config = Some wh \<and> mw_ObjectSelector wh = Some sel \<and>
     (\<exists>ru \<in> set (mw_Rules wh). rule_matches ru \<lparr>at_Operation = OpUpdate, at_Resource = \<lparr>gr_Group = [], gr_Resource = ''secrets''\<rparr>,
        at_Version = ''v1'', at_Subresource = [], at_Namespace = ''default''\<rparr>) \<and>
     \<not> label_selector_matches sel (Some [LabelShard ''ring'' \<mapsto> ''s1''])"
proof -
  let ?ring = "hd (sto_rings (w_api sample_world))" and ?gr = "\<lparr>gr_Group = [], gr_Resource = ''secrets''\<rparr>"
  let ?rq = "\<lparr>at_Operation = OpUpdate, at_Resource = ?gr, at_Version = ''v1'', at_Subresource = [], at_Namespace = ''default''\<rparr>"
  obtain wh where wh: "WebhookForControllerRing ?ring sample_webhook_config = Some wh" using sample_webhook by blast
  have res: "ring_resources ?ring = {?gr}" "controlled_resources ?ring = {}" "ring_LabelShard ?ring = LabelShard ''ring''"
    by (simp_all add: sample_world_def ring_resources_def controlled_resources_def ring_LabelShard_def named_ring_def)
  then have "\<forall>gr \<in> ring_resources ?ring \<union> controlled_resources ?ring. plain_resource gr" by (simp add: plain_resource_def)
  from webhook_configuration_fits_handler [OF wh this, of ?rq std_lib] show ?thesis
    using wh res by (auto simp: FuncForResource_eq map_has_def)
qed

text \<open>The status converges: when webhooks and leases can be read and written, a reconciliation
  writes (only if it differs) the status that counts all shard leases and the held ones, records the
  generation and carries a true Ready condition; on a ring with this status it writes nothing.\<close>

theorem ring_status_converges:
  assumes "SetStatusCondition_doc lib" and "c_GetRing c w req = Inr ring"
    and "reconcileWebhooks lib config c ring w = Some (None, w1)" and "c_ListLeases c w1 (LeaseSelector ring) = Inr ls"
    and "length ls < 2 ^ 31"
  shows "\<exists>st. controllerring_Reconcile lib config c now req w =
      Some (if st = cr_Status ring then (Inr no_requeue, w1)
        else case rcl_UpdateStatus c w1 (ring\<lparr>cr_Status := st\<rparr>) of
          (Some err, w2) \<Rightarrow> (Inl (wrapf ''error updating ControllerRing status'' err), w2)
        | (None, w2) \<Rightarrow> (Inr no_requeue, w2)) \<and>
    st_Shards st = int (length ls) \<and> st_AvailableShards st = int (length (filter held ls)) \<and>
    st_ObservedGeneration st = om_Generation (cr_Meta ring) \<and>
    (\<exists>d \<in> set (st_Conditions st). cond_Type d = ControllerRingReady \<and> cond_Status d = ''True'') \<and>
    reconciled_status lib (ring\<lparr>cr_Status := st\<rparr>) ls = st"
proof -
  let ?st = "reconciled_status lib ring ls" and ?rc = "ready_condition (om_Generation (cr_Meta ring))"
  have "length (filter held ls) < 2 ^ 31" using assms(5) length_filter_le [of held ls] by (rule le_less_trans [rotated])
  then have "wrap32 (int (length ls)) = int (length ls)" "wrap32 (int (length (filter held ls))) = int (length (filter held ls))"
    using assms(5) by (auto intro!: wrap32_id)
  then have "st_Shards ?st = int (length ls)" "st_AvailableShards ?st = int (length (filter held ls))"
      "st_ObservedGeneration ?st = om_Generation (cr_Meta ring)"
    by (simp_all add: reconciled_status_def)
  moreover have "\<exists>d \<in> set (st_Conditions ?st). cond_Type d = ControllerRingReady \<and> cond_Status d = ''True''"
  proof -
    have "\<exists>d \<in> set (lib_SetStatusCondition lib (st_Conditions (cr_Status ring)) ?rc).
        cond_Type d = cond_Type ?rc \<and> cond_Status d = cond_Status ?rc"
      using assms(1) unfolding SetStatusCondition_doc_def by blast
    then show ?thesis by (simp add: reconciled_status_def) (simp add: ready_condition_def success_condition_def)
  qed
  moreover have "reconciled_status lib (ring\<lparr>cr_Status := ?st\<rparr>) ls = ?st"
    using assms(1) by (simp add: reconciled_status_def SetStatusCondition_doc_def)
  ultimately show ?thesis using Reconcile_success [OF assms(2-4)] by blast
qed

definition ring_store_client :: "store ring_client" where
  "ring_store_client = client.extend store_client (ring_client.fields (\<lambda>w wc. (None, w))
     (\<lambda>w r. (None, w\<lparr>sto_rings := map (\<lambda>x. if ObjectKeyFromObject (cr_Meta x) = ObjectKeyFromObject (cr_Meta r) then r else x) (sto_rings w)\<rparr>))
     (\<lambda>w r reason msg. w))"

lemma ring_store_client_simps:
  "c_GetRing ring_store_client = c_GetRing store_client" "c_ListLeases ring_store_client = c_ListLeases store_client"
  "rcl_ApplyWebhookConfig ring_store_client w wc = (None, w)"
  by (simp_all add: ring_store_client_def client.extend_def ring_client.fields_def)

lemma ring_status_converges_witness:
  "\<exists>st. st_Shards st = 1 \<and> st_AvailableShards st = 1 \<and> st_ObservedGeneration st = 0 \<and>
     reconciled_status std_lib ((hd (sto_rings (w_api sample_world)))\<lparr>cr_Status := st\<rparr>) (sto_leases (w_api sample_world)) = st"
proof -
  let ?w = "w_api sample_world" let ?ring = "hd (sto_rings ?w)"
  have get: "c_GetRing ring_store_client ?w ([], ''ring'') = Inr ?ring"
    by (simp add: ring_store_client_simps store_client_def sample_world_def named_ring_def ObjectKeyFromObject_def empty_meta_def)
  obtain wc where "owned_webhook_config std_lib sample_webhook_config ?ring = Some (Inr wc)"
    using sample_webhook [of ?ring] by (auto simp: owned_webhook_config_def WebhookConfigForControllerRing_def std_lib_def)
  then have wh: "reconcileWebhooks std_lib sample_webhook_config ring_store_client ?ring ?w = Some (None, ?w)"
    by (simp add: reconcileWebhooks_def ring_store_client_simps)
  have ls: "c_ListLeases ring_store_client ?w (LeaseSelector ?ring) = Inr (sto_leases ?w)"
    by (simp add: ring_store_client_simps store_client_def sample_world_def named_ring_def LeaseSelector_def)
  have "length (sto_leases ?w) = 1" "length (filter held (sto_leases ?w)) = 1" "om_Generation (cr_Meta ?ring) = 0"
    by (simp_all add: sample_world_def held_def sample_lease_def named_ring_def empty_meta_def)
  then show ?thesis
    using ring_status_converges [OF std_lib_status_doc get wh ls, of 0] by auto
qed

text \<open>C27: Reconciling a ring never panics once the webhook client configuration is set: every
  failure to reconcile the webhooks or to list the leases has a non-empty message, so it can be
  capitalized and published.\<close>

theorem ring_reconcile_never_panics:
  assumes "wc_ClientConfig config \<noteq> None"
  shows "\<exists>res w'. controllerring_Reconcile lib config c now req w = Some (res, w')"
proof -
  have "\<exists>e w1. reconcileWebhooks lib config c ring w = Some (e, w1)" for ring
    using WebhookForControllerRing_Some [OF assms, of ring]
    by (auto simp: reconcileWebhooks_def owned_webhook_config_def WebhookConfigForControllerRing_def split: sum.splits)
  note wh = this
  show ?thesis
  proof (cases "c_GetRing c w req")
    case (Inr ring)
    obtain e w1 where r: "reconcileWebhooks lib config c ring w = Some (e, w1)" using wh by blast
    show ?thesis
    proof (cases e)
      case None
      show ?thesis
      proof (cases "c_ListLeases c w1 (LeaseSelector ring)")
        case (Inl err)
        with Inr r None show ?thesis by (simp add: controllerring_Reconcile_def) (metis fail_with_wrapped)
      next
        case ls: (Inr ls)
        from r None have "reconcileWebhooks lib config c ring w = Some (None, w1)" by simp
        from Reconcile_success [OF Inr this ls] obtain p where "controllerring_Reconcile lib config c now req w = Some p"
          by blast
        then show ?thesis by (cases p) blast
      qed
    next
      case (Some err)
      with Inr r show ?thesis by (simp add: controllerring_Reconcile_def) (metis fail_with_wrapped)
    qed
  qed (simp add: controllerring_Reconcile_def)
qed

lemma ring_reconcile_never_panics_witness:
  "\<exists>res w'. controllerring_Reconcile std_lib sample_webhook_config ring_store_client 0 ([], ''ring'') (w_api sample_world) = Some (res, w')"
proof (rule ring_reconcile_never_panics)
  show "wc_ClientConfig sample_webhook_config \<noteq> None"
    using webhook_config_defaults(2) by (metis option.distinct(1) sample_webhook_config_def)
qed

end
