(* ===== verification/Shard_Lease.thy ===== *)
theory Shard_Lease
  imports Leases K8s_Lib
begin

text \<open>
  The shard lease of the shard library, \<^verbatim>\<open>pkg/shard/lease/lease.go\<close>: a resource lock for client-go's
  leader election whose lease carries the ring label. Its state is the last lease read or written.
  The conversions between election records and lease specs are client-go functions and parameters;
  so are the operating system's host name and the service account file. Encoding the record as
  JSON cannot fail and is a parameter.
\<close>

section \<open>Outside world\<close>

record election_record =
  ler_HolderIdentity :: string
  ler_LeaseDurationSeconds :: int
  ler_AcquireTime :: time
  ler_RenewTime :: time
  ler_LeaderTransitions :: int

record resourcelock_lib =
  rl_ToRecord :: "lease_spec \<Rightarrow> election_record"
  rl_ToSpec :: "election_record \<Rightarrow> lease_spec"
  rl_Marshal :: "election_record \<Rightarrow> go_error + string"

text \<open>The documented conversion: a record becomes a spec with its holder and all its times.\<close>

definition ToSpec_doc :: "resourcelock_lib \<Rightarrow> bool" where
  "ToSpec_doc rl \<longleftrightarrow> (\<forall>ler. rl_ToSpec rl ler = \<lparr>HolderIdentity = Some (ler_HolderIdentity ler),
     LeaseDurationSeconds = Some (ler_LeaseDurationSeconds ler), AcquireTime = Some (ler_AcquireTime ler),
     RenewTime = Some (ler_RenewTime ler), LeaseTransitions = Some (ler_LeaderTransitions ler)\<rparr>)"

datatype stat_result = StatOk | StatNotExist | StatError go_error

record os_env =
  os_NewClient :: "go_error option"
  os_Hostname :: "go_error + string"
  os_Stat :: "string \<Rightarrow> stat_result"
  os_ReadFile :: "string \<Rightarrow> go_error + string"

text \<open>The typed client: a failed create also returns an (empty) object.\<close>

record 'w lease_client =
  lc_Get :: "'w \<Rightarrow> nsname \<Rightarrow> go_error + lease"
  lc_Create :: "'w \<Rightarrow> lease \<Rightarrow> (lease \<times> go_error option) \<times> 'w"
  lc_Update :: "'w \<Rightarrow> lease \<Rightarrow> (go_error + lease) \<times> 'w"

section \<open>Creating the lock\<close>

record lease_options =
  lo_ControllerRingName :: string
  lo_LeaseNamespace :: string
  lo_ShardName :: string

record lease_lock =
  ll_LeaseMeta :: object_meta
  ll_Identity :: string
  ll_Labels :: "(string \<times> string) list"
  ll_lease :: "lease option"

definition inClusterNamespacePath :: string where
  "inClusterNamespacePath = ''var/run/secrets/kubernetes.io/serviceaccount/namespace''"

definition getInClusterNamespace :: "os_env \<Rightarrow> go_error + string" where
  "getInClusterNamespace env =
     (case os_Stat env inClusterNamespacePath of
        StatNotExist \<Rightarrow> Inl (errorf ''not running in cluster, please specify LeaseNamespace'')
      | StatError err \<Rightarrow> Inl (wrapf ''error checking namespace file'' err)
      | StatOk \<Rightarrow>
          (case os_ReadFile env inClusterNamespacePath of
             Inl err \<Rightarrow> Inl (wrapf ''error reading namespace file'' err)
           | Inr namespace \<Rightarrow> Inr namespace))"

definition NewResourceLock :: "os_env \<Rightarrow> lease_options \<Rightarrow> go_error + lease_lock" where
  "NewResourceLock env options =
     (case os_NewClient env of
        Some err \<Rightarrow> Inl err
      | None \<Rightarrow>
          if lo_ControllerRingName options = [] then Inl (errorf ''ControllerRingName is required'')
          else case (if lo_ShardName options = [] then os_Hostname env else Inr (lo_ShardName options)) of
            Inl err \<Rightarrow> Inl (wrapf ''error getting hostname'' err)
          | Inr shardName \<Rightarrow>
              (case (if lo_LeaseNamespace options = [] then getInClusterNamespace env else Inr (lo_LeaseNamespace options)) of
                 Inl err \<Rightarrow> Inl (wrapf ''unable to determine shard lease namespace'' err)
               | Inr leaseNamespace \<Rightarrow>
                   Inr \<lparr>ll_LeaseMeta = empty_meta\<lparr>om_Namespace := leaseNamespace, om_Name := shardName\<rparr>,
                        ll_Identity = shardName,
                        ll_Labels = [(LabelControllerRing, lo_ControllerRingName options)],
                        ll_lease = None\<rparr>))"

section \<open>The lock\<close>

definition lock_Get ::
  "resourcelock_lib \<Rightarrow> 'w lease_client \<Rightarrow> 'w \<Rightarrow> lease_lock \<Rightarrow> (go_error + election_record \<times> string) \<times> lease_lock"
where
  "lock_Get rl c w ll =
     (case lc_Get c w (om_Namespace (ll_LeaseMeta ll), om_Name (ll_LeaseMeta ll)) of
        Inl err \<Rightarrow> (Inl err, ll)
      | Inr lease \<Rightarrow>
          (let ll = ll\<lparr>ll_lease := Some lease\<rparr>;
               record = rl_ToRecord rl (l_Spec lease)
           in case rl_Marshal rl record of
                Inl err \<Rightarrow> (Inl err, ll)
              | Inr recordByte \<Rightarrow> (Inr (record, recordByte), ll)))"

definition lock_Create ::
  "resourcelock_lib \<Rightarrow> 'w lease_client \<Rightarrow> election_record \<Rightarrow> lease_lock \<Rightarrow> 'w \<Rightarrow> go_error option \<times> lease_lock \<times> 'w"
where
  "lock_Create rl c ler ll w =
     (case lc_Create c w \<lparr>l_Meta = empty_meta\<lparr>om_Name := om_Name (ll_LeaseMeta ll), om_Namespace := om_Namespace (ll_LeaseMeta ll),
          om_Labels := Some (map_of (ll_Labels ll))\<rparr>, l_Spec = rl_ToSpec rl ler\<rparr> of
        ((lease, err), w') \<Rightarrow> (err, ll\<lparr>ll_lease := Some lease\<rparr>, w'))"

definition mergeLabels :: "k8s_lib \<Rightarrow> object_meta \<Rightarrow> (string \<times> string) list \<Rightarrow> object_meta" where
  "mergeLabels lib obj labels = fold (\<lambda>(key, value) m. lib_SetMetaDataLabel lib m key value) labels obj"

text \<open>The lease in memory is changed before the call, so a failed update leaves it changed.\<close>

definition lock_Update ::
  "k8s_lib \<Rightarrow> resourcelock_lib \<Rightarrow> 'w lease_client \<Rightarrow> election_record \<Rightarrow> lease_lock \<Rightarrow> 'w \<Rightarrow> go_error option \<times> lease_lock \<times> 'w"
where
  "lock_Update lib rl c ler ll w =
     (case ll_lease ll of
        None \<Rightarrow> (Some (errorf ''lease not initialized, call Get or Create first''), ll, w)
      | Some lease \<Rightarrow>
          (let lease = lease\<lparr>l_Meta := mergeLabels lib (l_Meta lease) (ll_Labels ll), l_Spec := rl_ToSpec rl ler\<rparr> in
           case lc_Update c w lease of
             (Inl err, w') \<Rightarrow> (Some err, ll\<lparr>ll_lease := Some lease\<rparr>, w')
           | (Inr lease', w') \<Rightarrow> (None, ll\<lparr>ll_lease := Some lease'\<rparr>, w')))"

definition lock_Describe :: "lease_lock \<Rightarrow> string" where
  "lock_Describe ll = om_Namespace (ll_LeaseMeta ll) @ ''/'' @ om_Name (ll_LeaseMeta ll)"

definition lock_Identity :: "lease_lock \<Rightarrow> string" where
  "lock_Identity ll = ll_Identity ll"

section \<open>Lemmas\<close>

lemma mergeLabels_labels:
  assumes "SetMetaDataLabel_doc lib"
  shows "as_map (om_Labels (mergeLabels lib m kvs)) k = (case map_of (rev kvs) k of Some v \<Rightarrow> Some v | None \<Rightarrow> as_map (om_Labels m) k)"
    and "om_Name (mergeLabels lib m kvs) = om_Name m"
proof -
  have "as_map (om_Labels (fold (\<lambda>(key, value) m. lib_SetMetaDataLabel lib m key value) kvs m)) k =
      (case map_of (rev kvs) k of Some v \<Rightarrow> Some v | None \<Rightarrow> as_map (om_Labels m) k) \<and>
      om_Name (fold (\<lambda>(key, value) m. lib_SetMetaDataLabel lib m key value) kvs m) = om_Name m"
    using assms by (induction kvs arbitrary: m) (auto simp: SetMetaDataLabel_doc_def map_add_def split: option.splits)
  then show "as_map (om_Labels (mergeLabels lib m kvs)) k = (case map_of (rev kvs) k of Some v \<Rightarrow> Some v | None \<Rightarrow> as_map (om_Labels m) k)"
    and "om_Name (mergeLabels lib m kvs) = om_Name m"
    by (simp_all add: mergeLabels_def)
qed

lemma NewResourceLock_fields:
  assumes "NewResourceLock env options = Inr ll"
  shows "ll_Identity ll = om_Name (ll_LeaseMeta ll)" "ll_Labels ll = [(LabelControllerRing, lo_ControllerRingName options)]"
    "lo_ControllerRingName options \<noteq> []"
  using assms by (auto simp: NewResourceLock_def split: option.splits if_splits sum.splits)

text \<open>The lease an update sends, for the lease \<open>l\<close> in memory.\<close>

definition updated_lease :: "k8s_lib \<Rightarrow> resourcelock_lib \<Rightarrow> election_record \<Rightarrow> lease_lock \<Rightarrow> lease \<Rightarrow> lease" where
  "updated_lease lib rl ler ll l = l\<lparr>l_Meta := mergeLabels lib (l_Meta l) (ll_Labels ll), l_Spec := rl_ToSpec rl ler\<rparr>"

definition created_lease :: "resourcelock_lib \<Rightarrow> election_record \<Rightarrow> lease_lock \<Rightarrow> lease" where
  "created_lease rl ler ll = \<lparr>l_Meta = empty_meta\<lparr>om_Name := om_Name (ll_LeaseMeta ll), om_Namespace := om_Namespace (ll_LeaseMeta ll),
     om_Labels := Some (map_of (ll_Labels ll))\<rparr>, l_Spec = rl_ToSpec rl ler\<rparr>"

lemma lock_Update_eq: "ll_lease ll = Some l \<Longrightarrow> lock_Update lib rl c ler ll w =
  (case lc_Update c w (updated_lease lib rl ler ll l) of
     (Inl err, w') \<Rightarrow> (Some err, ll\<lparr>ll_lease := Some (updated_lease lib rl ler ll l)\<rparr>, w')
   | (Inr l', w') \<Rightarrow> (None, ll\<lparr>ll_lease := Some l'\<rparr>, w'))"
  unfolding lock_Update_def updated_lease_def Let_def by simp

lemma lock_Create_eq: "lock_Create rl c ler ll w =
  (case lc_Create c w (created_lease rl ler ll) of ((l, err), w') \<Rightarrow> (err, ll\<lparr>ll_lease := Some l\<rparr>, w'))"
  by (simp add: lock_Create_def created_lease_def)

lemma ToSpec_state:
  assumes "ToSpec_doc rl" and "l_Spec l = rl_ToSpec rl ler"
  shows "complete l" and "held l \<longleftrightarrow> om_Name (l_Meta l) \<noteq> [] \<and> ler_HolderIdentity ler = om_Name (l_Meta l)"
  using assms by (auto simp: ToSpec_doc_def complete_def held_def)

definition std_resourcelock :: resourcelock_lib where
  "std_resourcelock = \<lparr>rl_ToRecord = \<lambda>s. \<lparr>ler_HolderIdentity = (case HolderIdentity s of None \<Rightarrow> [] | Some h \<Rightarrow> h),
       ler_LeaseDurationSeconds = (case LeaseDurationSeconds s of None \<Rightarrow> 0 | Some d \<Rightarrow> d),
       ler_AcquireTime = (case AcquireTime s of None \<Rightarrow> 0 | Some t \<Rightarrow> t), ler_RenewTime = (case RenewTime s of None \<Rightarrow> 0 | Some t \<Rightarrow> t),
       ler_LeaderTransitions = (case LeaseTransitions s of None \<Rightarrow> 0 | Some n \<Rightarrow> n)\<rparr>,
     rl_ToSpec = \<lambda>ler. \<lparr>HolderIdentity = Some (ler_HolderIdentity ler), LeaseDurationSeconds = Some (ler_LeaseDurationSeconds ler),
       AcquireTime = Some (ler_AcquireTime ler), RenewTime = Some (ler_RenewTime ler), LeaseTransitions = Some (ler_LeaderTransitions ler)\<rparr>,
     rl_Marshal = \<lambda>_. Inr []\<rparr>"

lemma std_resourcelock_doc: "ToSpec_doc std_resourcelock"
  by (simp add: ToSpec_doc_def std_resourcelock_def)

section \<open>Properties\<close>

text \<open>A shard that wins its lease joins the ring, one that releases it leaves: the lease that
  the lock of a ring creates or updates carries the ring label and all times and keeps every other
  label; the sharder counts the shard as available exactly if the election record names the lock's
  identity as the holder.\<close>

theorem shard_lease_controls_availability:
  assumes "NewResourceLock env options = Inr ll0" and "ToSpec_doc rl" and "SetMetaDataLabel_doc lib"
    and "lock_Identity ll0 \<noteq> []" and "ll = ll0\<lparr>ll_lease := Some old\<rparr>" and "om_Name (l_Meta old) = lock_Identity ll0"
    and "l = created_lease rl ler ll \<or> l = updated_lease lib rl ler ll old"
  shows "map_get (om_Labels (l_Meta l)) LabelControllerRing = lo_ControllerRingName options \<and> complete l \<and>
    (IsAvailable (ToState l now) \<longleftrightarrow> ler_HolderIdentity ler = lock_Identity ll0) \<and>
    (\<forall>k v. l = updated_lease lib rl ler ll old \<and> k \<noteq> LabelControllerRing \<and> as_map (om_Labels (l_Meta old)) k = v \<longrightarrow>
      as_map (om_Labels (l_Meta l)) k = v)"
proof -
  note f = NewResourceLock_fields [OF assms(1)]
  have spec: "l_Spec l = rl_ToSpec rl ler" and name: "om_Name (l_Meta l) = lock_Identity ll0"
    using assms(5-7) f mergeLabels_labels(2) [OF assms(3)]
    by (auto simp: created_lease_def updated_lease_def lock_Identity_def)
  have "map_get (om_Labels (l_Meta l)) LabelControllerRing = lo_ControllerRingName options"
    using assms(5,7) f(2) mergeLabels_labels(1) [OF assms(3)]
    by (auto simp: created_lease_def updated_lease_def map_get_def)
  moreover have "as_map (om_Labels (l_Meta l)) k = as_map (om_Labels (l_Meta old)) k"
    if "l = updated_lease lib rl ler ll old" "k \<noteq> LabelControllerRing" for k
    using that assms(5) f(2) mergeLabels_labels(1) [OF assms(3)] by (simp add: updated_lease_def)
  ultimately show ?thesis
    using ToSpec_state [OF assms(2) spec] name assms(4) by auto
qed

lemma shard_lease_controls_availability_witness:
  "\<exists>ll. NewResourceLock \<lparr>os_NewClient = None, os_Hostname = Inr ''s1'', os_Stat = \<lambda>_. StatOk, os_ReadFile = \<lambda>_. Inr ''default''\<rparr>
      \<lparr>lo_ControllerRingName = ''ring'', lo_LeaseNamespace = [], lo_ShardName = []\<rparr> = Inr ll \<and>
    IsAvailable (ToState (created_lease std_resourcelock \<lparr>ler_HolderIdentity = ''s1'', ler_LeaseDurationSeconds = 15,
      ler_AcquireTime = 0, ler_RenewTime = 0, ler_LeaderTransitions = 0\<rparr> ll) 0)"
proof -
  let ?env = "\<lparr>os_NewClient = None, os_Hostname = Inr ''s1'', os_Stat = \<lambda>_. StatOk, os_ReadFile = \<lambda>_. Inr ''default''\<rparr>"
  let ?opts = "\<lparr>lo_ControllerRingName = ''ring'', lo_LeaseNamespace = [], lo_ShardName = []\<rparr>"
  let ?ler = "\<lparr>ler_HolderIdentity = ''s1'', ler_LeaseDurationSeconds = 15, ler_AcquireTime = 0, ler_RenewTime = 0, ler_LeaderTransitions = 0\<rparr>"
  obtain ll where ll: "NewResourceLock ?env ?opts = Inr ll" "ll_Identity ll = ''s1''"
    by (simp add: NewResourceLock_def getInClusterNamespace_def)
  have same: "created_lease std_resourcelock ?ler (ll\<lparr>ll_lease := x\<rparr>) = created_lease std_resourcelock ?ler ll" for x
    by (simp add: created_lease_def)
  have "IsAvailable (ToState (created_lease std_resourcelock ?ler (ll\<lparr>ll_lease := Some (sample_lease ''s1'')\<rparr>)) 0)"
    using shard_lease_controls_availability [OF ll(1) std_resourcelock_doc std_lib_doc(3) _ refl _ disjI1 [OF refl],
        of "sample_lease ''s1''" ?ler 0] ll(2)
    by (simp add: lock_Identity_def sample_lease_def)
  with ll(1) show ?thesis unfolding same by blast
qed

text \<open>The lock writes what it shows: \<^verbatim>\<open>Update\<close> needs a lease in memory and sends the updated
  lease, \<^verbatim>\<open>Create\<close> the created one; afterwards the lease in memory is the one the server answered,
  or after a failed update the one that was sent.\<close>

theorem lock_writes:
  "(ll_lease ll = None \<longrightarrow> snd (snd (lock_Update lib rl c ler ll w)) = w \<and> fst (lock_Update lib rl c ler ll w) \<noteq> None) \<and>
   (\<forall>l. ll_lease ll = Some l \<longrightarrow> snd (snd (lock_Update lib rl c ler ll w)) = snd (lc_Update c w (updated_lease lib rl ler ll l)) \<and>
     ll_lease (fst (snd (lock_Update lib rl c ler ll w))) =
       Some (case fst (lc_Update c w (updated_lease lib rl ler ll l)) of Inl _ \<Rightarrow> updated_lease lib rl ler ll l | Inr l' \<Rightarrow> l')) \<and>
   snd (snd (lock_Create rl c ler ll w)) = snd (lc_Create c w (created_lease rl ler ll))"
  by (auto simp: lock_Update_eq lock_Create_eq split: prod.splits sum.splits) (simp_all add: lock_Update_def)

lemma lock_writes_witness:
  "fst (lock_Update std_lib std_resourcelock \<lparr>lc_Get = \<lambda>w k. Inl not_found, lc_Create = \<lambda>w l. ((l, None), w), lc_Update = \<lambda>w l. (Inr l, w)\<rparr>
     \<lparr>ler_HolderIdentity = [], ler_LeaseDurationSeconds = 15, ler_AcquireTime = 0, ler_RenewTime = 0, ler_LeaderTransitions = 0\<rparr>
     \<lparr>ll_LeaseMeta = empty_meta, ll_Identity = [], ll_Labels = [], ll_lease = None\<rparr> ()) \<noteq> None"
  using lock_writes [of "\<lparr>ll_LeaseMeta = empty_meta, ll_Identity = [], ll_Labels = [], ll_lease = None\<rparr>" std_lib std_resourcelock
      "\<lparr>lc_Get = \<lambda>w k. Inl not_found, lc_Create = \<lambda>w l. ((l, None), w), lc_Update = \<lambda>w l. (Inr l, w)\<rparr>"
      "\<lparr>ler_HolderIdentity = [], ler_LeaseDurationSeconds = 15, ler_AcquireTime = 0, ler_RenewTime = 0, ler_LeaderTransitions = 0\<rparr>" "()"]
  by simp

end
