(* ===== verification/Options.thy ===== *)
theory Options
  imports Config Sharder
begin

text \<open>
  From the configuration to the running sharder: \<^verbatim>\<open>cmd/sharder/app/options.go\<close> translates the
  defaulted configuration, the kubeconfig and the environment into options of the
  controller-runtime manager. The result \<open>None\<close> is a panic (a nil pointer or a failed
  \<^verbatim>\<open>utilruntime.Must\<close>). Reading files, decoding, the kubeconfig, the environment and the label
  selectors of apimachinery are parameters.
\<close>

section \<open>Manager options\<close>

record rest_config =
  rc_QPS :: rat
  rc_Burst :: int

text \<open>The zero value of \<^verbatim>\<open>metricsserver.Options\<close> has an empty bind address.\<close>

record metrics_options =
  mso_SecureServing :: bool
  mso_BindAddress :: string
  mso_AuthFilter :: bool
  mso_ExtraHandlers :: "string list"

record webhook_options =
  wo_CertDir :: string
  wo_CertName :: string
  wo_KeyName :: string

record 'sel cache_options =
  co_DropMetadata :: bool
  co_Leases :: "'sel option"

record 'sel manager_options =
  mo_LeaderElectionReleaseOnCancel :: bool
  mo_LeaderElection :: bool
  mo_LeaderElectionResourceLock :: string
  mo_LeaderElectionID :: string
  mo_LeaderElectionNamespace :: string
  mo_LeaseDuration :: "duration option"
  mo_RenewDeadline :: "duration option"
  mo_RetryPeriod :: "duration option"
  mo_HealthProbeBindAddress :: string
  mo_Metrics :: metrics_options
  mo_WebhookServer :: "webhook_options option"
  mo_GracefulShutdownTimeout :: "duration option"
  mo_Cache :: "'sel cache_options"

definition zero_metrics_options :: metrics_options where
  "zero_metrics_options = \<lparr>mso_SecureServing = False, mso_BindAddress = [], mso_AuthFilter = False, mso_ExtraHandlers = []\<rparr>"

definition zero_manager_options :: "'sel manager_options" where
  "zero_manager_options = \<lparr>mo_LeaderElectionReleaseOnCancel = False, mo_LeaderElection = False,
     mo_LeaderElectionResourceLock = [], mo_LeaderElectionID = [], mo_LeaderElectionNamespace = [],
     mo_LeaseDuration = None, mo_RenewDeadline = None, mo_RetryPeriod = None, mo_HealthProbeBindAddress = [],
     mo_Metrics = zero_metrics_options, mo_WebhookServer = None, mo_GracefulShutdownTimeout = None,
     mo_Cache = \<lparr>co_DropMetadata = False, co_Leases = None\<rparr>\<rparr>"

record ('sel, 'req) labels_lib =
  ll_NewSelector :: 'sel
  ll_ExistsRequirement :: "string \<Rightarrow> go_error + 'req"
  ll_Add :: "'sel \<Rightarrow> 'req \<Rightarrow> 'sel"
  ll_Matches :: "'sel \<Rightarrow> go_map \<Rightarrow> bool"

record app_env =
  env_ReadFile :: "string \<Rightarrow> go_error + string"
  env_DecodeInto :: "string \<Rightarrow> go_error + config_v1alpha1"
  env_GetConfig :: "go_error + rest_config"
  env_LookupEnv :: "string \<Rightarrow> string option"

definition ProfilingHandlers :: "string list" where
  "ProfilingHandlers = [''/debug/pprof'', ''/debug/pprof/'', ''/debug/pprof/profile'', ''/debug/pprof/symbol'', ''/debug/pprof/trace'']"

section \<open>Applying the configuration\<close>

definition applyConfigToRESTConfig :: "client_connection option \<Rightarrow> rest_config \<Rightarrow> rest_config" where
  "applyConfigToRESTConfig clientConnection restConfig =
     (case clientConnection of
        None \<Rightarrow> restConfig
      | Some cc \<Rightarrow>
          (let restConfig = (if 0 < cc_QPS cc then restConfig\<lparr>rc_QPS := cc_QPS cc\<rparr> else restConfig)
           in if 0 < cc_Burst cc then restConfig\<lparr>rc_Burst := cc_Burst cc\<rparr> else restConfig))"

definition apply_leader_election ::
  "leader_election option \<Rightarrow> 'sel manager_options \<Rightarrow> 'sel manager_options option"
where
  "apply_leader_election leaderElection mo =
     (case leaderElection of
        None \<Rightarrow> Some mo
      | Some le \<Rightarrow>
          (case le_LeaderElect le of
             None \<Rightarrow> None
           | Some elect \<Rightarrow> Some (mo\<lparr>mo_LeaderElection := elect, mo_LeaderElectionResourceLock := le_ResourceLock le,
               mo_LeaderElectionID := le_ResourceName le, mo_LeaderElectionNamespace := le_ResourceNamespace le,
               mo_LeaseDuration := Some (le_LeaseDuration le), mo_RenewDeadline := Some (le_RenewDeadline le),
               mo_RetryPeriod := Some (le_RetryPeriod le)\<rparr>)))"

text \<open>The extra handlers of the metrics server, and whether the block profile rate is set.\<close>

definition profiling_handlers :: "debugging option \<Rightarrow> (string list \<times> bool) option" where
  "profiling_handlers dbg =
     (case dbg of
        None \<Rightarrow> None
      | Some d \<Rightarrow>
          (case dbg_EnableProfiling d of
             None \<Rightarrow> None
           | Some False \<Rightarrow> Some ([], False)
           | Some True \<Rightarrow>
               map_option (\<lambda>contention. (ProfilingHandlers, contention)) (dbg_EnableContentionProfiling d)))"

definition apply_metrics ::
  "metrics_endpoint \<Rightarrow> debugging option \<Rightarrow> 'sel manager_options \<Rightarrow> ('sel manager_options \<times> bool) option"
where
  "apply_metrics me dbg mo =
     (if me_BindAddress me \<noteq> ''0''
      then map_option (\<lambda>(extraHandlers, rate). (mo\<lparr>mo_Metrics := \<lparr>mso_SecureServing = True,
             mso_BindAddress = me_BindAddress me, mso_AuthFilter = True, mso_ExtraHandlers = extraHandlers\<rparr>\<rparr>, rate))
             (profiling_handlers dbg)
      else Some (mo, False))"

definition webhook_server_options :: "webhook_server option \<Rightarrow> webhook_options" where
  "webhook_server_options server =
     (case server of
        None \<Rightarrow> \<lparr>wo_CertDir = [], wo_CertName = [], wo_KeyName = []\<rparr>
      | Some s \<Rightarrow> \<lparr>wo_CertDir = (case ws_CertDir s of None \<Rightarrow> [] | Some x \<Rightarrow> x),
          wo_CertName = (case ws_CertName s of None \<Rightarrow> [] | Some x \<Rightarrow> x),
          wo_KeyName = (case ws_KeyName s of None \<Rightarrow> [] | Some x \<Rightarrow> x)\<rparr>)"

definition applyConfigToManagerOptions ::
  "config_v1alpha1 \<Rightarrow> 'sel manager_options \<Rightarrow> ('sel manager_options \<times> bool) option"
where
  "applyConfigToManagerOptions config mo =
     (case apply_leader_election (c_LeaderElection config) mo of
        None \<Rightarrow> None
      | Some mo \<Rightarrow>
          (let mo = mo\<lparr>mo_HealthProbeBindAddress := he_BindAddress (c_Health config)\<rparr> in
           case apply_metrics (c_Metrics config) (c_Debugging config) mo of
             None \<Rightarrow> None
           | Some (mo, rate) \<Rightarrow>
               (let mo = mo\<lparr>mo_WebhookServer := Some (webhook_server_options (wh_Server (c_Webhook config)))\<rparr> in
                case c_GracefulShutdownTimeout config of
                  None \<Rightarrow> None
                | Some t \<Rightarrow> Some (mo\<lparr>mo_GracefulShutdownTimeout := Some t\<rparr>, rate))))"

text \<open>The result of \<^verbatim>\<open>leaseSelector.Add\<close> is not used.\<close>

definition applyCacheOptions :: "('sel, 'req) labels_lib \<Rightarrow> 'sel manager_options \<Rightarrow> 'sel manager_options option" where
  "applyCacheOptions ll mo =
     (let leaseSelector = ll_NewSelector ll in
      case ll_ExistsRequirement ll LabelControllerRing of
        Inl err \<Rightarrow> None
      | Inr ringRequirement \<Rightarrow>
          (let _ = ll_Add ll leaseSelector ringRequirement
           in Some (mo\<lparr>mo_Cache := \<lparr>co_DropMetadata = True, co_Leases = Some leaseSelector\<rparr>\<rparr>)))"

definition ParseBool :: "string \<Rightarrow> go_error + bool" where
  "ParseBool s =
     (if s \<in> {''1'', ''t'', ''T'', ''TRUE'', ''true'', ''True''} then Inr True
      else if s \<in> {''0'', ''f'', ''F'', ''FALSE'', ''false'', ''False''} then Inr False
      else Inl (errorf (''strconv.ParseBool: parsing '' @ quote s @ '': invalid syntax'')))"

definition applyOptionsOverrides :: "app_env \<Rightarrow> 'sel manager_options \<Rightarrow> go_error + 'sel manager_options" where
  "applyOptionsOverrides env mo =
     (case env_LookupEnv env ''LEADER_ELECT'' of
        None \<Rightarrow> Inr mo
      | Some leaderElectEnv \<Rightarrow>
          (case ParseBool leaderElectEnv of
             Inl err \<Rightarrow> Inl (wrapf ''error parsing LEADER_ELECT env var'' err)
           | Inr b \<Rightarrow> Inr (mo\<lparr>mo_LeaderElection := b\<rparr>)))"

record 'sel app_options =
  ao_config :: config_v1alpha1
  ao_restConfig :: rest_config
  ao_managerOptions :: "'sel manager_options"
  ao_blockProfile :: bool

definition load_config :: "config_lib \<Rightarrow> app_env \<Rightarrow> string \<Rightarrow> go_error + config_v1alpha1" where
  "load_config cl env configFile =
     (if configFile \<noteq> [] then
        (case env_ReadFile env configFile of
           Inl err \<Rightarrow> Inl (wrapf ''error reading config file'' err)
         | Inr data \<Rightarrow>
             (case env_DecodeInto env data of
                Inl err \<Rightarrow> Inl (wrapf ''error decoding config'' err)
              | Inr config \<Rightarrow> Inr config))
      else Inr (SetObjectDefaults_SharderConfig cl zero_config))"

definition complete_options ::
  "config_lib \<Rightarrow> ('sel, 'req) labels_lib \<Rightarrow> app_env \<Rightarrow> string \<Rightarrow> (go_error + 'sel app_options) option"
where
  "complete_options cl ll env configFile =
     (case load_config cl env configFile of
        Inl err \<Rightarrow> Some (Inl err)
      | Inr config \<Rightarrow>
          (case env_GetConfig env of
             Inl err \<Rightarrow> Some (Inl (wrapf ''error loading kubeconfig'' err))
           | Inr restConfig \<Rightarrow>
               (let restConfig = applyConfigToRESTConfig (c_ClientConnection config) restConfig;
                    mo = zero_manager_options\<lparr>mo_LeaderElectionReleaseOnCancel := True\<rparr> in
                case applyConfigToManagerOptions config mo of
                  None \<Rightarrow> None
                | Some (mo, rate) \<Rightarrow>
                    (case applyCacheOptions ll mo of
                       None \<Rightarrow> None
                     | Some mo \<Rightarrow>
                         (case applyOptionsOverrides env mo of
                            Inl err \<Rightarrow> Some (Inl err)
                          | Inr mo \<Rightarrow> Some (Inr \<lparr>ao_config = config, ao_restConfig = restConfig,
                              ao_managerOptions = mo, ao_blockProfile = rate\<rparr>))))))"

section \<open>The cache transform\<close>

record cached_object =
  ca_Meta :: object_meta
  ca_ManagedFields :: "string list option"

datatype cache_item = ClientObject cached_object | OtherItem string

definition lastApplied :: string where
  "lastApplied = ''kubectl.kubernetes.io/last-applied-configuration''"

fun dropUnwantedMetadata :: "cache_item \<Rightarrow> cache_item" where
  "dropUnwantedMetadata (OtherItem i) = OtherItem i"
| "dropUnwantedMetadata (ClientObject obj) =
     ClientObject (obj\<lparr>ca_ManagedFields := None,
       ca_Meta := (ca_Meta obj)\<lparr>om_Annotations := map_delete lastApplied (om_Annotations (ca_Meta obj))\<rparr>\<rparr>)"

section \<open>What the sharder controller reads\<close>

text \<open>The reads of \<^verbatim>\<open>r.Config\<close> in the sharder controller, through four pointers.\<close>

definition sharder_view :: "config_v1alpha1 \<Rightarrow> sharder_config option" where
  "sharder_view config =
     (case (ctl_Sharder (c_Controller config), wh_Config (c_Webhook config)) of
        (Some sc, Some wc) \<Rightarrow>
          (case (sc_SyncPeriod sc, sc_ConcurrentMoves sc) of
             (Some p, Some n) \<Rightarrow> Some \<lparr>cfg_SyncPeriod = p, cfg_ConcurrentMoves = n,
               cfg_NamespaceSelector = wc_NamespaceSelector wc\<rparr>
           | _ \<Rightarrow> None)
      | _ \<Rightarrow> None)"

section \<open>Lemmas\<close>

lemma defaulted_config_applies:
  assumes "recommended_doc cl"
  shows "\<exists>r. applyConfigToManagerOptions (SetObjectDefaults_SharderConfig cl c) (mo :: 'a manager_options) = Some r"
proof -
  let ?config = "SetObjectDefaults_SharderConfig cl c"
  let ?le = "case c_LeaderElection c of None \<Rightarrow> zero_leader_election | Some x \<Rightarrow> x"
  let ?d = "case c_Debugging c of None \<Rightarrow> \<lparr>dbg_EnableProfiling = None, dbg_EnableContentionProfiling = None\<rparr> | Some x \<Rightarrow> x"
  have "\<exists>b. le_LeaderElect (SetDefaults_LeaderElectionConfiguration cl ?le) = Some b"
    using recommended_docD(1) [OF assms] by (simp add: SetDefaults_LeaderElectionConfiguration_def Let_def)
  then have le: "\<exists>mo'. apply_leader_election (c_LeaderElection ?config) mo = Some mo'"
    by (auto simp: default_fields apply_leader_election_def)
  obtain b b' where "dbg_EnableProfiling (SetDefaults_DebuggingConfiguration cl ?d) = Some b"
      "dbg_EnableContentionProfiling (SetDefaults_DebuggingConfiguration cl ?d) = Some b'"
    using debugging_defaults_set [OF assms, of ?d] by blast
  then have "\<exists>r. profiling_handlers (c_Debugging ?config) = Some r"
    by (cases b) (auto simp: default_fields profiling_handlers_def)
  then have ms: "\<exists>mo2 rate. apply_metrics (c_Metrics ?config) (c_Debugging ?config) mo' = Some (mo2, rate)"
    for mo' :: "'a manager_options"
    by (auto simp: apply_metrics_def)
  obtain t where "c_GracefulShutdownTimeout ?config = Some t" by (simp add: default_fields)
  moreover obtain mo1 where "apply_leader_election (c_LeaderElection ?config) mo = Some mo1" using le by blast
  moreover obtain mo2 rate where "apply_metrics (c_Metrics ?config) (c_Debugging ?config)
      (mo1\<lparr>mo_HealthProbeBindAddress := he_BindAddress (c_Health ?config)\<rparr>) = Some (mo2, rate)"
    using ms by blast
  ultimately show ?thesis
    by (simp add: applyConfigToManagerOptions_def Let_def)
qed

section \<open>Properties\<close>

text \<open>C28: A defaulted configuration is complete: no pointer that the sharder reads is nil after
  defaulting. The manager options can be computed, the sharder controller finds its sync period and
  its number of concurrent moves (100 unless the user sets it), the webhook configuration has a
  namespace selector and a target.\<close>

theorem defaulted_config_usable:
  assumes "recommended_doc cl" and "config = SetObjectDefaults_SharderConfig cl c"
  shows "(\<exists>r. applyConfigToManagerOptions config (mo :: 'a manager_options) = Some r) \<and>
    (\<exists>v. sharder_view config = Some v \<and> (ctl_Sharder (c_Controller c) = None \<longrightarrow>
       cfg_ConcurrentMoves v = 100 \<and> cfg_SyncPeriod v = 5 * Minute)) \<and>
    (\<exists>wc cc. wh_Config (c_Webhook config) = Some wc \<and> wc_NamespaceSelector wc \<noteq> None \<and> wc_ClientConfig wc = Some cc \<and>
       (wcc_URL cc \<noteq> None \<or> wcc_Service cc \<noteq> None))"
proof (intro conjI)
  show "\<exists>r. applyConfigToManagerOptions config mo = Some r"
    using defaulted_config_applies [OF assms(1)] assms(2) by blast
  show "\<exists>v. sharder_view config = Some v \<and> (ctl_Sharder (c_Controller c) = None \<longrightarrow>
       cfg_ConcurrentMoves v = 100 \<and> cfg_SyncPeriod v = 5 * Minute)"
    by (auto simp: assms(2) sharder_view_def default_fields SetDefaults_SharderController_def Let_def)
  show "\<exists>wc cc. wh_Config (c_Webhook config) = Some wc \<and> wc_NamespaceSelector wc \<noteq> None \<and> wc_ClientConfig wc = Some cc \<and>
       (wcc_URL cc \<noteq> None \<or> wcc_Service cc \<noteq> None)"
    using webhook_config_defaults(2,3) client_config_defaults(2) by (fastforce simp: assms(2) default_fields)
qed

lemma defaulted_config_usable_witness:
  "\<exists>v. sharder_view (SetObjectDefaults_SharderConfig std_config_lib zero_config) = Some v \<and> cfg_ConcurrentMoves v = 100"
  using defaulted_config_usable [OF std_config_lib_doc refl, of zero_config] by (auto simp: zero_config_def)

text \<open>
  The metrics server of controller-runtime documents its bind address: empty means \<^verbatim>\<open>:8080\<close>,
  \<^verbatim>\<open>0\<close> disables the server.
\<close>

definition metrics_server_doc :: "(metrics_options \<Rightarrow> string option) \<Rightarrow> bool" where
  "metrics_server_doc serve \<longleftrightarrow> (\<forall>o'. serve o' = (if mso_BindAddress o' = ''0'' then None
     else if mso_BindAddress o' = [] then Some '':8080'' else Some (mso_BindAddress o')))"

text \<open>Metrics cannot be switched off: with the bind address \<^verbatim>\<open>0\<close>, documented to disable the
  metrics endpoint, the options keep their zero metrics value, and the manager serves metrics on its
  default address without TLS and without authentication. Every other bind address is served with
  both.\<close>

theorem metrics_disable_is_ignored:
  assumes "metrics_server_doc serve" and "complete_options cl ll env configFile = Some (Inr opts)"
    and "me_BindAddress (c_Metrics (ao_config opts)) \<noteq> []"
  shows "if me_BindAddress (c_Metrics (ao_config opts)) = ''0''
    then serve (mo_Metrics (ao_managerOptions opts)) = Some '':8080'' \<and> \<not> mso_SecureServing (mo_Metrics (ao_managerOptions opts)) \<and>
      \<not> mso_AuthFilter (mo_Metrics (ao_managerOptions opts))
    else serve (mo_Metrics (ao_managerOptions opts)) = Some (me_BindAddress (c_Metrics (ao_config opts))) \<and>
      mso_SecureServing (mo_Metrics (ao_managerOptions opts)) \<and> mso_AuthFilter (mo_Metrics (ao_managerOptions opts))"
proof -
  obtain h where "mo_Metrics (ao_managerOptions opts) = (if me_BindAddress (c_Metrics (ao_config opts)) = ''0'' then zero_metrics_options
      else \<lparr>mso_SecureServing = True, mso_BindAddress = me_BindAddress (c_Metrics (ao_config opts)), mso_AuthFilter = True,
        mso_ExtraHandlers = h\<rparr>)"
    using assms(2)
    by (auto simp: complete_options_def applyConfigToManagerOptions_def apply_leader_election_def apply_metrics_def
        applyCacheOptions_def applyOptionsOverrides_def zero_manager_options_def Let_def
        split: sum.splits option.splits prod.splits if_splits)
  with assms(1,3) show ?thesis by (auto simp: metrics_server_doc_def zero_metrics_options_def split: if_splits)
qed

definition sample_env :: app_env where
  "sample_env = \<lparr>env_ReadFile = \<lambda>_. Inr [], env_DecodeInto = \<lambda>_. Inr (SetObjectDefaults_SharderConfig std_config_lib
       (zero_config\<lparr>c_Metrics := \<lparr>me_BindAddress = ''0''\<rparr>\<rparr>)),
     env_GetConfig = Inr \<lparr>rc_QPS = 20, rc_Burst = 30\<rparr>, env_LookupEnv = \<lambda>_. None\<rparr>"

text \<open>Selectors as lists of required label keys.\<close>

definition sample_labels :: "(string list, string) labels_lib" where
  "sample_labels = \<lparr>ll_NewSelector = [], ll_ExistsRequirement = Inr, ll_Add = \<lambda>s k. s @ [k],
     ll_Matches = \<lambda>s m. list_all (map_has m) s\<rparr>"

lemma sample_complete:
  "\<exists>opts. complete_options std_config_lib sample_labels sample_env ''config.yaml'' = Some (Inr opts) \<and>
     me_BindAddress (c_Metrics (ao_config opts)) = ''0''"
proof -
  let ?c = "SetObjectDefaults_SharderConfig std_config_lib (zero_config\<lparr>c_Metrics := \<lparr>me_BindAddress = ''0''\<rparr>\<rparr>)"
  have "me_BindAddress (c_Metrics ?c) = ''0''" by (simp add: default_fields SetDefaults_MetricsEndpoint_def)
  moreover obtain mo rate where "applyConfigToManagerOptions ?c
      (zero_manager_options\<lparr>mo_LeaderElectionReleaseOnCancel := True\<rparr> :: string list manager_options) = Some (mo, rate)"
    using defaulted_config_applies [OF std_config_lib_doc] by fastforce
  ultimately show ?thesis
    by (simp add: complete_options_def load_config_def sample_env_def applyCacheOptions_def sample_labels_def
        applyOptionsOverrides_def Let_def)
qed

lemma metrics_disable_is_ignored_witness:
  "\<exists>opts. complete_options std_config_lib sample_labels sample_env ''config.yaml'' = Some (Inr opts) \<and>
     \<not> mso_SecureServing (mo_Metrics (ao_managerOptions opts))"
proof -
  let ?serve = "\<lambda>o'. if mso_BindAddress o' = ''0'' then None
     else if mso_BindAddress o' = [] then Some '':8080'' else Some (mso_BindAddress o')"
  obtain opts where "complete_options std_config_lib sample_labels sample_env ''config.yaml'' = Some (Inr opts)"
      "me_BindAddress (c_Metrics (ao_config opts)) = ''0''"
    using sample_complete by blast
  moreover have "metrics_server_doc ?serve" by (simp add: metrics_server_doc_def)
  ultimately show ?thesis using metrics_disable_is_ignored by fastforce
qed

text \<open>A fresh selector matches everything, as the labels package documents.\<close>

definition new_selector_doc :: "('sel, 'req) labels_lib \<Rightarrow> bool" where
  "new_selector_doc ll \<longleftrightarrow> (\<forall>m. ll_Matches ll (ll_NewSelector ll) m)"

text \<open>The lease cache is not restricted to shard leases: the selector it is configured with
  matches every lease, also one without the controllerring label.\<close>

theorem lease_cache_unfiltered:
  assumes "new_selector_doc ll" and "complete_options cl ll env configFile = Some (Inr opts)"
  shows "\<exists>sel. co_Leases (mo_Cache (ao_managerOptions opts)) = Some sel \<and> (\<forall>m. ll_Matches ll sel m)"
  using assms
  by (auto simp: new_selector_doc_def complete_options_def applyCacheOptions_def applyOptionsOverrides_def Let_def
      split: sum.splits option.splits prod.splits)

end
