(* ===== verification/Exporter.thy ===== *)
theory Exporter
  imports Leases Pager
begin

text \<open>
  State metrics: the generic exporter of \<^verbatim>\<open>pkg/metrics/exporter/exporter.go\<close> and the exporters for
  rings and shards (\<^verbatim>\<open>pkg/metrics/controllerring.go\<close>, \<^verbatim>\<open>pkg/metrics/shard.go\<close>). Sending to the metrics
  channel is appending to a list. \<^verbatim>\<open>MustNewConstMetric\<close> panics when the number of label values is not
  the number of the descriptor's labels, the result \<open>None\<close>. Values are integers; the conversion to
  \<^verbatim>\<open>float64\<close> is exact below 2 to the 53. The \<^verbatim>\<open>append\<close> calls copy, because the slices they extend are
  literals without spare capacity. \<^verbatim>\<open>BuildFQName\<close> of the prometheus client is a parameter.
\<close>

section \<open>Metrics and descriptors\<close>

record metric_desc =
  d_fqName :: string
  d_help :: string
  d_labels :: "string list"

datatype prom_metric = ConstMetric metric_desc int "string list" | InvalidMetric metric_desc go_error

definition MustNewConstMetric :: "metric_desc \<Rightarrow> int \<Rightarrow> string list \<Rightarrow> prom_metric option" where
  "MustNewConstMetric desc v ls = (if length ls = length (d_labels desc) then Some (ConstMetric desc v ls) else None)"

type_synonym 'o generate_func = "metric_desc \<Rightarrow> 'o \<Rightarrow> string list \<Rightarrow> prom_metric list option"

record 'o metric =
  m_Name :: string
  m_Help :: string
  m_LabelKeys :: "string list"
  m_Generate :: "'o generate_func"
  m_desc :: "metric_desc option"

record 'o exporter =
  e_Namespace :: string
  e_Subsystem :: string
  e_StaticLabelKeys :: "string list"
  e_GenerateStaticLabelValues :: "'o \<Rightarrow> string list"
  e_Metrics :: "'o metric list"
  e_HasLabels :: "string list"

section \<open>The exporter\<close>

definition complete_metric :: "(string \<Rightarrow> string \<Rightarrow> string \<Rightarrow> string) \<Rightarrow> 'o exporter \<Rightarrow> 'o metric \<Rightarrow> 'o metric" where
  "complete_metric fqName e m = m\<lparr>m_desc := Some \<lparr>d_fqName = fqName (e_Namespace e) (e_Subsystem e) (m_Name m),
     d_help = m_Help m, d_labels = e_StaticLabelKeys e @ m_LabelKeys m\<rparr>\<rparr>"

definition exporter_AddToManager :: "(string \<Rightarrow> string \<Rightarrow> string \<Rightarrow> string) \<Rightarrow> 'o exporter \<Rightarrow> 'o exporter" where
  "exporter_AddToManager fqName e = e\<lparr>e_Metrics := map (complete_metric fqName e) (e_Metrics e)\<rparr>"

definition NeedLeaderElection :: "'o exporter \<Rightarrow> bool" where
  "NeedLeaderElection e = False"

definition exporter_Start :: "('o exporter \<Rightarrow> go_error option) \<Rightarrow> 'o exporter \<Rightarrow> go_error option" where
  "exporter_Start register e =
     (case register e of
        Some err \<Rightarrow> Some (wrapf (''failed to register '' @ e_Subsystem e @ '' exporter'') err)
      | None \<Rightarrow> None)"

definition exporter_Describe :: "'o exporter \<Rightarrow> metric_desc option list" where
  "exporter_Describe e = map m_desc (e_Metrics e)"

text \<open>A metric without a descriptor is one of an exporter that was not added to a manager: a nil pointer.\<close>

fun generate_all :: "'o metric list \<Rightarrow> 'o \<Rightarrow> string list \<Rightarrow> prom_metric list option" where
  "generate_all [] ob sls = Some []"
| "generate_all (m # ms) ob sls =
     (case m_desc m of
        None \<Rightarrow> None
      | Some desc \<Rightarrow>
          (case m_Generate m desc ob sls of
             None \<Rightarrow> None
           | Some xs \<Rightarrow> map_option (\<lambda>ys. xs @ ys) (generate_all ms ob sls)))"

fun handleError :: "'o metric list \<Rightarrow> go_error \<Rightarrow> prom_metric list option" where
  "handleError [] err = Some []"
| "handleError (m # ms) err =
     (case m_desc m of
        None \<Rightarrow> None
      | Some desc \<Rightarrow> map_option (\<lambda>ys. InvalidMetric desc err # ys) (handleError ms err))"

definition collect_item :: "'o exporter \<Rightarrow> (prom_metric list option, 'o) visitor" where
  "collect_item e ch ob = (None,
     case (ch, generate_all (e_Metrics e) ob (e_GenerateStaticLabelValues e ob)) of
       (Some xs, Some ys) \<Rightarrow> Some (xs @ ys) | _ \<Rightarrow> None)"

definition exporter_Collect ::
  "(prom_metric list option, 'o) each_item \<Rightarrow> string \<Rightarrow> 'o exporter \<Rightarrow> go_error + 'o list \<Rightarrow> prom_metric list option"
where
  "exporter_Collect each listType e listed =
     (case listed of
        Inl err \<Rightarrow> handleError (e_Metrics e) (wrapf (''error listing '' @ listType) err)
      | Inr items \<Rightarrow>
          (case each (collect_item e) (Some []) items of
             (None, ch) \<Rightarrow> ch
           | (Some err, ch) \<Rightarrow>
               (case (ch, handleError (e_Metrics e) (wrapf (''error iterarting '' @ listType) err)) of
                  (Some xs, Some ys) \<Rightarrow> Some (xs @ ys) | _ \<Rightarrow> None)))"

section \<open>State sets\<close>

definition stateSetMetric :: "metric_desc \<Rightarrow> string \<Rightarrow> bool \<Rightarrow> string list \<Rightarrow> prom_metric option" where
  "stateSetMetric desc state value staticLabelValues =
     MustNewConstMetric desc (if value then 1 else 0) (staticLabelValues @ [state])"

fun state_loop ::
  "metric_desc \<Rightarrow> string \<Rightarrow> string list \<Rightarrow> string list \<Rightarrow> bool \<times> prom_metric list \<Rightarrow> (bool \<times> prom_metric list) option"
where
  "state_loop desc actual sls [] (known, ch) = Some (known, ch)"
| "state_loop desc actual sls (state # states) (known, ch) =
     (let hasState = (actual = state);
          known = (if hasState then True else known)
      in case stateSetMetric desc state hasState sls of
           None \<Rightarrow> None
         | Some m \<Rightarrow> state_loop desc actual sls states (known, ch @ [m]))"

definition GenerateStateSet :: "string list \<Rightarrow> string option \<Rightarrow> ('o \<Rightarrow> string) \<Rightarrow> 'o generate_func" where
  "GenerateStateSet knownStates unknownState getState desc ob sls =
     (case state_loop desc (getState ob) sls knownStates (False, []) of
        None \<Rightarrow> None
      | Some (known, ch) \<Rightarrow>
          (case unknownState of
             None \<Rightarrow> Some ch
           | Some u \<Rightarrow> map_option (\<lambda>m. ch @ [m]) (stateSetMetric desc u (\<not> known) sls)))"

definition KnownStates :: "string list \<Rightarrow> string list" where
  "KnownStates s = map (\<lambda>state. state) s"

definition KnownStatesStringer :: "('s \<Rightarrow> string) \<Rightarrow> 's list \<Rightarrow> string list" where
  "KnownStatesStringer str s = map str s"

section \<open>The exporters of the sharder\<close>

definition metrics_Namespace :: string where
  "metrics_Namespace = ''controller_sharding''"

definition gauge :: "('o \<Rightarrow> int) \<Rightarrow> ('o \<Rightarrow> string list) \<Rightarrow> 'o generate_func" where
  "gauge v extra desc ob sls = map_option (\<lambda>m. [m]) (MustNewConstMetric desc (v ob) (sls @ extra ob))"

definition ControllerRingExporter :: "controller_ring exporter" where
  "ControllerRingExporter = \<lparr>e_Namespace = metrics_Namespace, e_Subsystem = ''controllerring'',
     e_StaticLabelKeys = [''controllerring'', ''uid''],
     e_GenerateStaticLabelValues = \<lambda>r. [om_Name (cr_Meta r), om_UID (cr_Meta r)],
     e_Metrics =
       [\<lparr>m_Name = ''metadata_generation'', m_Help = ''The generation of a ControllerRing'', m_LabelKeys = [],
         m_Generate = gauge (\<lambda>r. om_Generation (cr_Meta r)) (\<lambda>_. []), m_desc = None\<rparr>,
        \<lparr>m_Name = ''observed_generation'', m_Help = ''The latest generation observed by the ControllerRing controller'', m_LabelKeys = [],
         m_Generate = gauge (\<lambda>r. st_ObservedGeneration (cr_Status r)) (\<lambda>_. []), m_desc = None\<rparr>,
        \<lparr>m_Name = ''status_shards'', m_Help = ''The ControllerRing's total number of shards observed by the ControllerRing controller'',
         m_LabelKeys = [], m_Generate = gauge (\<lambda>r. st_Shards (cr_Status r)) (\<lambda>_. []), m_desc = None\<rparr>,
        \<lparr>m_Name = ''status_available_shards'',
         m_Help = ''The ControllerRing's number of available shards observed by the ControllerRing controller'',
         m_LabelKeys = [], m_Generate = gauge (\<lambda>r. st_AvailableShards (cr_Status r)) (\<lambda>_. []), m_desc = None\<rparr>],
     e_HasLabels = []\<rparr>"

definition ShardExporter :: "lease exporter" where
  "ShardExporter = \<lparr>e_Namespace = metrics_Namespace, e_Subsystem = ''shard'',
     e_StaticLabelKeys = [''namespace'', ''shard'', ''controllerring''],
     e_GenerateStaticLabelValues = \<lambda>l. [om_Namespace (l_Meta l), om_Name (l_Meta l), map_get (om_Labels (l_Meta l)) LabelControllerRing],
     e_Metrics =
       [\<lparr>m_Name = ''info'', m_Help = ''Information about a shard'', m_LabelKeys = [''uid''],
         m_Generate = gauge (\<lambda>_. 1) (\<lambda>l. [om_UID (l_Meta l)]), m_desc = None\<rparr>,
        \<lparr>m_Name = ''state'', m_Help = ''The shard's current state observed by the shardlease controller'', m_LabelKeys = [''state''],
         m_Generate = GenerateStateSet (KnownStatesStringer state_String KnownShardStates) (Some (state_String Unknown))
           (\<lambda>l. map_get (om_Labels (l_Meta l)) LabelState), m_desc = None\<rparr>],
     e_HasLabels = [LabelControllerRing]\<rparr>"

section \<open>Lemmas\<close>

lemma state_loop_eq:
  assumes "length (d_labels desc) = Suc (length sls)"
  shows "state_loop desc actual sls states (known, ch) = Some (known \<or> actual \<in> set states,
    ch @ map (\<lambda>st. ConstMetric desc (if actual = st then 1 else 0) (sls @ [st])) states)"
  using assms by (induction states arbitrary: known ch) (auto simp: stateSetMetric_def MustNewConstMetric_def Let_def)

lemma GenerateStateSet_eq:
  assumes "length (d_labels desc) = Suc (length sls)"
  shows "GenerateStateSet states unknown getState desc ob sls =
    Some (map (\<lambda>st. ConstMetric desc (if getState ob = st then 1 else 0) (sls @ [st])) states @
      (case unknown of None \<Rightarrow> [] | Some u \<Rightarrow> [ConstMetric desc (if getState ob \<in> set states then 0 else 1) (sls @ [u])]))"
  using assms by (simp add: GenerateStateSet_def state_loop_eq stateSetMetric_def MustNewConstMetric_def split: option.splits)

fun metric_value :: "prom_metric \<Rightarrow> int" where
  "metric_value (ConstMetric d v ls) = v"
| "metric_value (InvalidMetric d e) = 0"

text \<open>A generator that never panics: the descriptor has the labels of the exporter and of the metric.\<close>

definition total_metric :: "'o exporter \<Rightarrow> 'o metric \<Rightarrow> bool" where
  "total_metric e m \<longleftrightarrow> (\<forall>desc ob. length (d_labels desc) = length (e_StaticLabelKeys e) + length (m_LabelKeys m) \<longrightarrow>
     m_Generate m desc ob (e_GenerateStaticLabelValues e ob) \<noteq> None)"

lemma generate_all_total:
  assumes "list_all (total_metric e) ms"
  shows "\<exists>xs. generate_all (map (complete_metric fq e) ms) ob (e_GenerateStaticLabelValues e ob) = Some xs"
  using assms
proof (induction ms)
  case (Cons m ms)
  let ?desc = "the (m_desc (complete_metric fq e m))"
  have "length (d_labels ?desc) = length (e_StaticLabelKeys e) + length (m_LabelKeys m)"
    by (simp add: complete_metric_def)
  then obtain ys where "m_Generate m ?desc ob (e_GenerateStaticLabelValues e ob) = Some ys"
    using Cons.prems unfolding total_metric_def by fastforce
  then show ?case using Cons by (auto simp: complete_metric_def)
qed simp

lemma visit_collect:
  assumes "list_all (total_metric e) (e_Metrics e)" and "e' = exporter_AddToManager fq e"
  shows "\<exists>ys. visit_items (collect_item e') (Some xs) items = (None, Some ys)"
proof (induction items arbitrary: xs)
  case (Cons ob items)
  obtain zs where "generate_all (e_Metrics e') ob (e_GenerateStaticLabelValues e' ob) = Some zs"
    using generate_all_total [OF assms(1), of fq ob] by (auto simp: assms(2) exporter_AddToManager_def)
  then show ?case using Cons by (simp add: collect_item_def)
qed simp

lemma handleError_completed: "\<exists>xs. handleError (map (complete_metric fq e) ms) err = Some xs \<and> length xs = length ms"
  by (induction ms) (auto simp: complete_metric_def)

lemma Collect_total:
  assumes "list_all (total_metric e) (e_Metrics e)"
  shows "\<exists>xs. exporter_Collect visit_items t (exporter_AddToManager fq e) listed = Some xs \<and>
    (\<forall>err. listed = Inl err \<longrightarrow> length xs = length (e_Metrics e))"
proof (cases listed)
  case (Inl err)
  then show ?thesis
    using handleError_completed [of fq e "e_Metrics e"] by (auto simp: exporter_Collect_def exporter_AddToManager_def)
next
  case (Inr items)
  obtain ys where "visit_items (collect_item (exporter_AddToManager fq e)) (Some []) items = (None, Some ys)"
    using visit_collect [OF assms refl] by blast
  with Inr show ?thesis by (simp add: exporter_Collect_def)
qed

lemma String_StateFromString: "StateFromString s \<noteq> Unknown \<Longrightarrow> state_String (StateFromString s) = s"
  unfolding StateFromString_def by (simp split: if_split_asm)

lemma state_String_eq_iff: "st \<noteq> Unknown \<Longrightarrow> s = state_String st \<longleftrightarrow> st = StateFromString s"
  using String_StateFromString [of s] by (metis StateFromString_String)

lemma known_state_iff: "s \<in> set (map state_String KnownShardStates) \<longleftrightarrow> StateFromString s \<noteq> Unknown"
proof -
  have "st \<in> set KnownShardStates \<longleftrightarrow> st \<noteq> Unknown" for st by (cases st) (simp_all add: KnownShardStates_def)
  then show ?thesis using String_StateFromString [of s] by (metis StateFromString_String imageE image_eqI set_map)
qed

section \<open>Properties\<close>

text \<open>Collecting metrics never panics: every metric of the two exporters gets as many label
  values as its descriptor has labels, for all objects; when the list call fails, one invalid metric
  per descriptor reports the error.\<close>

theorem exporters_never_panic:
  "(\<exists>xs. exporter_Collect visit_items t (exporter_AddToManager fq ControllerRingExporter) rings = Some xs \<and>
      (\<forall>err. rings = Inl err \<longrightarrow> length xs = 4)) \<and>
   (\<exists>xs. exporter_Collect visit_items t (exporter_AddToManager fq ShardExporter) leases = Some xs \<and>
      (\<forall>err. leases = Inl err \<longrightarrow> length xs = 2))"
proof -
  have "list_all (total_metric ControllerRingExporter) (e_Metrics ControllerRingExporter)"
    by (simp add: ControllerRingExporter_def total_metric_def gauge_def MustNewConstMetric_def)
  moreover have "list_all (total_metric ShardExporter) (e_Metrics ShardExporter)"
    by (simp add: ShardExporter_def total_metric_def gauge_def MustNewConstMetric_def GenerateStateSet_eq)
  moreover have "length (e_Metrics ControllerRingExporter) = 4" "length (e_Metrics ShardExporter) = 2"
    by (simp_all add: ControllerRingExporter_def ShardExporter_def)
  ultimately show ?thesis
    using Collect_total [of ControllerRingExporter t fq rings] Collect_total [of ShardExporter t fq leases] by simp
qed

lemma exporters_never_panic_witness:
  "\<exists>xs. exporter_Collect visit_items [] (exporter_AddToManager (\<lambda>a b c. a @ b @ c) ShardExporter) (Inr [sample_lease ''s1'']) = Some xs"
  using exporters_never_panic by blast

text \<open>The shard state metric is a state set: whatever the state label of a lease says, exactly one
  of its six samples is 1, the one of the state that the controllers read from the label.\<close>

theorem shard_state_metric_is_state_set:
  assumes "length (d_labels desc) = 4"
  shows "GenerateStateSet (KnownStatesStringer state_String KnownShardStates) (Some (state_String Unknown))
      (\<lambda>l. map_get (om_Labels (l_Meta l)) LabelState) desc l (e_GenerateStaticLabelValues ShardExporter l) =
    Some (map (\<lambda>st. ConstMetric desc
        (if st = StateFromString (map_get (om_Labels (l_Meta l)) LabelState) then 1 else 0)
        (e_GenerateStaticLabelValues ShardExporter l @ [state_String st])) (KnownShardStates @ [Unknown]))"
proof -
  have "st \<in> set KnownShardStates \<Longrightarrow> st \<noteq> Unknown" for st by (auto simp: KnownShardStates_def)
  then have "map (\<lambda>x. ConstMetric desc (if map_get (om_Labels (l_Meta l)) LabelState = x then 1 else 0) (sls @ [x]))
      (map state_String KnownShardStates) =
    map (\<lambda>st. ConstMetric desc (if st = StateFromString (map_get (om_Labels (l_Meta l)) LabelState) then 1 else 0)
      (sls @ [state_String st])) KnownShardStates" for sls
    by (simp add: state_String_eq_iff)
  moreover have "length (d_labels desc) = Suc (length (e_GenerateStaticLabelValues ShardExporter l))"
    using assms by (simp add: ShardExporter_def)
  ultimately show ?thesis
    by (subst GenerateStateSet_eq) (simp_all only: KnownStatesStringer_def known_state_iff, auto)
qed

lemma shard_state_metric_is_state_set_witness:
  "\<exists>xs. GenerateStateSet (KnownStatesStringer state_String KnownShardStates) (Some (state_String Unknown))
      (\<lambda>l. map_get (om_Labels (l_Meta l)) LabelState) \<lparr>d_fqName = [], d_help = [], d_labels = [''a'', ''b'', ''c'', ''state'']\<rparr>
      (sample_lease ''s1'') (e_GenerateStaticLabelValues ShardExporter (sample_lease ''s1'')) = Some xs \<and>
    sum_list (map metric_value xs) = 1"
  by (subst shard_state_metric_is_state_set)
    (simp_all add: KnownShardStates_def sample_lease_def empty_meta_def map_get_def StateFromString_def)

end
