(* ===== verification/Checksum.thy ===== *)
theory Checksum
  imports Shard_Controller Shard_Lease Predicates Sharding_Key
begin

text \<open>
  The example controller \<^verbatim>\<open>cmd/checksum-controller\<close>: it creates a ConfigMap with the checksums of
  every Secret assigned to its shard, through the sharded reconciler and the shard lease of the
  shard library. The digest function is a parameter. A panic (writing to a nil map) is \<open>None\<close>.
\<close>

section \<open>Data\<close>

record secret =
  sec_Meta :: object_meta
  sec_Data :: "(string \<times> string) list"

text \<open>The data maps are association lists in iteration order.\<close>

record 'w secret_client =
  sc_GetSecret :: "'w \<Rightarrow> nsname \<Rightarrow> go_error + secret"
  sc_CreateConfigMap :: "'w \<Rightarrow> config_map \<Rightarrow> go_error option \<times> 'w"

section \<open>Predicates\<close>

text \<open>The controller watches Secrets only; the type assertions would panic on other objects.\<close>

definition SecretDataChanged :: "pred_lib \<Rightarrow> predicate" where
  "SecretDataChanged pl = pl_Funcs pl (no_funcs\<lparr>UpdateFunc := Some (\<lambda>old new.
     case (old, new) of (OSecret _ d, OSecret _ d') \<Rightarrow> map_of d = map_of d' | _ \<Rightarrow> False)\<rparr>)"

definition ObjectDeleted :: "pred_lib \<Rightarrow> predicate" where
  "ObjectDeleted pl = pl_Funcs pl \<lparr>CreateFunc = Some (\<lambda>_. False), UpdateFunc = Some (\<lambda>_ _. False),
     DeleteFunc = Some (\<lambda>_ _. True), GenericFunc = Some (\<lambda>_. False)\<rparr>"

section \<open>Reconciliation\<close>

text \<open>The ConfigMap before its owner reference; a Secret without labels leads to a nil map.\<close>

definition checksum_config_map :: "(string \<Rightarrow> string) \<Rightarrow> secret \<Rightarrow> config_map option" where
  "checksum_config_map sha256 secret =
     (case om_Labels (sec_Meta secret) of
        None \<Rightarrow> None
      | Some labels \<Rightarrow> Some
          \<lparr>cm_Meta = empty_meta\<lparr>om_Name := ''checksums-'' @ om_Name (sec_Meta secret),
             om_Namespace := om_Namespace (sec_Meta secret),
             om_Labels := Some (labels(''secret'' \<mapsto> om_Name (sec_Meta secret)))\<rparr>,
           cm_Data = map (\<lambda>(key, data). (key, hex_EncodeToString (sha256 data))) (sec_Data secret)\<rparr>)"

definition checksum_Reconcile ::
  "k8s_lib \<Rightarrow> (string \<Rightarrow> string) \<Rightarrow> 'w secret_client \<Rightarrow> nsname \<Rightarrow> 'w \<Rightarrow> ((go_error + rec_result) \<times> 'w) option"
where
  "checksum_Reconcile lib sha256 c req w =
     (case sc_GetSecret c w req of
        Inl err \<Rightarrow>
          if IsNotFound err then Some (Inr no_requeue, w)
          else Some (Inl (wrapf ''error retrieving object from store'' err), w)
      | Inr secret \<Rightarrow>
          (case checksum_config_map sha256 secret of
             None \<Rightarrow> None
           | Some configMap \<Rightarrow>
               (case lib_SetControllerReference lib (sec_Meta secret) (cm_Meta configMap) of
                  Inl err \<Rightarrow> Some (Inl err, w)
                | Inr m \<Rightarrow>
                    (case sc_CreateConfigMap c w (configMap\<lparr>cm_Meta := m\<rparr>) of
                       (None, w') \<Rightarrow> Some (Inr no_requeue, w')
                     | (Some err, w') \<Rightarrow>
                         if IsAlreadyExists err then Some (Inr no_requeue, w') else Some (Inl err, w')))))"

section \<open>Setup\<close>

record checksum_options =
  ck_controllerRingName :: string
  ck_namespace :: string
  ck_leaseNamespace :: string
  ck_shardName :: string

definition checksum_newOptions :: checksum_options where
  "checksum_newOptions = \<lparr>ck_controllerRingName = ''checksum-controller'', ck_namespace = ''default'',
     ck_leaseNamespace = [], ck_shardName = []\<rparr>"

definition checksum_validate :: "checksum_options \<Rightarrow> go_error option" where
  "checksum_validate o' =
     (if ck_controllerRingName o' = [] then Some (errorf ''--controllerring must not be empty'') else None)"

text \<open>What \<^verbatim>\<open>run\<close> hands to the manager and to the controller, up to starting the manager.\<close>

record checksum_setup =
  cks_lock :: lease_lock
  cks_LeaderElection :: bool
  cks_ReleaseOnCancel :: bool
  cks_MetricsBindAddress :: string
  cks_HealthProbeBindAddress :: string
  cks_GracefulShutdownTimeout :: duration
  cks_cacheNamespaces :: "string list"
  cks_cacheSelector :: selector
  cks_ringName :: string
  cks_shardName :: string

definition checksum_run_setup :: "go_error option \<Rightarrow> os_env \<Rightarrow> checksum_options \<Rightarrow> go_error + checksum_setup" where
  "checksum_run_setup restConfigErr env o' =
     (case restConfigErr of
        Some err \<Rightarrow> Inl (wrapf ''failed getting rest config'' err)
      | None \<Rightarrow>
          (case NewResourceLock env \<lparr>lo_ControllerRingName = ck_controllerRingName o', lo_LeaseNamespace = ck_leaseNamespace o',
               lo_ShardName = ck_shardName o'\<rparr> of
             Inl err \<Rightarrow> Inl (wrapf ''failed creating shard lease'' err)
           | Inr shardLease \<Rightarrow> Inr
               \<lparr>cks_lock = shardLease, cks_LeaderElection = True, cks_ReleaseOnCancel = True,
                cks_MetricsBindAddress = ''0'', cks_HealthProbeBindAddress = ''0'', cks_GracefulShutdownTimeout = 5 * Second,
                cks_cacheNamespaces = [ck_namespace o'],
                cks_cacheSelector = SelectorFromSet [(LabelShard (ck_controllerRingName o'), lock_Identity shardLease)],
                cks_ringName = ck_controllerRingName o', cks_shardName = lock_Identity shardLease\<rparr>))"

text \<open>The reconciler that \<^verbatim>\<open>AddToManager\<close> completes the controller with; \<^verbatim>\<open>MustBuild\<close> panics on an error.\<close>

definition checksum_sharded_reconciler ::
  "'w object_client \<Rightarrow> 'w reconciler \<Rightarrow> string \<Rightarrow> string \<Rightarrow> 'w shard_reconciler option"
where
  "checksum_sharded_reconciler c r controllerRingName shardName =
     MustBuild (Some r) (WithShardName shardName (InControllerRing controllerRingName (For (Some ''Secret'') (NewShardedReconciler (Some c)))))"

section \<open>Properties\<close>

text \<open>The example controller only creates checksums for its own Secrets: if its sharded
  reconciler delegates a request, the Secret has labels, so the reconciliation does not write to a
  nil map; the ConfigMap it creates lies in the Secret's namespace, is assigned to the same shard,
  and has for every key of the Secret the hexadecimal digest of its value, from which the digest
  can be read back.\<close>

theorem checksum_of_assigned_secret:
  assumes "checksum_sharded_reconciler oc r ring sh = Some sr" and "oc_Get oc w ''Secret'' req = Inr obj"
    and "sc_GetSecret c w req = Inr secret" and "po_Meta obj = sec_Meta secret"
    and "assigned_to ring sh obj" and "LabelShard ring \<noteq> ''secret''"
  shows "\<exists>cm. checksum_config_map sha256 secret = Some cm \<and> checksum_Reconcile lib sha256 c req w \<noteq> None \<and>
    om_Namespace (cm_Meta cm) = om_Namespace (sec_Meta secret) \<and>
    as_map (om_Labels (cm_Meta cm)) (LabelShard ring) = Some sh \<and>
    map fst (cm_Data cm) = map fst (sec_Data secret) \<and>
    (\<forall>k v. map_of (sec_Data secret) k = Some v \<longrightarrow>
      (\<exists>h. map_of (cm_Data cm) k = Some h \<and> (\<forall>d. hex_EncodeToString d = h \<longrightarrow> d = sha256 v)))"
proof -
  obtain m where m: "om_Labels (sec_Meta secret) = Some m" "m (LabelShard ring) = Some sh"
    using assms(4,5) by (cases "om_Labels (sec_Meta secret)") (auto simp: assigned_to_def)
  then obtain cm where cm: "checksum_config_map sha256 secret = Some cm" by (simp add: checksum_config_map_def)
  have "map_of (map (\<lambda>(key, data). (key, hex_EncodeToString (sha256 data))) xs) k =
      map_option (\<lambda>v. hex_EncodeToString (sha256 v)) (map_of xs k)" for xs k
    by (induction xs) auto
  then have "map_of (cm_Data cm) k = map_option (\<lambda>v. hex_EncodeToString (sha256 v)) (map_of (sec_Data secret) k)" for k
    using cm m(1) by (auto simp: checksum_config_map_def)
  moreover have "map fst (cm_Data cm) = map fst (sec_Data secret)" "om_Namespace (cm_Meta cm) = om_Namespace (sec_Meta secret)"
      "as_map (om_Labels (cm_Meta cm)) (LabelShard ring) = Some sh"
    using cm m assms(6) by (auto simp: checksum_config_map_def)
  moreover have "checksum_Reconcile lib sha256 c req w \<noteq> None"
    using assms(3) cm by (simp add: checksum_Reconcile_def split: sum.splits prod.splits option.splits)
  ultimately show ?thesis using cm by (auto dest: hex_inj)
qed

lemma LabelShard_neq_secret: "LabelShard ring \<noteq> ''secret''"
  by (simp add: LabelShard_def LabelShardPrefix_def)

lemma checksum_of_assigned_secret_witness:
  "\<exists>cm. checksum_config_map (\<lambda>s. s) \<lparr>sec_Meta = empty_meta\<lparr>om_Labels := Some [LabelShard ''ring'' \<mapsto> ''s1'']\<rparr>, sec_Data = [(''a'', ''x'')]\<rparr> =
     Some cm \<and> as_map (om_Labels (cm_Meta cm)) (LabelShard ''ring'') = Some ''s1''"
proof -
  let ?m = "empty_meta\<lparr>om_Labels := Some [LabelShard ''ring'' \<mapsto> ''s1'']\<rparr>"
  let ?obj = "\<lparr>po_GVK = \<lparr>gvk_Group = [], gvk_Version = ''v1'', gvk_Kind = ''Secret''\<rparr>, po_Meta = ?m\<rparr>"
  let ?oc = "\<lparr>oc_Get = \<lambda>w k n. Inr ?obj, oc_Patch = \<lambda>w a b. (None, w)\<rparr> :: unit object_client"
  let ?sc = "\<lparr>sc_GetSecret = \<lambda>w n. Inr \<lparr>sec_Meta = ?m, sec_Data = [(''a'', ''x'')]\<rparr>, sc_CreateConfigMap = \<lambda>w m. (None, w)\<rparr> :: unit secret_client"
  obtain sr where sr: "checksum_sharded_reconciler ?oc (\<lambda>_ w. (Inr no_requeue, w)) ''ring'' ''s1'' = Some sr"
    by (simp add: checksum_sharded_reconciler_def MustBuild_def Build_def WithShardName_def InControllerRing_def For_def
        NewShardedReconciler_def WithClient_def)
  have "\<exists>cm. checksum_config_map (\<lambda>s. s) \<lparr>sec_Meta = ?m, sec_Data = [(''a'', ''x'')]\<rparr> = Some cm \<and>
      checksum_Reconcile std_lib (\<lambda>s. s) ?sc ([], []) () \<noteq> None \<and>
      om_Namespace (cm_Meta cm) = om_Namespace (sec_Meta \<lparr>sec_Meta = ?m, sec_Data = [(''a'', ''x'')]\<rparr>) \<and>
      as_map (om_Labels (cm_Meta cm)) (LabelShard ''ring'') = Some ''s1'' \<and>
      map fst (cm_Data cm) = map fst (sec_Data \<lparr>sec_Meta = ?m, sec_Data = [(''a'', ''x'')]\<rparr>) \<and>
      (\<forall>k v. map_of (sec_Data \<lparr>sec_Meta = ?m, sec_Data = [(''a'', ''x'')]\<rparr>) k = Some v \<longrightarrow>
        (\<exists>h. map_of (cm_Data cm) k = Some h \<and> (\<forall>d. hex_EncodeToString d = h \<longrightarrow> d = v)))"
    by (rule checksum_of_assigned_secret [OF sr, where obj = ?obj])
      (simp_all add: assigned_to_def LabelShard_neq_secret)
  then show ?thesis by blast
qed

text \<open>The update filter for Secrets is inverted: an update triggers a reconciliation exactly if the
  data did not change.\<close>

theorem secret_filter_is_inverted:
  assumes "predicates_doc pl"
  shows "SecretDataChanged pl (UpdateEvent (OSecret m d) (OSecret m' d')) \<longleftrightarrow> map_of d = map_of d'"
  using assms by (simp add: SecretDataChanged_def predicates_docD no_funcs_def)

text \<open>The shard name of the controller, the holder of its lease and the selector of its cache agree.\<close>

lemma checksum_setup_consistent:
  assumes "checksum_run_setup e env opts = Inr st"
  shows "cks_cacheSelector st = SelectorFromSet [(LabelShard (cks_ringName st), cks_shardName st)] \<and>
    om_Name (ll_LeaseMeta (cks_lock st)) = cks_shardName st \<and> ll_Labels (cks_lock st) = [(LabelControllerRing, cks_ringName st)]"
  using assms NewResourceLock_fields
  by (fastforce simp: checksum_run_setup_def lock_Identity_def split: option.splits sum.splits)

end
