(* ===== verification/Website.thy ===== *)
theory Website
  imports Shard_Controller Predicates Sharding_Key
begin

text \<open>
  The website controller of \<^verbatim>\<open>webhosting-operator/pkg/controllers/webhosting\<close>: reconciliation of a
  website into a ConfigMap, a Service, an Ingress and a Deployment, its status, its event filters and
  its setup as a sharded controller; the nginx template. The code outside the repository is
  \<open>site_lib\<close> (digest, JSON encoding, the HTML template engine, \<^verbatim>\<open>SetControllerReference\<close>) and
  \<open>website_client\<close> (the API server, with \<^verbatim>\<open>CreateOrPatch\<close> per kind of object). A panic in a mutate
  function is the error a recovering controller reports. Recorded events are a list.
\<close>

section \<open>Configuration of ingresses\<close>

text \<open>The annotations are an association list in iteration order.\<close>

record ingress_configuration =
  ic_Annotations :: "(string \<times> string) list"
  ic_Hosts :: "string list"
  ic_TLS :: "ingress_tls list"

section \<open>Code outside the repository\<close>

record site_lib =
  sl_sha256 :: "string \<Rightarrow> string"
  sl_Marshal :: "(string \<times> string) list \<Rightarrow> go_error + string"
  sl_ExecuteIndex :: "string \<Rightarrow> website \<Rightarrow> theme \<Rightarrow> string \<times> go_error option"
  sl_SetControllerReference :: "object_meta \<Rightarrow> object_meta \<Rightarrow> go_error + object_meta"

type_synonym ('w, 'o) create_or_patch = "'w \<Rightarrow> 'o \<Rightarrow> ('o \<Rightarrow> go_error + 'o) \<Rightarrow> (go_error option \<times> 'o) \<times> 'w"

record 'w website_client =
  wcl_GetTheme :: "'w \<Rightarrow> string \<Rightarrow> go_error + theme"
  wcl_ConfigMap :: "('w, config_map) create_or_patch"
  wcl_Service :: "('w, service) create_or_patch"
  wcl_Ingress :: "('w, ingress) create_or_patch"
  wcl_Deployment :: "('w, deployment) create_or_patch"
  wcl_UpdateStatus :: "'w \<Rightarrow> website \<Rightarrow> go_error option \<times> 'w"
  wcl_ListByTheme :: "'w \<Rightarrow> string \<Rightarrow> go_error + website list"

record 'w site_world =
  sw_api :: 'w
  sw_events :: "(string \<times> string) list"

section \<open>Templates\<close>

definition newline :: string where
  "newline = [CHR 0x0A]"

definition nginx_lines :: "string \<Rightarrow> string \<Rightarrow> string list" where
  "nginx_lines namespace name =
     [''server {'',
      ''    listen       80;'',
      ''    listen  [::]:80;'',
      ''    server_name  localhost;'',
      [],
      ''    # rewrite /namespace/name to / for requests proxied from Ingress controller'',
      ''    # this way, we don't need any Ingress controller specific configuration or objects'',
      ''    rewrite ^/'' @ namespace @ ''/'' @ name @ ''(.*)$ /$1 last;'',
      ''    location / {'',
      ''        root   /usr/share/nginx/html;'',
      ''        index  index.html;'',
      ''    }'',
      ''}'', []]"

text \<open>A text template whose fields exist, written to a string builder, does not fail.\<close>

definition RenderNginxConf :: "string \<Rightarrow> website \<Rightarrow> go_error + string" where
  "RenderNginxConf serverName website =
     Inr (join_with newline (nginx_lines (om_Namespace (web_Meta website)) (om_Name (web_Meta website))))"

definition ExecuteIndexHTMLTemplate :: "site_lib \<Rightarrow> string \<Rightarrow> website \<Rightarrow> theme \<Rightarrow> string \<times> go_error option" where
  "ExecuteIndexHTMLTemplate sl serverName website theme =
     (case sl_ExecuteIndex sl serverName website theme of
        (out, Some err) \<Rightarrow> (out, Some (wrapf ''error rendering template'' err))
      | (out, None) \<Rightarrow> (out, None))"

definition RenderIndexHTML :: "site_lib \<Rightarrow> string \<Rightarrow> website \<Rightarrow> theme \<Rightarrow> string \<times> go_error option" where
  "RenderIndexHTML sl serverName website theme =
     (let (out, err) = ExecuteIndexHTMLTemplate sl serverName website theme in (out, err))"

section \<open>Helpers\<close>

definition getLabelsForServer :: "string \<Rightarrow> string \<Rightarrow> str_map" where
  "getLabelsForServer serverName name =
     [''app'' \<mapsto> ''website'', ''website'' \<mapsto> name, ''server'' \<mapsto> serverName, ''managed-by'' \<mapsto> WebhostingOperatorName]"

fun mergeMaps_loop :: "str_map \<Rightarrow> go_map list \<Rightarrow> str_map" where
  "mergeMaps_loop out [] = out"
| "mergeMaps_loop out (m # mm) = mergeMaps_loop (out ++ as_map m) mm"

definition mergeMaps :: "go_map list \<Rightarrow> go_map" where
  "mergeMaps mm = Some (mergeMaps_loop Map.empty mm)"

definition calculateServerName :: "site_lib \<Rightarrow> website \<Rightarrow> string" where
  "calculateServerName sl website =
     om_Name (web_Meta website) @ ''-'' @ take 6 (hex_EncodeToString (sl_sha256 sl (om_UID (web_Meta website))))"

definition calculateConfigMapChecksum :: "site_lib \<Rightarrow> config_map \<Rightarrow> go_error + string" where
  "calculateConfigMapChecksum sl configMap =
     (case sl_Marshal sl (cm_Data configMap) of
        Inl err \<Rightarrow> Inl err
      | Inr dataBytes \<Rightarrow> Inr (hex_EncodeToString (sl_sha256 sl dataBytes)))"

definition skipWorkload :: "website \<Rightarrow> bool" where
  "skipWorkload website = map_has (om_Labels (web_Meta website)) LabelKeySkipWorkload"

definition reasonReconcilerError :: string where "reasonReconcilerError = ''ReconcilerError''"
definition keyIndexHTML :: string where "keyIndexHTML = ''index.html''"
definition keyNginxConf :: string where "keyNginxConf = ''nginx.conf''"
definition portNameHTTP :: string where "portNameHTTP = ''http''"

definition recordError :: "string \<Rightarrow> string \<Rightarrow> 'w site_world \<Rightarrow> go_error \<times> 'w site_world" where
  "recordError reason message w = (errorf message, w\<lparr>sw_events := sw_events w @ [(reason, message)]\<rparr>)"

text \<open>The metadata of a new object, and the labels and owner of every object of a website.\<close>

definition child_meta :: "string \<Rightarrow> website \<Rightarrow> object_meta" where
  "child_meta serverName website = empty_meta\<lparr>om_Name := serverName, om_Namespace := om_Namespace (web_Meta website)\<rparr>"

definition child_labels :: "string \<Rightarrow> website \<Rightarrow> go_map" where
  "child_labels serverName website =
     mergeMaps [om_Labels (web_Meta website), Some (getLabelsForServer serverName (om_Name (web_Meta website)))]"

section \<open>The ConfigMap\<close>

definition mutate_configMap :: "site_lib \<Rightarrow> string \<Rightarrow> website \<Rightarrow> string \<Rightarrow> string \<Rightarrow> config_map \<Rightarrow> go_error + config_map" where
  "mutate_configMap sl serverName website indexHTML nginxConf configMap =
     (let configMap = configMap\<lparr>cm_Meta := (cm_Meta configMap)\<lparr>om_Labels := child_labels serverName website\<rparr>,
            cm_Data := [(keyIndexHTML, indexHTML), (keyNginxConf, nginxConf)]\<rparr> in
      case sl_SetControllerReference sl (web_Meta website) (cm_Meta configMap) of
        Inl err \<Rightarrow> Inl err
      | Inr m \<Rightarrow> Inr (configMap\<lparr>cm_Meta := m\<rparr>))"

definition reconcileConfigMap ::
  "site_lib \<Rightarrow> 'w website_client \<Rightarrow> string \<Rightarrow> website \<Rightarrow> theme \<Rightarrow> 'w \<Rightarrow> (go_error + config_map) \<times> 'w"
where
  "reconcileConfigMap sl c serverName website theme w =
     (case RenderIndexHTML sl serverName website theme of
        (_, Some err) \<Rightarrow> (Inl err, w)
      | (indexHTML, None) \<Rightarrow>
          (case RenderNginxConf serverName website of
             Inl err \<Rightarrow> (Inl err, w)
           | Inr nginxConf \<Rightarrow>
               (case wcl_ConfigMap c w \<lparr>cm_Meta = child_meta serverName website, cm_Data = []\<rparr>
                    (mutate_configMap sl serverName website indexHTML nginxConf) of
                  ((Some err, _), w') \<Rightarrow> (Inl err, w')
                | ((None, configMap), w') \<Rightarrow> (Inr configMap, w'))))"

section \<open>The Service\<close>

definition mutate_service :: "site_lib \<Rightarrow> string \<Rightarrow> website \<Rightarrow> service \<Rightarrow> go_error + service" where
  "mutate_service sl serverName website service =
     (let service = service\<lparr>svc_Meta := (svc_Meta service)\<lparr>om_Labels := child_labels serverName website\<rparr>,
            svc_Type := ''ClusterIP'',
            svc_Selector := Some (getLabelsForServer serverName (om_Name (web_Meta website))),
            svc_Ports := [\<lparr>sp_Name = portNameHTTP, sp_Port = 8080, sp_TargetPort = portNameHTTP, sp_Protocol = ''TCP''\<rparr>]\<rparr> in
      case sl_SetControllerReference sl (web_Meta website) (svc_Meta service) of
        Inl err \<Rightarrow> Inl err
      | Inr m \<Rightarrow> Inr (service\<lparr>svc_Meta := m\<rparr>))"

definition reconcileService ::
  "site_lib \<Rightarrow> 'w website_client \<Rightarrow> string \<Rightarrow> website \<Rightarrow> 'w \<Rightarrow> go_error option \<times> 'w"
where
  "reconcileService sl c serverName website w =
     (let ((err, _), w') = wcl_Service c w
        \<lparr>svc_Meta = child_meta serverName website, svc_Type = [], svc_Selector = None, svc_Ports = [], svc_ClusterIP = []\<rparr>
        (mutate_service sl serverName website)
      in (err, w'))"

section \<open>The Ingress\<close>

definition SetMetaDataAnnotation :: "string \<times> string \<Rightarrow> go_map \<Rightarrow> go_map" where
  "SetMetaDataAnnotation kv m = Some ((as_map m)(fst kv \<mapsto> snd kv))"

definition applyIngressConfigToIngress :: "ingress_configuration option \<Rightarrow> ingress \<Rightarrow> go_error + ingress" where
  "applyIngressConfigToIngress config ingress =
     (let config = (case config of None \<Rightarrow> \<lparr>ic_Annotations = [], ic_Hosts = [], ic_TLS = []\<rparr> | Some config \<Rightarrow> config);
          ingress = ingress\<lparr>ing_Meta := (ing_Meta ingress)\<lparr>om_Annotations :=
            fold SetMetaDataAnnotation (ic_Annotations config) None\<rparr>\<rparr> in
      case (if ic_Hosts config \<noteq> [] then
              (case ing_Rules ingress of
                 [] \<Rightarrow> Inl (errorf ''runtime error: index out of range [0] with length 0'')
               | rule # _ \<Rightarrow> Inr (ingress\<lparr>ing_Rules := map (\<lambda>host. \<lparr>ir_Host = host, ir_Paths = ir_Paths rule\<rparr>) (ic_Hosts config)\<rparr>))
            else Inr ingress) of
        Inl err \<Rightarrow> Inl err
      | Inr ingress \<Rightarrow> Inr (ingress\<lparr>ing_TLS := ic_TLS config\<rparr>))"

definition mutate_ingress ::
  "site_lib \<Rightarrow> ingress_configuration option \<Rightarrow> string \<Rightarrow> website \<Rightarrow> ingress \<Rightarrow> go_error + ingress"
where
  "mutate_ingress sl config serverName website ingress =
     (let ingress = ingress\<lparr>ing_Meta := (ing_Meta ingress)\<lparr>om_Labels := child_labels serverName website\<rparr>\<rparr>;
          path = \<lparr>ip_Path = ''/'' @ om_Namespace (web_Meta website) @ ''/'' @ om_Name (web_Meta website), ip_PathType = ''Prefix'',
            ip_ServiceName = serverName, ip_PortName = portNameHTTP\<rparr>;
          ingress = ingress\<lparr>ing_Rules := [\<lparr>ir_Host = [], ir_Paths = [path]\<rparr>]\<rparr> in
      case applyIngressConfigToIngress config ingress of
        Inl err \<Rightarrow> Inl err
      | Inr ingress \<Rightarrow>
          (let ingress =
             (if skipWorkload website then ingress\<lparr>ing_ClassName := Some ''fake''\<rparr>
              else if ing_ClassName ingress = Some ''fake'' then ingress\<lparr>ing_ClassName := None\<rparr>
              else ingress) in
           case sl_SetControllerReference sl (web_Meta website) (ing_Meta ingress) of
             Inl err \<Rightarrow> Inl err
           | Inr m \<Rightarrow> Inr (ingress\<lparr>ing_Meta := m\<rparr>)))"

definition reconcileIngress ::
  "site_lib \<Rightarrow> 'w website_client \<Rightarrow> ingress_configuration option \<Rightarrow> string \<Rightarrow> website \<Rightarrow> 'w \<Rightarrow> go_error option \<times> 'w"
where
  "reconcileIngress sl c config serverName website w =
     (let ((err, _), w') = wcl_Ingress c w
        \<lparr>ing_Meta = child_meta serverName website, ing_ClassName = None, ing_Rules = [], ing_TLS = []\<rparr>
        (mutate_ingress sl config serverName website)
      in (err, w'))"

section \<open>The Deployment\<close>

definition zero_container :: container where
  "zero_container = \<lparr>ctr_Name = [], ctr_Image = [], ctr_ImagePullPolicy = [], ctr_Ports = [], ctr_VolumeMounts = [], ctr_Rest = []\<rparr>"

definition zero_deployment :: "object_meta \<Rightarrow> deployment" where
  "zero_deployment m = \<lparr>dep_Meta = m, dep_Replicas = None, dep_Selector = None, dep_RevisionHistoryLimit = None,
     dep_TemplateLabels = None, dep_TemplateAnnotations = None, dep_Containers = [], dep_Volumes = [],
     dep_ObservedGeneration = 0, dep_Conditions = []\<rparr>"

definition nginx_container :: "container \<Rightarrow> container" where
  "nginx_container container = container\<lparr>ctr_Name := ''nginx'', ctr_Image := ''nginx:1.29-alpine'',
     ctr_ImagePullPolicy := ''IfNotPresent'',
     ctr_Ports := [\<lparr>ctp_Name = portNameHTTP, ctp_ContainerPort = 80, ctp_Protocol = ''TCP''\<rparr>],
     ctr_VolumeMounts :=
       [\<lparr>vm_Name = ''website-data'', vm_ReadOnly = True, vm_MountPath = ''/usr/share/nginx/html''\<rparr>,
        \<lparr>vm_Name = ''website-config'', vm_ReadOnly = True, vm_MountPath = ''/etc/nginx/conf.d''\<rparr>]\<rparr>"

definition mutate_deployment ::
  "site_lib \<Rightarrow> string \<Rightarrow> website \<Rightarrow> config_map \<Rightarrow> string \<Rightarrow> deployment \<Rightarrow> go_error + deployment"
where
  "mutate_deployment sl serverName website configMap configMapChecksum deployment =
     (let labels = getLabelsForServer serverName (om_Name (web_Meta website));
          containers = (if length (dep_Containers deployment) \<noteq> 1 then [zero_container] else dep_Containers deployment);
          deployment = deployment\<lparr>
            dep_Meta := (dep_Meta deployment)\<lparr>om_Labels := child_labels serverName website\<rparr>,
            dep_Selector := Some \<lparr>ls_MatchLabels = [(''app'', ''website''), (''website'', om_Name (web_Meta website)),
              (''server'', serverName), (''managed-by'', WebhostingOperatorName)], ls_MatchExpressions = []\<rparr>,
            dep_RevisionHistoryLimit := Some 2,
            dep_TemplateLabels := Some labels,
            dep_TemplateAnnotations := Some [''checksum/configmap'' \<mapsto> configMapChecksum],
            dep_Containers := map nginx_container containers,
            dep_Volumes :=
              [\<lparr>vol_Name = ''website-data'', vol_ConfigMapName = om_Name (cm_Meta configMap),
                vol_Items = [(keyIndexHTML, ''index.html'')], vol_DefaultMode = Some 420\<rparr>,
               \<lparr>vol_Name = ''website-config'', vol_ConfigMapName = om_Name (cm_Meta configMap),
                vol_Items = [(keyNginxConf, ''nginx.conf'')], vol_DefaultMode = Some 420\<rparr>],
            dep_Replicas := Some (if skipWorkload website then 0 else 1)\<rparr> in
      case sl_SetControllerReference sl (web_Meta website) (dep_Meta deployment) of
        Inl err \<Rightarrow> Inl err
      | Inr m \<Rightarrow> Inr (deployment\<lparr>dep_Meta := m\<rparr>))"

definition reconcileDeployment ::
  "site_lib \<Rightarrow> 'w website_client \<Rightarrow> string \<Rightarrow> website \<Rightarrow> config_map \<Rightarrow> 'w \<Rightarrow> (go_error + deployment) \<times> 'w"
where
  "reconcileDeployment sl c serverName website configMap w =
     (case calculateConfigMapChecksum sl configMap of
        Inl err \<Rightarrow> (Inl (wrapf ''error calculating checksum of ConfigMap'' err), w)
      | Inr configMapChecksum \<Rightarrow>
          (case wcl_Deployment c w (zero_deployment (child_meta serverName website))
               (mutate_deployment sl serverName website configMap configMapChecksum) of
             ((Some err, _), w') \<Rightarrow> (Inl err, w')
           | ((None, deployment), w') \<Rightarrow> (Inr deployment, w')))"

section \<open>Reconciliation\<close>

definition set_phase :: "string \<Rightarrow> website \<Rightarrow> website" where
  "set_phase phase website = website\<lparr>web_Status := (web_Status website)\<lparr>wst_Phase := phase\<rparr>\<rparr>"

definition newPhase :: "deployment \<Rightarrow> string" where
  "newPhase deployment = (if IsDeploymentReady deployment then PhaseReady else PhasePending)"

definition fail_with ::
  "string \<Rightarrow> string \<Rightarrow> website \<Rightarrow> 'w site_world \<Rightarrow> go_error option \<times> website \<times> 'w site_world"
where
  "fail_with reason message website w = (let (err, w') = recordError reason message w in (Some err, website, w'))"

definition reconcileWebsite ::
  "site_lib \<Rightarrow> 'w website_client \<Rightarrow> ingress_configuration option \<Rightarrow> website \<Rightarrow> 'w site_world \<Rightarrow>
     go_error option \<times> website \<times> 'w site_world"
where
  "reconcileWebsite sl c config website w =
     (if om_DeletionTimestamp (web_Meta website) \<noteq> None then (None, set_phase PhaseTerminating website, w)
      else if wsp_Theme (web_Spec website) = [] then
        (let (err, w') = recordError ''ThemeUnspecified'' ''Website doesn't specify a Theme'' w in (None, website, w'))
      else
        (case wcl_GetTheme c (sw_api w) (wsp_Theme (web_Spec website)) of
           Inl err \<Rightarrow>
             if IsNotFound err
             then fail_with ''ThemeNotFound'' (''Theme '' @ wsp_Theme (web_Spec website) @ '' not found'') website w
             else fail_with reasonReconcilerError
               (''Error getting Theme '' @ wsp_Theme (web_Spec website) @ '': '' @ err_msg err) website w
         | Inr theme \<Rightarrow>
             (let serverName = calculateServerName sl website in
              case reconcileConfigMap sl c serverName website theme (sw_api w) of
                (Inl err, w1) \<Rightarrow>
                  fail_with reasonReconcilerError (''Error reconciling ConfigMap: '' @ err_msg err) website (w\<lparr>sw_api := w1\<rparr>)
              | (Inr configMap, w1) \<Rightarrow>
                  (case reconcileService sl c serverName website w1 of
                     (Some err, w2) \<Rightarrow>
                       fail_with reasonReconcilerError (''Error reconciling Service: '' @ err_msg err) website (w\<lparr>sw_api := w2\<rparr>)
                   | (None, w2) \<Rightarrow>
                       (case reconcileIngress sl c config serverName website w2 of
                          (Some err, w3) \<Rightarrow>
                            fail_with reasonReconcilerError (''Error reconciling Ingress: '' @ err_msg err) website (w\<lparr>sw_api := w3\<rparr>)
                        | (None, w3) \<Rightarrow>
                            (case reconcileDeployment sl c serverName website configMap w3 of
                               (Inl err, w4) \<Rightarrow>
                                 fail_with reasonReconcilerError (''Error reconciling Deployment: '' @ err_msg err) website (w\<lparr>sw_api := w4\<rparr>)
                             | (Inr deployment, w4) \<Rightarrow>
                                 (None, set_phase (newPhase deployment) website,
                                  w\<lparr>sw_api := w4\<rparr>)))))))"

text \<open>\<^verbatim>\<open>errors.Join\<close>: nil errors are left out, the messages are separated by a newline.\<close>

definition errors_Join :: "go_error option \<Rightarrow> go_error \<Rightarrow> go_error" where
  "errors_Join e1 e2 =
     (case e1 of
        None \<Rightarrow> e2
      | Some e1 \<Rightarrow> \<lparr>err_reason = (if err_reason e1 \<noteq> ReasonOther then err_reason e1 else err_reason e2),
          err_msg = err_msg e1 @ newline @ err_msg e2\<rparr>)"

definition website_Reconcile ::
  "site_lib \<Rightarrow> 'w website_client \<Rightarrow> ingress_configuration option \<Rightarrow> time \<Rightarrow> website \<Rightarrow> 'w site_world \<Rightarrow>
     (go_error + rec_result) \<times> website \<times> 'w site_world"
where
  "website_Reconcile sl c config now website w =
     (let before = website;
          website = website\<lparr>web_Status := (web_Status website)\<lparr>wst_ObservedGeneration := om_Generation (web_Meta website)\<rparr>\<rparr>;
          (reconcileErr, website, w) = reconcileWebsite sl c config website w;
          website = (if reconcileErr \<noteq> None then set_phase PhaseError website else website);
          result = (case reconcileErr of None \<Rightarrow> Inr no_requeue | Some err \<Rightarrow> Inl err) in
      if web_Status before \<noteq> web_Status website then
        (let website = website\<lparr>web_Status := (web_Status website)\<lparr>wst_LastTransitionTime := Some now\<rparr>\<rparr> in
         case wcl_UpdateStatus c (sw_api w) website of
           (Some err, w') \<Rightarrow>
             (Inl (errors_Join reconcileErr (wrapf ''failed updating Website status'' err)), website, w\<lparr>sw_api := w'\<rparr>)
         | (None, w') \<Rightarrow> (result, website, w\<lparr>sw_api := w'\<rparr>))
      else (result, website, w))"

section \<open>Event filters and mappings\<close>

definition WebsiteStatusChanged :: "pred_lib \<Rightarrow> predicate" where
  "WebsiteStatusChanged pl = pl_Funcs pl (no_funcs\<lparr>UpdateFunc := Some (\<lambda>old new.
     case (old, new) of
       (OWebsite oldWebsite, OWebsite newWebsite) \<Rightarrow> web_Status oldWebsite \<noteq> web_Status newWebsite
     | _ \<Rightarrow> False)\<rparr>)"

definition DeploymentAvailabilityChanged :: "pred_lib \<Rightarrow> predicate" where
  "DeploymentAvailabilityChanged pl = pl_Funcs pl (no_funcs\<lparr>UpdateFunc := Some (\<lambda>old new.
     case (old, new) of
       (ODeployment oldDeployment, ODeployment newDeployment) \<Rightarrow> IsDeploymentReady oldDeployment \<noteq> IsDeploymentReady newDeployment
     | _ \<Rightarrow> False)\<rparr>)"

definition ConfigMapDataChanged :: "pred_lib \<Rightarrow> predicate" where
  "ConfigMapDataChanged pl = pl_Funcs pl (no_funcs\<lparr>UpdateFunc := Some (\<lambda>old new.
     case (old, new) of
       (OConfigMap oldConfigMap, OConfigMap newConfigMap) \<Rightarrow> map_of (cm_Data oldConfigMap) \<noteq> map_of (cm_Data newConfigMap)
     | _ \<Rightarrow> False)\<rparr>)"

definition MapThemeToWebsites :: "'w website_client \<Rightarrow> 'w \<Rightarrow> object_meta \<Rightarrow> nsname list" where
  "MapThemeToWebsites c w theme =
     (case wcl_ListByTheme c w (om_Name theme) of
        Inl err \<Rightarrow> []
      | Inr items \<Rightarrow> map (\<lambda>website. (om_Namespace (web_Meta website), om_Name (web_Meta website))) items)"

section \<open>Setup\<close>

definition websiteThemeField :: "website \<Rightarrow> string list" where
  "websiteThemeField website = [wsp_Theme (web_Spec website)]"

definition website_workers :: "(string \<Rightarrow> string) \<Rightarrow> int" where
  "website_workers getenv =
     (case ParseInt 32 (getenv ''WEBSITE_CONCURRENT_SYNCS'') of Inl _ \<Rightarrow> 15 | Inr override \<Rightarrow> override)"

record 'w website_setup =
  wse_Workers :: int
  wse_WebsitePredicate :: predicate
  wse_DeploymentPredicate :: predicate
  wse_ConfigMapPredicate :: predicate
  wse_ServicePredicate :: predicate
  wse_IngressPredicate :: predicate
  wse_ThemePredicate :: predicate
  wse_Reconciler :: "'w reconciler"

text \<open>
  \<^verbatim>\<open>SetupWithManager\<close> up to the call of \<^verbatim>\<open>Build\<close>. The reconciler is the one that
  \<^verbatim>\<open>reconcile.AsReconciler\<close> makes of the controller; \<^verbatim>\<open>MustBuild\<close> may panic, the result \<open>None\<close>.
\<close>

definition SetupWithManager ::
  "pred_lib \<Rightarrow> 'w object_client \<Rightarrow> 'w reconciler \<Rightarrow> go_error option \<Rightarrow> (string \<Rightarrow> string) \<Rightarrow> bool \<Rightarrow> string \<Rightarrow> string \<Rightarrow>
     (go_error + 'w website_setup) option"
where
  "SetupWithManager pl c reconciler indexErr getenv enableSharding controllerRingName shardName =
     (case indexErr of
        Some err \<Rightarrow> Some (Inl err)
      | None \<Rightarrow>
          (let workers = website_workers getenv;
               websitePredicate = pl_Or pl [pl_GenerationChanged pl, pl_AnnotationChanged pl, WebsiteStatusChanged pl];
               setup = \<lparr>wse_Workers = workers, wse_WebsitePredicate = websitePredicate,
                 wse_DeploymentPredicate = pl_Or pl [pl_GenerationChanged pl, DeploymentAvailabilityChanged pl],
                 wse_ConfigMapPredicate = ConfigMapDataChanged pl, wse_ServicePredicate = pl_GenerationChanged pl,
                 wse_IngressPredicate = pl_GenerationChanged pl, wse_ThemePredicate = pl_GenerationChanged pl,
                 wse_Reconciler = reconciler\<rparr> in
           if enableSharding then
             (case MustBuild (Some reconciler)
                 (WithShardName shardName (InControllerRing controllerRingName
                   (For (Some ''Website'') (NewShardedReconciler (Some c))))) of
                None \<Rightarrow> None
              | Some r \<Rightarrow> Some (Inr (setup\<lparr>
                  wse_WebsitePredicate := shard_Predicate pl controllerRingName shardName [websitePredicate],
                  wse_Reconciler := shard_Reconcile r\<rparr>)))
           else Some (Inr setup)))"

section \<open>Contracts of the outside code\<close>

definition website_object :: "website \<Rightarrow> partial_object" where
  "website_object website = \<lparr>po_GVK = \<lparr>gvk_Group = ''webhosting.timebertt.dev'', gvk_Version = ''v1alpha1'', gvk_Kind = ''Website''\<rparr>,
     po_Meta = web_Meta website\<rparr>"

text \<open>\<^verbatim>\<open>SetControllerReference\<close> only changes the owner references, of which the website becomes the controller.\<close>

definition SetControllerReference_doc :: "site_lib \<Rightarrow> bool" where
  "SetControllerReference_doc sl \<longleftrightarrow> (\<forall>website m m'. sl_SetControllerReference sl (web_Meta website) m = Inr m' \<longrightarrow>
     (\<exists>refs ref. m' = m\<lparr>om_OwnerReferences := refs\<rparr> \<and> List.find (\<lambda>r. or_Controller r = Some True) refs = Some ref \<and>
        refers_to ref (website_object website)))"

text \<open>
  What the API server keeps of an object that is sent to it. It populates the other fields (the UID, the resource version, the
  generation, the cluster IP, defaults of the class and of the containers, the status), and admission may add labels and
  annotations, as the sharder's webhook does.
\<close>

definition meta_persisted :: "object_meta \<Rightarrow> object_meta \<Rightarrow> bool" where
  "meta_persisted a b \<longleftrightarrow> ObjectKeyFromObject b = ObjectKeyFromObject a \<and> as_map (om_Labels a) \<subseteq>\<^sub>m as_map (om_Labels b) \<and>
     as_map (om_Annotations a) \<subseteq>\<^sub>m as_map (om_Annotations b) \<and> om_OwnerReferences b = om_OwnerReferences a"

definition cm_persisted :: "config_map \<Rightarrow> config_map \<Rightarrow> bool" where
  "cm_persisted a b \<longleftrightarrow> meta_persisted (cm_Meta a) (cm_Meta b) \<and> cm_Data b = cm_Data a"

definition svc_persisted :: "service \<Rightarrow> service \<Rightarrow> bool" where
  "svc_persisted a b \<longleftrightarrow> meta_persisted (svc_Meta a) (svc_Meta b) \<and> svc_Type b = svc_Type a \<and> svc_Selector b = svc_Selector a \<and>
     svc_Ports b = svc_Ports a"

definition ing_persisted :: "ingress \<Rightarrow> ingress \<Rightarrow> bool" where
  "ing_persisted a b \<longleftrightarrow> meta_persisted (ing_Meta a) (ing_Meta b) \<and> ing_Rules b = ing_Rules a \<and> ing_TLS b = ing_TLS a \<and>
     (ing_ClassName a = None \<or> ing_ClassName b = ing_ClassName a)"

definition dep_persisted :: "deployment \<Rightarrow> deployment \<Rightarrow> bool" where
  "dep_persisted a b \<longleftrightarrow> meta_persisted (dep_Meta a) (dep_Meta b) \<and> dep_Replicas b = dep_Replicas a \<and> dep_Selector b = dep_Selector a \<and>
     dep_RevisionHistoryLimit b = dep_RevisionHistoryLimit a \<and> dep_TemplateLabels b = dep_TemplateLabels a \<and>
     dep_TemplateAnnotations b = dep_TemplateAnnotations a \<and> dep_Volumes b = dep_Volumes a \<and>
     list_all2 (\<lambda>x y. \<exists>r. y = x\<lparr>ctr_Rest := r\<rparr>) (dep_Containers a) (dep_Containers b)"

record site_objects =
  so_cm :: "nsname \<rightharpoonup> config_map"
  so_svc :: "nsname \<rightharpoonup> service"
  so_ing :: "nsname \<rightharpoonup> ingress"
  so_dep :: "nsname \<rightharpoonup> deployment"

text \<open>
  \<^verbatim>\<open>CreateOrPatch\<close>, for the objects \<open>view w\<close> that the API server stores and the objects \<open>cache w\<close> that the client
  reads: the mutate function is applied to the object that is read, or to the given one if there is none. If it does
  not change the object that was read, nothing is sent. Otherwise the object is created or patched, and returned as it is stored. If what was
  read is what is stored, the stored object has what the mutate function set; a patch computed from a stale object may leave other
  changes in place. Other kinds of objects are left alone.
\<close>

definition CreateOrPatch_doc ::
  "('w \<Rightarrow> site_objects) \<Rightarrow> ('w \<Rightarrow> site_objects) \<Rightarrow> (site_objects \<Rightarrow> nsname \<rightharpoonup> 'o) \<Rightarrow>
     ((nsname \<rightharpoonup> 'o) \<Rightarrow> site_objects \<Rightarrow> site_objects) \<Rightarrow> ('o \<Rightarrow> object_meta) \<Rightarrow> ('o \<Rightarrow> 'o \<Rightarrow> bool) \<Rightarrow> ('w, 'o) create_or_patch \<Rightarrow> bool"
where
  "CreateOrPatch_doc view cache get put meta persisted cop \<longleftrightarrow>
     (\<forall>w k ob. get (cache w) k = Some ob \<longrightarrow> ObjectKeyFromObject (meta ob) = k) \<and>
     (\<forall>w ob f ob' w'. cop w ob f = ((None, ob'), w') \<longrightarrow>
        (let k = ObjectKeyFromObject (meta ob); read = get (cache w) k in
         \<exists>sent. f (case read of None \<Rightarrow> ob | Some cur \<Rightarrow> cur) = Inr sent \<and>
           (if read = Some sent then ob' = sent \<and> view w' = view w
            else view w' = put ((get (view w))(k \<mapsto> ob')) (view w) \<and> (get (view w) k = read \<longrightarrow> persisted sent ob')) \<and>
           (\<exists>m. cache w' = put m (cache w))))"

definition website_client_doc :: "('w \<Rightarrow> site_objects) \<Rightarrow> ('w \<Rightarrow> site_objects) \<Rightarrow> 'w website_client \<Rightarrow> bool" where
  "website_client_doc view cache c \<longleftrightarrow>
     CreateOrPatch_doc view cache so_cm (\<lambda>m. so_cm_update (\<lambda>_. m)) cm_Meta cm_persisted (wcl_ConfigMap c) \<and>
     CreateOrPatch_doc view cache so_svc (\<lambda>m. so_svc_update (\<lambda>_. m)) svc_Meta svc_persisted (wcl_Service c) \<and>
     CreateOrPatch_doc view cache so_ing (\<lambda>m. so_ing_update (\<lambda>_. m)) ing_Meta ing_persisted (wcl_Ingress c) \<and>
     CreateOrPatch_doc view cache so_dep (\<lambda>m. so_dep_update (\<lambda>_. m)) dep_Meta dep_persisted (wcl_Deployment c)"

text \<open>The client's cache is up to date on the objects of a website.\<close>

definition up_to_date :: "('w \<Rightarrow> site_objects) \<Rightarrow> ('w \<Rightarrow> site_objects) \<Rightarrow> nsname \<Rightarrow> 'w \<Rightarrow> bool" where
  "up_to_date view cache k w \<longleftrightarrow> so_cm (cache w) k = so_cm (view w) k \<and> so_svc (cache w) k = so_svc (view w) k \<and>
     so_ing (cache w) k = so_ing (view w) k \<and> so_dep (cache w) k = so_dep (view w) k"

text \<open>A kind of object in the store.\<close>

locale object_kind =
  fixes get :: "site_objects \<Rightarrow> nsname \<rightharpoonup> 'o" and put :: "(nsname \<rightharpoonup> 'o) \<Rightarrow> site_objects \<Rightarrow> site_objects"
    and meta :: "'o \<Rightarrow> object_meta" and persisted :: "'o \<Rightarrow> 'o \<Rightarrow> bool"
  assumes put_get: "put (get v) v = v" and persisted_refl: "persisted a a"
begin

lemma CreateOrPatchD:
  assumes doc: "CreateOrPatch_doc view cache get put meta persisted cop" and cop: "cop w ob f = ((None, ob'), w')"
    and k: "ObjectKeyFromObject (meta ob) = k" and current: "get (cache w) k = get (view w) k"
  shows "\<exists>cur sent m. ObjectKeyFromObject (meta cur) = k \<and> f cur = Inr sent \<and> persisted sent ob' \<and>
    view w' = put ((get (view w))(k \<mapsto> ob')) (view w) \<and> cache w' = put m (cache w)"
proof -
  let ?cur = "case get (cache w) k of None \<Rightarrow> ob | Some cur \<Rightarrow> cur"
  have keys: "ObjectKeyFromObject (meta cur) = k" if "get (cache w) k = Some cur" for cur
    using doc that unfolding CreateOrPatch_doc_def by blast
  obtain sent m where sent: "f ?cur = Inr sent"
      "if get (cache w) k = Some sent then ob' = sent \<and> view w' = view w
       else view w' = put ((get (view w))(k \<mapsto> ob')) (view w) \<and> (get (view w) k = get (cache w) k \<longrightarrow> persisted sent ob')"
      "cache w' = put m (cache w)"
    using doc cop k unfolding CreateOrPatch_doc_def Let_def by blast
  have "persisted sent ob' \<and> view w' = put ((get (view w))(k \<mapsto> ob')) (view w)"
    using sent(2) current persisted_refl put_get [of "view w"] by (auto simp: fun_upd_idem split: if_splits)
  moreover have "ObjectKeyFromObject (meta ?cur) = k" using k keys by (simp split: option.split)
  ultimately show ?thesis using sent(1,3) by blast
qed

end

lemma meta_persisted_refl [simp]: "meta_persisted m m"
  by (simp add: meta_persisted_def)

interpretation cm: object_kind so_cm "\<lambda>m. so_cm_update (\<lambda>_. m)" cm_Meta cm_persisted
  by unfold_locales (simp_all add: cm_persisted_def)

interpretation svc: object_kind so_svc "\<lambda>m. so_svc_update (\<lambda>_. m)" svc_Meta svc_persisted
  by unfold_locales (simp_all add: svc_persisted_def)

interpretation ing: object_kind so_ing "\<lambda>m. so_ing_update (\<lambda>_. m)" ing_Meta ing_persisted
  by unfold_locales (simp_all add: ing_persisted_def)

lemma container_refl [simp]: "\<exists>r. c = c\<lparr>ctr_Rest := r\<rparr>" for c :: container
  by (rule exI [of _ "ctr_Rest c"]) simp

interpretation dep: object_kind so_dep "\<lambda>m. so_dep_update (\<lambda>_. m)" dep_Meta dep_persisted
  by unfold_locales (simp_all add: dep_persisted_def list_all2_same)

text \<open>\<^verbatim>\<open>Status().Update\<close> without an error stores the status of the given website.\<close>

definition UpdateStatus_doc :: "('w \<Rightarrow> nsname \<rightharpoonup> website) \<Rightarrow> 'w website_client \<Rightarrow> bool" where
  "UpdateStatus_doc websites c \<longleftrightarrow> (\<forall>w website w'. wcl_UpdateStatus c w website = (None, w') \<longrightarrow>
     (\<exists>st. websites w' (ObjectKeyFromObject (web_Meta website)) = Some st \<and>
        wst_Phase (web_Status st) = wst_Phase (web_Status website) \<and>
        wst_ObservedGeneration (web_Status st) = wst_ObservedGeneration (web_Status website)))"

section \<open>Lemmas\<close>

lemma child_labels_eq: "child_labels serverName website =
  Some (as_map (om_Labels (web_Meta website)) ++ getLabelsForServer serverName (om_Name (web_Meta website)))"
  by (simp add: child_labels_def mergeMaps_def)

text \<open>The metadata every object of a website has after its mutate function, and keeps in the store.\<close>

definition child_of :: "string \<Rightarrow> website \<Rightarrow> object_meta \<Rightarrow> bool" where
  "child_of serverName website m \<longleftrightarrow> ObjectKeyFromObject m = (om_Namespace (web_Meta website), serverName) \<and>
     as_map (child_labels serverName website) \<subseteq>\<^sub>m as_map (om_Labels m) \<and>
     (\<exists>ref. List.find (\<lambda>r. or_Controller r = Some True) (om_OwnerReferences m) = Some ref \<and>
        refers_to ref (website_object website))"

lemma SetControllerReference_child:
  assumes "SetControllerReference_doc sl" and "sl_SetControllerReference sl (web_Meta website) m = Inr m'"
    and "ObjectKeyFromObject m = (om_Namespace (web_Meta website), serverName)" and "om_Labels m = child_labels serverName website"
  shows "child_of serverName website m'"
proof -
  obtain refs ref where "m' = m\<lparr>om_OwnerReferences := refs\<rparr>" "List.find (\<lambda>r. or_Controller r = Some True) refs = Some ref"
      "refers_to ref (website_object website)"
    using assms(1,2) unfolding SetControllerReference_doc_def by blast
  with assms(3,4) show ?thesis by (simp add: child_of_def ObjectKeyFromObject_def)
qed

lemma persisted_child: "child_of serverName website a \<Longrightarrow> meta_persisted a b \<Longrightarrow> child_of serverName website b"
  using map_le_trans by (auto simp: child_of_def meta_persisted_def)

lemma mutate_configMap_child:
  assumes "SetControllerReference_doc sl" and "mutate_configMap sl serverName website html conf cm = Inr cm'"
    and "ObjectKeyFromObject (cm_Meta cm) = (om_Namespace (web_Meta website), serverName)"
  shows "child_of serverName website (cm_Meta cm')" "cm_Data cm' = [(keyIndexHTML, html), (keyNginxConf, conf)]"
proof -
  have "sl_SetControllerReference sl (web_Meta website) ((cm_Meta cm)\<lparr>om_Labels := child_labels serverName website\<rparr>) = Inr (cm_Meta cm')"
    using assms(2) by (auto simp: mutate_configMap_def Let_def split: sum.splits)
  from SetControllerReference_child [OF assms(1) this] assms(3) show "child_of serverName website (cm_Meta cm')"
    by (simp add: ObjectKeyFromObject_def)
  show "cm_Data cm' = [(keyIndexHTML, html), (keyNginxConf, conf)]"
    using assms(2) by (auto simp: mutate_configMap_def Let_def split: sum.splits)
qed

lemma mutate_service_child:
  assumes "SetControllerReference_doc sl" and "mutate_service sl serverName website svc = Inr svc'"
    and "ObjectKeyFromObject (svc_Meta svc) = (om_Namespace (web_Meta website), serverName)"
  shows "child_of serverName website (svc_Meta svc')"
    "svc_Selector svc' = Some (getLabelsForServer serverName (om_Name (web_Meta website)))"
    "svc_Ports svc' = [\<lparr>sp_Name = portNameHTTP, sp_Port = 8080, sp_TargetPort = portNameHTTP, sp_Protocol = ''TCP''\<rparr>]"
proof -
  have "sl_SetControllerReference sl (web_Meta website) ((svc_Meta svc)\<lparr>om_Labels := child_labels serverName website\<rparr>) = Inr (svc_Meta svc')"
    using assms(2) by (auto simp: mutate_service_def Let_def split: sum.splits)
  from SetControllerReference_child [OF assms(1) this] assms(3) show "child_of serverName website (svc_Meta svc')"
    by (simp add: ObjectKeyFromObject_def)
  show "svc_Selector svc' = Some (getLabelsForServer serverName (om_Name (web_Meta website)))"
    "svc_Ports svc' = [\<lparr>sp_Name = portNameHTTP, sp_Port = 8080, sp_TargetPort = portNameHTTP, sp_Protocol = ''TCP''\<rparr>]"
    using assms(2) by (auto simp: mutate_service_def Let_def split: sum.splits)
qed

lemma applyIngressConfig_eq: "ing_Rules ingress = rule # rules \<Longrightarrow> applyIngressConfigToIngress config ingress =
  (let config = (case config of None \<Rightarrow> \<lparr>ic_Annotations = [], ic_Hosts = [], ic_TLS = []\<rparr> | Some config \<Rightarrow> config) in
   Inr (ingress\<lparr>ing_Meta := (ing_Meta ingress)\<lparr>om_Annotations := fold SetMetaDataAnnotation (ic_Annotations config) None\<rparr>,
     ing_Rules := (if ic_Hosts config = [] then ing_Rules ingress
       else map (\<lambda>host. \<lparr>ir_Host = host, ir_Paths = ir_Paths rule\<rparr>) (ic_Hosts config)),
     ing_TLS := ic_TLS config\<rparr>))"
  by (simp add: applyIngressConfigToIngress_def Let_def)

definition site_path :: "string \<Rightarrow> website \<Rightarrow> ingress_path" where
  "site_path serverName website = \<lparr>ip_Path = ''/'' @ om_Namespace (web_Meta website) @ ''/'' @ om_Name (web_Meta website),
     ip_PathType = ''Prefix'', ip_ServiceName = serverName, ip_PortName = portNameHTTP\<rparr>"

definition ingress_hosts :: "ingress_configuration option \<Rightarrow> string list" where
  "ingress_hosts config = (case config of None \<Rightarrow> [[]] | Some c \<Rightarrow> if ic_Hosts c = [] then [[]] else ic_Hosts c)"

lemma mutate_ingress_child:
  assumes "SetControllerReference_doc sl" and "mutate_ingress sl config serverName website ing = Inr ing'"
    and "ObjectKeyFromObject (ing_Meta ing) = (om_Namespace (web_Meta website), serverName)"
  shows "child_of serverName website (ing_Meta ing')"
    "ing_Rules ing' = map (\<lambda>host. \<lparr>ir_Host = host, ir_Paths = [site_path serverName website]\<rparr>) (ingress_hosts config)"
    "ing_ClassName ing' = Some ''fake'' \<longleftrightarrow> skipWorkload website"
proof -
  note eqs = mutate_ingress_def applyIngressConfig_eq Let_def
  have "\<exists>a. sl_SetControllerReference sl (web_Meta website)
      ((ing_Meta ing)\<lparr>om_Labels := child_labels serverName website, om_Annotations := a\<rparr>) = Inr (ing_Meta ing')"
    using assms(2) by (auto simp: eqs split: sum.splits if_splits)
  then obtain a where "sl_SetControllerReference sl (web_Meta website)
      ((ing_Meta ing)\<lparr>om_Labels := child_labels serverName website, om_Annotations := a\<rparr>) = Inr (ing_Meta ing')" ..
  from SetControllerReference_child [OF assms(1) this] assms(3) show "child_of serverName website (ing_Meta ing')"
    by (simp add: ObjectKeyFromObject_def)
  show "ing_Rules ing' = map (\<lambda>host. \<lparr>ir_Host = host, ir_Paths = [site_path serverName website]\<rparr>) (ingress_hosts config)"
    using assms(2) by (cases config) (auto simp: eqs site_path_def ingress_hosts_def split: sum.splits)
  show "ing_ClassName ing' = Some ''fake'' \<longleftrightarrow> skipWorkload website"
    using assms(2) by (auto simp: eqs split: sum.splits if_splits)
qed

lemma mutate_deployment_child:
  assumes "SetControllerReference_doc sl" and "mutate_deployment sl serverName website cm h dep = Inr dep'"
    and "ObjectKeyFromObject (dep_Meta dep) = (om_Namespace (web_Meta website), serverName)"
  shows "child_of serverName website (dep_Meta dep')"
    "dep_TemplateLabels dep' = Some (getLabelsForServer serverName (om_Name (web_Meta website)))"
    "\<exists>sel. dep_Selector dep' = Some sel \<and> map_of (ls_MatchLabels sel) = getLabelsForServer serverName (om_Name (web_Meta website))"
    "dep_TemplateAnnotations dep' = Some [''checksum/configmap'' \<mapsto> h]"
    "\<exists>ctr. dep_Containers dep' = [nginx_container ctr]"
    "map vol_Name (dep_Volumes dep') = [''website-data'', ''website-config'']"
    "list_all (\<lambda>v. vol_ConfigMapName v = om_Name (cm_Meta cm) \<and> fst ` set (vol_Items v) \<subseteq> {keyIndexHTML, keyNginxConf}) (dep_Volumes dep')"
    "dep_Replicas dep' = Some (if skipWorkload website then 0 else 1)"
proof -
  have "\<exists>ctr. (if length (dep_Containers dep) \<noteq> 1 then [zero_container] else dep_Containers dep) = [ctr]"
    by (simp add: length_Suc_conv)
  then obtain ctr where ctr: "(if length (dep_Containers dep) \<noteq> 1 then [zero_container] else dep_Containers dep) = [ctr]" ..
  have "sl_SetControllerReference sl (web_Meta website) ((dep_Meta dep)\<lparr>om_Labels := child_labels serverName website\<rparr>) = Inr (dep_Meta dep')"
    using assms(2) by (auto simp: mutate_deployment_def Let_def split: sum.splits)
  from SetControllerReference_child [OF assms(1) this] assms(3) show "child_of serverName website (dep_Meta dep')"
    by (simp add: ObjectKeyFromObject_def)
  show "\<exists>ctr. dep_Containers dep' = [nginx_container ctr]"
    using assms(2) unfolding mutate_deployment_def ctr by (auto simp: Let_def split: sum.splits)
  show "dep_TemplateLabels dep' = Some (getLabelsForServer serverName (om_Name (web_Meta website)))"
    "\<exists>sel. dep_Selector dep' = Some sel \<and> map_of (ls_MatchLabels sel) = getLabelsForServer serverName (om_Name (web_Meta website))"
    "dep_TemplateAnnotations dep' = Some [''checksum/configmap'' \<mapsto> h]"
    "map vol_Name (dep_Volumes dep') = [''website-data'', ''website-config'']"
    "list_all (\<lambda>v. vol_ConfigMapName v = om_Name (cm_Meta cm) \<and> fst ` set (vol_Items v) \<subseteq> {keyIndexHTML, keyNginxConf}) (dep_Volumes dep')"
    "dep_Replicas dep' = Some (if skipWorkload website then 0 else 1)"
    using assms(2) by (auto simp: mutate_deployment_def getLabelsForServer_def fun_eq_iff Let_def split: sum.splits)
qed

text \<open>A successful reconciliation of a website that exists and has a theme, unfolded.\<close>

lemma reconcileWebsite_success:
  assumes "reconcileWebsite sl c config website w = (None, website', w')"
    and "om_DeletionTimestamp (web_Meta website) = None" and "wsp_Theme (web_Spec website) \<noteq> []"
  shows "\<exists>theme html cm svc ing dep h w1 w2 w3 w4. let n = calculateServerName sl website in
    wcl_GetTheme c (sw_api w) (wsp_Theme (web_Spec website)) = Inr theme \<and>
    RenderIndexHTML sl n website theme = (html, None) \<and>
    wcl_ConfigMap c (sw_api w) \<lparr>cm_Meta = child_meta n website, cm_Data = []\<rparr>
      (mutate_configMap sl n website html (join_with newline (nginx_lines (om_Namespace (web_Meta website)) (om_Name (web_Meta website))))) = ((None, cm), w1) \<and>
    wcl_Service c w1 \<lparr>svc_Meta = child_meta n website, svc_Type = [], svc_Selector = None, svc_Ports = [], svc_ClusterIP = []\<rparr>
      (mutate_service sl n website) = ((None, svc), w2) \<and>
    wcl_Ingress c w2 \<lparr>ing_Meta = child_meta n website, ing_ClassName = None, ing_Rules = [], ing_TLS = []\<rparr>
      (mutate_ingress sl config n website) = ((None, ing), w3) \<and>
    calculateConfigMapChecksum sl cm = Inr h \<and>
    wcl_Deployment c w3 (zero_deployment (child_meta n website)) (mutate_deployment sl n website cm h) = ((None, dep), w4) \<and>
    website' = set_phase (newPhase dep) website \<and> w' = w\<lparr>sw_api := w4\<rparr>"
  using assms
  by (auto simp: reconcileWebsite_def reconcileConfigMap_def reconcileService_def reconcileIngress_def reconcileDeployment_def
      RenderNginxConf_def fail_with_def recordError_def Let_def
      split: sum.splits option.splits prod.splits if_splits)

section \<open>Properties\<close>

text \<open>How the four objects of a website refer to each other.\<close>

definition serves :: "service \<Rightarrow> deployment \<Rightarrow> bool" where
  "serves svc dep \<longleftrightarrow> svc_Selector svc = dep_TemplateLabels dep \<and>
     (\<forall>p \<in> set (svc_Ports svc). \<exists>ctr \<in> set (dep_Containers dep). \<exists>cp \<in> set (ctr_Ports ctr). ctp_Name cp = sp_TargetPort p) \<and>
     (\<exists>sel. dep_Selector dep = Some sel \<and> Some (map_of (ls_MatchLabels sel)) = dep_TemplateLabels dep)"

definition routes :: "ingress \<Rightarrow> service \<Rightarrow> bool" where
  "routes ing svc \<longleftrightarrow> ing_Rules ing \<noteq> [] \<and> (\<forall>r \<in> set (ing_Rules ing). ir_Paths r \<noteq> [] \<and>
     (\<forall>p \<in> set (ir_Paths r). ip_ServiceName p = om_Name (svc_Meta svc) \<and> ip_PortName p \<in> sp_Name ` set (svc_Ports svc)))"

definition mounts :: "deployment \<Rightarrow> config_map \<Rightarrow> bool" where
  "mounts dep cm \<longleftrightarrow>
     (\<forall>v \<in> set (dep_Volumes dep). vol_ConfigMapName v = om_Name (cm_Meta cm) \<and> fst ` set (vol_Items v) \<subseteq> fst ` set (cm_Data cm)) \<and>
     (\<forall>ctr \<in> set (dep_Containers dep). vm_Name ` set (ctr_VolumeMounts ctr) \<subseteq> vol_Name ` set (dep_Volumes dep))"

lemma image_set_eq_pair: "map f xs = [a, b] \<Longrightarrow> f ` set xs = {a, b}"
  by (metis list.set(1,2) set_map)

lemma mutated_objects_wired:
  assumes scr: "SetControllerReference_doc sl" and k: "k = (om_Namespace (web_Meta website), n)"
    and cm: "mutate_configMap sl n website html conf cm0 = Inr cm1" "ObjectKeyFromObject (cm_Meta cm0) = k" "cm_persisted cm1 cm"
    and svc: "mutate_service sl n website svc0 = Inr svc1" "ObjectKeyFromObject (svc_Meta svc0) = k" "svc_persisted svc1 svc"
    and ing: "mutate_ingress sl config n website ing0 = Inr ing1" "ObjectKeyFromObject (ing_Meta ing0) = k" "ing_persisted ing1 ing"
    and dep: "mutate_deployment sl n website cm h dep0 = Inr dep1" "ObjectKeyFromObject (dep_Meta dep0) = k" "dep_persisted dep1 dep"
  shows "serves svc dep" "routes ing svc" "mounts dep cm"
    "list_all (child_of n website) [cm_Meta cm, svc_Meta svc, ing_Meta ing, dep_Meta dep]"
    "dep_TemplateAnnotations dep = Some [''checksum/configmap'' \<mapsto> h]"
proof -
  note cm1 = mutate_configMap_child [OF scr cm(1) cm(2) [unfolded k]]
  note svc1 = mutate_service_child [OF scr svc(1) svc(2) [unfolded k]]
  note ing1 = mutate_ingress_child [OF scr ing(1) ing(2) [unfolded k]]
  note dep1 = mutate_deployment_child [OF scr dep(1) dep(2) [unfolded k]]
  have cm': "cm_Data cm = [(keyIndexHTML, html), (keyNginxConf, conf)]" using cm1(2) cm(3) by (simp add: cm_persisted_def)
  have svc': "svc_Selector svc = svc_Selector svc1" "svc_Ports svc = svc_Ports svc1" using svc(3) by (simp_all add: svc_persisted_def)
  have ing': "ing_Rules ing = ing_Rules ing1" using ing(3) by (simp add: ing_persisted_def)
  have dep': "dep_TemplateLabels dep = dep_TemplateLabels dep1" "dep_Selector dep = dep_Selector dep1" "dep_Volumes dep = dep_Volumes dep1"
      "list_all2 (\<lambda>x y. \<exists>r. y = x\<lparr>ctr_Rest := r\<rparr>) (dep_Containers dep1) (dep_Containers dep)"
    using dep(3) by (simp_all add: dep_persisted_def)
  have rest: "(nginx_container x)\<lparr>ctr_Rest := r\<rparr> = nginx_container (x\<lparr>ctr_Rest := r\<rparr>)" for x r by (simp add: nginx_container_def)
  obtain ctr where ctr: "dep_Containers dep = [nginx_container ctr]"
    using dep1(5) dep'(4) by (auto simp: list_all2_Cons1 rest)
  show children: "list_all (child_of n website) [cm_Meta cm, svc_Meta svc, ing_Meta ing, dep_Meta dep]"
    using cm1(1) cm(3) svc1(1) svc(3) ing1(1) ing(3) dep1(1) dep(3)
    by (simp add: persisted_child cm_persisted_def svc_persisted_def ing_persisted_def dep_persisted_def)
  show "dep_TemplateAnnotations dep = Some [''checksum/configmap'' \<mapsto> h]" using dep1(4) dep(3) by (simp add: dep_persisted_def)
  show "serves svc dep"
    using svc1(2,3) svc' dep1(2,3) dep'(1,2) ctr by (auto simp: serves_def nginx_container_def)
  show "routes ing svc"
    using children svc1(3) svc'(2) ing1(2) ing'
    by (auto simp: routes_def site_path_def ingress_hosts_def child_of_def ObjectKeyFromObject_def split: option.splits)
  show "mounts dep cm"
    unfolding mounts_def
  proof (intro conjI ballI)
    fix v assume "v \<in> set (dep_Volumes dep)"
    with dep1(7) dep'(3) have v: "vol_ConfigMapName v = om_Name (cm_Meta cm) \<and> fst ` set (vol_Items v) \<subseteq> {keyIndexHTML, keyNginxConf}"
      by (simp add: list_all_iff)
    have "fst ` set (cm_Data cm) = {keyIndexHTML, keyNginxConf}" unfolding cm' by simp
    with v show "vol_ConfigMapName v = om_Name (cm_Meta cm)" "fst ` set (vol_Items v) \<subseteq> fst ` set (cm_Data cm)"
      by (metis, metis)
  next
    fix ctr assume "ctr \<in> set (dep_Containers dep)"
    then have "map vm_Name (ctr_VolumeMounts ctr) = [''website-data'', ''website-config'']"
      using ctr by (auto simp: nginx_container_def)
    then have "vm_Name ` set (ctr_VolumeMounts ctr) = {''website-data'', ''website-config''}"
      by (rule image_set_eq_pair)
    moreover have "vol_Name ` set (dep_Volumes dep) = {''website-data'', ''website-config''}"
      using dep1(6) unfolding dep'(3) by (rule image_set_eq_pair)
    ultimately show "vm_Name ` set (ctr_VolumeMounts ctr) \<subseteq> vol_Name ` set (dep_Volumes dep)" by simp
  qed
qed

text \<open>The objects of a website in the store, all under one key.\<close>

record site =
  si_cm :: config_map
  si_svc :: service
  si_ing :: ingress
  si_dep :: deployment

definition stored :: "site_objects \<Rightarrow> nsname \<Rightarrow> site \<Rightarrow> bool" where
  "stored v k s \<longleftrightarrow> so_cm v k = Some (si_cm s) \<and> so_svc v k = Some (si_svc s) \<and> so_ing v k = Some (si_ing s) \<and> so_dep v k = Some (si_dep s)"

definition site_metas :: "site \<Rightarrow> object_meta list" where
  "site_metas s = [cm_Meta (si_cm s), svc_Meta (si_svc s), ing_Meta (si_ing s), dep_Meta (si_dep s)]"

definition wired :: "site_lib \<Rightarrow> site \<Rightarrow> bool" where
  "wired sl s \<longleftrightarrow> serves (si_svc s) (si_dep s) \<and> routes (si_ing s) (si_svc s) \<and> mounts (si_dep s) (si_cm s) \<and>
     (\<exists>h. calculateConfigMapChecksum sl (si_cm s) = Inr h \<and> dep_TemplateAnnotations (si_dep s) = Some [''checksum/configmap'' \<mapsto> h])"

lemma website_children:
  assumes doc: "website_client_doc view cache c" and scr: "SetControllerReference_doc sl"
    and current: "up_to_date view cache (om_Namespace (web_Meta website), calculateServerName sl website) (sw_api w)"
    and rec: "reconcileWebsite sl c config website w = (None, website', w')"
    and live: "om_DeletionTimestamp (web_Meta website) = None" "wsp_Theme (web_Spec website) \<noteq> []"
  shows "\<exists>s. stored (view (sw_api w')) (om_Namespace (web_Meta website), calculateServerName sl website) s \<and>
    list_all (child_of (calculateServerName sl website) website) (site_metas s) \<and> wired sl s \<and>
    website' = set_phase (newPhase (si_dep s)) website"
proof -
  define n where "n = calculateServerName sl website"
  define k where k: "k = (om_Namespace (web_Meta website), n)"
  define conf where "conf = join_with newline (nginx_lines (om_Namespace (web_Meta website)) (om_Name (web_Meta website)))"
  obtain html cm svc ing dep h w1 w2 w3 w4 where
    cop: "wcl_ConfigMap c (sw_api w) \<lparr>cm_Meta = child_meta n website, cm_Data = []\<rparr> (mutate_configMap sl n website html conf) = ((None, cm), w1)"
      "wcl_Service c w1 \<lparr>svc_Meta = child_meta n website, svc_Type = [], svc_Selector = None, svc_Ports = [], svc_ClusterIP = []\<rparr>
        (mutate_service sl n website) = ((None, svc), w2)"
      "wcl_Ingress c w2 \<lparr>ing_Meta = child_meta n website, ing_ClassName = None, ing_Rules = [], ing_TLS = []\<rparr>
        (mutate_ingress sl config n website) = ((None, ing), w3)"
      "wcl_Deployment c w3 (zero_deployment (child_meta n website)) (mutate_deployment sl n website cm h) = ((None, dep), w4)"
    and h: "calculateConfigMapChecksum sl cm = Inr h" and w': "w' = w\<lparr>sw_api := w4\<rparr>"
    and web: "website' = set_phase (newPhase dep) website"
    using reconcileWebsite_success [OF rec live] unfolding n_def conf_def Let_def by blast
  have docs: "CreateOrPatch_doc view cache so_cm (\<lambda>m. so_cm_update (\<lambda>_. m)) cm_Meta cm_persisted (wcl_ConfigMap c)"
      "CreateOrPatch_doc view cache so_svc (\<lambda>m. so_svc_update (\<lambda>_. m)) svc_Meta svc_persisted (wcl_Service c)"
      "CreateOrPatch_doc view cache so_ing (\<lambda>m. so_ing_update (\<lambda>_. m)) ing_Meta ing_persisted (wcl_Ingress c)"
      "CreateOrPatch_doc view cache so_dep (\<lambda>m. so_dep_update (\<lambda>_. m)) dep_Meta dep_persisted (wcl_Deployment c)"
    using doc by (simp_all add: website_client_doc_def)
  have key: "ObjectKeyFromObject (child_meta n website) = k" "dep_Meta (zero_deployment (child_meta n website)) = child_meta n website"
    by (simp_all add: child_meta_def ObjectKeyFromObject_def k zero_deployment_def)
  have cur0: "up_to_date view cache k (sw_api w)" using current by (simp add: k n_def)
  obtain cm0 cm1 m1 where cm: "mutate_configMap sl n website html conf cm0 = Inr cm1" "ObjectKeyFromObject (cm_Meta cm0) = k"
      "cm_persisted cm1 cm"
    and w1: "view w1 = (view (sw_api w))\<lparr>so_cm := (so_cm (view (sw_api w)))(k \<mapsto> cm)\<rparr>" "cache w1 = (cache (sw_api w))\<lparr>so_cm := m1\<rparr>"
    using cm.CreateOrPatchD [OF docs(1) cop(1), of k] key cur0 by (auto simp: up_to_date_def)
  obtain svc0 svc1 m2 where svc: "mutate_service sl n website svc0 = Inr svc1" "ObjectKeyFromObject (svc_Meta svc0) = k"
      "svc_persisted svc1 svc"
    and w2: "view w2 = (view w1)\<lparr>so_svc := (so_svc (view w1))(k \<mapsto> svc)\<rparr>" "cache w2 = (cache w1)\<lparr>so_svc := m2\<rparr>"
    using svc.CreateOrPatchD [OF docs(2) cop(2), of k] key cur0 w1 by (auto simp: up_to_date_def)
  obtain ing0 ing1 m3 where ing: "mutate_ingress sl config n website ing0 = Inr ing1" "ObjectKeyFromObject (ing_Meta ing0) = k"
      "ing_persisted ing1 ing"
    and w3: "view w3 = (view w2)\<lparr>so_ing := (so_ing (view w2))(k \<mapsto> ing)\<rparr>" "cache w3 = (cache w2)\<lparr>so_ing := m3\<rparr>"
    using ing.CreateOrPatchD [OF docs(3) cop(3), of k] key cur0 w1 w2 by (auto simp: up_to_date_def)
  obtain dep0 dep1 where dep: "mutate_deployment sl n website cm h dep0 = Inr dep1" "ObjectKeyFromObject (dep_Meta dep0) = k"
      "dep_persisted dep1 dep"
    and w4: "view w4 = (view w3)\<lparr>so_dep := (so_dep (view w3))(k \<mapsto> dep)\<rparr>"
    using dep.CreateOrPatchD [OF docs(4) cop(4), of k] key cur0 w1 w2 w3 by (auto simp: up_to_date_def)
  let ?s = "\<lparr>si_cm = cm, si_svc = svc, si_ing = ing, si_dep = dep\<rparr>"
  note wired = mutated_objects_wired [OF scr k cm svc ing dep]
  have "wired sl ?s" using wired h by (simp add: wired_def)
  moreover have "list_all (child_of n website) (site_metas ?s)" using wired(4) by (simp add: site_metas_def)
  moreover have "stored (view (sw_api w')) k ?s"
    using w1 w2 w3 w4 w' by (simp add: stored_def)
  ultimately show ?thesis
    using web unfolding n_def k by (intro exI [of _ ?s]) simp
qed

text \<open>An in-memory API server on which the contracts hold: it answers with objects stored under their key.\<close>

definition keyed :: "('o \<Rightarrow> object_meta) \<Rightarrow> (nsname \<rightharpoonup> 'o) \<Rightarrow> nsname \<rightharpoonup> 'o" where
  "keyed meta m k = (case m k of None \<Rightarrow> None | Some ob \<Rightarrow> if ObjectKeyFromObject (meta ob) = k then Some ob else None)"

definition mem_view :: "site_objects \<Rightarrow> site_objects" where
  "mem_view w = \<lparr>so_cm = keyed cm_Meta (so_cm w), so_svc = keyed svc_Meta (so_svc w), so_ing = keyed ing_Meta (so_ing w),
     so_dep = keyed dep_Meta (so_dep w)\<rparr>"

definition stamp_meta :: "object_meta \<Rightarrow> object_meta" where
  "stamp_meta m = m\<lparr>om_UID := ''f00'', om_ResourceVersion := ''1'', om_Generation := 1\<rparr>"

definition mem_cop ::
  "(site_objects \<Rightarrow> nsname \<rightharpoonup> 'o) \<Rightarrow> ((nsname \<rightharpoonup> 'o) \<Rightarrow> site_objects \<Rightarrow> site_objects) \<Rightarrow> ('o \<Rightarrow> object_meta) \<Rightarrow> ('o \<Rightarrow> 'o) \<Rightarrow>
     (site_objects, 'o) create_or_patch"
where
  "mem_cop get put meta stamp w ob f =
     (let k = ObjectKeyFromObject (meta ob); read = keyed meta (get w) k in
      case f (case read of None \<Rightarrow> ob | Some cur \<Rightarrow> cur) of
        Inl e \<Rightarrow> ((Some e, ob), w)
      | Inr sent \<Rightarrow>
          if ObjectKeyFromObject (meta sent) \<noteq> k
          then ((Some (errorf ''MutateFn cannot mutate object name and/or object namespace''), ob), w)
          else if read = Some sent then ((None, sent), w)
          else ((None, stamp sent), put ((get w)(k \<mapsto> stamp sent)) w))"

definition mem_client :: "site_objects website_client" where
  "mem_client = \<lparr>wcl_GetTheme = \<lambda>w n. Inr \<lparr>th_Meta = empty_meta\<lparr>om_Name := n\<rparr>, th_Spec = \<lparr>ts_Color = ''red'', ts_FontFamily = ''Arial''\<rparr>\<rparr>,
     wcl_ConfigMap = mem_cop so_cm (\<lambda>m. so_cm_update (\<lambda>_. m)) cm_Meta (cm_Meta_update stamp_meta),
     wcl_Service = mem_cop so_svc (\<lambda>m. so_svc_update (\<lambda>_. m)) svc_Meta (\<lambda>svc. svc\<lparr>svc_Meta := stamp_meta (svc_Meta svc), svc_ClusterIP := ''10.0.0.7''\<rparr>),
     wcl_Ingress = mem_cop so_ing (\<lambda>m. so_ing_update (\<lambda>_. m)) ing_Meta (ing_Meta_update stamp_meta),
     wcl_Deployment = mem_cop so_dep (\<lambda>m. so_dep_update (\<lambda>_. m)) dep_Meta (dep_Meta_update stamp_meta),
     wcl_UpdateStatus = \<lambda>w website. (None, w), wcl_ListByTheme = \<lambda>w n. Inr []\<rparr>"

lemma keyed_upd: "ObjectKeyFromObject (meta ob) = k \<Longrightarrow> keyed meta (m(k \<mapsto> ob)) = (keyed meta m)(k \<mapsto> ob)"
  by (auto simp: keyed_def fun_eq_iff)

lemma keyed_key: "keyed meta m k = Some ob \<Longrightarrow> ObjectKeyFromObject (meta ob) = k"
  by (auto simp: keyed_def split: option.splits if_splits)

lemma mem_cop_doc:
  assumes get: "\<And>w. get (mem_view w) = keyed meta (get w)" and put: "\<And>m w. mem_view (put m w) = put (keyed meta m) (mem_view w)"
    and put_get: "\<And>v. put (get v) v = v"
    and stamp: "\<And>ob. persisted ob (stamp ob)" "\<And>ob. ObjectKeyFromObject (meta (stamp ob)) = ObjectKeyFromObject (meta ob)"
  shows "CreateOrPatch_doc mem_view mem_view get put meta persisted (mem_cop get put meta stamp)"
  unfolding CreateOrPatch_doc_def
proof (intro conjI allI impI)
  fix w k ob assume "get (mem_view w) k = Some ob"
  then show "ObjectKeyFromObject (meta ob) = k" by (simp add: get keyed_key)
next
  fix w ob f ob' w' assume cop: "mem_cop get put meta stamp w ob f = ((None, ob'), w')"
  let ?k = "ObjectKeyFromObject (meta ob)"
  obtain sent where sent: "f (case keyed meta (get w) ?k of None \<Rightarrow> ob | Some cur \<Rightarrow> cur) = Inr sent" "ObjectKeyFromObject (meta sent) = ?k"
      "if keyed meta (get w) ?k = Some sent then ob' = sent \<and> w' = w else ob' = stamp sent \<and> w' = put ((get w)(?k \<mapsto> stamp sent)) w"
    using cop unfolding mem_cop_def Let_def by (auto split: sum.splits if_splits)
  have "\<exists>m. mem_view w' = put m (mem_view w)"
    using sent(3) put put_get [of "mem_view w"] by (metis (full_types))
  then show "let k = ?k; read = get (mem_view w) k in \<exists>sent. f (case read of None \<Rightarrow> ob | Some cur \<Rightarrow> cur) = Inr sent \<and>
      (if read = Some sent then ob' = sent \<and> mem_view w' = mem_view w
       else mem_view w' = put ((get (mem_view w))(k \<mapsto> ob')) (mem_view w) \<and> (get (mem_view w) k = read \<longrightarrow> persisted sent ob')) \<and>
      (\<exists>m. mem_view w' = put m (mem_view w))"
    using sent stamp by (auto simp: get put keyed_upd Let_def split: if_splits intro!: exI [of _ sent])
qed

lemma stamp_meta_persisted [simp]:
  "meta_persisted m (stamp_meta m)" "ObjectKeyFromObject (stamp_meta m) = ObjectKeyFromObject m"
  by (simp_all add: stamp_meta_def meta_persisted_def ObjectKeyFromObject_def)

lemma mem_client_doc: "website_client_doc mem_view mem_view mem_client"
  unfolding website_client_doc_def mem_client_def
  by (simp, intro conjI; rule mem_cop_doc; simp add: mem_view_def cm_persisted_def svc_persisted_def ing_persisted_def dep_persisted_def list_all2_same)

lemma mem_up_to_date: "up_to_date mem_view mem_view k w"
  by (simp add: up_to_date_def)

definition mem_site_lib :: site_lib where
  "mem_site_lib = \<lparr>sl_sha256 = \<lambda>s. s, sl_Marshal = \<lambda>d. Inr (concat (map (\<lambda>(k, v). k @ v) d)), sl_ExecuteIndex = \<lambda>n w t. ([], None),
     sl_SetControllerReference = \<lambda>owner m. Inr (m\<lparr>om_OwnerReferences := [\<lparr>or_APIVersion = ''webhosting.timebertt.dev/v1alpha1'',
       or_Kind = ''Website'', or_Name = om_Name owner, or_Controller = Some True\<rparr>]\<rparr>)\<rparr>"

lemma mem_site_lib_doc: "SetControllerReference_doc mem_site_lib"
  by (auto simp: SetControllerReference_doc_def mem_site_lib_def refers_to_def website_object_def apiVersion_def)

definition sample_website :: website where
  "sample_website = \<lparr>web_Meta = empty_meta\<lparr>om_Name := ''homepage'', om_Namespace := ''project-foo'', om_UID := ''uid'', om_Generation := 1,
       om_Labels := Some [LabelShard WebhostingOperatorName \<mapsto> ''shard-0'']\<rparr>,
     web_Spec = \<lparr>wsp_Theme = ''fancy''\<rparr>, web_Status = \<lparr>wst_ObservedGeneration = 0, wst_Phase = [], wst_LastTransitionTime = None\<rparr>\<rparr>"

definition empty_site_world :: "site_objects site_world" where
  "empty_site_world = \<lparr>sw_api = \<lparr>so_cm = Map.empty, so_svc = Map.empty, so_ing = Map.empty, so_dep = Map.empty\<rparr>, sw_events = []\<rparr>"

lemma mem_cop_ok:
  assumes "\<And>ob. \<exists>ob'. f ob = Inr ob' \<and> ObjectKeyFromObject (meta ob') = ObjectKeyFromObject (meta ob)"
  shows "\<exists>ob' w'. mem_cop get put meta stamp w ob f = ((None, ob'), w')"
proof -
  let ?cur = "case keyed meta (get w) (ObjectKeyFromObject (meta ob)) of None \<Rightarrow> ob | Some cur \<Rightarrow> cur"
  obtain ob' where "f ?cur = Inr ob'" "ObjectKeyFromObject (meta ob') = ObjectKeyFromObject (meta ?cur)" using assms by blast
  moreover have "ObjectKeyFromObject (meta ?cur) = ObjectKeyFromObject (meta ob)"
    by (simp add: keyed_def split: option.split)
  ultimately show ?thesis by (simp add: mem_cop_def Let_def)
qed

lemma mem_mutations_ok:
  "\<exists>cm'. mutate_configMap mem_site_lib n website html conf cm = Inr cm' \<and> ObjectKeyFromObject (cm_Meta cm') = ObjectKeyFromObject (cm_Meta cm)"
  "\<exists>svc'. mutate_service mem_site_lib n website svc = Inr svc' \<and> ObjectKeyFromObject (svc_Meta svc') = ObjectKeyFromObject (svc_Meta svc)"
  "\<exists>ing'. mutate_ingress mem_site_lib None n website ing = Inr ing' \<and> ObjectKeyFromObject (ing_Meta ing') = ObjectKeyFromObject (ing_Meta ing)"
  "\<exists>dep'. mutate_deployment mem_site_lib n website cm h dep = Inr dep' \<and> ObjectKeyFromObject (dep_Meta dep') = ObjectKeyFromObject (dep_Meta dep)"
  by (simp_all add: mutate_configMap_def mutate_service_def mutate_ingress_def mutate_deployment_def mem_site_lib_def applyIngressConfig_eq
      ObjectKeyFromObject_def Let_def)

lemma sample_website_reconciles:
  "\<exists>website' w'. reconcileWebsite mem_site_lib mem_client None sample_website empty_site_world = (None, website', w')"
proof -
  let ?sl = mem_site_lib and ?web = sample_website and ?c = mem_client
  define n where "n = calculateServerName ?sl ?web"
  note c = mem_client_def website_client.simps
  obtain theme where theme: "wcl_GetTheme ?c (sw_api empty_site_world) (wsp_Theme (web_Spec ?web)) = Inr theme" by (simp add: mem_client_def)
  have live: "om_DeletionTimestamp (web_Meta ?web) = None" "wsp_Theme (web_Spec ?web) \<noteq> []" by (simp_all add: sample_website_def empty_meta_def)
  have html: "RenderIndexHTML ?sl n ?web theme = ([], None)" by (simp add: RenderIndexHTML_def ExecuteIndexHTMLTemplate_def mem_site_lib_def)
  have "\<exists>cm w1. reconcileConfigMap ?sl ?c n ?web theme (sw_api empty_site_world) = (Inr cm, w1)"
  proof -
    have "\<exists>cm w1. wcl_ConfigMap ?c (sw_api empty_site_world) \<lparr>cm_Meta = child_meta n ?web, cm_Data = []\<rparr> (mutate_configMap ?sl n ?web [] conf) = ((None, cm), w1)" for conf
      unfolding c by (rule mem_cop_ok, rule mem_mutations_ok)
    then obtain cm w1 where "wcl_ConfigMap ?c (sw_api empty_site_world) \<lparr>cm_Meta = child_meta n ?web, cm_Data = []\<rparr>
        (mutate_configMap ?sl n ?web [] (join_with newline (nginx_lines (om_Namespace (web_Meta ?web)) (om_Name (web_Meta ?web))))) = ((None, cm), w1)" by blast
    then show ?thesis by (simp add: reconcileConfigMap_def html RenderNginxConf_def)
  qed
  then obtain cm w1 where cm: "reconcileConfigMap ?sl ?c n ?web theme (sw_api empty_site_world) = (Inr cm, w1)" by blast
  have "\<exists>svc w2. wcl_Service ?c w1 \<lparr>svc_Meta = child_meta n ?web, svc_Type = [], svc_Selector = None, svc_Ports = [], svc_ClusterIP = []\<rparr>
      (mutate_service ?sl n ?web) = ((None, svc), w2)"
    unfolding c by (rule mem_cop_ok, rule mem_mutations_ok)
  then obtain w2 where svc: "reconcileService ?sl ?c n ?web w1 = (None, w2)" by (auto simp: reconcileService_def)
  have "\<exists>ing w3. wcl_Ingress ?c w2 \<lparr>ing_Meta = child_meta n ?web, ing_ClassName = None, ing_Rules = [], ing_TLS = []\<rparr>
      (mutate_ingress ?sl None n ?web) = ((None, ing), w3)"
    unfolding c by (rule mem_cop_ok, rule mem_mutations_ok)
  then obtain w3 where ing: "reconcileIngress ?sl ?c None n ?web w2 = (None, w3)" by (auto simp: reconcileIngress_def)
  obtain h where h: "calculateConfigMapChecksum ?sl cm = Inr h" by (simp add: calculateConfigMapChecksum_def mem_site_lib_def)
  have "\<exists>dep w4. wcl_Deployment ?c w3 (zero_deployment (child_meta n ?web)) (mutate_deployment ?sl n ?web cm h) = ((None, dep), w4)"
    unfolding c by (rule mem_cop_ok, rule mem_mutations_ok)
  then obtain dep w4 where dep: "reconcileDeployment ?sl ?c n ?web cm w3 = (Inr dep, w4)" using h by (auto simp: reconcileDeployment_def)
  show ?thesis
    by (simp add: reconcileWebsite_def live theme cm [unfolded n_def] svc [unfolded n_def] ing [unfolded n_def] dep [unfolded n_def] Let_def)
qed

text \<open>C29: A reconciled website is wired up: after a reconciliation without an error of a website with a theme, whose cached
  objects are up to date and are not written by anybody else meanwhile, one ConfigMap, Service,
  Ingress and Deployment of the website are stored, whatever the API server populates in them. The Service selects the Deployment's pods and targets a
  port they have, every Ingress rule leads to the Service, the pods mount the keys of the ConfigMap and
  carry the checksum of its data, and the phase is the readiness of the stored Deployment.\<close>

theorem website_is_wired_up:
  assumes "website_client_doc view cache c" and "SetControllerReference_doc sl"
    and "up_to_date view cache (om_Namespace (web_Meta website), calculateServerName sl website) (sw_api w)"
    and "reconcileWebsite sl c config website w = (None, website', w')"
    and "om_DeletionTimestamp (web_Meta website) = None" and "wsp_Theme (web_Spec website) \<noteq> []"
  shows "\<exists>s. stored (view (sw_api w')) (om_Namespace (web_Meta website), calculateServerName sl website) s \<and> wired sl s \<and>
    wst_Phase (web_Status website') = (if IsDeploymentReady (si_dep s) then PhaseReady else PhasePending)"
  using website_children [OF assms] by (auto simp: set_phase_def newPhase_def)

lemma website_is_wired_up_witness:
  "\<exists>website' w' s. reconcileWebsite mem_site_lib mem_client None sample_website empty_site_world = (None, website', w') \<and>
     stored (mem_view (sw_api w')) (''project-foo'', calculateServerName mem_site_lib sample_website) s \<and> wired mem_site_lib s"
proof -
  obtain website' w' where rec: "reconcileWebsite mem_site_lib mem_client None sample_website empty_site_world = (None, website', w')"
    using sample_website_reconciles by blast
  have "om_DeletionTimestamp (web_Meta sample_website) = None" "wsp_Theme (web_Spec sample_website) \<noteq> []"
      "om_Namespace (web_Meta sample_website) = ''project-foo''"
    by (simp_all add: sample_website_def empty_meta_def)
  with website_is_wired_up [OF mem_client_doc mem_site_lib_doc mem_up_to_date rec] rec show ?thesis by metis
qed

lemma server_labels_not_shard: "getLabelsForServer n name (LabelShard ring) = None" "getLabelsForServer n name (LabelDrain ring) = None"
  by (simp_all add: getLabelsForServer_def LabelShard_def LabelShardPrefix_def LabelDrain_def LabelDrainPrefix_def)

lemma child_key:
  assumes "child_of n website m" and "GetControllerOf_doc lib" and "ParseGroupVersion_doc lib" and "om_Name (web_Meta website) \<noteq> []"
  shows "ForController lib \<lparr>po_GVK = g, po_Meta = m\<rparr> = ForObject (website_object website)"
proof -
  obtain ref where ref: "List.find (\<lambda>r. or_Controller r = Some True) (om_OwnerReferences m) = Some ref" "refers_to ref (website_object website)"
    using assms(1) by (auto simp: child_of_def)
  have "lib_GetControllerOf lib (po_Meta \<lparr>po_GVK = g, po_Meta = m\<rparr>) = Some ref" using assms(2) ref(1) by (simp add: GetControllerOf_doc_def)
  from ForController_owner [OF assms(3) _ _ this ref(2)] assms(1,4)
  show ?thesis by (simp add: website_object_def valid_gvk_def child_of_def ObjectKeyFromObject_def ForObject_def gvk_Empty_def Let_def)
qed

text \<open>C30: The objects of a website stay with its shard: under the conditions under which a website is wired up, each of its stored objects carries
  every shard label and drain label that the website has, of any ring, and the sharder computes for it the hash key of the website. So the
  webhook and the sharder put a website and its objects on the same shard, also where a label is still missing.\<close>

theorem website_objects_follow_shard:
  assumes "website_client_doc view cache c" and "SetControllerReference_doc sl"
    and "up_to_date view cache (om_Namespace (web_Meta website), calculateServerName sl website) (sw_api w)"
    and "reconcileWebsite sl c config website w = (None, website', w')"
    and "om_DeletionTimestamp (web_Meta website) = None" and "wsp_Theme (web_Spec website) \<noteq> []"
    and "GetControllerOf_doc lib" and "ParseGroupVersion_doc lib" and "om_Name (web_Meta website) \<noteq> []"
  shows "\<exists>s. stored (view (sw_api w')) (om_Namespace (web_Meta website), calculateServerName sl website) s \<and>
    (\<forall>m \<in> set (site_metas s). \<forall>ring g v.
       (as_map (om_Labels (web_Meta website)) (LabelShard ring) = Some v \<longrightarrow> as_map (om_Labels m) (LabelShard ring) = Some v) \<and>
       (as_map (om_Labels (web_Meta website)) (LabelDrain ring) = Some v \<longrightarrow> as_map (om_Labels m) (LabelDrain ring) = Some v) \<and>
       ForController lib \<lparr>po_GVK = g, po_Meta = m\<rparr> = ForObject (website_object website))"
proof -
  let ?n = "calculateServerName sl website"
  obtain s where s: "stored (view (sw_api w')) (om_Namespace (web_Meta website), ?n) s" "list_all (child_of ?n website) (site_metas s)"
    using website_children [OF assms(1-6)] by blast
  have "(as_map (om_Labels (web_Meta website)) (LabelShard ring) = Some v \<longrightarrow> as_map (om_Labels m) (LabelShard ring) = Some v) \<and>
       (as_map (om_Labels (web_Meta website)) (LabelDrain ring) = Some v \<longrightarrow> as_map (om_Labels m) (LabelDrain ring) = Some v) \<and>
       ForController lib \<lparr>po_GVK = g, po_Meta = m\<rparr> = ForObject (website_object website)"
    if "m \<in> set (site_metas s)" for m ring g v
  proof -
    have m: "child_of ?n website m" using s(2) that by (simp add: list_all_iff)
    then have le: "as_map (om_Labels (web_Meta website)) ++ getLabelsForServer ?n (om_Name (web_Meta website)) \<subseteq>\<^sub>m as_map (om_Labels m)"
      by (simp add: child_of_def child_labels_eq)
    have "as_map (om_Labels m) k = Some v"
      if "as_map (om_Labels (web_Meta website)) k = Some v" "getLabelsForServer ?n (om_Name (web_Meta website)) k = None" for k
      using le that by (auto simp: map_le_def map_add_def dom_def split: option.splits dest!: spec [of _ k])
    then show ?thesis
      using child_key [OF m assms(7-9)] server_labels_not_shard by blast
  qed
  with s(1) show ?thesis by blast
qed

lemma website_objects_follow_shard_witness:
  "\<exists>website' w' s. reconcileWebsite mem_site_lib mem_client None sample_website empty_site_world = (None, website', w') \<and>
     stored (mem_view (sw_api w')) (''project-foo'', calculateServerName mem_site_lib sample_website) s \<and>
     as_map (om_Labels (dep_Meta (si_dep s))) (LabelShard WebhostingOperatorName) = Some ''shard-0''"
proof -
  obtain website' w' where rec: "reconcileWebsite mem_site_lib mem_client None sample_website empty_site_world = (None, website', w')"
    using sample_website_reconciles by blast
  have web: "om_DeletionTimestamp (web_Meta sample_website) = None" "wsp_Theme (web_Spec sample_website) \<noteq> []"
      "om_Namespace (web_Meta sample_website) = ''project-foo''" "om_Name (web_Meta sample_website) \<noteq> []"
      "as_map (om_Labels (web_Meta sample_website)) (LabelShard WebhostingOperatorName) = Some ''shard-0''"
    by (simp_all add: sample_website_def empty_meta_def)
  obtain s where "stored (mem_view (sw_api w')) (om_Namespace (web_Meta sample_website), calculateServerName mem_site_lib sample_website) s"
      "\<forall>m \<in> set (site_metas s). \<forall>ring g v.
       (as_map (om_Labels (web_Meta sample_website)) (LabelShard ring) = Some v \<longrightarrow> as_map (om_Labels m) (LabelShard ring) = Some v) \<and>
       (as_map (om_Labels (web_Meta sample_website)) (LabelDrain ring) = Some v \<longrightarrow> as_map (om_Labels m) (LabelDrain ring) = Some v) \<and>
       ForController std_lib \<lparr>po_GVK = g, po_Meta = m\<rparr> = ForObject (website_object sample_website)"
    using website_objects_follow_shard [OF mem_client_doc mem_site_lib_doc mem_up_to_date rec web(1,2) std_lib_doc(1,2) web(4)] by blast
  moreover have "dep_Meta (si_dep s) \<in> set (site_metas s)" by (simp add: site_metas_def)
  ultimately show ?thesis using rec web(3,5) by (intro exI [of _ website'] exI [of _ w'] exI [of _ s]) simp
qed

lemma reconcileWebsite_phase:
  assumes "reconcileWebsite sl c config website w = (err, website', w')"
    and "om_DeletionTimestamp (web_Meta website) = None" and "wsp_Theme (web_Spec website) \<noteq> []"
  shows "(err = None \<and> wst_Phase (web_Status website') \<in> {PhaseReady, PhasePending} \<or> (\<exists>e. err = Some e)) \<and>
    wst_ObservedGeneration (web_Status website') = wst_ObservedGeneration (web_Status website) \<and> web_Meta website' = web_Meta website"
proof (cases err)
  case None
  obtain dep where "website' = set_phase (newPhase dep) website"
    using reconcileWebsite_success [OF assms(1) [unfolded None] assms(2,3)] by (auto simp: Let_def)
  with None show ?thesis by (simp add: set_phase_def newPhase_def)
next
  case (Some e)
  then have "website' = website"
    using assms by (auto simp: reconcileWebsite_def fail_with_def recordError_def Let_def split: sum.splits option.splits prod.splits if_splits)
  with Some show ?thesis by simp
qed

text \<open>C31: The phase reports the outcome. The reconciliation of an existing website with a theme either fails to update the
  status and returns that error, or returns an error exactly if the phase is then Error, and otherwise the phase is
  Ready or Pending; the status shows the generation that was reconciled. In the latter case this is what the API server stores, if the
  status differs from the one that was read, or if the website that was read is the stored one. (If the read was stale and the status
  seemed to be right already, a stored Error phase stays until the next event; a website without a theme keeps its phase.)\<close>

theorem website_phase_reports_outcome:
  assumes "website_Reconcile sl c config now website w = (r, website', w')" and "UpdateStatus_doc websites c"
    and "om_DeletionTimestamp (web_Meta website) = None" and "wsp_Theme (web_Spec website) \<noteq> []"
  shows "(\<exists>u v err e. wcl_UpdateStatus c u v = (Some err, sw_api w') \<and>
      r = Inl (errors_Join e (wrapf ''failed updating Website status'' err))) \<or>
    (wst_Phase (web_Status website') = PhaseError \<longleftrightarrow> (\<exists>e. r = Inl e)) \<and>
    wst_Phase (web_Status website') \<in> {PhaseReady, PhasePending, PhaseError} \<and>
    wst_ObservedGeneration (web_Status website') = om_Generation (web_Meta website) \<and>
    (web_Status website' \<noteq> web_Status website \<or> websites (sw_api w') (ObjectKeyFromObject (web_Meta website)) = Some website \<longrightarrow>
      (\<exists>st. websites (sw_api w') (ObjectKeyFromObject (web_Meta website)) = Some st \<and>
         wst_Phase (web_Status st) = wst_Phase (web_Status website') \<and>
         wst_ObservedGeneration (web_Status st) = om_Generation (web_Meta website)))"
proof -
  let ?web = "website\<lparr>web_Status := (web_Status website)\<lparr>wst_ObservedGeneration := om_Generation (web_Meta website)\<rparr>\<rparr>"
  obtain err web1 w1 where rec: "reconcileWebsite sl c config ?web w = (err, web1, w1)" by (metis prod.collapse)
  have ph: "(err = None \<and> wst_Phase (web_Status web1) \<in> {PhaseReady, PhasePending} \<or> (\<exists>e. err = Some e)) \<and>
      wst_ObservedGeneration (web_Status web1) = om_Generation (web_Meta website) \<and> web_Meta web1 = web_Meta website"
    using reconcileWebsite_phase [OF rec] assms(3,4) by simp
  define web2 where "web2 = (if err \<noteq> None then set_phase PhaseError web1 else web1)"
  define res where "res = (case err of None \<Rightarrow> Inr no_requeue | Some e \<Rightarrow> Inl e)"
  let ?now = "web2\<lparr>web_Status := (web_Status web2)\<lparr>wst_LastTransitionTime := Some now\<rparr>\<rparr>"
  have web2: "(wst_Phase (web_Status web2) = PhaseError \<longleftrightarrow> (\<exists>e. res = Inl e)) \<and> wst_Phase (web_Status web2) \<in> {PhaseReady, PhasePending, PhaseError} \<and>
      wst_ObservedGeneration (web_Status web2) = om_Generation (web_Meta website) \<and> web_Meta web2 = web_Meta website"
    using ph by (cases err) (auto simp: set_phase_def web2_def res_def PhaseError_def PhaseReady_def PhasePending_def)
  obtain e2 w2 where up: "wcl_UpdateStatus c (sw_api w1) ?now = (e2, w2)" by (metis prod.collapse)
  have out: "(r, website', w') =
    (if web_Status website \<noteq> web_Status web2 then
       (case e2 of None \<Rightarrow> res | Some e \<Rightarrow> Inl (errors_Join err (wrapf ''failed updating Website status'' e)), ?now, w1\<lparr>sw_api := w2\<rparr>)
     else (res, web2, w1))"
    using up assms(1) by (cases err; cases e2) (auto simp: website_Reconcile_def rec web2_def res_def Let_def split: if_splits)
  show ?thesis
  proof (cases "web_Status website = web_Status web2")
    case True
    then have "web_Status website' = web_Status website" "r = res" using out by simp_all
    with web2 True show ?thesis by auto
  next
    case False
    show ?thesis
    proof (cases e2)
      case None
      then obtain st where "websites w2 (ObjectKeyFromObject (web_Meta website)) = Some st"
          "wst_Phase (web_Status st) = wst_Phase (web_Status web2)"
          "wst_ObservedGeneration (web_Status st) = wst_ObservedGeneration (web_Status web2)"
        using assms(2) up web2 unfolding UpdateStatus_doc_def by fastforce
      with out False None web2 show ?thesis by auto
    next
      case (Some e)
      then have "wcl_UpdateStatus c (sw_api w1) ?now = (Some e, sw_api w')"
          "r = Inl (errors_Join err (wrapf ''failed updating Website status'' e))"
        using out False up by simp_all
      then show ?thesis by blast
    qed
  qed
qed

text \<open>An API server without themes: the phase Error is stored.\<close>

definition no_themes_client :: "(nsname \<rightharpoonup> website) website_client" where
  "no_themes_client = \<lparr>wcl_GetTheme = \<lambda>w n. Inl \<lparr>err_reason = ReasonNotFound, err_msg = ''not found''\<rparr>,
     wcl_ConfigMap = \<lambda>w ob f. ((Some (errorf ''timeout''), ob), w), wcl_Service = \<lambda>w ob f. ((Some (errorf ''timeout''), ob), w),
     wcl_Ingress = \<lambda>w ob f. ((Some (errorf ''timeout''), ob), w), wcl_Deployment = \<lambda>w ob f. ((Some (errorf ''timeout''), ob), w),
     wcl_UpdateStatus = \<lambda>w website. (None, w(ObjectKeyFromObject (web_Meta website) \<mapsto> website)), wcl_ListByTheme = \<lambda>w n. Inr []\<rparr>"

lemma website_phase_reports_outcome_witness:
  "\<exists>e website' w' st. website_Reconcile mem_site_lib no_themes_client None 7 sample_website \<lparr>sw_api = Map.empty, sw_events = []\<rparr> = (Inl e, website', w') \<and>
     sw_api w' (''project-foo'', ''homepage'') = Some st \<and> wst_Phase (web_Status st) = PhaseError \<and> wst_ObservedGeneration (web_Status st) = 1"
proof -
  let ?w = "\<lparr>sw_api = Map.empty, sw_events = []\<rparr>" and ?c = no_themes_client
  obtain r website' w' where rec: "website_Reconcile mem_site_lib ?c None 7 sample_website ?w = (r, website', w')" by (metis prod.collapse)
  have doc: "UpdateStatus_doc (\<lambda>w. w) ?c" by (simp add: UpdateStatus_doc_def no_themes_client_def)
  have web: "om_DeletionTimestamp (web_Meta sample_website) = None" "wsp_Theme (web_Spec sample_website) \<noteq> []"
      "ObjectKeyFromObject (web_Meta sample_website) = (''project-foo'', ''homepage'')" "om_Generation (web_Meta sample_website) = 1"
      "wst_ObservedGeneration (web_Status sample_website) = 0"
    by (simp_all add: sample_website_def empty_meta_def ObjectKeyFromObject_def)
  have "\<exists>e. r = Inl e"
    using rec web(1,2) by (auto simp: website_Reconcile_def reconcileWebsite_def no_themes_client_def IsNotFound_def fail_with_def recordError_def Let_def
        split: if_splits)
  moreover have "fst (wcl_UpdateStatus ?c u v) = None" for u v by (simp add: no_themes_client_def)
  then have "wcl_UpdateStatus ?c u v \<noteq> (Some err, x)" for u v err x by (metis fst_conv option.distinct(1))
  ultimately show ?thesis
    using website_phase_reports_outcome [OF rec doc web(1,2)] rec web(3-5) by (metis zero_neq_one)
qed

text \<open>A website without a theme is an exception: the event is recorded, but the phase stays what it was,
  even Ready, while the status claims that the new generation was observed.\<close>

theorem theme_unspecified_keeps_phase:
  assumes "om_DeletionTimestamp (web_Meta website) = None" and "wsp_Theme (web_Spec website) = []"
    and "website_Reconcile sl c config now website w = (r, website', w')"
  shows "wst_Phase (web_Status website') = wst_Phase (web_Status website) \<and>
    (''ThemeUnspecified'', ''Website doesn't specify a Theme'') \<in> set (sw_events w')"
  using assms by (auto simp: website_Reconcile_def reconcileWebsite_def recordError_def Let_def split: if_splits prod.splits option.splits)

text \<open>With sharding enabled, the controller is set up without a panic; it only reconciles websites of its
  shard and is triggered by every event of a drained website.\<close>

lemma website_setup_sharded:
  assumes "predicates_doc pl" and "ring \<noteq> []" and "shard \<noteq> []"
  obtains st where "SetupWithManager pl c rec None getenv True ring shard = Some (Inr st)"
    "\<And>req w obj. oc_Get c w ''Website'' req = Inr obj \<Longrightarrow> \<not> assigned_to ring shard obj \<Longrightarrow> wse_Reconciler st req w = (Inr no_requeue, w)"
    "\<And>e. map_has (om_Labels (obj_meta (event_object e))) (LabelDrain ring) \<Longrightarrow> wse_WebsitePredicate st e"
proof -
  let ?b = "\<lparr>sr_Object = ''Website'', sr_Client = c, sr_ControllerRingName = ring, sr_ShardName = shard, sr_Do = rec\<rparr>"
  have b: "MustBuild (Some rec) (WithShardName shard (InControllerRing ring (For (Some ''Website'') (NewShardedReconciler (Some c))))) = Some ?b"
    using assms(2,3) by (simp add: MustBuild_def Build_def WithShardName_def InControllerRing_def For_def NewShardedReconciler_def WithClient_def)
  obtain st where st: "SetupWithManager pl c rec None getenv True ring shard = Some (Inr st)" "wse_Reconciler st = shard_Reconcile ?b"
      "\<exists>p. wse_WebsitePredicate st = shard_Predicate pl ring shard [p]"
    by (simp add: SetupWithManager_def b Let_def) blast
  show thesis
  proof (rule that [OF st(1)])
    show "wse_Reconciler st req w = (Inr no_requeue, w)" if "oc_Get c w ''Website'' req = Inr obj" "\<not> assigned_to ring shard obj" for req w obj
      using that by (simp add: st(2) shard_Reconcile_eq)
    show "wse_WebsitePredicate st e" if "map_has (om_Labels (obj_meta (event_object e))) (LabelDrain ring)" for e
      using that st(3) assms(1) by (auto simp: shard_Predicate_def isDrained_def predicates_docD)
  qed
qed

end
