(* ===== verification/Webhosting_Options.thy ===== *)
theory Webhosting_Options
  imports Options Shard_Lease Website
begin

text \<open>
  Configuration and start of the webhosting operator: the types and defaults of
  \<^verbatim>\<open>webhosting-operator/pkg/apis/config/v1alpha1\<close> and the options of
  \<^verbatim>\<open>webhosting-operator/cmd/webhosting-operator/main.go\<close>, which turn the configuration, the kubeconfig
  and the environment into manager options, with the shard lease as the leader election lock and a
  cache per object kind. As in the theory \<open>Options\<close>, \<open>None\<close> is a panic, and the parts that both mains
  write in the same words (leader election, metrics) are shared.
\<close>

section \<open>Configuration\<close>

record web_config =
  wcf_ClientConnection :: "client_connection option"
  wcf_LeaderElection :: "leader_election option"
  wcf_Debugging :: "debugging option"
  wcf_Health :: health_endpoint
  wcf_Metrics :: metrics_endpoint
  wcf_GracefulShutdownTimeout :: "duration option"
  wcf_Ingress :: "ingress_configuration option"

definition zero_web_config :: web_config where
  "zero_web_config = \<lparr>wcf_ClientConnection = None, wcf_LeaderElection = None, wcf_Debugging = None,
     wcf_Health = \<lparr>he_BindAddress = []\<rparr>, wcf_Metrics = \<lparr>me_BindAddress = []\<rparr>, wcf_GracefulShutdownTimeout = None,
     wcf_Ingress = None\<rparr>"

definition SetDefaults_WebhostingOperatorConfig :: "web_config \<Rightarrow> web_config" where
  "SetDefaults_WebhostingOperatorConfig obj =
     (let obj = (if wcf_ClientConnection obj = None then obj\<lparr>wcf_ClientConnection := Some \<lparr>cc_QPS = 0, cc_Burst = 0\<rparr>\<rparr> else obj);
          obj = (if wcf_LeaderElection obj = None then obj\<lparr>wcf_LeaderElection := Some zero_leader_election\<rparr> else obj);
          obj = (if wcf_Debugging obj = None
            then obj\<lparr>wcf_Debugging := Some \<lparr>dbg_EnableProfiling = None, dbg_EnableContentionProfiling = None\<rparr>\<rparr> else obj)
      in if wcf_GracefulShutdownTimeout obj = None then obj\<lparr>wcf_GracefulShutdownTimeout := Some (15 * Second)\<rparr> else obj)"

definition web_SetDefaults_LeaderElectionConfiguration :: "config_lib \<Rightarrow> leader_election \<Rightarrow> leader_election" where
  "web_SetDefaults_LeaderElectionConfiguration cl obj =
     (let obj = (if le_ResourceLock obj = [] then obj\<lparr>le_ResourceLock := cl_LeasesResourceLock cl\<rparr> else obj);
          obj = cl_RecommendedLeaderElection cl obj;
          obj = (if le_ResourceName obj = [] then obj\<lparr>le_ResourceName := WebhostingOperatorName\<rparr> else obj)
      in if le_ResourceNamespace obj = [] then obj\<lparr>le_ResourceNamespace := WebhostingNamespaceSystem\<rparr> else obj)"

definition web_SetDefaults_DebuggingConfiguration :: "config_lib \<Rightarrow> debugging \<Rightarrow> debugging" where
  "web_SetDefaults_DebuggingConfiguration cl obj =
     (let obj = cl_RecommendedDebugging cl obj
      in if dbg_EnableContentionProfiling obj = None then obj\<lparr>dbg_EnableContentionProfiling := Some False\<rparr> else obj)"

definition web_SetDefaults_HealthEndpoint :: "health_endpoint \<Rightarrow> health_endpoint" where
  "web_SetDefaults_HealthEndpoint obj = (if he_BindAddress obj = [] then obj\<lparr>he_BindAddress := '':8081''\<rparr> else obj)"

definition web_SetDefaults_MetricsEndpoint :: "metrics_endpoint \<Rightarrow> metrics_endpoint" where
  "web_SetDefaults_MetricsEndpoint obj = (if me_BindAddress obj = [] then obj\<lparr>me_BindAddress := '':8080''\<rparr> else obj)"

definition SetObjectDefaults_WebhostingOperatorConfig :: "config_lib \<Rightarrow> web_config \<Rightarrow> web_config" where
  "SetObjectDefaults_WebhostingOperatorConfig cl c =
     (let c = SetDefaults_WebhostingOperatorConfig c;
          c = c\<lparr>wcf_LeaderElection := map_option (web_SetDefaults_LeaderElectionConfiguration cl) (wcf_LeaderElection c)\<rparr>;
          c = c\<lparr>wcf_Debugging := map_option (web_SetDefaults_DebuggingConfiguration cl) (wcf_Debugging c)\<rparr>;
          c = c\<lparr>wcf_Health := web_SetDefaults_HealthEndpoint (wcf_Health c)\<rparr>
      in c\<lparr>wcf_Metrics := web_SetDefaults_MetricsEndpoint (wcf_Metrics c)\<rparr>)"

section \<open>Options\<close>

record web_env =
  wev_ReadFile :: "string \<Rightarrow> go_error + string"
  wev_DecodeInto :: "string \<Rightarrow> go_error + web_config"
  wev_GetConfig :: "go_error + rest_config"
  wev_LookupEnv :: "string \<Rightarrow> string option"
  wev_os :: os_env

record web_options =
  wop_config :: web_config
  wop_restConfig :: rest_config
  wop_managerOptions :: "unit manager_options"
  wop_enableSharding :: bool
  wop_controllerRingName :: string
  wop_shardName :: string
  wop_lock :: "lease_lock option"
  wop_ByObject :: "(string \<times> selector) list"
  wop_blockProfile :: bool

definition web_applyConfigToOptions :: "web_config \<Rightarrow> unit manager_options \<Rightarrow> (unit manager_options \<times> bool) option" where
  "web_applyConfigToOptions config mo =
     (case apply_leader_election (wcf_LeaderElection config) mo of
        None \<Rightarrow> None
      | Some mo \<Rightarrow>
          (let mo = mo\<lparr>mo_HealthProbeBindAddress := he_BindAddress (wcf_Health config)\<rparr> in
           case apply_metrics (wcf_Metrics config) (wcf_Debugging config) mo of
             None \<Rightarrow> None
           | Some (mo, rate) \<Rightarrow>
               (case wcf_GracefulShutdownTimeout config of
                  None \<Rightarrow> None
                | Some t \<Rightarrow> Some (mo\<lparr>mo_GracefulShutdownTimeout := Some t\<rparr>, rate))))"

text \<open>An environment variable that overrides a switch.\<close>

definition override_bool :: "web_env \<Rightarrow> string \<Rightarrow> bool \<Rightarrow> go_error + bool" where
  "override_bool env name b =
     (case wev_LookupEnv env name of
        None \<Rightarrow> Inr b
      | Some s \<Rightarrow>
          (case ParseBool s of
             Inl err \<Rightarrow> Inl (wrapf (''error parsing '' @ name @ '' env var'') err)
           | Inr v \<Rightarrow> Inr v))"

definition web_applyOptionsOverrides :: "web_env \<Rightarrow> web_options \<Rightarrow> go_error + web_options" where
  "web_applyOptionsOverrides env o' =
     (case override_bool env ''LEADER_ELECT'' (mo_LeaderElection (wop_managerOptions o')) of
        Inl err \<Rightarrow> Inl err
      | Inr elect \<Rightarrow>
          (let o' = o'\<lparr>wop_managerOptions := (wop_managerOptions o')\<lparr>mo_LeaderElection := elect\<rparr>\<rparr> in
           case override_bool env ''ENABLE_SHARDING'' (wop_enableSharding o') of
             Inl err \<Rightarrow> Inl err
           | Inr sharding \<Rightarrow>
               (let o' = o'\<lparr>wop_enableSharding := sharding\<rparr> in
                if \<not> sharding then Inr o'
                else if \<not> mo_LeaderElection (wop_managerOptions o')
                then Inl (errorf ''sharding cannot be enabled if leader election is disabled'')
                else
                  (let o' = o'\<lparr>wop_controllerRingName := WebhostingOperatorName\<rparr> in
                   case NewResourceLock (wev_os env) \<lparr>lo_ControllerRingName = wop_controllerRingName o', lo_LeaseNamespace = [],
                       lo_ShardName = []\<rparr> of
                     Inl err \<Rightarrow> Inl (wrapf ''failed creating shard lease'' err)
                   | Inr shardLease \<Rightarrow>
                       (let o' = o'\<lparr>wop_shardName := lock_Identity shardLease, wop_lock := Some shardLease\<rparr>;
                            shardLabelSelector = SelectorFromSet [(LabelShard (wop_controllerRingName o'), wop_shardName o')]
                        in Inr (o'\<lparr>wop_ByObject := [(''Website'', shardLabelSelector), (''Deployment'', shardLabelSelector),
                             (''ConfigMap'', shardLabelSelector), (''Service'', shardLabelSelector),
                             (''Ingress'', shardLabelSelector)]\<rparr>))))))"

definition web_load_config :: "config_lib \<Rightarrow> web_env \<Rightarrow> string \<Rightarrow> go_error + web_config" where
  "web_load_config cl env configFile =
     (if configFile \<noteq> [] then
        (case wev_ReadFile env configFile of
           Inl err \<Rightarrow> Inl (wrapf ''failed reading config file'' err)
         | Inr configBytes \<Rightarrow>
             (case wev_DecodeInto env configBytes of
                Inl err \<Rightarrow> Inl (wrapf ''failed decoding config file'' err)
              | Inr config \<Rightarrow> Inr config))
      else Inr (SetObjectDefaults_WebhostingOperatorConfig cl zero_web_config))"

text \<open>The operator has its own copies of two functions of the sharder's options.\<close>

definition web_applyConfigToRESTConfig :: "client_connection option \<Rightarrow> rest_config \<Rightarrow> rest_config" where
  "web_applyConfigToRESTConfig clientConnection restConfig =
     (case clientConnection of
        None \<Rightarrow> restConfig
      | Some cc \<Rightarrow>
          (let restConfig = (if 0 < cc_QPS cc then restConfig\<lparr>rc_QPS := cc_QPS cc\<rparr> else restConfig)
           in if 0 < cc_Burst cc then restConfig\<lparr>rc_Burst := cc_Burst cc\<rparr> else restConfig))"

fun web_dropUnwantedMetadata :: "cache_item \<Rightarrow> cache_item" where
  "web_dropUnwantedMetadata (OtherItem i) = OtherItem i"
| "web_dropUnwantedMetadata (ClientObject obj) =
     ClientObject (obj\<lparr>ca_ManagedFields := None,
       ca_Meta := (ca_Meta obj)\<lparr>om_Annotations := map_delete lastApplied (om_Annotations (ca_Meta obj))\<rparr>\<rparr>)"

definition web_Complete :: "config_lib \<Rightarrow> web_env \<Rightarrow> string \<Rightarrow> (go_error + web_options) option" where
  "web_Complete cl env configFile =
     (case web_load_config cl env configFile of
        Inl err \<Rightarrow> Some (Inl err)
      | Inr config \<Rightarrow>
          (case wev_GetConfig env of
             Inl err \<Rightarrow> Some (Inl (wrapf ''failed loading kubeconfig'' err))
           | Inr restConfig \<Rightarrow>
               (let mo = zero_manager_options\<lparr>mo_LeaderElectionReleaseOnCancel := True,
                      mo_Cache := \<lparr>co_DropMetadata = True, co_Leases = None\<rparr>\<rparr>;
                    restConfig = web_applyConfigToRESTConfig (wcf_ClientConnection config) restConfig in
                case web_applyConfigToOptions config mo of
                  None \<Rightarrow> None
                | Some (mo, rate) \<Rightarrow>
                    Some (web_applyOptionsOverrides env \<lparr>wop_config = config, wop_restConfig = restConfig,
                      wop_managerOptions = mo, wop_enableSharding = False, wop_controllerRingName = [], wop_shardName = [],
                      wop_lock = None, wop_ByObject = [], wop_blockProfile = rate\<rparr>))))"

section \<open>Lemmas\<close>

lemma web_default_fields:
  "wcf_LeaderElection (SetObjectDefaults_WebhostingOperatorConfig cl c) =
     Some (web_SetDefaults_LeaderElectionConfiguration cl (case wcf_LeaderElection c of None \<Rightarrow> zero_leader_election | Some x \<Rightarrow> x))"
  "wcf_Debugging (SetObjectDefaults_WebhostingOperatorConfig cl c) =
     Some (web_SetDefaults_DebuggingConfiguration cl (case wcf_Debugging c of
       None \<Rightarrow> \<lparr>dbg_EnableProfiling = None, dbg_EnableContentionProfiling = None\<rparr> | Some x \<Rightarrow> x))"
  "wcf_GracefulShutdownTimeout (SetObjectDefaults_WebhostingOperatorConfig cl c) =
     Some (case wcf_GracefulShutdownTimeout c of None \<Rightarrow> 15 * Second | Some x \<Rightarrow> x)"
  "wcf_Ingress (SetObjectDefaults_WebhostingOperatorConfig cl c) = wcf_Ingress c"
  by (auto simp: SetObjectDefaults_WebhostingOperatorConfig_def SetDefaults_WebhostingOperatorConfig_def Let_def split: option.splits)

lemma web_debugging_eq: "web_SetDefaults_DebuggingConfiguration = SetDefaults_DebuggingConfiguration"
  by (simp add: fun_eq_iff web_SetDefaults_DebuggingConfiguration_def SetDefaults_DebuggingConfiguration_def)

lemma web_defaulted_config_applies:
  assumes "recommended_doc cl"
  shows "\<exists>mo' rate. web_applyConfigToOptions (SetObjectDefaults_WebhostingOperatorConfig cl c) mo = Some (mo', rate)"
proof -
  let ?config = "SetObjectDefaults_WebhostingOperatorConfig cl c"
  let ?le = "case wcf_LeaderElection c of None \<Rightarrow> zero_leader_election | Some x \<Rightarrow> x"
  let ?d = "case wcf_Debugging c of None \<Rightarrow> \<lparr>dbg_EnableProfiling = None, dbg_EnableContentionProfiling = None\<rparr> | Some x \<Rightarrow> x"
  have "\<exists>b. le_LeaderElect (web_SetDefaults_LeaderElectionConfiguration cl ?le) = Some b"
    using recommended_docD(1) [OF assms] by (simp add: web_SetDefaults_LeaderElectionConfiguration_def Let_def)
  then obtain mo1 where mo1: "apply_leader_election (wcf_LeaderElection ?config) mo = Some mo1"
    by (auto simp: web_default_fields apply_leader_election_def)
  obtain b b' where "dbg_EnableProfiling (SetDefaults_DebuggingConfiguration cl ?d) = Some b"
      "dbg_EnableContentionProfiling (SetDefaults_DebuggingConfiguration cl ?d) = Some b'"
    using debugging_defaults_set [OF assms, of ?d] by blast
  then have "\<exists>r. profiling_handlers (wcf_Debugging ?config) = Some r"
    by (cases b) (auto simp: web_default_fields web_debugging_eq profiling_handlers_def)
  then have "\<exists>mo2 rate. apply_metrics (wcf_Metrics ?config) (wcf_Debugging ?config) mo' = Some (mo2, rate)" for mo' :: "unit manager_options"
    by (auto simp: apply_metrics_def)
  then obtain mo2 rate where "apply_metrics (wcf_Metrics ?config) (wcf_Debugging ?config)
      (mo1\<lparr>mo_HealthProbeBindAddress := he_BindAddress (wcf_Health ?config)\<rparr>) = Some (mo2, rate)" by blast
  with mo1 show ?thesis by (simp add: web_applyConfigToOptions_def web_default_fields Let_def)
qed

section \<open>Properties\<close>

text \<open>A sharded operator is set up consistently: if it starts with sharding enabled, leader election is on
  and uses the lease of the shard; the lease's name is its identity, the shard name of the controller and
  the value that the caches of all five sharded kinds select by; the controller built from these options
  does not panic. Themes, which are not sharded, have no selector.\<close>

theorem sharded_operator_consistent:
  assumes "web_Complete cl env configFile = Some (Inr opts)" and "wop_enableSharding opts" and "os_Hostname (wev_os env) \<noteq> Inr []"
  shows "mo_LeaderElection (wop_managerOptions opts) \<and>
    (\<exists>lock. wop_lock opts = Some lock \<and> lock_Identity lock = wop_shardName opts \<and> om_Name (ll_LeaseMeta lock) = wop_shardName opts \<and>
       ll_Labels lock = [(LabelControllerRing, wop_controllerRingName opts)]) \<and>
    (\<forall>kind sel. (kind, sel) \<in> set (wop_ByObject opts) \<longleftrightarrow> kind \<in> {''Website'', ''Deployment'', ''ConfigMap'', ''Service'', ''Ingress''} \<and>
       sel = SelectorFromSet [(LabelShard (wop_controllerRingName opts), wop_shardName opts)]) \<and>
    SetupWithManager pl c rec ie getenv True (wop_controllerRingName opts) (wop_shardName opts) \<noteq> None"
proof -
  obtain o1 where o1: "web_applyOptionsOverrides env o1 = Inr opts" "wop_enableSharding o1 = False"
    using assms(1) by (auto simp: web_Complete_def Let_def split: sum.splits option.splits prod.splits)
  then obtain lock elect where lock: "NewResourceLock (wev_os env) \<lparr>lo_ControllerRingName = WebhostingOperatorName, lo_LeaseNamespace = [], lo_ShardName = []\<rparr> = Inr lock"
    and opts: "mo_LeaderElection (wop_managerOptions opts)" "wop_controllerRingName opts = WebhostingOperatorName" "wop_lock opts = Some lock"
      "wop_shardName opts = lock_Identity lock" "wop_ByObject opts = map (\<lambda>k. (k, SelectorFromSet [(LabelShard WebhostingOperatorName, lock_Identity lock)]))
         [''Website'', ''Deployment'', ''ConfigMap'', ''Service'', ''Ingress'']"
    using assms(2) by (auto simp: web_applyOptionsOverrides_def Let_def split: sum.splits if_splits)
  have l: "om_Name (ll_LeaseMeta lock) = lock_Identity lock" "ll_Labels lock = [(LabelControllerRing, WebhostingOperatorName)]" "lock_Identity lock \<noteq> []"
    using lock assms(3) by (auto simp: NewResourceLock_def lock_Identity_def split: option.splits sum.splits if_splits)
  have "SetupWithManager pl c rec ie getenv True WebhostingOperatorName (lock_Identity lock) \<noteq> None"
    using l(3) by (simp add: SetupWithManager_def MustBuild_def Build_def WithShardName_def InControllerRing_def For_def NewShardedReconciler_def
        WithClient_def WebhostingOperatorName_def Let_def split: option.splits)
  with opts l show ?thesis by auto
qed

definition sample_web_env :: web_env where
  "sample_web_env = \<lparr>wev_ReadFile = \<lambda>_. Inr [], wev_DecodeInto = \<lambda>_. Inr zero_web_config, wev_GetConfig = Inr \<lparr>rc_QPS = 20, rc_Burst = 30\<rparr>,
     wev_LookupEnv = \<lambda>_. Some ''true'',
     wev_os = \<lparr>os_NewClient = None, os_Hostname = Inr ''host-0'', os_Stat = \<lambda>_. StatOk, os_ReadFile = \<lambda>_. Inr ''webhosting-system''\<rparr>\<rparr>"

lemma sample_web_complete:
  "\<exists>opts. web_Complete std_config_lib sample_web_env [] = Some (Inr opts) \<and> wop_enableSharding opts \<and> wop_shardName opts = ''host-0''"
proof -
  let ?mo = "zero_manager_options\<lparr>mo_LeaderElectionReleaseOnCancel := True, mo_Cache := \<lparr>co_DropMetadata = True, co_Leases = None\<rparr>\<rparr>"
  obtain mo rate where "web_applyConfigToOptions (SetObjectDefaults_WebhostingOperatorConfig std_config_lib zero_web_config) ?mo = Some (mo, rate)"
    using web_defaulted_config_applies [OF std_config_lib_doc] by blast
  then show ?thesis
    by (simp add: web_Complete_def web_load_config_def sample_web_env_def web_applyOptionsOverrides_def override_bool_def ParseBool_def
        NewResourceLock_def getInClusterNamespace_def lock_Identity_def WebhostingOperatorName_def Let_def)
qed

lemma sharded_operator_consistent_witness:
  "\<exists>opts. web_Complete std_config_lib sample_web_env [] = Some (Inr opts) \<and>
     (''Website'', SelectorFromSet [(LabelShard (wop_controllerRingName opts), ''host-0'')]) \<in> set (wop_ByObject opts)"
proof -
  obtain opts where opts: "web_Complete std_config_lib sample_web_env [] = Some (Inr opts)" "wop_enableSharding opts" "wop_shardName opts = ''host-0''"
    using sample_web_complete by blast
  have "os_Hostname (wev_os sample_web_env) \<noteq> Inr []" by (simp add: sample_web_env_def)
  from sharded_operator_consistent [OF opts(1,2) this, of std_pred_lib undefined undefined None "\<lambda>_. []"] opts(1,3) show ?thesis by auto
qed

text \<open>As for the sharder, the bind address \<^verbatim>\<open>0\<close> does not disable the metrics server.\<close>

theorem web_metrics_disable_is_ignored:
  assumes "metrics_server_doc serve" and "web_Complete cl env configFile = Some (Inr opts)"
    and "me_BindAddress (wcf_Metrics (wop_config opts)) = ''0''"
  shows "serve (mo_Metrics (wop_managerOptions opts)) = Some '':8080''"
proof -
  let ?mo = "zero_manager_options\<lparr>mo_LeaderElectionReleaseOnCancel := True, mo_Cache := \<lparr>co_DropMetadata = True, co_Leases = None\<rparr>\<rparr>"
  obtain config mo rate rest where mo: "web_applyConfigToOptions config ?mo = Some (mo, rate)"
      "web_applyOptionsOverrides env \<lparr>wop_config = config, wop_restConfig = rest, wop_managerOptions = mo, wop_enableSharding = False,
         wop_controllerRingName = [], wop_shardName = [], wop_lock = None, wop_ByObject = [], wop_blockProfile = rate\<rparr> = Inr opts"
    using assms(2) by (auto simp: web_Complete_def Let_def split: sum.splits option.splits prod.splits)
  from mo(2) have opts: "wop_config opts = config" "mo_Metrics (wop_managerOptions opts) = mo_Metrics mo"
    by (auto simp: web_applyOptionsOverrides_def Let_def split: sum.splits if_splits)
  with assms(3) mo(1) have "mo_Metrics mo = zero_metrics_options"
    by (auto simp: web_applyConfigToOptions_def apply_metrics_def apply_leader_election_def zero_manager_options_def Let_def split: option.splits)
  with assms(1) opts(2) show ?thesis by (simp add: metrics_server_doc_def zero_metrics_options_def)
qed

end
