(* ===== verification/Webhosting_Metrics.thy ===== *)
theory Webhosting_Metrics
  imports Exporter Webhosting_Types
begin

text \<open>
  The state metrics of the webhosting operator, \<^verbatim>\<open>webhosting-operator/pkg/metrics\<close>: two instances of
  the generic exporter of the theory \<open>Exporter\<close>, for websites and for themes. Adding an exporter to a
  manager may fail, which is a parameter.
\<close>

definition webhosting_namespace :: string where
  "webhosting_namespace = ''kube''"

definition ThemeExporter :: "theme exporter" where
  "ThemeExporter = \<lparr>e_Namespace = webhosting_namespace, e_Subsystem = ''theme'',
     e_StaticLabelKeys = [''theme'', ''uid''],
     e_GenerateStaticLabelValues = \<lambda>t. [om_Name (th_Meta t), om_UID (th_Meta t)],
     e_Metrics =
       [\<lparr>m_Name = ''info'', m_Help = ''Information about a Theme'', m_LabelKeys = [''color'', ''font_family''],
         m_Generate = gauge (\<lambda>_. 1) (\<lambda>t. [ts_Color (th_Spec t), ts_FontFamily (th_Spec t)]), m_desc = None\<rparr>,
        \<lparr>m_Name = ''metadata_generation'', m_Help = ''The generation of a Theme'', m_LabelKeys = [],
         m_Generate = gauge (\<lambda>t. om_Generation (th_Meta t)) (\<lambda>_. []), m_desc = None\<rparr>],
     e_HasLabels = []\<rparr>"

definition WebsiteExporter :: "website exporter" where
  "WebsiteExporter = \<lparr>e_Namespace = webhosting_namespace, e_Subsystem = ''website'',
     e_StaticLabelKeys = [''namespace'', ''website'', ''uid''],
     e_GenerateStaticLabelValues = \<lambda>w. [om_Namespace (web_Meta w), om_Name (web_Meta w), om_UID (web_Meta w)],
     e_Metrics =
       [\<lparr>m_Name = ''info'', m_Help = ''Information about a Website'', m_LabelKeys = [''theme''],
         m_Generate = gauge (\<lambda>_. 1) (\<lambda>w. [wsp_Theme (web_Spec w)]), m_desc = None\<rparr>,
        \<lparr>m_Name = ''shard'', m_Help = ''Sharding information about a Website'', m_LabelKeys = [''shard'', ''drain''],
         m_Generate = gauge (\<lambda>_. 1) (\<lambda>w. [map_get (om_Labels (web_Meta w)) (LabelShard WebhostingOperatorName),
           map_get (om_Labels (web_Meta w)) (LabelDrain WebhostingOperatorName)]), m_desc = None\<rparr>,
        \<lparr>m_Name = ''metadata_generation'', m_Help = ''The generation of a Website'', m_LabelKeys = [],
         m_Generate = gauge (\<lambda>w. om_Generation (web_Meta w)) (\<lambda>_. []), m_desc = None\<rparr>,
        \<lparr>m_Name = ''observed_generation'', m_Help = ''The latest generation observed by the Website controller'', m_LabelKeys = [],
         m_Generate = gauge (\<lambda>w. wst_ObservedGeneration (web_Status w)) (\<lambda>_. []), m_desc = None\<rparr>,
        \<lparr>m_Name = ''status_phase'', m_Help = ''The Website's current phase (StateSet)'', m_LabelKeys = [''phase''],
         m_Generate = GenerateStateSet (KnownStates AllWebsitePhases) None (\<lambda>w. wst_Phase (web_Status w)), m_desc = None\<rparr>],
     e_HasLabels = []\<rparr>"

definition webhosting_metrics_AddToManager ::
  "(website exporter \<Rightarrow> go_error option) \<Rightarrow> (theme exporter \<Rightarrow> go_error option) \<Rightarrow> go_error option"
where
  "webhosting_metrics_AddToManager addWebsite addTheme =
     (case addWebsite WebsiteExporter of
        Some err \<Rightarrow> Some (wrapf ''failed to add website exporter'' err)
      | None \<Rightarrow>
          (case addTheme ThemeExporter of
             Some err \<Rightarrow> Some (wrapf ''failed to add theme exporter'' err)
           | None \<Rightarrow> None))"

section \<open>Properties\<close>

lemma webhosting_metrics_total:
  "list_all (total_metric WebsiteExporter) (e_Metrics WebsiteExporter)"
  "list_all (total_metric ThemeExporter) (e_Metrics ThemeExporter)"
  by (simp_all add: WebsiteExporter_def ThemeExporter_def total_metric_def gauge_def MustNewConstMetric_def GenerateStateSet_eq)

text \<open>Collecting the metrics of websites and themes never panics, and the phase metric of a website has
  one sample per known phase, of which exactly one is 1 if the phase is known and none otherwise.\<close>

theorem webhosting_exporters_never_panic:
  "(\<exists>xs. exporter_Collect visit_items t (exporter_AddToManager fq WebsiteExporter) websites = Some xs) \<and>
   (\<exists>xs. exporter_Collect visit_items t (exporter_AddToManager fq ThemeExporter) themes = Some xs) \<and>
   (length (d_labels desc) = 4 \<longrightarrow> (\<exists>xs. m_Generate (last (e_Metrics WebsiteExporter)) desc w (e_GenerateStaticLabelValues WebsiteExporter w) = Some xs \<and>
      length xs = 4 \<and> sum_list (map metric_value xs) = (if wst_Phase (web_Status w) \<in> set AllWebsitePhases then 1 else 0)))"
  using Collect_total [OF webhosting_metrics_total(1), of t fq websites] Collect_total [OF webhosting_metrics_total(2), of t fq themes]
  by (simp add: WebsiteExporter_def GenerateStateSet_eq KnownStates_def AllWebsitePhases_def PhasePending_def PhaseReady_def PhaseError_def
      PhaseTerminating_def) auto

end
