(* ===== verification/Progress.thy ===== *)
theory Progress
  imports Main
begin

text \<open>
  The contract of a concurrent routine that always comes to an end: an invariant of its steps, a measure
  that every step decreases, and a step from every state that is not final. The concurrent parts of the
  program (the latency tracker, the load generator) are instances.
\<close>

locale progressing =
  fixes step :: "'s \<Rightarrow> 's \<Rightarrow> bool" and inv :: "'s \<Rightarrow> bool" and final :: "'s \<Rightarrow> bool" and msr :: "'s \<Rightarrow> nat"
  assumes inv_step: "inv s \<Longrightarrow> step s s' \<Longrightarrow> inv s'"
    and decreases: "inv s \<Longrightarrow> step s s' \<Longrightarrow> msr s' < msr s"
    and progress: "inv s \<Longrightarrow> \<not> final s \<Longrightarrow> \<exists>s'. step s s'"
begin

lemma inv_run: "step\<^sup>*\<^sup>* s s' \<Longrightarrow> inv s \<Longrightarrow> inv s'"
  by (induction rule: rtranclp_induct) (auto intro: inv_step)

lemma ends: "inv s \<Longrightarrow> \<exists>s'. step\<^sup>*\<^sup>* s s' \<and> final s'"
proof (induction "msr s" arbitrary: s rule: less_induct)
  case less
  show ?case
  proof (cases "final s")
    case False
    then obtain s1 where s1: "step s s1" using progress [OF less.prems] by blast
    from less.hyps [OF decreases [OF less.prems s1] inv_step [OF less.prems s1]] obtain s2
      where "step\<^sup>*\<^sup>* s1 s2" "final s2" by blast
    then show ?thesis using converse_rtranclp_into_rtranclp [of step, OF s1] by blast
  qed blast
qed

lemma run_length: "inv s \<Longrightarrow> (step ^^ k) s s' \<Longrightarrow> k + msr s' \<le> msr s"
proof (induction k arbitrary: s')
  case (Suc k)
  from Suc.prems(2) obtain s1 where s1: "(step ^^ k) s s1" "step s1 s'" by auto
  have "inv s1" using inv_run [OF relpowp_imp_rtranclp [OF s1(1)] Suc.prems(1)] .
  from Suc.IH [OF Suc.prems(1) s1(1)] decreases [OF this s1(2)] show ?case by simp
qed simp

end

end
