(* ===== verification/Tracker.thy ===== *)
theory Tracker
  imports Predicates Progress "HOL-Library.Multiset"
begin

text \<open>
  Latency measurement of the experiments, \<^verbatim>\<open>webhosting-operator/pkg/experiment/tracker\<close>: the generic map
  with its double-checked locking (\<^verbatim>\<open>tracker.go\<close>) and the website tracker (\<^verbatim>\<open>website.go\<close>). A map is an
  association list with distinct keys, in iteration order; the pointers it stores are its values, so that
  mutating a value is updating the entry. A zero \<^verbatim>\<open>time.Time\<close> is \<open>None\<close>. Observations of the histogram
  are a list of durations, the backfill counter a number.
\<close>

section \<open>The generic tracker\<close>

type_synonym ('k, 'v) tracker = "('k \<times> 'v) list"

fun lookup_value :: "'k \<Rightarrow> ('k, 'v) tracker \<Rightarrow> 'v option" where
  "lookup_value k [] = None"
| "lookup_value k ((k', v) # t) = (if k' = k then Some v else lookup_value k t)"

fun mutate_value :: "'k \<Rightarrow> ('v \<Rightarrow> 'v) \<Rightarrow> ('k, 'v) tracker \<Rightarrow> ('k, 'v) tracker" where
  "mutate_value k f [] = []"
| "mutate_value k f ((k', v) # t) = (if k' = k then (k', f v) # t else (k', v) # mutate_value k f t)"

definition tracker_set :: "'v \<Rightarrow> 'k \<Rightarrow> ('v \<Rightarrow> 'v) \<Rightarrow> ('k, 'v) tracker \<Rightarrow> ('k, 'v) tracker" where
  "tracker_set new key mutate t =
     (case lookup_value key t of
        Some v \<Rightarrow> mutate_value key mutate t
      | None \<Rightarrow> t @ [(key, mutate new)])"

definition sortedValues :: "('k::linorder, 'v) tracker \<Rightarrow> 'v list" where
  "sortedValues t = map (\<lambda>k. the (lookup_value k t)) (sort (map fst t))"

text \<open>
  Concurrent calls of \<^verbatim>\<open>set\<close>: a call first looks under the read lock, and only if the key is missing
  takes the write lock and looks again. A value synchronizes its own mutation, so each locked section is
  one step. The state is the map, the calls that have not started and those between the two locks.
\<close>

type_synonym ('k, 'v) set_call = "'k \<times> ('v \<Rightarrow> 'v)"

record ('k, 'v) set_state =
  ss_values :: "('k, 'v) tracker"
  ss_waiting :: "('k, 'v) set_call list"
  ss_upgrading :: "('k, 'v) set_call list"

inductive set_step :: "'v \<Rightarrow> ('k, 'v) set_state \<Rightarrow> ('k, 'v) set_state \<Rightarrow> bool" for new where
  fast_path: "ss_waiting s = xs @ (key, mutate) # ys \<Longrightarrow> lookup_value key (ss_values s) = Some v \<Longrightarrow>
     set_step new s (s\<lparr>ss_values := mutate_value key mutate (ss_values s), ss_waiting := xs @ ys\<rparr>)"
| release_read_lock: "ss_waiting s = xs @ (key, mutate) # ys \<Longrightarrow> lookup_value key (ss_values s) = None \<Longrightarrow>
     set_step new s (s\<lparr>ss_waiting := xs @ ys, ss_upgrading := (key, mutate) # ss_upgrading s\<rparr>)"
| recheck_hit: "ss_upgrading s = xs @ (key, mutate) # ys \<Longrightarrow> lookup_value key (ss_values s) = Some v \<Longrightarrow>
     set_step new s (s\<lparr>ss_values := mutate_value key mutate (ss_values s), ss_upgrading := xs @ ys\<rparr>)"
| add_key: "ss_upgrading s = xs @ (key, mutate) # ys \<Longrightarrow> lookup_value key (ss_values s) = None \<Longrightarrow>
     set_step new s (s\<lparr>ss_values := ss_values s @ [(key, mutate new)], ss_upgrading := xs @ ys\<rparr>)"

definition set_init :: "('k, 'v) tracker \<Rightarrow> ('k, 'v) set_call list \<Rightarrow> ('k, 'v) set_state" where
  "set_init t calls = \<lparr>ss_values = t, ss_waiting = calls, ss_upgrading = []\<rparr>"

section \<open>Generations\<close>

record generationTimes =
  gt_created :: "time option"
  gt_ready :: "time option"
  gt_recorded :: bool

definition new_generationTimes :: generationTimes where
  "new_generationTimes = \<lparr>gt_created = None, gt_ready = None, gt_recorded = False\<rparr>"

type_synonym objectGenerations = "(int, generationTimes) tracker"

definition newGenerationsTracker :: objectGenerations where "newGenerationsTracker = []"

type_synonym objectsTracker = "(string, objectGenerations) tracker"

definition newObjectsTracker :: objectsTracker where "newObjectsTracker = []"

definition setGenerationCreated :: "int \<Rightarrow> time \<Rightarrow> objectGenerations \<Rightarrow> objectGenerations" where
  "setGenerationCreated generation t o' = tracker_set new_generationTimes generation
     (\<lambda>times. if gt_created times \<noteq> None then times else times\<lparr>gt_created := Some t\<rparr>) o'"

definition setGenerationReady :: "int \<Rightarrow> time \<Rightarrow> objectGenerations \<Rightarrow> objectGenerations" where
  "setGenerationReady generation t o' = tracker_set new_generationTimes generation
     (\<lambda>times. if gt_ready times \<noteq> None then times else times\<lparr>gt_ready := Some t\<rparr>) o'"

text \<open>The loop from the last generation to the first, with the ready time to copy and the counter.\<close>

fun backfillGenerations :: "generationTimes list \<Rightarrow> generationTimes list \<times> time option \<times> nat" where
  "backfillGenerations [] = ([], None, 0)"
| "backfillGenerations (g # gg) =
     (let (gg, newerReadyTime, backfilled) = backfillGenerations gg in
      if gt_recorded g then (g # gg, newerReadyTime, backfilled)
      else if gt_ready g = None then (g\<lparr>gt_ready := newerReadyTime\<rparr> # gg, newerReadyTime, Suc backfilled)
      else (g # gg, gt_ready g, backfilled))"

fun recordNewReadyGenerations :: "generationTimes list \<Rightarrow> bool \<times> duration list \<times> generationTimes list" where
  "recordNewReadyGenerations [] = (True, [], [])"
| "recordNewReadyGenerations (g # gg) =
     (let (finished, latencies, gg) = recordNewReadyGenerations gg in
      if gt_recorded g then (finished, latencies, g # gg)
      else
        (case (gt_created g, gt_ready g) of
           (Some created, Some ready) \<Rightarrow> (finished, time_Sub ready created # latencies, g\<lparr>gt_recorded := True\<rparr> # gg)
         | _ \<Rightarrow> (False, latencies, g # gg)))"

text \<open>The values of the sorted keys, written back after they were changed.\<close>

fun put_values :: "'k list \<Rightarrow> 'v list \<Rightarrow> ('k, 'v) tracker \<Rightarrow> ('k, 'v) tracker" where
  "put_values (k # ks) (v # vs) t = put_values ks vs (mutate_value k (\<lambda>_. v) t)"
| "put_values _ _ t = t"

record reconcile_outcome =
  ro_Requeue :: bool
  ro_latencies :: "duration list"
  ro_backfilled :: nat

definition generations_reconcile :: "objectGenerations \<Rightarrow> reconcile_outcome \<times> objectGenerations" where
  "generations_reconcile o' =
     (let generations = sortedValues o';
          (generations, _, backfilled) = backfillGenerations generations;
          (finished, latencies, generations) = recordNewReadyGenerations generations
      in (\<lparr>ro_Requeue = \<not> finished, ro_latencies = latencies, ro_backfilled = backfilled\<rparr>,
          put_values (sort (map fst o')) generations o'))"

section \<open>The website tracker\<close>

definition RecordSpecChange :: "time \<Rightarrow> website \<Rightarrow> objectsTracker \<Rightarrow> objectsTracker" where
  "RecordSpecChange now website objs = tracker_set newGenerationsTracker (om_UID (web_Meta website))
     (\<lambda>generations. setGenerationCreated (om_Generation (web_Meta website)) now generations) objs"

definition recordStatusGeneration :: "time \<Rightarrow> website \<Rightarrow> objectsTracker \<Rightarrow> objectsTracker" where
  "recordStatusGeneration now website objs = tracker_set newGenerationsTracker (om_UID (web_Meta website))
     (\<lambda>generations. setGenerationReady (wst_ObservedGeneration (web_Status website)) now generations) objs"

text \<open>The event handler records the status and enqueues the UID after a second.\<close>

definition websiteHandler_Update :: "time \<Rightarrow> api_object \<Rightarrow> objectsTracker \<Rightarrow> objectsTracker \<times> (nsname \<times> duration) list" where
  "websiteHandler_Update now new objs =
     (case new of
        OWebsite website \<Rightarrow> (recordStatusGeneration now website objs, [(([], om_UID (web_Meta website)), Second)])
      | _ \<Rightarrow> (objs, []))"

definition observedNewReadyGeneration :: "pred_lib \<Rightarrow> predicate" where
  "observedNewReadyGeneration pl = pl_Funcs pl \<lparr>
     CreateFunc = Some (\<lambda>_. False),
     UpdateFunc = Some (\<lambda>old new.
       case (old, new) of
         (OWebsite oldWebsite, OWebsite website) \<Rightarrow>
           web_Status oldWebsite \<noteq> web_Status website \<and> wst_Phase (web_Status website) = PhaseReady
       | _ \<Rightarrow> False),
     DeleteFunc = Some (\<lambda>_ _. False),
     GenericFunc = Some (\<lambda>_. False)\<rparr>"

text \<open>What the predicate observes of an update in the watch latency histogram.\<close>

definition watch_latency :: "time \<Rightarrow> website \<Rightarrow> website \<Rightarrow> duration list" where
  "watch_latency now oldWebsite website =
     (case wst_LastTransitionTime (web_Status website) of
        Some t \<Rightarrow> if Some t \<noteq> wst_LastTransitionTime (web_Status oldWebsite) then [time_Sub now t] else []
      | None \<Rightarrow> [])"

definition tracker_Reconcile :: "nsname \<Rightarrow> objectsTracker \<Rightarrow> reconcile_outcome \<times> objectsTracker" where
  "tracker_Reconcile req objs =
     (let generations = (case lookup_value (snd req) objs of None \<Rightarrow> newGenerationsTracker | Some generations \<Rightarrow> generations)
      in (fst (generations_reconcile generations),
          tracker_set newGenerationsTracker (snd req) (\<lambda>generations. snd (generations_reconcile generations)) objs))"

text \<open>
  The metrics of the tracker. The buckets (in milliseconds) are aligned with the service level objective of five
  seconds; a counter has none.
\<close>

record tracker_metric =
  tm_Namespace :: string
  tm_Subsystem :: string
  tm_Name :: string
  tm_Buckets :: "nat list option"

definition buckets :: "nat list" where
  "buckets = [5, 10, 25, 50, 100, 250, 500, 1000, 2500, 5000, 10000]"

definition websiteReconciliationLatency :: tracker_metric where
  "websiteReconciliationLatency = \<lparr>tm_Namespace = ''experiment'', tm_Subsystem = ''website'', tm_Name = ''reconciliation_duration_seconds'',
     tm_Buckets = Some buckets\<rparr>"

definition websiteBackfilledGenerations :: tracker_metric where
  "websiteBackfilledGenerations = \<lparr>tm_Namespace = ''experiment'', tm_Subsystem = ''website'', tm_Name = ''backfilled_generations_total'', tm_Buckets = None\<rparr>"

definition watchLatency :: tracker_metric where
  "watchLatency = \<lparr>tm_Namespace = ''experiment'', tm_Subsystem = [], tm_Name = ''watch_latency_seconds'', tm_Buckets = Some buckets\<rparr>"

text \<open>What \<^verbatim>\<open>AddToManager\<close> sets up: an empty tracker, the registered metrics (a duplicate registration panics) and the controller.\<close>

record tracker_setup =
  tks_objects :: objectsTracker
  tks_Metrics :: "tracker_metric list"
  tks_Name :: string
  tks_Predicate :: predicate
  tks_MaxConcurrentReconciles :: int

definition tracker_AddToManager :: "pred_lib \<Rightarrow> (tracker_metric list \<Rightarrow> bool) \<Rightarrow> go_error option \<Rightarrow> (go_error + tracker_setup) option" where
  "tracker_AddToManager pl registerable completeErr =
     (let metrics = [websiteReconciliationLatency, websiteBackfilledGenerations, watchLatency] in
      if \<not> registerable metrics then None
      else case completeErr of
        Some err \<Rightarrow> Some (Inl err)
      | None \<Rightarrow> Some (Inr \<lparr>tks_objects = newObjectsTracker, tks_Metrics = metrics, tks_Name = ''website-tracker'',
          tks_Predicate = observedNewReadyGeneration pl, tks_MaxConcurrentReconciles = 5\<rparr>))"

section \<open>Lemmas on maps\<close>

lemma lookup_mutate: "lookup_value k (mutate_value k' f t) =
  (if k = k' then map_option f (lookup_value k t) else lookup_value k t)"
  by (induction t) auto

lemma lookup_append: "lookup_value k (t @ u) = (case lookup_value k t of None \<Rightarrow> lookup_value k u | Some v \<Rightarrow> Some v)"
  by (induction t) auto

lemma keys_mutate [simp]: "map fst (mutate_value k f t) = map fst t"
  by (induction t) auto

lemma lookup_None_iff: "lookup_value k t = None \<longleftrightarrow> k \<notin> fst ` set t"
  by (induction k t rule: lookup_value.induct) auto

lemma tracker_set_distinct: "distinct (map fst t) \<Longrightarrow> distinct (map fst (tracker_set new k f t))"
  by (auto simp: tracker_set_def lookup_None_iff split: option.split)

lemma lookup_tracker_set: "lookup_value k' (tracker_set new k f t) =
  (if k' = k then Some (f (case lookup_value k t of None \<Rightarrow> new | Some v \<Rightarrow> v)) else lookup_value k' t)"
  by (auto simp: tracker_set_def lookup_mutate lookup_append split: option.splits)

section \<open>Lemmas on concurrent calls\<close>

definition run_calls :: "'v \<Rightarrow> ('k, 'v) set_call list \<Rightarrow> ('k, 'v) tracker \<Rightarrow> ('k, 'v) tracker" where
  "run_calls new calls t = fold (\<lambda>(key, mutate). tracker_set new key mutate) calls t"

definition open_calls :: "('k, 'v) set_state \<Rightarrow> ('k, 'v) set_call multiset" where
  "open_calls s = mset (ss_waiting s) + mset (ss_upgrading s)"

lemma set_step_effect:
  assumes "set_step new s s'"
  shows "ss_values s' = ss_values s \<and> open_calls s' = open_calls s \<or>
    (\<exists>key mutate. ss_values s' = tracker_set new key mutate (ss_values s) \<and> open_calls s = add_mset (key, mutate) (open_calls s'))"
  using assms by cases (auto simp: open_calls_def tracker_set_def)

lemma set_run_linear:
  assumes "(set_step new)\<^sup>*\<^sup>* s s'"
  shows "\<exists>calls. open_calls s = mset calls + open_calls s' \<and> ss_values s' = run_calls new calls (ss_values s)"
  using assms
proof (induction rule: rtranclp_induct)
  case base
  show ?case by (rule exI [of _ "[]"]) (simp add: run_calls_def)
next
  case (step s1 s2)
  then obtain calls where calls: "open_calls s = mset calls + open_calls s1" "ss_values s1 = run_calls new calls (ss_values s)" by blast
  from set_step_effect [OF step.hyps(2)] show ?case
  proof
    assume "ss_values s2 = ss_values s1 \<and> open_calls s2 = open_calls s1"
    with calls show ?thesis by auto
  next
    assume "\<exists>key mutate. ss_values s2 = tracker_set new key mutate (ss_values s1) \<and> open_calls s1 = add_mset (key, mutate) (open_calls s2)"
    then obtain key mutate where "ss_values s2 = tracker_set new key mutate (ss_values s1)" "open_calls s1 = add_mset (key, mutate) (open_calls s2)" by blast
    with calls show ?thesis by (intro exI [of _ "calls @ [(key, mutate)]"]) (simp add: run_calls_def)
  qed
qed

definition set_measure :: "('k, 'v) set_state \<Rightarrow> nat" where
  "set_measure s = 2 * length (ss_waiting s) + length (ss_upgrading s)"

lemma set_step_decreases: "set_step new s s' \<Longrightarrow> set_measure s' < set_measure s"
  by (induction rule: set_step.induct) (simp_all add: set_measure_def)

lemma set_step_exists: "ss_waiting s \<noteq> [] \<or> ss_upgrading s \<noteq> [] \<Longrightarrow> \<exists>s'. set_step new s s'"
proof (elim disjE)
  assume "ss_waiting s \<noteq> []"
  then obtain key mutate ys where w: "ss_waiting s = [] @ (key, mutate) # ys" by (cases "ss_waiting s") auto
  show ?thesis
    by (cases "lookup_value key (ss_values s)") (blast intro: release_read_lock [OF w] fast_path [OF w])+
next
  assume "ss_upgrading s \<noteq> []"
  then obtain key mutate ys where u: "ss_upgrading s = [] @ (key, mutate) # ys" by (cases "ss_upgrading s") auto
  show ?thesis
    by (cases "lookup_value key (ss_values s)") (blast intro: add_key [OF u] recheck_hit [OF u])+
qed

section \<open>Lemmas on generations\<close>

text \<open>The time at which the generations of a suffix became ready: the first that is unrecorded and ready.\<close>

definition first_ready :: "generationTimes list \<Rightarrow> time option" where
  "first_ready gg = (case List.find (\<lambda>g. \<not> gt_recorded g \<and> gt_ready g \<noteq> None) gg of None \<Rightarrow> None | Some g \<Rightarrow> gt_ready g)"

lemma first_ready_simps [simp]:
  "first_ready [] = None"
  "first_ready (g # gg) = (if \<not> gt_recorded g \<and> gt_ready g \<noteq> None then gt_ready g else first_ready gg)"
  by (simp_all add: first_ready_def)

lemma backfill_newer: "fst (snd (backfillGenerations gg)) = first_ready gg"
  by (induction gg) (auto simp: Let_def split: prod.splits)

fun latencies_of :: "generationTimes list \<Rightarrow> duration list" where
  "latencies_of [] = []"
| "latencies_of (g # gg) =
     (case (gt_recorded g, gt_created g, first_ready (g # gg)) of
        (False, Some created, Some ready) \<Rightarrow> [time_Sub ready created] | _ \<Rightarrow> []) @ latencies_of gg"

fun settle :: "generationTimes list \<Rightarrow> generationTimes list" where
  "settle [] = []"
| "settle (g # gg) =
     (if gt_recorded g then g
      else g\<lparr>gt_ready := first_ready (g # gg), gt_recorded := (gt_created g \<noteq> None \<and> first_ready (g # gg) \<noteq> None)\<rparr>) # settle gg"

lemma record_backfill:
  "recordNewReadyGenerations (fst (backfillGenerations gg)) = (list_all gt_recorded (settle gg), latencies_of gg, settle gg)"
proof (induction gg)
  case (Cons g gg)
  obtain bb t n where b: "backfillGenerations gg = (bb, t, n)" by (metis prod.collapse)
  have t: "t = first_ready gg" using backfill_newer [of gg] b by simp
  have r: "recordNewReadyGenerations bb = (list_all gt_recorded (settle gg), latencies_of gg, settle gg)" using Cons.IH b by simp
  show ?case
    by (cases g; cases "gt_created g"; cases "gt_ready g"; cases "first_ready gg") (simp_all add: b r t Let_def)
qed simp

lemma settle_length [simp]: "length (settle gg) = length gg"
  by (induction gg) simp_all

lemma keys_put [simp]: "map fst (put_values ks vs t) = map fst t"
  by (induction ks vs t rule: put_values.induct) simp_all

lemma lookup_put:
  "distinct ks \<Longrightarrow> length ks = length vs \<Longrightarrow> lookup_value k (put_values ks vs t) =
     (case map_of (zip ks vs) k of None \<Rightarrow> lookup_value k t | Some v \<Rightarrow> map_option (\<lambda>_. v) (lookup_value k t))"
proof (induction ks vs t rule: put_values.induct)
  case (1 k' ks v vs t)
  have none: "map_of (zip ks vs) k' = None" using 1 by (simp add: map_of_zip_is_None)
  have IH: "lookup_value k (put_values ks vs (mutate_value k' (\<lambda>_. v) t)) = (case map_of (zip ks vs) k of
      None \<Rightarrow> lookup_value k (mutate_value k' (\<lambda>_. v) t) | Some u \<Rightarrow> map_option (\<lambda>_. u) (lookup_value k (mutate_value k' (\<lambda>_. v) t)))"
    using 1 by simp
  show ?case
  proof (cases "k = k'")
    case True
    then show ?thesis using none IH by (simp add: lookup_mutate)
  next
    case False
    then have "lookup_value k (mutate_value k' (\<lambda>_. v) t) = lookup_value k t" by (simp add: lookup_mutate)
    then show ?thesis using IH False by (simp split: option.split)
  qed
qed simp_all

lemma sortedValues_put:
  assumes "distinct (map fst t)" and "length vs = length t"
  shows "sortedValues (put_values (sort (map fst t)) vs t) = vs"
proof -
  let ?ks = "sort (map fst t)"
  have len: "length ?ks = length vs" using assms(2) by simp
  have d: "distinct ?ks" using assms(1) by simp
  have "the (lookup_value k (put_values ?ks vs t)) = the (map_of (zip ?ks vs) k)" if k: "k \<in> set ?ks" for k
  proof -
    obtain v where v: "map_of (zip ?ks vs) k = Some v" using iffD1 [OF map_of_zip_is_Some [OF len] k] by (elim exE)
    obtain u where "lookup_value k t = Some u" using k by (cases "lookup_value k t") (simp_all add: lookup_None_iff)
    with v show ?thesis by (simp add: lookup_put [OF d len])
  qed
  then have "sortedValues (put_values ?ks vs t) = map (\<lambda>k. the (map_of (zip ?ks vs) k)) ?ks"
    by (simp add: sortedValues_def)
  also have "\<dots> = vs"
    using d len by (intro nth_equalityI) (simp_all add: map_of_zip_nth)
  finally show ?thesis .
qed

lemma generations_reconcile_eq:
  assumes "distinct (map fst o')" and "generations_reconcile o' = (r, o'')"
  shows "ro_latencies r = latencies_of (sortedValues o')" "ro_Requeue r \<longleftrightarrow> \<not> list_all gt_recorded (settle (sortedValues o'))"
    "sortedValues o'' = settle (sortedValues o')" "distinct (map fst o'')"
proof -
  have len: "length (settle (sortedValues o')) = length o'" by (simp add: sortedValues_def)
  obtain bb t n where b: "backfillGenerations (sortedValues o') = (bb, t, n)" by (metis prod.collapse)
  then have rec: "recordNewReadyGenerations bb = (list_all gt_recorded (settle (sortedValues o')), latencies_of (sortedValues o'), settle (sortedValues o'))"
    using record_backfill [of "sortedValues o'"] by simp
  have "r = \<lparr>ro_Requeue = \<not> list_all gt_recorded (settle (sortedValues o')), ro_latencies = latencies_of (sortedValues o'), ro_backfilled = n\<rparr>"
    and o'': "o'' = put_values (sort (map fst o')) (settle (sortedValues o')) o'"
    using assms(2) by (simp_all add: generations_reconcile_def b rec)
  then show "ro_latencies r = latencies_of (sortedValues o')" "ro_Requeue r \<longleftrightarrow> \<not> list_all gt_recorded (settle (sortedValues o'))"
    by simp_all
  show "sortedValues o'' = settle (sortedValues o')" unfolding o'' by (rule sortedValues_put [OF assms(1) len])
  show "distinct (map fst o'')" using assms(1) by (simp add: o'')
qed

section \<open>Lemmas on histories\<close>

text \<open>
  What happens to the generations of one object, in any order: spec changes and ready generations are stored by goroutines of their own,
  reconciliations come from the queue. The state is the generations and the latencies observed so far.
\<close>

datatype tracker_event = SpecChange int time | StatusReady int time | ReconcileRequest

fun track_event :: "tracker_event \<Rightarrow> objectGenerations \<times> duration list \<Rightarrow> objectGenerations \<times> duration list" where
  "track_event (SpecChange generation t) (o', ls) = (setGenerationCreated generation t o', ls)"
| "track_event (StatusReady generation t) (o', ls) = (setGenerationReady generation t o', ls)"
| "track_event ReconcileRequest (o', ls) = (let (r, o1) = generations_reconcile o' in (o1, ls @ ro_latencies r))"

definition run_events :: "tracker_event list \<Rightarrow> objectGenerations \<times> duration list" where
  "run_events evs = fold track_event evs (newGenerationsTracker, [])"

text \<open>The time of the first spec change of a generation.\<close>

fun created_at :: "int \<Rightarrow> tracker_event list \<Rightarrow> time option" where
  "created_at k [] = None"
| "created_at k (SpecChange k' t # evs) = (if k' = k then Some t else created_at k evs)"
| "created_at k (_ # evs) = created_at k evs"

text \<open>The latencies of the recorded generations.\<close>

definition generation_latency :: "generationTimes \<Rightarrow> duration" where
  "generation_latency g = time_Sub (the (gt_ready g)) (the (gt_created g))"

definition recorded_latencies :: "objectGenerations \<Rightarrow> duration list" where
  "recorded_latencies o' = map generation_latency (filter gt_recorded (map snd o'))"

text \<open>No spec change of a new generation is stored after a later generation was recorded.\<close>

fun prompt :: "tracker_event \<Rightarrow> objectGenerations \<Rightarrow> bool" where
  "prompt (SpecChange k t) o' \<longleftrightarrow> lookup_value k o' \<noteq> None \<or> list_all (\<lambda>(k', g). k < k' \<longrightarrow> \<not> gt_recorded g) o'"
| "prompt _ o' \<longleftrightarrow> True"

fun timely_from :: "objectGenerations \<times> duration list \<Rightarrow> tracker_event list \<Rightarrow> bool" where
  "timely_from s [] \<longleftrightarrow> True"
| "timely_from s (e # evs) \<longleftrightarrow> prompt e (fst s) \<and> timely_from (track_event e s) evs"

definition timely :: "tracker_event list \<Rightarrow> bool" where
  "timely evs \<longleftrightarrow> timely_from (newGenerationsTracker, []) evs"

lemma timely_from_snoc: "timely_from s (evs @ [e]) \<longleftrightarrow> timely_from s evs \<and> prompt e (fst (fold track_event evs s))"
  by (induction evs arbitrary: s) auto

lemma timely_snoc: "timely (evs @ [e]) \<longleftrightarrow> timely evs \<and> prompt e (fst (run_events evs))"
  by (simp add: timely_def timely_from_snoc run_events_def)

lemma run_events_snoc: "run_events (evs @ [e]) = track_event e (run_events evs)"
  by (simp add: run_events_def)

lemma created_at_snoc: "created_at k (evs @ [e]) =
  (case created_at k evs of Some t \<Rightarrow> Some t | None \<Rightarrow> created_at k [e])"
  by (induction k evs rule: created_at.induct) auto

text \<open>A reconciliation, key by key: an unrecorded generation gets the ready time of the first unrecorded ready one that is not older.\<close>

definition unrecorded_ready :: "objectGenerations \<Rightarrow> int \<Rightarrow> time \<Rightarrow> bool" where
  "unrecorded_ready o' k t \<longleftrightarrow> (\<exists>g. lookup_value k o' = Some g \<and> \<not> gt_recorded g \<and> gt_ready g = Some t)"

definition settled :: "generationTimes \<Rightarrow> time option \<Rightarrow> generationTimes" where
  "settled g R = (if gt_recorded g then g else g\<lparr>gt_ready := R, gt_recorded := (gt_created g \<noteq> None \<and> R \<noteq> None)\<rparr>)"

definition backfill_time :: "objectGenerations \<Rightarrow> int \<Rightarrow> generationTimes \<Rightarrow> time option \<Rightarrow> bool" where
  "backfill_time o' k g R \<longleftrightarrow> (R = None \<longrightarrow> (\<forall>k' t. k \<le> k' \<longrightarrow> \<not> unrecorded_ready o' k' t)) \<and>
     (\<forall>t. R = Some t \<longrightarrow> (\<exists>k'. k \<le> k' \<and> unrecorded_ready o' k' t)) \<and> (\<not> gt_recorded g \<and> gt_ready g \<noteq> None \<longrightarrow> R = gt_ready g)"

lemma settle_nth: "i < length gg \<Longrightarrow> settle gg ! i = settled (gg ! i) (first_ready (drop i gg))"
  by (induction gg arbitrary: i) (auto simp: settled_def nth_Cons' drop_Cons' simp del: first_ready_simps)

lemma first_ready_index:
  "(first_ready gg = None \<longleftrightarrow> (\<forall>j < length gg. gt_recorded (gg ! j) \<or> gt_ready (gg ! j) = None)) \<and>
   (\<forall>t. first_ready gg = Some t \<longrightarrow> (\<exists>j < length gg. \<not> gt_recorded (gg ! j) \<and> gt_ready (gg ! j) = Some t))"
  by (induction gg) (auto simp: nth_Cons' All_less_Suc2 Ex_less_Suc2)

lemma reconcile_lookup:
  assumes d: "distinct (map fst o')" and rec: "generations_reconcile o' = (r, o1)" and k: "lookup_value k o' = Some g"
  obtains R where "lookup_value k o1 = Some (settled g R)" "backfill_time o' k g R"
proof -
  let ?ks = "sort (map fst o')" and ?vs = "sortedValues o'"
  have len: "length ?vs = length ?ks" by (simp add: sortedValues_def)
  have dks: "distinct ?ks" using d by simp
  have sorted: "sorted ?ks" by simp
  have v: "?vs ! j = the (lookup_value (?ks ! j) o')" "lookup_value (?ks ! j) o' = Some (?vs ! j)" if "j < length ?ks" for j
  proof -
    have "?ks ! j \<in> set ?ks" using that by (rule nth_mem)
    then show "lookup_value (?ks ! j) o' = Some (?vs ! j)" "?vs ! j = the (lookup_value (?ks ! j) o')"
      using that by (auto simp: sortedValues_def lookup_None_iff intro!: option.collapse [symmetric])
  qed
  have "k \<in> set ?ks" using k lookup_None_iff [of k o'] by simp
  then obtain i where i: "i < length ?ks" "?ks ! i = k" by (metis in_set_conv_nth)
  have g: "?vs ! i = g" using v [OF i(1)] i(2) k by simp
  let ?R = "first_ready (drop i ?vs)"
  have "lookup_value k o1 = Some (settle ?vs ! i)"
  proof -
    have "sort (map fst o1) = ?ks" using rec by (auto simp: generations_reconcile_def Let_def split: prod.splits)
    moreover have "sortedValues o1 = settle ?vs" using generations_reconcile_eq [OF d rec] by blast
    moreover have "lookup_value k o1 \<noteq> None" using \<open>k \<in> set ?ks\<close> calculation(1) lookup_None_iff [of k o1] by (metis image_set set_sort)
    ultimately show ?thesis using i by (auto simp: sortedValues_def dest: arg_cong [of _ _ "\<lambda>xs. xs ! i"])
  qed
  moreover have "settle ?vs ! i = settled g ?R"
    using settle_nth [of i ?vs] i(1) len g by simp
  moreover have "\<not> unrecorded_ready o' k' t" if none: "?R = None" and ge: "k \<le> k'" for k' t
  proof
    assume "unrecorded_ready o' k' t"
    then obtain g' where g': "lookup_value k' o' = Some g'" "\<not> gt_recorded g'" "gt_ready g' = Some t" by (auto simp: unrecorded_ready_def)
    then have "k' \<in> set ?ks" using lookup_None_iff [of k' o'] by simp
    then obtain j where j: "j < length ?ks" "?ks ! j = k'" by (metis in_set_conv_nth)
    have "i \<le> j"
    proof (rule ccontr)
      assume "\<not> i \<le> j"
      then have "k' \<le> k" using sorted_nth_mono [OF sorted, of j i] i j by simp
      with ge have "?ks ! j = ?ks ! i" using i(2) j(2) by simp
      then have "j = i" using nth_eq_iff_index_eq [OF dks j(1) i(1)] by simp
      with \<open>\<not> i \<le> j\<close> show False by simp
    qed
    then have "drop i ?vs ! (j - i) = g'" "j - i < length (drop i ?vs)" using v [OF j(1)] j len i(1) g'(1) by simp_all
    with none first_ready_index [of "drop i ?vs"] g'(2,3) show False by force
  qed
  moreover have "\<exists>k'. k \<le> k' \<and> unrecorded_ready o' k' t" if some: "?R = Some t" for t
  proof -
    obtain j where j: "j < length (drop i ?vs)" "\<not> gt_recorded (drop i ?vs ! j)" "gt_ready (drop i ?vs ! j) = Some t"
      using some first_ready_index [of "drop i ?vs"] by blast
    then have "unrecorded_ready o' (?ks ! (i + j)) t" using v(2) [of "i + j"] len by (simp add: unrecorded_ready_def)
    moreover have "k \<le> ?ks ! (i + j)" using sorted_nth_mono [OF sorted, of i "i + j"] i j(1) len by simp
    ultimately show ?thesis by blast
  qed
  moreover have "?R = gt_ready g" if "\<not> gt_recorded g" "gt_ready g \<noteq> None"
    using that g i(1) len by (simp flip: Cons_nth_drop_Suc)
  ultimately show thesis by (intro that [of ?R]) (simp_all add: backfill_time_def)
qed

lemma mset_sortedValues: "distinct (map fst t) \<Longrightarrow> mset (sortedValues t) = mset (map snd t)"
proof -
  assume d: "distinct (map fst t)"
  have "map (\<lambda>k. the (lookup_value k t)) (map fst t) = map snd t"
    using d
  proof (induction t)
    case (Cons e t)
    obtain k v where e: "e = (k, v)" by (cases e)
    have "map (\<lambda>k'. the (lookup_value k' (e # t))) (map fst t) = map (\<lambda>k'. the (lookup_value k' t)) (map fst t)"
      using Cons.prems e by (intro map_cong) auto
    with Cons e show ?case by simp
  qed simp
  moreover have "mset (sortedValues t) = mset (map (\<lambda>k. the (lookup_value k t)) (map fst t))" unfolding sortedValues_def mset_map mset_sort ..
  ultimately show ?thesis by (simp only:)
qed

definition well_recorded :: "generationTimes \<Rightarrow> bool" where
  "well_recorded g \<longleftrightarrow> (gt_recorded g \<longrightarrow> gt_created g \<noteq> None \<and> gt_ready g \<noteq> None)"

lemma latencies_of_settle:
  "mset (map generation_latency (filter gt_recorded (settle gg))) = mset (map generation_latency (filter gt_recorded gg)) + mset (latencies_of gg)"
proof (induction gg)
  case (Cons g gg)
  then show ?case
    by (cases "gt_recorded g"; cases "gt_created g"; cases "first_ready (g # gg)") (simp_all add: generation_latency_def del: first_ready_simps)
qed simp

lemma reconcile_latencies:
  assumes "distinct (map fst o')" and "generations_reconcile o' = (r, o1)"
  shows "mset (recorded_latencies o1) = mset (recorded_latencies o') + mset (ro_latencies r)"
proof -
  note eq = generations_reconcile_eq [OF assms]
  have rec: "mset (recorded_latencies t) = mset (map generation_latency (filter gt_recorded (sortedValues t)))" if "distinct (map fst t)" for t :: objectGenerations
    using mset_sortedValues [OF that] by (metis mset_filter mset_map recorded_latencies_def)
  show ?thesis unfolding rec [OF eq(4)] rec [OF assms(1)] eq(1,3) by (rule latencies_of_settle)
qed

lemma recorded_latencies_set:
  assumes "\<And>g. gt_recorded (f g) = gt_recorded g" and "\<not> gt_recorded new"
    and "\<And>g. lookup_value k o' = Some g \<Longrightarrow> gt_recorded g \<Longrightarrow> f g = g"
  shows "recorded_latencies (tracker_set new k f o') = recorded_latencies o'"
proof -
  have "recorded_latencies (mutate_value k f o') = recorded_latencies o'"
    using assms(1,3) by (induction o') (auto simp: recorded_latencies_def)
  then show ?thesis using assms(1,2) by (simp add: tracker_set_def recorded_latencies_def split: option.split)
qed

text \<open>
  The invariant of a history: what is recorded has been observed, the times come from the events, and every event left its time.
\<close>

definition times_ok :: "tracker_event list \<Rightarrow> int \<Rightarrow> generationTimes \<Rightarrow> bool" where
  "times_ok evs k g \<longleftrightarrow> well_recorded g \<and> gt_created g = created_at k evs \<and>
     (\<forall>t. gt_ready g = Some t \<longrightarrow> (\<exists>k'. k \<le> k' \<and> StatusReady k' t \<in> set evs))"

definition events_kept :: "tracker_event list \<Rightarrow> objectGenerations \<Rightarrow> bool" where
  "events_kept evs o' \<longleftrightarrow> (\<forall>k. created_at k evs \<noteq> None \<longrightarrow> lookup_value k o' \<noteq> None) \<and>
     (\<forall>k t. StatusReady k t \<in> set evs \<longrightarrow> (\<exists>g. lookup_value k o' = Some g \<and> gt_ready g \<noteq> None))"

definition history_inv :: "tracker_event list \<Rightarrow> objectGenerations \<Rightarrow> duration list \<Rightarrow> bool" where
  "history_inv evs o' ls \<longleftrightarrow> distinct (map fst o') \<and> mset ls = mset (recorded_latencies o') \<and>
     (\<forall>k g. lookup_value k o' = Some g \<longrightarrow> times_ok evs k g) \<and> events_kept evs o'"

lemma history_created:
  assumes inv: "history_inv evs o' ls"
  shows "history_inv (evs @ [SpecChange k t]) (setGenerationCreated k t o') ls"
proof -
  let ?f = "\<lambda>times. if gt_created times \<noteq> None then times else times\<lparr>gt_created := Some t\<rparr>"
  let ?o = "setGenerationCreated k t o'" and ?evs = "evs @ [SpecChange k t]"
  have ok: "times_ok evs k' g" if "lookup_value k' o' = Some g" for k' g using inv that by (simp add: history_inv_def)
  have look: "lookup_value k' ?o =
      (if k' = k then Some (?f (case lookup_value k o' of None \<Rightarrow> new_generationTimes | Some g \<Rightarrow> g)) else lookup_value k' o')" for k'
    by (simp add: setGenerationCreated_def lookup_tracker_set)
  have "?f g = g" if "lookup_value k o' = Some g" "gt_recorded g" for g
    using ok [OF that(1)] that(2) by (auto simp: times_ok_def well_recorded_def)
  then have "recorded_latencies ?o = recorded_latencies o'"
    unfolding setGenerationCreated_def by (intro recorded_latencies_set) (auto simp: new_generationTimes_def)
  moreover have "times_ok ?evs k' g'" if "lookup_value k' ?o = Some g'" for k' g'
  proof (cases "lookup_value k' o'")
    case None
    then have "created_at k' evs = None" using inv by (auto simp: history_inv_def events_kept_def)
    with None that show ?thesis by (auto simp: look times_ok_def well_recorded_def created_at_snoc new_generationTimes_def split: if_splits)
  next
    case (Some g)
    then show ?thesis using ok [OF Some] that by (auto simp: look times_ok_def well_recorded_def created_at_snoc split: if_splits option.splits)
  qed
  moreover have "events_kept ?evs ?o"
    using inv by (auto simp: history_inv_def events_kept_def look created_at_snoc split: option.splits if_splits)
  ultimately show ?thesis
    using inv by (simp add: history_inv_def) (simp add: setGenerationCreated_def tracker_set_distinct)
qed

lemma history_ready:
  assumes inv: "history_inv evs o' ls"
  shows "history_inv (evs @ [StatusReady k t]) (setGenerationReady k t o') ls"
proof -
  let ?f = "\<lambda>times. if gt_ready times \<noteq> None then times else times\<lparr>gt_ready := Some t\<rparr>"
  let ?o = "setGenerationReady k t o'" and ?evs = "evs @ [StatusReady k t]"
  have ok: "times_ok evs k' g" if "lookup_value k' o' = Some g" for k' g using inv that by (simp add: history_inv_def)
  have look: "lookup_value k' ?o =
      (if k' = k then Some (?f (case lookup_value k o' of None \<Rightarrow> new_generationTimes | Some g \<Rightarrow> g)) else lookup_value k' o')" for k'
    by (simp add: setGenerationReady_def lookup_tracker_set)
  have "?f g = g" if "lookup_value k o' = Some g" "gt_recorded g" for g
    using ok [OF that(1)] that(2) by (auto simp: times_ok_def well_recorded_def)
  then have "recorded_latencies ?o = recorded_latencies o'"
    unfolding setGenerationReady_def by (intro recorded_latencies_set) (auto simp: new_generationTimes_def)
  moreover have "times_ok ?evs k' g'" if "lookup_value k' ?o = Some g'" for k' g'
  proof (cases "lookup_value k' o'")
    case None
    then have "created_at k' evs = None" using inv by (auto simp: history_inv_def events_kept_def)
    with None that show ?thesis by (auto simp: look times_ok_def well_recorded_def created_at_snoc new_generationTimes_def split: if_splits)
  next
    case (Some g)
    then show ?thesis using ok [OF Some] that by (auto simp: look times_ok_def well_recorded_def created_at_snoc split: if_splits option.splits)
  qed
  moreover have "events_kept ?evs ?o"
    using inv by (auto simp: history_inv_def events_kept_def look created_at_snoc split: option.splits if_splits)
  ultimately show ?thesis
    using inv by (simp add: history_inv_def) (simp add: setGenerationReady_def tracker_set_distinct)
qed

lemma reconcile_keys: "generations_reconcile o' = (r, o1) \<Longrightarrow> map fst o1 = map fst o'"
  by (auto simp: generations_reconcile_def Let_def split: prod.splits)

lemma reconcile_lookup_None: "generations_reconcile o' = (r, o1) \<Longrightarrow> lookup_value k o1 = None \<longleftrightarrow> lookup_value k o' = None"
  using reconcile_keys [of o' r o1] by (simp add: lookup_None_iff) (metis list.set_map)

lemma history_reconcile:
  assumes inv: "history_inv evs o' ls" and rec: "generations_reconcile o' = (r, o1)"
  shows "history_inv (evs @ [ReconcileRequest]) o1 (ls @ ro_latencies r)"
proof -
  have d: "distinct (map fst o')" using inv by (simp add: history_inv_def)
  have "times_ok evs k g1" if "lookup_value k o1 = Some g1" for k g1
  proof -
    have "lookup_value k o' \<noteq> None" using that reconcile_lookup_None [OF rec, of k] by simp
    then obtain g where g: "lookup_value k o' = Some g" by blast
    have ok: "times_ok evs k' g'" if "lookup_value k' o' = Some g'" for k' g' using inv that by (simp add: history_inv_def)
    obtain R where R: "lookup_value k o1 = Some (settled g R)" "backfill_time o' k g R"
      by (rule reconcile_lookup [OF d rec g])
    have "\<exists>k'. k \<le> k' \<and> StatusReady k' t \<in> set evs" if "R = Some t" for t
    proof -
      obtain k' g' where "k \<le> k'" "lookup_value k' o' = Some g'" "gt_ready g' = Some t" using R(2) \<open>R = Some t\<close> by (auto simp: backfill_time_def unrecorded_ready_def)
      with ok [of k' g'] show ?thesis by (auto simp: times_ok_def intro: order_trans)
    qed
    with R(1) that ok [OF g] show ?thesis by (auto simp: times_ok_def well_recorded_def settled_def) metis
  qed
  moreover have "events_kept evs o1"
    unfolding events_kept_def
  proof (intro conjI allI impI)
    show "lookup_value k o1 \<noteq> None" if "created_at k evs \<noteq> None" for k
      using inv that reconcile_lookup_None [OF rec, of k] by (auto simp: history_inv_def events_kept_def)
    fix k t assume "StatusReady k t \<in> set evs"
    then obtain g where g: "lookup_value k o' = Some g" "gt_ready g \<noteq> None" using inv by (auto simp: history_inv_def events_kept_def)
    obtain R where R: "lookup_value k o1 = Some (settled g R)" "backfill_time o' k g R"
      by (rule reconcile_lookup [OF d rec g(1)])
    with g(2) show "\<exists>g. lookup_value k o1 = Some g \<and> gt_ready g \<noteq> None" by (auto simp: settled_def backfill_time_def)
  qed
  moreover have "times_ok (evs @ [ReconcileRequest]) k g \<longleftrightarrow> times_ok evs k g" "events_kept (evs @ [ReconcileRequest]) o1 \<longleftrightarrow> events_kept evs o1" for k g
    by (auto simp: times_ok_def events_kept_def created_at_snoc split: option.splits)
  ultimately show ?thesis
    using inv reconcile_keys [OF rec] reconcile_latencies [OF d rec] by (simp add: history_inv_def)
qed

lemma history_run: "run_events evs = (o', ls) \<Longrightarrow> history_inv evs o' ls"
proof (induction evs arbitrary: o' ls rule: rev_induct)
  case Nil
  then show ?case by (auto simp: run_events_def history_inv_def events_kept_def newGenerationsTracker_def recorded_latencies_def)
next
  case (snoc e evs)
  obtain o1 l1 where run: "run_events evs = (o1, l1)" by (metis prod.collapse)
  from snoc.IH [OF run] snoc.prems run show ?case
    by (cases e) (auto simp: run_events_snoc history_created history_ready intro: history_reconcile split: prod.splits)
qed

text \<open>After timely events, a generation that is older than a recorded one has a ready time.\<close>

definition backfilled :: "objectGenerations \<Rightarrow> bool" where
  "backfilled o' \<longleftrightarrow> (\<forall>k g k' g'. lookup_value k o' = Some g \<longrightarrow> lookup_value k' o' = Some g' \<longrightarrow> k < k' \<longrightarrow> gt_recorded g' \<longrightarrow> gt_ready g \<noteq> None)"

lemma lookup_in_set: "lookup_value k t = Some v \<Longrightarrow> (k, v) \<in> set t"
  by (induction t) (auto split: if_splits)

lemma backfilled_step:
  assumes "history_inv evs o' ls" and "backfilled o'" and "prompt e o'"
  shows "backfilled (fst (track_event e (o', ls)))"
proof (cases e)
  case (SpecChange k t)
  then have "lookup_value k o' \<noteq> None \<or> (\<forall>k' g'. lookup_value k' o' = Some g' \<longrightarrow> k < k' \<longrightarrow> \<not> gt_recorded g')"
    using assms(3) lookup_in_set by (fastforce simp: list_all_iff)
  with assms(2) SpecChange show ?thesis
    by (auto simp: backfilled_def setGenerationCreated_def lookup_tracker_set new_generationTimes_def split: if_splits option.splits)
next
  case (StatusReady k t)
  with assms(2) show ?thesis
    by (auto simp: backfilled_def setGenerationReady_def lookup_tracker_set new_generationTimes_def split: if_splits option.splits)
next
  case ReconcileRequest
  obtain r o1 where rec: "generations_reconcile o' = (r, o1)" by (metis prod.collapse)
  have d: "distinct (map fst o')" using assms(1) by (simp add: history_inv_def)
  have "gt_ready g1 \<noteq> None" if l: "lookup_value k o1 = Some g1" "lookup_value k' o1 = Some g1'" "k < k'" "gt_recorded g1'" for k g1 k' g1'
  proof -
    have "lookup_value k o' \<noteq> None" "lookup_value k' o' \<noteq> None"
      using l reconcile_lookup_None [OF rec, of k] reconcile_lookup_None [OF rec, of k'] by simp_all
    then obtain g g' where g: "lookup_value k o' = Some g" "lookup_value k' o' = Some g'" by blast
    have ok: "well_recorded g" using assms(1) g(1) by (auto simp: history_inv_def times_ok_def)
    obtain R where R: "lookup_value k o1 = Some (settled g R)" "backfill_time o' k g R"
      by (rule reconcile_lookup [OF d rec g(1)])
    obtain R' where R': "lookup_value k' o1 = Some (settled g' R')" "backfill_time o' k' g' R'"
      by (rule reconcile_lookup [OF d rec g(2)])
    have g1: "g1 = settled g R" "g1' = settled g' R'" using R(1) R'(1) l(1,2) by simp_all
    show ?thesis
    proof (cases "gt_recorded g'")
      case True
      then have "gt_ready g \<noteq> None" using assms(2) g l(3) by (simp add: backfilled_def)
      with g1(1) R(2) show ?thesis by (auto simp: settled_def backfill_time_def)
    next
      case False
      then obtain k'' t where "k' \<le> k''" "unrecorded_ready o' k'' t"
        using g1(2) l(4) R'(2) by (auto simp: settled_def backfill_time_def)
      then have "R \<noteq> None" using R(2) l(3) unfolding backfill_time_def by (meson less_imp_le order_trans)
      with g1(1) ok show ?thesis by (auto simp: well_recorded_def settled_def)
    qed
  qed
  with ReconcileRequest rec show ?thesis by (auto simp: backfilled_def)
qed

lemma backfilled_run: "timely evs \<Longrightarrow> backfilled (fst (run_events evs))"
proof (induction evs rule: rev_induct)
  case Nil
  then show ?case by (simp add: run_events_def newGenerationsTracker_def backfilled_def)
next
  case (snoc e evs)
  obtain o' ls where run: "run_events evs = (o', ls)" by (metis prod.collapse)
  from snoc run backfilled_step [OF history_run [OF run]] show ?case by (simp add: timely_snoc run_events_snoc)
qed

lemma recorded_when_seen:
  assumes run: "run_events evs = (o', ls)" and rec: "generations_reconcile o' = (r, o1)" and "timely evs"
    and seen: "created_at k evs \<noteq> None" "k \<le> k'" "StatusReady k' t \<in> set evs"
  shows "\<exists>g. lookup_value k o1 = Some g \<and> gt_recorded g"
proof -
  have inv: "history_inv evs o' ls" by (rule history_run [OF run])
  have d: "distinct (map fst o')" using inv by (simp add: history_inv_def)
  obtain g where g: "lookup_value k o' = Some g" using inv seen(1) by (auto simp: history_inv_def events_kept_def)
  obtain g' t' where g': "lookup_value k' o' = Some g'" "gt_ready g' = Some t'" using inv seen(3) by (auto simp: history_inv_def events_kept_def)
  have created: "gt_created g \<noteq> None" using inv g seen(1) by (auto simp: history_inv_def times_ok_def)
  obtain R where R: "lookup_value k o1 = Some (settled g R)" "backfill_time o' k g R"
    by (rule reconcile_lookup [OF d rec g])
  have "gt_recorded g \<or> R \<noteq> None"
  proof (cases "gt_recorded g'")
    case True
    then show ?thesis
      using g g' R(2) backfilled_run [OF assms(3)] run seen(2) by (cases "k = k'") (auto simp: backfilled_def backfill_time_def)
  next
    case False
    then have "unrecorded_ready o' k' t'" using g' by (simp add: unrecorded_ready_def)
    with R(2) seen(2) show ?thesis by (auto simp: backfill_time_def)
  qed
  with R(1) created show ?thesis by (auto simp: settled_def)
qed

section \<open>Properties\<close>

text \<open>Concurrent updates of a tracker are neither lost nor duplicated: however the calls of \<^verbatim>\<open>set\<close>
  interleave between their read lock and their write lock, the result is that of running each of them
  once, one after the other, in some order.\<close>

theorem concurrent_set_is_sequential:
  assumes "(set_step new)\<^sup>*\<^sup>* (set_init t calls) s" and "ss_waiting s = []" and "ss_upgrading s = []"
  shows "\<exists>order. mset order = mset calls \<and> ss_values s = run_calls new order t"
  using set_run_linear [OF assms(1)] assms(2,3) by (auto simp: open_calls_def set_init_def)

text \<open>Every schedule completes all calls after at most two steps per call.\<close>

interpretation set_calls: progressing "set_step new" "\<lambda>_. True" "\<lambda>s. ss_waiting s = [] \<and> ss_upgrading s = []" set_measure for new
  by unfold_locales (blast intro: set_step_decreases set_step_exists)+

lemma concurrent_set_is_sequential_witness:
  "\<exists>s order. (set_step (0::nat))\<^sup>*\<^sup>* (set_init [] [(''a'', Suc), (''a'', \<lambda>n. n + 10)]) s \<and>
     mset order = mset [(''a'', Suc), (''a'', \<lambda>n. n + 10)] \<and> ss_values s = run_calls 0 order []"
proof -
  obtain s where s: "(set_step (0::nat))\<^sup>*\<^sup>* (set_init [] [(''a'', Suc), (''a'', \<lambda>n. n + 10)]) s" "ss_waiting s = []" "ss_upgrading s = []"
    using set_calls.ends [OF TrueI, of 0 "set_init [] [(''a'', Suc), (''a'', \<lambda>n. n + 10)]"] by (elim exE conjE)
  from concurrent_set_is_sequential [OF s] obtain order
    where "mset order = mset [(''a'', Suc), (''a'', \<lambda>n. n + 10)]" "ss_values s = run_calls 0 order []" by (elim exE conjE)
  with s(1) show ?thesis by (intro exI conjI)
qed

text \<open>C32: Latencies are recorded exactly once. Whatever spec changes, ready events and reconciliations have happened to the generations of an object, in any order,
  one latency was observed for every recorded generation and nothing else: the time from its first spec change to
  a ready event of it or of a later one. Recorded generations do not change any more, and a reconciliation asks for a requeue exactly if some
  generation is left. If no spec change was stored late, that is after a later generation was recorded,
  a reconciliation has recorded exactly the generations with a spec change of which they or a later one have become ready.\<close>

theorem tracker_records_latency_once:
  assumes "run_events evs = (o', ls)" and "generations_reconcile o' = (r, o1)"
  shows "mset (ls @ ro_latencies r) = mset (recorded_latencies o1) \<and>
    (ro_Requeue r \<longleftrightarrow> (\<exists>g \<in> snd ` set o1. \<not> gt_recorded g)) \<and>
    (\<forall>k g. lookup_value k o1 = Some g \<longrightarrow> gt_created g = created_at k evs \<and>
      (\<forall>t. gt_ready g = Some t \<longrightarrow> (\<exists>k'. k \<le> k' \<and> StatusReady k' t \<in> set evs))) \<and>
    (\<forall>k g. lookup_value k o' = Some g \<longrightarrow> gt_recorded g \<longrightarrow> lookup_value k o1 = Some g) \<and>
    (timely evs \<longrightarrow> (\<forall>k. (\<exists>g. lookup_value k o1 = Some g \<and> gt_recorded g) \<longleftrightarrow>
      created_at k evs \<noteq> None \<and> (\<exists>k' t. k \<le> k' \<and> StatusReady k' t \<in> set evs)))"
proof -
  let ?evs = "evs @ [ReconcileRequest]"
  have run: "run_events ?evs = (o1, ls @ ro_latencies r)" using assms by (simp add: run_events_snoc)
  have inv: "history_inv ?evs o1 (ls @ ro_latencies r)" by (rule history_run [OF run])
  have d: "distinct (map fst o')" "distinct (map fst o1)"
    using history_run [OF assms(1)] inv by (simp_all add: history_inv_def)
  have same: "times_ok ?evs k g \<longleftrightarrow> times_ok evs k g" "events_kept ?evs o1 \<longleftrightarrow> events_kept evs o1" for k g
    by (auto simp: times_ok_def events_kept_def created_at_snoc split: option.splits)
  have ok: "times_ok evs k g" if "lookup_value k o1 = Some g" for k g using inv that by (simp add: history_inv_def same)
  have kept: "events_kept evs o1" using inv by (simp add: history_inv_def same)
  have "set (sortedValues o1) = snd ` set o1" using mset_sortedValues [OF d(2)] by (metis list.set_map mset_eq_setD)
  then have "ro_Requeue r \<longleftrightarrow> (\<exists>g \<in> snd ` set o1. \<not> gt_recorded g)"
    using generations_reconcile_eq [OF d(1) assms(2)] by (metis list_all_iff)
  moreover have "lookup_value k o1 = Some g" if "lookup_value k o' = Some g" "gt_recorded g" for k g
    using that(2) by (rule_tac reconcile_lookup [OF d(1) assms(2) that(1)]) (simp add: settled_def)
  moreover have "(\<exists>g. lookup_value k o1 = Some g \<and> gt_recorded g) \<longleftrightarrow> created_at k evs \<noteq> None \<and> (\<exists>k' t. k \<le> k' \<and> StatusReady k' t \<in> set evs)"
    if timely: "timely evs" for k
  proof
    assume "\<exists>g. lookup_value k o1 = Some g \<and> gt_recorded g"
    then show "created_at k evs \<noteq> None \<and> (\<exists>k' t. k \<le> k' \<and> StatusReady k' t \<in> set evs)"
      using ok by (fastforce simp: times_ok_def well_recorded_def)
  next
    assume seen: "created_at k evs \<noteq> None \<and> (\<exists>k' t. k \<le> k' \<and> StatusReady k' t \<in> set evs)"
    then show "\<exists>g. lookup_value k o1 = Some g \<and> gt_recorded g"
      using recorded_when_seen [OF assms timely] by blast
  qed
  ultimately show ?thesis using inv ok by (auto simp: history_inv_def times_ok_def)
qed

definition sample_events :: "tracker_event list" where
  "sample_events = [SpecChange 1 10, SpecChange 2 20, StatusReady 2 50]"

lemma tracker_records_latency_once_witness:
  "\<exists>o' ls r o1. run_events sample_events = (o', ls) \<and> generations_reconcile o' = (r, o1) \<and>
     mset (ls @ ro_latencies r) = {#30, 40#} \<and> (\<exists>g. lookup_value 1 o1 = Some g \<and> gt_recorded g \<and> gt_created g = Some 10)"
proof -
  let ?o = "[(1, \<lparr>gt_created = Some 10, gt_ready = None, gt_recorded = False\<rparr>), (2, \<lparr>gt_created = Some 20, gt_ready = Some 50, gt_recorded = False\<rparr>)]"
  have run: "run_events sample_events = (?o, [])"
    by (simp add: run_events_def sample_events_def setGenerationCreated_def setGenerationReady_def tracker_set_def newGenerationsTracker_def new_generationTimes_def)
  obtain r o1 where rec: "generations_reconcile ?o = (r, o1)" by (metis prod.collapse)
  have o1: "o1 = [(1, \<lparr>gt_created = Some 10, gt_ready = Some 50, gt_recorded = True\<rparr>), (2, \<lparr>gt_created = Some 20, gt_ready = Some 50, gt_recorded = True\<rparr>)]"
    using rec by (simp add: generations_reconcile_def sortedValues_def)
  have "timely sample_events"
    by (simp add: timely_def sample_events_def setGenerationCreated_def setGenerationReady_def tracker_set_def newGenerationsTracker_def new_generationTimes_def)
  moreover have "created_at 1 sample_events = Some 10" "StatusReady 2 50 \<in> set sample_events" by (simp_all add: sample_events_def)
  moreover have "mset (recorded_latencies o1) = {#30, 40#}" by (simp add: o1 recorded_latencies_def generation_latency_def time_Sub_def)
  moreover have "(1::int) \<le> 2" by simp
  ultimately have "mset ([] @ ro_latencies r) = {#30, 40#} \<and> (\<exists>g. lookup_value 1 o1 = Some g \<and> gt_recorded g \<and> gt_created g = Some 10)"
    using tracker_records_latency_once [OF run rec] by (metis option.distinct(1))
  with run rec show ?thesis by blast
qed

text \<open>A spec change that is stored late is lost: a generation that is stored after a later one was recorded is not backfilled, as recorded generations are
  skipped. It is reconciled again and again and never recorded.\<close>

theorem late_spec_change_is_not_recorded:
  assumes "run_events [SpecChange 2 20, StatusReady 2 50, ReconcileRequest, SpecChange 1 10] = (o', ls)"
  shows "ls = [30] \<and> (\<exists>r. generations_reconcile o' = (r, o') \<and> ro_Requeue r \<and> ro_latencies r = []) \<and>
    lookup_value 1 o' = Some \<lparr>gt_created = Some 10, gt_ready = None, gt_recorded = False\<rparr>"
proof -
  let ?o = "[(2, \<lparr>gt_created = Some 20, gt_ready = Some 50, gt_recorded = True\<rparr>), (1, \<lparr>gt_created = Some 10, gt_ready = None, gt_recorded = False\<rparr>)]"
  have "o' = ?o" "ls = [30]"
    using assms by (auto simp: run_events_def setGenerationCreated_def setGenerationReady_def tracker_set_def newGenerationsTracker_def new_generationTimes_def
        generations_reconcile_def sortedValues_def time_Sub_def)
  then show ?thesis by (simp add: generations_reconcile_def sortedValues_def)
qed

text \<open>The backfill counter is too high: a generation that is merely not ready yet, with no later generation
  to take a time from, is counted in every reconciliation.\<close>

theorem backfill_counts_unready_generations:
  assumes "generations_reconcile [(n, \<lparr>gt_created = c, gt_ready = None, gt_recorded = False\<rparr>)] = (r, o1)"
  shows "ro_backfilled r = 1 \<and> ro_latencies r = [] \<and> o1 = [(n, \<lparr>gt_created = c, gt_ready = None, gt_recorded = False\<rparr>)]"
  using assms by (auto simp: generations_reconcile_def sortedValues_def split: option.splits)

text \<open>The objective of five seconds is the bound of a bucket, so that counting the values in a bucket decides whether it is met.\<close>

lemma buckets_aligned: "sorted buckets \<and> distinct buckets \<and> 5000 \<in> set buckets"
  by (simp add: buckets_def)

end
