(* ===== verification/Rfc3339.thy ===== *)
theory Rfc3339
  imports Go_Strings
begin

text \<open>
  Timestamps as Go's \<^verbatim>\<open>time\<close> package writes and reads them in the format \<^verbatim>\<open>time.RFC3339\<close>, which the measurement tool uses for
  its flags: the Gregorian calendar, \<^verbatim>\<open>Format\<close> in UTC and \<^verbatim>\<open>Parse\<close>, which also accepts an hour of one digit, a fraction of a second
  and an offset. A time is the number of nanoseconds since 1970.
\<close>

section \<open>The calendar\<close>

text \<open>The block that contains the \<open>d\<close>-th element of consecutive blocks, and the position in it.\<close>

fun locate :: "nat list \<Rightarrow> nat \<Rightarrow> nat \<times> nat" where
  "locate [] d = (0, d)"
| "locate (l # ls) d = (if d < l then (0, d) else (let (i, r) = locate ls (d - l) in (Suc i, r)))"

definition leap :: "int \<Rightarrow> bool" where
  "leap y \<longleftrightarrow> y mod 4 = 0 \<and> (y mod 100 \<noteq> 0 \<or> y mod 400 = 0)"

definition month_lengths :: "int \<Rightarrow> nat list" where
  "month_lengths y = [31, if leap y then 29 else 28, 31, 30, 31, 30, 31, 31, 30, 31, 30, 31]"

definition year_lengths :: "nat list" where
  "year_lengths = map (\<lambda>y. if leap (int y) then 366 else 365) [0..<400]"

definition cycle_days :: int where "cycle_days = 146097"

text \<open>Days are counted from the first of January of the year 0; months and days of a date start at 1.\<close>

definition civil :: "int \<Rightarrow> int \<times> nat \<times> nat" where
  "civil d =
     (let (y, yday) = locate year_lengths (nat (d mod cycle_days));
          year = 400 * (d div cycle_days) + int y;
          (m, mday) = locate (month_lengths year) yday
      in (year, Suc m, Suc mday))"

definition day_number :: "int \<Rightarrow> nat \<Rightarrow> nat \<Rightarrow> int" where
  "day_number year month day =
     cycle_days * (year div 400) + int (sum_list (take (nat (year mod 400)) year_lengths)) +
     int (sum_list (take (month - 1) (month_lengths year))) + int day - 1"

lemma locate_sum:
  assumes "d < sum_list ls" and "locate ls d = (i, r)"
  shows "i < length ls" and "r < ls ! i" and "sum_list (take i ls) + r = d"
proof -
  have "i < length ls \<and> r < ls ! i \<and> sum_list (take i ls) + r = d"
    using assms
  proof (induction ls d arbitrary: i rule: locate.induct)
    case (2 l ls d)
    show ?case
    proof (cases "d < l")
      case False
      then obtain j where j: "locate ls (d - l) = (j, r)" "i = Suc j" using "2.prems"(2) by (auto split: prod.splits)
      have "d - l < sum_list ls" using False "2.prems"(1) by simp
      from "2.IH" [OF False this j(1)] show ?thesis using False j(2) by auto
    qed (use "2.prems" in auto)
  qed simp
  then show "i < length ls" and "r < ls ! i" and "sum_list (take i ls) + r = d" by auto
qed

lemma leap_mod_400: "leap (400 * q + y) \<longleftrightarrow> leap y"
proof -
  have "(400 * q + y) mod 4 = y mod 4" "(400 * q + y) mod 100 = y mod 100"
    using mod_mult_self2 [of y 4 "100 * q"] mod_mult_self2 [of y 100 "4 * q"] by (simp_all add: add.commute)
  then show ?thesis by (simp add: leap_def add.commute)
qed

lemma ints_upt: "[0..int n - 1] = map int [0..<n]"
  by (induction n) (simp_all add: upto_rec2)

lemma year_days: "sum_list year_lengths = 146097" "length year_lengths = 400"
proof -
  have "int (sum_list (map (\<lambda>y. if leap (int y) then 366 else 365) ys)) = (\<Sum>y \<leftarrow> map int ys. if leap y then 366 else 365)" for ys
    by (induction ys) simp_all
  then have "int (sum_list year_lengths) = (\<Sum>y \<leftarrow> [0..int 400 - 1]. if leap y then 366 else 365)"
    unfolding ints_upt year_lengths_def by blast
  moreover have "(\<Sum>y \<leftarrow> [0..399]. if leap y then 366 else 365) = (146097 :: int)" by code_simp
  ultimately show "sum_list year_lengths = 146097" by simp
qed (simp add: year_lengths_def)

lemma month_days: "sum_list (month_lengths y) = (if leap y then 366 else 365)" "length (month_lengths y) = 12"
  by (simp_all add: month_lengths_def)

lemma civil_date:
  assumes "civil d = (year, month, day)"
  shows "day_number year month day = d" and "1 \<le> month" "month \<le> 12" and "1 \<le> day" "day \<le> month_lengths year ! (month - 1)"
    and "year div 400 = d div cycle_days"
proof -
  let ?c = "nat (d mod cycle_days)" and ?q = "d div cycle_days"
  obtain y yday where y: "locate year_lengths ?c = (y, yday)" by fastforce
  have "?c < sum_list year_lengths" by (simp add: year_days cycle_days_def nat_less_iff)
  note yl = locate_sum [OF this y]
  then have y400: "y < 400" by (simp add: year_days)
  obtain m mday where m: "locate (month_lengths (400 * ?q + int y)) yday = (m, mday)" by fastforce
  have "yday < sum_list (month_lengths (400 * ?q + int y))"
    using yl(2) y400 by (simp add: month_days leap_mod_400 year_lengths_def)
  note ml = locate_sum [OF this m]
  have eq: "year = 400 * ?q + int y" "month = Suc m" "day = Suc mday" using assms y m by (simp_all add: civil_def)
  then show year: "year div 400 = ?q" using y400 by simp
  have d: "cycle_days * ?q + int ?c = d" using pos_mod_sign [of cycle_days d] by (simp add: cycle_days_def)
  then have "cycle_days * ?q + (int (sum_list (take y year_lengths)) + (int (sum_list (take m (month_lengths (400 * ?q + int y)))) + int mday)) = d"
    using yl(3) ml(3) by linarith
  moreover have "nat (year mod 400) = y" using y400 eq by simp
  ultimately show "day_number year month day = d"
    using year eq d by (simp add: day_number_def)
  show "1 \<le> month" "month \<le> 12" "1 \<le> day" "day \<le> month_lengths year ! (month - 1)"
    using eq ml(1,2) by (simp_all add: month_days)
qed

section \<open>Writing\<close>

definition pad :: "nat \<Rightarrow> nat \<Rightarrow> string" where
  "pad w n = replicate (w - length (format_nat n)) (CHR ''0'') @ format_nat n"

definition append_int :: "nat \<Rightarrow> int \<Rightarrow> string" where
  "append_int w i = (if i < 0 then CHR ''-'' # pad w (nat (- i)) else pad w (nat i))"

definition unix_day :: int where "unix_day = 719528"

definition FormatRFC3339 :: "time \<Rightarrow> string" where
  "FormatRFC3339 t =
     (let secs = t div Second; (year, month, day) = civil (unix_day + secs div 86400); s = nat (secs mod 86400) in
      append_int 4 year @ ''-'' @ pad 2 month @ ''-'' @ pad 2 day @ ''T'' @
      pad 2 (s div 3600) @ '':'' @ pad 2 (s mod 3600 div 60) @ '':'' @ pad 2 (s mod 60) @ ''Z'')"

section \<open>Reading\<close>

definition take_number :: "nat \<Rightarrow> string \<Rightarrow> (nat \<times> string) option" where
  "take_number n s =
     (if length s < n then None else map_option (\<lambda>v. (v, drop n s)) (parse_digits 0 (take n s)))"

definition take_hour :: "string \<Rightarrow> (nat \<times> string) option" where
  "take_hour s = (case take_number 2 s of Some r \<Rightarrow> Some r | None \<Rightarrow> take_number 1 s)"

fun expect :: "char \<Rightarrow> string \<Rightarrow> string option" where
  "expect c [] = None"
| "expect c (d # s) = (if c = d then Some s else None)"

text \<open>A fraction of a second in nanoseconds: at least one digit after a point or comma; digits after the ninth are ignored.\<close>

definition take_fraction :: "string \<Rightarrow> nat \<times> string" where
  "take_fraction s =
     (case s of
        c # d # r \<Rightarrow>
          if c \<in> {CHR ''.'', CHR '',''} \<and> digit_val d \<noteq> None
          then (let ds = takeWhile (\<lambda>c. digit_val c \<noteq> None) (d # r); frac = take 9 ds in
                (the (parse_digits 0 frac) * 10 ^ (9 - length frac), dropWhile (\<lambda>c. digit_val c \<noteq> None) (d # r)))
          else (0, s)
      | _ \<Rightarrow> (0, s))"

text \<open>The offset in seconds, with nothing behind it.\<close>

definition take_offset :: "string \<Rightarrow> int option" where
  "take_offset s =
     (case s of
        [] \<Rightarrow> None
      | c # r \<Rightarrow>
          if c = CHR ''Z'' then (if r = [] then Some 0 else None)
          else if c \<in> {CHR ''+'', CHR ''-''} then
            (case take_number 2 r of None \<Rightarrow> None | Some (hr, r) \<Rightarrow>
            (case expect (CHR '':'') r of None \<Rightarrow> None | Some r \<Rightarrow>
            (case take_number 2 r of None \<Rightarrow> None | Some (mm, r) \<Rightarrow>
             if hr \<le> 24 \<and> mm \<le> 60 \<and> r = [] then Some ((if c = CHR ''-'' then - 1 else 1) * int ((hr * 60 + mm) * 60)) else None)))
          else None)"

definition ParseRFC3339 :: "string \<Rightarrow> time option" where
  "ParseRFC3339 s =
     (case take_number 4 s of None \<Rightarrow> None | Some (year, s) \<Rightarrow>
     (case expect (CHR ''-'') s of None \<Rightarrow> None | Some s \<Rightarrow>
     (case take_number 2 s of None \<Rightarrow> None | Some (month, s) \<Rightarrow>
     (case expect (CHR ''-'') s of None \<Rightarrow> None | Some s \<Rightarrow>
     (case take_number 2 s of None \<Rightarrow> None | Some (day, s) \<Rightarrow>
     (case expect (CHR ''T'') s of None \<Rightarrow> None | Some s \<Rightarrow>
     (case take_hour s of None \<Rightarrow> None | Some (hour, s) \<Rightarrow>
     (case expect (CHR '':'') s of None \<Rightarrow> None | Some s \<Rightarrow>
     (case take_number 2 s of None \<Rightarrow> None | Some (mn, s) \<Rightarrow>
     (case expect (CHR '':'') s of None \<Rightarrow> None | Some s \<Rightarrow>
     (case take_number 2 s of None \<Rightarrow> None | Some (sec, s) \<Rightarrow>
     (let (nsec, s) = take_fraction s in
      case take_offset s of None \<Rightarrow> None | Some offset \<Rightarrow>
        if 1 \<le> month \<and> month \<le> 12 \<and> hour \<le> 23 \<and> mn \<le> 59 \<and> sec \<le> 59 \<and>
           1 \<le> day \<and> day \<le> month_lengths (int year) ! (month - 1)
        then Some (((day_number (int year) month day - unix_day) * 86400 + int (hour * 3600 + mn * 60 + sec) - offset) * Second + int nsec)
        else None))))))))))))"

section \<open>Round trip\<close>

lemma format_nat_length: "0 < w \<Longrightarrow> n < 10 ^ w \<Longrightarrow> length (format_nat n) \<le> w"
proof (induction n arbitrary: w rule: format_nat.induct)
  case (1 n)
  show ?case
  proof (cases "n < 10")
    case True
    then show ?thesis using "1.prems"(1) by (simp add: format_nat.simps [of n])
  next
    case False
    then obtain w' where w: "w = Suc w'" "0 < w'" using "1.prems" by (cases w; cases "w - 1") auto
    then have "n div 10 < 10 ^ w'" using "1.prems"(2) by (simp add: less_mult_imp_div_less mult.commute)
    then show ?thesis using "1.IH" [OF False w(2)] False w(1) by (simp add: format_nat.simps [of n])
  qed
qed

lemma pad_length: "0 < w \<Longrightarrow> n < 10 ^ w \<Longrightarrow> length (pad w n) = w"
  by (simp add: pad_def format_nat_length)

lemma parse_pad: "parse_digits 0 (pad w n) = Some n"
proof -
  have "parse_digits 0 (replicate k (CHR ''0'') @ s) = parse_digits 0 s" for k s
    by (induction k) (simp_all add: digit_val_def)
  then show ?thesis by (simp add: pad_def parse_format_digits)
qed

lemma take_number_pad: "0 < w \<Longrightarrow> n < 10 ^ w \<Longrightarrow> take_number w (pad w n @ r) = Some (n, r)"
  by (simp add: take_number_def pad_length parse_pad)

lemma take_hour_pad: "n < 100 \<Longrightarrow> take_hour (pad 2 n @ r) = Some (n, r)"
  by (simp add: take_hour_def take_number_pad)

lemma take_zulu: "take_fraction ''Z'' = (0, ''Z'')" "take_offset ''Z'' = Some 0"
  by (simp_all add: take_fraction_def take_offset_def)

lemma month_length_le: "m < 12 \<Longrightarrow> month_lengths y ! m \<le> 31"
  by (auto simp: month_lengths_def nth_Cons split: nat.split)

lemma ParseRFC3339_fields:
  assumes "year < 10000" and "1 \<le> month" "month \<le> 12" and "1 \<le> day" "day \<le> month_lengths (int year) ! (month - 1)"
    and "hour \<le> 23" "mn \<le> 59" "sec \<le> 59"
  shows "ParseRFC3339 (pad 4 year @ ''-'' @ pad 2 month @ ''-'' @ pad 2 day @ ''T'' @ pad 2 hour @ '':'' @ pad 2 mn @ '':'' @ pad 2 sec @ ''Z'') =
    Some (((day_number (int year) month day - unix_day) * 86400 + int (hour * 3600 + mn * 60 + sec)) * Second)"
proof -
  have "month - 1 < 12" using assms(2,3) by linarith
  from month_length_le [OF this, of "int year"] have "day < 10\<^sup>2" using assms(5) by simp
  moreover have "month < 10\<^sup>2" "hour < 100" "mn < 10\<^sup>2" "sec < 10\<^sup>2" "year < 10 ^ 4" using assms by simp_all
  ultimately show ?thesis
    using assms(2-8) unfolding ParseRFC3339_def
    by (simp only: take_number_pad take_hour_pad take_zulu option.case prod.case expect.simps append_Cons append_Nil if_True simp_thms Let_def zero_less_numeral) simp
qed

lemma time_of_day:
  fixes n :: nat
  assumes "n < 86400"
  shows "n div 3600 \<le> 23" and "n mod 3600 div 60 \<le> 59" and "n mod 60 \<le> 59"
    and "n div 3600 * 3600 + n mod 3600 div 60 * 60 + n mod 60 = n"
proof -
  have "n mod 3600 div 60 * 60 + n mod 60 = n mod 3600"
    using div_mult_mod_eq [of "n mod 3600" 60] by (simp add: mod_mod_cancel)
  then show "n div 3600 * 3600 + n mod 3600 div 60 * 60 + n mod 60 = n" using div_mult_mod_eq [of n 3600] by linarith
  show "n div 3600 \<le> 23" using assms by (simp add: less_mult_imp_div_less flip: less_Suc_eq_le)
  show "n mod 3600 div 60 \<le> 59" "n mod 60 \<le> 59" by (simp_all add: less_mult_imp_div_less flip: less_Suc_eq_le)
qed

lemma ParseRFC3339_Format:
  assumes "- unix_day * 86400 * Second \<le> t" and "t < (25 * cycle_days - unix_day) * 86400 * Second"
  shows "ParseRFC3339 (FormatRFC3339 t) = Some (t div Second * Second)"
proof -
  define secs where "secs = t div Second"
  define s where "s = nat (secs mod 86400)"
  obtain year month day where c: "civil (unix_day + secs div 86400) = (year, month, day)" by (metis prod_cases3)
  note date = civil_date [OF c]
  have "0 \<le> unix_day + secs div 86400" "unix_day + secs div 86400 < 25 * cycle_days"
    using assms by (simp_all add: secs_def Second_def unix_day_def cycle_days_def)
  then have "0 \<le> year div 400" "year div 400 < 25" by (simp_all add: date(6) cycle_days_def)
  then have "0 \<le> year" "year < 10000" by presburger+
  then have y: "0 \<le> year" "nat year < 10000" "int (nat year) = year" by simp_all
  have "s < 86400" by (simp add: s_def nat_less_iff)
  note hms = time_of_day [OF this]
  have "FormatRFC3339 t = pad 4 (nat year) @ ''-'' @ pad 2 month @ ''-'' @ pad 2 day @ ''T'' @
      pad 2 (s div 3600) @ '':'' @ pad 2 (s mod 3600 div 60) @ '':'' @ pad 2 (s mod 60) @ ''Z''"
    unfolding FormatRFC3339_def Let_def secs_def [symmetric] c s_def [symmetric] using y(1) by (simp add: append_int_def)
  also have "ParseRFC3339 \<dots> = Some (((day_number year month day - unix_day) * 86400 + int s) * Second)"
    using ParseRFC3339_fields [OF y(2) date(2,3,4) _ hms(1-3)] date(5) by (simp only: y(3) hms(4))
  also have "(day_number year month day - unix_day) * 86400 + int s = secs" by (simp add: date(1) s_def)
  finally show ?thesis by (simp add: secs_def)
qed

text \<open>A number of seconds is not read as a timestamp: behind four digits a timestamp has a hyphen.\<close>

lemma ParseRFC3339_FormatInt: "ParseRFC3339 (FormatInt i) = None"
proof (cases "i < 0")
  case True
  then show ?thesis by (simp add: FormatInt_def ParseRFC3339_def take_number_def digit_val_def)
next
  case False
  let ?s = "format_nat (nat i)"
  have "expect (CHR ''-'') (drop 4 ?s) = None"
  proof (cases "drop 4 ?s")
    case (Cons c r)
    then have "c \<in> set ?s" by (metis in_set_dropD list.set_intros(1))
    then show ?thesis using Cons format_nat_digits [of c "nat i"] by (auto simp: digit_val_def)
  qed simp
  then show ?thesis using False by (simp add: FormatInt_def ParseRFC3339_def take_number_def split: option.split)
qed

lemma FormatInt_0: "FormatInt 0 = ''0''"
  by code_simp

lemma FormatInt_eq_0: "FormatInt i = ''0'' \<longleftrightarrow> i = 0"
proof
  assume eq: "FormatInt i = ''0''"
  then have "\<not> i < 0" by (auto simp: FormatInt_def)
  moreover from this have "format_nat (nat i) = format_nat 0" using eq FormatInt_0 by (simp add: FormatInt_def)
  ultimately show "i = 0" using format_nat_inj [of "nat i" 0] by simp
qed (simp add: FormatInt_0)

end
