(* ===== verification/Measure.thy ===== *)
theory Measure
  imports Rfc3339 Complex_Main "HOL-Library.Char_ord" "HOL-Library.List_Lexorder"
begin

text \<open>
  The measurement tool of the experiments, \<^verbatim>\<open>webhosting-operator/cmd/measure/main.go\<close>: it runs the
  configured Prometheus queries, writes each result as a CSV file and verifies the service level
  objectives. Results are read through the cursor interface \<^verbatim>\<open>metricData\<close>, whose two implementations are
  datatypes here; \<open>None\<close> is an index out of range, i.e. a panic, or a loop that does not end. The label set
  of a metric is an association list, a zero \<^verbatim>\<open>time.Time\<close> is \<open>None\<close>. A \<^verbatim>\<open>float64\<close> is a rational, an
  infinity or NaN: the tool only compares and prints values, so nothing is rounded. The Prometheus client,
  the file system, the YAML decoder and the textual formats of durations and floats are parameters.
\<close>

section \<open>Values\<close>

datatype float64 = NaN | NegInf | PosInf | Finite rat

fun fl_le :: "float64 \<Rightarrow> float64 \<Rightarrow> bool" where
  "fl_le NaN _ = False"
| "fl_le _ NaN = False"
| "fl_le NegInf _ = True"
| "fl_le _ PosInf = True"
| "fl_le PosInf _ = False"
| "fl_le _ NegInf = False"
| "fl_le (Finite a) (Finite b) = (a \<le> b)"

type_synonym metric_labels = "(string \<times> string) list"

definition label_get :: "metric_labels \<Rightarrow> string \<Rightarrow> string" where
  "label_get metric name = (case map_of metric name of None \<Rightarrow> [] | Some v \<Rightarrow> v)"

record sample_stream =
  str_Metric :: metric_labels
  str_Values :: "(time \<times> float64) list"

record sample =
  smp_Metric :: metric_labels
  smp_Time :: time
  smp_Value :: float64

datatype model_value = VMatrix "sample_stream list" | VVector "sample list" | VOther string

fun model_type :: "model_value \<Rightarrow> string" where
  "model_type (VMatrix _) = ''matrix''"
| "model_type (VVector _) = ''vector''"
| "model_type (VOther s) = s"

record metricValue =
  mv_metric :: metric_labels
  mv_time :: "time option"
  mv_value :: float64

definition zero_metricValue :: metricValue where
  "zero_metricValue = \<lparr>mv_metric = [], mv_time = None, mv_value = Finite 0\<rparr>"

definition mv_IsZero :: "metricValue \<Rightarrow> bool" where
  "mv_IsZero v \<longleftrightarrow> mv_time v = None"

section \<open>Cursors\<close>

record matrixData =
  md_Matrix :: "sample_stream list"
  md_metric :: nat
  md_value :: nat

record vectorData =
  vd_Vector :: "sample list"
  vd_cursor :: nat

definition MetricNameLabel :: string where "MetricNameLabel = ''__name__''"

definition insert_labels :: "metric_labels \<Rightarrow> string list \<Rightarrow> string list" where
  "insert_labels metric labels =
     fold (\<lambda>labelName labels. if labelName = MetricNameLabel then labels else List.insert labelName labels) (map fst metric) labels"

definition matrix_IsEmpty :: "matrixData \<Rightarrow> bool" where
  "matrix_IsEmpty m \<longleftrightarrow> length (md_Matrix m) = 0"

definition matrix_GetLabelNames :: "matrixData \<Rightarrow> string list" where
  "matrix_GetLabelNames m = fold (\<lambda>metric. insert_labels (str_Metric metric)) (md_Matrix m) []"

definition matrix_Reset :: "matrixData \<Rightarrow> matrixData" where
  "matrix_Reset m = m\<lparr>md_metric := 0, md_value := 0\<rparr>"

definition matrix_NextValue :: "matrixData \<Rightarrow> (metricValue \<times> matrixData) option" where
  "matrix_NextValue m =
     (if matrix_IsEmpty m then Some (zero_metricValue, m)
      else if length (md_Matrix m) \<le> md_metric m then None
      else
        (let m = (if length (str_Values (md_Matrix m ! md_metric m)) \<le> md_value m
                  then m\<lparr>md_metric := md_metric m + 1, md_value := 0\<rparr> else m) in
         if length (md_Matrix m) \<le> md_metric m then Some (zero_metricValue, m)
         else
           (let sampleStream = md_Matrix m ! md_metric m in
            if length (str_Values sampleStream) \<le> md_value m then None
            else
              (let value = str_Values sampleStream ! md_value m in
               Some (\<lparr>mv_metric = str_Metric sampleStream, mv_time = Some (fst value), mv_value = snd value\<rparr>,
                     m\<lparr>md_value := md_value m + 1\<rparr>)))))"

definition vector_IsEmpty :: "vectorData \<Rightarrow> bool" where
  "vector_IsEmpty v \<longleftrightarrow> length (vd_Vector v) = 0"

definition vector_GetLabelNames :: "vectorData \<Rightarrow> string list" where
  "vector_GetLabelNames v = fold (\<lambda>metric. insert_labels (smp_Metric metric)) (vd_Vector v) []"

definition vector_Reset :: "vectorData \<Rightarrow> vectorData" where
  "vector_Reset v = v\<lparr>vd_cursor := 0\<rparr>"

definition vector_NextValue :: "vectorData \<Rightarrow> (metricValue \<times> vectorData) option" where
  "vector_NextValue v =
     (if vector_IsEmpty v then Some (zero_metricValue, v)
      else if length (vd_Vector v) \<le> vd_cursor v then Some (zero_metricValue, v)
      else
        (let s = vd_Vector v ! vd_cursor v in
         Some (\<lparr>mv_metric = smp_Metric s, mv_time = Some (smp_Time s), mv_value = smp_Value s\<rparr>, v\<lparr>vd_cursor := vd_cursor v + 1\<rparr>)))"

datatype metricData = MatrixData matrixData | VectorData vectorData

fun data_IsEmpty :: "metricData \<Rightarrow> bool" where
  "data_IsEmpty (MatrixData m) = matrix_IsEmpty m"
| "data_IsEmpty (VectorData v) = vector_IsEmpty v"

fun GetLabelNames :: "metricData \<Rightarrow> string list" where
  "GetLabelNames (MatrixData m) = matrix_GetLabelNames m"
| "GetLabelNames (VectorData v) = vector_GetLabelNames v"

fun data_Reset :: "metricData \<Rightarrow> metricData" where
  "data_Reset (MatrixData m) = MatrixData (matrix_Reset m)"
| "data_Reset (VectorData v) = VectorData (vector_Reset v)"

fun NextValue :: "metricData \<Rightarrow> (metricValue \<times> metricData) option" where
  "NextValue (MatrixData m) = map_option (map_prod id MatrixData) (matrix_NextValue m)"
| "NextValue (VectorData v) = map_option (map_prod id VectorData) (vector_NextValue v)"

text \<open>The loop over all values until the zero value; the body may return early.\<close>

partial_function (option) cursor_loop ::
  "('d \<Rightarrow> (metricValue \<times> 'd) option) \<Rightarrow> (metricValue \<Rightarrow> 's \<Rightarrow> 'r + 's) \<Rightarrow> 'd \<Rightarrow> 's \<Rightarrow> (('r + 's) \<times> 'd) option"
where
  "cursor_loop nxt body d s =
     (case nxt d of
        None \<Rightarrow> None
      | Some (value, d) \<Rightarrow>
          if mv_IsZero value then Some (Inr s, d)
          else
            (case body value s of
               Inl r \<Rightarrow> Some (Inl r, d)
             | Inr s \<Rightarrow> cursor_loop nxt body d s))"

section \<open>Queries\<close>

definition QueryTypeInstant :: string where "QueryTypeInstant = ''instant''"
definition QueryTypeRange :: string where "QueryTypeRange = ''range''"

record query =
  q_Name :: string
  q_Type :: string
  q_Query :: string
  q_Optional :: bool
  q_SLO :: "float64 option"

record query_range =
  qr_Start :: time
  qr_End :: time
  qr_Step :: duration

record measure_env =
  me_ReadAll :: "go_error + string"
  me_Unmarshal :: "string \<Rightarrow> go_error + query list"
  me_MkdirAll :: "string \<Rightarrow> go_error option"
  me_OpenFile :: "string \<Rightarrow> go_error option"
  me_Write :: "string \<Rightarrow> string list \<Rightarrow> go_error option"
  me_Flush :: "string \<Rightarrow> go_error option"
  me_QueryRange :: "string \<Rightarrow> query_range \<Rightarrow> go_error + model_value"
  me_Query :: "string \<Rightarrow> time \<Rightarrow> go_error + model_value"
  me_DurationString :: "duration \<Rightarrow> string"
  me_FormatFloat :: "float64 \<Rightarrow> string"

definition stdout :: string where "stdout = ''-''"

text \<open>
  The flags for times: \<^verbatim>\<open>timeValue\<close> reads a timestamp, a duration relative to now, or seconds since the epoch, and prints a
  timestamp. \<^verbatim>\<open>time.ParseDuration\<close> is a parameter.
\<close>

definition timeValue_Type :: string where "timeValue_Type = ''time''"

definition timeValue_String :: "time \<Rightarrow> string" where
  "timeValue_String t = FormatRFC3339 t"

definition timeValue_Set :: "(string \<Rightarrow> go_error + duration) \<Rightarrow> time \<Rightarrow> string \<Rightarrow> go_error + time" where
  "timeValue_Set parseDuration now s =
     (case ParseRFC3339 s of
        Some tt \<Rightarrow> Inr tt
      | None \<Rightarrow>
          (case parseDuration s of
             Inr dd \<Rightarrow> Inr (time_Add now dd)
           | Inl _ \<Rightarrow>
               (case ParseInt 64 s of
                  Inr ii \<Rightarrow> Inr (ii * Second)
                | Inl _ \<Rightarrow> Inl (errorf (''invalid time value: '' @ quote s)))))"

definition default_range :: "time \<Rightarrow> query_range" where
  "default_range now = \<lparr>qr_Start = time_Add now (- (15 * Minute)), qr_End = now, qr_Step = 15 * Second\<rparr>"

definition rangeToString :: "(duration \<Rightarrow> string) \<Rightarrow> query_range \<Rightarrow> string" where
  "rangeToString durationString r = ''start:'' @ FormatRFC3339 (qr_Start r) @ '' end:'' @ FormatRFC3339 (qr_End r) @
     '' step:'' @ durationString (qr_Step r)"

text \<open>The variables of the package that the flags set, with their initial values, and the flags that are registered for them.\<close>

record measure_vars =
  mo_outputDir :: string
  mo_outputPrefix :: string
  mo_prometheusURL :: string
  mo_queryRange :: query_range

definition measure_defaults :: "time \<Rightarrow> measure_vars" where
  "measure_defaults now = \<lparr>mo_outputDir = [], mo_outputPrefix = [], mo_prometheusURL = ''http://localhost:9091'', mo_queryRange = default_range now\<rparr>"

definition set_measure_flag ::
  "(string \<Rightarrow> go_error + duration) \<Rightarrow> time \<Rightarrow> string \<Rightarrow> string \<Rightarrow> measure_vars \<Rightarrow> go_error + measure_vars"
where
  "set_measure_flag parseDuration now name s v =
     (let r = mo_queryRange v in
      if name \<in> {''output-dir'', ''o''} then Inr (v\<lparr>mo_outputDir := s\<rparr>)
      else if name = ''output-prefix'' then Inr (v\<lparr>mo_outputPrefix := s\<rparr>)
      else if name = ''prometheus-url'' then Inr (v\<lparr>mo_prometheusURL := s\<rparr>)
      else if name = ''step'' then
        (case parseDuration s of Inl err \<Rightarrow> Inl err | Inr d \<Rightarrow> Inr (v\<lparr>mo_queryRange := r\<lparr>qr_Step := d\<rparr>\<rparr>))
      else if name = ''start'' then
        (case timeValue_Set parseDuration now s of Inl err \<Rightarrow> Inl err | Inr t \<Rightarrow> Inr (v\<lparr>mo_queryRange := r\<lparr>qr_Start := t\<rparr>\<rparr>))
      else if name = ''end'' then
        (case timeValue_Set parseDuration now s of Inl err \<Rightarrow> Inl err | Inr t \<Rightarrow> Inr (v\<lparr>mo_queryRange := r\<lparr>qr_End := t\<rparr>\<rparr>))
      else Inl (errorf (''unknown flag: '' @ name)))"

fun set_measure_flags ::
  "(string \<Rightarrow> go_error + duration) \<Rightarrow> time \<Rightarrow> (string \<times> string) list \<Rightarrow> measure_vars \<Rightarrow> go_error + measure_vars"
where
  "set_measure_flags parseDuration now [] v = Inr v"
| "set_measure_flags parseDuration now ((name, s) # fs) v =
     (case set_measure_flag parseDuration now name s v of Inl err \<Rightarrow> Inl err | Inr v \<Rightarrow> set_measure_flags parseDuration now fs v)"

definition decodeQueriesConfig :: "measure_env \<Rightarrow> go_error + query list" where
  "decodeQueriesConfig env =
     (case me_ReadAll env of Inl err \<Rightarrow> Inl err | Inr configData \<Rightarrow> me_Unmarshal env configData)"

definition prepareOutputDir :: "measure_env \<Rightarrow> string \<Rightarrow> go_error + string" where
  "prepareOutputDir env outputDir =
     (if outputDir = stdout then Inr outputDir
      else
        (let outputDir = (if outputDir = [] then ''.'' else outputDir) in
         case me_MkdirAll env outputDir of Some err \<Rightarrow> Inl err | None \<Rightarrow> Inr outputDir))"

definition unexpected_type :: "model_value \<Rightarrow> query \<Rightarrow> string \<Rightarrow> go_error" where
  "unexpected_type result q expected = errorf (''unexpected value type '' @ quote (model_type result) @ '' for query '' @
     quote (q_Name q) @ '', expected '' @ expected)"

definition fetchData :: "measure_env \<Rightarrow> query_range \<Rightarrow> query \<Rightarrow> go_error + metricData" where
  "fetchData env queryRange q =
     (if q_Type q = QueryTypeRange \<or> q_Type q = [] then
        (case me_QueryRange env (q_Query q) queryRange of
           Inl err \<Rightarrow> Inl err
         | Inr (VMatrix matrix) \<Rightarrow> Inr (MatrixData \<lparr>md_Matrix = matrix, md_metric = 0, md_value = 0\<rparr>)
         | Inr result \<Rightarrow> Inl (unexpected_type result q ''matrix''))
      else if q_Type q = QueryTypeInstant then
        (let rangeString = me_DurationString env (time_Sub (qr_End queryRange) (qr_Start queryRange));
             query = ReplaceAll (q_Query q) ''$__range'' rangeString in
         case me_Query env query (qr_End queryRange) of
           Inl err \<Rightarrow> Inl err
         | Inr (VVector vector) \<Rightarrow> Inr (VectorData \<lparr>vd_Vector = vector, vd_cursor = 0\<rparr>)
         | Inr result \<Rightarrow> Inl (unexpected_type result q ''vector''))
      else Inl (errorf (''unsupported query type '' @ quote (q_Type q))))"

text \<open>A file that was written: its name and its rows.\<close>

type_synonym csv_file = "string \<times> string list list"

definition toStringSlice :: "string list \<Rightarrow> string list" where
  "toStringSlice s = foldl (\<lambda>out v. out @ [v]) [] s"

lemma toStringSlice_id [simp]: "toStringSlice s = s"
proof -
  have "foldl (\<lambda>out v. out @ [v]) out s = out @ s" for out by (induction s arbitrary: out) simp_all
  then show ?thesis by (simp add: toStringSlice_def)
qed

definition csv_header :: "string list \<Rightarrow> string list" where
  "csv_header labelNames = [''ts'', ''value''] @ toStringSlice labelNames"

definition csv_row :: "measure_env \<Rightarrow> string list \<Rightarrow> metricValue \<Rightarrow> string list" where
  "csv_row env labelNames value =
     [FormatInt ((case mv_time value of Some t \<Rightarrow> t | None \<Rightarrow> 0) div Second), me_FormatFloat env (mv_value value)] @
     map (label_get (mv_metric value)) labelNames"

definition write_value :: "measure_env \<Rightarrow> string \<Rightarrow> string list \<Rightarrow> metricValue \<Rightarrow> string list list \<Rightarrow> (go_error \<times> string list list) + string list list" where
  "write_value env fileName labelNames value rows =
     (let row = csv_row env labelNames value in
      case me_Write env fileName row of Some err \<Rightarrow> Inl (err, rows) | None \<Rightarrow> Inr (rows @ [row]))"

text \<open>The result is the error, the file, if it was opened, and the data with its moved cursor.\<close>

definition writeResult :: "measure_env \<Rightarrow> string \<Rightarrow> string \<Rightarrow> query \<Rightarrow> metricData \<Rightarrow> (go_error option \<times> csv_file option \<times> metricData) option" where
  "writeResult env outputDir outputPrefix q data =
     (let fileName = outputPrefix @ q_Name q @ ''.csv'' in
      case (if outputDir = stdout then None else me_OpenFile env (path_Join [outputDir, fileName])) of
        Some err \<Rightarrow> Some (Some err, None, data)
      | None \<Rightarrow>
          (let labelNames = sort (GetLabelNames data) in
           case me_Write env fileName (csv_header labelNames) of
             Some err \<Rightarrow> Some (Some err, Some (fileName, []), data)
           | None \<Rightarrow>
               (case cursor_loop NextValue (write_value env fileName labelNames) (data_Reset data) [csv_header labelNames] of
                  None \<Rightarrow> None
                | Some (Inl (err, rows), data) \<Rightarrow> Some (Some err, Some (fileName, rows), data)
                | Some (Inr rows, data) \<Rightarrow> Some (me_Flush env fileName, Some (fileName, rows), data))))"

definition collect_failure :: "float64 \<Rightarrow> metricValue \<Rightarrow> metricValue list \<Rightarrow> unit + metricValue list" where
  "collect_failure slo value allFailures =
     (if mv_value value = NaN \<or> fl_le (mv_value value) slo then Inr allFailures else Inr (allFailures @ [value]))"

definition verifySLO :: "query \<Rightarrow> metricData \<Rightarrow> (bool \<times> bool) option" where
  "verifySLO q data =
     (case q_SLO q of
        None \<Rightarrow> Some (False, True)
      | Some slo \<Rightarrow>
          (case cursor_loop NextValue (collect_failure slo) (data_Reset data) [] of
             Some (Inr allFailures, _) \<Rightarrow> Some (True, \<not> 0 < length allFailures)
           | _ \<Rightarrow> None))"

fun run_queries ::
  "measure_env \<Rightarrow> query_range \<Rightarrow> string \<Rightarrow> string \<Rightarrow> query list \<Rightarrow> bool \<Rightarrow> bool \<Rightarrow> csv_file list \<Rightarrow> (go_error option \<times> csv_file list) option"
where
  "run_queries env queryRange outputDir outputPrefix [] slosChecked slosMet files =
     Some (if slosChecked \<and> \<not> slosMet then Some (errorf ''SLO verifications failed'') else None, files)"
| "run_queries env queryRange outputDir outputPrefix (q # qs) slosChecked slosMet files =
     (case fetchData env queryRange q of
        Inl err \<Rightarrow> Some (Some (wrapf (''error fetching data for query '' @ quote (q_Name q)) err), files)
      | Inr data \<Rightarrow>
          if data_IsEmpty data then
            if q_Optional q then run_queries env queryRange outputDir outputPrefix qs slosChecked slosMet files
            else Some (Some (errorf (''data is empty for query '' @ quote (q_Name q) @ '', but query is required'')), files)
          else
            (case writeResult env outputDir outputPrefix q data of
               None \<Rightarrow> None
             | Some (Some err, file, _) \<Rightarrow>
                 Some (Some (wrapf ''error writing result'' err), files @ (case file of None \<Rightarrow> [] | Some f \<Rightarrow> [f]))
             | Some (None, file, data) \<Rightarrow>
                 (let files = files @ (case file of None \<Rightarrow> [] | Some f \<Rightarrow> [f]) in
                  case verifySLO q data of
                    None \<Rightarrow> None
                  | Some (checked, ok) \<Rightarrow>
                      run_queries env queryRange outputDir outputPrefix qs (slosChecked \<or> checked)
                        (slosMet \<and> (checked \<longrightarrow> ok)) files)))"

definition measure_run :: "measure_env \<Rightarrow> query_range \<Rightarrow> string \<Rightarrow> string \<Rightarrow> (go_error option \<times> csv_file list) option" where
  "measure_run env queryRange outputDir outputPrefix =
     (case decodeQueriesConfig env of
        Inl err \<Rightarrow> Some (Some (wrapf ''error decoding queries file'' err), [])
      | Inr queries \<Rightarrow>
          (case prepareOutputDir env outputDir of
             Inl err \<Rightarrow> Some (Some err, [])
           | Inr outputDir \<Rightarrow> run_queries env queryRange outputDir outputPrefix queries False True []))"

section \<open>The cursor contract\<close>

text \<open>The loop of a client, as a fold that may return early.\<close>

fun fold_early :: "('a \<Rightarrow> 's \<Rightarrow> 'r + 's) \<Rightarrow> 'a list \<Rightarrow> 's \<Rightarrow> 'r + 's" where
  "fold_early body [] s = Inr s"
| "fold_early body (x # xs) s = (case body x s of Inl r \<Rightarrow> Inl r | Inr s \<Rightarrow> fold_early body xs s)"

locale metric_cursor =
  fixes reset :: "'d \<Rightarrow> 'd" and nxt :: "'d \<Rightarrow> (metricValue \<times> 'd) option"
    and vals :: "'d \<Rightarrow> metricValue list" and rest :: "'d \<Rightarrow> metricValue list"
    and wf :: "'d \<Rightarrow> bool" and ok :: "'d \<Rightarrow> bool"
  assumes reset_ok: "wf d \<Longrightarrow> ok (reset d)"
    and reset_rest: "wf d \<Longrightarrow> rest (reset d) = vals d"
    and reset_vals: "vals (reset d) = vals d"
    and next_end: "ok d \<Longrightarrow> rest d = [] \<Longrightarrow> \<exists>d'. nxt d = Some (zero_metricValue, d') \<and> wf d' \<and> vals d' = vals d"
    and next_value: "ok d \<Longrightarrow> rest d = v # vs \<Longrightarrow>
      \<exists>d'. nxt d = Some (v, d') \<and> ok d' \<and> rest d' = vs \<and> vals d' = vals d \<and> mv_time v \<noteq> None"
    and ok_wf: "ok d \<Longrightarrow> wf d"
begin

lemma loop_folds:
  "ok d \<Longrightarrow> \<exists>d'. cursor_loop nxt body d s = Some (fold_early body (rest d) s, d') \<and> wf d' \<and> vals d' = vals d"
proof (induction "rest d" arbitrary: d s)
  case Nil
  then obtain d' where "nxt d = Some (zero_metricValue, d')" "wf d'" "vals d' = vals d" using next_end [of d] by auto
  then show ?case using Nil by (subst cursor_loop.simps) (simp add: mv_IsZero_def zero_metricValue_def)
next
  case (Cons v vs)
  then obtain d' where d': "nxt d = Some (v, d')" "ok d'" "rest d' = vs" "vals d' = vals d" "mv_time v \<noteq> None"
    using next_value [of d v vs] by auto
  then have nz: "\<not> mv_IsZero v" by (simp add: mv_IsZero_def)
  show ?case
  proof (cases "body v s")
    case (Inl r)
    then show ?thesis using d' Cons.hyps(2) ok_wf [OF d'(2)]
      by (subst cursor_loop.simps) (simp add: nz flip: Cons.hyps(2))
  next
    case (Inr s')
    from Cons.hyps(1) [OF d'(3) [symmetric] d'(2), of s'] obtain d'' where
      "cursor_loop nxt body d' s' = Some (fold_early body (rest d') s', d'')" "wf d''" "vals d'' = vals d'" by blast
    then show ?thesis using d' Inr
      by (subst cursor_loop.simps) (simp add: nz flip: Cons.hyps(2))
  qed
qed

lemma reset_loop_folds:
  assumes "wf d"
  obtains d' where "cursor_loop nxt body (reset d) s = Some (fold_early body (vals d) s, d')" "wf d'" "vals d' = vals d"
  using loop_folds [OF reset_ok [OF assms], of body s] reset_rest [OF assms] reset_vals [of d] by auto

end

subsection \<open>Matrices\<close>

definition stream_values :: "sample_stream \<Rightarrow> metricValue list" where
  "stream_values s = map (\<lambda>(t, x). \<lparr>mv_metric = str_Metric s, mv_time = Some t, mv_value = x\<rparr>) (str_Values s)"

definition matrix_vals :: "matrixData \<Rightarrow> metricValue list" where
  "matrix_vals m = concat (map stream_values (md_Matrix m))"

definition matrix_rest :: "matrixData \<Rightarrow> metricValue list" where
  "matrix_rest m =
     (case drop (md_metric m) (md_Matrix m) of
        [] \<Rightarrow> []
      | s # ss \<Rightarrow> drop (md_value m) (stream_values s) @ concat (map stream_values ss))"

definition matrix_wf :: "matrixData \<Rightarrow> bool" where
  "matrix_wf m \<longleftrightarrow> list_all (\<lambda>s. str_Values s \<noteq> []) (md_Matrix m)"

definition matrix_ok :: "matrixData \<Rightarrow> bool" where
  "matrix_ok m \<longleftrightarrow> matrix_wf m \<and> (md_Matrix m \<noteq> [] \<longrightarrow>
     md_metric m < length (md_Matrix m) \<and> md_value m \<le> length (str_Values (md_Matrix m ! md_metric m)))"

lemma stream_values_length [simp]: "length (stream_values s) = length (str_Values s)"
  by (simp add: stream_values_def)

lemma stream_values_Nil [simp]: "stream_values s = [] \<longleftrightarrow> str_Values s = []"
  by (simp add: stream_values_def)

lemma stream_values_drop:
  "j < length (str_Values s) \<Longrightarrow> drop j (stream_values s) =
     \<lparr>mv_metric = str_Metric s, mv_time = Some (fst (str_Values s ! j)), mv_value = snd (str_Values s ! j)\<rparr> # drop (Suc j) (stream_values s)"
  by (simp add: stream_values_def Cons_nth_drop_Suc [symmetric] split: prod.split)

lemma matrix_next_here:
  assumes "md_metric m < length (md_Matrix m)" and "md_value m < length (str_Values (md_Matrix m ! md_metric m))"
  shows "matrix_NextValue m = Some (hd (matrix_rest m), m\<lparr>md_value := md_value m + 1\<rparr>)" "mv_time (hd (matrix_rest m)) \<noteq> None"
    "matrix_rest (m\<lparr>md_value := md_value m + 1\<rparr>) = tl (matrix_rest m)" "matrix_rest m \<noteq> []"
proof -
  have d: "drop (md_metric m) (md_Matrix m) = (md_Matrix m ! md_metric m) # drop (Suc (md_metric m)) (md_Matrix m)"
    using assms(1) by (simp add: Cons_nth_drop_Suc)
  note s = stream_values_drop [OF assms(2)]
  show "matrix_NextValue m = Some (hd (matrix_rest m), m\<lparr>md_value := md_value m + 1\<rparr>)" "mv_time (hd (matrix_rest m)) \<noteq> None"
    "matrix_rest (m\<lparr>md_value := md_value m + 1\<rparr>) = tl (matrix_rest m)" "matrix_rest m \<noteq> []"
    using assms by (simp_all add: matrix_NextValue_def matrix_IsEmpty_def matrix_rest_def d s Let_def) (auto simp: not_le)
qed

lemma matrix_next_stream:
  assumes "md_metric m < length (md_Matrix m)" and "md_value m = length (str_Values (md_Matrix m ! md_metric m))"
  shows "matrix_rest m = matrix_rest (m\<lparr>md_metric := md_metric m + 1, md_value := 0\<rparr>)"
    "str_Values (md_Matrix m ! md_metric m) \<noteq> [] \<Longrightarrow> md_metric m + 1 < length (md_Matrix m) \<Longrightarrow> str_Values (md_Matrix m ! (md_metric m + 1)) \<noteq> [] \<Longrightarrow>
      matrix_NextValue m = matrix_NextValue (m\<lparr>md_metric := md_metric m + 1, md_value := 0\<rparr>)"
proof -
  have d: "drop (md_metric m) (md_Matrix m) = (md_Matrix m ! md_metric m) # drop (Suc (md_metric m)) (md_Matrix m)"
    using assms(1) by (simp add: Cons_nth_drop_Suc)
  show "matrix_rest m = matrix_rest (m\<lparr>md_metric := md_metric m + 1, md_value := 0\<rparr>)"
    using assms(2) by (simp add: matrix_rest_def d split: list.split)
  assume "str_Values (md_Matrix m ! md_metric m) \<noteq> []" "md_metric m + 1 < length (md_Matrix m)" "str_Values (md_Matrix m ! (md_metric m + 1)) \<noteq> []"
  moreover have "md_Matrix m \<noteq> []" using assms(1) by auto
  ultimately show "matrix_NextValue m = matrix_NextValue (m\<lparr>md_metric := md_metric m + 1, md_value := 0\<rparr>)"
    using assms by (simp add: matrix_NextValue_def matrix_IsEmpty_def Let_def)
qed

lemma matrix_next_value:
  assumes ok: "matrix_ok m" and rest: "matrix_rest m = v # vs"
  shows "\<exists>m'. matrix_NextValue m = Some (v, m') \<and> matrix_ok m' \<and> matrix_rest m' = vs \<and> matrix_vals m' = matrix_vals m \<and> mv_time v \<noteq> None"
proof -
  have ne: "md_Matrix m \<noteq> []" using rest by (auto simp: matrix_rest_def)
  then have i: "md_metric m < length (md_Matrix m)" and j: "md_value m \<le> length (str_Values (md_Matrix m ! md_metric m))"
    and wf: "list_all (\<lambda>s. str_Values s \<noteq> []) (md_Matrix m)" using ok by (simp_all add: matrix_ok_def matrix_wf_def)
  show ?thesis
  proof (cases "md_value m = length (str_Values (md_Matrix m ! md_metric m))")
    case False
    with j have "md_value m < length (str_Values (md_Matrix m ! md_metric m))" by simp
    note n = matrix_next_here [OF i this]
    show ?thesis using n rest wf i j False by (intro exI [of _ "m\<lparr>md_value := md_value m + 1\<rparr>"]) (simp add: matrix_ok_def matrix_wf_def matrix_vals_def)
  next
    case True
    let ?m = "m\<lparr>md_metric := md_metric m + 1, md_value := 0\<rparr>"
    note e = matrix_next_stream [OF i True]
    have i': "md_metric m + 1 < length (md_Matrix m)" using rest unfolding e(1) by (cases "md_metric m + 1 < length (md_Matrix m)") (simp_all add: matrix_rest_def)
    then have ne': "str_Values (md_Matrix m ! (md_metric m + 1)) \<noteq> []" "str_Values (md_Matrix m ! md_metric m) \<noteq> []"
      using wf i by (simp_all add: list_all_length)
    have n: "matrix_NextValue ?m = Some (hd (matrix_rest ?m), ?m\<lparr>md_value := 0 + 1\<rparr>)" "mv_time (hd (matrix_rest ?m)) \<noteq> None"
      "matrix_rest (?m\<lparr>md_value := 0 + 1\<rparr>) = tl (matrix_rest ?m)"
      using matrix_next_here [of ?m] i' ne' by simp_all
    have "matrix_ok (?m\<lparr>md_value := 0 + 1\<rparr>)" using wf i' ne'(1) by (cases "str_Values (md_Matrix m ! (md_metric m + 1))") (simp_all add: matrix_ok_def matrix_wf_def)
    then show ?thesis
      using n rest e(1) e(2) [OF ne'(2) i' ne'(1)] by (intro exI [of _ "?m\<lparr>md_value := 0 + 1\<rparr>"]) (simp add: matrix_vals_def)
  qed
qed

lemma matrix_next_end:
  assumes ok: "matrix_ok m" and rest: "matrix_rest m = []"
  shows "\<exists>m'. matrix_NextValue m = Some (zero_metricValue, m') \<and> matrix_wf m' \<and> matrix_vals m' = matrix_vals m"
proof (cases "md_Matrix m = []")
  case False
  then have i: "md_metric m < length (md_Matrix m)" and j: "md_value m \<le> length (str_Values (md_Matrix m ! md_metric m))"
    and wf: "list_all (\<lambda>s. str_Values s \<noteq> []) (md_Matrix m)" using ok by (simp_all add: matrix_ok_def matrix_wf_def)
  have d: "drop (md_metric m) (md_Matrix m) = (md_Matrix m ! md_metric m) # drop (Suc (md_metric m)) (md_Matrix m)"
    using i by (simp add: Cons_nth_drop_Suc)
  have all: "md_value m = length (str_Values (md_Matrix m ! md_metric m))" using rest j by (simp add: matrix_rest_def d)
  have last: "length (md_Matrix m) \<le> Suc (md_metric m)"
  proof (rule ccontr)
    assume "\<not> ?thesis"
    then have "drop (Suc (md_metric m)) (md_Matrix m) = (md_Matrix m ! Suc (md_metric m)) # drop (Suc (Suc (md_metric m))) (md_Matrix m)"
      "str_Values (md_Matrix m ! Suc (md_metric m)) \<noteq> []" using wf by (simp_all add: Cons_nth_drop_Suc list_all_length)
    with rest show False by (simp add: matrix_rest_def d)
  qed
  show ?thesis using i all last wf False by (simp add: matrix_NextValue_def matrix_IsEmpty_def matrix_wf_def matrix_vals_def Let_def)
qed (use ok in \<open>simp add: matrix_NextValue_def matrix_IsEmpty_def matrix_ok_def\<close>)

interpretation matrix_cursor: metric_cursor matrix_Reset matrix_NextValue matrix_vals matrix_rest matrix_wf matrix_ok
proof
  fix m v vs
  show "matrix_wf m \<Longrightarrow> matrix_ok (matrix_Reset m)" by (simp add: matrix_ok_def matrix_Reset_def matrix_wf_def)
  show "matrix_rest (matrix_Reset m) = matrix_vals m" by (simp add: matrix_rest_def matrix_Reset_def matrix_vals_def split: list.split)
  show "matrix_vals (matrix_Reset m) = matrix_vals m" by (simp add: matrix_vals_def matrix_Reset_def)
  show "matrix_ok m \<Longrightarrow> matrix_wf m" by (simp add: matrix_ok_def)
qed (blast intro: matrix_next_end matrix_next_value)+

subsection \<open>Vectors\<close>

definition vector_vals :: "vectorData \<Rightarrow> metricValue list" where
  "vector_vals v = map (\<lambda>s. \<lparr>mv_metric = smp_Metric s, mv_time = Some (smp_Time s), mv_value = smp_Value s\<rparr>) (vd_Vector v)"

definition vector_rest :: "vectorData \<Rightarrow> metricValue list" where
  "vector_rest v = drop (vd_cursor v) (vector_vals v)"

interpretation vector_cursor: metric_cursor vector_Reset vector_NextValue vector_vals vector_rest "\<lambda>_. True" "\<lambda>_. True"
proof
  fix d v vs
  show "vector_rest (vector_Reset d) = vector_vals d" by (simp add: vector_rest_def vector_Reset_def vector_vals_def)
  show "vector_vals (vector_Reset d) = vector_vals d" by (simp add: vector_Reset_def vector_vals_def)
  show "\<exists>d'. vector_NextValue d = Some (zero_metricValue, d') \<and> True \<and> vector_vals d' = vector_vals d" if "vector_rest d = []"
    using that by (simp add: vector_NextValue_def vector_IsEmpty_def vector_rest_def vector_vals_def)
  show "\<exists>d'. vector_NextValue d = Some (v, d') \<and> True \<and> vector_rest d' = vs \<and> vector_vals d' = vector_vals d \<and> mv_time v \<noteq> None"
    if r: "vector_rest d = v # vs"
  proof -
    have i: "vd_cursor d < length (vd_Vector d)" using r by (cases "vd_cursor d < length (vd_Vector d)") (simp_all add: vector_rest_def vector_vals_def)
    then have "v = vector_vals d ! vd_cursor d" "vs = drop (Suc (vd_cursor d)) (vector_vals d)"
      using r by (simp_all add: vector_rest_def vector_vals_def Cons_nth_drop_Suc [symmetric] drop_map)
    then show ?thesis using i by (auto simp: vector_NextValue_def vector_IsEmpty_def vector_rest_def vector_vals_def Let_def)
  qed
qed simp_all

subsection \<open>The interface\<close>

fun data_vals :: "metricData \<Rightarrow> metricValue list" where
  "data_vals (MatrixData m) = matrix_vals m"
| "data_vals (VectorData v) = vector_vals v"

fun data_rest :: "metricData \<Rightarrow> metricValue list" where
  "data_rest (MatrixData m) = matrix_rest m"
| "data_rest (VectorData v) = vector_rest v"

fun data_wf :: "metricData \<Rightarrow> bool" where
  "data_wf (MatrixData m) = matrix_wf m"
| "data_wf (VectorData v) = True"

fun data_ok :: "metricData \<Rightarrow> bool" where
  "data_ok (MatrixData m) = matrix_ok m"
| "data_ok (VectorData v) = True"

interpretation data_cursor: metric_cursor data_Reset NextValue data_vals data_rest data_wf data_ok
proof
  fix d v vs
  show "data_wf d \<Longrightarrow> data_ok (data_Reset d)" by (cases d) (simp_all add: matrix_cursor.reset_ok)
  show "data_wf d \<Longrightarrow> data_rest (data_Reset d) = data_vals d"
    by (cases d) (simp_all add: matrix_cursor.reset_rest vector_cursor.reset_rest)
  show "data_vals (data_Reset d) = data_vals d" by (cases d) (simp_all add: matrix_cursor.reset_vals vector_cursor.reset_vals)
  show "data_ok d \<Longrightarrow> data_wf d" by (cases d) (simp_all add: matrix_cursor.ok_wf)
  show "\<exists>d'. NextValue d = Some (zero_metricValue, d') \<and> data_wf d' \<and> data_vals d' = data_vals d" if "data_ok d" "data_rest d = []"
    using that matrix_cursor.next_end vector_cursor.next_end by (cases d) fastforce+
  show "\<exists>d'. NextValue d = Some (v, d') \<and> data_ok d' \<and> data_rest d' = vs \<and> data_vals d' = data_vals d \<and> mv_time v \<noteq> None"
    if "data_ok d" "data_rest d = v # vs"
    using that matrix_cursor.next_value vector_cursor.next_value by (cases d) fastforce+
qed

section \<open>Results\<close>

definition within_slo :: "float64 \<Rightarrow> metricValue \<Rightarrow> bool" where
  "within_slo slo v \<longleftrightarrow> mv_value v = NaN \<or> fl_le (mv_value v) slo"

lemma collect_failures: "fold_early (collect_failure slo) vs xs = Inr (xs @ filter (\<lambda>v. \<not> within_slo slo v) vs)"
  by (induction vs arbitrary: xs) (simp_all add: collect_failure_def within_slo_def)

definition slo_satisfied :: "query \<Rightarrow> metricValue list \<Rightarrow> bool" where
  "slo_satisfied q vs \<longleftrightarrow> (case q_SLO q of None \<Rightarrow> True | Some slo \<Rightarrow> list_all (within_slo slo) vs)"

lemma slo_satisfied_iff:
  "slo_satisfied q vs \<longleftrightarrow> (\<forall>slo v. q_SLO q = Some slo \<and> v \<in> set vs \<longrightarrow> mv_value v = NaN \<or> fl_le (mv_value v) slo)"
  by (cases "q_SLO q") (auto simp: slo_satisfied_def within_slo_def list_all_iff)

lemma verifySLO_eq:
  assumes "data_wf d"
  shows "verifySLO q d = Some (q_SLO q \<noteq> None, slo_satisfied q (data_vals d))"
proof (cases "q_SLO q")
  case (Some slo)
  obtain d' where "cursor_loop NextValue (collect_failure slo) (data_Reset d) [] = Some (fold_early (collect_failure slo) (data_vals d) [], d')"
    by (rule data_cursor.reset_loop_folds [OF assms])
  then show ?thesis using Some by (simp add: verifySLO_def collect_failures slo_satisfied_def list_all_iff filter_empty_conv)
qed (simp add: verifySLO_def slo_satisfied_def)

lemma write_values:
  assumes "\<And>row. me_Write env f row = None"
  shows "fold_early (write_value env f labels) vs rows = Inr (rows @ map (csv_row env labels) vs)"
  by (induction vs arbitrary: rows) (simp_all add: write_value_def assms Let_def)

text \<open>An environment in which no output operation fails.\<close>

definition output_ok :: "measure_env \<Rightarrow> bool" where
  "output_ok env \<longleftrightarrow> (\<forall>d. me_MkdirAll env d = None) \<and> (\<forall>f. me_OpenFile env f = None) \<and> (\<forall>f row. me_Write env f row = None) \<and> (\<forall>f. me_Flush env f = None)"

definition csv_table :: "measure_env \<Rightarrow> metricData \<Rightarrow> string list list" where
  "csv_table env d = (let labelNames = sort (GetLabelNames d) in csv_header labelNames # map (csv_row env labelNames) (data_vals d))"

lemma writeResult_eq:
  assumes "output_ok env" and "data_wf d"
  obtains d' where "writeResult env outputDir outputPrefix q d = Some (None, Some (outputPrefix @ q_Name q @ ''.csv'', csv_table env d), d')"
    "data_wf d'" "data_vals d' = data_vals d"
proof -
  let ?f = "outputPrefix @ q_Name q @ ''.csv''" and ?l = "sort (GetLabelNames d)"
  obtain d' where d': "cursor_loop NextValue (write_value env ?f ?l) (data_Reset d) [csv_header ?l] =
      Some (fold_early (write_value env ?f ?l) (data_vals d) [csv_header ?l], d')" "data_wf d'" "data_vals d' = data_vals d"
    by (rule data_cursor.reset_loop_folds [OF assms(2)])
  have w: "me_Write env g row = None" "me_Flush env g = None" "me_OpenFile env g = None" for g row using assms(1) by (simp_all add: output_ok_def)
  have "writeResult env outputDir outputPrefix q d = Some (None, Some (?f, csv_table env d), d')"
    by (simp only: writeResult_def Let_def w if_cancel option.case d'(1) write_values [OF w(1)] prod.case sum.case csv_table_def append_Cons append_Nil)
  then show thesis using d'(2,3) by (rule that)
qed

lemma insert_labels_set: "set (insert_labels metric labels) = set labels \<union> (fst ` set metric - {MetricNameLabel})"
  unfolding insert_labels_def by (induction metric arbitrary: labels) auto

lemma insert_labels_distinct: "distinct labels \<Longrightarrow> distinct (insert_labels metric labels)"
  unfolding insert_labels_def by (induction metric arbitrary: labels) auto

lemma fold_labels:
  "set (fold (\<lambda>x. insert_labels (f x)) xs labels) = set labels \<union> (\<Union>x\<in>set xs. fst ` set (f x) - {MetricNameLabel})"
  "distinct labels \<Longrightarrow> distinct (fold (\<lambda>x. insert_labels (f x)) xs labels)"
  by (induction xs arbitrary: labels) (auto simp: insert_labels_set insert_labels_distinct)

lemma stream_metrics: "str_Values s \<noteq> [] \<Longrightarrow> mv_metric ` set (stream_values s) = {str_Metric s}"
  by (cases "str_Values s") (auto simp: stream_values_def)

lemma GetLabelNames_set:
  assumes "data_wf d"
  shows "set (GetLabelNames d) = (\<Union>v\<in>set (data_vals d). fst ` set (mv_metric v)) - {MetricNameLabel}"
proof (cases d)
  case (MatrixData m)
  have *: "(\<Union>v\<in>set (stream_values s). fst ` set (mv_metric v)) = fst ` set (str_Metric s)" if "s \<in> set (md_Matrix m)" for s
  proof -
    have "str_Values s \<noteq> []" using assms that by (simp add: MatrixData matrix_wf_def list_all_iff)
    have "(\<Union>v\<in>set (stream_values s). fst ` set (mv_metric v)) = (\<Union>k\<in>mv_metric ` set (stream_values s). fst ` set k)" by simp
    also have "\<dots> = fst ` set (str_Metric s)" unfolding stream_metrics [OF \<open>str_Values s \<noteq> []\<close>] by simp
    finally show ?thesis .
  qed
  have "(\<Union>v\<in>set (data_vals d). fst ` set (mv_metric v)) = (\<Union>s\<in>set (md_Matrix m). fst ` set (str_Metric s))"
    using * by (simp add: MatrixData matrix_vals_def)
  then show ?thesis by (simp add: MatrixData matrix_GetLabelNames_def fold_labels(1))
next
  case (VectorData v)
  then show ?thesis by (simp add: vector_GetLabelNames_def vector_vals_def fold_labels(1))
qed

lemma GetLabelNames_distinct: "distinct (GetLabelNames d)"
  by (cases d) (simp_all add: matrix_GetLabelNames_def vector_GetLabelNames_def fold_labels(2))

section \<open>Properties\<close>

text \<open>A result is written as a complete table: unless the output fails, and if no series of a range
  query is without values, the file has one row per value, in the order of the result, under a header with
  every label that occurs in it except the metric name, each once and in alphabetical order; every row holds
  its metric's label values in the columns of the header.\<close>

theorem csv_is_complete_table:
  assumes "output_ok env" and "data_wf d"
  shows "\<exists>labels d'. writeResult env outputDir outputPrefix q d =
      Some (None, Some (outputPrefix @ q_Name q @ ''.csv'', csv_header labels # map (csv_row env labels) (data_vals d)), d') \<and>
    sorted labels \<and> distinct labels \<and>
    set labels = (\<Union>v\<in>set (data_vals d). fst ` set (mv_metric v)) - {MetricNameLabel} \<and>
    (\<forall>v\<in>set (data_vals d). length (csv_row env labels v) = length (csv_header labels) \<and>
      (\<forall>i<length labels. csv_row env labels v ! (i + 2) = label_get (mv_metric v) (csv_header labels ! (i + 2))))"
proof -
  obtain d' where "writeResult env outputDir outputPrefix q d = Some (None, Some (outputPrefix @ q_Name q @ ''.csv'', csv_table env d), d')"
    by (rule writeResult_eq [OF assms])
  then show ?thesis using GetLabelNames_set [OF assms(2)] GetLabelNames_distinct [of d]
    by (intro exI [of _ "sort (GetLabelNames d)"] exI [of _ d']) (simp add: csv_table_def Let_def csv_row_def csv_header_def)
qed

definition sample_matrix :: "sample_stream list" where
  "sample_matrix = [\<lparr>str_Metric = [(''__name__'', ''up''), (''pod'', ''a'')], str_Values = [(15000000000, Finite 1), (30000000000, NaN)]\<rparr>,
     \<lparr>str_Metric = [(''job'', ''b'')], str_Values = [(15000000000, Finite 7)]\<rparr>]"

definition sample_data :: metricData where
  "sample_data = MatrixData \<lparr>md_Matrix = sample_matrix, md_metric = 0, md_value = 0\<rparr>"

definition sample_query :: query where
  "sample_query = \<lparr>q_Name = ''latency'', q_Type = [], q_Query = ''up'', q_Optional = False, q_SLO = Some (Finite 5)\<rparr>"

definition sample_measure_env :: measure_env where
  "sample_measure_env = \<lparr>me_ReadAll = Inr [], me_Unmarshal = \<lambda>_. Inr [sample_query], me_MkdirAll = \<lambda>_. None, me_OpenFile = \<lambda>_. None,
     me_Write = \<lambda>_ _. None, me_Flush = \<lambda>_. None, me_QueryRange = \<lambda>_ _. Inr (VMatrix sample_matrix), me_Query = \<lambda>_ _. Inr (VVector []),
     me_DurationString = \<lambda>_. ''15m0s'', me_FormatFloat = \<lambda>x. if x = NaN then ''NaN'' else ''1''\<rparr>"

lemma sample_measure_ok: "output_ok sample_measure_env" "data_wf sample_data"
  by (simp_all add: output_ok_def sample_measure_env_def sample_data_def matrix_wf_def sample_matrix_def)

lemma csv_is_complete_table_witness:
  "\<exists>labels d'. writeResult sample_measure_env ''.'' [] sample_query sample_data =
      Some (None, Some (''latency.csv'', csv_header labels # map (csv_row sample_measure_env labels) (data_vals sample_data)), d') \<and>
    set labels = {''job'', ''pod''}"
proof -
  have "(\<Union>v\<in>set (data_vals sample_data). fst ` set (mv_metric v)) - {MetricNameLabel} = {''job'', ''pod''}"
    by (auto simp: sample_data_def sample_matrix_def matrix_vals_def stream_values_def MetricNameLabel_def)
  moreover have "[] @ q_Name sample_query @ ''.csv'' = ''latency.csv''" by (simp add: sample_query_def)
  ultimately show ?thesis
    using csv_is_complete_table [OF sample_measure_ok, of "''.''" "[]" sample_query] by (elim exE conjE) (intro exI conjI, simp_all only:)
qed

text \<open>The data of the queries that have any.\<close>

definition measured :: "measure_env \<Rightarrow> query_range \<Rightarrow> query list \<Rightarrow> (query \<times> metricData) list" where
  "measured env r qs = concat (map (\<lambda>q. case fetchData env r q of Inl _ \<Rightarrow> [] | Inr d \<Rightarrow> if data_IsEmpty d then [] else [(q, d)]) qs)"

definition fetches :: "measure_env \<Rightarrow> query_range \<Rightarrow> query \<Rightarrow> bool" where
  "fetches env r q \<longleftrightarrow> (case fetchData env r q of Inl _ \<Rightarrow> False | Inr d \<Rightarrow> data_wf d \<and> (data_IsEmpty d \<longrightarrow> q_Optional q))"

lemma run_queries_eq:
  assumes "output_ok env" and "list_all (fetches env r) qs" and "met \<or> checked"
  shows "run_queries env r outputDir pre qs checked met files =
    Some (if met \<and> list_all (\<lambda>(q, d). slo_satisfied q (data_vals d)) (measured env r qs) then None
          else Some (errorf ''SLO verifications failed''),
          files @ map (\<lambda>(q, d). (pre @ q_Name q @ ''.csv'', csv_table env d)) (measured env r qs))"
  using assms(2,3)
proof (induction qs arbitrary: checked met files)
  case Nil
  then show ?case by (auto simp: measured_def)
next
  case (Cons q qs)
  obtain d where d: "fetchData env r q = Inr d" "data_wf d" "data_IsEmpty d \<longrightarrow> q_Optional q"
    using Cons.prems(1) by (auto simp: fetches_def split: sum.splits)
  have qs: "list_all (fetches env r) qs" using Cons.prems(1) by simp
  show ?case
  proof (cases "data_IsEmpty d")
    case True
    then show ?thesis using d Cons.IH [OF qs Cons.prems(2)] by (simp add: measured_def)
  next
    case False
    obtain d' where w: "writeResult env outputDir pre q d = Some (None, Some (pre @ q_Name q @ ''.csv'', csv_table env d), d')"
      "data_wf d'" "data_vals d' = data_vals d" by (rule writeResult_eq [OF assms(1) d(2)])
    have c: "met \<and> (q_SLO q \<noteq> None \<longrightarrow> slo_satisfied q (data_vals d)) \<longleftrightarrow> met \<and> slo_satisfied q (data_vals d)"
      by (auto simp: slo_satisfied_def)
    have m: "measured env r (q # qs) = (q, d) # measured env r qs" using d(1) False by (simp add: measured_def)
    have "met \<and> slo_satisfied q (data_vals d) \<or> checked \<or> q_SLO q \<noteq> None" using Cons.prems(2) by (auto simp: slo_satisfied_def)
    note IH = Cons.IH [OF qs this, of "files @ [(pre @ q_Name q @ ''.csv'', csv_table env d)]"]
    have "run_queries env r outputDir pre (q # qs) checked met files =
      run_queries env r outputDir pre qs (checked \<or> q_SLO q \<noteq> None) (met \<and> slo_satisfied q (data_vals d)) (files @ [(pre @ q_Name q @ ''.csv'', csv_table env d)])"
      using False by (simp only: run_queries.simps d(1) w(1) sum.case option.case prod.case if_False Let_def verifySLO_eq [OF w(2)] w(3) c)
    then show ?thesis unfolding m IH by (simp only: list.map list_all_iff list.set ball_simps prod.case append_Cons append_Nil append_assoc conj_assoc)
  qed
qed

text \<open>C35: The verdict of a measurement is right: if the queries can be fetched, no required result is empty
  and nothing fails to be written, the tool ends with an error exactly if some value of a query with an objective is
  above it (NaN is not), and it has written the table of every query with data, in the order of the queries.\<close>

theorem measurement_verdict:
  assumes "output_ok env" and "decodeQueriesConfig env = Inr qs" and "list_all (fetches env r) qs"
  shows "\<exists>err. measure_run env r outputDir pre = Some (err, map (\<lambda>(q, d). (pre @ q_Name q @ ''.csv'', csv_table env d)) (measured env r qs)) \<and>
    (err = None \<longleftrightarrow> (\<forall>(q, d)\<in>set (measured env r qs). \<forall>slo v. q_SLO q = Some slo \<and> v \<in> set (data_vals d) \<longrightarrow>
      mv_value v = NaN \<or> fl_le (mv_value v) slo))"
proof -
  have "me_MkdirAll env d = None" for d using assms(1) by (simp add: output_ok_def)
  then obtain dir where "prepareOutputDir env outputDir = Inr dir"
    by (cases "outputDir = stdout") (simp_all add: prepareOutputDir_def Let_def)
  then have "measure_run env r outputDir pre = run_queries env r dir pre qs False True []" using assms(2) by (simp add: measure_run_def)
  also note run_queries_eq [OF assms(1,3), of True False dir pre "[]"]
  finally show ?thesis by (simp add: list_all_iff slo_satisfied_iff)
qed

lemma sample_fetches:
  "decodeQueriesConfig sample_measure_env = Inr [sample_query]" "list_all (fetches sample_measure_env r) [sample_query]"
  "measured sample_measure_env r [sample_query] = [(sample_query, sample_data)]"
  by (simp_all add: decodeQueriesConfig_def sample_measure_env_def fetches_def fetchData_def sample_query_def QueryTypeRange_def matrix_wf_def
      sample_matrix_def measured_def matrix_IsEmpty_def sample_data_def)

lemma measurement_verdict_witness:
  "\<exists>err files. measure_run sample_measure_env (default_range 0) [] [] = Some (err, files) \<and> err \<noteq> None"
proof -
  obtain err where run: "measure_run sample_measure_env (default_range 0) [] [] =
      Some (err, map (\<lambda>(q, d). ([] @ q_Name q @ ''.csv'', csv_table sample_measure_env d)) [(sample_query, sample_data)])"
    and err: "err = None \<longleftrightarrow> (\<forall>(q, d)\<in>set [(sample_query, sample_data)]. \<forall>slo v. q_SLO q = Some slo \<and> v \<in> set (data_vals d) \<longrightarrow>
      mv_value v = NaN \<or> fl_le (mv_value v) slo)"
    using measurement_verdict [OF sample_measure_ok(1) sample_fetches(1,2), of "default_range 0" "[]" "[]"] unfolding sample_fetches(3) by (elim exE conjE)
  have "err \<noteq> None" unfolding err
    by (simp add: sample_query_def sample_data_def sample_matrix_def matrix_vals_def stream_values_def)
  with run show ?thesis by blast
qed

text \<open>A series without values, as Prometheus returns it for native histograms, makes the cursor panic when it
  follows a series with values.\<close>

theorem series_without_values_panics:
  assumes "str_Values s1 \<noteq> []" and "str_Values s2 = []"
  shows "NextValue (MatrixData \<lparr>md_Matrix = [s1, s2], md_metric = 0, md_value = length (str_Values s1)\<rparr>) = None"
  using assms by (simp add: matrix_NextValue_def matrix_IsEmpty_def)

text \<open>The end of a result may be read once only: asking a matrix again after its end panics.\<close>

lemma matrix_end_is_final:
  "m \<noteq> [] \<Longrightarrow> NextValue (MatrixData \<lparr>md_Matrix = m, md_metric = length m, md_value = 0\<rparr>) = None"
  by (simp add: matrix_NextValue_def matrix_IsEmpty_def)

definition ParseDuration_doc :: "(string \<Rightarrow> go_error + duration) \<Rightarrow> bool" where
  "ParseDuration_doc parseDuration \<longleftrightarrow> parseDuration ''0'' = Inr 0 \<and> (\<forall>i. i \<noteq> 0 \<longrightarrow> isl (parseDuration (FormatInt i)))"

text \<open>C40: The time flags read what they print and what their documentation says: a printed time is read back to the second, in
  the years 0 to 9999; a number of seconds other than 0 is read as a unix timestamp; the number 0 is read as the duration 0, so
  that it means now and not the epoch.\<close>

theorem time_flags_read_documented_formats:
  assumes "ParseDuration_doc parseDuration"
  shows "(- unix_day * 86400 * Second \<le> t \<longrightarrow> t < (25 * cycle_days - unix_day) * 86400 * Second \<longrightarrow>
      timeValue_Set parseDuration now (timeValue_String t) = Inr (t div Second * Second)) \<and>
    (i \<noteq> 0 \<longrightarrow> - (2 ^ 63) \<le> i \<longrightarrow> i < 2 ^ 63 \<longrightarrow> timeValue_Set parseDuration now (FormatInt i) = Inr (i * Second)) \<and>
    timeValue_Set parseDuration now ''0'' = Inr now"
proof -
  have "ParseRFC3339 ''0'' = None" using ParseRFC3339_FormatInt [of 0] by (simp only: FormatInt_0)
  moreover have "timeValue_Set parseDuration now (FormatInt i) = Inr (i * Second)" if "i \<noteq> 0" "- (2 ^ 63) \<le> i" "i < 2 ^ 63"
    using that assms ParseInt_FormatInt [of 64 i]
    by (auto simp: timeValue_Set_def ParseRFC3339_FormatInt ParseDuration_doc_def isl_def split: sum.split)
  ultimately show ?thesis
    using assms by (simp add: timeValue_Set_def timeValue_String_def ParseRFC3339_Format ParseDuration_doc_def time_Add_def)
qed

lemma time_flags_read_documented_formats_witness:
  "timeValue_Set (\<lambda>s. if s = ''0'' then Inr 0 else Inl (errorf ''missing unit in duration'')) 7 (timeValue_String (1665825136 * Second + 5)) =
     Inr (1665825136 * Second)"
proof -
  let ?pd = "\<lambda>s. if s = ''0'' then Inr 0 else Inl (errorf ''missing unit in duration'')"
  have "ParseDuration_doc ?pd" by (simp add: ParseDuration_doc_def FormatInt_eq_0)
  from time_flags_read_documented_formats [OF this, of "1665825136 * Second + 5" 7] show ?thesis
    by (simp add: unix_day_def cycle_days_def Second_def)
qed

end
