(* ===== verification/Concurrently.thy ===== *)
theory Concurrently
  imports Progress Prelude "HOL-Library.Multiset"
begin

text \<open>
  \<^verbatim>\<open>NTimesConcurrently\<close> of \<^verbatim>\<open>webhosting-operator/pkg/experiment/generator/utils.go\<close>: a number of workers
  call a function a given number of times, fed by one channel and reporting to another, from which a
  collector gathers the errors. The state counts what the goroutines are doing: the calls still to emit, the
  tokens in the work channel, the workers that are idle, running or about to report, and those that returned.
  A call of the function is one step on the world; it may panic, which ends the program. Both channels have
  the capacity of the number of workers.
\<close>

type_synonym 'w worker_fun = "'w \<Rightarrow> (go_error option \<times> 'w) option"

record 'w nt_state =
  nt_toEmit :: nat
  nt_work :: nat
  nt_workClosed :: bool
  nt_idle :: nat
  nt_running :: nat
  nt_reporting :: "go_error option list"
  nt_exited :: nat
  nt_errs :: "go_error option list"
  nt_errsClosed :: bool
  nt_allErrs :: "go_error list"
  nt_errsDone :: bool
  nt_world :: 'w
  nt_panicked :: bool
  nt_ret :: "go_error option option"

text \<open>\<^verbatim>\<open>multierror.Append\<close> ignores nil errors; \<^verbatim>\<open>ErrorOrNil\<close> is nil for an empty list. How several errors
  become one is a parameter.\<close>

definition append_err :: "go_error list \<Rightarrow> go_error option \<Rightarrow> go_error list" where
  "append_err allErrs e = (case e of None \<Rightarrow> allErrs | Some err \<Rightarrow> allErrs @ [err])"

definition ErrorOrNil :: "(go_error list \<Rightarrow> go_error) \<Rightarrow> go_error list \<Rightarrow> go_error option" where
  "ErrorOrNil combine allErrs = (if allErrs = [] then None else Some (combine allErrs))"

inductive nt_step :: "(go_error list \<Rightarrow> go_error) \<Rightarrow> nat \<Rightarrow> 'w worker_fun \<Rightarrow> 'w nt_state \<Rightarrow> 'w nt_state \<Rightarrow> bool"
  for combine workers f
where
  emit: "nt_toEmit s = Suc k \<Longrightarrow> nt_work s < workers \<Longrightarrow> \<not> nt_panicked s \<Longrightarrow>
    nt_step combine workers f s (s\<lparr>nt_toEmit := k, nt_work := nt_work s + 1\<rparr>)"
| close_work: "nt_toEmit s = 0 \<Longrightarrow> \<not> nt_workClosed s \<Longrightarrow> \<not> nt_panicked s \<Longrightarrow>
    nt_step combine workers f s (s\<lparr>nt_workClosed := True\<rparr>)"
| take_token: "nt_work s = Suc k \<Longrightarrow> nt_idle s = Suc i \<Longrightarrow> \<not> nt_panicked s \<Longrightarrow>
    nt_step combine workers f s (s\<lparr>nt_work := k, nt_idle := i, nt_running := nt_running s + 1\<rparr>)"
| worker_exit: "nt_work s = 0 \<Longrightarrow> nt_workClosed s \<Longrightarrow> nt_idle s = Suc i \<Longrightarrow> \<not> nt_panicked s \<Longrightarrow>
    nt_step combine workers f s (s\<lparr>nt_idle := i, nt_exited := nt_exited s + 1\<rparr>)"
| call: "nt_running s = Suc r \<Longrightarrow> f (nt_world s) = Some (e, w') \<Longrightarrow> \<not> nt_panicked s \<Longrightarrow>
    nt_step combine workers f s (s\<lparr>nt_running := r, nt_reporting := e # nt_reporting s, nt_world := w'\<rparr>)"
| panic: "nt_running s = Suc r \<Longrightarrow> f (nt_world s) = None \<Longrightarrow> \<not> nt_panicked s \<Longrightarrow>
    nt_step combine workers f s (s\<lparr>nt_panicked := True\<rparr>)"
| report: "nt_reporting s = xs @ e # ys \<Longrightarrow> length (nt_errs s) < workers \<Longrightarrow> \<not> nt_panicked s \<Longrightarrow>
    nt_step combine workers f s (s\<lparr>nt_reporting := xs @ ys, nt_errs := nt_errs s @ [e], nt_idle := nt_idle s + 1\<rparr>)"
| collect: "nt_errs s = e # es \<Longrightarrow> \<not> nt_panicked s \<Longrightarrow>
    nt_step combine workers f s (s\<lparr>nt_errs := es, nt_allErrs := append_err (nt_allErrs s) e\<rparr>)"
| close_errs: "nt_workClosed s \<Longrightarrow> nt_exited s = workers \<Longrightarrow> \<not> nt_errsClosed s \<Longrightarrow> \<not> nt_panicked s \<Longrightarrow>
    nt_step combine workers f s (s\<lparr>nt_errsClosed := True\<rparr>)"
| collected: "nt_errs s = [] \<Longrightarrow> nt_errsClosed s \<Longrightarrow> \<not> nt_errsDone s \<Longrightarrow> \<not> nt_panicked s \<Longrightarrow>
    nt_step combine workers f s (s\<lparr>nt_errsDone := True\<rparr>)"
| ret: "nt_errsDone s \<Longrightarrow> nt_ret s = None \<Longrightarrow> \<not> nt_panicked s \<Longrightarrow>
    nt_step combine workers f s (s\<lparr>nt_ret := Some (ErrorOrNil combine (nt_allErrs s))\<rparr>)"

definition NTimesConcurrently :: "nat \<Rightarrow> nat \<Rightarrow> 'w \<Rightarrow> 'w nt_state" where
  "NTimesConcurrently n workers w =
     \<lparr>nt_toEmit = n, nt_work = 0, nt_workClosed = False, nt_idle = workers, nt_running = 0, nt_reporting = [], nt_exited = 0,
      nt_errs = [], nt_errsClosed = False, nt_allErrs = [], nt_errsDone = False, nt_world = w, nt_panicked = False, nt_ret = None\<rparr>"

section \<open>Sequential reference\<close>

fun n_times :: "nat \<Rightarrow> 'w worker_fun \<Rightarrow> 'w \<Rightarrow> (go_error list \<times> 'w) option" where
  "n_times 0 f w = Some ([], w)"
| "n_times (Suc n) f w =
     (case n_times n f w of
        None \<Rightarrow> None
      | Some (errs, w) \<Rightarrow> (case f w of None \<Rightarrow> None | Some (e, w) \<Rightarrow> Some (append_err errs e, w)))"

section \<open>Invariant\<close>

definition errs_of :: "go_error option list \<Rightarrow> go_error multiset" where
  "errs_of es = mset (List.map_filter id es)"

lemma errs_of_simps [simp]:
  "errs_of [] = {#}" "errs_of (None # es) = errs_of es" "errs_of (Some e # es) = add_mset e (errs_of es)"
  "errs_of (xs @ ys) = errs_of xs + errs_of ys"
  by (simp_all add: errs_of_def List.map_filter_def)

lemma mset_append_err: "mset (append_err es e) = mset es + errs_of [e]"
  by (simp add: append_err_def split: option.split)

definition nt_inv :: "(go_error list \<Rightarrow> go_error) \<Rightarrow> nat \<Rightarrow> nat \<Rightarrow> 'w worker_fun \<Rightarrow> 'w \<Rightarrow> 'w nt_state \<Rightarrow> bool" where
  "nt_inv combine n workers f w0 s \<longleftrightarrow>
     nt_toEmit s + nt_work s + nt_running s \<le> n \<and> nt_work s \<le> workers \<and>
     (\<exists>errs. n_times (n - (nt_toEmit s + nt_work s + nt_running s)) f w0 = Some (errs, nt_world s) \<and>
        mset errs = errs_of (nt_reporting s) + errs_of (nt_errs s) + mset (nt_allErrs s)) \<and>
     nt_idle s + nt_running s + length (nt_reporting s) + nt_exited s = workers \<and>
     (0 < nt_exited s \<longrightarrow> nt_workClosed s \<and> nt_work s = 0) \<and> (nt_workClosed s \<longrightarrow> nt_toEmit s = 0) \<and>
     (nt_errsClosed s \<longrightarrow> nt_workClosed s \<and> nt_exited s = workers) \<and> (nt_errsDone s \<longrightarrow> nt_errsClosed s \<and> nt_errs s = []) \<and>
     (\<forall>r. nt_ret s = Some r \<longrightarrow> nt_errsDone s \<and> r = ErrorOrNil combine (nt_allErrs s))"

definition nt_measure :: "'w nt_state \<Rightarrow> nat" where
  "nt_measure s = 6 * nt_toEmit s + 5 * nt_work s + 5 * nt_running s + 4 * length (nt_reporting s) + 2 * length (nt_errs s) + nt_idle s +
     of_bool (\<not> nt_workClosed s) + of_bool (\<not> nt_errsClosed s) + of_bool (\<not> nt_errsDone s) + of_bool (nt_ret s = None) + of_bool (\<not> nt_panicked s)"

lemma nt_measure_step: "nt_step combine workers f s s' \<Longrightarrow> nt_measure s' < nt_measure s"
  by (induction rule: nt_step.induct) (simp_all add: nt_measure_def)

lemma nt_inv_init: "nt_inv combine n workers f w (NTimesConcurrently n workers w)"
  by (simp add: nt_inv_def NTimesConcurrently_def)

lemma nt_inv_step:
  assumes "nt_inv combine n workers f w0 s" and "nt_step combine workers f s s'"
  shows "nt_inv combine n workers f w0 s'"
  using assms(2)
proof cases
  case (call r e w')
  let ?k = "n - (nt_toEmit s + nt_work s + nt_running s)"
  obtain errs where errs: "n_times ?k f w0 = Some (errs, nt_world s)"
    "mset errs = errs_of (nt_reporting s) + errs_of (nt_errs s) + mset (nt_allErrs s)"
    using assms(1) unfolding nt_inv_def by (elim conjE exE)
  have "nt_toEmit s + nt_work s + Suc r \<le> n" using assms(1) call unfolding nt_inv_def by (elim conjE) simp
  then have "n - (nt_toEmit s + nt_work s + r) = Suc ?k" using call by simp
  then have "n_times (n - (nt_toEmit s + nt_work s + r)) f w0 = Some (append_err errs e, w')" using errs(1) call by simp
  moreover have "mset (append_err errs e) = errs_of (e # nt_reporting s) + errs_of (nt_errs s) + mset (nt_allErrs s)"
    using errs(2) by (cases e) (simp_all add: append_err_def)
  ultimately show ?thesis using assms(1) call by (simp add: nt_inv_def)
next
  case (report xs e ys)
  then show ?thesis using assms(1) by (cases e) (auto simp: nt_inv_def)
next
  case (collect e es)
  then show ?thesis using assms(1) by (cases e) (auto simp: nt_inv_def append_err_def)
qed (use assms(1) in \<open>auto simp: nt_inv_def\<close>)

definition nt_final :: "'w nt_state \<Rightarrow> bool" where
  "nt_final s \<longleftrightarrow> nt_ret s \<noteq> None \<or> nt_panicked s"

lemma nt_finishes:
  assumes drained: "nt_work s = 0" "nt_toEmit s = 0" "nt_errs s = []" and count: "nt_idle s + nt_exited s = workers"
    and np: "\<not> nt_panicked s" and nr: "nt_ret s = None"
  shows "\<exists>s'. nt_step combine workers f s s'"
proof -
  consider "\<not> nt_workClosed s" | i where "nt_workClosed s" "nt_idle s = Suc i" | "nt_workClosed s" "nt_exited s = workers" "\<not> nt_errsClosed s"
    | "nt_errsClosed s" "\<not> nt_errsDone s" | "nt_errsDone s"
    using count by (cases "nt_idle s") auto
  then show ?thesis
  proof cases
    case 1 from nt_step.close_work [OF drained(2) this np] show ?thesis by blast
  next
    case 2 from nt_step.worker_exit [OF drained(1) 2 np] show ?thesis by blast
  next
    case 3 from nt_step.close_errs [OF 3 np] show ?thesis by blast
  next
    case 4 from nt_step.collected [OF drained(3) 4 np] show ?thesis by blast
  next
    case 5 from nt_step.ret [OF 5 nr np] show ?thesis by blast
  qed
qed

lemma nt_progress:
  assumes inv: "nt_inv combine n workers f w0 s" and "0 < workers" and unfinished: "\<not> nt_final s"
  shows "\<exists>s'. nt_step combine workers f s s'"
proof -
  have np: "\<not> nt_panicked s" and nr: "nt_ret s = None" using unfinished by (simp_all add: nt_final_def)
  have count: "nt_idle s + nt_running s + length (nt_reporting s) + nt_exited s = workers"
    and ex: "0 < nt_exited s \<longrightarrow> nt_work s = 0"
    using inv unfolding nt_inv_def by (elim conjE; simp)+
  consider (collect) e es where "nt_errs s = e # es" | (report) e ys where "nt_errs s = []" "nt_reporting s = [] @ e # ys"
    | (run) r where "nt_running s = Suc r" | (token) k i where "nt_work s = Suc k" "nt_idle s = Suc i"
    | (feed) k where "nt_work s = 0" "nt_toEmit s = Suc k" | (finish) "nt_work s = 0" "nt_toEmit s = 0" "nt_running s = 0" "nt_reporting s = []" "nt_errs s = []"
    using count ex \<open>0 < workers\<close>
    by (cases "nt_errs s"; cases "nt_reporting s"; cases "nt_running s"; cases "nt_work s"; cases "nt_idle s"; cases "nt_toEmit s") auto
  then show ?thesis
  proof cases
    case collect
    show ?thesis using nt_step.collect [OF collect np] by blast
  next
    case report
    have "length (nt_errs s) < workers" using report(1) \<open>0 < workers\<close> by simp
    from nt_step.report [OF report(2) this np] show ?thesis by blast
  next
    case run
    show ?thesis
    proof (cases "f (nt_world s)")
      case None
      from nt_step.panic [of s _ f, OF run None np] show ?thesis by blast
    next
      case (Some p)
      then obtain e w' where "f (nt_world s) = Some (e, w')" by (cases p) simp
      from nt_step.call [of s _ f, OF run this np] show ?thesis by blast
    qed
  next
    case token
    from nt_step.take_token [OF token np] show ?thesis by blast
  next
    case feed
    have "nt_work s < workers" using feed(1) \<open>0 < workers\<close> by simp
    from nt_step.emit [OF feed(2) this np] show ?thesis by blast
  next
    case finish
    then have "nt_idle s + nt_exited s = workers" using count by simp
    from nt_finishes [OF finish(1,2,5) this np nr] show ?thesis .
  qed
qed

interpretation n_times: progressing "nt_step combine workers f" "\<lambda>s. 0 < workers \<and> nt_inv combine n workers f w0 s" nt_final nt_measure
  for combine workers f n w0
  by unfold_locales (blast intro: nt_inv_step nt_measure_step nt_progress)+

lemma nt_returned:
  assumes "(nt_step combine workers f)\<^sup>*\<^sup>* (NTimesConcurrently n workers w) s" and "nt_ret s = Some r"
  shows "\<exists>errs es. n_times n f w = Some (errs, nt_world s) \<and> mset es = mset errs \<and> r = ErrorOrNil combine es"
proof -
  have "nt_inv combine n workers f w s"
    using assms(1) by (induction rule: rtranclp_induct) (auto intro: nt_inv_init nt_inv_step)
  then obtain errs where errs: "n_times (n - (nt_toEmit s + nt_work s + nt_running s)) f w = Some (errs, nt_world s)"
      "mset errs = errs_of (nt_reporting s) + errs_of (nt_errs s) + mset (nt_allErrs s)"
    and r: "r = ErrorOrNil combine (nt_allErrs s)" "nt_errs s = []" "nt_workClosed s" "nt_exited s = workers" "nt_toEmit s = 0"
    and count: "nt_idle s + nt_running s + length (nt_reporting s) + nt_exited s = workers"
    and work: "nt_work s \<le> workers" "0 < nt_exited s \<longrightarrow> nt_work s = 0"
    using assms(2) unfolding nt_inv_def by (elim conjE exE) simp
  have "nt_work s = 0" using work r(4) by (cases workers) simp_all
  moreover have "nt_running s = 0" "nt_reporting s = []" using count r(4) by simp_all
  ultimately have "n_times n f w = Some (errs, nt_world s)" "mset (nt_allErrs s) = mset errs" using errs r by simp_all
  with r(1) show ?thesis by blast
qed

section \<open>Properties\<close>

text \<open>C33: Running a function concurrently is running it one call after the other: when the routine returns,
  it has called the function exactly as often as asked, the world is the one after that many calls, and the
  error it returns combines the errors of all calls, each once, or is nil if no call failed.\<close>

theorem concurrent_calls_are_sequential:
  assumes "(nt_step combine workers f)\<^sup>*\<^sup>* (NTimesConcurrently n workers w) s" and "nt_ret s = Some r"
  shows "\<exists>errs es. n_times n f w = Some (errs, nt_world s) \<and> mset es = mset errs \<and> r = ErrorOrNil combine es"
  by (rule nt_returned [OF assms])

text \<open>It always returns: with at least one worker, from every state a run can reach, the routine can
  go on until it returns, unless the function panics, and no run has more than six steps per call and a fixed
  number besides.\<close>

theorem concurrent_calls_end:
  assumes "0 < workers" and "(nt_step combine workers f ^^ k) (NTimesConcurrently n workers w) s"
  shows "k \<le> 6 * n + workers + 5 \<and> (\<exists>s'. (nt_step combine workers f)\<^sup>*\<^sup>* s s' \<and> (nt_ret s' \<noteq> None \<or> nt_panicked s'))"
proof -
  have init: "0 < workers \<and> nt_inv combine n workers f w (NTimesConcurrently n workers w)" using assms(1) by (simp add: nt_inv_init)
  from n_times.run_length [OF init assms(2)] have "k \<le> 6 * n + workers + 5" by (simp add: nt_measure_def NTimesConcurrently_def)
  moreover from n_times.ends [OF n_times.inv_run [OF relpowp_imp_rtranclp [OF assms(2)] init]]
  have "\<exists>s'. (nt_step combine workers f)\<^sup>*\<^sup>* s s' \<and> (nt_ret s' \<noteq> None \<or> nt_panicked s')" by (simp add: nt_final_def)
  ultimately show ?thesis ..
qed

definition sample_fun :: "nat worker_fun" where
  "sample_fun w = Some (if w = 1 then Some (errorf ''failed'') else None, w + 1)"

lemma concurrent_calls_end_witness:
  "\<exists>s'. (nt_step hd 2 sample_fun)\<^sup>*\<^sup>* (NTimesConcurrently 3 2 0) s' \<and> (nt_ret s' \<noteq> None \<or> nt_panicked s')"
  using concurrent_calls_end [of 2 0 hd sample_fun 3 0 "NTimesConcurrently 3 2 0"] by simp

text \<open>A function that never panics does not crash the routine.\<close>

lemma nt_step_no_panic:
  assumes "(nt_step combine workers f)\<^sup>*\<^sup>* (NTimesConcurrently n workers w) s" and "\<And>w. f w \<noteq> None"
  shows "\<not> nt_panicked s"
  using assms(1)
proof (induction rule: rtranclp_induct)
  case (step s1 s2)
  from step.hyps(2) show ?case using step.IH assms(2) [of "nt_world s1"] by cases simp_all
qed (simp add: NTimesConcurrently_def)

lemma sample_fun_returns:
  obtains s r where "(nt_step hd 2 sample_fun)\<^sup>*\<^sup>* (NTimesConcurrently 3 2 0) s" "nt_ret s = Some r"
proof -
  obtain s where s: "(nt_step hd 2 sample_fun)\<^sup>*\<^sup>* (NTimesConcurrently 3 2 0) s" "nt_final s"
    using n_times.ends [of 2 hd 3 sample_fun 0] nt_inv_init by (metis zero_less_numeral)
  have "\<not> nt_panicked s" by (rule nt_step_no_panic [OF s(1)]) (simp add: sample_fun_def)
  then show thesis using s that by (cases "nt_ret s") (simp_all add: nt_final_def)
qed

lemma concurrent_calls_are_sequential_witness:
  "\<exists>s. (nt_step hd 2 sample_fun)\<^sup>*\<^sup>* (NTimesConcurrently 3 2 0) s \<and> nt_ret s = Some (Some (errorf ''failed'')) \<and> nt_world s = 3"
proof -
  obtain s r where s: "(nt_step hd 2 sample_fun)\<^sup>*\<^sup>* (NTimesConcurrently 3 2 0) s" "nt_ret s = Some r" by (rule sample_fun_returns)
  have n: "n_times 3 sample_fun 0 = Some ([errorf ''failed''], 3)" by (simp add: numeral_3_eq_3 sample_fun_def append_err_def)
  from concurrent_calls_are_sequential [OF s] obtain errs es
    where "n_times 3 sample_fun 0 = Some (errs, nt_world s)" "mset es = mset errs" "r = ErrorOrNil hd es" by (elim exE conjE)
  with n have "nt_world s = 3" "es = [errorf ''failed'']" "r = ErrorOrNil hd es" by simp_all
  with s show ?thesis by (intro exI [of _ s]) (simp add: ErrorOrNil_def)
qed

end
