(* ===== verification/Generator.thy ===== *)
theory Generator
  imports Concurrently Tracker Complex_Main "HOL-Library.AList"
begin

text \<open>
  The load generator of the experiments, \<^verbatim>\<open>webhosting-operator/pkg/experiment/generator\<close>: generation options,
  creation, mutation and deletion of projects, themes and websites, retries, and the two controllers that run a
  function periodically. The API server, the clock and the random source are fields of a client over a world;
  \<open>None\<close> is a panic. Label maps are association lists with distinct keys, where nil is the empty list. Rates are
  rationals: the rounding of floating point numbers is not modelled.
\<close>

section \<open>Options\<close>

type_synonym label_map = "(string \<times> string) list"

record generate_options =
  go_Labels :: label_map
  go_OwnerReference :: "owner_ref option"

type_synonym generate_option = "generate_options \<Rightarrow> generate_options"

definition update_labels :: "label_map \<Rightarrow> label_map \<Rightarrow> label_map" where
  "update_labels new labels = fold (\<lambda>(k, v). AList.update k v) new labels"

definition ApplyOptions :: "generate_option list \<Rightarrow> generate_options \<Rightarrow> generate_options" where
  "ApplyOptions opts o' = fold (\<lambda>opt. opt) opts o'"

definition ApplyToOptions :: "generate_options \<Rightarrow> generate_option" where
  "ApplyToOptions o' options =
     (let options = (if 0 < length (go_Labels o') then options\<lparr>go_Labels := update_labels (go_Labels o') (go_Labels options)\<rparr> else options)
      in case go_OwnerReference o' of
           Some ownerRef \<Rightarrow> options\<lparr>go_OwnerReference := Some ownerRef\<rparr>
         | None \<Rightarrow> options)"

definition WithLabels :: "label_map \<Rightarrow> generate_option" where
  "WithLabels labels options = options\<lparr>go_Labels := update_labels labels (go_Labels options)\<rparr>"

definition WithOwnerReference :: "owner_ref option \<Rightarrow> generate_option" where
  "WithOwnerReference ownerRef options = options\<lparr>go_OwnerReference := ownerRef\<rparr>"

definition no_options :: generate_options where
  "no_options = \<lparr>go_Labels = [], go_OwnerReference = None\<rparr>"

section \<open>The world of the generator\<close>

record 'w gen_client =
  g_Intn :: "'w \<Rightarrow> nat \<Rightarrow> nat \<times> 'w"
  g_Now :: "'w \<Rightarrow> time"
  g_FormatRFC3339 :: "time \<Rightarrow> string"
  g_SetMetaDataLabel :: "object_meta \<Rightarrow> string \<Rightarrow> string \<Rightarrow> object_meta"
  g_SetMetaDataAnnotation :: "object_meta \<Rightarrow> string \<Rightarrow> string \<Rightarrow> object_meta"
  g_NewControllerRef :: "object_meta \<Rightarrow> gvk \<Rightarrow> owner_ref"
  g_ListThemes :: "'w \<Rightarrow> selector \<Rightarrow> go_error + theme list"
  g_ListNamespaces :: "'w \<Rightarrow> selector \<Rightarrow> go_error + object_meta list"
  g_ListWebsites :: "'w \<Rightarrow> selector \<Rightarrow> go_error + website list"
  g_CreateNamespace :: "'w \<Rightarrow> object_meta \<Rightarrow> (go_error + object_meta) \<times> 'w"
  g_CreateTheme :: "'w \<Rightarrow> theme \<Rightarrow> (go_error + theme) \<times> 'w"
  g_CreateWebsite :: "'w \<Rightarrow> website \<Rightarrow> (go_error + website) \<times> 'w"
  g_CreateClusterRole :: "'w \<Rightarrow> object_meta \<Rightarrow> (go_error + object_meta) \<times> 'w"
  g_PatchTheme :: "'w \<Rightarrow> theme \<Rightarrow> theme \<Rightarrow> (go_error + theme) \<times> 'w"
  g_PatchWebsite :: "'w \<Rightarrow> website \<Rightarrow> website \<Rightarrow> (go_error + website) \<times> 'w"
  g_DeleteNamespace :: "'w \<Rightarrow> object_meta \<Rightarrow> go_error option \<times> 'w"
  g_DeleteWebsite :: "'w \<Rightarrow> website \<Rightarrow> go_error option \<times> 'w"

text \<open>\<^verbatim>\<open>rand.Intn(n)\<close> panics unless \<open>n\<close> is positive.\<close>

definition Intn :: "'w gen_client \<Rightarrow> nat \<Rightarrow> 'w \<Rightarrow> (nat \<times> 'w) option" where
  "Intn c n w = (if n = 0 then None else Some (g_Intn c w n))"

definition PickRandom :: "'w gen_client \<Rightarrow> 'a list \<Rightarrow> 'w \<Rightarrow> ('a \<times> 'w) option" where
  "PickRandom c xs w =
     (case Intn c (length xs) w of
        None \<Rightarrow> None
      | Some (i, w) \<Rightarrow> if i < length xs then Some (xs ! i, w) else None)"

definition charset :: string where "charset = ''abcdefghijklmnopqrstuvwxyz''"

fun RandomName :: "'w gen_client \<Rightarrow> nat \<Rightarrow> 'w \<Rightarrow> (string \<times> 'w) option" where
  "RandomName c 0 w = Some ([], w)"
| "RandomName c (Suc n) w =
     (case Intn c (length charset) w of
        None \<Rightarrow> None
      | Some (i, w) \<Rightarrow>
          if i < length charset then
            (case RandomName c n w of None \<Rightarrow> None | Some (s, w) \<Rightarrow> Some (charset ! i # s, w))
          else None)"

definition ApplyToObject :: "'w gen_client \<Rightarrow> generate_options \<Rightarrow> object_meta \<Rightarrow> object_meta" where
  "ApplyToObject c o' obj =
     (let obj = fold (\<lambda>(k, v) obj. g_SetMetaDataLabel c obj k v) (go_Labels o') obj
      in case go_OwnerReference o' of
           Some ownerRef \<Rightarrow> obj\<lparr>om_OwnerReferences := om_OwnerReferences obj @ [ownerRef]\<rparr>
         | None \<Rightarrow> obj)"

text \<open>The tracker that website changes are reported to, set once.\<close>

type_synonym 'w website_tracker = "website \<Rightarrow> 'w \<Rightarrow> 'w"

definition SetWebsiteTracker :: "'t option \<Rightarrow> bool \<times> 't option \<Rightarrow> bool \<times> 't option" where
  "SetWebsiteTracker tracker s = (case s of (once, websiteTracker) \<Rightarrow> if once then (once, websiteTracker) else (True, tracker))"

definition track :: "'w website_tracker option \<Rightarrow> website \<Rightarrow> 'w \<Rightarrow> 'w" where
  "track websiteTracker website w = (case websiteTracker of None \<Rightarrow> w | Some t \<Rightarrow> t website w)"

section \<open>Projects\<close>

definition CreateProject :: "'w gen_client \<Rightarrow> generate_option list \<Rightarrow> 'w worker_fun" where
  "CreateProject c opts w =
     (let options = ApplyOptions opts no_options;
          namespace = empty_meta\<lparr>om_GenerateName := ''project-'', om_Labels := Some [LabelKeyProject \<mapsto> LabelValueProject]\<rparr>;
          namespace = ApplyToObject c options namespace in
      case g_CreateNamespace c w namespace of
        (Inl err, w) \<Rightarrow> Some (Some err, w)
      | (Inr _, w) \<Rightarrow> Some (None, w))"

fun delete_namespaces :: "'w gen_client \<Rightarrow> object_meta list \<Rightarrow> 'w worker_fun" where
  "delete_namespaces c [] w = Some (None, w)"
| "delete_namespaces c (namespace # items) w =
     (case g_DeleteNamespace c w namespace of
        (Some err, w) \<Rightarrow> Some (Some err, w)
      | (None, w) \<Rightarrow> delete_namespaces c items w)"

definition CleanupProjects :: "'w gen_client \<Rightarrow> label_map \<Rightarrow> 'w worker_fun" where
  "CleanupProjects c labels w =
     (case g_ListNamespaces c w (SelectorFromSet labels) of
        Inl err \<Rightarrow> Some (Some err, w)
      | Inr namespaceList \<Rightarrow> delete_namespaces c namespaceList w)"

section \<open>Themes\<close>

definition themeColors :: "string list" where
  "themeColors = [''aqua'', ''black'', ''blue'', ''fuchsia'', ''gray'', ''green'', ''lime'', ''maroon'', ''navy'', ''olive'', ''orange'',
     ''purple'', ''red'', ''silver'', ''teal'', ''white'', ''yellow'']"

definition themeFonts :: "string list" where
  "themeFonts = [''Arial'', ''Verdana'', ''Tahoma'', ''Trebuchet MS'', ''Times New Roman'', ''Georgia'', ''Garamond'', ''Courier New'',
     ''Brush Script MT'']"

definition random_theme_spec :: "'w gen_client \<Rightarrow> 'w \<Rightarrow> (theme_spec \<times> 'w) option" where
  "random_theme_spec c w =
     (case PickRandom c themeColors w of
        None \<Rightarrow> None
      | Some (color, w) \<Rightarrow>
          (case PickRandom c themeFonts w of
             None \<Rightarrow> None
           | Some (font, w) \<Rightarrow> Some (\<lparr>ts_Color = color, ts_FontFamily = font\<rparr>, w)))"

definition CreateTheme :: "'w gen_client \<Rightarrow> generate_option list \<Rightarrow> 'w worker_fun" where
  "CreateTheme c opts w =
     (let options = ApplyOptions opts no_options in
      case random_theme_spec c w of
        None \<Rightarrow> None
      | Some (spec, w) \<Rightarrow>
          (let theme = \<lparr>th_Meta = ApplyToObject c options (empty_meta\<lparr>om_GenerateName := ''theme-''\<rparr>), th_Spec = spec\<rparr> in
           case g_CreateTheme c w theme of
             (Inl err, w) \<Rightarrow> Some (Some err, w)
           | (Inr _, w) \<Rightarrow> Some (None, w)))"

definition MutateTheme :: "'w gen_client \<Rightarrow> theme \<Rightarrow> 'w worker_fun" where
  "MutateTheme c theme w =
     (case random_theme_spec c w of
        None \<Rightarrow> None
      | Some (spec, w) \<Rightarrow>
          (case g_PatchTheme c w theme (theme\<lparr>th_Spec := spec\<rparr>) of
             (Inl err, w) \<Rightarrow> Some (Some err, w)
           | (Inr _, w) \<Rightarrow> Some (None, w)))"

definition MutateRandomTheme :: "'w gen_client \<Rightarrow> label_map \<Rightarrow> 'w worker_fun" where
  "MutateRandomTheme c labels w =
     (case g_ListThemes c w (SelectorFromSet labels) of
        Inl err \<Rightarrow> Some (Some err, w)
      | Inr themeList \<Rightarrow>
          if length themeList = 0 then Some (None, w)
          else (case PickRandom c themeList w of None \<Rightarrow> None | Some (theme, w) \<Rightarrow> MutateTheme c theme w))"

section \<open>Websites\<close>

definition new_website :: "string \<Rightarrow> string \<Rightarrow> string \<Rightarrow> website" where
  "new_website name namespace theme =
     \<lparr>web_Meta = empty_meta\<lparr>om_Name := name, om_Namespace := namespace\<rparr>, web_Spec = \<lparr>wsp_Theme = theme\<rparr>,
      web_Status = \<lparr>wst_ObservedGeneration = 0, wst_Phase = [], wst_LastTransitionTime = None\<rparr>\<rparr>"

definition CreateWebsite :: "'w gen_client \<Rightarrow> 'w website_tracker option \<Rightarrow> generate_option list \<Rightarrow> 'w worker_fun" where
  "CreateWebsite c websiteTracker opts w =
     (let options = ApplyOptions opts no_options in
      case g_ListThemes c w (SelectorFromSet (go_Labels options)) of
        Inl err \<Rightarrow> Some (Some err, w)
      | Inr themeList \<Rightarrow>
          if length themeList = 0 then Some (None, w)
          else
            (case g_ListNamespaces c w (SelectorFromSet (go_Labels options)) of
               Inl err \<Rightarrow> Some (Some err, w)
             | Inr namespaceList \<Rightarrow>
                 if length namespaceList = 0 then Some (Some (errorf ''no namespaces found, cannot create website''), w)
                 else
                   (case RandomName c 8 w of None \<Rightarrow> None | Some (name, w) \<Rightarrow>
                   (case PickRandom c namespaceList w of None \<Rightarrow> None | Some (namespace, w) \<Rightarrow>
                   (case PickRandom c themeList w of None \<Rightarrow> None | Some (theme, w) \<Rightarrow>
                     (let website = new_website (''experiment-'' @ name) (om_Name namespace) (om_Name (th_Meta theme));
                          website = website\<lparr>web_Meta := ApplyToObject c options (web_Meta website)\<rparr> in
                      case g_CreateWebsite c w website of
                        (Inl err, w) \<Rightarrow> Some (Some err, w)
                      | (Inr website, w) \<Rightarrow> Some (None, track websiteTracker website w)))))))"

definition MutateWebsite :: "'w gen_client \<Rightarrow> 'w website_tracker option \<Rightarrow> website \<Rightarrow> label_map \<Rightarrow> 'w worker_fun" where
  "MutateWebsite c websiteTracker website labels w =
     (case g_ListThemes c w (SelectorFromSet labels) of
        Inl err \<Rightarrow> Some (Some err, w)
      | Inr themeList \<Rightarrow>
          if length themeList = 0 then Some (None, w)
          else
            (case PickRandom c themeList w of
               None \<Rightarrow> None
             | Some (theme, w) \<Rightarrow>
                 (case g_PatchWebsite c w website (website\<lparr>web_Spec := \<lparr>wsp_Theme = om_Name (th_Meta theme)\<rparr>\<rparr>) of
                    (Inl err, w) \<Rightarrow> Some (Some err, w)
                  | (Inr website, w) \<Rightarrow> Some (None, track websiteTracker website w))))"

definition ReconcileWebsite :: "'w gen_client \<Rightarrow> website \<Rightarrow> 'w worker_fun" where
  "ReconcileWebsite c website w =
     (let annotated = website\<lparr>web_Meta := g_SetMetaDataAnnotation c (web_Meta website) ''experiment-reconcile'' (g_FormatRFC3339 c (g_Now c w))\<rparr> in
      case g_PatchWebsite c w website annotated of
        (Inl err, w) \<Rightarrow> Some (Some err, w)
      | (Inr _, w) \<Rightarrow> Some (None, w))"

definition DeleteWebsite :: "'w gen_client \<Rightarrow> label_map \<Rightarrow> 'w worker_fun" where
  "DeleteWebsite c labels w =
     (case g_ListWebsites c w (SelectorFromSet labels) of
        Inl err \<Rightarrow> Some (Some err, w)
      | Inr websiteList \<Rightarrow>
          if length websiteList = 0 then Some (None, w)
          else
            (case PickRandom c websiteList w of
               None \<Rightarrow> None
             | Some (website, w) \<Rightarrow> Some (g_DeleteWebsite c w website)))"

section \<open>The owner object\<close>

definition CreateClusterScopedOwnerObject :: "'w gen_client \<Rightarrow> generate_option list \<Rightarrow> 'w \<Rightarrow> (go_error + object_meta \<times> owner_ref) \<times> 'w" where
  "CreateClusterScopedOwnerObject c opts w =
     (let options = ApplyOptions opts no_options;
          ownerObject = ApplyToObject c options (empty_meta\<lparr>om_GenerateName := ''experiment-owner-''\<rparr>) in
      case g_CreateClusterRole c w ownerObject of
        (Inl err, w) \<Rightarrow> (Inl err, w)
      | (Inr ownerObject, w) \<Rightarrow>
          (Inr (ownerObject, g_NewControllerRef c ownerObject
             \<lparr>gvk_Group = ''rbac.authorization.k8s.io'', gvk_Version = ''v1'', gvk_Kind = ''ClusterRole''\<rparr>), w))"

section \<open>The samples generator\<close>

text \<open>\<^verbatim>\<open>webhosting-operator/cmd/samples-generator\<close>: random websites in every project.\<close>

definition sample_website_object :: "bool \<Rightarrow> string \<Rightarrow> string \<Rightarrow> string \<Rightarrow> website" where
  "sample_website_object skipWorkload project name theme =
     (let website = new_website (''sample-'' @ name) project theme;
          labels = [''generated-by'' \<mapsto> ''samples-generator''];
          labels = (if skipWorkload then labels(LabelKeySkipWorkload \<mapsto> ''true'') else labels)
      in website\<lparr>web_Meta := (web_Meta website)\<lparr>om_Labels := Some labels\<rparr>\<rparr>)"

fun create_samples :: "'w gen_client \<Rightarrow> bool \<Rightarrow> string list \<Rightarrow> string \<Rightarrow> nat \<Rightarrow> 'w worker_fun" where
  "create_samples c skipWorkload themes project 0 w = Some (None, w)"
| "create_samples c skipWorkload themes project (Suc n) w =
     (case RandomName c 8 w of None \<Rightarrow> None | Some (name, w) \<Rightarrow>
     (case PickRandom c themes w of None \<Rightarrow> None | Some (theme, w) \<Rightarrow>
     (case g_CreateWebsite c w (sample_website_object skipWorkload project name theme) of
        (Inl err, w) \<Rightarrow> Some (Some err, w)
      | (Inr _, w) \<Rightarrow> create_samples c skipWorkload themes project n w)))"

fun samples_in_projects :: "'w gen_client \<Rightarrow> int \<Rightarrow> bool \<Rightarrow> string list \<Rightarrow> object_meta list \<Rightarrow> 'w worker_fun" where
  "samples_in_projects c perProject skipWorkload themes [] w = Some (None, w)"
| "samples_in_projects c perProject skipWorkload themes (namespace # items) w =
     (case Intn c 50 w of None \<Rightarrow> None | Some (i, w) \<Rightarrow>
      (let websiteCount = int i + 1;
           websiteCount = (if 0 < perProject then perProject else websiteCount) in
       case create_samples c skipWorkload themes (om_Name namespace) (nat websiteCount) w of
         None \<Rightarrow> None
       | Some (Some err, w) \<Rightarrow> Some (Some err, w)
       | Some (None, w) \<Rightarrow> samples_in_projects c perProject skipWorkload themes items w))"

definition generateSamples :: "'w gen_client \<Rightarrow> int \<Rightarrow> bool \<Rightarrow> 'w worker_fun" where
  "generateSamples c perProject skipWorkload w =
     (case g_ListThemes c w (SelectorFromSet []) of
        Inl err \<Rightarrow> Some (Some err, w)
      | Inr themeList \<Rightarrow>
          (let themes = map (\<lambda>theme. om_Name (th_Meta theme)) themeList in
           if length themes = 0 then Some (Some (errorf ''no themes found, create them first''), w)
           else
             (case g_ListNamespaces c w LabelSelectorProject of
                Inl err \<Rightarrow> Some (Some err, w)
              | Inr namespaceList \<Rightarrow>
                  if length namespaceList = 0
                  then Some (Some (errorf (''no project namespaces found, create namespaces with the '' @ quote LabelKeyProject @ '' label first'')), w)
                  else samples_in_projects c perProject skipWorkload themes namespaceList w)))"

section \<open>Retries\<close>

text \<open>
  \<^verbatim>\<open>wait.PollUntilContextTimeout\<close> is a parameter. Its documentation: it calls the condition, at once if
  \<^verbatim>\<open>immediate\<close> is set, and then once per interval, until the condition returns an error or true, or the
  context ends, in which case it returns the context's error.
\<close>

type_synonym 's condition_fun = "'s \<Rightarrow> ((bool \<times> go_error option) \<times> 's) option"
type_synonym 's poller = "duration \<Rightarrow> duration \<Rightarrow> bool \<Rightarrow> 's condition_fun \<Rightarrow> 's \<Rightarrow> (go_error option \<times> 's) option"

text \<open>The state of a condition is its captured variables and the world, which goes on between two calls.\<close>

fun poll_steps :: "nat \<Rightarrow> (nat \<Rightarrow> 'w \<Rightarrow> 'w) \<Rightarrow> ('a \<times> 'w) condition_fun \<Rightarrow> go_error \<Rightarrow> 'a \<times> 'w \<Rightarrow> (go_error option \<times> 'a \<times> 'w) option" where
  "poll_steps 0 tick cond ctxErr s = Some (Some ctxErr, s)"
| "poll_steps (Suc k) tick cond ctxErr (a, w) =
     (case cond (a, tick k w) of
        None \<Rightarrow> None
      | Some ((_, Some err), s) \<Rightarrow> Some (Some err, s)
      | Some ((True, None), s) \<Rightarrow> Some (None, s)
      | Some ((False, None), s) \<Rightarrow> poll_steps k tick cond ctxErr s)"

definition is_context_error :: "go_error \<Rightarrow> bool" where
  "is_context_error err \<longleftrightarrow> err_reason err = ReasonCanceled \<or> err_reason err = ReasonDeadlineExceeded"

definition poll_doc :: "('a \<times> 'w) poller \<Rightarrow> bool" where
  "poll_doc poll \<longleftrightarrow> (\<forall>interval timeout immediate cond s. \<exists>k tick ctxErr.
     poll interval timeout immediate cond s = poll_steps k tick cond ctxErr s \<and> is_context_error ctxErr \<and> (immediate \<longrightarrow> 0 < k))"

definition Millisecond :: duration where "Millisecond = 1000000"

definition retry_condition :: "nat \<Rightarrow> 'w worker_fun \<Rightarrow> (go_error \<Rightarrow> bool) \<Rightarrow> (nat \<times> 'w) condition_fun" where
  "retry_condition retries f retriable s =
     (case s of (i, w) \<Rightarrow>
        (case f w of
           None \<Rightarrow> None
         | Some (None, w) \<Rightarrow> Some ((True, None), i, w)
         | Some (Some err, w) \<Rightarrow>
             if \<not> retriable err then Some ((True, Some err), i, w)
             else
               (let i = i + 1 in
                if retries < i then Some ((True, Some err), i, w) else Some ((False, None), i, w))))"

definition RetryOnError :: "(nat \<times> 'w) poller \<Rightarrow> nat \<Rightarrow> 'w worker_fun \<Rightarrow> (go_error \<Rightarrow> bool) \<Rightarrow> 'w worker_fun" where
  "RetryOnError poll retries f retriable w =
     map_option (\<lambda>(err, i, w). (err, w)) (poll (50 * Millisecond) (10 * Second) True (retry_condition retries f retriable) (0, w))"

text \<open>Creating many objects, related to its possible outcomes.\<close>

definition create_many :: "(go_error list \<Rightarrow> go_error) \<Rightarrow> (nat \<times> 'w) poller \<Rightarrow> nat \<Rightarrow> 'w worker_fun \<Rightarrow> 'w \<Rightarrow> go_error option \<Rightarrow> 'w \<Rightarrow> bool" where
  "create_many combine poll n create w err w' \<longleftrightarrow>
     (\<exists>s. (nt_step combine 10 (RetryOnError poll 5 create IsAlreadyExists))\<^sup>*\<^sup>* (NTimesConcurrently n 10 w) s \<and>
        nt_ret s = Some err \<and> nt_world s = w')"

definition CreateProjects where
  "CreateProjects combine poll c n opts = create_many combine poll n (CreateProject c opts)"

definition CreateThemes where
  "CreateThemes combine poll c n opts = create_many combine poll n (CreateTheme c opts)"

definition CreateWebsites where
  "CreateWebsites combine poll c websiteTracker n opts = create_many combine poll n (CreateWebsite c websiteTracker opts)"

section \<open>Periodic controllers\<close>

text \<open>The requests a source adds to the queue, with their delays.\<close>

definition EmitN :: "nat \<Rightarrow> duration \<Rightarrow> (nsname \<times> duration) list" where
  "EmitN n delay = map (\<lambda>i. (([], ''request-'' @ FormatInt (int n)), delay)) [0..<n]"

record requeue_result =
  rq_Requeue :: bool
  rq_RequeueAfter :: duration

definition no_result :: requeue_result where
  "no_result = \<lparr>rq_Requeue = False, rq_RequeueAfter = 0\<rparr>"

definition StopOnContextCanceled :: "(requeue_result \<times> go_error option) \<times> 'w \<Rightarrow> (requeue_result \<times> go_error option) \<times> 'w" where
  "StopOnContextCanceled r =
     (case r of ((result, Some err), w) \<Rightarrow> if err_reason err = ReasonCanceled then ((no_result, None), w) else r | _ \<Rightarrow> r)"

datatype rate_limiter = BucketRateLimiter rat int | ConstantDelayRateLimiter duration | UnlimitedRateLimiter

definition constantDelay_When :: "duration \<Rightarrow> nsname \<Rightarrow> duration" where "constantDelay_When d _ = d"

definition defaultReconcileWorkers :: int where "defaultReconcileWorkers = 10"

record periodic_controller =
  pc_Name :: string
  pc_MaxConcurrentReconciles :: int
  pc_RateLimiter :: rate_limiter
  pc_Source :: "(nsname \<times> duration) list"

record 'w every =
  ev_Name :: string
  ev_Do :: "'w worker_fun"
  ev_Rate :: rat
  ev_Stop :: "time option"
  ev_Workers :: int

definition trunc_rat :: "rat \<Rightarrow> int" where
  "trunc_rat x = (if 0 \<le> x then \<lfloor>x\<rfloor> else \<lceil>x\<rceil>)"

definition every_AddToManager :: "'w every \<Rightarrow> periodic_controller" where
  "every_AddToManager r =
     (let workers = (if 0 < ev_Workers r then ev_Workers r else defaultReconcileWorkers) in
      if ev_Rate r < 1 then
        (let every = trunc_rat (1 / ev_Rate r * of_int Second) in
         \<lparr>pc_Name = ev_Name r, pc_MaxConcurrentReconciles = 1, pc_RateLimiter = ConstantDelayRateLimiter every,
          pc_Source = EmitN 1 every\<rparr>)
      else
        \<lparr>pc_Name = ev_Name r, pc_MaxConcurrentReconciles = workers,
         pc_RateLimiter = BucketRateLimiter (ev_Rate r) (trunc_rat (ev_Rate r)), pc_Source = EmitN (nat workers) 0\<rparr>)"

definition stopped :: "time \<Rightarrow> time option \<Rightarrow> bool" where
  "stopped now stop = (case stop of None \<Rightarrow> False | Some t \<Rightarrow> \<not> now < t)"

definition every_Reconcile :: "'w every \<Rightarrow> time \<Rightarrow> 'w \<Rightarrow> ((requeue_result \<times> go_error option) \<times> 'w) option" where
  "every_Reconcile r now w =
     (if stopped now (ev_Stop r) then Some ((no_result, None), w)
      else map_option (\<lambda>(err, w). ((no_result\<lparr>rq_Requeue := True\<rparr>, err), w)) (ev_Do r w))"

record ('o, 'w) for_each =
  fe_Name :: string
  fe_Do :: "'o \<Rightarrow> 'w worker_fun"
  fe_Every :: duration
  fe_Stop :: "time option"
  fe_Workers :: int

definition forEach_AddToManager :: "('o, 'w) for_each \<Rightarrow> (go_error + gvk) \<Rightarrow> go_error + periodic_controller" where
  "forEach_AddToManager r gvkForObject =
     (case gvkForObject of
        Inl err \<Rightarrow> Inl err
      | Inr _ \<Rightarrow>
          Inr \<lparr>pc_Name = fe_Name r, pc_MaxConcurrentReconciles = (if 0 < fe_Workers r then fe_Workers r else defaultReconcileWorkers),
               pc_RateLimiter = UnlimitedRateLimiter, pc_Source = []\<rparr>)"

definition forEach_CreateFunc :: "('o, 'w) for_each \<Rightarrow> object_meta option \<Rightarrow> (nsname \<times> duration) list" where
  "forEach_CreateFunc r obj = (case obj of None \<Rightarrow> [] | Some m \<Rightarrow> [((om_Namespace m, om_Name m), fe_Every r)])"

definition forEach_Reconcile ::
  "('o, 'w) for_each \<Rightarrow> ('w \<Rightarrow> nsname \<Rightarrow> go_error + 'o) \<Rightarrow> time \<Rightarrow> nsname \<Rightarrow> 'w \<Rightarrow> ((requeue_result \<times> go_error option) \<times> 'w) option"
where
  "forEach_Reconcile r get now request w =
     (if stopped now (fe_Stop r) then Some ((no_result, None), w)
      else
        (case get w request of
           Inl err \<Rightarrow> Some (if IsNotFound err then (no_result, None) else (no_result, Some err), w)
         | Inr obj \<Rightarrow> map_option (\<lambda>(err, w). ((no_result\<lparr>rq_RequeueAfter := fe_Every r\<rparr>, err), w)) (fe_Do r obj w)))"

section \<open>Documented behaviour of the library\<close>

definition Intn_doc :: "'w gen_client \<Rightarrow> bool" where
  "Intn_doc c \<longleftrightarrow> (\<forall>w n. 0 < n \<longrightarrow> fst (g_Intn c w n) < n)"

definition gen_label_doc :: "'w gen_client \<Rightarrow> bool" where
  "gen_label_doc c \<longleftrightarrow> (\<forall>m k v. g_SetMetaDataLabel c m k v = m\<lparr>om_Labels := Some ((as_map (om_Labels m))(k \<mapsto> v))\<rparr>)"

section \<open>Lemmas on random choices\<close>

lemma Intn_Some:
  assumes "Intn_doc c" and "0 < n"
  obtains i w' where "Intn c n w = Some (i, w')" "i < n"
proof -
  obtain i w' where i: "g_Intn c w n = (i, w')" by (cases "g_Intn c w n")
  have "fst (g_Intn c w n) < n" using assms by (simp add: Intn_doc_def)
  then show thesis using assms(2) i by (intro that [of i w']) (simp_all add: Intn_def)
qed

lemma PickRandom_Some:
  assumes "Intn_doc c" and "xs \<noteq> []"
  obtains x w' where "PickRandom c xs w = Some (x, w')" "x \<in> set xs"
proof -
  have "0 < length xs" using assms(2) by simp
  from Intn_Some [OF assms(1) this] obtain i w' where "Intn c (length xs) w = Some (i, w')" "i < length xs" .
  then show thesis by (intro that [of "xs ! i" w']) (simp_all add: PickRandom_def)
qed

lemma RandomName_Some:
  assumes "Intn_doc c"
  shows "\<exists>s w'. RandomName c n w = Some (s, w') \<and> length s = n \<and> set s \<subseteq> set charset"
proof (induction n arbitrary: w)
  case (Suc n)
  have "0 < length charset" by (simp add: charset_def)
  from Intn_Some [OF assms this] obtain i w1 where i: "Intn c (length charset) w = Some (i, w1)" "i < length charset" .
  obtain s w2 where "RandomName c n w1 = Some (s, w2)" "length s = n" "set s \<subseteq> set charset" using Suc.IH [of w1] by blast
  then show ?case using i by simp
qed simp

lemma create_samples_total:
  assumes "Intn_doc c" and "themes \<noteq> []"
  shows "\<exists>r. create_samples c skip themes project n w = Some r"
proof (induction n arbitrary: w)
  case (Suc n)
  obtain name w1 where n: "RandomName c 8 w = Some (name, w1)" using RandomName_Some [OF assms(1), of 8 w] by (elim exE conjE)
  obtain theme w2 where t: "PickRandom c themes w1 = Some (theme, w2)" by (rule PickRandom_Some [OF assms])
  show ?case using n t Suc.IH by (auto split: prod.split sum.split)
qed simp

lemma samples_in_projects_total:
  assumes "Intn_doc c" and "themes \<noteq> []"
  shows "\<exists>r. samples_in_projects c perProject skip themes namespaces w = Some r"
proof (induction namespaces arbitrary: w)
  case (Cons namespace namespaces)
  obtain i w1 where i: "Intn c 50 w = Some (i, w1)" by (rule Intn_Some [OF assms(1), of 50]) simp
  obtain err w2 where "create_samples c skip themes (om_Name namespace) (nat (if 0 < perProject then perProject else int i + 1)) w1 = Some (err, w2)"
    using create_samples_total [OF assms, of skip "om_Name namespace" "nat (if 0 < perProject then perProject else int i + 1)" w1] by auto
  then show ?case using i Cons.IH [of w2] by (cases err) (simp_all add: Let_def)
qed simp

text \<open>The samples generator never panics.\<close>

lemma generateSamples_total: "Intn_doc c \<Longrightarrow> \<exists>r. generateSamples c perProject skip w = Some r"
proof -
  assume c: "Intn_doc c"
  show ?thesis
  proof (cases "g_ListThemes c w (SelectorFromSet [])")
    case (Inr themes)
    then show ?thesis
      using samples_in_projects_total [OF c, of "map (\<lambda>theme. om_Name (th_Meta theme)) themes"]
      by (cases "themes = []"; cases "g_ListNamespaces c w LabelSelectorProject") (simp_all add: generateSamples_def Let_def)
  qed (simp add: generateSamples_def)
qed

lemma update_labels_distinct:
  "distinct (map fst (old @ new)) \<Longrightarrow> update_labels new old = old @ new"
proof (induction new arbitrary: old)
  case (Cons kv new)
  obtain k v where kv: "kv = (k, v)" by (cases kv)
  have "AList.update k v old = old @ [(k, v)]"
    using Cons.prems kv by (induction old) (auto simp: kv)
  then show ?case using Cons.IH [of "old @ [(k, v)]"] Cons.prems by (simp add: update_labels_def kv)
qed (simp add: update_labels_def)

lemma options_WithLabels:
  "distinct (map fst labels) \<Longrightarrow> ApplyOptions [WithLabels labels] no_options = \<lparr>go_Labels = labels, go_OwnerReference = None\<rparr>"
  using update_labels_distinct [of "[]" labels] by (simp add: ApplyOptions_def WithLabels_def no_options_def)

lemma ApplyToObject_labels:
  assumes "gen_label_doc c" and "distinct (map fst labels)"
  shows "as_map (om_Labels (ApplyToObject c \<lparr>go_Labels = labels, go_OwnerReference = r\<rparr> m)) = as_map (om_Labels m) ++ map_of labels"
    "om_Name (ApplyToObject c \<lparr>go_Labels = labels, go_OwnerReference = r\<rparr> m) = om_Name m"
    "om_Namespace (ApplyToObject c \<lparr>go_Labels = labels, go_OwnerReference = r\<rparr> m) = om_Namespace m"
proof -
  have d: "g_SetMetaDataLabel c m k v = m\<lparr>om_Labels := Some ((as_map (om_Labels m))(k \<mapsto> v))\<rparr>" for m k v
    using assms(1) by (simp add: gen_label_doc_def)
  have *: "as_map (om_Labels (fold (\<lambda>(k, v) obj. g_SetMetaDataLabel c obj k v) labels m)) = as_map (om_Labels m) ++ map_of labels \<and>
    om_Name (fold (\<lambda>(k, v) obj. g_SetMetaDataLabel c obj k v) labels m) = om_Name m \<and>
    om_Namespace (fold (\<lambda>(k, v) obj. g_SetMetaDataLabel c obj k v) labels m) = om_Namespace m" using assms(2)
  proof (induction labels arbitrary: m)
    case (Cons kv labels)
    obtain k v where kv: "kv = (k, v)" by (cases kv)
    have "k \<notin> dom (map_of labels)" using Cons.prems by (simp add: kv dom_map_of_conv_image_fst)
    then have upd: "(\<lambda>a. if a = k then Some v else f a) ++ map_of labels = f ++ (\<lambda>a. if a = k then Some v else map_of labels a)"
      for f :: str_map by (auto simp: map_add_def fun_eq_iff domIff split: option.split)
    have "distinct (map fst labels)" using Cons.prems by simp
    from Cons.IH [OF this, of "g_SetMetaDataLabel c m k v"] show ?case by (simp add: kv d upd)
  qed simp
  show "as_map (om_Labels (ApplyToObject c \<lparr>go_Labels = labels, go_OwnerReference = r\<rparr> m)) = as_map (om_Labels m) ++ map_of labels"
    "om_Name (ApplyToObject c \<lparr>go_Labels = labels, go_OwnerReference = r\<rparr> m) = om_Name m"
    "om_Namespace (ApplyToObject c \<lparr>go_Labels = labels, go_OwnerReference = r\<rparr> m) = om_Namespace m"
    using * by (cases r; simp add: ApplyToObject_def Let_def)+
qed

section \<open>Lemmas on retries\<close>

fun do_calls :: "('w \<Rightarrow> 'w) list \<Rightarrow> 'w worker_fun \<Rightarrow> 'w \<Rightarrow> (go_error option list \<times> 'w) option" where
  "do_calls [] f w = Some ([], w)"
| "do_calls (tick # ticks) f w =
     (case f (tick w) of None \<Rightarrow> None | Some (e, w) \<Rightarrow> map_option (\<lambda>(es, w). (e # es, w)) (do_calls ticks f w))"

definition retry_outcome :: "(go_error \<Rightarrow> bool) \<Rightarrow> nat \<Rightarrow> go_error option list \<Rightarrow> go_error option \<Rightarrow> bool" where
  "retry_outcome retriable bound outs err \<longleftrightarrow> outs \<noteq> [] \<and> length outs \<le> bound \<and>
     (\<forall>o' \<in> set (butlast outs). \<exists>e. o' = Some e \<and> retriable e) \<and>
     (err = last outs \<and> (\<forall>e. err = Some e \<longrightarrow> \<not> retriable e \<or> length outs = bound) \<or>
      (\<exists>e e'. err = Some e \<and> is_context_error e \<and> last outs = Some e' \<and> retriable e'))"

lemma retry_condition_call:
  "f w = Some (Some er, w1) \<Longrightarrow> retriable er \<Longrightarrow> i < retries \<Longrightarrow> retry_condition retries f retriable (i, w) = Some ((False, None), Suc i, w1)"
  by (simp add: retry_condition_def Let_def)

lemma retry_steps:
  assumes "poll_steps k tick (retry_condition retries f retriable) ctxErr (i, w) = Some (err, i', w')" and "is_context_error ctxErr"
    and "0 < k" and "i \<le> retries"
  shows "\<exists>ticks outs. do_calls ticks f w = Some (outs, w') \<and> retry_outcome retriable (Suc retries - i) outs err"
  using assms(1,3,4)
proof (induction k arbitrary: i w)
  case (Suc k)
  obtain e w1 where f: "f (tick k w) = Some (e, w1)"
    using Suc.prems(1) by (cases "f (tick k w)") (auto simp: retry_condition_def)
  then have one: "do_calls [tick k] f w = Some ([e], w1)" by simp
  show ?case
  proof (cases "\<exists>er. e = Some er \<and> retriable er \<and> i < retries")
    case False
    then have "err = e" "w' = w1"
      using Suc.prems(1) f by (auto simp: retry_condition_def Let_def split: option.splits if_splits)
    moreover have "retriable er \<Longrightarrow> e = Some er \<Longrightarrow> Suc retries - i = 1" for er using False Suc.prems(3) by auto
    ultimately show ?thesis using one False Suc.prems(3) by (intro exI [of _ "[tick k]"] exI [of _ "[e]"]) (auto simp: retry_outcome_def)
  next
    case True
    then obtain er where er: "e = Some er" "retriable er" "i < retries" by blast
    then have rest: "poll_steps k tick (retry_condition retries f retriable) ctxErr (Suc i, w1) = Some (err, i', w')"
      using Suc.prems(1) f by (simp add: retry_condition_call)
    show ?thesis
    proof (cases k)
      case 0
      then have "err = Some ctxErr" "w' = w1" using rest by simp_all
      then show ?thesis using one er assms(2) by (intro exI [of _ "[tick k]"] exI [of _ "[e]"]) (auto simp: retry_outcome_def)
    next
      case (Suc k')
      obtain ticks outs where outs: "do_calls ticks f w1 = Some (outs, w')" "retry_outcome retriable (Suc retries - Suc i) outs err"
        using Suc.IH [OF rest] Suc er(3) by (metis Suc_leI zero_less_Suc)
      have "Suc retries - i = Suc (Suc retries - Suc i)" using er(3) by simp
      then have "retry_outcome retriable (Suc retries - i) (e # outs) err" using outs(2) er by (auto simp: retry_outcome_def)
      moreover have "do_calls (tick k # ticks) f w = Some (e # outs, w')" using f outs(1) by simp
      ultimately show ?thesis by blast
    qed
  qed
qed simp

section \<open>Properties\<close>

text \<open>C34: Retries are bounded and honest: while the world goes on between the calls, the function is called at least once and at most once more than the
  number of retries; all calls but the last failed with a retriable error; the result is that of the last call,
  which then succeeded, failed for good or used up the retries, or it is the error of the context while the last
  call failed with a retriable error.\<close>

theorem retries_are_bounded:
  assumes "poll_doc poll" and "RetryOnError poll retries f retriable w = Some (err, w')"
  shows "\<exists>ticks outs. do_calls ticks f w = Some (outs, w') \<and> 1 \<le> length outs \<and> length outs \<le> retries + 1 \<and>
    (\<forall>o' \<in> set (butlast outs). \<exists>e. o' = Some e \<and> retriable e) \<and>
    (err = last outs \<and> (\<forall>e. err = Some e \<longrightarrow> \<not> retriable e \<or> length outs = retries + 1) \<or>
     (\<exists>e e'. err = Some e \<and> is_context_error e \<and> last outs = Some e' \<and> retriable e'))"
proof -
  obtain k tick ctxErr where poll: "poll (50 * Millisecond) (10 * Second) True (retry_condition retries f retriable) (0, w) =
      poll_steps k tick (retry_condition retries f retriable) ctxErr (0, w)" "is_context_error ctxErr" "0 < k"
    using assms(1) unfolding poll_doc_def by metis
  obtain i' where "poll_steps k tick (retry_condition retries f retriable) ctxErr (0, w) = Some (err, i', w')"
    using assms(2) unfolding RetryOnError_def poll(1) by auto
  from retry_steps [OF this poll(2,3)] obtain ticks outs
    where outs: "do_calls ticks f w = Some (outs, w')" "retry_outcome retriable (Suc retries) outs err" by auto
  then have "1 \<le> length outs" by (cases outs) (simp_all add: retry_outcome_def)
  with outs show ?thesis by (intro exI [of _ ticks] exI [of _ outs]) (simp add: retry_outcome_def)
qed

definition sample_poll :: "('a \<times> 'w) poller" where
  "sample_poll interval timeout immediate cond = poll_steps 3 (\<lambda>_. id) cond \<lparr>err_reason = ReasonDeadlineExceeded, err_msg = ''context deadline exceeded''\<rparr>"

lemma sample_poll_doc: "poll_doc sample_poll"
  unfolding poll_doc_def sample_poll_def
  by (intro allI exI [of _ 3] exI [of _ "\<lambda>_. id"] exI [of _ "\<lparr>err_reason = ReasonDeadlineExceeded, err_msg = ''context deadline exceeded''\<rparr>"])
    (simp add: is_context_error_def)

definition busy_fun :: "nat worker_fun" where
  "busy_fun w = Some (if w < 2 then Some \<lparr>err_reason = ReasonAlreadyExists, err_msg = ''exists''\<rparr> else None, w + 1)"

lemma busy_fun_retries: "RetryOnError sample_poll 5 busy_fun IsAlreadyExists 0 = Some (None, 3)"
  unfolding RetryOnError_def sample_poll_def by (simp add: retry_condition_def busy_fun_def IsAlreadyExists_def Let_def numeral_3_eq_3)

lemma retries_are_bounded_witness:
  "\<exists>ticks outs. do_calls ticks busy_fun 0 = Some (outs, 3) \<and> length outs \<le> 6 \<and> last outs = None"
  using retries_are_bounded [OF sample_poll_doc busy_fun_retries] by (elim exE conjE) (intro exI conjI, assumption, auto)

text \<open>A generated website is well placed: if themes and projects of the run exist, the website that is
  created lies in one of the projects, uses one of the themes and carries exactly the labels of the run; nothing
  panics, the outcome is that of the create call, and the tracker learns of the object as the server returned
  it, and of nothing that was not created.\<close>

theorem generated_website_well_placed:
  assumes "Intn_doc c" and "gen_label_doc c" and "distinct (map fst labels)"
    and "g_ListThemes c w (SelectorFromSet labels) = Inr themes" and "themes \<noteq> []"
    and "g_ListNamespaces c w (SelectorFromSet labels) = Inr namespaces" and "namespaces \<noteq> []"
  shows "\<exists>website w1. om_Namespace (web_Meta website) \<in> om_Name ` set namespaces \<and>
    wsp_Theme (web_Spec website) \<in> (\<lambda>t. om_Name (th_Meta t)) ` set themes \<and> as_map (om_Labels (web_Meta website)) = map_of labels \<and>
    CreateWebsite c tracker [WithLabels labels] w =
      (case g_CreateWebsite c w1 website of
         (Inl err, w2) \<Rightarrow> Some (Some err, w2)
       | (Inr created, w2) \<Rightarrow> Some (None, track tracker created w2))"
proof -
  note opts = options_WithLabels [OF assms(3)] and lab = ApplyToObject_labels [OF assms(2,3), of None]
  obtain name w2 where n: "RandomName c 8 w = Some (name, w2)" using RandomName_Some [OF assms(1), of 8 w] by (elim exE conjE)
  obtain ns w3 where ns: "PickRandom c namespaces w2 = Some (ns, w3)" "ns \<in> set namespaces" by (rule PickRandom_Some [OF assms(1,7)])
  obtain th w4 where th: "PickRandom c themes w3 = Some (th, w4)" "th \<in> set themes" by (rule PickRandom_Some [OF assms(1,5)])
  define web where "web = (let web = new_website (''experiment-'' @ name) (om_Name ns) (om_Name (th_Meta th)) in
    web\<lparr>web_Meta := ApplyToObject c \<lparr>go_Labels = labels, go_OwnerReference = None\<rparr> (web_Meta web)\<rparr>)"
  have "om_Namespace (web_Meta web) = om_Name ns" "wsp_Theme (web_Spec web) = om_Name (th_Meta th)" "as_map (om_Labels (web_Meta web)) = map_of labels"
    by (simp_all add: web_def lab new_website_def empty_meta_def)
  moreover have "CreateWebsite c tracker [WithLabels labels] w =
      (case g_CreateWebsite c w4 web of (Inl err, w2) \<Rightarrow> Some (Some err, w2) | (Inr created, w2) \<Rightarrow> Some (None, track tracker created w2))"
    using assms(4-7) n ns(1) th(1) by (simp add: CreateWebsite_def opts web_def Let_def)
  moreover have "om_Name ns \<in> om_Name ` set namespaces" "om_Name (th_Meta th) \<in> (\<lambda>t. om_Name (th_Meta t)) ` set themes"
    using ns(2) th(2) by blast+
  ultimately show ?thesis by (intro exI [of _ web] exI [of _ w4]) (simp only: simp_thms)
qed

text \<open>A generator on a world that records the created websites.\<close>

definition sample_gen :: "website list gen_client" where
  "sample_gen = \<lparr>g_Intn = \<lambda>w n. (0, w), g_Now = \<lambda>_. 0, g_FormatRFC3339 = \<lambda>_. [],
     g_SetMetaDataLabel = \<lambda>m k v. m\<lparr>om_Labels := Some ((as_map (om_Labels m))(k \<mapsto> v))\<rparr>,
     g_SetMetaDataAnnotation = \<lambda>m k v. m, g_NewControllerRef = \<lambda>m gvk. \<lparr>or_APIVersion = [], or_Kind = gvk_Kind gvk, or_Name = om_Name m,
       or_Controller = Some True\<rparr>,
     g_ListThemes = \<lambda>_ _. Inr [\<lparr>th_Meta = empty_meta\<lparr>om_Name := ''lime''\<rparr>, th_Spec = \<lparr>ts_Color = ''lime'', ts_FontFamily = ''Arial''\<rparr>\<rparr>],
     g_ListNamespaces = \<lambda>_ _. Inr [empty_meta\<lparr>om_Name := ''project-1''\<rparr>], g_ListWebsites = \<lambda>w _. Inr w,
     g_CreateNamespace = \<lambda>w m. (Inr m, w), g_CreateTheme = \<lambda>w t. (Inr t, w), g_CreateWebsite = \<lambda>w x. (Inr x, x # w),
     g_CreateClusterRole = \<lambda>w m. (Inr m, w), g_PatchTheme = \<lambda>w t t'. (Inr t', w), g_PatchWebsite = \<lambda>w x x'. (Inr x', w),
     g_DeleteNamespace = \<lambda>w _. (None, w), g_DeleteWebsite = \<lambda>w _. (None, w)\<rparr>"

lemma sample_gen_doc: "Intn_doc sample_gen" "gen_label_doc sample_gen"
  by (simp_all add: Intn_doc_def gen_label_doc_def sample_gen_def)

lemma generated_website_well_placed_witness:
  "\<exists>website w. CreateWebsite sample_gen None [WithLabels [(''run-id'', ''r1'')]] [] = Some (None, website # w) \<and>
     om_Namespace (web_Meta website) = ''project-1'' \<and> wsp_Theme (web_Spec website) = ''lime''"
proof -
  let ?themes = "[\<lparr>th_Meta = empty_meta\<lparr>om_Name := ''lime''\<rparr>, th_Spec = \<lparr>ts_Color = ''lime'', ts_FontFamily = ''Arial''\<rparr>\<rparr>]"
  have hyps: "distinct (map fst [(''run-id'', ''r1'')])" "g_ListThemes sample_gen [] (SelectorFromSet [(''run-id'', ''r1'')]) = Inr ?themes" "?themes \<noteq> []"
    "g_ListNamespaces sample_gen [] (SelectorFromSet [(''run-id'', ''r1'')]) = Inr [empty_meta\<lparr>om_Name := ''project-1''\<rparr>]"
    "[empty_meta\<lparr>om_Name := ''project-1''\<rparr>] \<noteq> []"
    by (simp_all add: sample_gen_def)
  from generated_website_well_placed [OF sample_gen_doc hyps, of None] obtain website w1
    where website: "om_Namespace (web_Meta website) \<in> om_Name ` set [empty_meta\<lparr>om_Name := ''project-1''\<rparr>]"
      "wsp_Theme (web_Spec website) \<in> (\<lambda>t. om_Name (th_Meta t)) ` set ?themes"
    and created: "CreateWebsite sample_gen None [WithLabels [(''run-id'', ''r1'')]] [] =
      (case g_CreateWebsite sample_gen w1 website of (Inl err, w2) \<Rightarrow> Some (Some err, w2) | (Inr created, w2) \<Rightarrow> Some (None, track None created w2))"
    by (elim exE conjE)
  show ?thesis using website created by (simp add: sample_gen_def track_def)
qed

text \<open>A periodic action always gets its turn: with a positive rate, the controller is started with a
  request, and its rate limiter lets requests through: either a token bucket of the given rate that holds at least
  one token, or a constant delay of the rate's period (rounded down to nanoseconds, at least one second) after
  which also the first request comes, with a single worker.\<close>

theorem periodic_action_gets_turn:
  assumes "0 < ev_Rate r"
  shows "pc_Source (every_AddToManager r) \<noteq> [] \<and>
    (case pc_RateLimiter (every_AddToManager r) of
       BucketRateLimiter limit burst \<Rightarrow> limit = ev_Rate r \<and> 1 \<le> burst \<and> of_int burst \<le> limit
     | ConstantDelayRateLimiter d \<Rightarrow> Second \<le> d \<and> of_int d \<le> of_int Second / ev_Rate r \<and> of_int Second / ev_Rate r < of_int d + 1 \<and>
         pc_MaxConcurrentReconciles (every_AddToManager r) = 1 \<and> (\<forall>(req, delay) \<in> set (pc_Source (every_AddToManager r)). delay = d)
     | UnlimitedRateLimiter \<Rightarrow> False)"
proof (cases "ev_Rate r < 1")
  case True
  define x where "x = of_int Second / ev_Rate r"
  have "of_int Second * ev_Rate r \<le> of_int Second * 1" using True by (intro mult_left_mono) (simp_all add: Second_def)
  then have "of_int Second \<le> x" using assms by (simp add: x_def pos_le_divide_eq)
  then have "Second \<le> \<lfloor>x\<rfloor>" by (simp add: le_floor_iff)
  moreover have "0 \<le> x" using \<open>of_int Second \<le> x\<close> by (simp add: Second_def)
  moreover have "of_int \<lfloor>x\<rfloor> \<le> x" "x < of_int \<lfloor>x\<rfloor> + 1" by linarith+
  moreover have "every_AddToManager r = \<lparr>pc_Name = ev_Name r, pc_MaxConcurrentReconciles = 1,
      pc_RateLimiter = ConstantDelayRateLimiter \<lfloor>x\<rfloor>, pc_Source = EmitN 1 \<lfloor>x\<rfloor>\<rparr>"
    using True \<open>0 \<le> x\<close> by (simp add: every_AddToManager_def trunc_rat_def x_def Let_def)
  ultimately show ?thesis by (simp add: EmitN_def x_def)
next
  case False
  then have "1 \<le> \<lfloor>ev_Rate r\<rfloor>" "of_int \<lfloor>ev_Rate r\<rfloor> \<le> ev_Rate r" by simp_all
  moreover have "0 < nat (if 0 < ev_Workers r then ev_Workers r else defaultReconcileWorkers)" by (simp add: defaultReconcileWorkers_def)
  ultimately show ?thesis using False assms by (simp add: every_AddToManager_def EmitN_def trunc_rat_def Let_def)
qed

definition sample_every :: "nat every" where
  "sample_every = \<lparr>ev_Name = ''rolling-updater'', ev_Do = \<lambda>w. Some (None, w), ev_Rate = 1 / 300, ev_Stop = None, ev_Workers = 0\<rparr>"

lemma periodic_action_gets_turn_witness:
  "pc_Source (every_AddToManager sample_every) = [(([], ''request-'' @ FormatInt 1), 300 * Second)]"
proof -
  have "0 < ev_Rate sample_every" by (simp add: sample_every_def)
  from periodic_action_gets_turn [OF this] have "pc_Source (every_AddToManager sample_every) \<noteq> []" by (rule conjunct1)
  moreover have "every_AddToManager sample_every = \<lparr>pc_Name = ''rolling-updater'', pc_MaxConcurrentReconciles = 1,
      pc_RateLimiter = ConstantDelayRateLimiter (300 * Second), pc_Source = EmitN 1 (300 * Second)\<rparr>"
    by (simp add: every_AddToManager_def sample_every_def trunc_rat_def Second_def Let_def)
  ultimately show ?thesis by (simp add: EmitN_def)
qed

text \<open>The source of a periodic controller is meant to add different requests, because the queue merges equal
  ones; all its requests have the same name, so that at most one worker is ever busy.\<close>

theorem emitted_requests_are_equal:
  assumes "0 < n"
  shows "fst ` set (EmitN n delay) = {([], ''request-'' @ FormatInt (int n))}"
  using assms by (simp add: EmitN_def image_image image_constant_conv)

end
