(* ===== verification/Scenario.thy ===== *)
theory Scenario
  imports Generator Leases "HOL-Library.Char_ord" "HOL-Library.List_Lexorder"
begin

text \<open>
  The experiment scenarios, \<^verbatim>\<open>webhosting-operator/pkg/experiment\<close>: the registry (\<^verbatim>\<open>scenario.go\<close>), the common
  base that prepares, runs and cleans up a scenario (\<^verbatim>\<open>scenario/base\<close>) and the four scenarios. The outcomes of
  a step that runs goroutines are a set of pairs of an error and a world. The manager, the API server, the
  environment and the clock are fields of an environment record; a wait either elapses or ends with the error of
  the cancelled context.
\<close>

section \<open>Registry\<close>

text \<open>The registry is a map from names; \<open>None\<close> is the panic on a name that is taken.\<close>

type_synonym 's registry = "(string \<times> 's) list"

definition RegisterScenario :: "('s \<Rightarrow> string) \<Rightarrow> 's \<Rightarrow> 's registry \<Rightarrow> 's registry option" where
  "RegisterScenario name s registry = (if map_of registry (name s) \<noteq> None then None else Some (registry @ [(name s, s)]))"

definition GetAllScenarios :: "('s \<Rightarrow> string) \<Rightarrow> 's registry \<Rightarrow> 's list" where
  "GetAllScenarios name registry = sort_key name (map snd registry)"

definition GetScenario :: "string \<Rightarrow> 's registry \<Rightarrow> 's option" where
  "GetScenario s registry = map_of registry s"

section \<open>The environment of a scenario\<close>

record 'w scenario_env =
  se_gen :: "'w gen_client"
  se_combine :: "go_error list \<Rightarrow> go_error"
  se_retryPoll :: "(nat \<times> 'w) poller"
  se_waitPoll :: "(go_error option \<times> 'w) poller"
  se_Getenv :: "string \<Rightarrow> string"
  se_NewUUID :: "'w \<Rightarrow> string \<times> 'w"
  se_GetDeployment :: "'w \<Rightarrow> nsname \<Rightarrow> go_error + deployment"
  se_PatchDeployment :: "'w \<Rightarrow> deployment \<Rightarrow> deployment \<Rightarrow> go_error option \<times> 'w"
  se_GetStatefulSet :: "'w \<Rightarrow> nsname \<Rightarrow> go_error + object_meta"
  se_RawPatch :: "'w \<Rightarrow> string \<Rightarrow> nsname \<Rightarrow> string \<Rightarrow> go_error option \<times> 'w"
  se_ListLeases :: "'w \<Rightarrow> string \<Rightarrow> selector \<Rightarrow> go_error + lease list"
  se_DeleteAllLeases :: "'w \<Rightarrow> string \<Rightarrow> selector \<Rightarrow> go_error option \<times> 'w"
  se_ListPods :: "'w \<Rightarrow> string \<Rightarrow> selector \<Rightarrow> go_error + object_meta list"
  se_DeletePod :: "'w \<Rightarrow> object_meta \<Rightarrow> go_error option \<times> 'w"
  se_DeleteOwner :: "'w \<Rightarrow> object_meta \<Rightarrow> go_error option \<times> 'w"
  se_After :: "duration \<Rightarrow> 'w \<Rightarrow> go_error option \<times> 'w"
  se_AddTracker :: "'w \<Rightarrow> go_error option \<times> 'w"
  se_RecordSpecChange :: "website \<Rightarrow> 'w \<Rightarrow> 'w"
  se_AddEvery :: "'w every \<Rightarrow> 'w \<Rightarrow> go_error option \<times> 'w"
  se_AddForEach :: "(website, 'w) for_each \<Rightarrow> 'w \<Rightarrow> go_error option \<times> 'w"
  se_IgnoreNotFound :: "go_error option \<Rightarrow> go_error option"
  se_rateEvery :: "duration \<Rightarrow> rat"

record scenario_base =
  sb_ScenarioName :: string
  sb_RunID :: string
  sb_Labels :: label_map
  sb_OwnerRef :: "owner_ref option"

record 'w delegate =
  dl_Prepare :: "scenario_base \<Rightarrow> 'w \<Rightarrow> (go_error option \<times> 'w) set"
  dl_Run :: "scenario_base \<Rightarrow> 'w \<Rightarrow> go_error option \<times> 'w"

section \<open>The base of all scenarios\<close>

definition base_AddToManager :: "string \<Rightarrow> scenario_base" where
  "base_AddToManager name = \<lparr>sb_ScenarioName = name, sb_RunID = [],
     sb_Labels = [(''generated-by'', ''experiment''), (''scenario'', name), (LabelKeySkipWorkload, ''true'')], sb_OwnerRef = None\<rparr>"

definition Wait :: "'w scenario_env \<Rightarrow> duration \<Rightarrow> 'w \<Rightarrow> go_error option \<times> 'w" where
  "Wait env d w = se_After env d w"

definition injectRunIDLabel :: "'w scenario_env \<Rightarrow> scenario_base \<Rightarrow> nsname \<Rightarrow> 'w \<Rightarrow> go_error option \<times> 'w" where
  "injectRunIDLabel env s key w =
     (case se_GetDeployment env w key of
        Inl err \<Rightarrow> (Some err, w)
      | Inr deployment \<Rightarrow>
          (let template = g_SetMetaDataLabel (se_gen env) (empty_meta\<lparr>om_Labels := dep_TemplateLabels deployment\<rparr>) ''label.prometheus.io/run_id'' (sb_RunID s)
           in se_PatchDeployment env w deployment (deployment\<lparr>dep_TemplateLabels := om_Labels template\<rparr>)))"

text \<open>The wait loops keep the last error of the condition; they return it if the context ends.\<close>

definition poll_result :: "go_error option \<times> go_error option \<times> 'w \<Rightarrow> go_error option \<times> 'w" where
  "poll_result r =
     (case r of (err, lastError, w) \<Rightarrow>
        (case err of
           None \<Rightarrow> (None, w)
         | Some e \<Rightarrow> if is_context_error e then (lastError, w) else (Some e, w)))"

definition key_String :: "nsname \<Rightarrow> string" where
  "key_String key = fst key @ ''/'' @ snd key"

definition deployment_condition :: "'w scenario_env \<Rightarrow> nsname \<Rightarrow> (go_error option \<times> 'w) condition_fun" where
  "deployment_condition env key st =
     (case st of (lastError, w) \<Rightarrow>
        Some (case se_GetDeployment env w key of
                Inl err \<Rightarrow> ((True, Some err), lastError, w)
              | Inr deployment \<Rightarrow>
                  if \<not> IsDeploymentReady deployment then
                    ((False, None), Some (errorf (''deployment '' @ key_String (ObjectKeyFromObject (dep_Meta deployment)) @ '' is not available'')), w)
                  else ((True, None), lastError, w)))"

definition waitForDeployment :: "'w scenario_env \<Rightarrow> nsname \<Rightarrow> 'w \<Rightarrow> (go_error option \<times> 'w) option" where
  "waitForDeployment env key w =
     map_option poll_result (se_waitPoll env (2 * Second) (2 * Minute) False (deployment_condition env key) (None, w))"

fun first_unready :: "lease list \<Rightarrow> go_error option" where
  "first_unready [] = None"
| "first_unready (lease # items) =
     (let state = map_get (om_Labels (l_Meta lease)) ''alpha.sharding.timebertt.dev/state'' in
      if state \<noteq> ''ready'' then
        Some (errorf (''shard lease '' @ key_String (ObjectKeyFromObject (l_Meta lease)) @ '' is in state '' @ quote state))
      else first_unready items)"

definition shardLeases_condition :: "'w scenario_env \<Rightarrow> (go_error option \<times> 'w) condition_fun" where
  "shardLeases_condition env st =
     (case st of (lastError, w) \<Rightarrow>
        Some (case se_ListLeases env w WebhostingNamespaceSystem (SelectorFromSet [(LabelControllerRing, WebhostingOperatorName)]) of
                Inl err \<Rightarrow> ((True, Some err), lastError, w)
              | Inr leaseList \<Rightarrow>
                  (case first_unready leaseList of
                     Some err \<Rightarrow> ((False, None), Some err, w)
                   | None \<Rightarrow> ((True, None), lastError, w))))"

definition waitForShardLeases :: "'w scenario_env \<Rightarrow> 'w \<Rightarrow> (go_error option \<times> 'w) option" where
  "waitForShardLeases env w =
     map_option poll_result (se_waitPoll env (2 * Second) (2 * Minute) False (shardLeases_condition env) (None, w))"

definition observedComponents :: "nsname list" where
  "observedComponents = [(NamespaceSystem, ''sharder''), (WebhostingNamespaceSystem, WebhostingOperatorName)]"

text \<open>Running a list of fallible steps until the first error.\<close>

fun each_step :: "('a \<Rightarrow> 'w \<Rightarrow> (go_error option \<times> 'w) option) \<Rightarrow> 'a list \<Rightarrow> 'w \<Rightarrow> (go_error option \<times> 'w) option" where
  "each_step f [] w = Some (None, w)"
| "each_step f (x # xs) w =
     (case f x w of
        None \<Rightarrow> None
      | Some (Some err, w) \<Rightarrow> Some (Some err, w)
      | Some (None, w) \<Rightarrow> each_step f xs w)"

definition restart_components :: "'w scenario_env \<Rightarrow> scenario_base \<Rightarrow> 'w \<Rightarrow> (go_error option \<times> 'w) option" where
  "restart_components env s w =
     (case each_step (\<lambda>c w. Some (injectRunIDLabel env s c w)) observedComponents w of
        None \<Rightarrow> None
      | Some (Some err, w) \<Rightarrow> Some (Some err, w)
      | Some (None, w) \<Rightarrow>
          (case each_step (waitForDeployment env) observedComponents w of
             None \<Rightarrow> None
           | Some (Some err, w) \<Rightarrow> Some (Some (wrapf ''failed waiting for deployment'' err), w)
           | Some (None, w) \<Rightarrow>
               (case se_DeleteAllLeases env w WebhostingNamespaceSystem (SelectorFromSet [(''alpha.sharding.timebertt.dev/state'', ''dead'')]) of
                  (Some err, w) \<Rightarrow> Some (Some err, w)
                | (None, w) \<Rightarrow>
                    (case waitForShardLeases env w of
                       None \<Rightarrow> None
                     | Some (Some err, w) \<Rightarrow> Some (Some (wrapf ''failed waiting for shard leases'' err), w)
                     | Some (None, w) \<Rightarrow> Some (None, w)))))"

definition determine_run_id :: "'w scenario_env \<Rightarrow> scenario_base \<Rightarrow> 'w \<Rightarrow> scenario_base \<times> 'w" where
  "determine_run_id env s w =
     (let (runID, w) = (if se_Getenv env ''RUN_ID'' \<noteq> [] then (se_Getenv env ''RUN_ID'', w) else se_NewUUID env w)
      in (s\<lparr>sb_RunID := runID, sb_Labels := AList.update ''run-id'' runID (sb_Labels s)\<rparr>, w))"

text \<open>\<^verbatim>\<open>prepare\<close> returns the scenario with its run id and owner, and the owner object to clean up; \<open>None\<close> is a
  poll that panics.\<close>

definition base_prepare :: "'w scenario_env \<Rightarrow> scenario_base \<Rightarrow> 'w \<Rightarrow> ((go_error + scenario_base \<times> object_meta) \<times> 'w) option" where
  "base_prepare env s w =
     (let (s, w) = determine_run_id env s w in
      case CreateClusterScopedOwnerObject (se_gen env) [WithLabels (sb_Labels s)] w of
        (Inl err, w) \<Rightarrow> Some (Inl err, w)
      | (Inr (ownerObject, ownerRef), w) \<Rightarrow>
          (let s = s\<lparr>sb_OwnerRef := Some ownerRef\<rparr> in
           case restart_components env s w of
             None \<Rightarrow> None
           | Some (Some err, w) \<Rightarrow> Some (Inl err, w)
           | Some (None, w) \<Rightarrow> Some (Inr (s, ownerObject), w)))"

definition cleanup :: "'w scenario_env \<Rightarrow> object_meta \<Rightarrow> 'w \<Rightarrow> go_error option \<times> 'w" where
  "cleanup env ownerObject w =
     (case se_DeleteOwner env w ownerObject of
        (Some _, w) \<Rightarrow> (Some (errorf (''failed cleaning up owner object *v1.ClusterRole '' @ key_String (ObjectKeyFromObject ownerObject))), w)
      | (None, w) \<Rightarrow> (None, w))"

text \<open>What happens between preparation and cleanup.\<close>

definition run_delegate :: "'w scenario_env \<Rightarrow> 'w delegate \<Rightarrow> scenario_base \<Rightarrow> 'w \<Rightarrow> (go_error option \<times> 'w) set" where
  "run_delegate env d s w =
     (\<Union>(err, w) \<in> dl_Prepare d s w.
        {case err of
           Some e \<Rightarrow> (Some e, w)
         | None \<Rightarrow>
             (case se_After env (30 * Second) w of
                (Some ctxErr, w) \<Rightarrow> (Some ctxErr, w)
              | (None, w) \<Rightarrow>
                  (case se_AddTracker env w of
                     (Some e, w) \<Rightarrow> (Some (wrapf ''error adding website-tracker'' e), w)
                   | (None, w) \<Rightarrow> dl_Run d s w))})"

definition with_cleanup :: "'w scenario_env \<Rightarrow> object_meta \<Rightarrow> go_error option \<times> 'w \<Rightarrow> go_error option \<times> 'w" where
  "with_cleanup env ownerObject r =
     (case r of (err, w) \<Rightarrow>
        (case cleanup env ownerObject w of
           (Some cleanupErr, w) \<Rightarrow> (if err \<noteq> None then err else Some cleanupErr, w)
         | (None, w) \<Rightarrow> (err, w)))"

definition Start :: "'w scenario_env \<Rightarrow> 'w delegate \<Rightarrow> scenario_base \<Rightarrow> 'w \<Rightarrow> (go_error option \<times> 'w) set" where
  "Start env d s w =
     (case base_prepare env s w of
        None \<Rightarrow> {}
      | Some (Inl err, w) \<Rightarrow> {(Some err, w)}
      | Some (Inr (s, ownerObject), w) \<Rightarrow> with_cleanup env ownerObject ` run_delegate env d s w)"

section \<open>The scenarios\<close>

text \<open>All scenarios prepare 50 themes and 20 projects.\<close>

definition scenario_Prepare :: "'w scenario_env \<Rightarrow> scenario_base \<Rightarrow> 'w \<Rightarrow> (go_error option \<times> 'w) set" where
  "scenario_Prepare env s w =
     (let opts = [WithLabels (sb_Labels s), WithOwnerReference (sb_OwnerRef s)] in
      {(Some err, w1) | err w1. CreateThemes (se_combine env) (se_retryPoll env) (se_gen env) 50 opts w (Some err) w1} \<union>
      {(err, w2) | err w1 w2. CreateThemes (se_combine env) (se_retryPoll env) (se_gen env) 50 opts w None w1 \<and>
         CreateProjects (se_combine env) (se_retryPoll env) (se_gen env) 20 opts w1 err w2})"

definition website_generator :: "'w scenario_env \<Rightarrow> scenario_base \<Rightarrow> rat \<Rightarrow> 'w every" where
  "website_generator env s rate = \<lparr>ev_Name = ''website-generator'',
     ev_Do = CreateWebsite (se_gen env) (Some (se_RecordSpecChange env)) [WithLabels (sb_Labels s)], ev_Rate = rate, ev_Stop = None, ev_Workers = 0\<rparr>"

definition website_deleter :: "'w scenario_env \<Rightarrow> scenario_base \<Rightarrow> rat \<Rightarrow> 'w every" where
  "website_deleter env s rate = \<lparr>ev_Name = ''website-deleter'', ev_Do = DeleteWebsite (se_gen env) (sb_Labels s), ev_Rate = rate,
     ev_Stop = None, ev_Workers = 0\<rparr>"

definition website_mutator :: "'w scenario_env \<Rightarrow> scenario_base \<Rightarrow> duration \<Rightarrow> int \<Rightarrow> (website, 'w) for_each" where
  "website_mutator env s every workers = \<lparr>fe_Name = ''website-mutator'',
     fe_Do = \<lambda>obj w. map_option (map_prod (se_IgnoreNotFound env) id)
       (MutateWebsite (se_gen env) (Some (se_RecordSpecChange env)) obj (sb_Labels s) w),
     fe_Every = every, fe_Stop = None, fe_Workers = workers\<rparr>"

definition terminateRandomShard :: "'w scenario_env \<Rightarrow> 'w worker_fun" where
  "terminateRandomShard env w =
     (case se_ListPods env w WebhostingNamespaceSystem (SelectorFromSet [(''app.kubernetes.io/name'', WebhostingOperatorName)]) of
        Inl err \<Rightarrow> Some (Some err, w)
      | Inr podList \<Rightarrow>
          if length podList = 0 then Some (None, w)
          else (case PickRandom (se_gen env) podList w of None \<Rightarrow> None | Some (pod, w) \<Rightarrow> Some (se_DeletePod env w pod)))"

definition rolling_patch :: "string \<Rightarrow> string" where
  "rolling_patch t = ''{'' @ quote ''spec'' @ '':{'' @ quote ''template'' @ '':{'' @ quote ''metadata'' @ '':{'' @ quote ''annotations'' @
     '':{'' @ quote ''rolling-update'' @ '':'' @ quote t @ ''}}}}}''"

definition triggerRollingUpdate :: "'w scenario_env \<Rightarrow> 'w worker_fun" where
  "triggerRollingUpdate env w =
     (let key = (WebhostingNamespaceSystem, WebhostingOperatorName);
          patch = rolling_patch (g_FormatRFC3339 (se_gen env) (g_Now (se_gen env) w)) in
      case se_GetDeployment env w key of
        Inr _ \<Rightarrow> Some (se_RawPatch env w ''Deployment'' key patch)
      | Inl err \<Rightarrow>
          if \<not> IsNotFound err then Some (Some err, w)
          else
            (case se_GetStatefulSet env w key of
               Inr _ \<Rightarrow> Some (se_RawPatch env w ''StatefulSet'' key patch)
             | Inl err \<Rightarrow> if \<not> IsNotFound err then Some (Some err, w) else None))"

definition shard_terminator :: "'w scenario_env \<Rightarrow> 'w every" where
  "shard_terminator env = \<lparr>ev_Name = ''shard-terminator'', ev_Do = terminateRandomShard env, ev_Rate = se_rateEvery env (5 * Minute),
     ev_Stop = None, ev_Workers = 0\<rparr>"

definition rolling_updater :: "'w scenario_env \<Rightarrow> 'w every" where
  "rolling_updater env = \<lparr>ev_Name = ''rolling-updater'', ev_Do = triggerRollingUpdate env, ev_Rate = se_rateEvery env (5 * Minute),
     ev_Stop = None, ev_Workers = 0\<rparr>"

text \<open>Controllers are added one after the other; the error of the first that fails is wrapped with its name.\<close>

fun add_controllers :: "(string \<times> ('w \<Rightarrow> go_error option \<times> 'w)) list \<Rightarrow> ('w \<Rightarrow> go_error option \<times> 'w) \<Rightarrow> 'w \<Rightarrow> go_error option \<times> 'w" where
  "add_controllers [] wait w = wait w"
| "add_controllers ((name, add) # controllers) wait w =
     (case add w of
        (Some err, w) \<Rightarrow> (Some (wrapf (''error adding '' @ name) err), w)
      | (None, w) \<Rightarrow> add_controllers controllers wait w)"

definition add_every :: "'w scenario_env \<Rightarrow> 'w every \<Rightarrow> string \<times> ('w \<Rightarrow> go_error option \<times> 'w)" where
  "add_every env r = (ev_Name r, se_AddEvery env r)"

definition add_forEach :: "'w scenario_env \<Rightarrow> (website, 'w) for_each \<Rightarrow> string \<times> ('w \<Rightarrow> go_error option \<times> 'w)" where
  "add_forEach env r = (fe_Name r, se_AddForEach env r)"

definition basic_Run :: "'w scenario_env \<Rightarrow> scenario_base \<Rightarrow> 'w \<Rightarrow> go_error option \<times> 'w" where
  "basic_Run env s = add_controllers [add_every env (website_generator env s 12), add_every env (website_deleter env s 2),
     add_forEach env (website_mutator env s Minute 0)] (Wait env (15 * Minute))"

definition chaos_Run :: "'w scenario_env \<Rightarrow> scenario_base \<Rightarrow> 'w \<Rightarrow> go_error option \<times> 'w" where
  "chaos_Run env s = add_controllers [add_every env (website_generator env s 5), add_forEach env (website_mutator env s (2 * Minute) 0),
     add_every env (shard_terminator env)] (Wait env (15 * Minute))"

definition rollingUpdate_Run :: "'w scenario_env \<Rightarrow> scenario_base \<Rightarrow> 'w \<Rightarrow> go_error option \<times> 'w" where
  "rollingUpdate_Run env s = add_controllers [add_every env (website_generator env s 12), add_every env (website_deleter env s 2),
     add_forEach env (website_mutator env s Minute 0), add_every env (rolling_updater env)] (Wait env (15 * Minute))"

definition scaleOut_Run :: "'w scenario_env \<Rightarrow> scenario_base \<Rightarrow> 'w \<Rightarrow> go_error option \<times> 'w" where
  "scaleOut_Run env s = add_controllers [add_every env (website_generator env s 10),
     add_forEach env (website_mutator env s (30 * Second) 20)] (Wait env (15 * Minute))"

section \<open>Lemmas\<close>

lemma create_many_nil:
  assumes "create_many combine poll n create w None w'"
  shows "n_times n (RetryOnError poll 5 create IsAlreadyExists) w = Some ([], w')"
proof -
  obtain st where st: "(nt_step combine 10 (RetryOnError poll 5 create IsAlreadyExists))\<^sup>*\<^sup>* (NTimesConcurrently n 10 w) st"
      "nt_ret st = Some None" "nt_world st = w'"
    using assms unfolding create_many_def by (elim exE conjE)
  from nt_returned [OF st(1,2)] obtain errs es where
    "n_times n (RetryOnError poll 5 create IsAlreadyExists) w = Some (errs, nt_world st)" "mset es = mset errs" "None = ErrorOrNil combine es"
    by (elim exE conjE)
  then show ?thesis using st(3) by (simp add: ErrorOrNil_def split: if_splits)
qed

text \<open>A poll that ends without an error ends with the condition being true.\<close>

lemma poll_steps_nil:
  "poll_steps k tick cond ctxErr s = Some (None, a', w') \<Longrightarrow> \<exists>a w. cond (a, w) = Some ((True, None), a', w')"
proof (induction k arbitrary: s)
  case (Suc k)
  obtain a w where s: "s = (a, w)" by (cases s)
  obtain b e u where c: "cond (a, tick k w) = Some ((b, e), u)" using Suc.prems s by (auto split: option.splits)
  show ?case
  proof (cases e)
    case None
    then show ?thesis using Suc s c by (cases b; cases u) auto
  qed (use Suc.prems s c in \<open>cases b; simp\<close>)
qed simp

lemma poll_nil:
  assumes "poll_doc poll" and "poll interval timeout immediate cond s = Some (None, a', w')"
  shows "\<exists>a w. cond (a, w) = Some ((True, None), a', w')"
proof -
  obtain k tick ctxErr where "poll interval timeout immediate cond s = poll_steps k tick cond ctxErr s"
    using assms(1) unfolding poll_doc_def by metis
  with assms(2) show ?thesis using poll_steps_nil [of k tick cond ctxErr s a' w'] by simp
qed

lemma poll_result_nil:
  assumes "map_option poll_result r = Some (None, w')"
  shows "(\<exists>l. r = Some (None, l, w')) \<or> (\<exists>e. is_context_error e \<and> r = Some (Some e, None, w'))"
proof -
  obtain err l w1 where r: "r = Some (err, l, w1)" using assms by (cases r) auto
  show ?thesis
  proof (cases err)
    case None
    then show ?thesis using assms r by (simp add: poll_result_def)
  next
    case (Some e)
    then show ?thesis using assms r by (auto simp: poll_result_def split: if_splits)
  qed
qed

lemma first_unready_None:
  "first_unready leases = None \<longleftrightarrow> (\<forall>l \<in> set leases. map_get (om_Labels (l_Meta l)) ''alpha.sharding.timebertt.dev/state'' = ''ready'')"
proof (induction leases)
  case (Cons l leases)
  then show ?case by (cases "map_get (om_Labels (l_Meta l)) ''alpha.sharding.timebertt.dev/state'' = ''ready''") (simp_all add: Let_def)
qed simp

lemma registered_scenario_found:
  assumes "RegisterScenario name s registry = Some registry'"
  shows "GetScenario t registry' = (if t = name s then Some s else GetScenario t registry)"
proof -
  have "map_of registry (name s) = None" "registry' = registry @ [(name s, s)]"
    using assms by (simp_all add: RegisterScenario_def split: if_splits)
  then show ?thesis by (simp add: GetScenario_def map_add_def split: option.split)
qed

lemma registry_sorted: "sorted (map name (GetAllScenarios name registry))"
  by (simp add: GetAllScenarios_def)

section \<open>Properties\<close>

text \<open>A scenario that was prepared without an error has all its objects: the world is that of 50 theme
  creations in a row, each retried until it succeeded, followed by 20 project creations, all with the labels and
  the owner of the run; no error of the concurrent creation is lost.\<close>

theorem scenario_prepares_all_objects:
  assumes "(None, w') \<in> scenario_Prepare env s w"
  defines "opts \<equiv> [WithLabels (sb_Labels s), WithOwnerReference (sb_OwnerRef s)]"
  shows "\<exists>w1. n_times 50 (RetryOnError (se_retryPoll env) 5 (CreateTheme (se_gen env) opts) IsAlreadyExists) w = Some ([], w1) \<and>
    n_times 20 (RetryOnError (se_retryPoll env) 5 (CreateProject (se_gen env) opts) IsAlreadyExists) w1 = Some ([], w')"
proof -
  obtain w1 where p: "CreateThemes (se_combine env) (se_retryPoll env) (se_gen env) 50 opts w None w1"
    "CreateProjects (se_combine env) (se_retryPoll env) (se_gen env) 20 opts w1 None w'"
    using assms(1) unfolding scenario_Prepare_def opts_def [symmetric] Let_def by blast
  show ?thesis
    using create_many_nil [OF p(1) [unfolded CreateThemes_def]] create_many_nil [OF p(2) [unfolded CreateProjects_def]] by (intro exI conjI)
qed

text \<open>An environment in which everything succeeds, on the world of the sample generator.\<close>

definition ready_deployment :: "nsname \<Rightarrow> deployment" where
  "ready_deployment key = \<lparr>dep_Meta = empty_meta\<lparr>om_Namespace := fst key, om_Name := snd key\<rparr>, dep_Replicas = None, dep_Selector = None,
     dep_RevisionHistoryLimit = None, dep_TemplateLabels = None, dep_TemplateAnnotations = None, dep_Containers = [], dep_Volumes = [],
     dep_ObservedGeneration = 0, dep_Conditions = [\<lparr>dc_Type = ''Available'', dc_Status = ''True'', dc_Reason = []\<rparr>,
       \<lparr>dc_Type = ''Progressing'', dc_Status = ''True'', dc_Reason = ''NewReplicaSetAvailable''\<rparr>]\<rparr>"

definition sample_scenario_env :: "website list scenario_env" where
  "sample_scenario_env = \<lparr>se_gen = sample_gen, se_combine = hd, se_retryPoll = sample_poll, se_waitPoll = sample_poll, se_Getenv = \<lambda>_. ''r1'',
     se_NewUUID = \<lambda>w. (''u'', w), se_GetDeployment = \<lambda>_ key. Inr (ready_deployment key), se_PatchDeployment = \<lambda>w _ _. (None, w),
     se_GetStatefulSet = \<lambda>_ _. Inl (errorf ''none''), se_RawPatch = \<lambda>w _ _ _. (None, w), se_ListLeases = \<lambda>_ _ _. Inr [],
     se_DeleteAllLeases = \<lambda>w _ _. (None, w), se_ListPods = \<lambda>_ _ _. Inr [], se_DeletePod = \<lambda>w _. (None, w), se_DeleteOwner = \<lambda>w _. (None, w),
     se_After = \<lambda>_ w. (None, w), se_AddTracker = \<lambda>w. (None, w), se_RecordSpecChange = \<lambda>_ w. w, se_AddEvery = \<lambda>_ w. (None, w),
     se_AddForEach = \<lambda>_ w. (None, w), se_IgnoreNotFound = \<lambda>e. e, se_rateEvery = \<lambda>d. of_int Second / of_int d\<rparr>"

lemma create_many_ok:
  assumes "\<And>w. RetryOnError poll 5 create IsAlreadyExists w = Some (None, w)"
  shows "create_many combine poll n create w None w"
proof -
  let ?f = "RetryOnError poll 5 create IsAlreadyExists"
  have times: "n_times k ?f w = Some ([], w)" for k by (induction k) (simp_all add: assms append_err_def)
  obtain st where st: "(nt_step combine 10 ?f)\<^sup>*\<^sup>* (NTimesConcurrently n 10 w) st" "nt_final st"
    using n_times.ends [of 10 combine n ?f w "NTimesConcurrently n 10 w"] nt_inv_init [of combine n 10 ?f w] by auto
  have "\<not> nt_panicked st" by (rule nt_step_no_panic [OF st(1)]) (simp add: assms)
  then obtain err where err: "nt_ret st = Some err" using st(2) by (auto simp: nt_final_def)
  from nt_returned [OF st(1) err] have "nt_world st = w" "err = None" by (auto simp: times ErrorOrNil_def)
  with st(1) err show ?thesis unfolding create_many_def by blast
qed

lemma retry_first_success: "f w = Some (None, w) \<Longrightarrow> RetryOnError sample_poll n f retriable w = Some (None, w)"
  by (simp add: RetryOnError_def sample_poll_def retry_condition_def numeral_3_eq_3)

lemma sample_PickRandom: "xs \<noteq> [] \<Longrightarrow> PickRandom sample_gen xs w = Some (hd xs, w)"
  by (simp add: PickRandom_def Intn_def sample_gen_def hd_conv_nth)

lemma sample_creations: "CreateTheme sample_gen opts w = Some (None, w)" "CreateProject sample_gen opts w = Some (None, w)"
proof -
  have "themeColors \<noteq> []" "themeFonts \<noteq> []" by (simp_all add: themeColors_def themeFonts_def)
  then have "random_theme_spec sample_gen w = Some (\<lparr>ts_Color = hd themeColors, ts_FontFamily = hd themeFonts\<rparr>, w)"
    by (simp add: random_theme_spec_def sample_PickRandom)
  moreover have "g_CreateTheme sample_gen w t = (Inr t, w)" "g_CreateNamespace sample_gen w m = (Inr m, w)" for t m by (simp_all add: sample_gen_def)
  ultimately show "CreateTheme sample_gen opts w = Some (None, w)" "CreateProject sample_gen opts w = Some (None, w)"
    by (simp_all add: CreateTheme_def CreateProject_def Let_def)
qed

lemma sample_scenario_prepared: "(None, w) \<in> scenario_Prepare sample_scenario_env s w"
proof -
  have "CreateThemes hd sample_poll sample_gen n opts w None w" "CreateProjects hd sample_poll sample_gen n opts w None w" for n opts
    unfolding CreateThemes_def CreateProjects_def by (rule create_many_ok, rule retry_first_success, rule sample_creations)+
  then show ?thesis unfolding scenario_Prepare_def Let_def by (simp add: sample_scenario_env_def) blast
qed

lemma scenario_prepares_all_objects_witness:
  "\<exists>opts w1. n_times 50 (RetryOnError sample_poll 5 (CreateTheme sample_gen opts) IsAlreadyExists) [] = Some ([], w1)"
proof -
  have env: "se_retryPoll sample_scenario_env = sample_poll" "se_gen sample_scenario_env = sample_gen" by (simp_all add: sample_scenario_env_def)
  from scenario_prepares_all_objects [OF sample_scenario_prepared [of "[]" "base_AddToManager ''basic''"], unfolded env]
  show ?thesis by (elim exE conjE) (intro exI)
qed

text \<open>A run that was prepared is cleaned up: however preparation of the objects, the wait, the tracker and
  the run end, the owner object is deleted as the last action; the error of the run is returned if there is
  one, otherwise that of the cleanup, and no error is returned exactly if both succeeded.\<close>

theorem prepared_run_is_cleaned_up:
  assumes "base_prepare env s w = Some (Inr (s', ownerObject), w1)" and "(err, w') \<in> Start env d s w"
  shows "\<exists>err2 w2. (err2, w2) \<in> run_delegate env d s' w1 \<and> w' = snd (se_DeleteOwner env w2 ownerObject) \<and>
    (err2 \<noteq> None \<longrightarrow> err = err2) \<and> (err = None \<longleftrightarrow> err2 = None \<and> fst (se_DeleteOwner env w2 ownerObject) = None)"
proof -
  obtain err2 w2 where r: "(err2, w2) \<in> run_delegate env d s' w1" "(err, w') = with_cleanup env ownerObject (err2, w2)"
    using assms unfolding Start_def by auto
  obtain derr w3 where d: "se_DeleteOwner env w2 ownerObject = (derr, w3)" by (cases "se_DeleteOwner env w2 ownerObject")
  have "w' = snd (se_DeleteOwner env w2 ownerObject) \<and> (err2 \<noteq> None \<longrightarrow> err = err2) \<and>
    (err = None \<longleftrightarrow> err2 = None \<and> fst (se_DeleteOwner env w2 ownerObject) = None)"
    using r(2) by (cases derr; cases err2) (simp_all add: with_cleanup_def cleanup_def d)
  with r(1) show ?thesis by blast
qed

definition sample_delegate :: "website list delegate" where
  "sample_delegate = \<lparr>dl_Prepare = scenario_Prepare sample_scenario_env, dl_Run = basic_Run sample_scenario_env\<rparr>"

lemma ready_deployment_ready: "IsDeploymentReady (ready_deployment key)"
  by (simp add: IsDeploymentReady_def ready_deployment_def empty_meta_def)

lemma sample_waits:
  "waitForDeployment sample_scenario_env key w = Some (None, w)" "waitForShardLeases sample_scenario_env w = Some (None, w)"
  by (simp_all add: waitForDeployment_def waitForShardLeases_def sample_scenario_env_def sample_poll_def deployment_condition_def
      shardLeases_condition_def ready_deployment_ready poll_result_def numeral_3_eq_3)

lemma sample_restart: "restart_components sample_scenario_env s w = Some (None, w)"
proof -
  have "injectRunIDLabel sample_scenario_env s key w = (None, w)" for key by (simp add: injectRunIDLabel_def sample_scenario_env_def)
  moreover have "se_DeleteAllLeases sample_scenario_env w ns sel = (None, w)" for ns sel by (simp add: sample_scenario_env_def)
  ultimately show ?thesis by (simp add: restart_components_def observedComponents_def sample_waits)
qed

lemma sample_base_prepare: "\<exists>s' ownerObject. base_prepare sample_scenario_env s w = Some (Inr (s', ownerObject), w)"
proof -
  obtain s1 where r: "determine_run_id sample_scenario_env s w = (s1, w)"
    by (simp add: determine_run_id_def sample_scenario_env_def)
  obtain ow ref where "CreateClusterScopedOwnerObject (se_gen sample_scenario_env) [WithLabels (sb_Labels s1)] w = (Inr (ow, ref), w)"
    by (simp add: CreateClusterScopedOwnerObject_def sample_scenario_env_def sample_gen_def Let_def)
  then show ?thesis by (simp add: base_prepare_def r sample_restart)
qed

lemma prepared_run_is_cleaned_up_witness:
  "\<exists>err2 w2 ownerObject s'. (err2, w2) \<in> run_delegate sample_scenario_env sample_delegate s' [] \<and>
     [] = snd (se_DeleteOwner sample_scenario_env w2 ownerObject)"
proof -
  obtain s' ow where p: "base_prepare sample_scenario_env (base_AddToManager ''basic'') [] = Some (Inr (s', ow), [])"
    using sample_base_prepare [of "base_AddToManager ''basic''" "[]"] by (elim exE)
  have prep: "(None, []) \<in> dl_Prepare sample_delegate s' []" using sample_scenario_prepared by (simp add: sample_delegate_def)
  have run: "dl_Run sample_delegate s' [] = (None, [])"
    by (simp add: sample_delegate_def basic_Run_def add_every_def add_forEach_def Wait_def sample_scenario_env_def)
  have env: "se_After sample_scenario_env t [] = (None, [])" "se_AddTracker sample_scenario_env [] = (None, [])"
    "se_DeleteOwner sample_scenario_env [] ow = (None, [])" for t by (simp_all add: sample_scenario_env_def)
  have "(None, []) \<in> run_delegate sample_scenario_env sample_delegate s' []"
    unfolding run_delegate_def by (rule UN_I [OF prep]) (simp add: env run)
  moreover have "with_cleanup sample_scenario_env ow (None, []) = (None, [])" by (simp add: with_cleanup_def cleanup_def env)
  ultimately have "(None, []) \<in> Start sample_scenario_env sample_delegate (base_AddToManager ''basic'') []"
    unfolding Start_def p by (simp, metis image_eqI)
  from prepared_run_is_cleaned_up [OF p this] show ?thesis by (elim exE conjE) (intro exI conjI)
qed

text \<open>Waiting for the shards is truthful: if it returns without an error, either all shard leases of the
  operator were ready when they were last listed, or the context ended before any list showed otherwise.\<close>

theorem shard_wait_is_truthful:
  assumes "poll_doc (se_waitPoll env)" and "waitForShardLeases env w = Some (None, w')"
  shows "(\<exists>leases. se_ListLeases env w' WebhostingNamespaceSystem (SelectorFromSet [(LabelControllerRing, WebhostingOperatorName)]) = Inr leases \<and>
      (\<forall>l \<in> set leases. map_get (om_Labels (l_Meta l)) ''alpha.sharding.timebertt.dev/state'' = ''ready'')) \<or>
    (\<exists>e. is_context_error e \<and> se_waitPoll env (2 * Second) (2 * Minute) False (shardLeases_condition env) (None, w) = Some (Some e, None, w'))"
proof -
  consider l where "se_waitPoll env (2 * Second) (2 * Minute) False (shardLeases_condition env) (None, w) = Some (None, l, w')"
    | e where "is_context_error e" "se_waitPoll env (2 * Second) (2 * Minute) False (shardLeases_condition env) (None, w) = Some (Some e, None, w')"
    using poll_result_nil [OF assms(2) [unfolded waitForShardLeases_def]] by (elim disjE exE conjE)
  then show ?thesis
  proof cases
    case 1
    from poll_nil [OF assms(1) this] obtain a u where c: "shardLeases_condition env (a, u) = Some ((True, None), l, w')" by blast
    let ?list = "se_ListLeases env u WebhostingNamespaceSystem (SelectorFromSet [(LabelControllerRing, WebhostingOperatorName)])"
    show ?thesis
    proof (cases ?list)
      case (Inr leases)
      then have "first_unready leases = None" "w' = u"
        using c by (simp_all add: shardLeases_condition_def split: option.splits)
      then show ?thesis using Inr unfolding first_unready_None by (intro disjI1 exI [of _ leases]) simp
    qed (use c in \<open>simp add: shardLeases_condition_def\<close>)
  next
    case 2
    then show ?thesis by (intro disjI2 exI conjI)
  qed
qed

lemma shard_wait_is_truthful_witness:
  "(\<exists>leases. se_ListLeases sample_scenario_env [] WebhostingNamespaceSystem (SelectorFromSet [(LabelControllerRing, WebhostingOperatorName)]) = Inr leases \<and>
      (\<forall>l \<in> set leases. map_get (om_Labels (l_Meta l)) ''alpha.sharding.timebertt.dev/state'' = ''ready'')) \<or>
    (\<exists>e. is_context_error e \<and> se_waitPoll sample_scenario_env (2 * Second) (2 * Minute) False (shardLeases_condition sample_scenario_env) (None, []) =
      Some (Some e, None, []))"
proof -
  have "poll_doc (se_waitPoll sample_scenario_env)" using sample_poll_doc by (simp add: sample_scenario_env_def)
  from this sample_waits(2) show ?thesis by (rule shard_wait_is_truthful)
qed

text \<open>A wait whose context ends before the first check reports success: the last error is still nil then.\<close>

theorem cancelled_wait_reports_success:
  assumes "se_waitPoll env (2 * Second) (2 * Minute) False (deployment_condition env key) (None, w) = Some (Some e, None, w')" and "is_context_error e"
  shows "waitForDeployment env key w = Some (None, w')"
  using assms by (simp add: waitForDeployment_def poll_result_def)

text \<open>A preparation that fails after the owner object was created leaves it behind: the run ends with the error
  and the world as the failed step left it.\<close>

theorem failed_preparation_keeps_owner:
  assumes "determine_run_id env s w = (s1, w1)"
    and "CreateClusterScopedOwnerObject (se_gen env) [WithLabels (sb_Labels s1)] w1 = (Inr (ownerObject, ownerRef), w2)"
    and "restart_components env (s1\<lparr>sb_OwnerRef := Some ownerRef\<rparr>) w2 = Some (Some err, w3)"
  shows "Start env d s w = {(Some err, w3)}"
  using assms by (simp add: Start_def base_prepare_def Let_def)

end
