(* ===== verification/Setup.thy ===== *)
theory Setup
  imports Options Predicates Webhook Exporter
begin

text \<open>
  Assembly of the sharder process: \<^verbatim>\<open>run\<close> of \<^verbatim>\<open>cmd/sharder/app/app.go\<close>, the \<^verbatim>\<open>AddToManager\<close> functions of
  \<^verbatim>\<open>pkg/controller\<close>, \<^verbatim>\<open>pkg/webhook\<close> and \<^verbatim>\<open>pkg/metrics\<close>, and the cache check of \<^verbatim>\<open>pkg/utils/healthz\<close>. A
  manager is the record of what was added to it; each addition may fail, which the environment decides. A
  controller is its name, its watches and its options. \<open>None\<close> is a nil pointer in the configuration, i.e. a panic.
\<close>

section \<open>Controllers\<close>

datatype watched_kind = KindLease | KindRing

fun object_kind :: "api_object \<Rightarrow> watched_kind option" where
  "object_kind (OLease _) = Some KindLease"
| "object_kind (ORing _) = Some KindRing"
| "object_kind _ = None"

text \<open>The handler of a watch: the object itself (\<^verbatim>\<open>For\<close>) or a mapping (\<^verbatim>\<open>EnqueueRequestsFromMapFunc\<close>).\<close>

datatype 'w watch_handler = ForObjectItself | FromMapFunc "'w \<Rightarrow> api_object \<Rightarrow> nsname list"

record 'w watch =
  wa_Kind :: watched_kind
  wa_Handler :: "'w watch_handler"
  wa_Predicate :: "time \<Rightarrow> predicate"

text \<open>What a reconciler gets from the manager unless it is given.\<close>

datatype dependency = MgrClient | MgrClientWithFieldOwner string | MgrAPIReader | MgrEventRecorder string | RealClock | Given string

definition or_default :: "dependency \<Rightarrow> dependency option \<Rightarrow> dependency option" where
  "or_default d x = (if x = None then Some d else x)"

record reconciler_deps =
  rd_Client :: "dependency option"
  rd_Reader :: "dependency option"
  rd_Recorder :: "dependency option"
  rd_Clock :: "dependency option"

definition no_deps :: reconciler_deps where
  "no_deps = \<lparr>rd_Client = None, rd_Reader = None, rd_Recorder = None, rd_Clock = None\<rparr>"

record 'w controller_setup =
  cs_Name :: string
  cs_Deps :: reconciler_deps
  cs_Watches :: "'w watch list"
  cs_MaxConcurrentReconciles :: int
  cs_Backoff :: "(duration \<times> duration) option"

definition controllerring_AddToManager :: "pred_lib \<Rightarrow> reconciler_deps \<Rightarrow> 'w controller_setup" where
  "controllerring_AddToManager pl r =
     (let r = r\<lparr>rd_Client := or_default (MgrClientWithFieldOwner ''controllerring-controller'') (rd_Client r)\<rparr>;
          r = r\<lparr>rd_Recorder := or_default (MgrEventRecorder ''controllerring-controller'') (rd_Recorder r)\<rparr>;
          r = r\<lparr>rd_Clock := or_default RealClock (rd_Clock r)\<rparr> in
      \<lparr>cs_Name = ''controllerring'', cs_Deps = r,
       cs_Watches =
         [\<lparr>wa_Kind = KindRing, wa_Handler = ForObjectItself, wa_Predicate = \<lambda>now. ControllerRingCreatedOrUpdated pl\<rparr>,
          \<lparr>wa_Kind = KindLease, wa_Handler = FromMapFunc (\<lambda>w. MapLeaseToControllerRing), wa_Predicate = controllerring_LeasePredicate pl\<rparr>],
       cs_MaxConcurrentReconciles = 5, cs_Backoff = None\<rparr>)"

definition sharder_AddToManager :: "pred_lib \<Rightarrow> config_v1alpha1 \<Rightarrow> reconciler_deps \<Rightarrow> 'w controller_setup option" where
  "sharder_AddToManager pl config r =
     (let r = r\<lparr>rd_Client := or_default MgrClient (rd_Client r)\<rparr>;
          r = r\<lparr>rd_Reader := or_default MgrAPIReader (rd_Reader r)\<rparr>;
          r = r\<lparr>rd_Clock := or_default RealClock (rd_Clock r)\<rparr> in
      case ctl_Sharder (c_Controller config) of
        None \<Rightarrow> None
      | Some sc \<Rightarrow>
          (case sc_SyncPeriod sc of
             None \<Rightarrow> None
           | Some period \<Rightarrow> Some
               \<lparr>cs_Name = ''sharder'', cs_Deps = r,
                cs_Watches =
                  [\<lparr>wa_Kind = KindRing, wa_Handler = ForObjectItself, wa_Predicate = \<lambda>now. ControllerRingCreatedOrUpdated pl\<rparr>,
                   \<lparr>wa_Kind = KindLease, wa_Handler = FromMapFunc (\<lambda>w. MapLeaseToControllerRing), wa_Predicate = sharder_LeasePredicate pl\<rparr>],
                cs_MaxConcurrentReconciles = 5, cs_Backoff = Some (5 * Second, period)\<rparr>))"

definition shardlease_AddToManager :: "pred_lib \<Rightarrow> 'w client \<Rightarrow> reconciler_deps \<Rightarrow> 'w controller_setup" where
  "shardlease_AddToManager pl c r =
     (let r = r\<lparr>rd_Client := or_default MgrClient (rd_Client r)\<rparr>;
          r = r\<lparr>rd_Clock := or_default RealClock (rd_Clock r)\<rparr> in
      \<lparr>cs_Name = ''shardlease'', cs_Deps = r,
       cs_Watches =
         [\<lparr>wa_Kind = KindLease, wa_Handler = ForObjectItself, wa_Predicate = shardlease_LeasePredicate pl\<rparr>,
          \<lparr>wa_Kind = KindRing, wa_Handler = FromMapFunc (MapControllerRingToLeases c), wa_Predicate = \<lambda>now. ControllerRingCreatedOrUpdated pl\<rparr>],
       cs_MaxConcurrentReconciles = 5, cs_Backoff = None\<rparr>)"

section \<open>The manager\<close>

text \<open>\<^verbatim>\<open>pkg/metrics/operations.go\<close>: a counter is identified by its qualified name; its label names are fixed.\<close>

record counter_vec =
  cv_Namespace :: string
  cv_Name :: string
  cv_Help :: string
  cv_Labels :: "string list"

definition metrics_Namespace :: string where "metrics_Namespace = ''controller_sharding''"

definition AssignmentsTotal :: counter_vec where
  "AssignmentsTotal = \<lparr>cv_Namespace = metrics_Namespace, cv_Name = ''assignments_total'',
     cv_Help = ''Total number of shard assignments by the sharder webhook per ControllerRing and GroupResource'',
     cv_Labels = [''controllerring'', ''group'', ''resource'']\<rparr>"

definition MovementsTotal :: counter_vec where
  "MovementsTotal = \<lparr>cv_Namespace = metrics_Namespace, cv_Name = ''movements_total'',
     cv_Help = ''Total number of shard movements triggered by the sharder controller per ControllerRing and GroupResource'',
     cv_Labels = [''controllerring'', ''group'', ''resource'']\<rparr>"

definition DrainsTotal :: counter_vec where
  "DrainsTotal = \<lparr>cv_Namespace = metrics_Namespace, cv_Name = ''drains_total'',
     cv_Help = ''Total number of shard drains triggered by the sharder controller per ControllerRing and GroupResource'',
     cv_Labels = [''controllerring'', ''group'', ''resource'']\<rparr>"

definition RingCalculationsTotal :: counter_vec where
  "RingCalculationsTotal = \<lparr>cv_Namespace = metrics_Namespace, cv_Name = ''ring_calculations_total'',
     cv_Help = ''Total number of hash ring calculations per ControllerRing'', cv_Labels = [''controllerring'']\<rparr>"

record 'w manager =
  mg_Healthz :: "string list"
  mg_Readyz :: "string list"
  mg_Controllers :: "'w controller_setup list"
  mg_Webhooks :: "string list"
  mg_Exporters :: "string list"
  mg_Collectors :: "counter_vec list"

record setup_env =
  su_New :: "go_error option"
  su_AddHealthz :: "string \<Rightarrow> go_error option"
  su_AddReadyz :: "string \<Rightarrow> go_error option"
  su_Complete :: "string \<Rightarrow> go_error option"
  su_AddExporter :: "string \<Rightarrow> go_error option"
  su_Register :: "counter_vec \<Rightarrow> go_error option"

definition empty_manager :: "'w manager" where
  "empty_manager = \<lparr>mg_Healthz = [], mg_Readyz = [], mg_Controllers = [], mg_Webhooks = [], mg_Exporters = [], mg_Collectors = []\<rparr>"

definition add_controller :: "setup_env \<Rightarrow> 'w controller_setup \<Rightarrow> 'w manager \<Rightarrow> go_error + 'w manager" where
  "add_controller env cs mgr =
     (case su_Complete env (cs_Name cs) of Some err \<Rightarrow> Inl err | None \<Rightarrow> Inr (mgr\<lparr>mg_Controllers := mg_Controllers mgr @ [cs]\<rparr>))"

definition controllers_AddToManager ::
  "setup_env \<Rightarrow> pred_lib \<Rightarrow> 'w client \<Rightarrow> config_v1alpha1 \<Rightarrow> 'w manager \<Rightarrow> (go_error + 'w manager) option"
where
  "controllers_AddToManager env pl c config mgr =
     (case add_controller env (controllerring_AddToManager pl no_deps) mgr of
        Inl err \<Rightarrow> Some (Inl (wrapf ''failed adding controllerring controller'' err))
      | Inr mgr \<Rightarrow>
          (case sharder_AddToManager pl config no_deps of
             None \<Rightarrow> None
           | Some sharder \<Rightarrow>
               (case add_controller env sharder mgr of
                  Inl err \<Rightarrow> Some (Inl (wrapf ''failed adding sharder controller'' err))
                | Inr mgr \<Rightarrow>
                    (case add_controller env (shardlease_AddToManager pl c no_deps) mgr of
                       Inl err \<Rightarrow> Some (Inl (wrapf ''failed adding lease controller'' err))
                     | Inr mgr \<Rightarrow> Some (Inr mgr)))))"

definition webhooks_AddToManager :: "'w manager \<Rightarrow> go_error + 'w manager" where
  "webhooks_AddToManager mgr =
     (let (_, path) = webhook_AddToManager () () () \<lparr>wh_Reader = None, wh_Clock = None, wh_Metrics = None\<rparr>
      in Inr (mgr\<lparr>mg_Webhooks := mg_Webhooks mgr @ [path]\<rparr>))"

fun register_collectors :: "setup_env \<Rightarrow> counter_vec list \<Rightarrow> 'w manager \<Rightarrow> go_error + 'w manager" where
  "register_collectors env [] mgr = Inr mgr"
| "register_collectors env (collector # collectors) mgr =
     (case su_Register env collector of
        Some err \<Rightarrow> Inl (wrapf ''failed to add sharding operations metrics'' err)
      | None \<Rightarrow> register_collectors env collectors (mgr\<lparr>mg_Collectors := mg_Collectors mgr @ [collector]\<rparr>))"

definition add_exporter :: "setup_env \<Rightarrow> string \<Rightarrow> 'o exporter \<Rightarrow> 'w manager \<Rightarrow> go_error + 'w manager" where
  "add_exporter env what e mgr =
     (case su_AddExporter env (e_Subsystem e) of
        Some err \<Rightarrow> Inl (wrapf (''failed to add '' @ what @ '' exporter'') err)
      | None \<Rightarrow> Inr (mgr\<lparr>mg_Exporters := mg_Exporters mgr @ [e_Subsystem e]\<rparr>))"

definition metrics_AddToManager :: "setup_env \<Rightarrow> 'w manager \<Rightarrow> go_error + 'w manager" where
  "metrics_AddToManager env mgr =
     (case add_exporter env ''ControllerRing'' ControllerRingExporter mgr of
        Inl err \<Rightarrow> Inl err
      | Inr mgr \<Rightarrow>
          (case add_exporter env ''shard'' ShardExporter mgr of
             Inl err \<Rightarrow> Inl err
           | Inr mgr \<Rightarrow> register_collectors env [AssignmentsTotal, MovementsTotal, DrainsTotal, RingCalculationsTotal] mgr))"

text \<open>Everything \<^verbatim>\<open>run\<close> does before it starts the manager.\<close>

definition app_run :: "setup_env \<Rightarrow> pred_lib \<Rightarrow> 'w client \<Rightarrow> config_v1alpha1 \<Rightarrow> (go_error + 'w manager) option" where
  "app_run env pl c config =
     (case su_New env of Some err \<Rightarrow> Some (Inl err) | None \<Rightarrow>
     (case su_AddHealthz env ''ping'' of Some err \<Rightarrow> Some (Inl err) | None \<Rightarrow>
     (case su_AddReadyz env ''cache-sync'' of Some err \<Rightarrow> Some (Inl err) | None \<Rightarrow>
     (case controllers_AddToManager env pl c config (empty_manager\<lparr>mg_Healthz := [''ping''], mg_Readyz := [''cache-sync'']\<rparr>) of
        None \<Rightarrow> None
      | Some (Inl err) \<Rightarrow> Some (Inl (wrapf ''failed adding controllers to manager'' err))
      | Some (Inr mgr) \<Rightarrow>
     (case webhooks_AddToManager mgr of
        Inl err \<Rightarrow> Some (Inl (wrapf ''failed adding webhooks to manager'' err))
      | Inr mgr \<Rightarrow>
     (case metrics_AddToManager env mgr of
        Inl err \<Rightarrow> Some (Inl (wrapf ''failed adding metrics to manager'' err))
      | Inr mgr \<Rightarrow> Some (Inr mgr)))))))"

text \<open>The readiness check: the caches have synced within five milliseconds.\<close>

definition CacheSync :: "(duration \<Rightarrow> bool) \<Rightarrow> go_error option" where
  "CacheSync waitForCacheSync = (if \<not> waitForCacheSync 5000000 then Some (errorf ''informers have not synced yet'') else None)"

section \<open>Delivery of events\<close>

text \<open>
  How controller-runtime delivers an event to a controller: a watch of the object's kind whose predicate accepts
  the event enqueues the object itself, or what the mapping returns, for updates of the old and the new object.
\<close>

fun mapped_objects :: "event \<Rightarrow> api_object list" where
  "mapped_objects (UpdateEvent old new) = [old, new]"
| "mapped_objects e = [event_object e]"

definition deliver_watch :: "'w \<Rightarrow> time \<Rightarrow> event \<Rightarrow> 'w watch \<Rightarrow> nsname list" where
  "deliver_watch w now e wa =
     (if object_kind (event_object e) = Some (wa_Kind wa) \<and> wa_Predicate wa now e then
        (case wa_Handler wa of
           ForObjectItself \<Rightarrow> [ObjectKeyFromObject (obj_meta (event_object e))]
         | FromMapFunc f \<Rightarrow> concat (map (f w) (mapped_objects e)))
      else [])"

definition deliver :: "'w \<Rightarrow> time \<Rightarrow> event \<Rightarrow> 'w controller_setup \<Rightarrow> nsname list" where
  "deliver w now e cs = concat (map (deliver_watch w now e) (cs_Watches cs))"

definition controller_named :: "string \<Rightarrow> 'w manager \<Rightarrow> 'w controller_setup option" where
  "controller_named name mgr = List.find (\<lambda>cs. cs_Name cs = name) (mg_Controllers mgr)"

section \<open>Lemmas\<close>

lemma add_controller_Inr:
  "add_controller env cs mgr = Inr mgr' \<longleftrightarrow> su_Complete env (cs_Name cs) = None \<and> mgr' = mgr\<lparr>mg_Controllers := mg_Controllers mgr @ [cs]\<rparr>"
  by (auto simp: add_controller_def split: option.splits)

lemma controllers_added:
  assumes "controllers_AddToManager env pl c config mgr = Some (Inr mgr')"
  obtains sharder where "sharder_AddToManager pl config no_deps = Some sharder"
    "mgr' = mgr\<lparr>mg_Controllers := mg_Controllers mgr @ [controllerring_AddToManager pl no_deps, sharder, shardlease_AddToManager pl c no_deps]\<rparr>"
proof -
  obtain m1 where 1: "add_controller env (controllerring_AddToManager pl no_deps) mgr = Inr m1"
    using assms by (cases "add_controller env (controllerring_AddToManager pl no_deps) mgr") (simp_all add: controllers_AddToManager_def)
  obtain sharder where sh: "sharder_AddToManager pl config no_deps = Some (sharder :: 'a controller_setup)"
    using assms 1 by (cases "sharder_AddToManager pl config no_deps :: 'a controller_setup option") (simp_all add: controllers_AddToManager_def)
  obtain m2 where 2: "add_controller env sharder m1 = Inr m2"
    using assms 1 sh by (cases "add_controller env sharder m1") (simp_all add: controllers_AddToManager_def)
  have 3: "add_controller env (shardlease_AddToManager pl c no_deps) m2 = Inr mgr'"
    using assms 1 sh 2 by (cases "add_controller env (shardlease_AddToManager pl c no_deps) m2") (simp_all add: controllers_AddToManager_def)
  show thesis using that [OF sh] 1 2 3 by (simp add: add_controller_Inr)
qed

lemma add_exporter_Inr:
  "add_exporter env what e mgr = Inr mgr' \<Longrightarrow> mgr' = mgr\<lparr>mg_Exporters := mg_Exporters mgr @ [e_Subsystem e]\<rparr>"
  by (simp add: add_exporter_def split: option.splits)

lemma register_collectors_Inr:
  "register_collectors env cs mgr = Inr mgr' \<Longrightarrow> mgr' = mgr\<lparr>mg_Collectors := mg_Collectors mgr @ cs\<rparr>"
  by (induction env cs mgr rule: register_collectors.induct) (auto split: option.splits)

lemma metrics_added:
  assumes "metrics_AddToManager env mgr = Inr mgr'"
  shows "mg_Controllers mgr' = mg_Controllers mgr" "mg_Webhooks mgr' = mg_Webhooks mgr" "mg_Readyz mgr' = mg_Readyz mgr"
    "mg_Collectors mgr' = mg_Collectors mgr @ [AssignmentsTotal, MovementsTotal, DrainsTotal, RingCalculationsTotal]"
    "mg_Exporters mgr' = mg_Exporters mgr @ [e_Subsystem ControllerRingExporter, e_Subsystem ShardExporter]"
proof -
  obtain m1 where 1: "add_exporter env ''ControllerRing'' ControllerRingExporter mgr = Inr m1"
    using assms by (cases "add_exporter env ''ControllerRing'' ControllerRingExporter mgr") (simp_all add: metrics_AddToManager_def)
  obtain m2 where 2: "add_exporter env ''shard'' ShardExporter m1 = Inr m2"
    using assms 1 by (cases "add_exporter env ''shard'' ShardExporter m1") (simp_all add: metrics_AddToManager_def)
  have 3: "register_collectors env [AssignmentsTotal, MovementsTotal, DrainsTotal, RingCalculationsTotal] m2 = Inr mgr'"
    using assms 1 2 by (simp add: metrics_AddToManager_def)
  show "mg_Controllers mgr' = mg_Controllers mgr" "mg_Webhooks mgr' = mg_Webhooks mgr" "mg_Readyz mgr' = mg_Readyz mgr"
    "mg_Collectors mgr' = mg_Collectors mgr @ [AssignmentsTotal, MovementsTotal, DrainsTotal, RingCalculationsTotal]"
    "mg_Exporters mgr' = mg_Exporters mgr @ [e_Subsystem ControllerRingExporter, e_Subsystem ShardExporter]"
    using register_collectors_Inr [OF 3] add_exporter_Inr [OF 1] add_exporter_Inr [OF 2] by simp_all
qed

text \<open>A manager that is started has all controllers, the webhook, the checks and the metrics.\<close>

lemma app_run_Inr:
  assumes "app_run env pl c config = Some (Inr mgr)"
  obtains sharder where "sharder_AddToManager pl config no_deps = Some sharder"
    "mg_Controllers mgr = [controllerring_AddToManager pl no_deps, sharder, shardlease_AddToManager pl c no_deps]"
    "mg_Webhooks mgr = [webhookPathPrefix]" "mg_Readyz mgr = [''cache-sync'']"
    "mg_Exporters mgr = [e_Subsystem ControllerRingExporter, e_Subsystem ShardExporter]"
    "mg_Collectors mgr = [AssignmentsTotal, MovementsTotal, DrainsTotal, RingCalculationsTotal]"
proof -
  let ?m0 = "empty_manager\<lparr>mg_Healthz := [''ping''], mg_Readyz := [''cache-sync'']\<rparr>"
  have ok: "su_New env = None" "su_AddHealthz env ''ping'' = None" "su_AddReadyz env ''cache-sync'' = None"
    using assms by (cases "su_New env"; cases "su_AddHealthz env ''ping''"; cases "su_AddReadyz env ''cache-sync''"; simp add: app_run_def)+
  obtain m1 where 1: "controllers_AddToManager env pl c config ?m0 = Some (Inr m1)"
    using assms ok by (simp add: app_run_def split: option.splits sum.splits)
  define m2 where "m2 = m1\<lparr>mg_Webhooks := mg_Webhooks m1 @ [webhookPathPrefix]\<rparr>"
  have 2: "webhooks_AddToManager m1 = Inr m2" by (simp add: webhooks_AddToManager_def webhook_AddToManager_def m2_def Let_def)
  have 3: "metrics_AddToManager env m2 = Inr mgr"
    using assms ok 1 2 by (simp add: app_run_def split: sum.splits)
  obtain sharder where sh: "sharder_AddToManager pl config no_deps = Some sharder"
    "m1 = ?m0\<lparr>mg_Controllers := mg_Controllers ?m0 @ [controllerring_AddToManager pl no_deps, sharder, shardlease_AddToManager pl c no_deps]\<rparr>"
    by (rule controllers_added [OF 1])
  show thesis by (rule that [OF sh(1)]) (simp_all add: metrics_added [OF 3] m2_def sh(2) empty_manager_def)
qed

lemma sharder_setup:
  assumes "sharder_AddToManager pl config r = Some (cs :: 'w controller_setup)"
  shows "cs_Name cs = ''sharder''"
    "cs_Watches cs = [\<lparr>wa_Kind = KindRing, wa_Handler = ForObjectItself, wa_Predicate = \<lambda>now. ControllerRingCreatedOrUpdated pl\<rparr>,
       \<lparr>wa_Kind = KindLease, wa_Handler = FromMapFunc (\<lambda>w. MapLeaseToControllerRing), wa_Predicate = sharder_LeasePredicate pl\<rparr>]"
  using assms by (auto simp: sharder_AddToManager_def Let_def split: option.splits)

lemma lease_requests: "MapLeaseToControllerRing (OLease l) = (if ring_of_lease l = [] then [] else [([], ring_of_lease l)])"
  by (simp add: MapLeaseToControllerRing_def ring_of_lease_def Let_def)

lemma sharder_delivery:
  assumes "sharder_AddToManager pl config r = Some cs" and "object_kind (event_object e) = Some KindLease"
  shows "deliver w now e cs = (if sharder_LeasePredicate pl now e then concat (map MapLeaseToControllerRing (mapped_objects e)) else [])"
  using assms(2) by (simp add: deliver_def deliver_watch_def sharder_setup [OF assms(1)])

section \<open>Properties\<close>

text \<open>In a sharder that was started, changes of the membership trigger a resync: the sharder controller gets
  a request for the ring of a shard lease, named as its reconciler expects it, when the lease is created or
  deleted while it is held and when an update gains or loses the holder; an update that leaves the holding as
  it is, e.g. a renewal, triggers nothing.\<close>

theorem membership_change_triggers_resync:
  assumes "app_run env pl c config = Some (Inr mgr)" and "predicates_doc pl" and "ring_of_lease l \<noteq> []" and "ring_of_lease l' = ring_of_lease l"
  shows "\<exists>cs. controller_named ''sharder'' mgr = Some cs \<and>
    set (deliver w now (CreateEvent (OLease l)) cs) = (if held l then {([], ring_of_lease l)} else {}) \<and>
    set (deliver w now (DeleteEvent (OLease l) unknown) cs) = (if held l \<or> unknown then {([], ring_of_lease l)} else {}) \<and>
    set (deliver w now (UpdateEvent (OLease l) (OLease l')) cs) = (if held l \<noteq> held l' then {([], ring_of_lease l)} else {})"
proof -
  obtain sharder where sh: "sharder_AddToManager pl config no_deps = Some sharder"
    "mg_Controllers mgr = [controllerring_AddToManager pl no_deps, sharder, shardlease_AddToManager pl c no_deps]"
    by (rule app_run_Inr [OF assms(1)])
  have "cs_Name (controllerring_AddToManager pl no_deps :: 'a controller_setup) \<noteq> ''sharder''"
    by (simp add: controllerring_AddToManager_def Let_def)
  then have named: "controller_named ''sharder'' mgr = Some sharder" by (simp add: controller_named_def sh(2) sharder_setup(1) [OF sh(1)])
  have "sharder_LeasePredicate pl now (CreateEvent (OLease l)) \<longleftrightarrow> held l"
    "sharder_LeasePredicate pl now (DeleteEvent (OLease l) unknown) \<longleftrightarrow> unknown \<or> held l"
    "sharder_LeasePredicate pl now (UpdateEvent (OLease l) (OLease l')) \<longleftrightarrow> held l \<noteq> held l'"
    using assms(3,4) by (auto simp: pred_defs predicates_docD [OF assms(2)])
  then show ?thesis
    using assms(3,4) by (intro exI [of _ sharder]) (simp add: named sharder_delivery [OF sh(1)] lease_requests)
qed

definition sample_setup_env :: setup_env where
  "sample_setup_env = \<lparr>su_New = None, su_AddHealthz = \<lambda>_. None, su_AddReadyz = \<lambda>_. None, su_Complete = \<lambda>_. None,
     su_AddExporter = \<lambda>_. None, su_Register = \<lambda>_. None\<rparr>"

text \<open>With a defaulted configuration and an environment in which nothing fails, the sharder starts.\<close>

lemma defaulted_sharder_starts:
  "\<exists>mgr. app_run sample_setup_env pl (c :: 'w client) (SetObjectDefaults_SharderConfig cl config) = Some (Inr mgr)"
proof -
  let ?sc = "SetDefaults_SharderController (case ctl_Sharder (c_Controller config) of None \<Rightarrow> \<lparr>sc_SyncPeriod = None, sc_ConcurrentMoves = None\<rparr> | Some x \<Rightarrow> x)"
  have "\<exists>p. sc_SyncPeriod ?sc = Some p" by (simp add: SetDefaults_SharderController_def Let_def)
  then obtain p where p: "sc_SyncPeriod ?sc = Some p" ..
  have "ctl_Sharder (c_Controller (SetObjectDefaults_SharderConfig cl config)) = Some ?sc" by (simp add: default_fields)
  then obtain sharder where "sharder_AddToManager pl (SetObjectDefaults_SharderConfig cl config) no_deps = Some (sharder :: 'w controller_setup)"
    by (simp add: sharder_AddToManager_def p Let_def)
  then show ?thesis
    by (simp add: app_run_def controllers_AddToManager_def add_controller_def webhooks_AddToManager_def webhook_AddToManager_def
        metrics_AddToManager_def add_exporter_def sample_setup_env_def Let_def)
qed

lemma membership_change_triggers_resync_witness:
  "\<exists>mgr cs. app_run sample_setup_env std_pred_lib store_client (SetObjectDefaults_SharderConfig std_config_lib zero_config) = Some (Inr mgr) \<and>
     controller_named ''sharder'' mgr = Some cs \<and> (\<forall>w. set (deliver w 0 (CreateEvent (OLease (sample_ring_lease ''s1''))) cs) = {([], ''ring'')})"
proof -
  obtain mgr where mgr: "app_run sample_setup_env std_pred_lib store_client (SetObjectDefaults_SharderConfig std_config_lib zero_config) = Some (Inr mgr)"
    using defaulted_sharder_starts [of std_pred_lib store_client std_config_lib zero_config] by (elim exE)
  have l: "ring_of_lease (sample_ring_lease ''s1'') = ''ring''" "held (sample_ring_lease ''s1'')"
    by (simp_all add: sample_ring_lease_def ring_of_lease_def map_get_def sample_lease_simps)
  then have "ring_of_lease (sample_ring_lease ''s1'') \<noteq> []" by simp
  from membership_change_triggers_resync [OF mgr std_pred_lib_doc this refl, of _ 0 False]
  have "\<exists>cs. controller_named ''sharder'' mgr = Some cs \<and> set (deliver w 0 (CreateEvent (OLease (sample_ring_lease ''s1''))) cs) = {([], ''ring'')}" for w
    unfolding l(1) if_P [OF l(2)] by blast
  then show ?thesis using mgr by (intro exI [of _ mgr]) (metis option.inject)
qed

end
