(* ===== verification/Go_Heap.thy ===== *)
theory Go_Heap
  imports Prelude "HOL-Library.AList" "HOL-Library.Monad_Syntax"
begin

text \<open>
  Memory with pointers. Everywhere else objects are values; this theory has the part of Go's memory model that
  generated deep copy functions are about: a heap of typed cells, pointers, slices and maps as references into
  it, and the copy operations on them. The interface \<open>copier\<close> says what a deep copy function promises; it is
  closed under pointers, slices, maps and structs.
\<close>

section \<open>Cells and references\<close>

type_synonym addr = nat
type_synonym 'c heap = "'c list"

text \<open>How values of one Go type are kept in a cell. Reading a cell as another type is not possible in Go.\<close>

record ('c, 'v) slot =
  mk :: "'v \<Rightarrow> 'c"
  un :: "'c \<Rightarrow> 'v option"

definition load :: "('c, 'v) slot \<Rightarrow> 'c heap \<Rightarrow> addr \<Rightarrow> 'v option" where
  "load k s a = (if a < length s then un k (s ! a) else None)"

definition new :: "('c, 'v) slot \<Rightarrow> 'v \<Rightarrow> 'c heap \<Rightarrow> addr \<times> 'c heap" where
  "new k v s = (length s, s @ [mk k v])"

definition store :: "('c, 'v) slot \<Rightarrow> addr \<Rightarrow> 'v \<Rightarrow> 'c heap \<Rightarrow> 'c heap" where
  "store k a v s = s[a := mk k v]"

text \<open>A slice refers to a part of a backing array.\<close>

record slice =
  sl_Array :: addr
  sl_Off :: nat
  sl_Len :: nat

definition elems :: "slice \<Rightarrow> 'a list \<Rightarrow> 'a list" where
  "elems sl xs = take (sl_Len sl) (drop (sl_Off sl) xs)"

section \<open>Copy operations\<close>

type_synonym ('h, 'c) copy_fun = "'h \<Rightarrow> 'c heap \<Rightarrow> ('h \<times> 'c heap) option"

text \<open>Assignment of a value without references, \<^verbatim>\<open>*out = *in\<close>.\<close>

definition copy_value :: "('h, 'c) copy_fun" where
  "copy_value v s = Some (v, s)"

text \<open>A reference that may be nil, \<^verbatim>\<open>if in.F != nil { ... }\<close>: a nil reference stays nil.\<close>

definition copy_nonnil :: "('r, 'c) copy_fun \<Rightarrow> ('r option, 'c) copy_fun" where
  "copy_nonnil copy p s =
     (case p of None \<Rightarrow> Some (None, s) | Some a \<Rightarrow> do { (a', s) \<leftarrow> copy a s; Some (Some a', s) })"

text \<open>
  \<^verbatim>\<open>*out = new(T); (*in).DeepCopyInto(*out)\<close>: the new cell first gets the shallow copy that
  every \<^verbatim>\<open>DeepCopyInto\<close> starts with. A dereference of a dangling pointer does not return.
\<close>

definition copy_ref :: "('c, 'h) slot \<Rightarrow> ('h, 'c) copy_fun \<Rightarrow> (addr, 'c) copy_fun" where
  "copy_ref k copy a s = do {
     v \<leftarrow> load k s a;
     let (a', s) = new k v s;
     (v', s) \<leftarrow> copy v s;
     Some (a', store k a' v' s)
   }"

definition copy_ptr :: "('c, 'h) slot \<Rightarrow> ('h, 'c) copy_fun \<Rightarrow> (addr option, 'c) copy_fun" where
  "copy_ptr k copy = copy_nonnil (copy_ref k copy)"

text \<open>\<^verbatim>\<open>*out = make([]T, len(*in))\<close> and a loop over the indices.\<close>

definition load_elem :: "('c, 'h list) slot \<Rightarrow> 'c heap \<Rightarrow> addr \<Rightarrow> nat \<Rightarrow> 'h option" where
  "load_elem k s a i = do { xs \<leftarrow> load k s a; if i < length xs then Some (xs ! i) else None }"

definition store_elem :: "('c, 'h list) slot \<Rightarrow> addr \<Rightarrow> nat \<Rightarrow> 'h \<Rightarrow> 'c heap \<Rightarrow> 'c heap option" where
  "store_elem k a i v s = do { xs \<leftarrow> load k s a; if i < length xs then Some (store k a (xs[i := v]) s) else None }"

fun copy_elems :: "('c, 'h list) slot \<Rightarrow> ('h, 'c) copy_fun \<Rightarrow> slice \<Rightarrow> addr \<Rightarrow> nat \<Rightarrow> nat \<Rightarrow> 'c heap \<Rightarrow> 'c heap option" where
  "copy_elems k copy src dst i 0 s = Some s"
| "copy_elems k copy src dst i (Suc n) s = do {
     x \<leftarrow> load_elem k s (sl_Array src) (sl_Off src + i);
     (x', s) \<leftarrow> copy x s;
     s \<leftarrow> store_elem k dst i x' s;
     copy_elems k copy src dst (Suc i) n s
   }"

definition copy_array :: "('c, 'h list) slot \<Rightarrow> 'h \<Rightarrow> ('h, 'c) copy_fun \<Rightarrow> (slice, 'c) copy_fun" where
  "copy_array k zero copy src s = do {
     let (a', s) = new k (replicate (sl_Len src) zero) s;
     s \<leftarrow> copy_elems k copy src a' 0 (sl_Len src) s;
     Some (\<lparr>sl_Array = a', sl_Off = 0, sl_Len = sl_Len src\<rparr>, s)
   }"

definition copy_slice :: "('c, 'h list) slot \<Rightarrow> 'h \<Rightarrow> ('h, 'c) copy_fun \<Rightarrow> (slice option, 'c) copy_fun" where
  "copy_slice k zero copy = copy_nonnil (copy_array k zero copy)"

text \<open>\<^verbatim>\<open>*out = make(map[string]string, len(*in))\<close> and a loop over the entries, which a map has in any order.\<close>

type_synonym entries = "(string \<times> string) list"

fun copy_entries :: "('c, entries) slot \<Rightarrow> addr \<Rightarrow> entries \<Rightarrow> 'c heap \<Rightarrow> 'c heap option" where
  "copy_entries k dst [] s = Some s"
| "copy_entries k dst ((key, val) # es) s = do {
     m \<leftarrow> load k s dst;
     copy_entries k dst es (store k dst (AList.update key val m) s)
   }"

definition copy_table :: "('c, entries) slot \<Rightarrow> (addr, 'c) copy_fun" where
  "copy_table k a s = do {
     m \<leftarrow> load k s a;
     let (a', s) = new k [] s;
     s \<leftarrow> copy_entries k a' m s;
     Some (a', s)
   }"

definition copy_map :: "('c, entries) slot \<Rightarrow> (addr option, 'c) copy_fun" where
  "copy_map k = copy_nonnil (copy_table k)"

text \<open>Two fields of a struct, one after the other.\<close>

definition copy_pair :: "('g, 'c) copy_fun \<Rightarrow> ('h, 'c) copy_fun \<Rightarrow> ('g \<times> 'h, 'c) copy_fun" where
  "copy_pair c1 c2 p s = do {
     (x, s) \<leftarrow> c1 (fst p) s;
     (y, s) \<leftarrow> c2 (snd p) s;
     Some ((x, y), s)
   }"

section \<open>What a piece of memory means\<close>

text \<open>
  The value that a representation denotes, \<open>None\<close> for a representation that does not exist in a typed memory
  (dangling or ill-typed pointers), and the addresses through which it does.
\<close>

type_synonym ('h, 'c, 'v) den_fun = "'c heap \<Rightarrow> 'h \<Rightarrow> 'v option"
type_synonym ('h, 'c) addrs_fun = "'c heap \<Rightarrow> 'h \<Rightarrow> addr set"

definition den_value :: "('h, 'c, 'h) den_fun" where "den_value s v = Some v"
definition addrs_value :: "('h, 'c) addrs_fun" where "addrs_value s v = {}"

definition den_nonnil :: "('r, 'c, 'v) den_fun \<Rightarrow> ('r option, 'c, 'v option) den_fun" where
  "den_nonnil d s p = (case p of None \<Rightarrow> Some None | Some a \<Rightarrow> map_option Some (d s a))"

definition addrs_nonnil :: "('r, 'c) addrs_fun \<Rightarrow> ('r option, 'c) addrs_fun" where
  "addrs_nonnil ad s p = (case p of None \<Rightarrow> {} | Some a \<Rightarrow> ad s a)"

definition den_ref :: "('c, 'h) slot \<Rightarrow> ('h, 'c, 'v) den_fun \<Rightarrow> (addr, 'c, 'v) den_fun" where
  "den_ref k d s a = do { h \<leftarrow> load k s a; d s h }"

definition addrs_ref :: "('c, 'h) slot \<Rightarrow> ('h, 'c) addrs_fun \<Rightarrow> (addr, 'c) addrs_fun" where
  "addrs_ref k ad s a = insert a (case load k s a of None \<Rightarrow> {} | Some h \<Rightarrow> ad s h)"

definition den_ptr :: "('c, 'h) slot \<Rightarrow> ('h, 'c, 'v) den_fun \<Rightarrow> (addr option, 'c, 'v option) den_fun" where
  "den_ptr k d = den_nonnil (den_ref k d)"

definition addrs_ptr :: "('c, 'h) slot \<Rightarrow> ('h, 'c) addrs_fun \<Rightarrow> (addr option, 'c) addrs_fun" where
  "addrs_ptr k ad = addrs_nonnil (addrs_ref k ad)"

definition den_array :: "('c, 'h list) slot \<Rightarrow> ('h, 'c, 'v) den_fun \<Rightarrow> (slice, 'c, 'v list) den_fun" where
  "den_array k d s sl = do {
     xs \<leftarrow> load k s (sl_Array sl);
     if sl_Off sl + sl_Len sl \<le> length xs then those (map (d s) (elems sl xs)) else None
   }"

definition addrs_array :: "('c, 'h list) slot \<Rightarrow> ('h, 'c) addrs_fun \<Rightarrow> (slice, 'c) addrs_fun" where
  "addrs_array k ad s sl = insert (sl_Array sl)
     (case load k s (sl_Array sl) of None \<Rightarrow> {} | Some xs \<Rightarrow> \<Union> (ad s ` set (elems sl xs)))"

definition den_slice :: "('c, 'h list) slot \<Rightarrow> ('h, 'c, 'v) den_fun \<Rightarrow> (slice option, 'c, 'v list option) den_fun" where
  "den_slice k d = den_nonnil (den_array k d)"

definition addrs_slice :: "('c, 'h list) slot \<Rightarrow> ('h, 'c) addrs_fun \<Rightarrow> (slice option, 'c) addrs_fun" where
  "addrs_slice k ad = addrs_nonnil (addrs_array k ad)"

definition den_table :: "('c, entries) slot \<Rightarrow> (addr, 'c, entries) den_fun" where
  "den_table k s a = do { m \<leftarrow> load k s a; if distinct (map fst m) then Some m else None }"

definition addrs_table :: "(addr, 'c) addrs_fun" where "addrs_table s a = {a}"

definition den_map :: "('c, entries) slot \<Rightarrow> (addr option, 'c, entries option) den_fun" where
  "den_map k = den_nonnil (den_table k)"

definition addrs_map :: "('c, entries) slot \<Rightarrow> (addr option, 'c) addrs_fun" where
  "addrs_map k = addrs_nonnil addrs_table"

definition den_pair :: "('g, 'c, 'u) den_fun \<Rightarrow> ('h, 'c, 'v) den_fun \<Rightarrow> ('g \<times> 'h, 'c, 'u \<times> 'v) den_fun" where
  "den_pair d1 d2 s p = do { x \<leftarrow> d1 s (fst p); y \<leftarrow> d2 s (snd p); Some (x, y) }"

definition addrs_pair :: "('g, 'c) addrs_fun \<Rightarrow> ('h, 'c) addrs_fun \<Rightarrow> ('g \<times> 'h, 'c) addrs_fun" where
  "addrs_pair a1 a2 s p = a1 s (fst p) \<union> a2 s (snd p)"

section \<open>The contract of a deep copy\<close>

text \<open>The part \<open>A\<close> of the memory \<open>s\<close> is unchanged in \<open>s'\<close>.\<close>

definition same_on :: "addr set \<Rightarrow> 'c heap \<Rightarrow> 'c heap \<Rightarrow> bool" where
  "same_on A s s' \<longleftrightarrow> (\<forall>a\<in>A. a < length s' \<and> s' ! a = s ! a)"

lemma same_on_append: "A \<subseteq> {..<length s} \<Longrightarrow> same_on A s (s @ t)"
  by (auto simp: same_on_def nth_append)

lemma same_on_Un [simp]: "same_on (A \<union> B) s s' \<longleftrightarrow> same_on A s s' \<and> same_on B s s'"
  by (auto simp: same_on_def)

lemma same_on_insert [simp]: "same_on (insert a A) s s' \<longleftrightarrow> a < length s' \<and> s' ! a = s ! a \<and> same_on A s s'"
  by (auto simp: same_on_def)

lemma same_on_hole: "A \<subseteq> {Suc (length s)..<Suc (length s) + length t} \<Longrightarrow> same_on A (s @ [c] @ t) (s @ [c'] @ t @ u)"
proof (unfold same_on_def, rule ballI)
  fix a
  assume A: "A \<subseteq> {Suc (length s)..<Suc (length s) + length t}" "a \<in> A"
  then obtain i where "a = Suc (length s) + i" "i < length t"
    by (metis add_less_cancel_left atLeastLessThan_iff le_Suc_ex subsetD)
  then show "a < length (s @ [c'] @ t @ u) \<and> (s @ [c'] @ t @ u) ! a = (s @ [c] @ t) ! a"
    by (simp add: nth_append)
qed

lemma same_on_mono: "same_on B s s' \<Longrightarrow> A \<subseteq> B \<Longrightarrow> same_on A s s'"
  by (auto simp: same_on_def)

locale copier =
  fixes copy :: "('h, 'c) copy_fun" and den :: "('h, 'c, 'v) den_fun" and addrs :: "('h, 'c) addrs_fun"
  assumes inside: "den s h = Some v \<Longrightarrow> addrs s h \<subseteq> {..<length s}"
    and frame: "den s h = Some v \<Longrightarrow> same_on (addrs s h) s s' \<Longrightarrow> den s' h = Some v \<and> addrs s' h = addrs s h"
    and copies: "den s h = Some v \<Longrightarrow> \<exists>h' t. copy h s = Some (h', s @ t) \<and> den (s @ t) h' = Some v \<and>
      addrs (s @ t) h' \<subseteq> {length s..<length (s @ t)}"
begin

lemma extend: "den s h = Some v \<Longrightarrow> den (s @ t) h = Some v \<and> addrs (s @ t) h = addrs s h"
  using frame [of s h v "s @ t"] same_on_append [OF inside] by blast

text \<open>
  A copy denotes the same value and existing cells are not changed. Whatever is written afterwards to cells that
  existed before leaves the copy alone, and whatever is written to new cells leaves the original alone.
\<close>

lemma isolated:
  assumes "den s h = Some v"
  shows "\<exists>h' t. copy h s = Some (h', s @ t) \<and> den (s @ t) h' = Some v \<and>
    (\<forall>s'. same_on {length s..<length (s @ t)} (s @ t) s' \<longrightarrow> den s' h' = Some v) \<and>
    (\<forall>s'. same_on {..<length s} (s @ t) s' \<longrightarrow> den s' h = Some v)"
proof -
  obtain h' t where c: "copy h s = Some (h', s @ t)" "den (s @ t) h' = Some v" "addrs (s @ t) h' \<subseteq> {length s..<length (s @ t)}"
    using copies [OF assms] by (elim exE conjE)
  have e: "den (s @ t) h = Some v" "addrs (s @ t) h \<subseteq> {..<length s}" using extend [OF assms, of t] inside [OF assms] by auto
  have "den s' h' = Some v" if "same_on {length s..<length (s @ t)} (s @ t) s'" for s'
    using frame [OF c(2) same_on_mono [OF that c(3)]] by (rule conjunct1)
  moreover have "den s' h = Some v" if "same_on {..<length s} (s @ t) s'" for s'
    using frame [OF e(1) same_on_mono [OF that e(2)]] by (rule conjunct1)
  ultimately show ?thesis using c(1,2) by blast
qed

end

section \<open>Closure properties\<close>

definition slot_ok :: "('c, 'v) slot \<Rightarrow> bool" where
  "slot_ok k \<longleftrightarrow> (\<forall>v. un k (mk k v) = Some v)"

lemma load_new [simp]: "slot_ok k \<Longrightarrow> load k (s @ mk k v # t) (length s) = Some v"
  by (simp add: load_def slot_ok_def)

lemma load_same: "load k s a = Some v \<Longrightarrow> a < length s' \<Longrightarrow> s' ! a = s ! a \<Longrightarrow> load k s' a = Some v"
  by (simp add: load_def split: if_splits)

lemma load_inside: "load k s a = Some v \<Longrightarrow> a < length s"
  by (simp add: load_def split: if_splits)

lemma load_append: "load k s a = Some v \<Longrightarrow> load k (s @ t) a = Some v"
  by (rule load_same) (auto dest: load_inside simp: nth_append)

lemma store_new [simp]: "store k (length s) v (s @ c # t) = s @ mk k v # t"
  by (simp add: store_def)

lemma those_nth: "those (map f xs) = Some ws \<longleftrightarrow> length ws = length xs \<and> (\<forall>j<length xs. f (xs ! j) = Some (ws ! j))"
proof (induction xs arbitrary: ws)
  case (Cons x xs)
  show ?case
    by (cases ws) (auto simp: Cons.IH All_less_Suc2 split: option.splits)
qed auto

interpretation value_copier: copier copy_value den_value addrs_value
  by unfold_locales (simp_all add: copy_value_def den_value_def addrs_value_def)

lemma nonnil:
  assumes "copier copy den addrs"
  shows "copier (copy_nonnil copy) (den_nonnil den) (addrs_nonnil addrs)"
proof
  fix s p v
  assume den: "den_nonnil den s p = Some v"
  show "addrs_nonnil addrs s p \<subseteq> {..<length s}"
    using copier.inside [OF assms] den by (auto simp: addrs_nonnil_def den_nonnil_def split: option.splits)
  show "den_nonnil den s' p = Some v \<and> addrs_nonnil addrs s' p = addrs_nonnil addrs s p" if "same_on (addrs_nonnil addrs s p) s s'" for s'
    using copier.frame [OF assms, of s _ _ s'] den that by (cases p) (auto simp: addrs_nonnil_def den_nonnil_def)
  show "\<exists>p' t. copy_nonnil copy p s = Some (p', s @ t) \<and> den_nonnil den (s @ t) p' = Some v \<and> addrs_nonnil addrs (s @ t) p' \<subseteq> {length s..<length (s @ t)}"
  proof (cases p)
    case None
    then show ?thesis using den by (simp add: copy_nonnil_def den_nonnil_def addrs_nonnil_def)
  next
    case (Some a)
    then obtain w where w: "den s a = Some w" "v = Some w" using den by (auto simp: den_nonnil_def)
    obtain a' t where "copy a s = Some (a', s @ t)" "den (s @ t) a' = Some w" "addrs (s @ t) a' \<subseteq> {length s..<length (s @ t)}"
      using copier.copies [OF assms w(1)] by (elim exE conjE)
    then show ?thesis
      using Some w(2) by (intro exI [of _ "Some a'"] exI [of _ t]) (simp add: copy_nonnil_def den_nonnil_def addrs_nonnil_def)
  qed
qed

context copier
begin

lemma ref:
  assumes k: "slot_ok k"
  shows "copier (copy_ref k copy) (den_ref k den) (addrs_ref k addrs)"
proof
  fix s a v
  assume "den_ref k den s a = Some v"
  then obtain h where h: "load k s a = Some h" "den s h = Some v" by (auto simp: den_ref_def bind_eq_Some_conv)
  show "addrs_ref k addrs s a \<subseteq> {..<length s}" using load_inside [OF h(1)] inside [OF h(2)] h(1) by (simp add: addrs_ref_def)
  show "den_ref k den s' a = Some v \<and> addrs_ref k addrs s' a = addrs_ref k addrs s a" if s': "same_on (addrs_ref k addrs s a) s s'" for s'
  proof -
    have "load k s' a = Some h" "same_on (addrs s h) s s'"
      using s' h(1) load_same [OF h(1), of s'] by (simp_all add: addrs_ref_def)
    then show ?thesis using frame [OF h(2), of s'] h(1) by (simp add: den_ref_def addrs_ref_def)
  qed
  let ?s1 = "s @ [mk k h]"
  obtain h' t where c: "copy h ?s1 = Some (h', ?s1 @ t)" "den (?s1 @ t) h' = Some v" "addrs (?s1 @ t) h' \<subseteq> {length ?s1..<length (?s1 @ t)}"
    using copies [OF conjunct1 [OF extend [OF h(2), of "[mk k h]"]]] by (elim exE conjE)
  have "same_on (addrs (?s1 @ t) h') (?s1 @ t) (s @ mk k h' # t)"
    using same_on_hole [of "addrs (?s1 @ t) h'" s t "mk k h" "mk k h'" "[]"] c(3) by simp
  then have "den (s @ mk k h' # t) h' = Some v" "addrs (s @ mk k h' # t) h' = addrs (?s1 @ t) h'" using frame [OF c(2)] by blast+
  moreover have "copy_ref k copy a s = Some (length s, s @ mk k h' # t)"
    using c(1) h(1) by (simp add: copy_ref_def new_def)
  ultimately show "\<exists>a' t. copy_ref k copy a s = Some (a', s @ t) \<and> den_ref k den (s @ t) a' = Some v \<and> addrs_ref k addrs (s @ t) a' \<subseteq> {length s..<length (s @ t)}"
    using c(3) k by (intro exI [of _ "length s"] exI [of _ "mk k h' # t"]) (auto simp: den_ref_def addrs_ref_def)
qed

lemma ptr: "slot_ok k \<Longrightarrow> copier (copy_ptr k copy) (den_ptr k den) (addrs_ptr k addrs)"
  unfolding copy_ptr_def den_ptr_def addrs_ptr_def by (intro nonnil ref)

text \<open>Slices: the elements that were copied so far denote what the source elements denote, in fresh cells.\<close>

definition copied :: "'c heap \<Rightarrow> 'v list \<Rightarrow> 'h list \<Rightarrow> 'c heap \<Rightarrow> bool" where
  "copied s ws ys t \<longleftrightarrow> (\<forall>c. \<forall>j<length ys. den (s @ [c] @ t) (ys ! j) = Some (ws ! j) \<and>
     addrs (s @ [c] @ t) (ys ! j) \<subseteq> {Suc (length s)..<Suc (length s) + length t})"

lemma copied_extend: "copied s ws ys t \<Longrightarrow> j < length ys \<Longrightarrow>
  den (s @ [c] @ t @ u) (ys ! j) = Some (ws ! j) \<and> addrs (s @ [c] @ t @ u) (ys ! j) \<subseteq> {Suc (length s)..<Suc (length s) + length t}"
  using extend [of "s @ [c] @ t" "ys ! j" "ws ! j" u] by (simp add: copied_def)

lemma copied_snoc:
  assumes "copied s ws ys t" and "den (s @ [c] @ t @ u) y = Some (ws ! length ys)"
    and "addrs (s @ [c] @ t @ u) y \<subseteq> {Suc (length s) + length t..<Suc (length s) + length (t @ u)}"
  shows "copied s ws (ys @ [y]) (t @ u)"
proof (unfold copied_def, intro allI impI)
  fix c' j
  assume j: "j < length (ys @ [y])"
  have "addrs (s @ [c] @ t @ u) y \<subseteq> {Suc (length s)..<Suc (length s) + length (t @ u)}" using assms(3) by fastforce
  then have y: "den (s @ [c'] @ t @ u) y = Some (ws ! length ys) \<and> addrs (s @ [c'] @ t @ u) y \<subseteq> {Suc (length s)..<Suc (length s) + length (t @ u)}"
    using frame [OF assms(2), of "s @ [c'] @ t @ u"] same_on_hole [of "addrs (s @ [c] @ t @ u) y" s "t @ u" c c' "[]"] by simp
  show "den (s @ [c'] @ t @ u) ((ys @ [y]) ! j) = Some (ws ! j) \<and>
      addrs (s @ [c'] @ t @ u) ((ys @ [y]) ! j) \<subseteq> {Suc (length s)..<Suc (length s) + length (t @ u)}"
  proof (cases "j < length ys")
    case True
    then show ?thesis using copied_extend [OF assms(1) True, of c' u] by (auto simp: nth_append)
  next
    case False
    then have "j = length ys" using j by simp
    then show ?thesis using y by simp
  qed
qed

lemma copy_elems_loop:
  assumes k: "slot_ok k" and xs: "load k s (sl_Array src) = Some xs" "sl_Off src + length ws \<le> length xs"
    and ws: "\<And>j. j < length ws \<Longrightarrow> den s (xs ! (sl_Off src + j)) = Some (ws ! j)"
  shows "copied s ws ys t \<Longrightarrow> length ys + m = length ws \<Longrightarrow>
    \<exists>ys' t'. copy_elems k copy src (length s) (length ys) m (s @ [mk k (ys @ replicate m zero)] @ t) = Some (s @ [mk k ys'] @ t') \<and>
      length ys' = length ws \<and> copied s ws ys' t'"
proof (induction m arbitrary: ys t)
  case 0
  then show ?case by auto
next
  case (Suc m)
  let ?x = "xs ! (sl_Off src + length ys)" and ?arr = "ys @ replicate (Suc m) zero" and ?w = "ws ! length ys"
  let ?h = "s @ [mk k ?arr] @ t"
  have l: "load_elem k ?h (sl_Array src) (sl_Off src + length ys) = Some ?x"
    using load_append [OF xs(1), of "[mk k ?arr] @ t"] xs(2) Suc.prems(2) by (simp add: load_elem_def)
  have "den ?h ?x = Some ?w" using extend [OF ws [of "length ys"]] Suc.prems(2) by simp
  then obtain x' u where c: "copy ?x ?h = Some (x', ?h @ u)" "den (?h @ u) x' = Some ?w" "addrs (?h @ u) x' \<subseteq> {length ?h..<length (?h @ u)}"
    using copies by blast
  have st: "store_elem k (length s) (length ys) x' (?h @ u) = Some (s @ [mk k ((ys @ [x']) @ replicate m zero)] @ t @ u)"
    using k by (simp add: store_elem_def list_update_append)
  have "copied s ws (ys @ [x']) (t @ u)"
    using copied_snoc [OF Suc.prems(1), of "mk k ?arr" u x'] c(2,3) by simp
  from Suc.IH [OF this] Suc.prems(2) show ?case
    using l c(1) st by (simp del: replicate.simps)
qed

lemma array_frame:
  assumes "load k s (sl_Array sl) = Some xs" and "\<And>x. x \<in> set (elems sl xs) \<Longrightarrow> den s x \<noteq> None" and s': "same_on (addrs_array k addrs s sl) s s'"
  shows "den_array k den s' sl = den_array k den s sl \<and> addrs_array k addrs s' sl = addrs_array k addrs s sl"
proof -
  have l: "load k s' (sl_Array sl) = Some xs" using s' load_same [OF assms(1), of s'] by (simp add: addrs_array_def)
  have "den s' x = den s x \<and> addrs s' x = addrs s x" if x: "x \<in> set (elems sl xs)" for x
  proof -
    have "same_on (addrs s x) s s'" using s' assms(1) x by (auto simp: addrs_array_def same_on_def)
    then show ?thesis using assms(2) [OF x] frame [of s x _ s'] by auto
  qed
  then have m: "map (den s') (elems sl xs) = map (den s) (elems sl xs)" "addrs s' ` set (elems sl xs) = addrs s ` set (elems sl xs)"
    by (auto simp: image_def)
  show ?thesis using l assms(1) by (simp add: den_array_def addrs_array_def m)
qed

lemma array_copied:
  assumes k: "slot_ok k" and xs: "load k s (sl_Array sl) = Some xs" "sl_Off sl + sl_Len sl \<le> length xs"
    and ws: "those (map (den s) (elems sl xs)) = Some ws"
  shows "\<exists>sl' t. copy_array k zero copy sl s = Some (sl', s @ t) \<and> den_array k den (s @ t) sl' = Some ws \<and>
    addrs_array k addrs (s @ t) sl' \<subseteq> {length s..<length (s @ t)}"
proof -
  have len: "length (elems sl xs) = sl_Len sl" "length ws = sl_Len sl" using xs(2) ws by (simp_all add: elems_def those_nth)
  have src: "den s (xs ! (sl_Off sl + j)) = Some (ws ! j)" if "j < length ws" for j
    using xs(2) ws that len by (simp add: those_nth elems_def)
  have "copied s ws [] []" by (simp add: copied_def)
  from copy_elems_loop [OF k xs(1) _ src this, of "sl_Len sl" zero] len xs(2)
  obtain ys t where loop: "copy_elems k copy sl (length s) 0 (sl_Len sl) (s @ [mk k (replicate (sl_Len sl) zero)]) = Some (s @ [mk k ys] @ t)"
    "length ys = length ws" "copied s ws ys t" by auto
  let ?sl = "\<lparr>sl_Array = length s, sl_Off = 0, sl_Len = sl_Len sl\<rparr>" and ?h = "s @ [mk k ys] @ t"
  have ys: "elems ?sl ys = ys" using loop(2) len by (simp add: elems_def)
  have d: "den ?h (ys ! j) = Some (ws ! j)" "addrs ?h (ys ! j) \<subseteq> {Suc (length s)..<length ?h}" if "j < length ys" for j
    using loop(3) that by (simp_all add: copied_def)
  have "those (map (den ?h) ys) = Some ws" using d(1) loop(2) by (simp add: those_nth)
  then have "den_array k den ?h ?sl = Some ws" using k ys loop(2) len by (simp add: den_array_def)
  moreover have "addrs_array k addrs ?h ?sl \<subseteq> {length s..<length ?h}"
    using k ys d(2) by (fastforce simp: addrs_array_def in_set_conv_nth)
  moreover have "copy_array k zero copy sl s = Some (?sl, ?h)" using loop(1) by (simp add: copy_array_def new_def)
  ultimately show ?thesis by blast
qed

lemma array:
  assumes k: "slot_ok k"
  shows "copier (copy_array k zero copy) (den_array k den) (addrs_array k addrs)"
proof
  fix s sl ws
  assume den: "den_array k den s sl = Some ws"
  then obtain xs where xs: "load k s (sl_Array sl) = Some xs" "sl_Off sl + sl_Len sl \<le> length xs" "those (map (den s) (elems sl xs)) = Some ws"
    by (auto simp: den_array_def bind_eq_Some_conv split: if_splits)
  have el: "den s x \<noteq> None" if "x \<in> set (elems sl xs)" for x
    using xs(3) that by (auto simp: those_nth in_set_conv_nth)
  show "addrs_array k addrs s sl \<subseteq> {..<length s}"
    using load_inside [OF xs(1)] el inside xs(1) by (fastforce simp: addrs_array_def)
  show "den_array k den s' sl = Some ws \<and> addrs_array k addrs s' sl = addrs_array k addrs s sl" if "same_on (addrs_array k addrs s sl) s s'" for s'
    using array_frame [OF xs(1) el that] den by simp
  show "\<exists>sl' t. copy_array k zero copy sl s = Some (sl', s @ t) \<and> den_array k den (s @ t) sl' = Some ws \<and> addrs_array k addrs (s @ t) sl' \<subseteq> {length s..<length (s @ t)}"
    using array_copied [OF k xs] .
qed

lemma slice: "slot_ok k \<Longrightarrow> copier (copy_slice k zero copy) (den_slice k den) (addrs_slice k addrs)"
  unfolding copy_slice_def den_slice_def addrs_slice_def by (intro nonnil array)

text \<open>Two fields, and a struct whose fields with references are copied and whose other fields are values.\<close>

lemma pair:
  assumes "copier copy' den' addrs'"
  shows "copier (copy_pair copy copy') (den_pair den den') (addrs_pair addrs addrs')"
proof
  fix s p v
  assume "den_pair den den' s p = Some v"
  then obtain x y where v: "v = (x, y)" "den s (fst p) = Some x" "den' s (snd p) = Some y"
    by (auto simp: den_pair_def bind_eq_Some_conv)
  show "addrs_pair addrs addrs' s p \<subseteq> {..<length s}"
    using inside [OF v(2)] copier.inside [OF assms v(3)] by (simp add: addrs_pair_def)
  show "den_pair den den' s' p = Some v \<and> addrs_pair addrs addrs' s' p = addrs_pair addrs addrs' s p"
    if "same_on (addrs_pair addrs addrs' s p) s s'" for s'
    using that frame [OF v(2), of s'] copier.frame [OF assms v(3), of s'] v(1) by (simp add: addrs_pair_def den_pair_def)
  obtain h t where 1: "copy (fst p) s = Some (h, s @ t)" "den (s @ t) h = Some x" "addrs (s @ t) h \<subseteq> {length s..<length (s @ t)}"
    using copies [OF v(2)] by (elim exE conjE)
  obtain h' t' where 2: "copy' (snd p) (s @ t) = Some (h', (s @ t) @ t')" "den' ((s @ t) @ t') h' = Some y"
    "addrs' ((s @ t) @ t') h' \<subseteq> {length (s @ t)..<length ((s @ t) @ t')}"
    using copier.copies [OF assms conjunct1 [OF copier.extend [OF assms v(3), of t]]] by (elim exE conjE)
  have "den ((s @ t) @ t') h = Some x" "addrs ((s @ t) @ t') h = addrs (s @ t) h" using extend [OF 1(2)] by blast+
  then show "\<exists>h' u. copy_pair copy copy' p s = Some (h', s @ u) \<and> den_pair den den' (s @ u) h' = Some v \<and>
      addrs_pair addrs addrs' (s @ u) h' \<subseteq> {length s..<length (s @ u)}"
    using 1 2 v(1) by (intro exI [of _ "(h, h')"] exI [of _ "t @ t'"]) (fastforce simp: copy_pair_def den_pair_def addrs_pair_def)
qed

lemma struct:
  assumes "\<And>r s. copy' r s = map_option (\<lambda>(h, s). (put h r, s)) (copy (get r) s)"
    and "\<And>r s. den' s r = map_option (build r) (den s (get r))" and "\<And>r s. addrs' s r = addrs s (get r)"
    and "\<And>r h. get (put h r) = h" and "\<And>r h. build (put h r) = build r"
  shows "copier copy' den' addrs'"
proof
  fix s r v
  assume "den' s r = Some v"
  then obtain w where w: "den s (get r) = Some w" "v = build r w" by (auto simp: assms(2))
  show "addrs' s r \<subseteq> {..<length s}" using inside [OF w(1)] by (simp add: assms(3))
  show "den' s' r = Some v \<and> addrs' s' r = addrs' s r" if "same_on (addrs' s r) s s'" for s'
    using frame [OF w(1), of s'] that w(2) by (simp add: assms(2,3))
  obtain h t where "copy (get r) s = Some (h, s @ t)" "den (s @ t) h = Some w" "addrs (s @ t) h \<subseteq> {length s..<length (s @ t)}"
    using copies [OF w(1)] by (elim exE conjE)
  then show "\<exists>h' t. copy' r s = Some (h', s @ t) \<and> den' (s @ t) h' = Some v \<and> addrs' (s @ t) h' \<subseteq> {length s..<length (s @ t)}"
    using w(2) by (intro exI [of _ "put h r"] exI [of _ t]) (simp add: assms)
qed

end

text \<open>Maps: inserting the entries of a map one after the other into an empty map gives that map.\<close>

lemma update_fresh: "key \<notin> fst ` set m \<Longrightarrow> AList.update key val m = m @ [(key, val)]"
  by (induction m) auto

lemma copy_entries_all:
  "slot_ok k \<Longrightarrow> distinct (map fst (m @ es)) \<Longrightarrow> copy_entries k (length s) es (s @ [mk k m]) = Some (s @ [mk k (m @ es)])"
proof (induction es arbitrary: m)
  case (Cons e es)
  obtain key val where e: "e = (key, val)" by (cases e)
  then have "AList.update key val m = m @ [e]" using Cons.prems(2) by (simp add: update_fresh)
  then show ?case using Cons.IH [of "m @ [e]"] Cons.prems e by simp
qed simp

lemma copier_table:
  assumes k: "slot_ok k"
  shows "copier (copy_table k) (den_table k) addrs_table"
proof
  fix s a m
  assume "den_table k s a = Some m"
  then have m: "load k s a = Some m" "distinct (map fst m)" by (auto simp: den_table_def bind_eq_Some_conv split: if_splits)
  show "addrs_table s a \<subseteq> {..<length s}" using load_inside [OF m(1)] by (simp add: addrs_table_def)
  show "den_table k s' a = Some m \<and> addrs_table s' a = addrs_table s a" if "same_on (addrs_table s a) s s'" for s'
    using load_same [OF m(1), of s'] m(2) that by (simp add: den_table_def addrs_table_def)
  have "copy_table k a s = Some (length s, s @ [mk k m])"
    using copy_entries_all [of k "[]" m s] m k by (simp add: copy_table_def new_def)
  then show "\<exists>a' t. copy_table k a s = Some (a', s @ t) \<and> den_table k (s @ t) a' = Some m \<and> addrs_table (s @ t) a' \<subseteq> {length s..<length (s @ t)}"
    using m k by (intro exI [of _ "length s"] exI [of _ "[mk k m]"]) (simp add: den_table_def addrs_table_def)
qed

lemma copier_map: "slot_ok k \<Longrightarrow> copier (copy_map k) (den_map k) (addrs_map k)"
  unfolding copy_map_def den_map_def addrs_map_def by (intro nonnil copier_table)

end
