(* ===== verification/Deepcopy_Types.thy ===== *)
theory Deepcopy_Types
  imports Go_Heap Config Webhosting_Options
begin

text \<open>
  The structs of the four API packages as they are in memory, with pointers, slices and maps, and the cells that
  hold them, for the deep copy functions of theory \<open>Deepcopy\<close>.
\<close>

section \<open>Structs in memory\<close>

record type_meta =
  tm_Kind :: string
  tm_APIVersion :: string

record list_meta =
  lm_ResourceVersion :: string
  lm_Continue :: string

record h_ring_resource =
  hrr_GroupResource :: group_resource
  hrr_ControlledResources :: "slice option"

record h_ring_spec =
  hrs_Resources :: "slice option"
  hrs_NamespaceSelector :: "addr option"

record h_ring_status =
  hst_ObservedGeneration :: int
  hst_Shards :: int
  hst_AvailableShards :: int
  hst_Conditions :: "slice option"

record 'x h_controller_ring =
  hcr_TypeMeta :: type_meta
  hcr_ObjectMeta :: 'x
  hcr_Spec :: h_ring_spec
  hcr_Status :: h_ring_status

record 'x h_list =
  hl_TypeMeta :: type_meta
  hl_ListMeta :: 'x
  hl_Items :: "slice option"

record h_sharder_controller =
  hsc_SyncPeriod :: "addr option"
  hsc_ConcurrentMoves :: "addr option"

record h_controller =
  hct_Sharder :: "addr option"

record h_webhook_server =
  hws_CertDir :: "addr option"
  hws_CertName :: "addr option"
  hws_KeyName :: "addr option"

record h_webhook_config =
  hwc_Annotations :: "addr option"
  hwc_ClientConfig :: "addr option"
  hwc_NamespaceSelector :: "addr option"

record h_webhook =
  hwh_Server :: "addr option"
  hwh_Config :: "addr option"

record h_sharder_config =
  hsh_TypeMeta :: type_meta
  hsh_ClientConnection :: "addr option"
  hsh_LeaderElection :: "addr option"
  hsh_Debugging :: "addr option"
  hsh_Health :: health_endpoint
  hsh_Metrics :: metrics_endpoint
  hsh_Controller :: h_controller
  hsh_Webhook :: h_webhook
  hsh_GracefulShutdownTimeout :: "addr option"

type_synonym theme_status = unit

record 'x h_theme =
  hth_TypeMeta :: type_meta
  hth_ObjectMeta :: 'x
  hth_Spec :: theme_spec
  hth_Status :: theme_status

record h_website_status =
  hwst_ObservedGeneration :: int
  hwst_Phase :: string
  hwst_LastTransitionTime :: "addr option"

record 'x h_website =
  hwb_TypeMeta :: type_meta
  hwb_ObjectMeta :: 'x
  hwb_Spec :: website_spec
  hwb_Status :: h_website_status

record h_ingress_configuration =
  hic_Annotations :: "addr option"
  hic_Hosts :: "slice option"
  hic_TLS :: "slice option"

record h_web_config =
  hwo_TypeMeta :: type_meta
  hwo_ClientConnection :: "addr option"
  hwo_LeaderElection :: "addr option"
  hwo_Debugging :: "addr option"
  hwo_Health :: health_endpoint
  hwo_Metrics :: metrics_endpoint
  hwo_GracefulShutdownTimeout :: "addr option"
  hwo_Ingress :: "addr option"

text \<open>
  What a cell can hold. \<open>'x\<close> is the representation of Kubernetes' own types, which is theirs to choose and may
  refer to further cells.
\<close>

datatype 'x cell =
    CString "string"
  | CInt32 "int"
  | CDuration "duration"
  | CMap "entries"
  | CLib "'x"
  | CLibs "'x list"
  | CGroupResources "group_resource list"
  | CStrings "string list"
  | CClientConnection "client_connection"
  | CRingResource "h_ring_resource"
  | CRingResources "h_ring_resource list"
  | CRingSpec "h_ring_spec"
  | CRingStatus "h_ring_status"
  | CControllerRing "'x h_controller_ring"
  | CControllerRings "'x h_controller_ring list"
  | CControllerRingList "'x h_list"
  | CSharderController "h_sharder_controller"
  | CController "h_controller"
  | CWebhookServer "h_webhook_server"
  | CWebhookConfig "h_webhook_config"
  | CWebhook "h_webhook"
  | CHealthEndpoint "health_endpoint"
  | CMetricsEndpoint "metrics_endpoint"
  | CSharderConfig "h_sharder_config"
  | CThemeSpec "theme_spec"
  | CThemeStatus "theme_status"
  | CTheme "'x h_theme"
  | CThemes "'x h_theme list"
  | CThemeList "'x h_list"
  | CWebsiteSpec "website_spec"
  | CWebsiteStatus "h_website_status"
  | CWebsite "'x h_website"
  | CWebsites "'x h_website list"
  | CWebsiteList "'x h_list"
  | CIngressConfiguration "h_ingress_configuration"
  | CWebConfig "h_web_config"

text \<open>One slot for every type of cell.\<close>

named_theorems slot_defs

definition sString :: "('x cell, string) slot" where [slot_defs]:
  "sString = \<lparr>mk = CString, un = (\<lambda>c. case c of CString v \<Rightarrow> Some v | _ \<Rightarrow> None)\<rparr>"
definition sInt32 :: "('x cell, int) slot" where [slot_defs]:
  "sInt32 = \<lparr>mk = CInt32, un = (\<lambda>c. case c of CInt32 v \<Rightarrow> Some v | _ \<Rightarrow> None)\<rparr>"
definition sDuration :: "('x cell, duration) slot" where [slot_defs]:
  "sDuration = \<lparr>mk = CDuration, un = (\<lambda>c. case c of CDuration v \<Rightarrow> Some v | _ \<Rightarrow> None)\<rparr>"
definition sMap :: "('x cell, entries) slot" where [slot_defs]:
  "sMap = \<lparr>mk = CMap, un = (\<lambda>c. case c of CMap v \<Rightarrow> Some v | _ \<Rightarrow> None)\<rparr>"
definition sLib :: "('x cell, 'x) slot" where [slot_defs]:
  "sLib = \<lparr>mk = CLib, un = (\<lambda>c. case c of CLib v \<Rightarrow> Some v | _ \<Rightarrow> None)\<rparr>"
definition sLibs :: "('x cell, 'x list) slot" where [slot_defs]:
  "sLibs = \<lparr>mk = CLibs, un = (\<lambda>c. case c of CLibs v \<Rightarrow> Some v | _ \<Rightarrow> None)\<rparr>"
definition sGroupResources :: "('x cell, group_resource list) slot" where [slot_defs]:
  "sGroupResources = \<lparr>mk = CGroupResources, un = (\<lambda>c. case c of CGroupResources v \<Rightarrow> Some v | _ \<Rightarrow> None)\<rparr>"
definition sStrings :: "('x cell, string list) slot" where [slot_defs]:
  "sStrings = \<lparr>mk = CStrings, un = (\<lambda>c. case c of CStrings v \<Rightarrow> Some v | _ \<Rightarrow> None)\<rparr>"
definition sClientConnection :: "('x cell, client_connection) slot" where [slot_defs]:
  "sClientConnection = \<lparr>mk = CClientConnection, un = (\<lambda>c. case c of CClientConnection v \<Rightarrow> Some v | _ \<Rightarrow> None)\<rparr>"
definition sRingResource :: "('x cell, h_ring_resource) slot" where [slot_defs]:
  "sRingResource = \<lparr>mk = CRingResource, un = (\<lambda>c. case c of CRingResource v \<Rightarrow> Some v | _ \<Rightarrow> None)\<rparr>"
definition sRingResources :: "('x cell, h_ring_resource list) slot" where [slot_defs]:
  "sRingResources = \<lparr>mk = CRingResources, un = (\<lambda>c. case c of CRingResources v \<Rightarrow> Some v | _ \<Rightarrow> None)\<rparr>"
definition sRingSpec :: "('x cell, h_ring_spec) slot" where [slot_defs]:
  "sRingSpec = \<lparr>mk = CRingSpec, un = (\<lambda>c. case c of CRingSpec v \<Rightarrow> Some v | _ \<Rightarrow> None)\<rparr>"
definition sRingStatus :: "('x cell, h_ring_status) slot" where [slot_defs]:
  "sRingStatus = \<lparr>mk = CRingStatus, un = (\<lambda>c. case c of CRingStatus v \<Rightarrow> Some v | _ \<Rightarrow> None)\<rparr>"
definition sControllerRing :: "('x cell, 'x h_controller_ring) slot" where [slot_defs]:
  "sControllerRing = \<lparr>mk = CControllerRing, un = (\<lambda>c. case c of CControllerRing v \<Rightarrow> Some v | _ \<Rightarrow> None)\<rparr>"
definition sControllerRings :: "('x cell, 'x h_controller_ring list) slot" where [slot_defs]:
  "sControllerRings = \<lparr>mk = CControllerRings, un = (\<lambda>c. case c of CControllerRings v \<Rightarrow> Some v | _ \<Rightarrow> None)\<rparr>"
definition sControllerRingList :: "('x cell, 'x h_list) slot" where [slot_defs]:
  "sControllerRingList = \<lparr>mk = CControllerRingList, un = (\<lambda>c. case c of CControllerRingList v \<Rightarrow> Some v | _ \<Rightarrow> None)\<rparr>"
definition sSharderController :: "('x cell, h_sharder_controller) slot" where [slot_defs]:
  "sSharderController = \<lparr>mk = CSharderController, un = (\<lambda>c. case c of CSharderController v \<Rightarrow> Some v | _ \<Rightarrow> None)\<rparr>"
definition sController :: "('x cell, h_controller) slot" where [slot_defs]:
  "sController = \<lparr>mk = CController, un = (\<lambda>c. case c of CController v \<Rightarrow> Some v | _ \<Rightarrow> None)\<rparr>"
definition sWebhookServer :: "('x cell, h_webhook_server) slot" where [slot_defs]:
  "sWebhookServer = \<lparr>mk = CWebhookServer, un = (\<lambda>c. case c of CWebhookServer v \<Rightarrow> Some v | _ \<Rightarrow> None)\<rparr>"
definition sWebhookConfig :: "('x cell, h_webhook_config) slot" where [slot_defs]:
  "sWebhookConfig = \<lparr>mk = CWebhookConfig, un = (\<lambda>c. case c of CWebhookConfig v \<Rightarrow> Some v | _ \<Rightarrow> None)\<rparr>"
definition sWebhook :: "('x cell, h_webhook) slot" where [slot_defs]:
  "sWebhook = \<lparr>mk = CWebhook, un = (\<lambda>c. case c of CWebhook v \<Rightarrow> Some v | _ \<Rightarrow> None)\<rparr>"
definition sHealthEndpoint :: "('x cell, health_endpoint) slot" where [slot_defs]:
  "sHealthEndpoint = \<lparr>mk = CHealthEndpoint, un = (\<lambda>c. case c of CHealthEndpoint v \<Rightarrow> Some v | _ \<Rightarrow> None)\<rparr>"
definition sMetricsEndpoint :: "('x cell, metrics_endpoint) slot" where [slot_defs]:
  "sMetricsEndpoint = \<lparr>mk = CMetricsEndpoint, un = (\<lambda>c. case c of CMetricsEndpoint v \<Rightarrow> Some v | _ \<Rightarrow> None)\<rparr>"
definition sSharderConfig :: "('x cell, h_sharder_config) slot" where [slot_defs]:
  "sSharderConfig = \<lparr>mk = CSharderConfig, un = (\<lambda>c. case c of CSharderConfig v \<Rightarrow> Some v | _ \<Rightarrow> None)\<rparr>"
definition sThemeSpec :: "('x cell, theme_spec) slot" where [slot_defs]:
  "sThemeSpec = \<lparr>mk = CThemeSpec, un = (\<lambda>c. case c of CThemeSpec v \<Rightarrow> Some v | _ \<Rightarrow> None)\<rparr>"
definition sThemeStatus :: "('x cell, theme_status) slot" where [slot_defs]:
  "sThemeStatus = \<lparr>mk = CThemeStatus, un = (\<lambda>c. case c of CThemeStatus v \<Rightarrow> Some v | _ \<Rightarrow> None)\<rparr>"
definition sTheme :: "('x cell, 'x h_theme) slot" where [slot_defs]:
  "sTheme = \<lparr>mk = CTheme, un = (\<lambda>c. case c of CTheme v \<Rightarrow> Some v | _ \<Rightarrow> None)\<rparr>"
definition sThemes :: "('x cell, 'x h_theme list) slot" where [slot_defs]:
  "sThemes = \<lparr>mk = CThemes, un = (\<lambda>c. case c of CThemes v \<Rightarrow> Some v | _ \<Rightarrow> None)\<rparr>"
definition sThemeList :: "('x cell, 'x h_list) slot" where [slot_defs]:
  "sThemeList = \<lparr>mk = CThemeList, un = (\<lambda>c. case c of CThemeList v \<Rightarrow> Some v | _ \<Rightarrow> None)\<rparr>"
definition sWebsiteSpec :: "('x cell, website_spec) slot" where [slot_defs]:
  "sWebsiteSpec = \<lparr>mk = CWebsiteSpec, un = (\<lambda>c. case c of CWebsiteSpec v \<Rightarrow> Some v | _ \<Rightarrow> None)\<rparr>"
definition sWebsiteStatus :: "('x cell, h_website_status) slot" where [slot_defs]:
  "sWebsiteStatus = \<lparr>mk = CWebsiteStatus, un = (\<lambda>c. case c of CWebsiteStatus v \<Rightarrow> Some v | _ \<Rightarrow> None)\<rparr>"
definition sWebsite :: "('x cell, 'x h_website) slot" where [slot_defs]:
  "sWebsite = \<lparr>mk = CWebsite, un = (\<lambda>c. case c of CWebsite v \<Rightarrow> Some v | _ \<Rightarrow> None)\<rparr>"
definition sWebsites :: "('x cell, 'x h_website list) slot" where [slot_defs]:
  "sWebsites = \<lparr>mk = CWebsites, un = (\<lambda>c. case c of CWebsites v \<Rightarrow> Some v | _ \<Rightarrow> None)\<rparr>"
definition sWebsiteList :: "('x cell, 'x h_list) slot" where [slot_defs]:
  "sWebsiteList = \<lparr>mk = CWebsiteList, un = (\<lambda>c. case c of CWebsiteList v \<Rightarrow> Some v | _ \<Rightarrow> None)\<rparr>"
definition sIngressConfiguration :: "('x cell, h_ingress_configuration) slot" where [slot_defs]:
  "sIngressConfiguration = \<lparr>mk = CIngressConfiguration, un = (\<lambda>c. case c of CIngressConfiguration v \<Rightarrow> Some v | _ \<Rightarrow> None)\<rparr>"
definition sWebConfig :: "('x cell, h_web_config) slot" where [slot_defs]:
  "sWebConfig = \<lparr>mk = CWebConfig, un = (\<lambda>c. case c of CWebConfig v \<Rightarrow> Some v | _ \<Rightarrow> None)\<rparr>"

lemma slots_ok [simp]:
  "slot_ok sString"
  "slot_ok sInt32"
  "slot_ok sDuration"
  "slot_ok sMap"
  "slot_ok sLib"
  "slot_ok sLibs"
  "slot_ok sGroupResources"
  "slot_ok sStrings"
  "slot_ok sClientConnection"
  "slot_ok sRingResource"
  "slot_ok sRingResources"
  "slot_ok sRingSpec"
  "slot_ok sRingStatus"
  "slot_ok sControllerRing"
  "slot_ok sControllerRings"
  "slot_ok sControllerRingList"
  "slot_ok sSharderController"
  "slot_ok sController"
  "slot_ok sWebhookServer"
  "slot_ok sWebhookConfig"
  "slot_ok sWebhook"
  "slot_ok sHealthEndpoint"
  "slot_ok sMetricsEndpoint"
  "slot_ok sSharderConfig"
  "slot_ok sThemeSpec"
  "slot_ok sThemeStatus"
  "slot_ok sTheme"
  "slot_ok sThemes"
  "slot_ok sThemeList"
  "slot_ok sWebsiteSpec"
  "slot_ok sWebsiteStatus"
  "slot_ok sWebsite"
  "slot_ok sWebsites"
  "slot_ok sWebsiteList"
  "slot_ok sIngressConfiguration"
  "slot_ok sWebConfig"
  by (simp_all add: slot_ok_def slot_defs)

end
