(* ===== verification/Deepcopy.thy ===== *)
theory Deepcopy
  imports Deepcopy_Types
begin

text \<open>
  The generated deep copy functions of the four API packages (\<^verbatim>\<open>zz_generated.deepcopy.go\<close>), on the memory of
  \<open>Go_Heap\<close>. Reconcilers take a deep copy of an object before they change it and send the difference to the
  API server. The denotation of a struct in memory is the value that the other theories use for it; every function is
  shown to be a \<open>copier\<close>. Deep copy functions of Kubernetes' own types are parameters, with the same contract.
\<close>

section \<open>Code outside the repository\<close>

record 'x deepcopy_lib =
  dl_ObjectMeta :: "('x, 'x cell) copy_fun"
  dl_ListMeta :: "('x, 'x cell) copy_fun"
  dl_LabelSelector :: "('x, 'x cell) copy_fun"
  dl_Condition :: "('x, 'x cell) copy_fun"
  dl_LeaderElection :: "('x, 'x cell) copy_fun"
  dl_Debugging :: "('x, 'x cell) copy_fun"
  dl_WebhookClientConfig :: "('x, 'x cell) copy_fun"
  dl_IngressTLS :: "('x, 'x cell) copy_fun"
  dl_MicroTime_DeepCopy :: "(addr, 'x cell) copy_fun"
  dl_zero :: 'x

text \<open>What the representations of Kubernetes' types mean.\<close>

record 'x lib_meaning =
  d_ObjectMeta :: "('x, 'x cell, object_meta) den_fun"
  d_ListMeta :: "('x, 'x cell, list_meta) den_fun"
  d_LabelSelector :: "('x, 'x cell, label_selector) den_fun"
  d_Condition :: "('x, 'x cell, condition) den_fun"
  d_LeaderElection :: "('x, 'x cell, leader_election) den_fun"
  d_Debugging :: "('x, 'x cell, debugging) den_fun"
  d_WebhookClientConfig :: "('x, 'x cell, webhook_client_config) den_fun"
  d_IngressTLS :: "('x, 'x cell, ingress_tls) den_fun"
  d_MicroTime :: "(addr, 'x cell, time) den_fun"
  a_ObjectMeta :: "('x, 'x cell) addrs_fun"
  a_ListMeta :: "('x, 'x cell) addrs_fun"
  a_LabelSelector :: "('x, 'x cell) addrs_fun"
  a_Condition :: "('x, 'x cell) addrs_fun"
  a_LeaderElection :: "('x, 'x cell) addrs_fun"
  a_Debugging :: "('x, 'x cell) addrs_fun"
  a_WebhookClientConfig :: "('x, 'x cell) addrs_fun"
  a_IngressTLS :: "('x, 'x cell) addrs_fun"
  a_MicroTime :: "(addr, 'x cell) addrs_fun"

text \<open>Documented by Kubernetes: these functions make deep copies.\<close>

definition deepcopy_doc :: "'x deepcopy_lib \<Rightarrow> 'x lib_meaning \<Rightarrow> bool" where
  "deepcopy_doc lib M \<longleftrightarrow>
     copier (dl_ObjectMeta lib) (d_ObjectMeta M) (a_ObjectMeta M) \<and>
     copier (dl_ListMeta lib) (d_ListMeta M) (a_ListMeta M) \<and>
     copier (dl_LabelSelector lib) (d_LabelSelector M) (a_LabelSelector M) \<and>
     copier (dl_Condition lib) (d_Condition M) (a_Condition M) \<and>
     copier (dl_LeaderElection lib) (d_LeaderElection M) (a_LeaderElection M) \<and>
     copier (dl_Debugging lib) (d_Debugging M) (a_Debugging M) \<and>
     copier (dl_WebhookClientConfig lib) (d_WebhookClientConfig M) (a_WebhookClientConfig M) \<and>
     copier (dl_IngressTLS lib) (d_IngressTLS M) (a_IngressTLS M) \<and>
     copier (dl_MicroTime_DeepCopy lib) (d_MicroTime M) (a_MicroTime M)"

section \<open>The deep copy functions\<close>

text \<open>
  \<^verbatim>\<open>DeepCopy\<close> of every type: nothing for a nil pointer, otherwise a new struct that \<^verbatim>\<open>DeepCopyInto\<close> fills.
  \<^verbatim>\<open>DeepCopyObject\<close> returns an interface value, which is nil for a nil pointer (and not an interface that holds a
  nil pointer).
\<close>

definition generated_DeepCopy :: "('x cell, 'h) slot \<Rightarrow> ('h, 'x cell) copy_fun \<Rightarrow> (addr option, 'x cell) copy_fun" where
  "generated_DeepCopy = copy_ptr"

datatype go_type = TControllerRing | TControllerRingList | TSharderConfig | TTheme | TThemeList | TWebsite | TWebsiteList | TWebhostingOperatorConfig

type_synonym runtime_Object = "(go_type \<times> addr option) option"

definition generated_DeepCopyObject ::
  "go_type \<Rightarrow> (addr option, 'x cell) copy_fun \<Rightarrow> addr option \<Rightarrow> 'x cell heap \<Rightarrow> (runtime_Object \<times> 'x cell heap) option"
where
  "generated_DeepCopyObject ty DeepCopy p s = do {
     (c, s) \<leftarrow> DeepCopy p s;
     Some (if c \<noteq> None then Some (ty, c) else None, s)
   }"

text \<open>The elements of the slices that \<^verbatim>\<open>make\<close> creates.\<close>

definition zero_group_resource :: group_resource where
  "zero_group_resource = \<lparr>gr_Group = [], gr_Resource = []\<rparr>"

definition zero_ring_resource :: h_ring_resource where
  "zero_ring_resource = \<lparr>hrr_GroupResource = zero_group_resource, hrr_ControlledResources = None\<rparr>"

definition zero_type_meta :: type_meta where "zero_type_meta = \<lparr>tm_Kind = [], tm_APIVersion = []\<rparr>"

definition zero_controller_ring :: "'x deepcopy_lib \<Rightarrow> 'x h_controller_ring" where
  "zero_controller_ring lib = \<lparr>hcr_TypeMeta = zero_type_meta, hcr_ObjectMeta = dl_zero lib,
     hcr_Spec = \<lparr>hrs_Resources = None, hrs_NamespaceSelector = None\<rparr>,
     hcr_Status = \<lparr>hst_ObservedGeneration = 0, hst_Shards = 0, hst_AvailableShards = 0, hst_Conditions = None\<rparr>\<rparr>"

definition zero_theme :: "'x deepcopy_lib \<Rightarrow> 'x h_theme" where
  "zero_theme lib = \<lparr>hth_TypeMeta = zero_type_meta, hth_ObjectMeta = dl_zero lib,
     hth_Spec = \<lparr>ts_Color = [], ts_FontFamily = []\<rparr>, hth_Status = ()\<rparr>"

definition zero_website :: "'x deepcopy_lib \<Rightarrow> 'x h_website" where
  "zero_website lib = \<lparr>hwb_TypeMeta = zero_type_meta, hwb_ObjectMeta = dl_zero lib, hwb_Spec = \<lparr>wsp_Theme = []\<rparr>,
     hwb_Status = \<lparr>hwst_ObservedGeneration = 0, hwst_Phase = [], hwst_LastTransitionTime = None\<rparr>\<rparr>"

definition slice_list :: "'a list option \<Rightarrow> 'a list" where
  "slice_list xs = (case xs of None \<Rightarrow> [] | Some xs \<Rightarrow> xs)"

named_theorems copy_defs
named_theorems meaning_defs

definition sharder_HealthEndpoint_DeepCopyInto :: "(health_endpoint, 'x cell) copy_fun" where [copy_defs]:
  "sharder_HealthEndpoint_DeepCopyInto r s = copy_value r s"

definition sharder_HealthEndpoint_DeepCopy :: "(addr option, 'x cell) copy_fun" where [copy_defs]:
  "sharder_HealthEndpoint_DeepCopy = generated_DeepCopy sHealthEndpoint sharder_HealthEndpoint_DeepCopyInto"

definition sharder_MetricsEndpoint_DeepCopyInto :: "(metrics_endpoint, 'x cell) copy_fun" where [copy_defs]:
  "sharder_MetricsEndpoint_DeepCopyInto r s = copy_value r s"

definition sharder_MetricsEndpoint_DeepCopy :: "(addr option, 'x cell) copy_fun" where [copy_defs]:
  "sharder_MetricsEndpoint_DeepCopy = generated_DeepCopy sMetricsEndpoint sharder_MetricsEndpoint_DeepCopyInto"

definition web_HealthEndpoint_DeepCopyInto :: "(health_endpoint, 'x cell) copy_fun" where [copy_defs]:
  "web_HealthEndpoint_DeepCopyInto r s = copy_value r s"

definition web_HealthEndpoint_DeepCopy :: "(addr option, 'x cell) copy_fun" where [copy_defs]:
  "web_HealthEndpoint_DeepCopy = generated_DeepCopy sHealthEndpoint web_HealthEndpoint_DeepCopyInto"

definition web_MetricsEndpoint_DeepCopyInto :: "(metrics_endpoint, 'x cell) copy_fun" where [copy_defs]:
  "web_MetricsEndpoint_DeepCopyInto r s = copy_value r s"

definition web_MetricsEndpoint_DeepCopy :: "(addr option, 'x cell) copy_fun" where [copy_defs]:
  "web_MetricsEndpoint_DeepCopy = generated_DeepCopy sMetricsEndpoint web_MetricsEndpoint_DeepCopyInto"

definition ThemeSpec_DeepCopyInto :: "(theme_spec, 'x cell) copy_fun" where [copy_defs]:
  "ThemeSpec_DeepCopyInto r s = copy_value r s"

definition ThemeSpec_DeepCopy :: "(addr option, 'x cell) copy_fun" where [copy_defs]:
  "ThemeSpec_DeepCopy = generated_DeepCopy sThemeSpec ThemeSpec_DeepCopyInto"

definition ThemeStatus_DeepCopyInto :: "(theme_status, 'x cell) copy_fun" where [copy_defs]:
  "ThemeStatus_DeepCopyInto r s = copy_value r s"

definition ThemeStatus_DeepCopy :: "(addr option, 'x cell) copy_fun" where [copy_defs]:
  "ThemeStatus_DeepCopy = generated_DeepCopy sThemeStatus ThemeStatus_DeepCopyInto"

definition WebsiteSpec_DeepCopyInto :: "(website_spec, 'x cell) copy_fun" where [copy_defs]:
  "WebsiteSpec_DeepCopyInto r s = copy_value r s"

definition WebsiteSpec_DeepCopy :: "(addr option, 'x cell) copy_fun" where [copy_defs]:
  "WebsiteSpec_DeepCopy = generated_DeepCopy sWebsiteSpec WebsiteSpec_DeepCopyInto"

definition RingResource_DeepCopyInto :: "(h_ring_resource, 'x cell) copy_fun" where [copy_defs]:
  "RingResource_DeepCopyInto r s = do {
     let out = r;
     (f, s) \<leftarrow> copy_slice sGroupResources zero_group_resource copy_value (hrr_ControlledResources r) s;
     let out = out\<lparr>hrr_ControlledResources := f\<rparr>;
     Some (out, s)
   }"

definition RingResource_DeepCopy :: "(addr option, 'x cell) copy_fun" where [copy_defs]:
  "RingResource_DeepCopy = generated_DeepCopy sRingResource RingResource_DeepCopyInto"

definition ControllerRingSpec_DeepCopyInto :: "'x deepcopy_lib \<Rightarrow> (h_ring_spec, 'x cell) copy_fun" where [copy_defs]:
  "ControllerRingSpec_DeepCopyInto lib r s = do {
     let out = r;
     (f, s) \<leftarrow> copy_slice sRingResources zero_ring_resource RingResource_DeepCopyInto (hrs_Resources r) s;
     let out = out\<lparr>hrs_Resources := f\<rparr>;
     (f, s) \<leftarrow> copy_ptr sLib (dl_LabelSelector lib) (hrs_NamespaceSelector r) s;
     let out = out\<lparr>hrs_NamespaceSelector := f\<rparr>;
     Some (out, s)
   }"

definition ControllerRingSpec_DeepCopy :: "'x deepcopy_lib \<Rightarrow> (addr option, 'x cell) copy_fun" where [copy_defs]:
  "ControllerRingSpec_DeepCopy lib = generated_DeepCopy sRingSpec (ControllerRingSpec_DeepCopyInto lib)"

definition ControllerRingStatus_DeepCopyInto :: "'x deepcopy_lib \<Rightarrow> (h_ring_status, 'x cell) copy_fun" where [copy_defs]:
  "ControllerRingStatus_DeepCopyInto lib r s = do {
     let out = r;
     (f, s) \<leftarrow> copy_slice sLibs (dl_zero lib) (dl_Condition lib) (hst_Conditions r) s;
     let out = out\<lparr>hst_Conditions := f\<rparr>;
     Some (out, s)
   }"

definition ControllerRingStatus_DeepCopy :: "'x deepcopy_lib \<Rightarrow> (addr option, 'x cell) copy_fun" where [copy_defs]:
  "ControllerRingStatus_DeepCopy lib = generated_DeepCopy sRingStatus (ControllerRingStatus_DeepCopyInto lib)"

definition ControllerRing_DeepCopyInto :: "'x deepcopy_lib \<Rightarrow> ('x h_controller_ring, 'x cell) copy_fun" where [copy_defs]:
  "ControllerRing_DeepCopyInto lib r s = do {
     let out = r;
     (f, s) \<leftarrow> dl_ObjectMeta lib (hcr_ObjectMeta r) s;
     let out = out\<lparr>hcr_ObjectMeta := f\<rparr>;
     (f, s) \<leftarrow> ControllerRingSpec_DeepCopyInto lib (hcr_Spec r) s;
     let out = out\<lparr>hcr_Spec := f\<rparr>;
     (f, s) \<leftarrow> ControllerRingStatus_DeepCopyInto lib (hcr_Status r) s;
     let out = out\<lparr>hcr_Status := f\<rparr>;
     Some (out, s)
   }"

definition ControllerRing_DeepCopy :: "'x deepcopy_lib \<Rightarrow> (addr option, 'x cell) copy_fun" where [copy_defs]:
  "ControllerRing_DeepCopy lib = generated_DeepCopy sControllerRing (ControllerRing_DeepCopyInto lib)"

definition ControllerRing_DeepCopyObject :: "'x deepcopy_lib \<Rightarrow> addr option \<Rightarrow> 'x cell heap \<Rightarrow> (runtime_Object \<times> 'x cell heap) option" where [copy_defs]:
  "ControllerRing_DeepCopyObject lib = generated_DeepCopyObject TControllerRing (ControllerRing_DeepCopy lib)"

definition ControllerRingList_DeepCopyInto :: "'x deepcopy_lib \<Rightarrow> ('x h_list, 'x cell) copy_fun" where [copy_defs]:
  "ControllerRingList_DeepCopyInto lib r s = do {
     let out = r;
     (f, s) \<leftarrow> dl_ListMeta lib (hl_ListMeta r) s;
     let out = out\<lparr>hl_ListMeta := f\<rparr>;
     (f, s) \<leftarrow> copy_slice sControllerRings (zero_controller_ring lib) (ControllerRing_DeepCopyInto lib) (hl_Items r) s;
     let out = out\<lparr>hl_Items := f\<rparr>;
     Some (out, s)
   }"

definition ControllerRingList_DeepCopy :: "'x deepcopy_lib \<Rightarrow> (addr option, 'x cell) copy_fun" where [copy_defs]:
  "ControllerRingList_DeepCopy lib = generated_DeepCopy sControllerRingList (ControllerRingList_DeepCopyInto lib)"

definition ControllerRingList_DeepCopyObject :: "'x deepcopy_lib \<Rightarrow> addr option \<Rightarrow> 'x cell heap \<Rightarrow> (runtime_Object \<times> 'x cell heap) option" where [copy_defs]:
  "ControllerRingList_DeepCopyObject lib = generated_DeepCopyObject TControllerRingList (ControllerRingList_DeepCopy lib)"

definition SharderController_DeepCopyInto :: "(h_sharder_controller, 'x cell) copy_fun" where [copy_defs]:
  "SharderController_DeepCopyInto r s = do {
     let out = r;
     (f, s) \<leftarrow> copy_ptr sDuration copy_value (hsc_SyncPeriod r) s;
     let out = out\<lparr>hsc_SyncPeriod := f\<rparr>;
     (f, s) \<leftarrow> copy_ptr sInt32 copy_value (hsc_ConcurrentMoves r) s;
     let out = out\<lparr>hsc_ConcurrentMoves := f\<rparr>;
     Some (out, s)
   }"

definition SharderController_DeepCopy :: "(addr option, 'x cell) copy_fun" where [copy_defs]:
  "SharderController_DeepCopy = generated_DeepCopy sSharderController SharderController_DeepCopyInto"

definition Controller_DeepCopyInto :: "(h_controller, 'x cell) copy_fun" where [copy_defs]:
  "Controller_DeepCopyInto r s = do {
     let out = r;
     (f, s) \<leftarrow> copy_ptr sSharderController SharderController_DeepCopyInto (hct_Sharder r) s;
     let out = out\<lparr>hct_Sharder := f\<rparr>;
     Some (out, s)
   }"

definition Controller_DeepCopy :: "(addr option, 'x cell) copy_fun" where [copy_defs]:
  "Controller_DeepCopy = generated_DeepCopy sController Controller_DeepCopyInto"

definition WebhookServer_DeepCopyInto :: "(h_webhook_server, 'x cell) copy_fun" where [copy_defs]:
  "WebhookServer_DeepCopyInto r s = do {
     let out = r;
     (f, s) \<leftarrow> copy_ptr sString copy_value (hws_CertDir r) s;
     let out = out\<lparr>hws_CertDir := f\<rparr>;
     (f, s) \<leftarrow> copy_ptr sString copy_value (hws_CertName r) s;
     let out = out\<lparr>hws_CertName := f\<rparr>;
     (f, s) \<leftarrow> copy_ptr sString copy_value (hws_KeyName r) s;
     let out = out\<lparr>hws_KeyName := f\<rparr>;
     Some (out, s)
   }"

definition WebhookServer_DeepCopy :: "(addr option, 'x cell) copy_fun" where [copy_defs]:
  "WebhookServer_DeepCopy = generated_DeepCopy sWebhookServer WebhookServer_DeepCopyInto"

definition WebhookConfig_DeepCopyInto :: "'x deepcopy_lib \<Rightarrow> (h_webhook_config, 'x cell) copy_fun" where [copy_defs]:
  "WebhookConfig_DeepCopyInto lib r s = do {
     let out = r;
     (f, s) \<leftarrow> copy_map sMap (hwc_Annotations r) s;
     let out = out\<lparr>hwc_Annotations := f\<rparr>;
     (f, s) \<leftarrow> copy_ptr sLib (dl_WebhookClientConfig lib) (hwc_ClientConfig r) s;
     let out = out\<lparr>hwc_ClientConfig := f\<rparr>;
     (f, s) \<leftarrow> copy_ptr sLib (dl_LabelSelector lib) (hwc_NamespaceSelector r) s;
     let out = out\<lparr>hwc_NamespaceSelector := f\<rparr>;
     Some (out, s)
   }"

definition WebhookConfig_DeepCopy :: "'x deepcopy_lib \<Rightarrow> (addr option, 'x cell) copy_fun" where [copy_defs]:
  "WebhookConfig_DeepCopy lib = generated_DeepCopy sWebhookConfig (WebhookConfig_DeepCopyInto lib)"

definition Webhook_DeepCopyInto :: "'x deepcopy_lib \<Rightarrow> (h_webhook, 'x cell) copy_fun" where [copy_defs]:
  "Webhook_DeepCopyInto lib r s = do {
     let out = r;
     (f, s) \<leftarrow> copy_ptr sWebhookServer WebhookServer_DeepCopyInto (hwh_Server r) s;
     let out = out\<lparr>hwh_Server := f\<rparr>;
     (f, s) \<leftarrow> copy_ptr sWebhookConfig (WebhookConfig_DeepCopyInto lib) (hwh_Config r) s;
     let out = out\<lparr>hwh_Config := f\<rparr>;
     Some (out, s)
   }"

definition Webhook_DeepCopy :: "'x deepcopy_lib \<Rightarrow> (addr option, 'x cell) copy_fun" where [copy_defs]:
  "Webhook_DeepCopy lib = generated_DeepCopy sWebhook (Webhook_DeepCopyInto lib)"

definition SharderConfig_DeepCopyInto :: "'x deepcopy_lib \<Rightarrow> (h_sharder_config, 'x cell) copy_fun" where [copy_defs]:
  "SharderConfig_DeepCopyInto lib r s = do {
     let out = r;
     (f, s) \<leftarrow> copy_ptr sClientConnection copy_value (hsh_ClientConnection r) s;
     let out = out\<lparr>hsh_ClientConnection := f\<rparr>;
     (f, s) \<leftarrow> copy_ptr sLib (dl_LeaderElection lib) (hsh_LeaderElection r) s;
     let out = out\<lparr>hsh_LeaderElection := f\<rparr>;
     (f, s) \<leftarrow> copy_ptr sLib (dl_Debugging lib) (hsh_Debugging r) s;
     let out = out\<lparr>hsh_Debugging := f\<rparr>;
     (f, s) \<leftarrow> Controller_DeepCopyInto (hsh_Controller r) s;
     let out = out\<lparr>hsh_Controller := f\<rparr>;
     (f, s) \<leftarrow> Webhook_DeepCopyInto lib (hsh_Webhook r) s;
     let out = out\<lparr>hsh_Webhook := f\<rparr>;
     (f, s) \<leftarrow> copy_ptr sDuration copy_value (hsh_GracefulShutdownTimeout r) s;
     let out = out\<lparr>hsh_GracefulShutdownTimeout := f\<rparr>;
     Some (out, s)
   }"

definition SharderConfig_DeepCopy :: "'x deepcopy_lib \<Rightarrow> (addr option, 'x cell) copy_fun" where [copy_defs]:
  "SharderConfig_DeepCopy lib = generated_DeepCopy sSharderConfig (SharderConfig_DeepCopyInto lib)"

definition SharderConfig_DeepCopyObject :: "'x deepcopy_lib \<Rightarrow> addr option \<Rightarrow> 'x cell heap \<Rightarrow> (runtime_Object \<times> 'x cell heap) option" where [copy_defs]:
  "SharderConfig_DeepCopyObject lib = generated_DeepCopyObject TSharderConfig (SharderConfig_DeepCopy lib)"

definition Theme_DeepCopyInto :: "'x deepcopy_lib \<Rightarrow> ('x h_theme, 'x cell) copy_fun" where [copy_defs]:
  "Theme_DeepCopyInto lib r s = do {
     let out = r;
     (f, s) \<leftarrow> dl_ObjectMeta lib (hth_ObjectMeta r) s;
     let out = out\<lparr>hth_ObjectMeta := f\<rparr>;
     Some (out, s)
   }"

definition Theme_DeepCopy :: "'x deepcopy_lib \<Rightarrow> (addr option, 'x cell) copy_fun" where [copy_defs]:
  "Theme_DeepCopy lib = generated_DeepCopy sTheme (Theme_DeepCopyInto lib)"

definition Theme_DeepCopyObject :: "'x deepcopy_lib \<Rightarrow> addr option \<Rightarrow> 'x cell heap \<Rightarrow> (runtime_Object \<times> 'x cell heap) option" where [copy_defs]:
  "Theme_DeepCopyObject lib = generated_DeepCopyObject TTheme (Theme_DeepCopy lib)"

definition ThemeList_DeepCopyInto :: "'x deepcopy_lib \<Rightarrow> ('x h_list, 'x cell) copy_fun" where [copy_defs]:
  "ThemeList_DeepCopyInto lib r s = do {
     let out = r;
     (f, s) \<leftarrow> dl_ListMeta lib (hl_ListMeta r) s;
     let out = out\<lparr>hl_ListMeta := f\<rparr>;
     (f, s) \<leftarrow> copy_slice sThemes (zero_theme lib) (Theme_DeepCopyInto lib) (hl_Items r) s;
     let out = out\<lparr>hl_Items := f\<rparr>;
     Some (out, s)
   }"

definition ThemeList_DeepCopy :: "'x deepcopy_lib \<Rightarrow> (addr option, 'x cell) copy_fun" where [copy_defs]:
  "ThemeList_DeepCopy lib = generated_DeepCopy sThemeList (ThemeList_DeepCopyInto lib)"

definition ThemeList_DeepCopyObject :: "'x deepcopy_lib \<Rightarrow> addr option \<Rightarrow> 'x cell heap \<Rightarrow> (runtime_Object \<times> 'x cell heap) option" where [copy_defs]:
  "ThemeList_DeepCopyObject lib = generated_DeepCopyObject TThemeList (ThemeList_DeepCopy lib)"

definition WebsiteStatus_DeepCopyInto :: "'x deepcopy_lib \<Rightarrow> (h_website_status, 'x cell) copy_fun" where [copy_defs]:
  "WebsiteStatus_DeepCopyInto lib r s = do {
     let out = r;
     (f, s) \<leftarrow> copy_nonnil (dl_MicroTime_DeepCopy lib) (hwst_LastTransitionTime r) s;
     let out = out\<lparr>hwst_LastTransitionTime := f\<rparr>;
     Some (out, s)
   }"

definition WebsiteStatus_DeepCopy :: "'x deepcopy_lib \<Rightarrow> (addr option, 'x cell) copy_fun" where [copy_defs]:
  "WebsiteStatus_DeepCopy lib = generated_DeepCopy sWebsiteStatus (WebsiteStatus_DeepCopyInto lib)"

definition Website_DeepCopyInto :: "'x deepcopy_lib \<Rightarrow> ('x h_website, 'x cell) copy_fun" where [copy_defs]:
  "Website_DeepCopyInto lib r s = do {
     let out = r;
     (f, s) \<leftarrow> dl_ObjectMeta lib (hwb_ObjectMeta r) s;
     let out = out\<lparr>hwb_ObjectMeta := f\<rparr>;
     (f, s) \<leftarrow> WebsiteStatus_DeepCopyInto lib (hwb_Status r) s;
     let out = out\<lparr>hwb_Status := f\<rparr>;
     Some (out, s)
   }"

definition Website_DeepCopy :: "'x deepcopy_lib \<Rightarrow> (addr option, 'x cell) copy_fun" where [copy_defs]:
  "Website_DeepCopy lib = generated_DeepCopy sWebsite (Website_DeepCopyInto lib)"

definition Website_DeepCopyObject :: "'x deepcopy_lib \<Rightarrow> addr option \<Rightarrow> 'x cell heap \<Rightarrow> (runtime_Object \<times> 'x cell heap) option" where [copy_defs]:
  "Website_DeepCopyObject lib = generated_DeepCopyObject TWebsite (Website_DeepCopy lib)"

definition WebsiteList_DeepCopyInto :: "'x deepcopy_lib \<Rightarrow> ('x h_list, 'x cell) copy_fun" where [copy_defs]:
  "WebsiteList_DeepCopyInto lib r s = do {
     let out = r;
     (f, s) \<leftarrow> dl_ListMeta lib (hl_ListMeta r) s;
     let out = out\<lparr>hl_ListMeta := f\<rparr>;
     (f, s) \<leftarrow> copy_slice sWebsites (zero_website lib) (Website_DeepCopyInto lib) (hl_Items r) s;
     let out = out\<lparr>hl_Items := f\<rparr>;
     Some (out, s)
   }"

definition WebsiteList_DeepCopy :: "'x deepcopy_lib \<Rightarrow> (addr option, 'x cell) copy_fun" where [copy_defs]:
  "WebsiteList_DeepCopy lib = generated_DeepCopy sWebsiteList (WebsiteList_DeepCopyInto lib)"

definition WebsiteList_DeepCopyObject :: "'x deepcopy_lib \<Rightarrow> addr option \<Rightarrow> 'x cell heap \<Rightarrow> (runtime_Object \<times> 'x cell heap) option" where [copy_defs]:
  "WebsiteList_DeepCopyObject lib = generated_DeepCopyObject TWebsiteList (WebsiteList_DeepCopy lib)"

definition IngressConfiguration_DeepCopyInto :: "'x deepcopy_lib \<Rightarrow> (h_ingress_configuration, 'x cell) copy_fun" where [copy_defs]:
  "IngressConfiguration_DeepCopyInto lib r s = do {
     let out = r;
     (f, s) \<leftarrow> copy_map sMap (hic_Annotations r) s;
     let out = out\<lparr>hic_Annotations := f\<rparr>;
     (f, s) \<leftarrow> copy_slice sStrings [] copy_value (hic_Hosts r) s;
     let out = out\<lparr>hic_Hosts := f\<rparr>;
     (f, s) \<leftarrow> copy_slice sLibs (dl_zero lib) (dl_IngressTLS lib) (hic_TLS r) s;
     let out = out\<lparr>hic_TLS := f\<rparr>;
     Some (out, s)
   }"

definition IngressConfiguration_DeepCopy :: "'x deepcopy_lib \<Rightarrow> (addr option, 'x cell) copy_fun" where [copy_defs]:
  "IngressConfiguration_DeepCopy lib = generated_DeepCopy sIngressConfiguration (IngressConfiguration_DeepCopyInto lib)"

definition WebhostingOperatorConfig_DeepCopyInto :: "'x deepcopy_lib \<Rightarrow> (h_web_config, 'x cell) copy_fun" where [copy_defs]:
  "WebhostingOperatorConfig_DeepCopyInto lib r s = do {
     let out = r;
     (f, s) \<leftarrow> copy_ptr sClientConnection copy_value (hwo_ClientConnection r) s;
     let out = out\<lparr>hwo_ClientConnection := f\<rparr>;
     (f, s) \<leftarrow> copy_ptr sLib (dl_LeaderElection lib) (hwo_LeaderElection r) s;
     let out = out\<lparr>hwo_LeaderElection := f\<rparr>;
     (f, s) \<leftarrow> copy_ptr sLib (dl_Debugging lib) (hwo_Debugging r) s;
     let out = out\<lparr>hwo_Debugging := f\<rparr>;
     (f, s) \<leftarrow> copy_ptr sDuration copy_value (hwo_GracefulShutdownTimeout r) s;
     let out = out\<lparr>hwo_GracefulShutdownTimeout := f\<rparr>;
     (f, s) \<leftarrow> copy_ptr sIngressConfiguration (IngressConfiguration_DeepCopyInto lib) (hwo_Ingress r) s;
     let out = out\<lparr>hwo_Ingress := f\<rparr>;
     Some (out, s)
   }"

definition WebhostingOperatorConfig_DeepCopy :: "'x deepcopy_lib \<Rightarrow> (addr option, 'x cell) copy_fun" where [copy_defs]:
  "WebhostingOperatorConfig_DeepCopy lib = generated_DeepCopy sWebConfig (WebhostingOperatorConfig_DeepCopyInto lib)"

definition WebhostingOperatorConfig_DeepCopyObject :: "'x deepcopy_lib \<Rightarrow> addr option \<Rightarrow> 'x cell heap \<Rightarrow> (runtime_Object \<times> 'x cell heap) option" where [copy_defs]:
  "WebhostingOperatorConfig_DeepCopyObject lib = generated_DeepCopyObject TWebhostingOperatorConfig (WebhostingOperatorConfig_DeepCopy lib)"

section \<open>What structs in memory mean\<close>

definition den_RingResource :: "(h_ring_resource, 'x cell, ring_resource) den_fun" where [meaning_defs]:
  "den_RingResource s r =
     map_option (\<lambda>cs. \<lparr>rr_GroupResource = hrr_GroupResource r, rr_ControlledResources = slice_list cs\<rparr>)
       (den_slice sGroupResources den_value s (hrr_ControlledResources r))"

definition addrs_RingResource :: "(h_ring_resource, 'x cell) addrs_fun" where [meaning_defs]:
  "addrs_RingResource s r = addrs_slice sGroupResources addrs_value s (hrr_ControlledResources r)"

definition den_ControllerRingSpec :: "'x lib_meaning \<Rightarrow> (h_ring_spec, 'x cell, ring_spec) den_fun" where [meaning_defs]:
  "den_ControllerRingSpec M s r =
     map_option (\<lambda>(rs, sel). \<lparr>rs_Resources = slice_list rs, rs_NamespaceSelector = sel\<rparr>)
       (den_pair (den_slice sRingResources den_RingResource) (den_ptr sLib (d_LabelSelector M)) s (hrs_Resources r, hrs_NamespaceSelector r))"

definition addrs_ControllerRingSpec :: "'x lib_meaning \<Rightarrow> (h_ring_spec, 'x cell) addrs_fun" where [meaning_defs]:
  "addrs_ControllerRingSpec M s r = addrs_pair (addrs_slice sRingResources addrs_RingResource) (addrs_ptr sLib (a_LabelSelector M)) s (hrs_Resources r, hrs_NamespaceSelector r)"

definition den_ControllerRingStatus :: "'x lib_meaning \<Rightarrow> (h_ring_status, 'x cell, ring_status) den_fun" where [meaning_defs]:
  "den_ControllerRingStatus M s r =
     map_option (\<lambda>cs. \<lparr>st_ObservedGeneration = hst_ObservedGeneration r, st_Shards = hst_Shards r, st_AvailableShards = hst_AvailableShards r, st_Conditions = slice_list cs\<rparr>)
       (den_slice sLibs (d_Condition M) s (hst_Conditions r))"

definition addrs_ControllerRingStatus :: "'x lib_meaning \<Rightarrow> (h_ring_status, 'x cell) addrs_fun" where [meaning_defs]:
  "addrs_ControllerRingStatus M s r = addrs_slice sLibs (a_Condition M) s (hst_Conditions r)"

definition den_ControllerRing :: "'x lib_meaning \<Rightarrow> ('x h_controller_ring, 'x cell, type_meta \<times> controller_ring) den_fun" where [meaning_defs]:
  "den_ControllerRing M s r =
     map_option (\<lambda>(meta, spec, status). (hcr_TypeMeta r, \<lparr>cr_Meta = meta, cr_Spec = spec, cr_Status = status\<rparr>))
       (den_pair (d_ObjectMeta M) (den_pair (den_ControllerRingSpec M) (den_ControllerRingStatus M)) s (hcr_ObjectMeta r, hcr_Spec r, hcr_Status r))"

definition addrs_ControllerRing :: "'x lib_meaning \<Rightarrow> ('x h_controller_ring, 'x cell) addrs_fun" where [meaning_defs]:
  "addrs_ControllerRing M s r = addrs_pair (a_ObjectMeta M) (addrs_pair (addrs_ControllerRingSpec M) (addrs_ControllerRingStatus M)) s (hcr_ObjectMeta r, hcr_Spec r, hcr_Status r)"

definition den_ControllerRingList :: "'x lib_meaning \<Rightarrow> ('x h_list, 'x cell, type_meta \<times> list_meta \<times> (type_meta \<times> controller_ring) list option) den_fun" where [meaning_defs]:
  "den_ControllerRingList M s r =
     map_option (\<lambda>(meta, items). (hl_TypeMeta r, meta, items))
       (den_pair (d_ListMeta M) (den_slice sControllerRings (den_ControllerRing M)) s (hl_ListMeta r, hl_Items r))"

definition addrs_ControllerRingList :: "'x lib_meaning \<Rightarrow> ('x h_list, 'x cell) addrs_fun" where [meaning_defs]:
  "addrs_ControllerRingList M s r = addrs_pair (a_ListMeta M) (addrs_slice sControllerRings (addrs_ControllerRing M)) s (hl_ListMeta r, hl_Items r)"

definition den_SharderController :: "(h_sharder_controller, 'x cell, sharder_controller) den_fun" where [meaning_defs]:
  "den_SharderController s r =
     map_option (\<lambda>(period, moves). \<lparr>sc_SyncPeriod = period, sc_ConcurrentMoves = moves\<rparr>)
       (den_pair (den_ptr sDuration den_value) (den_ptr sInt32 den_value) s (hsc_SyncPeriod r, hsc_ConcurrentMoves r))"

definition addrs_SharderController :: "(h_sharder_controller, 'x cell) addrs_fun" where [meaning_defs]:
  "addrs_SharderController s r = addrs_pair (addrs_ptr sDuration addrs_value) (addrs_ptr sInt32 addrs_value) s (hsc_SyncPeriod r, hsc_ConcurrentMoves r)"

definition den_Controller :: "(h_controller, 'x cell, controller_config) den_fun" where [meaning_defs]:
  "den_Controller s r =
     map_option (\<lambda>sharder. \<lparr>ctl_Sharder = sharder\<rparr>)
       (den_ptr sSharderController den_SharderController s (hct_Sharder r))"

definition addrs_Controller :: "(h_controller, 'x cell) addrs_fun" where [meaning_defs]:
  "addrs_Controller s r = addrs_ptr sSharderController addrs_SharderController s (hct_Sharder r)"

definition den_WebhookServer :: "(h_webhook_server, 'x cell, webhook_server) den_fun" where [meaning_defs]:
  "den_WebhookServer s r =
     map_option (\<lambda>(dir, cert, key). \<lparr>ws_CertDir = dir, ws_CertName = cert, ws_KeyName = key\<rparr>)
       (den_pair (den_ptr sString den_value) (den_pair (den_ptr sString den_value) (den_ptr sString den_value)) s (hws_CertDir r, hws_CertName r, hws_KeyName r))"

definition addrs_WebhookServer :: "(h_webhook_server, 'x cell) addrs_fun" where [meaning_defs]:
  "addrs_WebhookServer s r = addrs_pair (addrs_ptr sString addrs_value) (addrs_pair (addrs_ptr sString addrs_value) (addrs_ptr sString addrs_value)) s (hws_CertDir r, hws_CertName r, hws_KeyName r)"

definition den_WebhookConfig :: "'x lib_meaning \<Rightarrow> (h_webhook_config, 'x cell, webhook_config) den_fun" where [meaning_defs]:
  "den_WebhookConfig M s r =
     map_option (\<lambda>(annotations, client, sel). \<lparr>wc_Annotations = map_option map_of annotations, wc_ClientConfig = client, wc_NamespaceSelector = sel\<rparr>)
       (den_pair (den_map sMap) (den_pair (den_ptr sLib (d_WebhookClientConfig M)) (den_ptr sLib (d_LabelSelector M))) s (hwc_Annotations r, hwc_ClientConfig r, hwc_NamespaceSelector r))"

definition addrs_WebhookConfig :: "'x lib_meaning \<Rightarrow> (h_webhook_config, 'x cell) addrs_fun" where [meaning_defs]:
  "addrs_WebhookConfig M s r = addrs_pair (addrs_map sMap) (addrs_pair (addrs_ptr sLib (a_WebhookClientConfig M)) (addrs_ptr sLib (a_LabelSelector M))) s (hwc_Annotations r, hwc_ClientConfig r, hwc_NamespaceSelector r)"

definition den_Webhook :: "'x lib_meaning \<Rightarrow> (h_webhook, 'x cell, webhook) den_fun" where [meaning_defs]:
  "den_Webhook M s r =
     map_option (\<lambda>(server, config). \<lparr>wh_Server = server, wh_Config = config\<rparr>)
       (den_pair (den_ptr sWebhookServer den_WebhookServer) (den_ptr sWebhookConfig (den_WebhookConfig M)) s (hwh_Server r, hwh_Config r))"

definition addrs_Webhook :: "'x lib_meaning \<Rightarrow> (h_webhook, 'x cell) addrs_fun" where [meaning_defs]:
  "addrs_Webhook M s r = addrs_pair (addrs_ptr sWebhookServer addrs_WebhookServer) (addrs_ptr sWebhookConfig (addrs_WebhookConfig M)) s (hwh_Server r, hwh_Config r)"

definition den_SharderConfig :: "'x lib_meaning \<Rightarrow> (h_sharder_config, 'x cell, type_meta \<times> config_v1alpha1) den_fun" where [meaning_defs]:
  "den_SharderConfig M s r =
     map_option (\<lambda>(client, leader, debugging, controller, webhook, timeout).
       (hsh_TypeMeta r, \<lparr>c_ClientConnection = client, c_LeaderElection = leader, c_Debugging = debugging, c_Health = hsh_Health r,
          c_Metrics = hsh_Metrics r, c_Controller = controller, c_Webhook = webhook, c_GracefulShutdownTimeout = timeout\<rparr>))
       (den_pair (den_ptr sClientConnection den_value) (den_pair (den_ptr sLib (d_LeaderElection M)) (den_pair (den_ptr sLib (d_Debugging M)) (den_pair den_Controller (den_pair (den_Webhook M) (den_ptr sDuration den_value))))) s (hsh_ClientConnection r, hsh_LeaderElection r, hsh_Debugging r, hsh_Controller r, hsh_Webhook r, hsh_GracefulShutdownTimeout r))"

definition addrs_SharderConfig :: "'x lib_meaning \<Rightarrow> (h_sharder_config, 'x cell) addrs_fun" where [meaning_defs]:
  "addrs_SharderConfig M s r = addrs_pair (addrs_ptr sClientConnection addrs_value) (addrs_pair (addrs_ptr sLib (a_LeaderElection M)) (addrs_pair (addrs_ptr sLib (a_Debugging M)) (addrs_pair addrs_Controller (addrs_pair (addrs_Webhook M) (addrs_ptr sDuration addrs_value))))) s (hsh_ClientConnection r, hsh_LeaderElection r, hsh_Debugging r, hsh_Controller r, hsh_Webhook r, hsh_GracefulShutdownTimeout r)"

definition den_Theme :: "'x lib_meaning \<Rightarrow> ('x h_theme, 'x cell, type_meta \<times> theme \<times> theme_status) den_fun" where [meaning_defs]:
  "den_Theme M s r =
     map_option (\<lambda>meta. (hth_TypeMeta r, \<lparr>th_Meta = meta, th_Spec = hth_Spec r\<rparr>, hth_Status r))
       (d_ObjectMeta M s (hth_ObjectMeta r))"

definition addrs_Theme :: "'x lib_meaning \<Rightarrow> ('x h_theme, 'x cell) addrs_fun" where [meaning_defs]:
  "addrs_Theme M s r = a_ObjectMeta M s (hth_ObjectMeta r)"

definition den_ThemeList :: "'x lib_meaning \<Rightarrow> ('x h_list, 'x cell, type_meta \<times> list_meta \<times> (type_meta \<times> theme \<times> theme_status) list option) den_fun" where [meaning_defs]:
  "den_ThemeList M s r =
     map_option (\<lambda>(meta, items). (hl_TypeMeta r, meta, items))
       (den_pair (d_ListMeta M) (den_slice sThemes (den_Theme M)) s (hl_ListMeta r, hl_Items r))"

definition addrs_ThemeList :: "'x lib_meaning \<Rightarrow> ('x h_list, 'x cell) addrs_fun" where [meaning_defs]:
  "addrs_ThemeList M s r = addrs_pair (a_ListMeta M) (addrs_slice sThemes (addrs_Theme M)) s (hl_ListMeta r, hl_Items r)"

definition den_WebsiteStatus :: "'x lib_meaning \<Rightarrow> (h_website_status, 'x cell, website_status) den_fun" where [meaning_defs]:
  "den_WebsiteStatus M s r =
     map_option (\<lambda>last. \<lparr>wst_ObservedGeneration = hwst_ObservedGeneration r, wst_Phase = hwst_Phase r, wst_LastTransitionTime = last\<rparr>)
       (den_nonnil (d_MicroTime M) s (hwst_LastTransitionTime r))"

definition addrs_WebsiteStatus :: "'x lib_meaning \<Rightarrow> (h_website_status, 'x cell) addrs_fun" where [meaning_defs]:
  "addrs_WebsiteStatus M s r = addrs_nonnil (a_MicroTime M) s (hwst_LastTransitionTime r)"

definition den_Website :: "'x lib_meaning \<Rightarrow> ('x h_website, 'x cell, type_meta \<times> website) den_fun" where [meaning_defs]:
  "den_Website M s r =
     map_option (\<lambda>(meta, status). (hwb_TypeMeta r, \<lparr>web_Meta = meta, web_Spec = hwb_Spec r, web_Status = status\<rparr>))
       (den_pair (d_ObjectMeta M) (den_WebsiteStatus M) s (hwb_ObjectMeta r, hwb_Status r))"

definition addrs_Website :: "'x lib_meaning \<Rightarrow> ('x h_website, 'x cell) addrs_fun" where [meaning_defs]:
  "addrs_Website M s r = addrs_pair (a_ObjectMeta M) (addrs_WebsiteStatus M) s (hwb_ObjectMeta r, hwb_Status r)"

definition den_WebsiteList :: "'x lib_meaning \<Rightarrow> ('x h_list, 'x cell, type_meta \<times> list_meta \<times> (type_meta \<times> website) list option) den_fun" where [meaning_defs]:
  "den_WebsiteList M s r =
     map_option (\<lambda>(meta, items). (hl_TypeMeta r, meta, items))
       (den_pair (d_ListMeta M) (den_slice sWebsites (den_Website M)) s (hl_ListMeta r, hl_Items r))"

definition addrs_WebsiteList :: "'x lib_meaning \<Rightarrow> ('x h_list, 'x cell) addrs_fun" where [meaning_defs]:
  "addrs_WebsiteList M s r = addrs_pair (a_ListMeta M) (addrs_slice sWebsites (addrs_Website M)) s (hl_ListMeta r, hl_Items r)"

definition den_IngressConfiguration :: "'x lib_meaning \<Rightarrow> (h_ingress_configuration, 'x cell, ingress_configuration) den_fun" where [meaning_defs]:
  "den_IngressConfiguration M s r =
     map_option (\<lambda>(annotations, hosts, tls). \<lparr>ic_Annotations = slice_list annotations, ic_Hosts = slice_list hosts, ic_TLS = slice_list tls\<rparr>)
       (den_pair (den_map sMap) (den_pair (den_slice sStrings den_value) (den_slice sLibs (d_IngressTLS M))) s (hic_Annotations r, hic_Hosts r, hic_TLS r))"

definition addrs_IngressConfiguration :: "'x lib_meaning \<Rightarrow> (h_ingress_configuration, 'x cell) addrs_fun" where [meaning_defs]:
  "addrs_IngressConfiguration M s r = addrs_pair (addrs_map sMap) (addrs_pair (addrs_slice sStrings addrs_value) (addrs_slice sLibs (a_IngressTLS M))) s (hic_Annotations r, hic_Hosts r, hic_TLS r)"

definition den_WebhostingOperatorConfig :: "'x lib_meaning \<Rightarrow> (h_web_config, 'x cell, type_meta \<times> web_config) den_fun" where [meaning_defs]:
  "den_WebhostingOperatorConfig M s r =
     map_option (\<lambda>(client, leader, debugging, timeout, ingress).
       (hwo_TypeMeta r, \<lparr>wcf_ClientConnection = client, wcf_LeaderElection = leader, wcf_Debugging = debugging, wcf_Health = hwo_Health r,
          wcf_Metrics = hwo_Metrics r, wcf_GracefulShutdownTimeout = timeout, wcf_Ingress = ingress\<rparr>))
       (den_pair (den_ptr sClientConnection den_value) (den_pair (den_ptr sLib (d_LeaderElection M)) (den_pair (den_ptr sLib (d_Debugging M)) (den_pair (den_ptr sDuration den_value) (den_ptr sIngressConfiguration (den_IngressConfiguration M))))) s (hwo_ClientConnection r, hwo_LeaderElection r, hwo_Debugging r, hwo_GracefulShutdownTimeout r, hwo_Ingress r))"

definition addrs_WebhostingOperatorConfig :: "'x lib_meaning \<Rightarrow> (h_web_config, 'x cell) addrs_fun" where [meaning_defs]:
  "addrs_WebhostingOperatorConfig M s r = addrs_pair (addrs_ptr sClientConnection addrs_value) (addrs_pair (addrs_ptr sLib (a_LeaderElection M)) (addrs_pair (addrs_ptr sLib (a_Debugging M)) (addrs_pair (addrs_ptr sDuration addrs_value) (addrs_ptr sIngressConfiguration (addrs_IngressConfiguration M))))) s (hwo_ClientConnection r, hwo_LeaderElection r, hwo_Debugging r, hwo_GracefulShutdownTimeout r, hwo_Ingress r)"

section \<open>The functions are deep copies\<close>

lemma deepcopy_docD:
  assumes "deepcopy_doc lib M"
  shows "copier (dl_ObjectMeta lib) (d_ObjectMeta M) (a_ObjectMeta M)"
    "copier (dl_ListMeta lib) (d_ListMeta M) (a_ListMeta M)"
    "copier (dl_LabelSelector lib) (d_LabelSelector M) (a_LabelSelector M)"
    "copier (dl_Condition lib) (d_Condition M) (a_Condition M)"
    "copier (dl_LeaderElection lib) (d_LeaderElection M) (a_LeaderElection M)"
    "copier (dl_Debugging lib) (d_Debugging M) (a_Debugging M)"
    "copier (dl_WebhookClientConfig lib) (d_WebhookClientConfig M) (a_WebhookClientConfig M)"
    "copier (dl_IngressTLS lib) (d_IngressTLS M) (a_IngressTLS M)"
    "copier (dl_MicroTime_DeepCopy lib) (d_MicroTime M) (a_MicroTime M)"
  using assms by (simp_all add: deepcopy_doc_def)

lemma map_bind: "map_option f m = Option.bind m (\<lambda>x. Some (f x))"
  by (cases m) simp_all

lemmas struct_eqs = copy_pair_def map_bind case_prod_beta' Let_def

lemma copier_RingResource:
  shows "copier RingResource_DeepCopyInto den_RingResource addrs_RingResource"
  by (rule copier.struct [OF copier.slice [OF value_copier.copier_axioms slots_ok(7), of "zero_group_resource"],
      where get = "\<lambda>r. (hrr_ControlledResources r)" and put = "\<lambda>h r. r\<lparr>hrr_ControlledResources := h\<rparr>"
        and build = "\<lambda>r. \<lambda>cs. \<lparr>rr_GroupResource = hrr_GroupResource r, rr_ControlledResources = slice_list cs\<rparr>"])
    (simp_all add: RingResource_DeepCopyInto_def den_RingResource_def addrs_RingResource_def struct_eqs)

lemma copier_ControllerRingSpec:
  assumes "deepcopy_doc lib M"
  shows "copier (ControllerRingSpec_DeepCopyInto lib) (den_ControllerRingSpec M) (addrs_ControllerRingSpec M)"
  by (rule copier.struct [OF copier.pair [OF copier.slice [OF copier_RingResource slots_ok(11), of "zero_ring_resource"] copier.ptr [OF deepcopy_docD(3) [OF assms] slots_ok(5)]],
      where get = "\<lambda>r. (hrs_Resources r, hrs_NamespaceSelector r)" and put = "\<lambda>h r. r\<lparr>hrs_Resources := fst h, hrs_NamespaceSelector := (snd h)\<rparr>"
        and build = "\<lambda>r. \<lambda>(rs, sel). \<lparr>rs_Resources = slice_list rs, rs_NamespaceSelector = sel\<rparr>"])
    (simp_all add: ControllerRingSpec_DeepCopyInto_def den_ControllerRingSpec_def addrs_ControllerRingSpec_def struct_eqs)

lemma copier_ControllerRingStatus:
  assumes "deepcopy_doc lib M"
  shows "copier (ControllerRingStatus_DeepCopyInto lib) (den_ControllerRingStatus M) (addrs_ControllerRingStatus M)"
  by (rule copier.struct [OF copier.slice [OF deepcopy_docD(4) [OF assms] slots_ok(6), of "(dl_zero lib)"],
      where get = "\<lambda>r. (hst_Conditions r)" and put = "\<lambda>h r. r\<lparr>hst_Conditions := h\<rparr>"
        and build = "\<lambda>r. \<lambda>cs. \<lparr>st_ObservedGeneration = hst_ObservedGeneration r, st_Shards = hst_Shards r, st_AvailableShards = hst_AvailableShards r, st_Conditions = slice_list cs\<rparr>"])
    (simp_all add: ControllerRingStatus_DeepCopyInto_def den_ControllerRingStatus_def addrs_ControllerRingStatus_def struct_eqs)

lemma copier_ControllerRing:
  assumes "deepcopy_doc lib M"
  shows "copier (ControllerRing_DeepCopyInto lib) (den_ControllerRing M) (addrs_ControllerRing M)"
  by (rule copier.struct [OF copier.pair [OF deepcopy_docD(1) [OF assms] copier.pair [OF copier_ControllerRingSpec [OF assms] copier_ControllerRingStatus [OF assms]]],
      where get = "\<lambda>r. (hcr_ObjectMeta r, hcr_Spec r, hcr_Status r)" and put = "\<lambda>h r. r\<lparr>hcr_ObjectMeta := fst h, hcr_Spec := fst (snd h), hcr_Status := (snd (snd h))\<rparr>"
        and build = "\<lambda>r. \<lambda>(meta, spec, status). (hcr_TypeMeta r, \<lparr>cr_Meta = meta, cr_Spec = spec, cr_Status = status\<rparr>)"])
    (simp_all add: ControllerRing_DeepCopyInto_def den_ControllerRing_def addrs_ControllerRing_def struct_eqs)

lemma copier_ControllerRingList:
  assumes "deepcopy_doc lib M"
  shows "copier (ControllerRingList_DeepCopyInto lib) (den_ControllerRingList M) (addrs_ControllerRingList M)"
  by (rule copier.struct [OF copier.pair [OF deepcopy_docD(2) [OF assms] copier.slice [OF copier_ControllerRing [OF assms] slots_ok(15), of "(zero_controller_ring lib)"]],
      where get = "\<lambda>r. (hl_ListMeta r, hl_Items r)" and put = "\<lambda>h r. r\<lparr>hl_ListMeta := fst h, hl_Items := (snd h)\<rparr>"
        and build = "\<lambda>r. \<lambda>(meta, items). (hl_TypeMeta r, meta, items)"])
    (simp_all add: ControllerRingList_DeepCopyInto_def den_ControllerRingList_def addrs_ControllerRingList_def struct_eqs)

lemma copier_SharderController:
  shows "copier SharderController_DeepCopyInto den_SharderController addrs_SharderController"
  by (rule copier.struct [OF copier.pair [OF copier.ptr [OF value_copier.copier_axioms slots_ok(3)] copier.ptr [OF value_copier.copier_axioms slots_ok(2)]],
      where get = "\<lambda>r. (hsc_SyncPeriod r, hsc_ConcurrentMoves r)" and put = "\<lambda>h r. r\<lparr>hsc_SyncPeriod := fst h, hsc_ConcurrentMoves := (snd h)\<rparr>"
        and build = "\<lambda>r. \<lambda>(period, moves). \<lparr>sc_SyncPeriod = period, sc_ConcurrentMoves = moves\<rparr>"])
    (simp_all add: SharderController_DeepCopyInto_def den_SharderController_def addrs_SharderController_def struct_eqs)

lemma copier_Controller:
  shows "copier Controller_DeepCopyInto den_Controller addrs_Controller"
  by (rule copier.struct [OF copier.ptr [OF copier_SharderController slots_ok(17)],
      where get = "\<lambda>r. (hct_Sharder r)" and put = "\<lambda>h r. r\<lparr>hct_Sharder := h\<rparr>"
        and build = "\<lambda>r. \<lambda>sharder. \<lparr>ctl_Sharder = sharder\<rparr>"])
    (simp_all add: Controller_DeepCopyInto_def den_Controller_def addrs_Controller_def struct_eqs)

lemma copier_WebhookServer:
  shows "copier WebhookServer_DeepCopyInto den_WebhookServer addrs_WebhookServer"
  by (rule copier.struct [OF copier.pair [OF copier.ptr [OF value_copier.copier_axioms slots_ok(1)] copier.pair [OF copier.ptr [OF value_copier.copier_axioms slots_ok(1)] copier.ptr [OF value_copier.copier_axioms slots_ok(1)]]],
      where get = "\<lambda>r. (hws_CertDir r, hws_CertName r, hws_KeyName r)" and put = "\<lambda>h r. r\<lparr>hws_CertDir := fst h, hws_CertName := fst (snd h), hws_KeyName := (snd (snd h))\<rparr>"
        and build = "\<lambda>r. \<lambda>(dir, cert, key). \<lparr>ws_CertDir = dir, ws_CertName = cert, ws_KeyName = key\<rparr>"])
    (simp_all add: WebhookServer_DeepCopyInto_def den_WebhookServer_def addrs_WebhookServer_def struct_eqs)

lemma copier_WebhookConfig:
  assumes "deepcopy_doc lib M"
  shows "copier (WebhookConfig_DeepCopyInto lib) (den_WebhookConfig M) (addrs_WebhookConfig M)"
  by (rule copier.struct [OF copier.pair [OF copier_map [OF slots_ok(4)] copier.pair [OF copier.ptr [OF deepcopy_docD(7) [OF assms] slots_ok(5)] copier.ptr [OF deepcopy_docD(3) [OF assms] slots_ok(5)]]],
      where get = "\<lambda>r. (hwc_Annotations r, hwc_ClientConfig r, hwc_NamespaceSelector r)" and put = "\<lambda>h r. r\<lparr>hwc_Annotations := fst h, hwc_ClientConfig := fst (snd h), hwc_NamespaceSelector := (snd (snd h))\<rparr>"
        and build = "\<lambda>r. \<lambda>(annotations, client, sel). \<lparr>wc_Annotations = map_option map_of annotations, wc_ClientConfig = client, wc_NamespaceSelector = sel\<rparr>"])
    (simp_all add: WebhookConfig_DeepCopyInto_def den_WebhookConfig_def addrs_WebhookConfig_def struct_eqs)

lemma copier_Webhook:
  assumes "deepcopy_doc lib M"
  shows "copier (Webhook_DeepCopyInto lib) (den_Webhook M) (addrs_Webhook M)"
  by (rule copier.struct [OF copier.pair [OF copier.ptr [OF copier_WebhookServer slots_ok(19)] copier.ptr [OF copier_WebhookConfig [OF assms] slots_ok(20)]],
      where get = "\<lambda>r. (hwh_Server r, hwh_Config r)" and put = "\<lambda>h r. r\<lparr>hwh_Server := fst h, hwh_Config := (snd h)\<rparr>"
        and build = "\<lambda>r. \<lambda>(server, config). \<lparr>wh_Server = server, wh_Config = config\<rparr>"])
    (simp_all add: Webhook_DeepCopyInto_def den_Webhook_def addrs_Webhook_def struct_eqs)

lemma copier_SharderConfig:
  assumes "deepcopy_doc lib M"
  shows "copier (SharderConfig_DeepCopyInto lib) (den_SharderConfig M) (addrs_SharderConfig M)"
  by (rule copier.struct [OF copier.pair [OF copier.ptr [OF value_copier.copier_axioms slots_ok(9)] copier.pair [OF copier.ptr [OF deepcopy_docD(5) [OF assms] slots_ok(5)] copier.pair [OF copier.ptr [OF deepcopy_docD(6) [OF assms] slots_ok(5)] copier.pair [OF copier_Controller copier.pair [OF copier_Webhook [OF assms] copier.ptr [OF value_copier.copier_axioms slots_ok(3)]]]]]],
      where get = "\<lambda>r. (hsh_ClientConnection r, hsh_LeaderElection r, hsh_Debugging r, hsh_Controller r, hsh_Webhook r, hsh_GracefulShutdownTimeout r)" and put = "\<lambda>h r. r\<lparr>hsh_ClientConnection := fst h, hsh_LeaderElection := fst (snd h), hsh_Debugging := fst (snd (snd h)), hsh_Controller := fst (snd (snd (snd h))), hsh_Webhook := fst (snd (snd (snd (snd h)))), hsh_GracefulShutdownTimeout := (snd (snd (snd (snd (snd h)))))\<rparr>"
        and build = "\<lambda>r. \<lambda>(client, leader, debugging, controller, webhook, timeout).
       (hsh_TypeMeta r, \<lparr>c_ClientConnection = client, c_LeaderElection = leader, c_Debugging = debugging, c_Health = hsh_Health r,
          c_Metrics = hsh_Metrics r, c_Controller = controller, c_Webhook = webhook, c_GracefulShutdownTimeout = timeout\<rparr>)"])
    (simp_all add: SharderConfig_DeepCopyInto_def den_SharderConfig_def addrs_SharderConfig_def struct_eqs)

lemma copier_Theme:
  assumes "deepcopy_doc lib M"
  shows "copier (Theme_DeepCopyInto lib) (den_Theme M) (addrs_Theme M)"
  by (rule copier.struct [OF deepcopy_docD(1) [OF assms],
      where get = "\<lambda>r. (hth_ObjectMeta r)" and put = "\<lambda>h r. r\<lparr>hth_ObjectMeta := h\<rparr>"
        and build = "\<lambda>r. \<lambda>meta. (hth_TypeMeta r, \<lparr>th_Meta = meta, th_Spec = hth_Spec r\<rparr>, hth_Status r)"])
    (simp_all add: Theme_DeepCopyInto_def den_Theme_def addrs_Theme_def struct_eqs)

lemma copier_ThemeList:
  assumes "deepcopy_doc lib M"
  shows "copier (ThemeList_DeepCopyInto lib) (den_ThemeList M) (addrs_ThemeList M)"
  by (rule copier.struct [OF copier.pair [OF deepcopy_docD(2) [OF assms] copier.slice [OF copier_Theme [OF assms] slots_ok(28), of "(zero_theme lib)"]],
      where get = "\<lambda>r. (hl_ListMeta r, hl_Items r)" and put = "\<lambda>h r. r\<lparr>hl_ListMeta := fst h, hl_Items := (snd h)\<rparr>"
        and build = "\<lambda>r. \<lambda>(meta, items). (hl_TypeMeta r, meta, items)"])
    (simp_all add: ThemeList_DeepCopyInto_def den_ThemeList_def addrs_ThemeList_def struct_eqs)

lemma copier_WebsiteStatus:
  assumes "deepcopy_doc lib M"
  shows "copier (WebsiteStatus_DeepCopyInto lib) (den_WebsiteStatus M) (addrs_WebsiteStatus M)"
  by (rule copier.struct [OF nonnil [OF deepcopy_docD(9) [OF assms]],
      where get = "\<lambda>r. (hwst_LastTransitionTime r)" and put = "\<lambda>h r. r\<lparr>hwst_LastTransitionTime := h\<rparr>"
        and build = "\<lambda>r. \<lambda>last. \<lparr>wst_ObservedGeneration = hwst_ObservedGeneration r, wst_Phase = hwst_Phase r, wst_LastTransitionTime = last\<rparr>"])
    (simp_all add: WebsiteStatus_DeepCopyInto_def den_WebsiteStatus_def addrs_WebsiteStatus_def struct_eqs)

lemma copier_Website:
  assumes "deepcopy_doc lib M"
  shows "copier (Website_DeepCopyInto lib) (den_Website M) (addrs_Website M)"
  by (rule copier.struct [OF copier.pair [OF deepcopy_docD(1) [OF assms] copier_WebsiteStatus [OF assms]],
      where get = "\<lambda>r. (hwb_ObjectMeta r, hwb_Status r)" and put = "\<lambda>h r. r\<lparr>hwb_ObjectMeta := fst h, hwb_Status := (snd h)\<rparr>"
        and build = "\<lambda>r. \<lambda>(meta, status). (hwb_TypeMeta r, \<lparr>web_Meta = meta, web_Spec = hwb_Spec r, web_Status = status\<rparr>)"])
    (simp_all add: Website_DeepCopyInto_def den_Website_def addrs_Website_def struct_eqs)

lemma copier_WebsiteList:
  assumes "deepcopy_doc lib M"
  shows "copier (WebsiteList_DeepCopyInto lib) (den_WebsiteList M) (addrs_WebsiteList M)"
  by (rule copier.struct [OF copier.pair [OF deepcopy_docD(2) [OF assms] copier.slice [OF copier_Website [OF assms] slots_ok(33), of "(zero_website lib)"]],
      where get = "\<lambda>r. (hl_ListMeta r, hl_Items r)" and put = "\<lambda>h r. r\<lparr>hl_ListMeta := fst h, hl_Items := (snd h)\<rparr>"
        and build = "\<lambda>r. \<lambda>(meta, items). (hl_TypeMeta r, meta, items)"])
    (simp_all add: WebsiteList_DeepCopyInto_def den_WebsiteList_def addrs_WebsiteList_def struct_eqs)

lemma copier_IngressConfiguration:
  assumes "deepcopy_doc lib M"
  shows "copier (IngressConfiguration_DeepCopyInto lib) (den_IngressConfiguration M) (addrs_IngressConfiguration M)"
  by (rule copier.struct [OF copier.pair [OF copier_map [OF slots_ok(4)] copier.pair [OF copier.slice [OF value_copier.copier_axioms slots_ok(8), of "[]"] copier.slice [OF deepcopy_docD(8) [OF assms] slots_ok(6), of "(dl_zero lib)"]]],
      where get = "\<lambda>r. (hic_Annotations r, hic_Hosts r, hic_TLS r)" and put = "\<lambda>h r. r\<lparr>hic_Annotations := fst h, hic_Hosts := fst (snd h), hic_TLS := (snd (snd h))\<rparr>"
        and build = "\<lambda>r. \<lambda>(annotations, hosts, tls). \<lparr>ic_Annotations = slice_list annotations, ic_Hosts = slice_list hosts, ic_TLS = slice_list tls\<rparr>"])
    (simp_all add: IngressConfiguration_DeepCopyInto_def den_IngressConfiguration_def addrs_IngressConfiguration_def struct_eqs)

lemma copier_WebhostingOperatorConfig:
  assumes "deepcopy_doc lib M"
  shows "copier (WebhostingOperatorConfig_DeepCopyInto lib) (den_WebhostingOperatorConfig M) (addrs_WebhostingOperatorConfig M)"
  by (rule copier.struct [OF copier.pair [OF copier.ptr [OF value_copier.copier_axioms slots_ok(9)] copier.pair [OF copier.ptr [OF deepcopy_docD(5) [OF assms] slots_ok(5)] copier.pair [OF copier.ptr [OF deepcopy_docD(6) [OF assms] slots_ok(5)] copier.pair [OF copier.ptr [OF value_copier.copier_axioms slots_ok(3)] copier.ptr [OF copier_IngressConfiguration [OF assms] slots_ok(35)]]]]],
      where get = "\<lambda>r. (hwo_ClientConnection r, hwo_LeaderElection r, hwo_Debugging r, hwo_GracefulShutdownTimeout r, hwo_Ingress r)" and put = "\<lambda>h r. r\<lparr>hwo_ClientConnection := fst h, hwo_LeaderElection := fst (snd h), hwo_Debugging := fst (snd (snd h)), hwo_GracefulShutdownTimeout := fst (snd (snd (snd h))), hwo_Ingress := (snd (snd (snd (snd h))))\<rparr>"
        and build = "\<lambda>r. \<lambda>(client, leader, debugging, timeout, ingress).
       (hwo_TypeMeta r, \<lparr>wcf_ClientConnection = client, wcf_LeaderElection = leader, wcf_Debugging = debugging, wcf_Health = hwo_Health r,
          wcf_Metrics = hwo_Metrics r, wcf_GracefulShutdownTimeout = timeout, wcf_Ingress = ingress\<rparr>)"])
    (simp_all add: WebhostingOperatorConfig_DeepCopyInto_def den_WebhostingOperatorConfig_def addrs_WebhostingOperatorConfig_def struct_eqs)

interpretation ring_resource: copier RingResource_DeepCopyInto den_RingResource addrs_RingResource
  by (rule copier_RingResource)

interpretation sharder_controller: copier SharderController_DeepCopyInto den_SharderController addrs_SharderController
  by (rule copier_SharderController)

interpretation webhook_server: copier WebhookServer_DeepCopyInto den_WebhookServer addrs_WebhookServer
  by (rule copier_WebhookServer)

text \<open>The interface value of \<^verbatim>\<open>DeepCopyObject\<close> is nil exactly if the pointer is.\<close>

lemma DeepCopyObject_nil:
  "generated_DeepCopyObject ty (generated_DeepCopy k copy) p s = Some (obj, s') \<Longrightarrow> obj = None \<longleftrightarrow> p = None"
  by (auto simp: generated_DeepCopyObject_def generated_DeepCopy_def copy_ptr_def copy_nonnil_def bind_eq_Some_conv split: option.splits if_splits)

lemma DeepCopyObject_copy:
  "generated_DeepCopyObject ty (generated_DeepCopy k copy) (Some a) s =
     map_option (\<lambda>(c, s). (Some (ty, c), s)) (generated_DeepCopy k copy (Some a) s)"
  by (auto simp: generated_DeepCopyObject_def generated_DeepCopy_def copy_ptr_def copy_nonnil_def split: bind_splits)

section \<open>Properties\<close>

text \<open>
  A copy function takes snapshots of what pointers denote: it returns for every pointer of a typed memory, without
  writing to an existing cell; the copy denotes what the original denotes, and it keeps doing so whatever
  is written later to the memory that existed before; later writes to the memory of the copy do not change the original.
\<close>

definition takes_snapshots :: "(addr option, 'c) copy_fun \<Rightarrow> (addr option, 'c, 'v) den_fun \<Rightarrow> bool" where
  "takes_snapshots DeepCopy den \<longleftrightarrow>
     (\<forall>s p v. den s p = Some v \<longrightarrow>
        (\<exists>p' t. DeepCopy p s = Some (p', s @ t) \<and> den (s @ t) p' = Some v \<and>
          (\<forall>s'. same_on {length s..<length (s @ t)} (s @ t) s' \<longrightarrow> den s' p' = Some v) \<and>
          (\<forall>s'. same_on {..<length s} (s @ t) s' \<longrightarrow> den s' p = Some v)))"

lemma takes_snapshotsI:
  assumes "copier copy den addrs" and "slot_ok k"
  shows "takes_snapshots (generated_DeepCopy k copy) (den_ptr k den)"
  using copier.isolated [OF copier.ptr [OF assms]] by (simp add: takes_snapshots_def generated_DeepCopy_def)

text \<open>C36: The deep copy functions of all objects and configurations take snapshots, if those of Kubernetes' own types
  do what is documented: a snapshot of an object that was taken before a change shows the object as it was.\<close>

theorem deep_copies_are_snapshots:
  assumes "deepcopy_doc lib M"
  shows "takes_snapshots (ControllerRing_DeepCopy lib) (den_ptr sControllerRing (den_ControllerRing M)) \<and>
    takes_snapshots (ControllerRingList_DeepCopy lib) (den_ptr sControllerRingList (den_ControllerRingList M)) \<and>
    takes_snapshots (SharderConfig_DeepCopy lib) (den_ptr sSharderConfig (den_SharderConfig M)) \<and>
    takes_snapshots (Theme_DeepCopy lib) (den_ptr sTheme (den_Theme M)) \<and>
    takes_snapshots (ThemeList_DeepCopy lib) (den_ptr sThemeList (den_ThemeList M)) \<and>
    takes_snapshots (Website_DeepCopy lib) (den_ptr sWebsite (den_Website M)) \<and>
    takes_snapshots (WebsiteList_DeepCopy lib) (den_ptr sWebsiteList (den_WebsiteList M)) \<and>
    takes_snapshots (WebhostingOperatorConfig_DeepCopy lib) (den_ptr sWebConfig (den_WebhostingOperatorConfig M))"
  unfolding ControllerRing_DeepCopy_def ControllerRingList_DeepCopy_def SharderConfig_DeepCopy_def Theme_DeepCopy_def
    ThemeList_DeepCopy_def Website_DeepCopy_def WebsiteList_DeepCopy_def WebhostingOperatorConfig_DeepCopy_def
  by (intro conjI takes_snapshotsI slots_ok) (rule copier_ControllerRing copier_ControllerRingList copier_SharderConfig copier_Theme
    copier_ThemeList copier_Website copier_WebsiteList copier_WebhostingOperatorConfig, rule assms)+

text \<open>An instance: representations of Kubernetes' types without references, times behind a pointer.\<close>

datatype sample_rep = RMeta object_meta | RListMeta list_meta | RSelector label_selector | RCondition condition
  | RLeaderElection leader_election | RDebugging debugging | RClientConfig webhook_client_config | RTLS ingress_tls | RTime time

definition time_copy :: "(addr, sample_rep cell) copy_fun" where
  "time_copy a s = do { v \<leftarrow> load sLib s a; let (a', s) = new sLib v s; Some (a', s) }"

definition sample_deepcopy_lib :: "sample_rep deepcopy_lib" where
  "sample_deepcopy_lib = \<lparr>dl_ObjectMeta = copy_value, dl_ListMeta = copy_value, dl_LabelSelector = copy_value, dl_Condition = copy_value,
     dl_LeaderElection = copy_value, dl_Debugging = copy_value, dl_WebhookClientConfig = copy_value, dl_IngressTLS = copy_value,
     dl_MicroTime_DeepCopy = time_copy, dl_zero = RTime 0\<rparr>"

definition sample_meaning :: "sample_rep lib_meaning" where
  "sample_meaning = \<lparr>d_ObjectMeta = \<lambda>s h. case h of RMeta v \<Rightarrow> Some v | _ \<Rightarrow> None, d_ListMeta = \<lambda>s h. case h of RListMeta v \<Rightarrow> Some v | _ \<Rightarrow> None,
     d_LabelSelector = \<lambda>s h. case h of RSelector v \<Rightarrow> Some v | _ \<Rightarrow> None, d_Condition = \<lambda>s h. case h of RCondition v \<Rightarrow> Some v | _ \<Rightarrow> None,
     d_LeaderElection = \<lambda>s h. case h of RLeaderElection v \<Rightarrow> Some v | _ \<Rightarrow> None, d_Debugging = \<lambda>s h. case h of RDebugging v \<Rightarrow> Some v | _ \<Rightarrow> None,
     d_WebhookClientConfig = \<lambda>s h. case h of RClientConfig v \<Rightarrow> Some v | _ \<Rightarrow> None, d_IngressTLS = \<lambda>s h. case h of RTLS v \<Rightarrow> Some v | _ \<Rightarrow> None,
     d_MicroTime = \<lambda>s a. case load sLib s a of Some (RTime t) \<Rightarrow> Some t | _ \<Rightarrow> None,
     a_ObjectMeta = addrs_value, a_ListMeta = addrs_value, a_LabelSelector = addrs_value, a_Condition = addrs_value,
     a_LeaderElection = addrs_value, a_Debugging = addrs_value, a_WebhookClientConfig = addrs_value, a_IngressTLS = addrs_value,
     a_MicroTime = \<lambda>s a. {a}\<rparr>"

lemma copier_by_value: "copier copy_value (\<lambda>s. f) addrs_value"
  by unfold_locales (simp_all add: copy_value_def addrs_value_def)

lemma copier_time: "copier time_copy (\<lambda>s a. case load sLib s a of Some (RTime t) \<Rightarrow> Some t | _ \<Rightarrow> None) (\<lambda>s a. {a})"
proof
  fix s :: "sample_rep cell heap" and a t
  assume "(case load sLib s a of Some (RTime t) \<Rightarrow> Some t | _ \<Rightarrow> None) = Some t"
  then have l: "load sLib s a = Some (RTime t)" by (auto split: option.splits sample_rep.splits)
  then show "{a} \<subseteq> {..<length s}" by (simp add: load_inside)
  show "(case load sLib s' a of Some (RTime t) \<Rightarrow> Some t | _ \<Rightarrow> None) = Some t \<and> {a} = {a}" if "same_on {a} s s'" for s'
    using load_same [OF l, of s'] that by (simp add: same_on_def)
  show "\<exists>a' u. time_copy a s = Some (a', s @ u) \<and> (case load sLib (s @ u) a' of Some (RTime t) \<Rightarrow> Some t | _ \<Rightarrow> None) = Some t \<and> {a'} \<subseteq> {length s..<length (s @ u)}"
    using l by (intro exI [of _ "length s"] exI [of _ "[mk sLib (RTime t)]"]) (simp add: time_copy_def new_def)
qed

lemma sample_deepcopy_doc: "deepcopy_doc sample_deepcopy_lib sample_meaning"
  by (simp add: deepcopy_doc_def sample_deepcopy_lib_def sample_meaning_def copier_by_value copier_time)

text \<open>A ring in memory with one condition; its status is overwritten after the snapshot.\<close>

definition sample_ring_heap :: "sample_rep cell heap" where
  "sample_ring_heap =
     [CLibs [RCondition \<lparr>cond_Type = ''Ready'', cond_Status = ''False'', cond_ObservedGeneration = 1, cond_LastTransitionTime = 0, cond_Reason = [], cond_Message = []\<rparr>],
      CControllerRing \<lparr>hcr_TypeMeta = zero_type_meta, hcr_ObjectMeta = RMeta empty_meta,
        hcr_Spec = \<lparr>hrs_Resources = None, hrs_NamespaceSelector = None\<rparr>,
        hcr_Status = \<lparr>hst_ObservedGeneration = 1, hst_Shards = 0, hst_AvailableShards = 0,
          hst_Conditions = Some \<lparr>sl_Array = 0, sl_Off = 0, sl_Len = 1\<rparr>\<rparr>\<rparr>]"

lemma deep_copies_are_snapshots_witness:
  "\<exists>p' t ring. ControllerRing_DeepCopy sample_deepcopy_lib (Some 1) sample_ring_heap = Some (p', sample_ring_heap @ t) \<and>
     map cond_Status (st_Conditions (cr_Status ring)) = [''False''] \<and>
     den_ptr sControllerRing (den_ControllerRing sample_meaning) (store sLibs 0 [] (sample_ring_heap @ t)) p' = Some (Some (zero_type_meta, ring))"
proof -
  let ?den = "den_ptr sControllerRing (den_ControllerRing sample_meaning)"
  obtain ring where ring: "?den sample_ring_heap (Some 1) = Some (Some (zero_type_meta, ring))" "map cond_Status (st_Conditions (cr_Status ring)) = [''False'']"
    by (simp add: sample_ring_heap_def den_ptr_def den_nonnil_def den_ref_def load_def slot_defs meaning_defs den_pair_def den_slice_def den_array_def
        elems_def sample_meaning_def slice_list_def)
  have "takes_snapshots (ControllerRing_DeepCopy sample_deepcopy_lib) ?den"
    using deep_copies_are_snapshots [OF sample_deepcopy_doc] by (rule conjunct1)
  then obtain p' t where c: "ControllerRing_DeepCopy sample_deepcopy_lib (Some 1) sample_ring_heap = Some (p', sample_ring_heap @ t)"
    "\<forall>s'. same_on {length sample_ring_heap..<length (sample_ring_heap @ t)} (sample_ring_heap @ t) s' \<longrightarrow> ?den s' p' = Some (Some (zero_type_meta, ring))"
    using ring(1) unfolding takes_snapshots_def by blast
  have "same_on {length sample_ring_heap..<length (sample_ring_heap @ t)} (sample_ring_heap @ t) (store sLibs 0 [] (sample_ring_heap @ t))"
    by (simp add: same_on_def store_def sample_ring_heap_def)
  with c(2) have "?den (store sLibs 0 [] (sample_ring_heap @ t)) p' = Some (Some (zero_type_meta, ring))" by (elim allE impE)
  then show ?thesis using c(1) ring(2) by (intro exI conjI)
qed

end
