(* ===== verification/Shutdown.thy ===== *)
theory Shutdown
  imports K8s_Lib Progress
begin

text \<open>
  How the processes end: the last part of \<^verbatim>\<open>run\<close> in \<^verbatim>\<open>cmd/checksum-controller/main.go\<close>, which delays the
  shutdown of its manager, and \<^verbatim>\<open>PersistentPostRunE\<close> in \<^verbatim>\<open>webhosting-operator/cmd/experiment/main.go\<close>, which
  stops its manager when the scenario is done. Both are several goroutines that communicate by channels and
  contexts: step relations, in which every step may take any time. The manager is outside code. Its documentation:
  \<^verbatim>\<open>Start\<close> blocks until the context is cancelled and returns an error if a runnable fails or leadership is lost.
  The signal, the end of the scenario and a failure of the manager are steps of the environment.
\<close>

section \<open>The checksum controller\<close>

datatype main_pc = AwaitSignal | AwaitTimer time | AwaitManager | MainReturned "go_error option"

datatype manager_pc = Running | StartReturned "go_error option" | ManagerSent "go_error option"

record run_state =
  rs_now :: time
  rs_signal :: "time option"
  rs_main :: main_pc
  rs_managerCancelled :: "time option"
  rs_manager :: manager_pc
  rs_managerDone :: "go_error option list"

definition run_init :: "time \<Rightarrow> run_state" where
  "run_init now = \<lparr>rs_now = now, rs_signal = None, rs_main = AwaitSignal, rs_managerCancelled = None, rs_manager = Running, rs_managerDone = []\<rparr>"

text \<open>
  The signal cancels the context of the command. \<^verbatim>\<open>managerDone\<close> has room for one element, so the goroutine of the
  manager never blocks on it.
\<close>

inductive run_step :: "run_state \<Rightarrow> run_state \<Rightarrow> bool" where
  signal: "rs_signal s = None \<Longrightarrow> rs_now s \<le> t \<Longrightarrow> run_step s (s\<lparr>rs_now := t, rs_signal := Some t\<rparr>)"
| ctx_done: "rs_main s = AwaitSignal \<Longrightarrow> rs_signal s \<noteq> None \<Longrightarrow> rs_now s \<le> t \<Longrightarrow>
    run_step s (s\<lparr>rs_now := t, rs_main := AwaitTimer t\<rparr>)"
| time_after: "rs_main s = AwaitTimer t0 \<Longrightarrow> rs_now s \<le> t \<Longrightarrow> t0 + 2 * Second \<le> t \<Longrightarrow>
    run_step s (s\<lparr>rs_now := t, rs_main := AwaitManager, rs_managerCancelled := Some t\<rparr>)"
| manager_fails: "rs_manager s = Running \<Longrightarrow> rs_now s \<le> t \<Longrightarrow> run_step s (s\<lparr>rs_now := t, rs_manager := StartReturned (Some err)\<rparr>)"
| manager_stops: "rs_manager s = Running \<Longrightarrow> rs_managerCancelled s \<noteq> None \<Longrightarrow> rs_now s \<le> t \<Longrightarrow>
    run_step s (s\<lparr>rs_now := t, rs_manager := StartReturned r\<rparr>)"
| manager_sends: "rs_manager s = StartReturned r \<Longrightarrow> length (rs_managerDone s) < 1 \<Longrightarrow> rs_now s \<le> t \<Longrightarrow>
    run_step s (s\<lparr>rs_now := t, rs_manager := ManagerSent r, rs_managerDone := rs_managerDone s @ [r]\<rparr>)"
| main_receives: "rs_main s = AwaitManager \<Longrightarrow> rs_managerDone s = r # rs \<Longrightarrow> rs_now s \<le> t \<Longrightarrow>
    run_step s (s\<lparr>rs_now := t, rs_main := MainReturned r, rs_managerDone := rs\<rparr>)"

inductive_cases run_stepE: "run_step s s'"

section \<open>The experiment\<close>

datatype watcher_pc = Watching | Grace time | WatcherDone

record post_state =
  ps_now :: time
  ps_interrupted :: bool
  ps_scenarioDone :: "time option"
  ps_cancelled :: "time option"
  ps_watcher :: watcher_pc
  ps_result :: "go_error option option"

definition post_init :: "time \<Rightarrow> post_state" where
  "post_init now = \<lparr>ps_now = now, ps_interrupted = False, ps_scenarioDone = None, ps_cancelled = None, ps_watcher = Watching, ps_result = None\<rparr>"

text \<open>
  \<^verbatim>\<open>ps_result\<close> is what \<^verbatim>\<open>mgr.Start\<close> and with it the command returned; the deferred \<^verbatim>\<open>cancel\<close> runs then. An interrupt
  cancels the command's context and the derived one with it.
\<close>

definition cancel_at :: "time \<Rightarrow> post_state \<Rightarrow> post_state" where
  "cancel_at t s = s\<lparr>ps_cancelled := (case ps_cancelled s of None \<Rightarrow> Some t | Some t0 \<Rightarrow> Some t0)\<rparr>"

text \<open>
  The steps of the program: of the watching goroutine, and of the manager, whose \<^verbatim>\<open>Start\<close> returns once its context is cancelled.
\<close>

inductive post_prog :: "bool \<Rightarrow> post_state \<Rightarrow> post_state \<Rightarrow> bool" for inCluster where
  sees_cancel: "ps_watcher s = Watching \<Longrightarrow> ps_cancelled s \<noteq> None \<Longrightarrow> ps_now s \<le> t \<Longrightarrow>
    post_prog inCluster s (s\<lparr>ps_now := t, ps_watcher := WatcherDone\<rparr>)"
| sees_done: "ps_watcher s = Watching \<Longrightarrow> ps_scenarioDone s \<noteq> None \<Longrightarrow> inCluster \<Longrightarrow> ps_now s \<le> t \<Longrightarrow>
    post_prog inCluster s (s\<lparr>ps_now := t, ps_watcher := Grace t\<rparr>)"
| sees_done_local: "ps_watcher s = Watching \<Longrightarrow> ps_scenarioDone s \<noteq> None \<Longrightarrow> \<not> inCluster \<Longrightarrow> ps_now s \<le> t \<Longrightarrow>
    post_prog inCluster s (cancel_at t (s\<lparr>ps_now := t, ps_watcher := WatcherDone\<rparr>))"
| grace_over: "ps_watcher s = Grace t0 \<Longrightarrow> ps_now s \<le> t \<Longrightarrow> t0 + Minute \<le> t \<Longrightarrow>
    post_prog inCluster s (cancel_at t (s\<lparr>ps_now := t, ps_watcher := WatcherDone\<rparr>))"
| start_stops: "ps_result s = None \<Longrightarrow> ps_cancelled s \<noteq> None \<Longrightarrow> ps_now s \<le> t \<Longrightarrow>
    post_prog inCluster s (s\<lparr>ps_now := t, ps_result := Some r\<rparr>)"

inductive_cases post_progE: "post_prog inCluster s s'"

text \<open>What the environment may do, or never do: interrupt the command, complete the scenario, let the manager fail.\<close>

inductive post_env :: "post_state \<Rightarrow> post_state \<Rightarrow> bool" where
  interrupt: "\<not> ps_interrupted s \<Longrightarrow> ps_now s \<le> t \<Longrightarrow> post_env s (cancel_at t (s\<lparr>ps_now := t, ps_interrupted := True\<rparr>))"
| scenario_done: "ps_scenarioDone s = None \<Longrightarrow> ps_now s \<le> t \<Longrightarrow> post_env s (s\<lparr>ps_now := t, ps_scenarioDone := Some t\<rparr>)"
| start_fails: "ps_result s = None \<Longrightarrow> ps_now s \<le> t \<Longrightarrow> post_env s (cancel_at t (s\<lparr>ps_now := t, ps_result := Some (Some err)\<rparr>))"

inductive_cases post_envE: "post_env s s'"

definition post_step :: "bool \<Rightarrow> post_state \<Rightarrow> post_state \<Rightarrow> bool" where
  "post_step inCluster s s' \<longleftrightarrow> post_prog inCluster s s' \<or> post_env s s'"

section \<open>Invariants and measures\<close>

text \<open>What \<^verbatim>\<open>run\<close> returns is what the manager returned, no sooner than two seconds after the signal.\<close>

fun main_ok :: "run_state \<Rightarrow> bool" where
  "main_ok s = (case rs_main s of
      AwaitSignal \<Rightarrow> rs_managerCancelled s = None
    | AwaitTimer t0 \<Rightarrow> rs_managerCancelled s = None \<and> (\<exists>t. rs_signal s = Some t \<and> t \<le> t0)
    | _ \<Rightarrow> (\<exists>t t'. rs_signal s = Some t \<and> rs_managerCancelled s = Some t' \<and> t + 2 * Second \<le> t'))"

definition run_inv :: "run_state \<Rightarrow> bool" where
  "run_inv s \<longleftrightarrow> main_ok s \<and>
     (\<forall>t. rs_signal s = Some t \<longrightarrow> t \<le> rs_now s) \<and> (\<forall>t. rs_managerCancelled s = Some t \<longrightarrow> t \<le> rs_now s) \<and>
     (case rs_manager s of
        ManagerSent r \<Rightarrow> rs_managerDone s = [r] \<and> (\<nexists>r. rs_main s = MainReturned r) \<or> rs_managerDone s = [] \<and> rs_main s = MainReturned r
      | _ \<Rightarrow> rs_managerDone s = [] \<and> (\<nexists>r. rs_main s = MainReturned r))"

fun main_msr :: "main_pc \<Rightarrow> nat" where
  "main_msr AwaitSignal = 3" | "main_msr (AwaitTimer t) = 2" | "main_msr AwaitManager = 1" | "main_msr (MainReturned r) = 0"

fun manager_msr :: "manager_pc \<Rightarrow> nat" where
  "manager_msr Running = 2" | "manager_msr (StartReturned r) = 1" | "manager_msr (ManagerSent r) = 0"

definition run_msr :: "run_state \<Rightarrow> nat" where
  "run_msr s = (if rs_signal s = None then 1 else 0) + main_msr (rs_main s) + manager_msr (rs_manager s)"

definition run_final :: "run_state \<Rightarrow> bool" where
  "run_final s \<longleftrightarrow> rs_signal s \<noteq> None \<and> (\<exists>r. rs_main s = MainReturned r)"

lemma Second_pos [simp]: "0 < Second" by (simp add: Second_def)

lemma manager_progress:
  assumes inv: "run_inv s" and main: "rs_main s = AwaitManager"
  shows "\<exists>s'. run_step s s'"
proof (cases "rs_manager s")
  case Running
  have "rs_managerCancelled s \<noteq> None" using inv main by (auto simp: run_inv_def)
  then show ?thesis using Running run_step.manager_stops [of s "rs_now s"] by auto
next
  case (StartReturned r)
  then have "rs_managerDone s = []" using inv by (simp add: run_inv_def)
  then show ?thesis using StartReturned run_step.manager_sends [of s r "rs_now s"] by auto
next
  case (ManagerSent r)
  then have "rs_managerDone s = [r]" using inv main by (auto simp: run_inv_def)
  then show ?thesis using main run_step.main_receives [of s r "[]" "rs_now s"] by auto
qed

lemma run_progress:
  assumes inv: "run_inv s" and nf: "\<not> run_final s"
  shows "\<exists>s'. run_step s s'"
proof (cases "rs_signal s")
  case None
  then show ?thesis using run_step.signal [of s "rs_now s"] by blast
next
  case (Some t)
  show ?thesis
  proof (cases "rs_main s")
    case AwaitSignal
    then show ?thesis using Some run_step.ctx_done [of s "rs_now s"] by auto
  next
    case (AwaitTimer t0)
    then show ?thesis using run_step.time_after [of s t0 "max (rs_now s) (t0 + 2 * Second)"] by auto
  next
    case AwaitManager
    then show ?thesis by (rule manager_progress [OF inv])
  next
    case (MainReturned r)
    then show ?thesis using nf Some by (simp add: run_final_def)
  qed
qed

interpretation shutdown: progressing run_step run_inv run_final run_msr
proof
  fix s s'
  assume inv: "run_inv s" and step: "run_step s s'"
  from step inv show "run_inv s'"
    by cases (auto simp: run_inv_def split: main_pc.splits manager_pc.splits if_splits)
  from step show "run_msr s' < run_msr s"
    by cases (auto simp: run_msr_def)
qed (rule run_progress)

definition post_inv :: "bool \<Rightarrow> post_state \<Rightarrow> bool" where
  "post_inv inCluster s \<longleftrightarrow>
     (\<forall>td. ps_scenarioDone s = Some td \<longrightarrow> td \<le> ps_now s) \<and> (\<forall>t. ps_cancelled s = Some t \<longrightarrow> t \<le> ps_now s) \<and>
     (\<forall>t0. ps_watcher s = Grace t0 \<longrightarrow> inCluster \<and> (\<exists>td. ps_scenarioDone s = Some td \<and> td \<le> t0)) \<and>
     (ps_watcher s = WatcherDone \<longrightarrow> ps_cancelled s \<noteq> None) \<and> (ps_result s \<noteq> None \<longrightarrow> ps_cancelled s \<noteq> None) \<and>
     (\<forall>t. ps_cancelled s = Some t \<longrightarrow> ps_interrupted s \<or> (\<exists>err. ps_result s = Some (Some err)) \<or>
        (\<exists>td. ps_scenarioDone s = Some td \<and> td + (if inCluster then Minute else 0) \<le> t))"

fun watcher_msr :: "watcher_pc \<Rightarrow> nat" where
  "watcher_msr Watching = 2" | "watcher_msr (Grace t) = 1" | "watcher_msr WatcherDone = 0"

definition post_msr :: "post_state \<Rightarrow> nat" where
  "post_msr s = (if ps_interrupted s then 0 else 1) + (if ps_scenarioDone s = None then 1 else 0) + watcher_msr (ps_watcher s) +
     (if ps_result s = None then 1 else 0)"

definition post_final :: "post_state \<Rightarrow> bool" where
  "post_final s \<longleftrightarrow> ps_result s \<noteq> None \<and> ps_watcher s = WatcherDone"

text \<open>The program has been told to stop: by the end of the scenario, an interrupt or a failure.\<close>

definition told_to_stop :: "post_state \<Rightarrow> bool" where
  "told_to_stop s \<longleftrightarrow> ps_scenarioDone s \<noteq> None \<or> ps_cancelled s \<noteq> None"

lemma post_progress:
  assumes "post_inv inCluster s" and "told_to_stop s" and "\<not> post_final s"
  shows "\<exists>s'. post_prog inCluster s s'"
proof (cases "ps_watcher s")
  case Watching
  consider "ps_cancelled s \<noteq> None" | "ps_scenarioDone s \<noteq> None" inCluster | "ps_scenarioDone s \<noteq> None" "\<not> inCluster"
    using assms(2) by (auto simp: told_to_stop_def)
  then show ?thesis
    using Watching post_prog.sees_cancel [of s "ps_now s"] post_prog.sees_done [of s inCluster "ps_now s"]
      post_prog.sees_done_local [of s inCluster "ps_now s"] by cases blast+
next
  case (Grace t0)
  then show ?thesis using post_prog.grace_over [of s t0 "max (ps_now s) (t0 + Minute)"] by auto
next
  case WatcherDone
  then have "ps_cancelled s \<noteq> None" "ps_result s = None" using assms by (auto simp: post_inv_def post_final_def)
  then show ?thesis using post_prog.start_stops [of s "ps_now s"] by blast
qed

lemma post_step_inv: "post_inv inCluster s \<Longrightarrow> post_step inCluster s s' \<Longrightarrow> post_inv inCluster s'"
  unfolding post_step_def
  by (elim disjE post_progE post_envE) (auto simp: post_inv_def cancel_at_def split: option.splits)

lemma post_step_decreases: "post_step inCluster s s' \<Longrightarrow> post_msr s' < post_msr s"
  unfolding post_step_def
  by (elim disjE post_progE post_envE) (auto simp: post_msr_def cancel_at_def)

lemma told_to_stop_step: "told_to_stop s \<Longrightarrow> post_step inCluster s s' \<Longrightarrow> told_to_stop s'"
  unfolding post_step_def
  by (elim disjE post_progE post_envE) (auto simp: told_to_stop_def cancel_at_def split: option.splits)

text \<open>All steps, up to a state in which the program waits for the environment, and the steps of the program alone.\<close>

interpretation experiment_run: progressing "post_step inCluster" "post_inv inCluster" "\<lambda>s. \<not> told_to_stop s \<or> post_final s" post_msr for inCluster
proof
  show "\<exists>s'. post_step inCluster s s'" if "post_inv inCluster s" "\<not> (\<not> told_to_stop s \<or> post_final s)" for s
    using post_progress [of inCluster s] that by (auto simp: post_step_def)
qed (rule post_step_inv post_step_decreases; assumption)+

interpretation experiment_stop: progressing "post_prog inCluster" "\<lambda>s. post_inv inCluster s \<and> told_to_stop s" post_final post_msr for inCluster
proof
  fix s s' assume "post_inv inCluster s \<and> told_to_stop s" "post_prog inCluster s s'"
  moreover from this have "post_step inCluster s s'" by (simp add: post_step_def)
  ultimately show "post_inv inCluster s' \<and> told_to_stop s'" "post_msr s' < post_msr s"
    using post_step_inv told_to_stop_step post_step_decreases by blast+
qed (simp add: post_progress)

section \<open>Properties\<close>

lemma run_init_inv: "run_inv (run_init now)" by (simp add: run_init_def run_inv_def)

lemma post_init_inv: "post_inv inCluster (post_init now)" by (simp add: post_init_def post_inv_def)

text \<open>The shutdown of the checksum controller is orderly: with the signal it comes to an end, after at most six steps; a state
  from which nothing can happen has returned. \<^verbatim>\<open>run\<close> returns what the manager returned, and the manager is not
  told to stop before two seconds have passed since the signal.\<close>

theorem shutdown_is_graceful:
  assumes "(run_step ^^ k) (run_init now) s"
  shows "k \<le> 6 \<and> (\<exists>s'. run_step\<^sup>*\<^sup>* s s' \<and> run_final s') \<and> ((\<nexists>s'. run_step s s') \<longrightarrow> run_final s) \<and>
    (\<forall>t'. rs_managerCancelled s = Some t' \<longrightarrow> (\<exists>t. rs_signal s = Some t \<and> t + 2 * Second \<le> t')) \<and>
    (\<forall>r. rs_main s = MainReturned r \<longrightarrow> rs_manager s = ManagerSent r \<and> rs_managerCancelled s \<noteq> None)"
proof -
  have inv: "run_inv s" using shutdown.inv_run [OF relpowp_imp_rtranclp [OF assms] run_init_inv] .
  have "k \<le> 6" using shutdown.run_length [OF run_init_inv assms] by (simp add: run_msr_def run_init_def)
  moreover have "\<exists>s'. run_step\<^sup>*\<^sup>* s s' \<and> run_final s'" using shutdown.ends [OF inv] .
  moreover have "(\<nexists>s'. run_step s s') \<longrightarrow> run_final s" using shutdown.progress [OF inv] by blast
  moreover have "\<exists>t. rs_signal s = Some t \<and> t + 2 * Second \<le> t'" if "rs_managerCancelled s = Some t'" for t'
    using inv that by (cases "rs_main s") (auto simp: run_inv_def)
  moreover have "rs_manager s = ManagerSent r \<and> rs_managerCancelled s \<noteq> None" if "rs_main s = MainReturned r" for r
    using inv that by (cases "rs_manager s") (auto simp: run_inv_def)
  ultimately show ?thesis by blast
qed

text \<open>A manager that fails, e.g. because the shard lease was lost, is not noticed: the process stays, without working,
  until somebody sends a signal.\<close>

theorem manager_failure_is_not_noticed:
  "\<exists>s. run_step\<^sup>*\<^sup>* (run_init now) s \<and> rs_manager s = ManagerSent (Some err) \<and> rs_main s = AwaitSignal \<and>
     (\<forall>s'. run_step s s' \<longrightarrow> rs_signal s = None \<and> rs_signal s' \<noteq> None)"
proof -
  define s1 where "s1 = (run_init now)\<lparr>rs_now := now, rs_manager := StartReturned (Some err)\<rparr>"
  define s2 where "s2 = s1\<lparr>rs_now := now, rs_manager := ManagerSent (Some err), rs_managerDone := rs_managerDone s1 @ [Some err]\<rparr>"
  have "run_step (run_init now) s1" unfolding s1_def by (rule run_step.manager_fails) (simp_all add: run_init_def)
  moreover have "run_step s1 s2" unfolding s2_def by (rule run_step.manager_sends) (simp_all add: s1_def run_init_def)
  ultimately have "run_step\<^sup>*\<^sup>* (run_init now) s2" by (rule rtranclp.intros(2) [OF r_into_rtranclp])
  moreover have "rs_signal s2 = None \<and> rs_signal s' \<noteq> None" if "run_step s2 s'" for s'
    using that by cases (auto simp: s2_def s1_def run_init_def)
  ultimately show ?thesis by (intro exI [of _ s2]) (simp add: s2_def s1_def run_init_def)
qed

text \<open>C38: An experiment stops by itself when its scenario is done. Whatever happens around it, in at most five steps: once the scenario is
  done, the steps of the program alone lead to its end, all of them, without an interrupt or a failure; it never waits for either. And an experiment
  that was not interrupted and returns without an error has completed its scenario; in a cluster, the manager went on
  serving metrics for a minute after the end of the scenario.\<close>

theorem experiment_completes_scenario:
  assumes "(post_step inCluster ^^ k) (post_init now) s"
  shows "k \<le> 5 \<and>
    (ps_scenarioDone s \<noteq> None \<longrightarrow> (\<exists>s'. (post_prog inCluster)\<^sup>*\<^sup>* s s' \<and> post_final s') \<and>
      (\<forall>s'. (post_prog inCluster)\<^sup>*\<^sup>* s s' \<longrightarrow> post_final s' \<or> (\<exists>s''. post_prog inCluster s' s''))) \<and>
    (ps_result s = Some None \<and> \<not> ps_interrupted s \<longrightarrow>
      (\<exists>td. ps_scenarioDone s = Some td \<and> td + (if inCluster then Minute else 0) \<le> ps_now s))"
proof -
  have inv: "post_inv inCluster s" using experiment_run.inv_run [OF relpowp_imp_rtranclp [OF assms] post_init_inv] .
  have "k \<le> 5" using experiment_run.run_length [OF post_init_inv assms] by (simp add: post_msr_def post_init_def)
  moreover have "(\<exists>s'. (post_prog inCluster)\<^sup>*\<^sup>* s s' \<and> post_final s') \<and>
      (\<forall>s'. (post_prog inCluster)\<^sup>*\<^sup>* s s' \<longrightarrow> post_final s' \<or> (\<exists>s''. post_prog inCluster s' s''))" if "ps_scenarioDone s \<noteq> None"
  proof -
    have "post_inv inCluster s \<and> told_to_stop s" using inv that by (simp add: told_to_stop_def)
    then show ?thesis using experiment_stop.ends experiment_stop.inv_run experiment_stop.progress by blast
  qed
  moreover have "\<exists>td. ps_scenarioDone s = Some td \<and> td + (if inCluster then Minute else 0) \<le> ps_now s"
    if ok: "ps_result s = Some None" "\<not> ps_interrupted s"
  proof -
    obtain t where t: "ps_cancelled s = Some t" "t \<le> ps_now s" using inv ok(1) by (auto simp: post_inv_def)
    then obtain td where "ps_scenarioDone s = Some td" "td + (if inCluster then Minute else 0) \<le> t"
      using inv ok by (auto simp: post_inv_def)
    then show ?thesis using t(2) by (intro exI [of _ td]) simp
  qed
  ultimately show ?thesis by blast
qed

text \<open>A run in a cluster: the scenario takes an hour, the manager stops a minute later.\<close>

definition sample_post :: "time \<Rightarrow> time option \<Rightarrow> time option \<Rightarrow> watcher_pc \<Rightarrow> go_error option option \<Rightarrow> post_state" where
  "sample_post now done_at cancelled watcher result = \<lparr>ps_now = now, ps_interrupted = False, ps_scenarioDone = done_at,
     ps_cancelled = cancelled, ps_watcher = watcher, ps_result = result\<rparr>"

lemma sample_post_run:
  "(post_step True ^^ 4) (post_init 0) (sample_post (61 * Minute) (Some (60 * Minute)) (Some (61 * Minute)) WatcherDone (Some None))"
proof -
  let ?s1 = "sample_post (60 * Minute) (Some (60 * Minute)) None Watching None"
  let ?s2 = "sample_post (60 * Minute) (Some (60 * Minute)) None (Grace (60 * Minute)) None"
  let ?s3 = "sample_post (61 * Minute) (Some (60 * Minute)) (Some (61 * Minute)) WatcherDone None"
  let ?s4 = "sample_post (61 * Minute) (Some (60 * Minute)) (Some (61 * Minute)) WatcherDone (Some None)"
  have "post_step True (post_init 0) ?s1"
    using post_env.scenario_done [of "post_init 0" "60 * Minute"] by (simp add: post_step_def post_init_def sample_post_def Minute_def)
  moreover have "post_step True ?s1 ?s2" using post_prog.sees_done [of ?s1 True "60 * Minute"] by (simp add: post_step_def sample_post_def)
  moreover have "post_step True ?s2 ?s3"
    using post_prog.grace_over [of ?s2 "60 * Minute" "61 * Minute" True] by (simp add: post_step_def sample_post_def cancel_at_def Minute_def)
  moreover have "post_step True ?s3 ?s4" using post_prog.start_stops [of ?s3 "61 * Minute" True None] by (simp add: post_step_def sample_post_def)
  ultimately show ?thesis by (auto simp: numeral_eq_Suc)
qed

lemma experiment_completes_scenario_witness:
  "\<exists>td. ps_scenarioDone (sample_post (61 * Minute) (Some (60 * Minute)) (Some (61 * Minute)) WatcherDone (Some None)) = Some td \<and>
     td + Minute \<le> 61 * Minute"
  using experiment_completes_scenario [OF sample_post_run] by (simp add: sample_post_def)

definition sample_run :: "time \<Rightarrow> time option \<Rightarrow> main_pc \<Rightarrow> manager_pc \<Rightarrow> run_state" where
  "sample_run now signal main mgr = \<lparr>rs_now = now, rs_signal = signal, rs_main = main, rs_managerCancelled = None, rs_manager = mgr, rs_managerDone = []\<rparr>"

lemma sample_shutdown: "(run_step ^^ 2) (run_init 0) (sample_run 7 (Some 5) (AwaitTimer 7) Running)"
proof -
  have "run_step (run_init 0) (sample_run 5 (Some 5) AwaitSignal Running)"
    using run_step.signal [of "run_init 0" 5] by (simp add: run_init_def sample_run_def)
  moreover have "run_step (sample_run 5 (Some 5) AwaitSignal Running) (sample_run 7 (Some 5) (AwaitTimer 7) Running)"
    using run_step.ctx_done [of "sample_run 5 (Some 5) AwaitSignal Running" 7] by (simp add: sample_run_def)
  ultimately show ?thesis by (auto simp: numeral_eq_Suc)
qed

lemma shutdown_is_graceful_witness:
  "\<exists>s'. run_step\<^sup>*\<^sup>* (sample_run 7 (Some 5) (AwaitTimer 7) Running) s' \<and> run_final s'"
  using shutdown_is_graceful [OF sample_shutdown] by blast

end
