(* ===== verification/Commands.thy ===== *)
theory Commands
  imports Setup Shutdown Scenario Measure Webhosting_Metrics Checksum Webhosting_Options
begin

text \<open>
  The commands: from the command line to the exit code. Each process completes its options, sets up
  its manager or client and runs; an error ends it with exit code 1, a panic (\<open>None\<close>) is never intended. The schemes
  of the processes are here as well. Parsing of flags, logging and signal handling are outside.
\<close>

section \<open>Schemes\<close>

text \<open>
  \<^verbatim>\<open>runtime.Scheme\<close> is outside code. Its documentation: \<^verbatim>\<open>AddKnownTypes\<close> registers types as members of a
  version, under their names; \<^verbatim>\<open>AddTypeDefaultingFunc\<close> registers the function that \<^verbatim>\<open>Default\<close> and decoders apply;
  \<^verbatim>\<open>AddToGroupVersion\<close> registers common external types and keeps what is known.
\<close>

record 's scheme_lib =
  sch_AddKnownTypes :: "string \<Rightarrow> string \<Rightarrow> string list \<Rightarrow> 's \<Rightarrow> 's"
  sch_AddToGroupVersion :: "string \<Rightarrow> string \<Rightarrow> 's \<Rightarrow> 's"
  sch_AddTypeDefaultingFunc :: "string \<Rightarrow> 's \<Rightarrow> 's"
  sch_clientgo :: "'s \<Rightarrow> go_error + 's"
  sch_Recognizes :: "'s \<Rightarrow> gvk \<Rightarrow> bool"
  sch_Defaults :: "'s \<Rightarrow> string \<Rightarrow> bool"

definition scheme_doc :: "'s scheme_lib \<Rightarrow> bool" where
  "scheme_doc L \<longleftrightarrow>
     (\<forall>g v ts s k. sch_Recognizes L (sch_AddKnownTypes L g v ts s) k \<longleftrightarrow>
        gvk_Group k = g \<and> gvk_Version k = v \<and> gvk_Kind k \<in> set ts \<or> sch_Recognizes L s k) \<and>
     (\<forall>g v ts s ty. sch_Defaults L (sch_AddKnownTypes L g v ts s) ty = sch_Defaults L s ty) \<and>
     (\<forall>g v s k. sch_Recognizes L s k \<longrightarrow> sch_Recognizes L (sch_AddToGroupVersion L g v s) k) \<and>
     (\<forall>g v s ty. sch_Defaults L s ty \<longrightarrow> sch_Defaults L (sch_AddToGroupVersion L g v s) ty) \<and>
     (\<forall>ty s k. sch_Recognizes L (sch_AddTypeDefaultingFunc L ty s) k = sch_Recognizes L s k) \<and>
     (\<forall>ty ty' s. sch_Defaults L (sch_AddTypeDefaultingFunc L ty s) ty' \<longleftrightarrow> ty' = ty \<or> sch_Defaults L s ty') \<and>
     (\<forall>s. \<exists>s'. sch_clientgo L s = Inr s')"

definition sharding_GroupName :: string where "sharding_GroupName = ''sharding.timebertt.dev''"
definition config_GroupName :: string where "config_GroupName = ''config.sharding.timebertt.dev''"
definition webhosting_GroupName :: string where "webhosting_GroupName = ''webhosting.timebertt.dev''"
definition webconfig_GroupName :: string where "webconfig_GroupName = ''config.webhosting.timebertt.dev''"

definition sharding_addKnownTypes :: "'s scheme_lib \<Rightarrow> 's \<Rightarrow> go_error + 's" where
  "sharding_addKnownTypes L s =
     (let s = sch_AddKnownTypes L sharding_GroupName ''v1alpha1'' [''ControllerRing'', ''ControllerRingList''] s
      in Inr (sch_AddToGroupVersion L sharding_GroupName ''v1alpha1'' s))"

definition config_addKnownTypes :: "'s scheme_lib \<Rightarrow> 's \<Rightarrow> go_error + 's" where
  "config_addKnownTypes L s = Inr (sch_AddKnownTypes L config_GroupName ''v1alpha1'' [''SharderConfig''] s)"

definition webhosting_addKnownTypes :: "'s scheme_lib \<Rightarrow> 's \<Rightarrow> go_error + 's" where
  "webhosting_addKnownTypes L s =
     (let s = sch_AddKnownTypes L webhosting_GroupName ''v1alpha1'' [''Website'', ''WebsiteList'', ''Theme'', ''ThemeList''] s
      in Inr (sch_AddToGroupVersion L webhosting_GroupName ''v1alpha1'' s))"

definition webconfig_addKnownTypes :: "'s scheme_lib \<Rightarrow> 's \<Rightarrow> go_error + 's" where
  "webconfig_addKnownTypes L s = Inr (sch_AddKnownTypes L webconfig_GroupName ''v1alpha1'' [''WebhostingOperatorConfig''] s)"

definition config_RegisterDefaults :: "'s scheme_lib \<Rightarrow> 's \<Rightarrow> go_error + 's" where
  "config_RegisterDefaults L s = Inr (sch_AddTypeDefaultingFunc L ''SharderConfig'' s)"

definition webconfig_RegisterDefaults :: "'s scheme_lib \<Rightarrow> 's \<Rightarrow> go_error + 's" where
  "webconfig_RegisterDefaults L s = Inr (sch_AddTypeDefaultingFunc L ''WebhostingOperatorConfig'' s)"

definition config_addDefaultingFuncs :: "'s scheme_lib \<Rightarrow> 's \<Rightarrow> go_error + 's" where
  "config_addDefaultingFuncs = config_RegisterDefaults"

definition webconfig_addDefaultingFuncs :: "'s scheme_lib \<Rightarrow> 's \<Rightarrow> go_error + 's" where
  "webconfig_addDefaultingFuncs = webconfig_RegisterDefaults"

text \<open>\<^verbatim>\<open>SchemeBuilder.AddToScheme\<close> applies all functions and gives up at the first error.\<close>

fun AddToScheme :: "('s \<Rightarrow> go_error + 's) list \<Rightarrow> 's \<Rightarrow> go_error + 's" where
  "AddToScheme [] s = Inr s"
| "AddToScheme (f # fs) s = (case f s of Inl err \<Rightarrow> Inl err | Inr s \<Rightarrow> AddToScheme fs s)"

text \<open>The schemes that \<^verbatim>\<open>init\<close> functions build; \<^verbatim>\<open>utilruntime.Must\<close> panics on an error.\<close>

definition Must :: "go_error + 's \<Rightarrow> 's option" where
  "Must r = (case r of Inl err \<Rightarrow> None | Inr s \<Rightarrow> Some s)"

definition SharderScheme :: "'s scheme_lib \<Rightarrow> 's \<Rightarrow> 's option" where
  "SharderScheme L s = Must (AddToScheme [sch_clientgo L, AddToScheme [sharding_addKnownTypes L],
     AddToScheme [config_addKnownTypes L, config_addDefaultingFuncs L]] s)"

definition webhosting_scheme :: "'s scheme_lib \<Rightarrow> 's \<Rightarrow> 's option" where
  "webhosting_scheme L s =
     (case Must (sch_clientgo L s) of None \<Rightarrow> None | Some s \<Rightarrow>
     (case Must (AddToScheme [webhosting_addKnownTypes L] s) of None \<Rightarrow> None | Some s \<Rightarrow>
      Must (AddToScheme [webconfig_addKnownTypes L, webconfig_addDefaultingFuncs L] s)))"

definition samples_scheme :: "'s scheme_lib \<Rightarrow> 's \<Rightarrow> 's option" where
  "samples_scheme L s =
     (case Must (sch_clientgo L s) of None \<Rightarrow> None | Some s \<Rightarrow> Must (AddToScheme [webhosting_addKnownTypes L] s))"

definition experiment_scheme :: "'s scheme_lib \<Rightarrow> 's \<Rightarrow> 's option" where
  "experiment_scheme L s =
     (case Must (sch_clientgo L s) of None \<Rightarrow> None | Some s \<Rightarrow> Must (AddToScheme [webhosting_addKnownTypes L] s))"

text \<open>The types that a process decodes, lists or watches are known, and configurations have defaults.\<close>

definition own_gvk :: "string \<Rightarrow> string \<Rightarrow> gvk" where
  "own_gvk g kind = \<lparr>gvk_Group = g, gvk_Version = ''v1alpha1'', gvk_Kind = kind\<rparr>"

lemma scheme_docD:
  assumes "scheme_doc L"
  shows "sch_Recognizes L (sch_AddKnownTypes L g v ts s) k \<longleftrightarrow> gvk_Group k = g \<and> gvk_Version k = v \<and> gvk_Kind k \<in> set ts \<or> sch_Recognizes L s k"
    and "sch_Recognizes L s k \<Longrightarrow> sch_Recognizes L (sch_AddToGroupVersion L g v s) k"
    and "sch_Recognizes L (sch_AddTypeDefaultingFunc L ty s) k = sch_Recognizes L s k"
    and "sch_Defaults L (sch_AddTypeDefaultingFunc L ty s) ty' \<longleftrightarrow> ty' = ty \<or> sch_Defaults L s ty'"
    and "\<exists>s'. sch_clientgo L s = Inr s'"
  using assms by (simp_all only: scheme_doc_def simp_thms)

lemma SharderScheme_complete:
  assumes "scheme_doc L"
  shows "\<exists>s'. SharderScheme L s = Some s' \<and> sch_Recognizes L s' (own_gvk sharding_GroupName ''ControllerRing'') \<and>
    sch_Recognizes L s' (own_gvk sharding_GroupName ''ControllerRingList'') \<and> sch_Recognizes L s' (own_gvk config_GroupName ''SharderConfig'') \<and>
    sch_Defaults L s' ''SharderConfig''"
proof -
  obtain s0 where "sch_clientgo L s = Inr s0" using scheme_docD(5) [OF assms] by blast
  then show ?thesis
    by (simp add: SharderScheme_def Must_def sharding_addKnownTypes_def config_addKnownTypes_def config_addDefaultingFuncs_def config_RegisterDefaults_def
        scheme_docD(1-4) [OF assms] own_gvk_def Let_def)
qed

lemma webhosting_scheme_complete:
  assumes "scheme_doc L"
  shows "\<exists>s'. webhosting_scheme L s = Some s' \<and> sch_Recognizes L s' (own_gvk webhosting_GroupName ''Website'') \<and>
    sch_Recognizes L s' (own_gvk webhosting_GroupName ''Theme'') \<and> sch_Recognizes L s' (own_gvk webconfig_GroupName ''WebhostingOperatorConfig'') \<and>
    sch_Defaults L s' ''WebhostingOperatorConfig''"
proof -
  obtain s0 where "sch_clientgo L s = Inr s0" using scheme_docD(5) [OF assms] by blast
  then show ?thesis
    by (simp add: webhosting_scheme_def Must_def webhosting_addKnownTypes_def webconfig_addKnownTypes_def webconfig_addDefaultingFuncs_def webconfig_RegisterDefaults_def
        scheme_docD(1-4) [OF assms] own_gvk_def Let_def)
qed

section \<open>Processes\<close>

text \<open>How a process ended: its exit code, and whether it came so far as to start its manager (or its work).\<close>

record outcome =
  ex_Code :: int
  ex_Started :: bool

definition failed :: outcome where "failed = \<lparr>ex_Code = 1, ex_Started = False\<rparr>"

definition finished :: "go_error option \<Rightarrow> outcome" where
  "finished r = \<lparr>ex_Code = (if r = None then 0 else 1), ex_Started = True\<rparr>"

subsection \<open>The sharder\<close>

text \<open>
  \<^verbatim>\<open>su\<close> is what the manager made of the options answers to registrations, \<^verbatim>\<open>start\<close> how the started manager ends.
\<close>

definition sharder_command ::
  "config_lib \<Rightarrow> ('sel, 'req) labels_lib \<Rightarrow> app_env \<Rightarrow> string \<Rightarrow> ('sel app_options \<Rightarrow> setup_env) \<Rightarrow> pred_lib \<Rightarrow> 'w client \<Rightarrow>
     ('w manager \<Rightarrow> go_error option) \<Rightarrow> outcome option"
where
  "sharder_command cl ll env configFile su pl c start =
     (case complete_options cl ll env configFile of
        None \<Rightarrow> None
      | Some (Inl err) \<Rightarrow> Some failed
      | Some (Inr opts) \<Rightarrow>
          (case app_run (su opts) pl c (ao_config opts) of
             None \<Rightarrow> None
           | Some (Inl err) \<Rightarrow> Some failed
           | Some (Inr mgr) \<Rightarrow> Some (finished (start mgr))))"

definition sharder_main :: "outcome option \<Rightarrow> int option" where
  "sharder_main command = map_option (\<lambda>out. if ex_Code out = 0 then 0 else 1) command"

subsection \<open>The webhosting operator\<close>

record web_setup_env =
  wsu_New :: "go_error option"
  wsu_indexErr :: "go_error option"
  wsu_Build :: "go_error option"
  wsu_addWebsite :: "website exporter \<Rightarrow> go_error option"
  wsu_addTheme :: "theme exporter \<Rightarrow> go_error option"
  wsu_AddHealthz :: "string \<Rightarrow> go_error option"
  wsu_AddReadyz :: "string \<Rightarrow> go_error option"

definition webhosting_main ::
  "config_lib \<Rightarrow> web_env \<Rightarrow> string \<Rightarrow> (web_options \<Rightarrow> web_setup_env) \<Rightarrow> pred_lib \<Rightarrow> 'w object_client \<Rightarrow> 'w reconciler \<Rightarrow>
     (string \<Rightarrow> string) \<Rightarrow> ('w website_setup \<Rightarrow> go_error option) \<Rightarrow> outcome option"
where
  "webhosting_main cl env configFile su pl c reconciler getenv start =
     (case web_Complete cl env configFile of
        None \<Rightarrow> None
      | Some (Inl err) \<Rightarrow> Some failed
      | Some (Inr opts) \<Rightarrow>
          if wsu_New (su opts) \<noteq> None then Some failed
          else
            (case SetupWithManager pl c reconciler (wsu_indexErr (su opts)) getenv (wop_enableSharding opts) (wop_controllerRingName opts)
                (wop_shardName opts) of
               None \<Rightarrow> None
             | Some (Inl err) \<Rightarrow> Some failed
             | Some (Inr setup) \<Rightarrow>
                 if wsu_Build (su opts) \<noteq> None then Some failed
                 else if webhosting_metrics_AddToManager (wsu_addWebsite (su opts)) (wsu_addTheme (su opts)) \<noteq> None then Some failed
                 else if wsu_AddHealthz (su opts) ''healthz'' \<noteq> None then Some failed
                 else if wsu_AddReadyz (su opts) ''readyz'' \<noteq> None then Some failed
                 else Some (finished (start setup))))"

subsection \<open>The checksum controller\<close>

text \<open>The controller that \<^verbatim>\<open>AddToManager\<close> registers: the sharded reconciler, its predicates, five workers.\<close>

record 'w checksum_controller =
  ckc_Name :: string
  ckc_SecretPredicate :: predicate
  ckc_ConfigMapPredicate :: predicate
  ckc_MaxConcurrentReconciles :: int
  ckc_Reconciler :: "'w shard_reconciler"

definition checksum_AddToManager ::
  "pred_lib \<Rightarrow> 'w object_client \<Rightarrow> 'w reconciler \<Rightarrow> string \<Rightarrow> string \<Rightarrow> 'w checksum_controller option"
where
  "checksum_AddToManager pl c r controllerRingName shardName =
     (case checksum_sharded_reconciler c r controllerRingName shardName of
        None \<Rightarrow> None
      | Some sharded \<Rightarrow> Some \<lparr>ckc_Name = ''secret-checksums'',
          ckc_SecretPredicate = shard_Predicate pl controllerRingName shardName [SecretDataChanged pl],
          ckc_ConfigMapPredicate = ObjectDeleted pl, ckc_MaxConcurrentReconciles = 5, ckc_Reconciler = sharded\<rparr>)"

text \<open>The possible results of \<^verbatim>\<open>run\<close> once its manager was started are those of the goroutines of theory \<open>Shutdown\<close>.\<close>

inductive checksum_main ::
  "go_error option \<Rightarrow> os_env \<Rightarrow> checksum_options \<Rightarrow> (checksum_setup \<Rightarrow> go_error option) \<Rightarrow> go_error option \<Rightarrow>
     pred_lib \<Rightarrow> 'w object_client \<Rightarrow> 'w reconciler \<Rightarrow> time \<Rightarrow> outcome option \<Rightarrow> bool"
  for restErr env o' newErr completeErr pl c r now
where
  invalid: "checksum_validate o' = Some err \<Longrightarrow> checksum_main restErr env o' newErr completeErr pl c r now (Some failed)"
| setup_fails: "checksum_validate o' = None \<Longrightarrow> checksum_run_setup restErr env o' = Inl err \<Longrightarrow>
    checksum_main restErr env o' newErr completeErr pl c r now (Some failed)"
| new_fails: "checksum_validate o' = None \<Longrightarrow> checksum_run_setup restErr env o' = Inr st \<Longrightarrow> newErr st = Some err \<Longrightarrow>
    checksum_main restErr env o' newErr completeErr pl c r now (Some failed)"
| panics: "checksum_validate o' = None \<Longrightarrow> checksum_run_setup restErr env o' = Inr st \<Longrightarrow> newErr st = None \<Longrightarrow>
    checksum_AddToManager pl c r (cks_ringName st) (cks_shardName st) = None \<Longrightarrow>
    checksum_main restErr env o' newErr completeErr pl c r now None"
| add_fails: "checksum_validate o' = None \<Longrightarrow> checksum_run_setup restErr env o' = Inr st \<Longrightarrow> newErr st = None \<Longrightarrow>
    checksum_AddToManager pl c r (cks_ringName st) (cks_shardName st) = Some ct \<Longrightarrow> completeErr = Some err \<Longrightarrow>
    checksum_main restErr env o' newErr completeErr pl c r now (Some failed)"
| runs: "checksum_validate o' = None \<Longrightarrow> checksum_run_setup restErr env o' = Inr st \<Longrightarrow> newErr st = None \<Longrightarrow>
    checksum_AddToManager pl c r (cks_ringName st) (cks_shardName st) = Some ct \<Longrightarrow> completeErr = None \<Longrightarrow>
    run_step\<^sup>*\<^sup>* (run_init now) s \<Longrightarrow> rs_main s = MainReturned result \<Longrightarrow>
    checksum_main restErr env o' newErr completeErr pl c r now (Some (finished result))"

inductive_cases checksum_mainE: "checksum_main restErr env o' newErr completeErr pl c r now out"

subsection \<open>The tools\<close>

definition samples_main :: "go_error option \<Rightarrow> 'w gen_client \<Rightarrow> int \<Rightarrow> bool \<Rightarrow> 'w \<Rightarrow> outcome option" where
  "samples_main newErr c perProject skip w =
     (if newErr \<noteq> None then Some failed
      else map_option (\<lambda>(err, w). finished err) (generateSamples c perProject skip w))"

definition stdin :: string where "stdin = ''-''"

text \<open>
  The arguments are the values of the flags, in their order, and the remaining arguments. \<^verbatim>\<open>open\<close> fails or not; the environment
  of the measurement reads from what was opened and queries the configured server.
\<close>

definition newClient :: "(string \<Rightarrow> go_error option) \<Rightarrow> measure_vars \<Rightarrow> go_error option" where
  "newClient apiNewClient v = apiNewClient (mo_prometheusURL v)"

definition measure_main ::
  "(string \<Rightarrow> go_error option) \<Rightarrow> (string \<Rightarrow> go_error option) \<Rightarrow> (string \<Rightarrow> string \<Rightarrow> measure_env) \<Rightarrow>
     (string \<Rightarrow> go_error + duration) \<Rightarrow> time \<Rightarrow> (string \<times> string) list \<Rightarrow> string list \<Rightarrow> outcome option"
where
  "measure_main openFile apiNewClient env parseDuration now flags args =
     (case set_measure_flags parseDuration now flags (measure_defaults now) of
        Inl err \<Rightarrow> Some failed
      | Inr v \<Rightarrow>
          (case args of
             [queriesFileName] \<Rightarrow>
               if queriesFileName \<noteq> stdin \<and> openFile queriesFileName \<noteq> None then Some failed
               else if newClient apiNewClient v \<noteq> None then Some failed
               else map_option (\<lambda>(err, files). finished err)
                 (measure_run (env queriesFileName (mo_prometheusURL v)) (mo_queryRange v) (mo_outputDir v) (mo_outputPrefix v))
           | _ \<Rightarrow> Some failed))"

subsection \<open>The experiment\<close>

record experiment_env =
  xe_New :: "go_error option"
  xe_AddHealthz :: "string \<Rightarrow> go_error option"
  xe_AddReadyz :: "string \<Rightarrow> go_error option"

definition experiment_preRun :: "experiment_env \<Rightarrow> go_error option" where
  "experiment_preRun env =
     (case xe_New env of Some err \<Rightarrow> Some err | None \<Rightarrow>
     (case xe_AddHealthz env ''healthz'' of Some err \<Rightarrow> Some (wrapf ''unable to set up health check'' err) | None \<Rightarrow>
     (case xe_AddReadyz env ''readyz'' of Some err \<Rightarrow> Some (wrapf ''unable to set up ready check'' err) | None \<Rightarrow> None)))"

text \<open>
  The four scenarios, as their \<^verbatim>\<open>init\<close> functions register them: the name, the texts for the command line, and the
  delegate of the base scenario. All of them prepare the same objects.
\<close>

record 'w scenario =
  xn_Name :: string
  xn_Description :: string
  xn_LongDescription :: string
  xn_Delegate :: "'w delegate"

definition nl :: string where "nl = [CHR 0x0A]"

definition chaos_Prepare :: "'w scenario_env \<Rightarrow> scenario_base \<Rightarrow> 'w \<Rightarrow> (go_error option \<times> 'w) set" where
  "chaos_Prepare = scenario_Prepare"

definition rollingUpdate_Prepare :: "'w scenario_env \<Rightarrow> scenario_base \<Rightarrow> 'w \<Rightarrow> (go_error option \<times> 'w) set" where
  "rollingUpdate_Prepare = scenario_Prepare"

definition scaleOut_Prepare :: "'w scenario_env \<Rightarrow> scenario_base \<Rightarrow> 'w \<Rightarrow> (go_error option \<times> 'w) set" where
  "scaleOut_Prepare = scenario_Prepare"

definition basic_scenario :: "'w scenario_env \<Rightarrow> 'w scenario" where
  "basic_scenario env = \<lparr>xn_Name = ''basic'', xn_Description = ''Basic load test, create 9k websites in 15 minutes'',
     xn_LongDescription = ''The basic scenario combines several operations typical for a lively operator environment:'' @ nl @
       ''- website creation: 10800 over 15m'' @ nl @ ''- website deletion: 1800 over 15m'' @ nl @
       ''- website spec changes: 1/m per object, max 150/s'' @ nl,
     xn_Delegate = \<lparr>dl_Prepare = scenario_Prepare env, dl_Run = basic_Run env\<rparr>\<rparr>"

definition chaos_scenario :: "'w scenario_env \<Rightarrow> 'w scenario" where
  "chaos_scenario env = \<lparr>xn_Name = ''chaos'',
     xn_Description = ''Create 4.5k websites over 15 minutes and terminate a random shard every 5 minutes'',
     xn_LongDescription = ''The chaos scenario generates load and chaos for the webhosting-operator:'' @ nl @
       ''- website creation: 4500 over 15m'' @ nl @ ''- website spec changes: 0.5/m per object, max 37.5/s'' @ nl @
       ''- shard termination (pod deletion): 1/m'' @ nl,
     xn_Delegate = \<lparr>dl_Prepare = chaos_Prepare env, dl_Run = chaos_Run env\<rparr>\<rparr>"

definition rollingUpdate_scenario :: "'w scenario_env \<Rightarrow> 'w scenario" where
  "rollingUpdate_scenario env = \<lparr>xn_Name = ''rolling-update'', xn_Description = ''Create 9k websites in 15 minutes while rolling the operator'',
     xn_LongDescription = ''The rolling-update scenario combines several operations typical for a lively operator environment with rolling updates:'' @ nl @
       ''- website creation: 10800 over 15m'' @ nl @ ''- website deletion: 1800 over 15m'' @ nl @
       ''- website spec changes: 1/m per object, max 150/s'' @ nl @ ''- rolling update of webhosting-operator: 1 every 5m'' @ nl,
     xn_Delegate = \<lparr>dl_Prepare = rollingUpdate_Prepare env, dl_Run = rollingUpdate_Run env\<rparr>\<rparr>"

definition scaleOut_scenario :: "'w scenario_env \<Rightarrow> 'w scenario" where
  "scaleOut_scenario env = \<lparr>xn_Name = ''scale-out'', xn_Description = ''Measure scale-out properties with a high churn rate'',
     xn_LongDescription = ''The scale-out scenario is designed to overload 5 webhosting-operator instances with 5 workers within 15m:'' @ nl @
       ''- website creation: 9000 over 15m'' @ nl @ ''- website spec changes: 2/m per object, max 300/s'' @ nl,
     xn_Delegate = \<lparr>dl_Prepare = scaleOut_Prepare env, dl_Run = scaleOut_Run env\<rparr>\<rparr>"

text \<open>Importing the package \<^verbatim>\<open>all\<close> registers all of them; a duplicate would panic.\<close>

fun register_all :: "'w scenario list \<Rightarrow> 'w scenario registry \<Rightarrow> 'w scenario registry option" where
  "register_all [] registry = Some registry"
| "register_all (s # ss) registry = (case RegisterScenario xn_Name s registry of None \<Rightarrow> None | Some registry \<Rightarrow> register_all ss registry)"

definition all_scenarios :: "'w scenario_env \<Rightarrow> 'w scenario registry option" where
  "all_scenarios env = register_all [basic_scenario env, chaos_scenario env, rollingUpdate_scenario env, scaleOut_scenario env] []"

text \<open>One subcommand for every registered scenario; cobra runs the one whose name is given and rejects other arguments.\<close>

definition scenario_commands :: "('s \<Rightarrow> string) \<Rightarrow> 's registry \<Rightarrow> (string \<times> 's) list" where
  "scenario_commands name registry = map (\<lambda>scenario. (name scenario, scenario)) (GetAllScenarios name registry)"

inductive experiment_main ::
  "('s \<Rightarrow> string) \<Rightarrow> 's registry \<Rightarrow> experiment_env \<Rightarrow> ('s \<Rightarrow> go_error option) \<Rightarrow> bool \<Rightarrow> time \<Rightarrow> string \<Rightarrow> 's option \<Rightarrow> outcome \<Rightarrow> bool"
  for name registry env addToManager inCluster now arg
where
  unknown: "map_of (scenario_commands name registry) arg = None \<Longrightarrow>
    experiment_main name registry env addToManager inCluster now arg None failed"
| prepare_fails: "map_of (scenario_commands name registry) arg = Some scenario \<Longrightarrow> experiment_preRun env = Some err \<Longrightarrow>
    experiment_main name registry env addToManager inCluster now arg None failed"
| add_fails: "map_of (scenario_commands name registry) arg = Some scenario \<Longrightarrow> experiment_preRun env = None \<Longrightarrow>
    addToManager scenario = Some err \<Longrightarrow> experiment_main name registry env addToManager inCluster now arg (Some scenario) failed"
| runs: "map_of (scenario_commands name registry) arg = Some scenario \<Longrightarrow> experiment_preRun env = None \<Longrightarrow>
    addToManager scenario = None \<Longrightarrow> (post_step inCluster)\<^sup>*\<^sup>* (post_init now) s \<Longrightarrow> ps_result s = Some result \<Longrightarrow>
    experiment_main name registry env addToManager inCluster now arg (Some scenario) (finished result)"

section \<open>Lemmas\<close>

lemma outcome_simps [simp]:
  "ex_Code failed = 1" "\<not> ex_Started failed" "ex_Code (finished r) = 0 \<longleftrightarrow> r = None" "ex_Started (finished r)"
  by (simp_all add: failed_def finished_def)

lemma app_run_total:
  assumes "ctl_Sharder (c_Controller config) = Some sc" and "sc_SyncPeriod sc = Some period"
  shows "app_run env pl (c :: 'w client) config \<noteq> None"
proof -
  obtain sharder where "sharder_AddToManager pl config no_deps = Some (sharder :: 'w controller_setup)"
    using assms by (simp add: sharder_AddToManager_def Let_def)
  then have "\<exists>r. controllers_AddToManager env pl c config (empty_manager\<lparr>mg_Healthz := [''ping''], mg_Readyz := [''cache-sync'']\<rparr>) = Some r"
    by (simp add: controllers_AddToManager_def split: sum.splits)
  then show ?thesis by (elim exE) (simp add: app_run_def split: option.splits sum.splits)
qed

lemma sync_period_set: "\<exists>p. sc_SyncPeriod (SetDefaults_SharderController obj) = Some p"
  by (simp add: SetDefaults_SharderController_def Let_def)

lemma scenario_names [simp]:
  "xn_Name (basic_scenario env) = ''basic''" "xn_Name (chaos_scenario env) = ''chaos''"
  "xn_Name (rollingUpdate_scenario env) = ''rolling-update''" "xn_Name (scaleOut_scenario env) = ''scale-out''"
  by (simp_all add: basic_scenario_def chaos_scenario_def rollingUpdate_scenario_def scaleOut_scenario_def)

text \<open>No scenario is registered twice, and every one can be selected by its name.\<close>

lemma all_scenarios_registered:
  "all_scenarios env = Some [(''basic'', basic_scenario env), (''chaos'', chaos_scenario env),
     (''rolling-update'', rollingUpdate_scenario env), (''scale-out'', scaleOut_scenario env)]"
  by (simp add: all_scenarios_def RegisterScenario_def)

lemma scenario_selected:
  assumes "all_scenarios env = Some registry" and "experiment_main xn_Name registry xe addToManager inCluster now arg (Some s) out"
  shows "xn_Name s = arg \<and> s \<in> {basic_scenario env, chaos_scenario env, rollingUpdate_scenario env, scaleOut_scenario env}"
proof -
  have "map_of (scenario_commands xn_Name registry) arg = Some s" using assms(2) by cases
  then have "(arg, s) \<in> set (scenario_commands xn_Name registry)" by (rule map_of_SomeD)
  then have "xn_Name s = arg" "s \<in> set (GetAllScenarios xn_Name registry)" by (auto simp: scenario_commands_def)
  then show ?thesis using assms(1) by (auto simp: all_scenarios_registered GetAllScenarios_def)
qed

text \<open>
  Decoders apply the registered defaults: what the file decodes to is a defaulted configuration.
\<close>

definition decodes_defaulted :: "config_lib \<Rightarrow> app_env \<Rightarrow> bool" where
  "decodes_defaulted cl env \<longleftrightarrow> (\<forall>data config. env_DecodeInto env data = Inr config \<longrightarrow> (\<exists>c. config = SetObjectDefaults_SharderConfig cl c))"

lemma load_config_defaulted:
  assumes "decodes_defaulted cl env" and "load_config cl env configFile = Inr config"
  shows "\<exists>c. config = SetObjectDefaults_SharderConfig cl c"
proof (cases "configFile = []")
  case True
  then show ?thesis using assms(2) by (auto simp: load_config_def)
next
  case False
  then obtain data where "env_ReadFile env configFile = Inr data" "env_DecodeInto env data = Inr config"
    using assms(2) by (auto simp: load_config_def split: sum.splits)
  then show ?thesis using assms(1) unfolding decodes_defaulted_def by (elim allE impE)
qed

lemma complete_options_total:
  assumes "recommended_doc cl" and "decodes_defaulted cl env" and "ll_ExistsRequirement (ll :: ('a, 'req) labels_lib) LabelControllerRing = Inr req"
  obtains (error) err where "complete_options cl ll env configFile = Some (Inl err)"
    | (ok) opts c where "complete_options cl ll env configFile = Some (Inr opts)" "ao_config opts = SetObjectDefaults_SharderConfig cl c"
proof (cases "load_config cl env configFile")
  case (Inl err)
  then show thesis using error by (simp add: complete_options_def)
next
  case config: (Inr config)
  obtain c where c: "config = SetObjectDefaults_SharderConfig cl c" using load_config_defaulted [OF assms(2) config] ..
  show thesis
  proof (cases "env_GetConfig env")
    case (Inl err)
    then show thesis using error config by (simp add: complete_options_def)
  next
    case rest: (Inr rest)
    obtain mo rate where mo: "applyConfigToManagerOptions config (zero_manager_options\<lparr>mo_LeaderElectionReleaseOnCancel := True\<rparr> :: 'a manager_options) = Some (mo, rate)"
      using defaulted_config_applies [OF assms(1)] c by fastforce
    obtain mo' where mo': "applyCacheOptions ll mo = Some mo'" using assms(3) by (simp add: applyCacheOptions_def Let_def)
    show thesis
      by (cases "applyOptionsOverrides env mo'") (use config rest mo mo' c error ok in \<open>simp_all add: complete_options_def Let_def\<close>)
  qed
qed

section \<open>Properties\<close>

text \<open>C37: A sharder process never panics while it starts, whatever its configuration file and its environment variables
  say: it exits with code 1 without having started anything, or it starts a manager that has
  all three controllers, the webhook and the metrics, and its exit code tells whether the manager ended with an error.\<close>

theorem sharder_process_starts_or_fails:
  assumes "recommended_doc cl" and "decodes_defaulted cl env" and "ll_ExistsRequirement ll LabelControllerRing = Inr req"
  shows "sharder_command cl ll env configFile su pl (c :: 'w client) start = Some failed \<or>
    (\<exists>mgr. sharder_command cl ll env configFile su pl c start = Some (finished (start mgr)) \<and>
       map cs_Name (mg_Controllers mgr) = [''controllerring'', ''sharder'', ''shardlease''] \<and> mg_Webhooks mgr = [webhookPathPrefix] \<and>
       mg_Readyz mgr = [''cache-sync''] \<and> mg_Collectors mgr = [AssignmentsTotal, MovementsTotal, DrainsTotal, RingCalculationsTotal])"
proof (cases rule: complete_options_total [OF assms, of configFile])
  case 1
  then show ?thesis by (simp add: sharder_command_def)
next
  case ok: (2 opts c0)
  let ?sc = "SetDefaults_SharderController (case ctl_Sharder (c_Controller c0) of None \<Rightarrow> \<lparr>sc_SyncPeriod = None, sc_ConcurrentMoves = None\<rparr> | Some x \<Rightarrow> x)"
  have sc: "ctl_Sharder (c_Controller (ao_config opts)) = Some ?sc" using ok(2) by (simp add: default_fields)
  obtain period where "sc_SyncPeriod ?sc = Some period" using sync_period_set by blast
  from app_run_total [OF sc this, of "su opts" pl c] obtain r where r: "app_run (su opts) pl c (ao_config opts) = Some r" by blast
  show ?thesis
  proof (cases r)
    case (Inl err)
    then show ?thesis using ok(1) r by (simp add: sharder_command_def)
  next
    case (Inr mgr)
    then have mgr: "app_run (su opts) pl c (ao_config opts) = Some (Inr mgr)" using r by simp
    obtain sharder where sh: "sharder_AddToManager pl (ao_config opts) no_deps = Some sharder"
      "mg_Controllers mgr = [controllerring_AddToManager pl no_deps, sharder, shardlease_AddToManager pl c no_deps]"
      "mg_Webhooks mgr = [webhookPathPrefix]" "mg_Readyz mgr = [''cache-sync'']"
      "mg_Collectors mgr = [AssignmentsTotal, MovementsTotal, DrainsTotal, RingCalculationsTotal]"
      by (rule app_run_Inr [OF mgr])
    have "map cs_Name (mg_Controllers mgr) = [''controllerring'', ''sharder'', ''shardlease'']"
      by (simp add: sh(2) sharder_setup(1) [OF sh(1)] controllerring_AddToManager_def shardlease_AddToManager_def Let_def)
    moreover have "sharder_command cl ll env configFile su pl c start = Some (finished (start mgr))" using ok(1) mgr by (simp add: sharder_command_def)
    ultimately show ?thesis using sh(3-5) by (intro disjI2 exI [of _ mgr]) simp
  qed
qed

lemma sample_decodes_defaulted: "decodes_defaulted std_config_lib sample_env"
  by (auto simp: decodes_defaulted_def sample_env_def)

lemma sample_sharder_runs:
  "sharder_command std_config_lib sample_labels sample_env [] (\<lambda>_. sample_setup_env) pl (c :: 'w client) (\<lambda>_. None) = Some (finished None)"
proof -
  let ?c = "SetObjectDefaults_SharderConfig std_config_lib zero_config"
  obtain mo rate where "applyConfigToManagerOptions ?c
      (zero_manager_options\<lparr>mo_LeaderElectionReleaseOnCancel := True\<rparr> :: string list manager_options) = Some (mo, rate)"
    using defaulted_config_applies [OF std_config_lib_doc] by fastforce
  then obtain opts where "complete_options std_config_lib sample_labels sample_env [] = Some (Inr opts)" "ao_config opts = ?c"
    by (simp add: complete_options_def load_config_def sample_env_def applyCacheOptions_def sample_labels_def applyOptionsOverrides_def Let_def)
  then show ?thesis using defaulted_sharder_starts [of pl c std_config_lib zero_config] by (auto simp: sharder_command_def)
qed

lemma sharder_process_starts_or_fails_witness:
  "\<exists>mgr. sharder_command std_config_lib sample_labels sample_env [] (\<lambda>_. sample_setup_env) std_pred_lib store_client (\<lambda>_. None) = Some (finished None) \<and>
     map cs_Name (mg_Controllers (mgr :: store manager)) = [''controllerring'', ''sharder'', ''shardlease'']"
proof -
  have "ll_ExistsRequirement sample_labels LabelControllerRing = Inr LabelControllerRing" by (simp add: sample_labels_def)
  from sharder_process_starts_or_fails [OF std_config_lib_doc sample_decodes_defaulted this, of "[]" "\<lambda>_. sample_setup_env" std_pred_lib store_client "\<lambda>_. None"]
  have "\<exists>mgr. map cs_Name (mg_Controllers (mgr :: store manager)) = [''controllerring'', ''sharder'', ''shardlease'']"
    unfolding sample_sharder_runs by (elim disjE exE conjE) (simp add: failed_def finished_def, rule exI)
  then show ?thesis by (simp add: sample_sharder_runs)
qed

text \<open>A checksum controller does not panic either, unless the machine has no host name, and a run that ends with exit
  code 0 was ended by a signal and let the manager stop without an error.\<close>

theorem checksum_process_ends_truthfully:
  assumes "checksum_main restErr env o' newErr completeErr pl c r now out" and "os_Hostname env \<noteq> Inr []"
  shows "\<exists>oc. out = Some oc \<and> (ex_Code oc = 0 \<longrightarrow> (\<exists>s t. run_step\<^sup>*\<^sup>* (run_init now) s \<and> rs_signal s = Some t \<and> rs_manager s = ManagerSent None))"
proof -
  have shard: "checksum_AddToManager pl c r (cks_ringName st) (cks_shardName st) \<noteq> None"
    if st: "checksum_run_setup restErr env o' = Inr st" and v: "checksum_validate o' = None" for st
  proof -
    obtain lock where lock: "NewResourceLock env \<lparr>lo_ControllerRingName = ck_controllerRingName o', lo_LeaseNamespace = ck_leaseNamespace o',
        lo_ShardName = ck_shardName o'\<rparr> = Inr lock" "cks_ringName st = ck_controllerRingName o'" "cks_shardName st = lock_Identity lock"
      using st by (auto simp: checksum_run_setup_def split: option.splits sum.splits)
    have "lock_Identity lock \<noteq> []" "ck_controllerRingName o' \<noteq> []"
      using lock(1) assms(2) v by (auto simp: NewResourceLock_def lock_Identity_def checksum_validate_def split: option.splits sum.splits if_splits)
    then show ?thesis
      using lock(2,3) by (simp add: checksum_AddToManager_def checksum_sharded_reconciler_def MustBuild_def Build_def WithShardName_def InControllerRing_def
          For_def NewShardedReconciler_def WithClient_def)
  qed
  from assms(1) show ?thesis
  proof cases
    case (panics st)
    then show ?thesis using shard [OF panics(3,2)] by simp
  next
    case (runs st ct s result)
    have "run_inv s" using shutdown.inv_run [OF runs(7) run_init_inv] .
    then have "(\<exists>t. rs_signal s = Some t) \<and> rs_manager s = ManagerSent result"
      using runs(8) by (cases "rs_manager s") (auto simp: run_inv_def)
    then show ?thesis using runs(1,7) by auto
  qed auto
qed

end
