(* ===== verification/Json.thy ===== *)
theory Json
  imports Go_Strings "HOL-Library.AList"
begin

text \<open>
  JSON documents as far as the patches of the sharder need them, with the text format of RFC 8259 for objects, strings
  without escapes and the three literals, and the merge patch of RFC 7386. Numbers, arrays and strings with
  escapes are kept as their text in \<open>JRaw\<close>; they occur in documents, never in the patches, and the parser refuses them.
  The fuel of the parser is the length of the text; that it is enough for every printed document is part of the round trip.
\<close>

section \<open>Documents and their text\<close>

datatype json = JNull | JBool bool | JString string | JObject "(string \<times> json) list" | JRaw string

fun show_json :: "json \<Rightarrow> string" and show_members :: "(string \<times> json) list \<Rightarrow> string" where
  "show_json JNull = ''null''"
| "show_json (JBool b) = (if b then ''true'' else ''false'')"
| "show_json (JString s) = quote s"
| "show_json (JObject []) = ''{}''"
| "show_json (JObject (m # ms)) = CHR ''{'' # show_members (m # ms)"
| "show_json (JRaw s) = s"
| "show_members [] = []"
| "show_members ((k, v) # ms) = quote k @ CHR '':'' # show_json v @ (if ms = [] then ''}'' else CHR '','' # show_members ms)"

text \<open>The characters of a string up to the closing quotation mark; escapes and control characters are refused.\<close>

definition plain_char :: "char \<Rightarrow> bool" where
  "plain_char c \<longleftrightarrow> c \<noteq> CHR 0x22 \<and> c \<noteq> CHR 0x5C \<and> 32 \<le> (of_char c :: nat)"

fun parse_string :: "string \<Rightarrow> (string \<times> string) option" where
  "parse_string [] = None"
| "parse_string (c # cs) =
     (if c = CHR 0x22 then Some ([], cs)
      else if plain_char c then map_option (\<lambda>(s, r). (c # s, r)) (parse_string cs) else None)"

definition parse_literal :: "string \<Rightarrow> (json \<times> string) option" where
  "parse_literal s =
     (if HasPrefix s ''null'' then Some (JNull, TrimPrefix s ''null'')
      else if HasPrefix s ''true'' then Some (JBool True, TrimPrefix s ''true'')
      else if HasPrefix s ''false'' then Some (JBool False, TrimPrefix s ''false'') else None)"

fun parse_value :: "nat \<Rightarrow> string \<Rightarrow> (json \<times> string) option"
  and parse_members :: "nat \<Rightarrow> string \<Rightarrow> ((string \<times> json) list \<times> string) option" where
  "parse_value 0 s = None"
| "parse_value (Suc n) [] = None"
| "parse_value (Suc n) (c # cs) =
     (if c = CHR 0x22 then map_option (\<lambda>(s, r). (JString s, r)) (parse_string cs)
      else if c = CHR ''{'' then
        (if HasPrefix cs ''}'' then Some (JObject [], tl cs) else map_option (\<lambda>(ms, r). (JObject ms, r)) (parse_members n cs))
      else parse_literal (c # cs))"
| "parse_members 0 s = None"
| "parse_members (Suc n) s =
     (if HasPrefix s [CHR 0x22] then
        (case parse_string (tl s) of
           Some (k, r) \<Rightarrow>
             if HasPrefix r '':'' then
               (case parse_value n (tl r) of
                  Some (v, r) \<Rightarrow>
                    if HasPrefix r '','' then map_option (\<lambda>(ms, r). ((k, v) # ms, r)) (parse_members n (tl r))
                    else if HasPrefix r ''}'' then Some ([(k, v)], tl r) else None
                | None \<Rightarrow> None)
             else None
         | None \<Rightarrow> None)
      else None)"

definition parse_json :: "string \<Rightarrow> json option" where
  "parse_json s = (case parse_value (Suc (length s)) s of Some (j, []) \<Rightarrow> Some j | _ \<Rightarrow> None)"

section \<open>Round trip\<close>

text \<open>Documents whose strings need no escapes.\<close>

fun plain_json :: "json \<Rightarrow> bool" and plain_members :: "(string \<times> json) list \<Rightarrow> bool" where
  "plain_json (JString s) = list_all plain_char s"
| "plain_json (JObject ms) = plain_members ms"
| "plain_json (JRaw s) = False"
| "plain_json _ = True"
| "plain_members [] = True"
| "plain_members ((k, v) # ms) = (list_all plain_char k \<and> plain_json v \<and> plain_members ms)"

lemma parse_string_plain: "list_all plain_char s \<Longrightarrow> parse_string (s @ CHR 0x22 # r) = Some (s, r)"
  by (induction s) (auto simp: plain_char_def)

lemma HasPrefix_single [simp]: "HasPrefix (c # s) [d] \<longleftrightarrow> c = d"
  by (auto simp: HasPrefix_def)

lemma parse_literals [simp]:
  "parse_literal (CHR ''n'' # CHR ''u'' # CHR ''l'' # CHR ''l'' # r) = Some (JNull, r)"
  "parse_literal (CHR ''t'' # CHR ''r'' # CHR ''u'' # CHR ''e'' # r) = Some (JBool True, r)"
  "parse_literal (CHR ''f'' # CHR ''a'' # CHR ''l'' # CHR ''s'' # CHR ''e'' # r) = Some (JBool False, r)"
  by (simp_all add: parse_literal_def HasPrefix_def TrimPrefix_def)

lemma parse_show:
  "plain_json j \<Longrightarrow> length (show_json j) \<le> n \<Longrightarrow> parse_value n (show_json j @ r) = Some (j, r)"
  "plain_members ms \<Longrightarrow> ms \<noteq> [] \<Longrightarrow> length (show_members ms) \<le> n \<Longrightarrow> parse_members n (show_members ms @ r) = Some (ms, r)"
proof (induction j and ms arbitrary: n r and n r rule: show_json_show_members.induct)
  case (2 b)
  then show ?case by (cases n) (auto split: if_splits)
next
  case (3 s)
  then show ?case by (cases n) (simp_all add: quote_def parse_string_plain)
next
  case (5 m ms)
  obtain k v where m: "m = (k, v)" by fastforce
  obtain n' where n: "n = Suc n'" using 5(3) by (cases n) simp_all
  have "parse_members n' (show_members (m # ms) @ r) = Some (m # ms, r)" using 5(1,2,3) by (simp add: n)
  then show ?case by (simp add: n m quote_def)
next
  case (8 k v ms)
  obtain n' where n: "n = Suc n'" using 8(5) by (cases n) simp_all
  have v: "parse_value n' (show_json v @ r') = Some (v, r')" for r' using 8 by (simp add: n)
  have ms: "ms \<noteq> [] \<Longrightarrow> parse_members n' (show_members ms @ r) = Some (ms, r)" using 8 by (simp add: n)
  show ?case
    using 8(3) v [of "CHR ''}'' # r"] v [of "CHR '','' # show_members ms @ r"] ms
    by (simp add: n quote_def parse_string_plain)
qed (case_tac n; simp)+

lemma parse_json_show: "plain_json j \<Longrightarrow> parse_json (show_json j) = Some j"
  using parse_show(1) [of j "Suc (length (show_json j))" "[]"] by (simp add: parse_json_def)

section \<open>Merge patches\<close>

text \<open>RFC 7386: members of an object patch are merged, \<^verbatim>\<open>null\<close> removes a member, anything else replaces the target.\<close>

definition json_members :: "json \<Rightarrow> (string \<times> json) list" where
  "json_members j = (case j of JObject ms \<Rightarrow> ms | _ \<Rightarrow> [])"

definition member_or_null :: "(string \<times> json) list \<Rightarrow> string \<Rightarrow> json" where
  "member_or_null ms k = (case map_of ms k of Some v \<Rightarrow> v | None \<Rightarrow> JNull)"

fun merge_patch :: "json \<Rightarrow> json \<Rightarrow> json" and merge_members :: "(string \<times> json) list \<Rightarrow> (string \<times> json) list \<Rightarrow> (string \<times> json) list" where
  "merge_patch t (JObject ps) = JObject (merge_members (json_members t) ps)"
| "merge_patch t p = p"
| "merge_members ms [] = ms"
| "merge_members ms ((k, v) # ps) =
     merge_members (if v = JNull then AList.delete k ms else AList.update k (merge_patch (member_or_null ms k) v) ms) ps"

fun jget :: "string list \<Rightarrow> json \<Rightarrow> json option" where
  "jget [] j = Some j"
| "jget (k # ks) j = (case map_of (json_members j) k of None \<Rightarrow> None | Some v \<Rightarrow> jget ks v)"

lemma json_members_simps [simp]: "json_members (JObject ms) = ms" "json_members JNull = []"
  by (simp_all add: json_members_def)

lemma merge_members_other: "k \<notin> fst ` set ps \<Longrightarrow> map_of (merge_members ms ps) k = map_of ms k"
  by (induction ps arbitrary: ms) (auto simp: update_conv' delete_conv')

lemma merge_members_lookup:
  "distinct (map fst ps) \<Longrightarrow> map_of ps k = Some v \<Longrightarrow>
     map_of (merge_members ms ps) k = (if v = JNull then None else Some (merge_patch (member_or_null ms k) v))"
proof (induction ps arbitrary: ms)
  case (Cons p ps)
  obtain k' v' where p: "p = (k', v')" by fastforce
  show ?case
  proof (cases "k' = k")
    case True
    then show ?thesis using Cons.prems by (simp add: p merge_members_other update_conv' delete_conv')
  next
    case False
    then show ?thesis using Cons by (simp add: p member_or_null_def update_conv' delete_conv')
  qed
qed simp

text \<open>Merging an object patch into a document, one level after the other.\<close>

lemma jget_merge:
  assumes "distinct (map fst ps)"
  shows "jget (k # ks) (merge_patch d (JObject ps)) =
    (case map_of ps k of
       None \<Rightarrow> jget (k # ks) d
     | Some v \<Rightarrow> if v = JNull then None else jget ks (merge_patch (member_or_null (json_members d) k) v))"
  using merge_members_other [of k ps "json_members d"] merge_members_lookup [OF assms, of k _ "json_members d"]
  by (auto split: option.split simp: map_of_eq_None_iff)

lemma jget_member_or_null: "jget (k # ks) (member_or_null (json_members d) k') = jget (k' # k # ks) d"
  by (simp add: member_or_null_def split: option.split)

end
