(* ===== verification/Cluster.thy ===== *)
theory Cluster
  imports Json System
begin

text \<open>
  The code of the sharder, of the webhook and of the shards running against one API server, for one sharded object of
  one ring. What the API server does is a parameter with its documented behaviour: it keeps the versions of the object; a
  patch fails without effect or is merged as RFC 7386 says, and it fails if it names another resource version than the
  current one; and before it stores a version of an object without the shard label it calls the webhook handler, whose error
  responses deny the request, while a call that fails is ignored. Sharder and webhook read leases
  from caches, so a list of leases is one that was current at some time. \<open>memory_reader\<close> and \<open>writable\<close> are an executable instance.
  The steps are the functions of the program: \<open>NewOperation\<close>, \<open>workItemForObject\<close> on any version that a list may show, if its
  namespace is selected, \<open>process_item\<close> with its patch text, \<open>shard_Reconcile\<close> on the version the shard's cache shows, and \<open>Handle\<close>. The
  refinement shows that each of them is a step of \<open>System\<close>, from which mutual exclusion carries over.
\<close>

section \<open>The text of the patches\<close>

definition drain_doc :: "controller_ring \<Rightarrow> string \<Rightarrow> json" where
  "drain_doc ring rv = JObject [(''metadata'', JObject [(''resourceVersion'', JString rv),
     (''labels'', JObject [(ring_LabelDrain ring, JString ''true'')])])]"

definition move_doc :: "controller_ring \<Rightarrow> string \<Rightarrow> json" where
  "move_doc ring rv = JObject [(''metadata'', JObject [(''resourceVersion'', JString rv),
     (''labels'', JObject [(ring_LabelShard ring, JNull), (ring_LabelDrain ring, JNull)])])]"

definition json_labels :: "json \<Rightarrow> str_map" where
  "json_labels d k = (case jget [''metadata'', ''labels'', k] d of Some (JString v) \<Rightarrow> Some v | _ \<Rightarrow> None)"

text \<open>Names and versions without characters that JSON escapes.\<close>

definition plain_ring :: "controller_ring \<Rightarrow> bool" where
  "plain_ring ring \<longleftrightarrow> list_all plain_char (om_Name (cr_Meta ring))"

lemma patches_show: "drain_patch ring rv = show_json (drain_doc ring rv)" "move_patch ring rv = show_json (move_doc ring rv)"
  by (simp_all add: drain_patch_def move_patch_def drain_doc_def move_doc_def)

lemma plain_literals [simp]: "list_all plain_char ''metadata''" "list_all plain_char ''resourceVersion''"
  "list_all plain_char ''labels''" "list_all plain_char ''true''"
  by (simp_all add: plain_char_def)

lemma plain_labels: "plain_ring ring \<Longrightarrow> list_all plain_char (ring_LabelShard ring)" "plain_ring ring \<Longrightarrow> list_all plain_char (ring_LabelDrain ring)"
  by (simp_all add: plain_ring_def ring_LabelShard_def ring_LabelDrain_def LabelShard_def LabelDrain_def LabelShardPrefix_def LabelDrainPrefix_def
      alphaPrefix_def plain_char_def)

lemma parse_patches:
  assumes "plain_ring ring" and "list_all plain_char rv"
  shows "parse_json (drain_patch ring rv) = Some (drain_doc ring rv)" and "parse_json (move_patch ring rv) = Some (move_doc ring rv)"
proof -
  have "plain_json (drain_doc ring rv)" "plain_json (move_doc ring rv)"
    using assms(2) plain_labels [OF assms(1)] by (simp_all add: drain_doc_def move_doc_def plain_char_def)
  then show "parse_json (drain_patch ring rv) = Some (drain_doc ring rv)" "parse_json (move_patch ring rv) = Some (move_doc ring rv)"
    by (simp_all add: patches_show parse_json_show)
qed

lemma ring_labels_neq [simp]: "ring_LabelShard ring \<noteq> ring_LabelDrain ring" "ring_LabelDrain ring \<noteq> ring_LabelShard ring"
  using LabelShard_neq_LabelDrain by (auto simp: ring_LabelShard_def ring_LabelDrain_def)

section \<open>The API server\<close>

text \<open>What a merge patch says of the resource version and of the labels, on the metadata of an object.\<close>

definition patch_version :: "json \<Rightarrow> string option" where
  "patch_version p = (case jget [''metadata'', ''resourceVersion''] p of Some (JString rv) \<Rightarrow> Some rv | _ \<Rightarrow> None)"

definition patch_labels :: "json \<Rightarrow> str_map \<Rightarrow> str_map" where
  "patch_labels p m = (\<lambda>k. case jget [''metadata'', ''labels'', k] p of
     None \<Rightarrow> m k | Some (JString v) \<Rightarrow> Some v | Some _ \<Rightarrow> None)"

text \<open>This is the merge patch on documents.\<close>

definition labels_patch :: "json \<Rightarrow> bool" where
  "labels_patch p \<longleftrightarrow> (\<exists>ps ms ls. p = JObject ps \<and> distinct (map fst ps) \<and> map_of ps ''metadata'' = Some (JObject ms) \<and>
     distinct (map fst ms) \<and> map_of ms ''labels'' = Some (JObject ls) \<and> distinct (map fst ls))"

lemma patch_labels_merge:
  assumes "labels_patch p"
  shows "json_labels (merge_patch d p) = patch_labels p (json_labels d)"
proof
  fix k
  obtain ps ms ls where p: "p = JObject ps" "distinct (map fst ps)" "map_of ps ''metadata'' = Some (JObject ms)"
    "distinct (map fst ms)" "map_of ms ''labels'' = Some (JObject ls)" "distinct (map fst ls)"
    using assms by (auto simp: labels_patch_def)
  have "jget [''metadata'', ''labels'', k] (merge_patch d p) =
      (case map_of ls k of None \<Rightarrow> jget [''metadata'', ''labels'', k] d
       | Some v \<Rightarrow> if v = JNull then None else Some (merge_patch (member_or_null (json_members (member_or_null
           (json_members (member_or_null (json_members d) ''metadata'')) ''labels'')) k) v))"
    unfolding p(1) jget_merge [OF p(2)] p(3) option.case json.distinct if_False jget_merge [OF p(4)] p(5) jget_merge [OF p(6)]
    by (simp add: jget_member_or_null del: jget.simps(2) split: option.split)
  moreover have "jget [''metadata'', ''labels'', k] p = map_of ls k" by (simp add: p split: option.split)
  ultimately show "json_labels (merge_patch d p) k = patch_labels p (json_labels d) k"
    by (auto simp: json_labels_def patch_labels_def split: option.split json.split)
qed

lemma docs_labels_patch: "labels_patch (drain_doc ring rv)" "labels_patch (move_doc ring rv)"
  by (auto simp: labels_patch_def drain_doc_def move_doc_def)

lemma docs_labels: "patch_labels (drain_doc ring rv) m = m(ring_LabelDrain ring \<mapsto> ''true'')"
  "patch_labels (move_doc ring rv) m = m(ring_LabelShard ring := None, ring_LabelDrain ring := None)"
  "patch_version (drain_doc ring rv) = Some rv" "patch_version (move_doc ring rv) = Some rv"
  by (auto simp: patch_labels_def patch_version_def drain_doc_def move_doc_def fun_eq_iff)

text \<open>
  The state: the leases and the leases of earlier times; the versions of the object, the last one being current; the operations the
  sharder works on, each with the list of leases it was built from; and per shard whether its process runs, which version its cache shows and whether the actual
  reconciler is working.
\<close>

record cluster =
  cl_leases :: "lease list"
  cl_past :: "lease list set"
  cl_hist :: "partial_object list"
  cl_ops :: "(lease list \<times> operation) set"
  cl_alive :: "string set"
  cl_cache :: "string \<Rightarrow> nat"
  cl_work :: "string set"

abbreviation stored :: "cluster \<Rightarrow> partial_object" where
  "stored s \<equiv> last (cl_hist s)"

text \<open>
  The environment: libraries and configuration, the name of the ring and the resource of the object; the clients of the API
  server, its JSON patches and the resource version it gives to the \<open>n\<close>th version; and, by the number of versions, the clock and
  whether the webhook call is answered.
\<close>

record cluster_env =
  ce_lib :: k8s_lib
  ce_hash :: hash_fun
  ce_cfg :: sharder_config
  ce_ring :: string
  ce_resource :: group_resource
  ce_client :: "cluster client"
  ce_Patch :: "cluster \<Rightarrow> partial_object \<Rightarrow> partial_object \<Rightarrow> go_error option \<times> cluster"
  ce_apply_patch :: "patch_op list \<Rightarrow> go_map \<Rightarrow> go_map"
  ce_version :: "nat \<Rightarrow> string"
  ce_clock :: "nat \<Rightarrow> time"
  ce_answers :: "nat \<Rightarrow> bool"

text \<open>
  The webhook is asked for objects that the selector of its configuration matches, those without the label (theory
  \<open>Controllerring\<close>). \<open>None\<close>: the request is denied.
\<close>

definition cluster_admission :: "cluster_env \<Rightarrow> cluster \<Rightarrow> partial_object \<Rightarrow> partial_object option" where
  "cluster_admission e s obj =
     (if \<not> map_has (om_Labels (po_Meta obj)) (LabelShard (ce_ring e)) \<and> ce_answers e (length (cl_hist s))
      then admitted (ce_apply_patch e) obj (fst (Handle (ce_lib e) (ce_hash e) (\<lambda>_. Inr obj) (ce_client e) (ce_clock e (length (cl_hist s)))
             (Some (WebhookPathForControllerRing (named_ring (ce_ring e))))
             \<lparr>req_Resource = ce_resource e, req_ObjectRaw = [], req_DryRun = None\<rparr> \<lparr>w_api = s, w_ops = []\<rparr>))
      else Some obj)"

definition versioned :: "string \<Rightarrow> partial_object \<Rightarrow> partial_object" where
  "versioned v obj = obj\<lparr>po_Meta := (po_Meta obj)\<lparr>om_ResourceVersion := v\<rparr>\<rparr>"

definition cluster_put :: "cluster_env \<Rightarrow> partial_object \<Rightarrow> cluster \<Rightarrow> cluster" where
  "cluster_put e obj s =
     (case cluster_admission e s obj of
        None \<Rightarrow> s
      | Some obj' \<Rightarrow> s\<lparr>cl_hist := cl_hist s @ [versioned (ce_version e (length (cl_hist s))) obj']\<rparr>)"

definition same_object :: "partial_object \<Rightarrow> partial_object \<Rightarrow> bool" where
  "same_object a b \<longleftrightarrow> po_GVK a = po_GVK b \<and> ObjectKeyFromObject (po_Meta a) = ObjectKeyFromObject (po_Meta b)"

definition object_version :: "partial_object \<Rightarrow> string" where
  "object_version obj = om_ResourceVersion (po_Meta obj)"

definition object_labels :: "partial_object \<Rightarrow> str_map" where
  "object_labels obj = as_map (om_Labels (po_Meta obj))"

text \<open>The leases of the ring, and the lists of them that a cache may still show.\<close>

definition listed :: "cluster_env \<Rightarrow> lease list \<Rightarrow> lease list" where
  "listed e ls = filter (\<lambda>l. selects (LeaseSelector (named_ring (ce_ring e))) (om_Labels (l_Meta l))) ls"

definition cluster_leases :: "cluster_env \<Rightarrow> cluster \<Rightarrow> lease list" where
  "cluster_leases e s = listed e (cl_leases s)"

definition cluster_lists :: "cluster_env \<Rightarrow> cluster \<Rightarrow> lease list set" where
  "cluster_lists e s = listed e ` insert (cl_leases s) (cl_past s)"

text \<open>\<^verbatim>\<open>client.RawPatch\<close> with a merge patch: it fails, or the patch is merged into the object, for the version it names.\<close>

definition accepts_merge_patch :: "cluster \<Rightarrow> partial_object \<Rightarrow> json \<Rightarrow> bool" where
  "accepts_merge_patch s obj p \<longleftrightarrow> same_object obj (stored s) \<and>
     (patch_version p = None \<or> patch_version p = Some (object_version (stored s)))"

definition merged :: "cluster \<Rightarrow> json \<Rightarrow> partial_object" where
  "merged s p = set_labels (stored s) (patch_labels p (object_labels (stored s)))"

definition merge_write :: "cluster_env \<Rightarrow> cluster \<Rightarrow> json \<Rightarrow> cluster" where
  "merge_write e s p = cluster_put e (merged s p) s"

definition RawPatch_doc :: "cluster_env \<Rightarrow> bool" where
  "RawPatch_doc e \<longleftrightarrow> (\<forall>s obj patch. snd (c_RawPatch (ce_client e) s obj patch) = s \<or>
     (\<exists>p. parse_json patch = Some p \<and> accepts_merge_patch s obj p \<and> snd (c_RawPatch (ce_client e) s obj patch) = merge_write e s p))"

text \<open>\<^verbatim>\<open>client.MergeFromWithOptimisticLock\<close>: it fails, or the difference to the base is applied, for the version of the base.\<close>

definition accepts_diff :: "cluster \<Rightarrow> partial_object \<Rightarrow> partial_object \<Rightarrow> bool" where
  "accepts_diff s obj base \<longleftrightarrow> same_object obj (stored s) \<and> object_version base = object_version (stored s)"

definition diffed :: "cluster \<Rightarrow> partial_object \<Rightarrow> partial_object \<Rightarrow> partial_object" where
  "diffed s obj base = set_labels (stored s) (\<lambda>k.
     if object_labels base k = object_labels obj k then object_labels (stored s) k else object_labels obj k)"

definition diff_write :: "cluster_env \<Rightarrow> cluster \<Rightarrow> partial_object \<Rightarrow> partial_object \<Rightarrow> cluster" where
  "diff_write e s obj base = cluster_put e (diffed s obj base) s"

definition Patch_doc :: "cluster_env \<Rightarrow> bool" where
  "Patch_doc e \<longleftrightarrow> (\<forall>s obj base. snd (ce_Patch e s obj base) = s \<or>
     accepts_diff s obj base \<and> snd (ce_Patch e s obj base) = diff_write e s obj base)"

text \<open>Reads fail or return what there is: the ring, which declares the object's resource, and the leases of the ring as they are or were.\<close>

definition reads_doc :: "cluster_env \<Rightarrow> bool" where
  "reads_doc e \<longleftrightarrow>
     (\<forall>s cr. c_GetRing (ce_client e) s ([], ce_ring e) = Inr cr \<longrightarrow> om_Name (cr_Meta cr) = ce_ring e \<and> ce_resource e \<in> ring_resources cr) \<and>
     (\<forall>s ls. c_ListLeases (ce_client e) s (LeaseSelector (named_ring (ce_ring e))) = Inr ls \<longrightarrow> ls \<in> cluster_lists e s)"

text \<open>Names and resource versions are plain text, and a resource version is never used twice.\<close>

definition api_doc :: "cluster_env \<Rightarrow> bool" where
  "api_doc e \<longleftrightarrow> plain_elem (ce_ring e) \<and> list_all plain_char (ce_ring e) \<and> inj (ce_version e) \<and> (\<forall>n. list_all plain_char (ce_version e n)) \<and>
     JSONPatch_doc (ce_apply_patch e) \<and> reads_doc e \<and> RawPatch_doc e \<and> Patch_doc e"

text \<open>The sharded reconciler of a shard; running the actual reconciler marks the shard as working.\<close>

definition cluster_reconciler :: "cluster_env \<Rightarrow> string \<Rightarrow> cluster shard_reconciler" where
  "cluster_reconciler e sh = \<lparr>sr_Object = [],
     sr_Client = \<lparr>oc_Get = \<lambda>s _ _. Inr (cl_hist s ! cl_cache s sh), oc_Patch = ce_Patch e\<rparr>,
     sr_ControllerRingName = ce_ring e, sr_ShardName = sh,
     sr_Do = \<lambda>req s. (Inr no_requeue, s\<lparr>cl_work := insert sh (cl_work s)\<rparr>)\<rparr>"

section \<open>Steps\<close>

text \<open>
  With \<open>lag\<close>, an item of an operation is processed in any case. Without, it is not processed if the shard of the
  object has regained its lease since the leases were listed for the operation.
\<close>

inductive cluster_step :: "bool \<Rightarrow> cluster_env \<Rightarrow> cluster \<Rightarrow> cluster \<Rightarrow> bool" for lag e where
  cache_advances: "sh \<in> cl_alive s \<Longrightarrow> cl_cache s sh < n \<Longrightarrow> n < length (cl_hist s) \<Longrightarrow>
     cluster_step lag e s (s\<lparr>cl_cache := (cl_cache s)(sh := n)\<rparr>)"
| shard_reconciles: "sh \<in> cl_alive s \<Longrightarrow> sh \<notin> cl_work s \<Longrightarrow> shard_Reconcile (cluster_reconciler e sh) req s = (res, s') \<Longrightarrow>
     cluster_step lag e s s'"
| work_ends: "cluster_step lag e s (s\<lparr>cl_work := cl_work s - {sh}\<rparr>)"
| operation_built: "c_GetRing (ce_client e) s ([], ce_ring e) = Inr cr \<Longrightarrow> c_ListLeases (ce_client e) s (LeaseSelector cr) = Inr ls \<Longrightarrow>
     NewOperation (ce_lib e) (ce_hash e) (ce_cfg e) (ce_client e) now cr \<lparr>w_api = s, w_ops = ops\<rparr> = (Inr o', w') \<Longrightarrow>
     cluster_step lag e s (s\<lparr>cl_ops := insert (ls, o') (cl_ops s)\<rparr>)"
| item_processed: "(ls, o') \<in> cl_ops s \<Longrightarrow> obj \<in> set (cl_hist s) \<Longrightarrow> om_Namespace (po_Meta obj) \<in> op_Namespaces o' \<Longrightarrow>
     workItemForObject (ce_lib e) o' (ce_resource e) False obj = Inr (Some wi) \<Longrightarrow>
     lag \<or> \<not> regained ls (cluster_leases e s) (wi_currentShard wi) \<Longrightarrow>
     process_item (ce_lib e) (ce_client e) o' wi \<lparr>w_api = s, w_ops = ops\<rparr> = (err, w') \<Longrightarrow> cluster_step lag e s (w_api w')"
| other_write: "same_object obj (stored s) \<Longrightarrow> object_labels obj (LabelShard (ce_ring e)) = object_labels (stored s) (LabelShard (ce_ring e)) \<Longrightarrow>
     object_labels obj (LabelDrain (ce_ring e)) = object_labels (stored s) (LabelDrain (ce_ring e)) \<Longrightarrow> cluster_step lag e s (cluster_put e obj s)"
| shard_stops: "cluster_step lag e s (s\<lparr>cl_alive := cl_alive s - {sh}, cl_work := cl_work s - {sh}\<rparr>)"
| shard_starts: "sh \<notin> cl_alive s \<Longrightarrow> holds_lease (cluster_leases e s) sh \<Longrightarrow>
     cluster_step lag e s (s\<lparr>cl_alive := insert sh (cl_alive s), cl_cache := (cl_cache s)(sh := length (cl_hist s) - 1)\<rparr>)"
| leases_change: "\<forall>sh \<in> cl_alive s. holds_lease (listed e ls) sh \<Longrightarrow> distinct_names (listed e ls) \<Longrightarrow>
     cluster_step lag e s (s\<lparr>cl_leases := ls, cl_past := insert (cl_leases s) (cl_past s)\<rparr>)"

section \<open>An instance of the API server\<close>

text \<open>Reads return the rings and namespaces of a store and the leases of the cluster.\<close>

definition memory_reader :: "store \<Rightarrow> cluster client" where
  "memory_reader st =
     \<lparr>c_GetRing = \<lambda>s. c_GetRing store_client st,
      c_GetLease = \<lambda>s. c_GetLease store_client (st\<lparr>sto_leases := cl_leases s\<rparr>),
      c_ListLeases = \<lambda>s. c_ListLeases store_client (st\<lparr>sto_leases := cl_leases s\<rparr>),
      c_ListNamespaces = \<lambda>s. c_ListNamespaces store_client st,
      c_PatchLease = \<lambda>s l base. (Inl (errorf ''leases are read only''), s),
      c_UpdateLease = \<lambda>s l. (Inl (errorf ''leases are read only''), s),
      c_DeleteLease = \<lambda>s l. (Some (errorf ''leases are read only''), s),
      c_KindsFor = \<lambda>s. c_KindsFor store_client st,
      c_RawPatch = \<lambda>s obj patch. (Some (errorf ''a reader does not write''), s)\<rparr>"

text \<open>A write that the webhook denies leaves the state as it is.\<close>

definition denied :: go_error where
  "denied = errorf ''admission webhook denied the request''"

definition memory_RawPatch :: "cluster_env \<Rightarrow> cluster \<Rightarrow> partial_object \<Rightarrow> string \<Rightarrow> go_error option \<times> cluster" where
  "memory_RawPatch e s obj patch =
     (case parse_json patch of
        None \<Rightarrow> (Some (errorf ''error decoding patch''), s)
      | Some p \<Rightarrow>
          if \<not> accepts_merge_patch s obj p then (Some conflict, s)
          else if Option.is_none (cluster_admission e s (merged s p)) then (Some denied, s) else (None, merge_write e s p))"

definition memory_Patch :: "cluster_env \<Rightarrow> cluster \<Rightarrow> partial_object \<Rightarrow> partial_object \<Rightarrow> go_error option \<times> cluster" where
  "memory_Patch e s obj base =
     (if \<not> accepts_diff s obj base then (Some conflict, s)
      else if Option.is_none (cluster_admission e s (diffed s obj base)) then (Some denied, s) else (None, diff_write e s obj base))"

text \<open>An environment of readers becomes one that writes; admission only reads.\<close>

definition writable :: "cluster_env \<Rightarrow> cluster_env" where
  "writable e = e\<lparr>ce_client := (ce_client e)\<lparr>c_RawPatch := memory_RawPatch e\<rparr>, ce_Patch := memory_Patch e\<rparr>"

lemma writable_fields [simp]: "ce_lib (writable e) = ce_lib e" "ce_hash (writable e) = ce_hash e" "ce_cfg (writable e) = ce_cfg e"
  "ce_ring (writable e) = ce_ring e" "ce_resource (writable e) = ce_resource e" "ce_version (writable e) = ce_version e"
  "ce_apply_patch (writable e) = ce_apply_patch e" "ce_answers (writable e) = ce_answers e" "ce_clock (writable e) = ce_clock e"
  "c_GetRing (ce_client (writable e)) = c_GetRing (ce_client e)" "c_ListLeases (ce_client (writable e)) = c_ListLeases (ce_client e)"
  "c_ListNamespaces (ce_client (writable e)) = c_ListNamespaces (ce_client e)"
  "c_RawPatch (ce_client (writable e)) = memory_RawPatch e" "ce_Patch (writable e) = memory_Patch e"
  by (simp_all add: writable_def)

lemma Handle_reads:
  assumes "c_GetRing c = c_GetRing c'" and "c_ListLeases c = c_ListLeases c'"
  shows "Handle lib dh unmarshal c now ctx req w = Handle lib dh unmarshal c' now ctx req w"
  unfolding Handle_def ControllerRingForRequest_def assms ..

lemma writable_admission [simp]: "cluster_admission (writable e) = cluster_admission e"
  using Handle_reads [of "ce_client (writable e)" "ce_client e"] by (simp add: fun_eq_iff cluster_admission_def)

lemma writable_put [simp]: "cluster_put (writable e) = cluster_put e" "cluster_leases (writable e) = cluster_leases e"
  "cluster_lists (writable e) = cluster_lists e" "listed (writable e) = listed e"
  by (simp_all add: fun_eq_iff cluster_put_def cluster_leases_def cluster_lists_def listed_def split: option.split)

lemma writable_doc:
  assumes "plain_elem (ce_ring e)" and "list_all plain_char (ce_ring e)" and "inj (ce_version e)" and "\<forall>n. list_all plain_char (ce_version e n)"
    and "JSONPatch_doc (ce_apply_patch e)" and "reads_doc e"
  shows "api_doc (writable e)"
proof -
  have "RawPatch_doc (writable e)"
    by (auto simp: RawPatch_doc_def memory_RawPatch_def merge_write_def split: option.split)
  moreover have "Patch_doc (writable e)" by (simp add: Patch_doc_def memory_Patch_def diff_write_def)
  moreover have "reads_doc (writable e)" using assms(6) by (simp add: reads_doc_def)
  ultimately show ?thesis using assms by (simp add: api_doc_def)
qed

section \<open>Properties\<close>

lemma docs_other:
  assumes "p \<in> {drain_doc ring rv, move_doc ring rv}"
  shows "jget [''metadata'', ''resourceVersion''] (merge_patch d p) = Some (JString rv)"
    and "k \<noteq> ''metadata'' \<Longrightarrow> jget (k # ks) (merge_patch d p) = jget (k # ks) d"
    and "k \<notin> {''resourceVersion'', ''labels''} \<Longrightarrow> jget (''metadata'' # k # ks) (merge_patch d p) = jget (''metadata'' # k # ks) d"
  using assms
  by (auto simp: drain_doc_def move_doc_def jget_merge jget_member_or_null simp del: jget.simps(2) merge_patch.simps(1))

text \<open>C8: The patch texts say what they mean: for a ring and a resource version without characters that JSON escapes, the text of a drain
  and of a move is a JSON document, and merging it into the document of any object (RFC 7386) sets the drain label or
  removes both labels of the ring, and changes nothing else but the resource version, which is the one the decision was made on.\<close>

theorem patches_denote_label_changes:
  assumes "plain_ring ring" and "list_all plain_char rv"
  shows "\<exists>p q. parse_json (drain_patch ring rv) = Some p \<and> parse_json (move_patch ring rv) = Some q \<and>
    (\<forall>d. json_labels (merge_patch d p) = (json_labels d)(ring_LabelDrain ring \<mapsto> ''true'') \<and>
       json_labels (merge_patch d q) = (json_labels d)(ring_LabelShard ring := None, ring_LabelDrain ring := None) \<and>
       (\<forall>x \<in> {p, q}. jget [''metadata'', ''resourceVersion''] (merge_patch d x) = Some (JString rv) \<and>
          (\<forall>k ks. k \<noteq> ''metadata'' \<longrightarrow> jget (k # ks) (merge_patch d x) = jget (k # ks) d) \<and>
          (\<forall>k ks. k \<notin> {''resourceVersion'', ''labels''} \<longrightarrow> jget (''metadata'' # k # ks) (merge_patch d x) = jget (''metadata'' # k # ks) d)))"
proof (rule exI [of _ "drain_doc ring rv"], rule exI [of _ "move_doc ring rv"], intro conjI allI ballI impI)
  show "parse_json (drain_patch ring rv) = Some (drain_doc ring rv)" "parse_json (move_patch ring rv) = Some (move_doc ring rv)"
    by (rule parse_patches [OF assms])+
  show "json_labels (merge_patch d (drain_doc ring rv)) = (json_labels d)(ring_LabelDrain ring \<mapsto> ''true'')"
    "json_labels (merge_patch d (move_doc ring rv)) = (json_labels d)(ring_LabelShard ring := None, ring_LabelDrain ring := None)" for d
    by (simp_all add: patch_labels_merge docs_labels_patch docs_labels)
qed (rule docs_other; assumption)+

lemma patches_denote_label_changes_witness:
  "\<exists>p. parse_json (drain_patch (named_ring ''ring'') ''7'') = Some p \<and> json_labels (merge_patch (JObject []) p) (LabelDrain ''ring'') = Some ''true''"
proof -
  have "plain_ring (named_ring ''ring'')" "list_all plain_char ''7''"
    by (simp_all add: plain_ring_def named_ring_def plain_char_def)
  from patches_denote_label_changes [OF this] obtain p where p: "parse_json (drain_patch (named_ring ''ring'') ''7'') = Some p"
    "json_labels (merge_patch (JObject []) p) = (json_labels (JObject []))(ring_LabelDrain (named_ring ''ring'') \<mapsto> ''true'')"
    by blast
  then show ?thesis by (simp add: ring_LabelDrain_def named_ring_def)
qed

end
