(* ===== verification/Cluster_Refinement.thy ===== *)
theory Cluster_Refinement
  imports Cluster
begin

text \<open>
  The cluster, in which the functions of the program run against an API server, refines the step relation of \<open>System\<close>:
  every step of the cluster is one of its steps or changes nothing there. The abstraction forgets resource versions, so what
  remains to be shown is that optimistic locking makes every write apply to the version it was decided on.
\<close>

section \<open>Refinement as an interface\<close>

locale refinement =
  fixes step :: "'s \<Rightarrow> 's \<Rightarrow> bool" and astep :: "'a \<Rightarrow> 'a \<Rightarrow> bool" and inv :: "'s \<Rightarrow> bool" and abs :: "'s \<Rightarrow> 'a"
  assumes inv_step: "inv s \<Longrightarrow> step s s' \<Longrightarrow> inv s'"
    and simulates: "inv s \<Longrightarrow> step s s' \<Longrightarrow> abs s' = abs s \<or> astep (abs s) (abs s')"
begin

lemma run: "step\<^sup>*\<^sup>* s s' \<Longrightarrow> inv s \<Longrightarrow> inv s' \<and> astep\<^sup>*\<^sup>* (abs s) (abs s')"
proof (induction rule: rtranclp_induct)
  case (step s1 s2)
  then show ?case using inv_step [of s1 s2] simulates [of s1 s2] by (auto intro: rtranclp.rtrancl_into_rtrancl)
qed simp

lemma transfer: "step\<^sup>*\<^sup>* s s' \<Longrightarrow> inv s \<Longrightarrow> (\<And>a. astep\<^sup>*\<^sup>* (abs s) a \<Longrightarrow> P a) \<Longrightarrow> P (abs s')"
  using run by blast

end

section \<open>The abstraction\<close>

text \<open>The object without its resource version; a nil label map is an empty one.\<close>

definition norm :: "partial_object \<Rightarrow> partial_object" where
  "norm obj = obj\<lparr>po_Meta := (po_Meta obj)\<lparr>om_ResourceVersion := [], om_Labels := Some (object_labels obj)\<rparr>\<rparr>"

definition cluster_abs :: "cluster_env \<Rightarrow> cluster \<Rightarrow> sys" where
  "cluster_abs e s = \<lparr>sy_hist = map norm (cl_hist s), sy_leases = cluster_leases e s, sy_alive = cl_alive s,
     sy_cache = cl_cache s, sy_work = cl_work s\<rparr>"

lemma norm_simps [simp]:
  "po_GVK (norm obj) = po_GVK obj" "om_Name (po_Meta (norm obj)) = om_Name (po_Meta obj)"
  "om_Namespace (po_Meta (norm obj)) = om_Namespace (po_Meta obj)" "om_GenerateName (po_Meta (norm obj)) = om_GenerateName (po_Meta obj)"
  "as_map (om_Labels (po_Meta (norm obj))) = as_map (om_Labels (po_Meta obj))"
  by (simp_all add: norm_def object_labels_def)

lemma norm_get [simp]: "map_get (om_Labels (po_Meta (norm obj))) k = map_get (om_Labels (po_Meta obj)) k"
  "map_has (om_Labels (po_Meta (norm obj))) k = map_has (om_Labels (po_Meta obj)) k"
  by (simp_all add: map_get_def map_has_def)

lemma norm_assigned [simp]: "assigned_to ring sh (norm obj) \<longleftrightarrow> assigned_to ring sh obj" "drained ring (norm obj) \<longleftrightarrow> drained ring obj"
  by (simp_all add: assigned_to_def drained_def)

lemma norm_ForObject [simp]: "ForObject (norm obj) = ForObject obj"
  by (simp add: ForObject_def Let_def)

lemma norm_versioned [simp]: "norm (versioned n obj) = norm obj"
  by (simp add: norm_def versioned_def object_labels_def)

lemma norm_set_labels [simp]: "norm (set_labels obj m) = set_labels (norm obj) m"
  by (simp add: norm_def set_labels_def object_labels_def)

lemma norm_drain: "norm (drain_object ring obj) = drain_object ring (norm obj)"
  by (simp add: drain_object_def)

lemma norm_assign: "norm (assign_object dh ls ring obj) = assign_object dh ls ring (norm obj)"
  by (simp add: assign_object_def split: sum.split)

lemma release_norm: "release_object ring (norm obj) =
  set_labels (norm obj) ((object_labels obj)(LabelShard ring := None, LabelDrain ring := None))"
  by (simp add: release_object_def set_labels_def norm_def map_delete_def object_labels_def)

lemma work_norm:
  assumes "workItemForObject lib o' gr False obj = Inr (Some wi)"
  shows "workItemForObject lib o' gr False (norm obj) = Inr (Some (wi\<lparr>wi_resourceVersion := []\<rparr>))"
proof -
  have "om_ResourceVersion (po_Meta (norm obj)) = []" by (simp add: norm_def)
  with assms show ?thesis
    by (auto simp: workItemForObject_Some object_key_def current_shard_def ObjectKeyFromObject_def)
qed

section \<open>The invariant\<close>

definition cluster_inv :: "cluster_env \<Rightarrow> cluster \<Rightarrow> bool" where
  "cluster_inv e s \<longleftrightarrow> api_doc e \<and> cl_hist s \<noteq> [] \<and>
     (\<forall>i < length (cl_hist s). object_version (cl_hist s ! i) = ce_version e i \<and> same_object (cl_hist s ! i) (cl_hist s ! 0)) \<and>
     (\<forall>sh \<in> cl_alive s. cl_cache s sh < length (cl_hist s)) \<and> (\<forall>ls \<in> cluster_lists e s. distinct_names ls) \<and>
     (\<forall>(ls, o') \<in> cl_ops s. om_Name (cr_Meta (op_ControllerRing o')) = ce_ring e \<and> distinct_names ls \<and> (\<exists>now. op_from (ce_hash e) ls now o'))"

lemma inv_doc: "cluster_inv e s \<Longrightarrow> api_doc e"
  by (simp add: cluster_inv_def)

lemma api_docD:
  assumes "api_doc e"
  shows "plain_elem (ce_ring e)" "list_all plain_char (ce_ring e)" "inj (ce_version e)" "list_all plain_char (ce_version e n)"
    "JSONPatch_doc (ce_apply_patch e)" "reads_doc e" "RawPatch_doc e" "Patch_doc e"
  using assms by (simp_all add: api_doc_def)

lemma current_version:
  assumes "cluster_inv e s" and "obj \<in> set (cl_hist s)" and "object_version obj = object_version (stored s)"
  shows "obj = stored s"
proof -
  obtain i where i: "i < length (cl_hist s)" "obj = cl_hist s ! i" using assms(2) by (auto simp: in_set_conv_nth)
  have "cl_hist s \<noteq> []" using assms(1) by (simp add: cluster_inv_def)
  moreover have "i = length (cl_hist s) - 1"
    using assms(1,3) i calculation by (auto simp: cluster_inv_def last_conv_nth dest: injD [OF api_docD(3)])
  ultimately show ?thesis using i by (simp add: last_conv_nth)
qed

section \<open>Admission\<close>

lemma leases_read:
  assumes "api_doc e" and "om_Name (cr_Meta cr) = ce_ring e" and "c_ListLeases (ce_client e) s (LeaseSelector cr) = Inr ls"
  shows "ls \<in> cluster_lists e s"
  using api_docD(6) [OF assms(1)] assms(2,3) by (simp add: reads_doc_def LeaseSelector_def named_ring_def)

lemma webhook_ring:
  assumes "api_doc e"
  shows "ControllerRingForRequest (ce_client e) s (Some (WebhookPathForControllerRing (named_ring (ce_ring e)))) =
    (case c_GetRing (ce_client e) s ([], ce_ring e) of
       Inl err \<Rightarrow> Inl (wrapf ''error getting ControllerRing'' err) | Inr cr \<Rightarrow> Inr cr)"
proof -
  have "ControllerRingForWebhookPath (WebhookPathForControllerRing (named_ring (ce_ring e))) = Inr (named_ring (ce_ring e))"
    using webhook_path_back [of "named_ring (ce_ring e)"] api_docD(1) [OF assms] by (simp add: named_ring_def)
  then show ?thesis
    by (simp add: ControllerRingForRequest_def RequestPathFromContext_def named_ring_def ObjectKeyFromObject_def empty_meta_def)
qed

text \<open>When the webhook is called and its reads succeed, it assigns the object.\<close>

lemma cluster_admission_answered:
  assumes "api_doc e" and "ce_answers e (length (cl_hist s))" and "\<not> map_has (om_Labels (po_Meta obj)) (LabelShard (ce_ring e))"
    and "c_GetRing (ce_client e) s ([], ce_ring e) = Inr cr" and "c_ListLeases (ce_client e) s (LeaseSelector cr) = Inr ls"
    and "ForObject obj = Inr k"
  shows "cluster_admission e s obj = Some (assign_object (ce_hash e) ls (ce_ring e) obj)"
proof -
  have cr: "om_Name (cr_Meta cr) = ce_ring e" "ce_resource e \<in> ring_resources cr"
    using api_docD(6) [OF assms(1)] assms(4) by (auto simp: reads_doc_def)
  have "FuncForResource (ce_lib e) (ce_resource e) cr = Inr ForObject" using cr(2) by (simp add: FuncForResource_eq)
  then show ?thesis
    using admitted_Handle [where unmarshal = "\<lambda>_. Inr obj" and reader = "ce_client e"] api_docD(5) [OF assms(1)] cr(1) assms(2-6)
    by (simp add: cluster_admission_def webhook_ring [OF assms(1)])
qed

text \<open>Otherwise the object passes as it is, or the request is denied.\<close>

lemma cluster_admission_cases:
  assumes "api_doc e" and adm: "cluster_admission e s obj = Some obj'"
  obtains "obj' = obj" | ls where "obj' = assign_object (ce_hash e) ls (ce_ring e) obj"
proof (cases "\<not> map_has (om_Labels (po_Meta obj)) (LabelShard (ce_ring e)) \<and> ce_answers e (length (cl_hist s))")
  case True
  let ?h = "Handle (ce_lib e) (ce_hash e) (\<lambda>_. Inr obj) (ce_client e) (ce_clock e (length (cl_hist s)))
    (Some (WebhookPathForControllerRing (named_ring (ce_ring e))))
    \<lparr>req_Resource = ce_resource e, req_ObjectRaw = [], req_DryRun = None\<rparr> \<lparr>w_api = s, w_ops = []\<rparr>"
  have h: "admitted (ce_apply_patch e) obj (fst ?h) = Some obj'" using adm True by (simp add: cluster_admission_def)
  show thesis
  proof (cases "c_GetRing (ce_client e) s ([], ce_ring e)")
    case (Inl err)
    then show thesis using h by (simp add: Handle_def webhook_ring [OF assms(1)] admitted_def)
  next
    case cr: (Inr cr)
    show thesis
    proof (cases "\<exists>k ls. ForObject obj = Inr k \<and> c_ListLeases (ce_client e) s (LeaseSelector cr) = Inr ls")
      case True
      then obtain k ls where "ForObject obj = Inr k" "c_ListLeases (ce_client e) s (LeaseSelector cr) = Inr ls" by blast
      from cluster_admission_answered [OF assms(1) _ _ cr this(2,1)] \<open>\<not> map_has _ _ \<and> _\<close> adm that show thesis by auto
    next
      case False
      have "ce_resource e \<in> ring_resources cr" using api_docD(6) [OF assms(1)] cr by (auto simp: reads_doc_def)
      then have "FuncForResource (ce_lib e) (ce_resource e) cr = Inr ForObject" by (simp add: FuncForResource_eq)
      then have "obj' = obj"
        using False h cr by (auto simp: Handle_def webhook_ring [OF assms(1)] admitted_def Let_def split: sum.splits if_splits)
      then show thesis by (rule that)
    qed
  qed
next
  case False
  then show thesis using adm that by (auto simp: cluster_admission_def split: if_splits)
qed

lemma cluster_admission_admits:
  assumes "api_doc e" and "cluster_admission e s obj = Some obj'"
  shows "admits (ce_hash e) (ce_ring e) (norm obj) (norm obj')"
  by (rule cluster_admission_cases [OF assms]) (auto simp: admits_def norm_assign)

lemma cluster_admission_assigned:
  assumes "map_get (om_Labels (po_Meta obj)) (LabelShard (ce_ring e)) \<noteq> []"
  shows "cluster_admission e s obj = Some obj"
  using assms by (simp add: cluster_admission_def map_get_nonempty_has)

section \<open>Writes\<close>

lemma cluster_put_None [simp]: "cluster_admission e s obj = None \<Longrightarrow> cluster_put e obj s = s"
  by (simp add: cluster_put_def)

lemma cluster_put_Some: "cluster_admission e s obj = Some obj' \<Longrightarrow>
  cluster_put e obj s = s\<lparr>cl_hist := cl_hist s @ [versioned (ce_version e (length (cl_hist s))) obj']\<rparr>"
  by (simp add: cluster_put_def)

lemma cluster_put_frame [simp]: "cl_leases (cluster_put e obj s) = cl_leases s" "cl_past (cluster_put e obj s) = cl_past s"
  "cl_ops (cluster_put e obj s) = cl_ops s" "cl_alive (cluster_put e obj s) = cl_alive s" "cl_cache (cluster_put e obj s) = cl_cache s"
  "cl_work (cluster_put e obj s) = cl_work s" "cluster_leases e' (cluster_put e obj s) = cluster_leases e' s"
  "cluster_lists e' (cluster_put e obj s) = cluster_lists e' s"
  by (simp_all add: cluster_put_def cluster_leases_def cluster_lists_def split: option.split)

lemma cluster_put_abs:
  assumes "cluster_admission e s obj = Some obj'"
  shows "cluster_abs e (cluster_put e obj s) = put (norm obj') (cluster_abs e s)"
  by (simp add: cluster_abs_def cluster_put_Some [OF assms] put_def cluster_leases_def)

lemma same_object_set_labels [simp]: "same_object (set_labels obj m) b \<longleftrightarrow> same_object obj b"
  by (simp add: same_object_def ObjectKeyFromObject_def)

lemma same_object_admission:
  assumes "api_doc e" and "cluster_admission e s obj = Some obj'"
  shows "same_object (versioned n obj') b \<longleftrightarrow> same_object obj b"
proof -
  have "same_object (assign_object dh ls ring obj) b \<longleftrightarrow> same_object obj b" for dh ls ring
    by (simp add: assign_object_def split: sum.split)
  then have "same_object obj' b \<longleftrightarrow> same_object obj b" by (rule_tac cluster_admission_cases [OF assms]) simp_all
  then show ?thesis by (simp add: same_object_def versioned_def ObjectKeyFromObject_def)
qed

lemma stored_same: "cluster_inv e s \<Longrightarrow> same_object (stored s) (cl_hist s ! 0)"
  by (simp add: cluster_inv_def last_conv_nth)

lemma cluster_inv_put:
  assumes "cluster_inv e s" and "same_object obj (stored s)"
  shows "cluster_inv e (cluster_put e obj s)"
proof (cases "cluster_admission e s obj")
  case (Some obj')
  have "same_object obj (cl_hist s ! 0)" using assms(2) stored_same [OF assms(1)] by (simp add: same_object_def)
  then show ?thesis
    using assms(1) same_object_admission [OF inv_doc [OF assms(1)] Some] cluster_put_frame(8) [of e e obj s]
    by (auto simp: cluster_inv_def cluster_put_Some [OF Some] nth_append less_Suc_eq object_version_def versioned_def)
qed (use assms(1) in simp)

text \<open>What the sharder writes for a work item: nothing, or the drain or the move of the version the item was compiled from.\<close>

definition item_write :: "cluster_env \<Rightarrow> work_item \<Rightarrow> partial_object \<Rightarrow> partial_object" where
  "item_write e wi obj = (if wi_drain wi then drain_object (ce_ring e) obj
     else set_labels obj ((object_labels obj)(LabelShard (ce_ring e) := None, LabelDrain (ce_ring e) := None)))"

lemma item_patch:
  assumes "om_Name (cr_Meta cr) = ce_ring e" and "list_all plain_char (ce_ring e)" and "list_all plain_char v"
  obtains p where "parse_json (if wi_drain wi then drain_patch cr v else move_patch cr v) = Some p" "patch_version p = Some v"
    "merge_write e s p = cluster_put e (item_write e wi (stored s)) s"
proof -
  have lab: "ring_LabelShard cr = LabelShard (ce_ring e)" "ring_LabelDrain cr = LabelDrain (ce_ring e)" "plain_ring cr"
    using assms(1,2) by (simp_all add: ring_LabelShard_def ring_LabelDrain_def plain_ring_def)
  show thesis
    using that [of "if wi_drain wi then drain_doc cr v else move_doc cr v"] parse_patches [OF lab(3) assms(3)]
    by (simp add: docs_labels merge_write_def merged_def item_write_def drain_object_def lab(1,2) object_labels_def)
qed

lemma process_item_write:
  assumes "wi_resourceVersion wi = v"
  shows "w_api (snd (process_item lib c o' wi w)) =
    snd (c_RawPatch c (w_api w) (work_object wi) (if wi_drain wi then drain_patch (op_ControllerRing o') v else move_patch (op_ControllerRing o') v))"
proof -
  have "om_ResourceVersion (po_Meta (work_object wi)) = v" by (simp add: work_object_def assms)
  then show ?thesis
    by (simp add: process_item_def drainObject_def moveObject_def observe_def Let_def split: prod.split option.split)
qed

lemma item_effect:
  assumes inv: "cluster_inv e s" and "(ls, o') \<in> cl_ops s" and obj: "obj \<in> set (cl_hist s)"
    and "workItemForObject (ce_lib e) o' (ce_resource e) False obj = Inr (Some wi)"
    and run: "process_item (ce_lib e) (ce_client e) o' wi \<lparr>w_api = s, w_ops = ops\<rparr> = (err, w')"
  shows "w_api w' = s \<or> obj = stored s \<and> w_api w' = cluster_put e (item_write e wi (stored s)) s"
proof -
  have cr: "om_Name (cr_Meta (op_ControllerRing o')) = ce_ring e" using assms(1,2) by (auto simp: cluster_inv_def)
  have rv: "wi_resourceVersion wi = object_version obj" using assms(4) by (simp add: workItemForObject_Some object_version_def)
  have plain: "list_all plain_char (object_version obj)"
    using obj inv api_docD(4) [OF inv_doc [OF inv]] by (auto simp: cluster_inv_def in_set_conv_nth)
  let ?patch = "if wi_drain wi then drain_patch (op_ControllerRing o') (object_version obj) else move_patch (op_ControllerRing o') (object_version obj)"
  obtain p where p: "parse_json ?patch = Some p" "patch_version p = Some (object_version obj)"
    "merge_write e s p = cluster_put e (item_write e wi (stored s)) s"
    by (rule item_patch [OF cr api_docD(2) [OF inv_doc [OF inv]] plain])
  have "w_api w' = snd (c_RawPatch (ce_client e) s (work_object wi) ?patch)"
    using process_item_write [OF rv, of "ce_lib e" "ce_client e" o' "\<lparr>w_api = s, w_ops = ops\<rparr>"] run by simp
  moreover have "snd (c_RawPatch (ce_client e) s (work_object wi) ?patch) = s \<or> accepts_merge_patch s (work_object wi) p \<and>
      snd (c_RawPatch (ce_client e) s (work_object wi) ?patch) = merge_write e s p"
    using api_docD(7) [OF inv_doc [OF inv]] p(1) unfolding RawPatch_doc_def by (metis option.inject)
  ultimately show ?thesis using p(2,3) current_version [OF inv obj] by (auto simp: accepts_merge_patch_def)
qed

lemma versioned_simps [simp]: "ForObject (versioned v obj) = ForObject obj" "assigned_to ring sh (versioned v obj) \<longleftrightarrow> assigned_to ring sh obj"
  "drained ring (versioned v obj) \<longleftrightarrow> drained ring obj" "object_version (versioned v obj) = v"
  by (simp_all add: versioned_def ForObject_def assigned_to_def drained_def object_version_def Let_def)

text \<open>What the reconciler of a shard does with the version its cache shows.\<close>

lemma release_labels': "object_labels (release_object ring obj) = (object_labels obj)(LabelShard ring := None, LabelDrain ring := None)"
  by (simp add: object_labels_def release_labels)

lemma Patch_effect:
  assumes "cluster_inv e s" and "obj \<in> set (cl_hist s)"
  shows "snd (ce_Patch e s (release_object ring obj) obj) = s \<or> obj = stored s \<and>
    snd (ce_Patch e s (release_object ring obj) obj) =
      cluster_put e (set_labels (stored s) ((object_labels (stored s))(LabelShard ring := None, LabelDrain ring := None))) s"
proof -
  have diff: "(\<lambda>k. if m k = m' k then m k else m' k) = m'" for m m' :: str_map by (auto simp: fun_eq_iff)
  have "diff_write e s (release_object ring (stored s)) (stored s) =
      cluster_put e (set_labels (stored s) ((object_labels (stored s))(LabelShard ring := None, LabelDrain ring := None))) s"
    unfolding diff_write_def diffed_def diff release_labels' ..
  then show ?thesis
    using api_docD(8) [OF inv_doc [OF assms(1)]] current_version [OF assms] unfolding Patch_doc_def accepts_diff_def by metis
qed

lemma shard_effect:
  assumes "cluster_inv e s" and "sh \<in> cl_alive s" and "shard_Reconcile (cluster_reconciler e sh) req s = (res, s')"
  defines "obj \<equiv> cl_hist s ! cl_cache s sh"
  obtains "s' = s"
  | "assigned_to (ce_ring e) sh obj" "\<not> drained (ce_ring e) obj" "s' = s\<lparr>cl_work := insert sh (cl_work s)\<rparr>"
  | "assigned_to (ce_ring e) sh obj" "drained (ce_ring e) obj" "obj = stored s"
      "s' = cluster_put e (set_labels obj ((object_labels obj)(LabelShard (ce_ring e) := None, LabelDrain (ce_ring e) := None))) s"
proof -
  have mem: "obj \<in> set (cl_hist s)" using assms(1,2) by (simp add: cluster_inv_def obj_def)
  have "shard_Reconcile (cluster_reconciler e sh) req s = (if \<not> assigned_to (ce_ring e) sh obj then (Inr no_requeue, s)
      else if drained (ce_ring e) obj then
        (case ce_Patch e s (release_object (ce_ring e) obj) obj of
           (Some err, w') \<Rightarrow> (Inl (wrapf ''error draining object'' err), w') | (None, w') \<Rightarrow> (Inr no_requeue, w'))
      else (Inr no_requeue, s\<lparr>cl_work := insert sh (cl_work s)\<rparr>))"
    by (subst shard_Reconcile_eq [where obj = obj]) (simp_all add: cluster_reconciler_def obj_def)
  then show thesis
    using assms(3) Patch_effect [OF assms(1) mem, of "ce_ring e"] that
    by (auto split: if_splits prod.splits option.splits)
qed

section \<open>The refinement\<close>

lemma operation_from_leases:
  assumes "c_GetRing (ce_client e) s ([], ce_ring e) = Inr cr" and "c_ListLeases (ce_client e) s (LeaseSelector cr) = Inr ls" and "api_doc e"
    and "NewOperation lib dh cfg (ce_client e) now cr \<lparr>w_api = s, w_ops = ops\<rparr> = (Inr o', w')"
  shows "ls \<in> cluster_lists e s" "op_from dh ls now o'" "om_Name (cr_Meta (op_ControllerRing o')) = ce_ring e"
proof -
  have cr: "om_Name (cr_Meta cr) = ce_ring e" using assms(1) api_docD(6) [OF assms(3)] by (auto simp: reads_doc_def)
  then show "ls \<in> cluster_lists e s" using leases_read [OF assms(3) cr assms(2)] by simp
  show "op_from dh ls now o'" "om_Name (cr_Meta (op_ControllerRing o')) = ce_ring e"
    using NewOperation_op_from [OF assms(4)] assms(2) cr by auto
qed

lemma same_object_refl [simp]: "same_object a a"
  by (simp add: same_object_def)

lemma item_write_same [simp]: "same_object (item_write e wi obj) b \<longleftrightarrow> same_object obj b"
  by (simp add: item_write_def drain_object_def)

lemma cluster_inv_work [simp]: "cluster_inv e (s\<lparr>cl_work := ws\<rparr>) \<longleftrightarrow> cluster_inv e s"
  by (simp add: cluster_inv_def cluster_lists_def)

lemma cluster_inv_step:
  assumes step: "cluster_step False e s s'" and inv: "cluster_inv e s"
  shows "cluster_inv e s'"
  using step
proof cases
  case (shard_reconciles sh req res)
  from inv shard_reconciles(1,3) show ?thesis
    by (rule shard_effect) (use inv in \<open>auto intro: cluster_inv_put\<close>)
next
  case (operation_built cr ls now ops o' w')
  have "api_doc e" using inv by (simp add: cluster_inv_def)
  note op = operation_from_leases [OF operation_built(2,3) this operation_built(4)]
  have "distinct_names ls" using inv op(1) by (simp add: cluster_inv_def)
  then show ?thesis
    using inv operation_built(1) op(2,3) by (auto simp: cluster_inv_def cluster_lists_def)
next
  case (item_processed ls o' obj wi ops err w')
  then show ?thesis
    using item_effect [OF inv item_processed(2,3,5,7)] inv cluster_inv_put [OF inv, of "item_write e wi (stored s)"] by auto
next
  case (other_write obj)
  then show ?thesis using cluster_inv_put [OF inv] by simp
next
  case (leases_change ls)
  then show ?thesis using inv by (auto simp: cluster_inv_def cluster_lists_def)
qed (use inv in \<open>auto simp: cluster_inv_def cluster_lists_def\<close>)

lemma abs_fields [simp]: "sy_hist (cluster_abs e s) = map norm (cl_hist s)" "sy_leases (cluster_abs e s) = cluster_leases e s"
  "sy_alive (cluster_abs e s) = cl_alive s" "sy_cache (cluster_abs e s) = cl_cache s" "sy_work (cluster_abs e s) = cl_work s"
  by (simp_all add: cluster_abs_def)

lemma abs_current: "cluster_inv e s \<Longrightarrow> last (map norm (cl_hist s)) = norm (stored s)"
  by (simp add: cluster_inv_def last_map)

text \<open>A write that removes both labels is a release, admitted by the webhook or not.\<close>

lemma release_admitted:
  assumes "cluster_inv e s"
    and "obj = set_labels (stored s) ((object_labels (stored s))(LabelShard (ce_ring e) := None, LabelDrain (ce_ring e) := None))"
    and "cluster_admission e s obj = Some obj'"
  shows "admits (ce_hash e) (ce_ring e) (release_object (ce_ring e) (current (cluster_abs e s))) (norm obj')"
  using cluster_admission_admits [OF inv_doc [OF assms(1)] assms(3)] assms(1,2) by (simp add: abs_current release_norm)

lemma shard_simulates:
  assumes inv: "cluster_inv e s" and sh: "sh \<in> cl_alive s" "sh \<notin> cl_work s"
    and rec: "shard_Reconcile (cluster_reconciler e sh) req s = (res, s')"
  shows "cluster_abs e s' = cluster_abs e s \<or> sys_step (ce_lib e) (ce_hash e) (ce_ring e) (cluster_abs e s) (cluster_abs e s')"
proof -
  have cache: "cl_cache s sh < length (cl_hist s)" using inv sh(1) by (simp add: cluster_inv_def)
  from inv sh(1) rec show ?thesis
  proof (rule shard_effect)
    assume a: "assigned_to (ce_ring e) sh (cl_hist s ! cl_cache s sh)" "\<not> drained (ce_ring e) (cl_hist s ! cl_cache s sh)"
      "s' = s\<lparr>cl_work := insert sh (cl_work s)\<rparr>"
    have "cluster_abs e s' = (cluster_abs e s)\<lparr>sy_work := insert sh (sy_work (cluster_abs e s))\<rparr>"
      by (simp add: a(3) cluster_abs_def cluster_leases_def)
    then show ?thesis using sys_step.begin_work [of sh "cluster_abs e s" "ce_ring e" "ce_lib e" "ce_hash e"] a(1,2) sh(1) cache by simp
  next
    let ?obj = "cl_hist s ! cl_cache s sh"
    assume a: "assigned_to (ce_ring e) sh ?obj" "drained (ce_ring e) ?obj" "?obj = stored s"
      "s' = cluster_put e (set_labels ?obj ((object_labels ?obj)(LabelShard (ce_ring e) := None, LabelDrain (ce_ring e) := None))) s"
    have "Suc (cl_cache s sh) = length (cl_hist s)"
    proof -
      have "object_version ?obj = ce_version e (cl_cache s sh)" using inv cache by (simp add: cluster_inv_def)
      moreover have "object_version (stored s) = ce_version e (length (cl_hist s) - 1)" "cl_hist s \<noteq> []"
        using inv by (simp_all add: cluster_inv_def last_conv_nth)
      ultimately show ?thesis
        using a(3) injD [OF api_docD(3) [OF inv_doc [OF inv]], of "cl_cache s sh" "length (cl_hist s) - 1"] by (cases "cl_hist s") auto
    qed
    then have "sys_step (ce_lib e) (ce_hash e) (ce_ring e) (cluster_abs e s) (cluster_abs e s')"
      if "cluster_admission e s (set_labels ?obj ((object_labels ?obj)(LabelShard (ce_ring e) := None, LabelDrain (ce_ring e) := None))) = Some obj'" for obj'
      using sys_step.ack_drain [OF _ _ _ _ _ release_admitted [OF inv _ that], of sh] a sh abs_current [OF inv]
      using cluster_put_abs [OF that] by simp
    then show ?thesis using a(4) by (metis cluster_put_None not_Some_eq)
  qed simp
qed

lemma item_simulates:
  assumes inv: "cluster_inv e s" and o': "(ls, o') \<in> cl_ops s" and obj: "obj \<in> set (cl_hist s)"
    and wi: "workItemForObject (ce_lib e) o' (ce_resource e) False obj = Inr (Some wi)"
    and held: "\<not> regained ls (cluster_leases e s) (wi_currentShard wi)"
    and run: "process_item (ce_lib e) (ce_client e) o' wi \<lparr>w_api = s, w_ops = ops\<rparr> = (err, w')"
  shows "cluster_abs e (w_api w') = cluster_abs e s \<or>
    sys_step (ce_lib e) (ce_hash e) (ce_ring e) (cluster_abs e s) (cluster_abs e (w_api w'))"
  using item_effect [OF inv o' obj wi run]
proof
  assume eff: "obj = stored s \<and> w_api w' = cluster_put e (item_write e wi (stored s)) s"
  obtain now where op: "op_from (ce_hash e) ls now o'" "distinct_names ls" "om_Name (cr_Meta (op_ControllerRing o')) = ce_ring e"
    using inv o' by (auto simp: cluster_inv_def)
  have work: "workItemForObject (ce_lib e) o' (ce_resource e) False (current (cluster_abs e s)) = Inr (Some (wi\<lparr>wi_resourceVersion := []\<rparr>))"
    using work_norm [OF wi] eff abs_current [OF inv] by simp
  show ?thesis
  proof (cases "wi_drain wi")
    case True
    then have "map_get (om_Labels (po_Meta (drain_object (ce_ring e) (stored s)))) (LabelShard (ce_ring e)) \<noteq> []"
      using wi eff op(3) by (auto simp: workItemForObject_Some current_shard_def ring_LabelShard_def drain_object_def map_get_def
          set_labels_def LabelShard_neq_LabelDrain)
    from cluster_put_abs [OF cluster_admission_assigned [OF this]]
    have "cluster_abs e (w_api w') = put (drain_object (ce_ring e) (current (cluster_abs e s))) (cluster_abs e s)"
      using eff True inv by (simp add: item_write_def norm_drain abs_current)
    then show ?thesis using sys_step.sharder_drain [OF op(1,3) work] True by simp
  next
    case False
    let ?obj = "set_labels (stored s) ((object_labels (stored s))(LabelShard (ce_ring e) := None, LabelDrain (ce_ring e) := None))"
    have "wi_currentShard wi = current_shard o' (current (cluster_abs e s))" using wi eff abs_current [OF inv] by (simp add: workItemForObject_Some current_shard_def)
    then have "sys_step (ce_lib e) (ce_hash e) (ce_ring e) (cluster_abs e s) (cluster_abs e (w_api w'))"
      if "cluster_admission e s ?obj = Some obj'" for obj'
      using sys_step.sharder_move [OF op(1,2) _ op(3) work _ release_admitted [OF inv _ that]] held False eff
      by (simp add: cluster_put_abs [OF that] item_write_def)
    then show ?thesis using eff False by (metis cluster_put_None item_write_def not_Some_eq)
  qed
qed simp

lemma cluster_simulates:
  assumes step: "cluster_step False e s s'" and inv: "cluster_inv e s"
  shows "cluster_abs e s' = cluster_abs e s \<or> sys_step (ce_lib e) (ce_hash e) (ce_ring e) (cluster_abs e s) (cluster_abs e s')"
  using step
proof cases
  case (cache_advances sh n)
  have "cluster_abs e s' = (cluster_abs e s)\<lparr>sy_cache := (sy_cache (cluster_abs e s))(sh := n)\<rparr>"
    by (simp add: cache_advances(1) cluster_abs_def cluster_leases_def)
  then show ?thesis using sys_step.observe_version [of sh "cluster_abs e s" n] cache_advances by simp
next
  case (shard_reconciles sh req res)
  then show ?thesis by (rule shard_simulates [OF inv])
next
  case (work_ends sh)
  have "cluster_abs e s' = (cluster_abs e s)\<lparr>sy_work := sy_work (cluster_abs e s) - {sh}\<rparr>"
    by (simp add: work_ends cluster_abs_def cluster_leases_def)
  then show ?thesis using sys_step.end_work by metis
next
  case (operation_built cr ls now ops o' w')
  then show ?thesis by (simp add: cluster_abs_def cluster_leases_def)
next
  case (item_processed ls o' obj wi ops err w')
  then show ?thesis using item_simulates [OF inv item_processed(2,3,5) _ item_processed(7)] by simp
next
  case (other_write obj)
  show ?thesis
  proof (cases "cluster_admission e s obj")
    case (Some obj')
    then show ?thesis
      using sys_step.other_write [OF _ _ cluster_admission_admits [OF inv_doc [OF inv] Some]] other_write abs_current [OF inv]
      by (simp add: object_labels_def cluster_put_abs)
  qed (simp add: other_write(1))
next
  case (shard_stops sh)
  have "cluster_abs e s' = (cluster_abs e s)\<lparr>sy_alive := sy_alive (cluster_abs e s) - {sh}, sy_work := sy_work (cluster_abs e s) - {sh}\<rparr>"
    by (simp add: shard_stops cluster_abs_def cluster_leases_def)
  then show ?thesis using sys_step.stop by metis
next
  case (shard_starts sh)
  have "cluster_abs e s' = (cluster_abs e s)\<lparr>sy_alive := insert sh (sy_alive (cluster_abs e s)),
      sy_cache := (sy_cache (cluster_abs e s))(sh := length (sy_hist (cluster_abs e s)) - 1)\<rparr>"
    by (simp add: shard_starts(1) cluster_abs_def cluster_leases_def)
  then show ?thesis using sys_step.start [of sh "cluster_abs e s"] shard_starts(2,3) by simp
next
  case (leases_change ls)
  have "cluster_abs e s' = (cluster_abs e s)\<lparr>sy_leases := listed e ls\<rparr>" by (simp add: leases_change(1) cluster_abs_def cluster_leases_def)
  then show ?thesis using sys_step.leases_change [of "cluster_abs e s" "listed e ls"] leases_change(2,3) by simp
qed

interpretation cluster: refinement "cluster_step False e" "sys_step (ce_lib e) (ce_hash e) (ce_ring e)" "cluster_inv e" "cluster_abs e" for e
proof
  show "cluster_inv e s \<Longrightarrow> cluster_step False e s s' \<Longrightarrow> cluster_inv e s'" for s s'
    by (rule cluster_inv_step)
  show "cluster_inv e s \<Longrightarrow> cluster_step False e s s' \<Longrightarrow>
      cluster_abs e s' = cluster_abs e s \<or> sys_step (ce_lib e) (ce_hash e) (ce_ring e) (cluster_abs e s) (cluster_abs e s')" for s s'
    by (rule cluster_simulates)
qed

section \<open>The instance\<close>

lemma digit_plain: "digit_val c \<noteq> None \<Longrightarrow> plain_char c"
  by (auto simp: digit_val_def plain_char_def Let_def split: if_splits)

lemma FormatInt_plain: "list_all plain_char (FormatInt (int n))"
  using format_nat_digits [of _ n] by (auto simp: FormatInt_def list_all_iff intro!: digit_plain)

lemma FormatInt_inj: "inj (\<lambda>n. FormatInt (int n))"
  by (rule injI) (simp add: FormatInt_def format_nat_inj)

text \<open>In memory, processing an item of the current version succeeds, unless the webhook denies it.\<close>

lemma item_applies:
  assumes wi: "workItemForObject lib o' gr False (stored s) = Inr (Some wi)" and cr: "om_Name (cr_Meta (op_ControllerRing o')) = ce_ring e"
    and plain: "list_all plain_char (ce_ring e)" "list_all plain_char (object_version (stored s))"
  shows "w_api (snd (process_item lib (ce_client (writable e)) o' wi \<lparr>w_api = s, w_ops = ops\<rparr>)) =
    cluster_put (writable e) (item_write (writable e) wi (stored s)) s"
proof -
  have it: "wi_resourceVersion wi = object_version (stored s)" "same_object (work_object wi) (stored s)"
    using wi by (simp_all add: workItemForObject_Some object_version_def work_object_def same_object_def ObjectKeyFromObject_def)
  obtain p where "parse_json (if wi_drain wi then drain_patch (op_ControllerRing o') (object_version (stored s))
      else move_patch (op_ControllerRing o') (object_version (stored s))) = Some p"
    "patch_version p = Some (object_version (stored s))" "merge_write e s p = cluster_put e (item_write e wi (stored s)) s"
    by (rule item_patch [OF cr plain])
  moreover have "item_write (writable e) = item_write e" by (simp add: fun_eq_iff item_write_def)
  moreover have "Option.is_none (cluster_admission e s (merged s p)) \<Longrightarrow> merge_write e s p = s" for p
    by (simp add: merge_write_def Option.is_none_def)
  ultimately show ?thesis using it(2) by (auto simp: process_item_write [OF it(1)] memory_RawPatch_def accepts_merge_patch_def)
qed

end
