(* ===== verification/Rebalance.thy ===== *)
theory Rebalance
  imports System
begin

text \<open>
  What a change of the membership of a ring costs: the leases, the hash ring and the compilation of work items
  together. The objects of a ring are settled for some leases when
  every one is assigned to the shard its key hashes to. Coming from there, a resync for other leases compiles work for
  exactly the objects of shards that left and the objects that shards that joined take over. Leases may be listed in any order, since caches
  do not promise one, as long as no two shards share a token of the ring.
\<close>

section \<open>Settled objects\<close>

definition members :: "lease list \<Rightarrow> string set" where
  "members ls = set (held_names ls)"

definition distinct_tokens :: "hash_fun \<Rightarrow> string set \<Rightarrow> bool" where
  "distinct_tokens dh N \<longleftrightarrow> no_collisions (eff_hash dh None) (eff_tokens 0) N"

text \<open>The shard that an object of a ring, main or controlled, is hashed to.\<close>

definition target :: "k8s_lib \<Rightarrow> hash_fun \<Rightarrow> lease list \<Rightarrow> bool \<Rightarrow> partial_object \<Rightarrow> string option" where
  "target lib dh ls controlled obj =
     (case object_key lib controlled obj of
        Inl _ \<Rightarrow> None
      | Inr k \<Rightarrow> if k = [] \<or> desired_shard dh ls k = [] then None else Some (desired_shard dh ls k))"

definition settled :: "k8s_lib \<Rightarrow> hash_fun \<Rightarrow> lease list \<Rightarrow> string \<Rightarrow> bool \<Rightarrow> partial_object \<Rightarrow> bool" where
  "settled lib dh ls ring controlled obj \<longleftrightarrow>
     (\<exists>sh. target lib dh ls controlled obj = Some sh \<and> assigned_to ring sh obj)"

section \<open>Lemmas\<close>

lemma target_Some: "target lib dh ls controlled obj = Some sh \<longleftrightarrow>
  (\<exists>k. object_key lib controlled obj = Inr k \<and> k \<noteq> [] \<and> desired_shard dh ls k = sh \<and> sh \<noteq> [])"
  by (auto simp: target_def split: sum.splits)

lemma members_iff: "sh \<in> members ls \<longleftrightarrow> (\<exists>l \<in> set ls. held l \<and> om_Name (l_Meta l) = sh)"
  by (auto simp: members_def held_names_def)

lemma members_empty: "members ls = {} \<longleftrightarrow> filter held ls = []"
  by (auto simp: members_def held_names_def filter_empty_conv)

lemma desired_member: "desired_shard dh ls k \<noteq> [] \<Longrightarrow> desired_shard dh ls k \<in> members ls"
  using desired_shard_held [of dh ls k] by (simp add: members_iff)

lemma distinct_tokens_mono: "distinct_tokens dh N \<Longrightarrow> M \<subseteq> N \<Longrightarrow> distinct_tokens dh M"
  unfolding distinct_tokens_def no_collisions_def by blast

text \<open>A key changes its shard only if its shard leaves or its new shard joins.\<close>

lemma desired_shard_stays:
  assumes "distinct_tokens dh (members ls \<union> members ls')"
    and "desired_shard dh ls k \<in> members ls'" and "desired_shard dh ls' k \<in> members ls"
  shows "desired_shard dh ls' k = desired_shard dh ls k"
proof -
  let ?old = "filter (\<lambda>n. n \<in> members ls') (held_names ls)" and ?new = "filter (\<lambda>n. n \<in> members ls) (held_names ls')"
  have "ring_Hash (New dh None 0 ?old) k = desired_shard dh ls k" "ring_Hash (New dh None 0 ?new) k = desired_shard dh ls' k"
    using ring.assign_filter [of "\<lambda>n. n \<in> members ls'" dh None 0 "held_names ls" k]
      ring.assign_filter [of "\<lambda>n. n \<in> members ls" dh None 0 "held_names ls'" k] assms(2,3)
    by (simp_all add: desired_shard_def)
  moreover have "set ?old = set ?new" by (auto simp: members_def)
  moreover have "distinct_tokens dh (set ?old)"
    by (rule distinct_tokens_mono [OF assms(1)]) (auto simp: members_def)
  ultimately show ?thesis
    using ref_hash_set [OF _ _ eff_tokens_pos, of "eff_hash dh None" 0 ?old ?new k] by (simp add: distinct_tokens_def New_Hash)
qed

lemma settledD:
  assumes "settled lib dh ls ring controlled obj" and "om_Name (cr_Meta (op_ControllerRing o')) = ring"
  obtains k where "object_key lib controlled obj = Inr k" "k \<noteq> []" "current_shard o' obj = desired_shard dh ls k"
    "current_shard o' obj \<in> members ls" "current_shard o' obj \<noteq> []"
  using assms current_shard_assigned [OF assms(2)]
  by (auto simp: settled_def target_Some dest: desired_member)

lemma no_change_no_work:
  assumes "settled lib dh ls ring controlled obj" and "om_Name (cr_Meta (op_ControllerRing o')) = ring" and "op_from dh ls now o'"
  shows "workItemForObject lib o' gr controlled obj = Inr None"
proof -
  obtain k where "object_key lib controlled obj = Inr k" "current_shard o' obj = desired_shard dh ls k"
    by (rule settledD [OF assms(1,2)])
  then show ?thesis
    using assms(3) by (simp add: workItemForObject_def object_key_def current_shard_def op_from_def desired_shard_def Let_def)
qed

text \<open>The work item of an object that was settled for the leases before.\<close>

definition affected :: "k8s_lib \<Rightarrow> hash_fun \<Rightarrow> lease list \<Rightarrow> lease list \<Rightarrow> operation \<Rightarrow> bool \<Rightarrow> partial_object \<Rightarrow> bool" where
  "affected lib dh ls ls' o' controlled obj \<longleftrightarrow>
     current_shard o' obj \<in> members ls - members ls' \<or> (\<exists>sh \<in> members ls' - members ls. target lib dh ls' controlled obj = Some sh)"

lemma affected_iff:
  assumes s: "settled lib dh ls ring controlled obj" "om_Name (cr_Meta (op_ControllerRing o')) = ring" and op: "op_from dh ls' now o'"
    and tok: "distinct_tokens dh (members ls \<union> members ls')" and some: "members ls' \<noteq> {}"
  shows "(\<exists>wi. workItemForObject lib o' gr controlled obj = Inr (Some wi)) \<longleftrightarrow> affected lib dh ls ls' o' controlled obj"
    and "workItemForObject lib o' gr controlled obj \<noteq> Inl e"
proof -
  obtain k where k: "object_key lib controlled obj = Inr k" "k \<noteq> []" and cur: "current_shard o' obj = desired_shard dh ls k"
    "current_shard o' obj \<in> members ls" by (rule settledD [OF s])
  have d: "desired_shard dh ls' k \<noteq> []" using some by (simp add: desired_shard_empty_iff members_empty)
  have "(\<exists>wi. workItemForObject lib o' gr controlled obj = Inr (Some wi)) \<longleftrightarrow> desired_shard dh ls' k \<noteq> desired_shard dh ls k"
    using op k cur(1) d by (auto simp: workItemForObject_Some op_from_def desired_shard_def)
  also have "\<dots> \<longleftrightarrow> affected lib dh ls ls' o' controlled obj"
    using desired_shard_stays [OF tok, of k] desired_member [OF d] cur k d
    by (auto simp: affected_def target_Some)
  finally show "(\<exists>wi. workItemForObject lib o' gr controlled obj = Inr (Some wi)) \<longleftrightarrow> affected lib dh ls ls' o' controlled obj" .
  show "workItemForObject lib o' gr controlled obj \<noteq> Inl e" using k by (simp add: workItemForObject_Inl)
qed

lemma work_of_settled:
  assumes "settled lib dh ls ring controlled obj" "om_Name (cr_Meta (op_ControllerRing o')) = ring" "op_from dh ls' now o'"
    "distinct_tokens dh (members ls \<union> members ls')" "members ls' \<noteq> {}"
  shows "map wi_key (work_of lib o' gr controlled obj) =
      (if affected lib dh ls ls' o' controlled obj then [ObjectKeyFromObject (po_Meta obj)] else [])"
    and "errs_of lib o' gr controlled obj = []"
proof -
  note iff = affected_iff(1) [OF assms, of gr] and ok = affected_iff(2) [OF assms, of gr]
  consider wi where "workItemForObject lib o' gr controlled obj = Inr (Some wi)" | "workItemForObject lib o' gr controlled obj = Inr None"
    using ok by (metis option.exhaust sumE)
  then show "map wi_key (work_of lib o' gr controlled obj) =
      (if affected lib dh ls ls' o' controlled obj then [ObjectKeyFromObject (po_Meta obj)] else [])"
  proof cases
    case 1
    moreover have "wi_key wi = ObjectKeyFromObject (po_Meta obj)" using 1 by (simp add: workItemForObject_Some)
    ultimately show ?thesis using iff by (simp add: work_of_def)
  next
    case 2
    then show ?thesis using iff by (simp add: work_of_def)
  qed
  show "errs_of lib o' gr controlled obj = []" using ok by (simp add: errs_of_def split: sum.splits)
qed

lemma drain_of_settled:
  assumes "settled lib dh ls ring controlled obj" "om_Name (cr_Meta (op_ControllerRing o')) = ring" "op_from dh ls' now o'"
    "distinct (map (\<lambda>l. om_Name (l_Meta l)) ls')" "wi \<in> set (work_of lib o' gr controlled obj)"
  shows "wi_drain wi \<longleftrightarrow> wi_currentShard wi \<in> members ls' \<and> \<not> controlled" and "wi_currentShard wi \<in> members ls"
proof -
  have wi: "workItemForObject lib o' gr controlled obj = Inr (Some wi)"
    using assms(5) by (auto simp: work_of_def split: sum.splits option.splits)
  then have cur: "wi_currentShard wi = current_shard o' obj" and "controlled \<Longrightarrow> \<not> wi_drain wi"
    by (auto simp: workItemForObject_Some)
  moreover have "wi_drain wi \<longleftrightarrow> current_shard o' obj \<in> members ls'" if "\<not> controlled"
    using wi_drain_iff [OF assms(3,4), of lib gr obj wi] wi that by (simp add: members_iff)
  ultimately show "wi_drain wi \<longleftrightarrow> wi_currentShard wi \<in> members ls' \<and> \<not> controlled" by (cases controlled) auto
  show "wi_currentShard wi \<in> members ls" unfolding cur by (rule settledD [OF assms(1,2)])
qed

section \<open>Properties\<close>

text \<open>C5: Rebalancing is minimal: when all objects of a resource are settled for the leases \<open>ls\<close> and the sharder resyncs the
  ring for the leases \<open>ls'\<close>, whatever shards left and joined, the work queue receives one item for
  each object of a shard that left and for each object that is taken over by a shard that joined, and for no other object. Exactly
  the main objects of shards that stay are drained, all others are moved at once; there are no errors.\<close>

theorem membership_change_causes_minimal_work:
  assumes op: "op_from dh ls' now o'" "distinct (map (\<lambda>l. om_Name (l_Meta l)) ls')" and "distinct_tokens dh (members ls \<union> members ls')"
    and "members ls' \<noteq> {}" and "\<forall>obj \<in> set (concat pages). settled lib dh ls (om_Name (cr_Meta (op_ControllerRing o'))) controlled obj"
    and api: "c_KindsFor c w gr = Inr (gvk # gvks)" "serves_pages (lst gvk) pages tok"
  shows "\<exists>ws. compileWorkItemsForResource lib visit_items (\<lambda>_. False) lst c w o' gr controlled = Some (ws, []) \<and>
    map wi_key ws = map (\<lambda>obj. ObjectKeyFromObject (po_Meta obj)) (filter (affected lib dh ls ls' o' controlled) (selected o' (concat pages))) \<and>
    (\<forall>wi \<in> set ws. wi_drain wi \<longleftrightarrow> wi_currentShard wi \<in> members ls \<inter> members ls' \<and> \<not> controlled)"
proof -
  let ?objs = "selected o' (concat pages)" and ?work = "work_of lib o' gr controlled"
  have settled: "settled lib dh ls (om_Name (cr_Meta (op_ControllerRing o'))) controlled obj" if "obj \<in> set ?objs" for obj
    using that assms(5) unfolding selected_def set_filter by blast
  note obj = work_of_settled [OF settled refl op(1) assms(3,4)] and drain = drain_of_settled [OF settled refl op]
  have "map wi_key (concat (map ?work objs)) =
      map (\<lambda>obj. ObjectKeyFromObject (po_Meta obj)) (filter (affected lib dh ls ls' o' controlled) objs)"
    if "set objs \<subseteq> set ?objs" for objs
    using that by (induction objs) (simp_all add: obj(1))
  moreover have "concat (map (errs_of lib o' gr controlled) ?objs) = []" using obj(2) by simp
  moreover have "\<forall>wi \<in> set (concat (map ?work ?objs)). wi_drain wi \<longleftrightarrow> wi_currentShard wi \<in> members ls \<inter> members ls' \<and> \<not> controlled"
    using drain by auto
  ultimately show ?thesis
    using compile_resource [where lst = lst and gvk = gvk and pages = pages, OF api] by simp
qed

text \<open>A digest by the first character, under which shards with different first characters share no token.\<close>

definition first_char_hash :: hash_fun where
  "first_char_hash s = (case s of [] \<Rightarrow> 0 | c # _ \<Rightarrow> of_nat (of_char c))"

definition named_lease :: "string \<Rightarrow> lease" where
  "named_lease n = (sample_lease n)\<lparr>l_Meta := empty_meta\<lparr>om_Name := n\<rparr>\<rparr>"

definition named_op :: "string \<Rightarrow> operation" where
  "named_op n = (sample_op {''default''})\<lparr>op_HashRing := New first_char_hash None 0 (held_names [named_lease n]),
     op_Shards := ToShards [named_lease n] 0\<rparr>"

lemma named_facts:
  "n \<noteq> [] \<Longrightarrow> members [named_lease n] = {n}" "op_from first_char_hash [named_lease n] 0 (named_op n)"
  "om_Name (cr_Meta (op_ControllerRing (named_op n))) = ''ring''" "op_Namespaces (named_op n) = {''default''}"
  "n \<noteq> [] \<Longrightarrow> desired_shard dh [named_lease n] k = n"
proof -
  show m: "n \<noteq> [] \<Longrightarrow> members [named_lease n] = {n}"
    by (simp add: members_def held_names_def named_lease_def sample_lease_simps)
  show "n \<noteq> [] \<Longrightarrow> desired_shard dh [named_lease n] k = n"
    using m desired_member [of dh "[named_lease n]" k] members_empty [of "[named_lease n]"]
    by (cases "desired_shard dh [named_lease n] k = []") (auto simp: desired_shard_empty_iff)
qed (simp_all add: op_from_def named_op_def sample_op_def)

lemma named_tokens: "distinct_tokens first_char_hash {''a'', ''b''}"
  by (auto simp: distinct_tokens_def no_collisions_def node_tokens_def eff_hash_def first_char_hash_def)

definition placed_object :: "string \<Rightarrow> partial_object" where
  "placed_object sh = sample_object ''default'' [LabelShard ''ring'' \<mapsto> sh]"

lemma placed_object_facts:
  "ForObject (placed_object sh) = Inr ''/Secret/default/foo''" "assigned_to ''ring'' sh (placed_object sh)"
  "om_Namespace (po_Meta (placed_object sh)) = ''default''" "ObjectKeyFromObject (po_Meta (placed_object sh)) = (''default'', ''foo'')"
  by (simp_all add: placed_object_def ForObject_Inr sample_object_def sample_owner_def gvk_Empty_def empty_meta_def
      forMetadata_def assigned_to_def ObjectKeyFromObject_def)

lemma placed_object_settled: "sh \<noteq> [] \<Longrightarrow> settled lib dh [named_lease sh] ''ring'' False (placed_object sh)"
  by (auto simp: settled_def target_Some object_key_def placed_object_facts named_facts)

lemma membership_change_causes_minimal_work_witness:
  "\<exists>ws. compileWorkItemsForResource std_lib visit_items (\<lambda>_. False) (\<lambda>_. list_server [[placed_object ''a'']]) store_client undefined
      (named_op ''b'') \<lparr>gr_Group = [], gr_Resource = ''secrets''\<rparr> False = Some (ws, []) \<and> map wi_key ws = [(''default'', ''foo'')]"
proof -
  let ?gr = "\<lparr>gr_Group = [], gr_Resource = ''secrets''\<rparr>" and ?pages = "[[placed_object ''a'']]"
  have kinds: "c_KindsFor store_client w ?gr = Inr [\<lparr>gvk_Group = [], gvk_Version = ''v1'', gvk_Kind = ''secrets''\<rparr>]" for w
    by (simp add: store_client_def)
  have aff: "affected std_lib first_char_hash [named_lease ''a''] [named_lease ''b''] (named_op ''b'') False (placed_object ''a'')"
    using current_shard_assigned [OF named_facts(3) placed_object_facts(2), of "''b''" "''a''"] by (simp add: affected_def named_facts)
  have "\<forall>obj \<in> set (concat ?pages). settled std_lib first_char_hash [named_lease ''a'']
      (om_Name (cr_Meta (op_ControllerRing (named_op ''b'')))) False obj"
    by (simp add: named_facts placed_object_settled)
  from membership_change_causes_minimal_work [where lst = "\<lambda>_. list_server ?pages" and pages = ?pages,
      OF named_facts(2) _ _ _ this kinds [of undefined] list_server_serves]
  have "\<exists>ws. compileWorkItemsForResource std_lib visit_items (\<lambda>_. False) (\<lambda>_. list_server ?pages) store_client undefined (named_op ''b'') ?gr False = Some (ws, []) \<and>
      map wi_key ws = map (\<lambda>obj. ObjectKeyFromObject (po_Meta obj))
        (filter (affected std_lib first_char_hash [named_lease ''a''] [named_lease ''b''] (named_op ''b'') False) (selected (named_op ''b'') (concat ?pages)))"
    using named_tokens by (auto simp: named_facts insert_commute)
  then show ?thesis by (simp add: selected_def named_facts placed_object_facts aff)
qed

end
