(* ===== verification/Exclusion.thy ===== *)
theory Exclusion
  imports Cluster_Refinement Rebalance
begin

text \<open>
  What the refinement gives for the running program: no two shards work on an object at a time as long as the sharder does not
  process an item of an object whose shard has regained its lease since the leases were listed. The sharder does not ensure
  this: it judges the availability of shards once, when it builds its operation, on leases from a cache, and a run of a cluster with a
  lagging operation shows two shards at work on one object.
\<close>

section \<open>Runs of the cluster\<close>

definition cluster_init :: "cluster_env \<Rightarrow> partial_object \<Rightarrow> cluster" where
  "cluster_init e obj = \<lparr>cl_leases = [], cl_past = {}, cl_hist = [versioned (ce_version e 0) obj], cl_ops = {}, cl_alive = {}, cl_cache = \<lambda>_. 0, cl_work = {}\<rparr>"

lemma cluster_inv_init: "api_doc e \<Longrightarrow> cluster_inv e (cluster_init e obj)"
  by (simp add: cluster_inv_def cluster_init_def cluster_lists_def listed_def)

lemma cluster_abs_init: "cluster_abs e (cluster_init e obj) = sys_init (norm obj)"
  by (simp add: cluster_abs_def cluster_init_def sys_init_def cluster_leases_def listed_def)

section \<open>A sample cluster\<close>

definition ring_lease_of :: "string \<Rightarrow> lease" where
  "ring_lease_of n = (sample_lease n)\<lparr>l_Meta := empty_meta\<lparr>om_Name := n, om_Labels := Some [LabelControllerRing \<mapsto> ''ring'']\<rparr>\<rparr>"

definition sample_readers :: cluster_env where
  "sample_readers = \<lparr>ce_lib = std_lib, ce_hash = first_char_hash,
     ce_cfg = \<lparr>cfg_SyncPeriod = 0, cfg_ConcurrentMoves = 1, cfg_NamespaceSelector = None\<rparr>, ce_ring = ''ring'',
     ce_resource = \<lparr>gr_Group = [], gr_Resource = ''secrets''\<rparr>, ce_client = memory_reader (w_api sample_world),
     ce_Patch = \<lambda>s obj base. (Some conflict, s), ce_apply_patch = std_apply_patch, ce_version = \<lambda>n. FormatInt (int n),
     ce_clock = \<lambda>_. 0, ce_answers = \<lambda>_. True\<rparr>"

definition sample_cluster_env :: cluster_env where
  "sample_cluster_env = writable sample_readers"

definition sample_cluster :: "lease list \<Rightarrow> cluster" where
  "sample_cluster ls = (cluster_init sample_cluster_env (placed_object ''b''))\<lparr>cl_leases := ls, cl_past := {[]}\<rparr>"

lemma sample_env_fields [simp]: "ce_lib sample_cluster_env = std_lib" "ce_hash sample_cluster_env = first_char_hash"
  "ce_ring sample_cluster_env = ''ring''" "ce_resource sample_cluster_env = \<lparr>gr_Group = [], gr_Resource = ''secrets''\<rparr>"
  "ce_answers sample_cluster_env n" "ce_version sample_cluster_env n = FormatInt (int n)"
  by (simp_all add: sample_cluster_env_def sample_readers_def)

lemma sample_ring: "ce_ring sample_readers = ''ring''"
  by (simp add: sample_readers_def)

lemma sample_reads: "c_GetRing (ce_client sample_cluster_env) s ([], ''ring'') = Inr (hd (sto_rings (w_api sample_world)))"
  "om_Name (cr_Meta (hd (sto_rings (w_api sample_world)))) = ''ring''"
  "c_ListLeases (ce_client sample_cluster_env) s sel = Inr (filter (\<lambda>l. selects sel (om_Labels (l_Meta l))) (cl_leases s))"
  "c_ListNamespaces (ce_client sample_cluster_env) s sel = Inr [''default'']"
  by (simp_all add: sample_cluster_env_def sample_readers_def memory_reader_def store_client_def sample_world_def named_ring_def
      ObjectKeyFromObject_def empty_meta_def)

lemma sample_api: "api_doc sample_cluster_env"
  unfolding sample_cluster_env_def
proof (rule writable_doc)
  show "reads_doc sample_readers"
    by (simp add: reads_doc_def sample_readers_def memory_reader_def store_client_def sample_world_def named_ring_def
        ObjectKeyFromObject_def empty_meta_def ring_resources_def cluster_lists_def listed_def)
qed (simp_all add: sample_readers_def plain_elem_def plain_char_def FormatInt_inj FormatInt_plain std_apply_patch_doc)

lemma ring_leases [simp]: "om_Name (l_Meta (ring_lease_of n)) = n" "held (ring_lease_of n) \<longleftrightarrow> n \<noteq> []"
  "selects (LeaseSelector (named_ring ''ring'')) (om_Labels (l_Meta (ring_lease_of n)))"
  by (simp_all add: ring_lease_of_def sample_lease_simps LeaseSelector_def named_ring_def)

lemma sample_listed: "listed sample_cluster_env (map ring_lease_of ns) = map ring_lease_of ns"
  by (simp add: listed_def filter_map comp_def)

lemma sample_leases: "cluster_leases sample_cluster_env s = map ring_lease_of ns" if "cl_leases s = map ring_lease_of ns"
  by (simp add: cluster_leases_def that sample_listed)

lemma held_ring_leases: "[] \<notin> set ns \<Longrightarrow> held_names (map ring_lease_of ns) = ns"
  by (simp add: held_names_def filter_map comp_def) (metis (mono_tags, lifting) filter_True)

text \<open>The key of the object is hashed to shard \<open>a\<close> when both shards are there.\<close>

lemma first_char_tokens: "set (node_tokens first_char_hash (eff_tokens 0) (c # n)) = {of_nat (of_char c)}"
  using eff_tokens_pos [of 0] by (auto simp: node_tokens_def first_char_hash_def image_constant_conv)

lemma sample_hash: "desired_shard first_char_hash (map ring_lease_of [''a'', ''b'']) ''/Secret/default/foo'' = ''a''"
proof -
  have toks: "set (all_tokens first_char_hash (eff_tokens 0) [''a'', ''b'']) = {98, 97}"
    by (auto simp: all_tokens_def first_char_tokens)
  have "succ_token {98, 97} (first_char_hash ''/Secret/default/foo'') = 97"
  proof -
    have "{t \<in> {98, 97}. (47 :: token) \<le> t} = {98, 97}" by auto
    then show ?thesis by (simp add: succ_token_def first_char_hash_def)
  qed
  moreover have "held_names (map ring_lease_of [''a'', ''b'']) = [''a'', ''b'']" by (rule held_ring_leases) simp
  ultimately show ?thesis
    unfolding desired_shard_def by (simp add: New_Hash ref_hash_def eff_hash_def toks token_owner_def first_char_tokens)
qed

lemma placed_not_drained: "\<not> drained ''ring'' (placed_object sh)"
  by (simp add: placed_object_def sample_object_def drained_def map_has_def LabelShard_neq_LabelDrain [symmetric])

section \<open>A resync that is overtaken by a change of the leases\<close>

abbreviation sample_steps :: "cluster \<Rightarrow> cluster \<Rightarrow> bool" where
  "sample_steps \<equiv> (cluster_step True sample_cluster_env)\<^sup>*\<^sup>*"

text \<open>The steps of the run, each with what the next one needs.\<close>

lemma sample_leases_change:
  assumes "s' = s\<lparr>cl_leases := map ring_lease_of ns, cl_past := insert (cl_leases s) (cl_past s)\<rparr>" and "distinct ns" and "cl_alive s = {}"
  shows "cluster_step lag sample_cluster_env s s'"
  unfolding assms(1) by (rule cluster_step.leases_change) (use assms in \<open>simp_all add: sample_listed comp_def\<close>)

lemma sample_operation:
  assumes "cl_leases s = map ring_lease_of ns"
  obtains o' where "cluster_step True sample_cluster_env s (s\<lparr>cl_ops := insert (map ring_lease_of ns, o') (cl_ops s)\<rparr>)"
    "op_from first_char_hash (map ring_lease_of ns) 0 o'" "om_Name (cr_Meta (op_ControllerRing o')) = ''ring''" "op_Namespaces o' = {''default''}"
proof -
  let ?cr = "hd (sto_rings (w_api sample_world))" and ?w = "\<lparr>w_api = s, w_ops = []\<rparr>"
  have "\<exists>o' w'. NewOperation std_lib first_char_hash (ce_cfg sample_cluster_env) (ce_client sample_cluster_env) 0 ?cr ?w = (Inr o', w')"
    by (simp add: NewOperation_def sample_reads FromLeases_eq GetSelectedNamespaces_def std_lib_def observe_def Let_def split: option.split)
  then obtain o' w' where op: "NewOperation std_lib first_char_hash (ce_cfg sample_cluster_env) (ce_client sample_cluster_env) 0 ?cr ?w = (Inr o', w')"
    by blast
  have "LeaseSelector ?cr = LeaseSelector (named_ring ''ring'')" using sample_reads(2) by (simp add: LeaseSelector_def named_ring_def)
  then have ls: "c_ListLeases (ce_client sample_cluster_env) s (LeaseSelector ?cr) = Inr (map ring_lease_of ns)"
    by (simp add: sample_reads(3) assms filter_map comp_def)
  note from_ls = operation_from_leases [OF _ ls sample_api op]
  have "op_Namespaces o' = {''default''}"
    using NewOperation_op_from [OF op] by (auto simp: GetSelectedNamespaces_def sample_reads std_lib_def split: option.splits sum.splits)
  moreover have "cluster_step True sample_cluster_env s (s\<lparr>cl_ops := insert (map ring_lease_of ns, o') (cl_ops s)\<rparr>)"
    using cluster_step.operation_built [of sample_cluster_env s ?cr "map ring_lease_of ns" 0 "[]" o' w' True] op ls by (simp add: sample_reads(1))
  ultimately show thesis using that from_ls by (simp add: sample_reads(1))
qed

lemma shard_start_step:
  assumes "sh \<notin> cl_alive s" and "cl_leases s = map ring_lease_of ns" and "sh \<in> set ns" and "sh \<noteq> []"
  shows "cluster_step True sample_cluster_env s (s\<lparr>cl_alive := insert sh (cl_alive s), cl_cache := (cl_cache s)(sh := length (cl_hist s) - 1)\<rparr>)"
  using assms by (intro cluster_step.shard_starts) (auto simp: sample_leases holds_lease_def)

lemma shard_work_step:
  assumes "sh \<in> cl_alive s" and "sh \<notin> cl_work s" and "assigned_to ''ring'' sh (cl_hist s ! cl_cache s sh)" and "\<not> drained ''ring'' (cl_hist s ! cl_cache s sh)"
  shows "cluster_step True sample_cluster_env s (s\<lparr>cl_work := insert sh (cl_work s)\<rparr>)"
proof -
  have "shard_Reconcile (cluster_reconciler sample_cluster_env sh) ([], []) s = (Inr no_requeue, s\<lparr>cl_work := insert sh (cl_work s)\<rparr>)"
    using assms(3,4) by (subst shard_Reconcile_eq [where obj = "cl_hist s ! cl_cache s sh"]) (simp_all add: cluster_reconciler_def)
  with assms(1,2) show ?thesis by (rule cluster_step.shard_reconciles)
qed

lemma sample_list: "c_ListLeases (ce_client sample_cluster_env) s (LeaseSelector (hd (sto_rings (w_api sample_world)))) = Inr (cluster_leases sample_cluster_env s)"
  using sample_reads(2) by (simp add: sample_reads(3) cluster_leases_def listed_def LeaseSelector_def named_ring_def)

lemma admitted_sample:
  assumes "\<not> map_has (om_Labels (po_Meta obj)) (LabelShard ''ring'')" and "ForObject obj = Inr k"
  shows "cluster_admission sample_cluster_env s obj = Some (assign_object first_char_hash (cluster_leases sample_cluster_env s) ''ring'' obj)"
  using cluster_admission_answered [OF sample_api, of s obj] assms sample_reads(1) sample_list by simp

text \<open>The move of the object, decided by an operation that saw shard \<open>a\<close> only; the webhook sees both shards.\<close>

lemma sample_move:
  assumes "op_from first_char_hash (map ring_lease_of [''a'']) 0 o'" and "om_Name (cr_Meta (op_ControllerRing o')) = ''ring''"
    and "op_Namespaces o' = {''default''}" and "(ls, o') \<in> cl_ops s" and "cl_hist s = [versioned (FormatInt 0) (placed_object ''b'')]" and "cl_leases s = map ring_lease_of [''a'', ''b'']"
  obtains obj where "cluster_step True sample_cluster_env s (s\<lparr>cl_hist := cl_hist s @ [obj]\<rparr>)" "assigned_to ''ring'' ''a'' obj" "\<not> drained ''ring'' obj"
proof -
  let ?obj = "versioned (FormatInt 0) (placed_object ''b'')" and ?ls = "map ring_lease_of [''a'', ''b'']"
  have obj: "ForObject ?obj = Inr ''/Secret/default/foo''" "assigned_to ''ring'' ''b'' ?obj" "stored s = ?obj"
    "om_Namespace (po_Meta ?obj) = ''default''"
    by (simp_all add: placed_object_facts assms(5)) (simp add: versioned_def placed_object_facts)
  have cur: "current_shard o' ?obj = ''b''" using current_shard_assigned [OF assms(2) obj(2)] .
  have "desired_shard first_char_hash (map ring_lease_of [''a'']) k = ''a''" for k
    using desired_member [of first_char_hash "map ring_lease_of [''a'']" k] members_empty [of "map ring_lease_of [''a'']"]
    by (cases "desired_shard first_char_hash (map ring_lease_of [''a'']) k = []") (auto simp: desired_shard_empty_iff members_iff)
  then obtain wi where wi: "workItemForObject std_lib o' \<lparr>gr_Group = [], gr_Resource = ''secrets''\<rparr> False ?obj = Inr (Some wi)"
    using assms(1) obj(1) cur by (simp add: workItemForObject_Some object_key_def op_from_def desired_shard_def)
  have "\<not> wi_drain wi" using wi_drain_iff [OF assms(1) _ wi] cur by simp
  then have wr: "item_write sample_cluster_env wi ?obj = set_labels ?obj ((object_labels ?obj)(LabelShard ''ring'' := None, LabelDrain ''ring'' := None))"
    (is "_ = ?free") by (simp add: item_write_def)
  have leases: "cluster_leases sample_cluster_env s = ?ls" by (rule sample_leases) (simp add: assms(6))
  let ?new = "set_labels ?free ((as_map (om_Labels (po_Meta ?free)))(LabelShard ''ring'' \<mapsto> ''a''))"
  have "cluster_admission sample_cluster_env s ?free = Some (assign_object first_char_hash ?ls ''ring'' ?free)"
    using admitted_sample [of ?free _ s] obj(1) leases by (simp add: map_has_def)
  then have adm: "cluster_admission sample_cluster_env s ?free = Some ?new"
    using sample_hash obj(1) by (simp add: assign_object_def map_get_def)
  obtain err w' where run: "process_item std_lib (ce_client sample_cluster_env) o' wi \<lparr>w_api = s, w_ops = []\<rparr> = (err, w')" by fastforce
  have "w_api w' = cluster_put sample_cluster_env ?free s"
    using item_applies [of std_lib o' _ s wi sample_readers "[]", folded sample_cluster_env_def] wi obj(3) assms(2) wr run FormatInt_plain [of 0]
    by (simp add: sample_ring plain_char_def)
  then have put: "w_api w' = s\<lparr>cl_hist := cl_hist s @ [versioned (FormatInt 1) ?new]\<rparr>"
    by (simp add: cluster_put_Some [OF adm] assms(5))
  have "cluster_step True sample_cluster_env s (w_api w')"
    using cluster_step.item_processed [of ls o' s ?obj sample_cluster_env wi True "[]" err w'] assms(3-5) obj(4) wi run by simp
  moreover have "assigned_to ''ring'' ''a'' ?new" "\<not> drained ''ring'' ?new"
    by (simp_all add: assigned_to_def drained_def map_has_def LabelShard_neq_LabelDrain [symmetric])
  ultimately show thesis using that [of "versioned (FormatInt 1) ?new"] put by simp
qed

section \<open>Properties\<close>


text \<open>The sample shard \<open>b\<close> starts and works on the object.\<close>

definition working_cluster :: cluster where
  "working_cluster = (sample_cluster (map ring_lease_of [''b'']))\<lparr>cl_alive := {''b''}, cl_work := {''b''}\<rparr>"

lemma working_cluster_reachable:
  "(cluster_step False sample_cluster_env)\<^sup>*\<^sup>* (cluster_init sample_cluster_env (placed_object ''b'')) working_cluster"
proof -
  let ?s1 = "sample_cluster (map ring_lease_of [''b''])" and ?step = "cluster_step False sample_cluster_env"
  have leases: "cluster_leases sample_cluster_env ?s1 = map ring_lease_of [''b'']"
    by (rule sample_leases) (simp add: sample_cluster_def)
  have "?step (cluster_init sample_cluster_env (placed_object ''b'')) ?s1"
    by (rule sample_leases_change [where ns = "[''b'']"]) (simp_all add: sample_cluster_def cluster_init_def)
  moreover have "?step ?s1 (?s1\<lparr>cl_alive := {''b''}\<rparr>)"
  proof -
    have "?step ?s1 (?s1\<lparr>cl_alive := insert ''b'' (cl_alive ?s1), cl_cache := (cl_cache ?s1)(''b'' := length (cl_hist ?s1) - 1)\<rparr>)"
      by (rule cluster_step.shard_starts) (simp_all add: leases [simplified] holds_lease_def, simp add: sample_cluster_def cluster_init_def)
    then show ?thesis by (simp add: sample_cluster_def cluster_init_def fun_upd_idem)
  qed
  moreover have "?step (?s1\<lparr>cl_alive := {''b''}\<rparr>) working_cluster"
  proof (rule cluster_step.shard_reconciles [where sh = "''b''"])
    show "shard_Reconcile (cluster_reconciler sample_cluster_env ''b'') ([], []) (?s1\<lparr>cl_alive := {''b''}\<rparr>) = (Inr no_requeue, working_cluster)"
      using placed_object_facts(2) [of "''b''"] placed_not_drained [of "''b''"]
      by (subst shard_Reconcile_eq [where obj = "versioned (FormatInt 0) (placed_object ''b'')"])
        (simp_all add: cluster_reconciler_def working_cluster_def sample_cluster_def cluster_init_def)
  qed (simp_all add: sample_cluster_def cluster_init_def)
  ultimately show ?thesis by (meson converse_rtranclp_into_rtranclp rtranclp.rtrancl_refl)
qed




text \<open>C7: An operation that outlives a change of the leases breaks the exclusion: the sharder builds its operation while a
  shard is away, the shard comes back under its name and starts to work on its object, and the sharder, still
  holding the shard for unavailable, moves the object without a drain; the webhook assigns it to another shard, and both work on
  it. The resource version does not help, since the object did not change in between.\<close>

theorem overtaken_resync_breaks_exclusion:
  "\<exists>s. (cluster_step True sample_cluster_env)\<^sup>*\<^sup>* (cluster_init sample_cluster_env (placed_object ''b'')) s \<and>
     {''a'', ''b''} \<subseteq> cl_work s"
proof -
  let ?s0 = "cluster_init sample_cluster_env (placed_object ''b'')"
  define s1 where "s1 = ?s0\<lparr>cl_leases := map ring_lease_of [''a''], cl_past := insert (cl_leases ?s0) (cl_past ?s0)\<rparr>"
  have 1: "sample_steps ?s0 s1" using sample_leases_change [where lag = True, OF s1_def] by (simp add: cluster_init_def r_into_rtranclp)
  have "cl_leases s1 = map ring_lease_of [''a'']" by (simp add: s1_def)
  then obtain o' where o': "cluster_step True sample_cluster_env s1 (s1\<lparr>cl_ops := insert (map ring_lease_of [''a''], o') (cl_ops s1)\<rparr>)"
    "op_from first_char_hash (map ring_lease_of [''a'']) 0 o'" "om_Name (cr_Meta (op_ControllerRing o')) = ''ring''" "op_Namespaces o' = {''default''}"
    by (rule sample_operation)
  define s2 where "s2 = s1\<lparr>cl_ops := insert (map ring_lease_of [''a''], o') (cl_ops s1)\<rparr>"
  define s3 where "s3 = s2\<lparr>cl_leases := map ring_lease_of [''a'', ''b''], cl_past := insert (cl_leases s2) (cl_past s2)\<rparr>"
  have 3: "sample_steps s2 s3" using sample_leases_change [where lag = True, OF s3_def] by (simp add: s2_def s1_def cluster_init_def)
  define s4 where "s4 = s3\<lparr>cl_alive := insert ''b'' (cl_alive s3), cl_cache := (cl_cache s3)(''b'' := length (cl_hist s3) - 1)\<rparr>"
  have l: "cl_leases s3 = map ring_lease_of [''a'', ''b'']" by (simp add: s3_def)
  have 4: "sample_steps s3 s4"
    using shard_start_step [of "''b''" s3, OF _ l] by (simp add: s4_def) (simp add: s3_def s2_def s1_def cluster_init_def)
  define s5 where "s5 = s4\<lparr>cl_work := insert ''b'' (cl_work s4)\<rparr>"
  have h: "cl_hist s4 = [versioned (FormatInt 0) (placed_object ''b'')]" "cl_work s4 = {}" "cl_alive s4 = {''b''}" "cl_cache s4 ''b'' = 0"
    "cl_leases s4 = map ring_lease_of [''a'', ''b'']" "(map ring_lease_of [''a''], o') \<in> cl_ops s4"
    by (simp_all add: s4_def s3_def s2_def s1_def cluster_init_def)
  have 5: "sample_steps s4 s5"
    using shard_work_step [of "''b''" s4] placed_object_facts(2) [of "''b''"] placed_not_drained [of "''b''"] h by (simp add: s5_def)
  obtain obj where obj: "cluster_step True sample_cluster_env s5 (s5\<lparr>cl_hist := cl_hist s5 @ [obj]\<rparr>)" "assigned_to ''ring'' ''a'' obj" "\<not> drained ''ring'' obj"
    using sample_move [OF o'(2-4), of _ s5] h by (simp add: s5_def) blast
  define s6 where "s6 = s5\<lparr>cl_hist := cl_hist s5 @ [obj]\<rparr>"
  define s7 where "s7 = s6\<lparr>cl_alive := insert ''a'' (cl_alive s6), cl_cache := (cl_cache s6)(''a'' := length (cl_hist s6) - 1)\<rparr>"
  have 7: "sample_steps s6 s7"
    using shard_start_step [of "''a''" s6 "[''a'', ''b'']"] h by (simp add: s7_def s6_def s5_def)
  have 8: "cluster_step True sample_cluster_env s7 (s7\<lparr>cl_work := insert ''a'' (cl_work s7)\<rparr>)"
    by (rule shard_work_step) (use h obj in \<open>simp_all add: s7_def s6_def s5_def nth_append\<close>)
  have "sample_steps ?s0 (s7\<lparr>cl_work := insert ''a'' (cl_work s7)\<rparr>)"
    using 1 o'(1) 3 4 5 obj(1) 7 8 unfolding s2_def [symmetric] s6_def [symmetric] by (meson rtranclp.rtrancl_into_rtrancl rtranclp_trans)
  moreover have "{''a'', ''b''} \<subseteq> cl_work (s7\<lparr>cl_work := insert ''a'' (cl_work s7)\<rparr>)" by (simp add: s7_def s6_def s5_def)
  ultimately show ?thesis by blast
qed

end
