(* ===== verification/Recovery.thy ===== *)
theory Recovery
  imports Exclusion
begin

text \<open>
  The cluster never gets stuck: from every state it can reach, the program has a run
  that ends with the object assigned to the shard its key hashes to and not drained. The run is the one the code is made
  for: a resync builds an operation and processes the item of the object; if its shard is available, the shard acknowledges
  the drain; the webhook admits the write. This needs an object in a namespace that the ring selects (the resync skips all others),
  an API server and a webhook that answer, and lease caches that have caught up.
\<close>

section \<open>An API server that answers\<close>

text \<open>Writes to the current version succeed unless the webhook denies them.\<close>

definition accepting :: "cluster_env \<Rightarrow> bool" where
  "accepting e \<longleftrightarrow>
     (\<forall>s obj patch p. parse_json patch = Some p \<and> accepts_merge_patch s obj p \<and> cluster_admission e s (merged s p) \<noteq> None \<longrightarrow>
        c_RawPatch (ce_client e) s obj patch = (None, merge_write e s p)) \<and>
     (\<forall>s obj base. accepts_diff s obj base \<and> cluster_admission e s (diffed s obj base) \<noteq> None \<longrightarrow>
        ce_Patch e s obj base = (None, diff_write e s obj base))"

lemma writable_accepting: "accepting (writable e)"
  by (simp add: accepting_def memory_RawPatch_def memory_Patch_def merge_write_def diff_write_def Option.is_none_def)

text \<open>
  The webhook is called, lists of leases are current, and operations can be built, which select the namespace \<open>ns\<close>.
\<close>

definition responsive :: "cluster_env \<Rightarrow> string \<Rightarrow> bool" where
  "responsive e ns \<longleftrightarrow> api_doc e \<and> accepting e \<and> (\<forall>n. ce_answers e n) \<and>
     (\<forall>s now. \<exists>cr o' w'. c_GetRing (ce_client e) s ([], ce_ring e) = Inr cr \<and>
        c_ListLeases (ce_client e) s (LeaseSelector cr) = Inr (cluster_leases e s) \<and>
        NewOperation (ce_lib e) (ce_hash e) (ce_cfg e) (ce_client e) now cr \<lparr>w_api = s, w_ops = []\<rparr> = (Inr o', w') \<and> ns \<in> op_Namespaces o')"

lemma responsiveD: "responsive e ns \<Longrightarrow> api_doc e" "responsive e ns \<Longrightarrow> accepting e"
  by (simp_all add: responsive_def)

lemma responsive_admission:
  assumes "responsive e ns" and "\<not> map_has (om_Labels (po_Meta obj)) (LabelShard (ce_ring e))" and "ForObject obj = Inr k"
  shows "cluster_admission e s obj = Some (assign_object (ce_hash e) (cluster_leases e s) (ce_ring e) obj)"
proof -
  obtain cr where "c_GetRing (ce_client e) s ([], ce_ring e) = Inr cr" "c_ListLeases (ce_client e) s (LeaseSelector cr) = Inr (cluster_leases e s)"
    using assms(1) unfolding responsive_def by metis
  then show ?thesis
    using cluster_admission_answered [OF responsiveD(1) [OF assms(1)] _ assms(2) _ _ assms(3)] assms(1) by (simp add: responsive_def)
qed

lemma responsive_operation:
  assumes "responsive e ns"
  obtains cr o' w' where "c_GetRing (ce_client e) s ([], ce_ring e) = Inr cr"
    "NewOperation (ce_lib e) (ce_hash e) (ce_cfg e) (ce_client e) now cr \<lparr>w_api = s, w_ops = []\<rparr> = (Inr o', w')" "ns \<in> op_Namespaces o'"
    "cluster_step False e s (s\<lparr>cl_ops := insert (cluster_leases e s, o') (cl_ops s)\<rparr>)" "op_from (ce_hash e) (cluster_leases e s) now o'"
    "om_Name (cr_Meta (op_ControllerRing o')) = ce_ring e"
proof -
  obtain cr o' w' where op: "c_GetRing (ce_client e) s ([], ce_ring e) = Inr cr"
    "c_ListLeases (ce_client e) s (LeaseSelector cr) = Inr (cluster_leases e s)"
    "NewOperation (ce_lib e) (ce_hash e) (ce_cfg e) (ce_client e) now cr \<lparr>w_api = s, w_ops = []\<rparr> = (Inr o', w')" "ns \<in> op_Namespaces o'"
    using assms unfolding responsive_def by metis
  from operation_from_leases [OF op(1,2) responsiveD(1) [OF assms] op(3)] cluster_step.operation_built [OF op(1-3)] op(1,3,4) that show thesis by blast
qed

text \<open>Processing the item of the current version writes it.\<close>

lemma item_written:
  assumes resp: "responsive e ns" and wi: "workItemForObject (ce_lib e) o' gr False (stored s) = Inr (Some wi)"
    and cr: "om_Name (cr_Meta (op_ControllerRing o')) = ce_ring e" and v: "object_version (stored s) = ce_version e n"
  shows "w_api (snd (process_item (ce_lib e) (ce_client e) o' wi \<lparr>w_api = s, w_ops = ops\<rparr>)) = cluster_put e (item_write e wi (stored s)) s"
proof -
  have it: "wi_resourceVersion wi = object_version (stored s)" "same_object (work_object wi) (stored s)"
    using wi by (simp_all add: workItemForObject_Some object_version_def work_object_def same_object_def ObjectKeyFromObject_def)
  note doc = responsiveD(1) [OF resp]
  let ?patch = "if wi_drain wi then drain_patch (op_ControllerRing o') (object_version (stored s))
      else move_patch (op_ControllerRing o') (object_version (stored s))"
  obtain p where p: "parse_json ?patch = Some p" "patch_version p = Some (object_version (stored s))"
    "merge_write e s p = cluster_put e (item_write e wi (stored s)) s"
    using item_patch [OF cr api_docD(2) [OF doc], of "object_version (stored s)" wi s] api_docD(4) [OF doc, of n] v by metis
  have "snd (c_RawPatch (ce_client e) s (work_object wi) ?patch) = merge_write e s p"
  proof (cases "cluster_admission e s (merged s p) = None")
    case True
    then have "merge_write e s p = s" by (simp add: merge_write_def)
    then show ?thesis using api_docD(7) [OF doc] p(1) unfolding RawPatch_doc_def by (metis option.inject)
  next
    case False
    moreover have "accepts_merge_patch s (work_object wi) p" using p(2) it(2) by (simp add: accepts_merge_patch_def)
    ultimately show ?thesis using responsiveD(2) [OF resp] p(1) unfolding accepting_def by (metis snd_conv)
  qed
  then show ?thesis using p(3) by (simp add: process_item_write [OF it(1)])
qed

section \<open>The way of an object\<close>

text \<open>The state of the object that the sharder is after.\<close>

definition placed :: "cluster_env \<Rightarrow> string \<Rightarrow> cluster \<Rightarrow> bool" where
  "placed e k s \<longleftrightarrow> assigned_to (ce_ring e) (desired_shard (ce_hash e) (cluster_leases e s) k) (stored s) \<and> \<not> drained (ce_ring e) (stored s)"

definition recovers :: "cluster_env \<Rightarrow> string \<Rightarrow> cluster \<Rightarrow> bool" where
  "recovers e k s \<longleftrightarrow> (\<exists>s'. (cluster_step False e)\<^sup>*\<^sup>* s s' \<and> cluster_leases e s' = cluster_leases e s \<and> placed e k s')"

lemma recovers_step:
  assumes "cluster_step False e s s1" and "cluster_leases e s1 = cluster_leases e s" and "recovers e k s1"
  shows "recovers e k s"
  using assms unfolding recovers_def by (metis converse_rtranclp_into_rtranclp)

lemma placed_recovers: "placed e k s \<Longrightarrow> recovers e k s"
  unfolding recovers_def by blast

text \<open>A write that removes both labels is admitted to the shard of the key.\<close>

lemma released_placed:
  assumes "responsive e ns" and "ForObject (stored s) = Inr k" and "desired_shard (ce_hash e) (cluster_leases e s) k \<noteq> []"
  shows "placed e k (cluster_put e (set_labels (stored s) ((object_labels (stored s))(LabelShard (ce_ring e) := None, LabelDrain (ce_ring e) := None))) s)"
proof -
  let ?obj = "set_labels (stored s) ((object_labels (stored s))(LabelShard (ce_ring e) := None, LabelDrain (ce_ring e) := None))"
  have "k \<noteq> []" using assms(2) by (auto simp: ForObject_Inr)
  then have "cluster_admission e s ?obj = Some (set_labels ?obj ((as_map (om_Labels (po_Meta ?obj)))(LabelShard (ce_ring e) \<mapsto> desired_shard (ce_hash e) (cluster_leases e s) k)))"
    using responsive_admission [OF assms(1), of ?obj k s] assms(2,3) by (simp add: assign_object_def map_get_def map_has_def)
  from cluster_put_Some [OF this] show ?thesis
    by (simp add: placed_def cluster_leases_def assigned_to_def drained_def map_has_def LabelShard_neq_LabelDrain [symmetric] versioned_def)
qed

text \<open>A shard that holds its lease can get to look at the current version.\<close>

lemma shard_gets_ready:
  assumes "cluster_inv e s" and "holds_lease (cluster_leases e s) sh"
  obtains s2 where "(cluster_step False e)\<^sup>*\<^sup>* s s2" "sh \<in> cl_alive s2" "sh \<notin> cl_work s2" "cl_cache s2 sh = length (cl_hist s) - 1"
    "cl_hist s2 = cl_hist s" "cl_leases s2 = cl_leases s"
proof -
  define s1 where "s1 = s\<lparr>cl_work := cl_work s - {sh}\<rparr>"
  have s1: "cluster_step False e s s1" unfolding s1_def by (rule cluster_step.work_ends)
  consider "sh \<notin> cl_alive s" | "sh \<in> cl_alive s" "cl_cache s sh < length (cl_hist s) - 1" | "sh \<in> cl_alive s" "cl_cache s sh = length (cl_hist s) - 1"
    using assms(1) unfolding cluster_inv_def by fastforce
  then show thesis
  proof cases
    case 1
    have "cluster_step False e s1 (s1\<lparr>cl_alive := insert sh (cl_alive s1), cl_cache := (cl_cache s1)(sh := length (cl_hist s1) - 1)\<rparr>)"
      by (rule cluster_step.shard_starts) (use 1 assms(2) in \<open>simp_all add: s1_def cluster_leases_def\<close>)
    then have "(cluster_step False e)\<^sup>*\<^sup>* s (s1\<lparr>cl_alive := insert sh (cl_alive s1), cl_cache := (cl_cache s1)(sh := length (cl_hist s1) - 1)\<rparr>)"
      using s1 by (meson converse_rtranclp_into_rtranclp r_into_rtranclp)
    then show thesis by (rule that) (simp_all add: s1_def)
  next
    case 2
    have "cluster_step False e s1 (s1\<lparr>cl_cache := (cl_cache s1)(sh := length (cl_hist s) - 1)\<rparr>)"
      by (rule cluster_step.cache_advances) (use 2 assms(1) in \<open>simp_all add: s1_def cluster_inv_def\<close>)
    then have "(cluster_step False e)\<^sup>*\<^sup>* s (s1\<lparr>cl_cache := (cl_cache s1)(sh := length (cl_hist s) - 1)\<rparr>)"
      using s1 by (meson converse_rtranclp_into_rtranclp r_into_rtranclp)
    then show thesis by (rule that) (use 2 in \<open>simp_all add: s1_def\<close>)
  next
    case 3
    then show thesis using that [of s1] s1 by (simp add: s1_def r_into_rtranclp)
  qed
qed

text \<open>It then acknowledges the drain of its object.\<close>

lemma drain_acknowledged:
  assumes resp: "responsive e ns" and "cl_hist s ! cl_cache s sh = stored s" and "assigned_to (ce_ring e) sh (stored s)" and "drained (ce_ring e) (stored s)"
    and "ForObject (stored s) = Inr k"
  shows "snd (shard_Reconcile (cluster_reconciler e sh) req s) =
    cluster_put e (set_labels (stored s) ((object_labels (stored s))(LabelShard (ce_ring e) := None, LabelDrain (ce_ring e) := None))) s"
    (is "_ = cluster_put e ?free s")
proof -
  have diff: "(\<lambda>k. if m k = m' k then m k else m' k) = m'" for m m' :: str_map by (auto simp: fun_eq_iff)
  have "diffed s (release_object (ce_ring e) (stored s)) (stored s) = ?free" unfolding diffed_def diff release_labels' ..
  moreover have "cluster_admission e s ?free \<noteq> None" using responsive_admission [OF resp, of ?free k s] assms(5) by (simp add: map_has_def)
  ultimately have "ce_Patch e s (release_object (ce_ring e) (stored s)) (stored s) = (None, cluster_put e ?free s)"
    using responsiveD(2) [OF resp] by (simp add: accepting_def accepts_diff_def same_object_def ObjectKeyFromObject_def diff_write_def)
  then show ?thesis
    using assms(2-4) by (subst shard_Reconcile_eq [where obj = "stored s"]) (simp_all add: cluster_reconciler_def)
qed

lemma drained_recovers:
  assumes "responsive e ns" and "cluster_inv e s" and "holds_lease (cluster_leases e s) sh"
    and "assigned_to (ce_ring e) sh (stored s)" and "drained (ce_ring e) (stored s)"
    and "ForObject (stored s) = Inr k" and "desired_shard (ce_hash e) (cluster_leases e s) k \<noteq> []"
  shows "recovers e k s"
proof -
  obtain s2 where s2: "(cluster_step False e)\<^sup>*\<^sup>* s s2" "sh \<in> cl_alive s2" "sh \<notin> cl_work s2" "cl_cache s2 sh = length (cl_hist s) - 1"
    "cl_hist s2 = cl_hist s" "cl_leases s2 = cl_leases s" by (rule shard_gets_ready [OF assms(2,3)])
  have ne: "cl_hist s \<noteq> []" using assms(2) by (simp add: cluster_inv_def)
  have ls: "cluster_leases e s2 = cluster_leases e s" by (simp add: cluster_leases_def s2(6))
  let ?s3 = "cluster_put e (set_labels (stored s2) ((object_labels (stored s2))(LabelShard (ce_ring e) := None, LabelDrain (ce_ring e) := None))) s2"
  have "cl_hist s2 ! cl_cache s2 sh = stored s2" by (simp add: s2(4,5) last_conv_nth ne)
  then have "snd (shard_Reconcile (cluster_reconciler e sh) ([], []) s2) = ?s3"
    using drain_acknowledged [OF assms(1), of s2 sh k] assms(4-6) s2(5) by simp
  then have "cluster_step False e s2 ?s3"
    using cluster_step.shard_reconciles [OF s2(2,3)] by (metis prod.collapse)
  moreover have "placed e k ?s3" by (rule released_placed [OF assms(1)]) (simp_all add: s2(5) ls assms(6,7))
  moreover have "cluster_leases e ?s3 = cluster_leases e s" by (simp add: ls)
  ultimately show ?thesis using s2(1) unfolding recovers_def by (meson rtranclp.rtrancl_into_rtrancl)
qed

text \<open>A resync processes the item of a misplaced object.\<close>

lemma item_step:
  assumes "responsive e ns" and "cluster_inv e s" and "ForObject (stored s) = Inr k" and "om_Namespace (po_Meta (stored s)) = ns"
    and "desired_shard (ce_hash e) (cluster_leases e s) k \<notin> {[], map_get (om_Labels (po_Meta (stored s))) (LabelShard (ce_ring e))}"
    and names: "distinct_names (cluster_leases e s)"
  obtains s1 wi where "(cluster_step False e)\<^sup>*\<^sup>* s (cluster_put e (item_write e wi (stored s1)) s1)" "cl_hist s1 = cl_hist s" "cl_leases s1 = cl_leases s"
    "wi_drain wi \<longleftrightarrow> holds_lease (cluster_leases e s) (map_get (om_Labels (po_Meta (stored s))) (LabelShard (ce_ring e)))"
proof -
  let ?ls = "cluster_leases e s"
  obtain o' where o': "ns \<in> op_Namespaces o'" "cluster_step False e s (s\<lparr>cl_ops := insert (?ls, o') (cl_ops s)\<rparr>)"
    "op_from (ce_hash e) ?ls 0 o'" "om_Name (cr_Meta (op_ControllerRing o')) = ce_ring e"
    by (rule responsive_operation [OF assms(1)])
  let ?s1 = "s\<lparr>cl_ops := insert (?ls, o') (cl_ops s)\<rparr>"
  have cur: "current_shard o' (stored s) = map_get (om_Labels (po_Meta (stored s))) (LabelShard (ce_ring e))"
    by (simp add: current_shard_def ring_LabelShard_def o'(4))
  obtain wi where wi: "workItemForObject (ce_lib e) o' (ce_resource e) False (stored s) = Inr (Some wi)"
    using o'(3) assms(3,5) cur by (auto simp: workItemForObject_Some object_key_def op_from_def desired_shard_def ForObject_Inr)
  obtain err w' where run: "process_item (ce_lib e) (ce_client e) o' wi \<lparr>w_api = ?s1, w_ops = []\<rparr> = (err, w')" by fastforce
  have v: "object_version (stored s) = ce_version e (length (cl_hist s) - 1)" "cl_hist s \<noteq> []"
    using assms(2) by (simp_all add: cluster_inv_def last_conv_nth)
  then have "w_api w' = cluster_put e (item_write e wi (stored ?s1)) ?s1"
    using item_written [OF assms(1), of o' "ce_resource e" ?s1 wi _ "[]"] wi o'(4) run by simp
  moreover have "cluster_step False e ?s1 (w_api w')"
    by (rule cluster_step.item_processed [where ls = ?ls, OF _ _ _ wi _ run])
      (use v(2) o'(1) assms(4) in \<open>simp_all add: regained_def cluster_leases_def\<close>)
  ultimately have "(cluster_step False e)\<^sup>*\<^sup>* s (cluster_put e (item_write e wi (stored ?s1)) ?s1)"
    using o'(2) by (metis converse_rtranclp_into_rtranclp r_into_rtranclp)
  moreover have "wi_drain wi \<longleftrightarrow> holds_lease ?ls (map_get (om_Labels (po_Meta (stored s))) (LabelShard (ce_ring e)))"
    using wi_drain_iff [OF o'(3) names wi] cur by (simp add: holds_lease_def)
  ultimately show thesis using that [of wi ?s1] by simp
qed

lemma drain_written:
  assumes "cur = map_get (om_Labels (po_Meta (stored s))) (LabelShard (ce_ring e))" and "cur \<noteq> []" and "wi_drain wi"
  shows "assigned_to (ce_ring e) cur (stored (cluster_put e (item_write e wi (stored s)) s))"
    "drained (ce_ring e) (stored (cluster_put e (item_write e wi (stored s)) s))"
    "ForObject (stored (cluster_put e (item_write e wi (stored s)) s)) = ForObject (stored s)"
    "cl_hist (cluster_put e (item_write e wi (stored s)) s) = cl_hist s @ [stored (cluster_put e (item_write e wi (stored s)) s)]"
proof -
  let ?obj = "drain_object (ce_ring e) (stored s)"
  have "as_map (om_Labels (po_Meta (stored s))) (LabelShard (ce_ring e)) = Some cur"
    using assms(1,2) by (auto simp: map_get_def split: option.splits)
  then have lab: "assigned_to (ce_ring e) cur ?obj" "drained (ce_ring e) ?obj"
    by (simp_all add: assigned_to_def drained_def map_has_def drain_object_def LabelShard_neq_LabelDrain)
  then have "cluster_admission e s ?obj = Some ?obj"
    using assms(2) by (intro cluster_admission_assigned) (auto simp: assigned_iff)
  from cluster_put_Some [OF this] show "assigned_to (ce_ring e) cur (stored (cluster_put e (item_write e wi (stored s)) s))"
    "drained (ce_ring e) (stored (cluster_put e (item_write e wi (stored s)) s))"
    "ForObject (stored (cluster_put e (item_write e wi (stored s)) s)) = ForObject (stored s)"
    "cl_hist (cluster_put e (item_write e wi (stored s)) s) = cl_hist s @ [stored (cluster_put e (item_write e wi (stored s)) s)]"
    using lab assms(3) by (simp_all add: item_write_def)
qed

lemma recovers_run:
  "(cluster_step False e)\<^sup>*\<^sup>* s s1 \<Longrightarrow> cluster_leases e s1 = cluster_leases e s \<Longrightarrow> recovers e k s1 \<Longrightarrow> recovers e k s"
  unfolding recovers_def by (metis rtranclp_trans)

lemma object_recovers:
  assumes resp: "responsive e ns" and inv: "cluster_inv e s" and ns: "om_Namespace (po_Meta (stored s)) = ns"
    and key: "ForObject (stored s) = Inr k" and d: "desired_shard (ce_hash e) (cluster_leases e s) k \<noteq> []"
  shows "recovers e k s"
proof -
  let ?d = "desired_shard (ce_hash e) (cluster_leases e s) k" and ?cur = "map_get (om_Labels (po_Meta (stored s))) (LabelShard (ce_ring e))"
  have names: "distinct_names (cluster_leases e s)" using inv by (simp add: cluster_inv_def cluster_lists_def cluster_leases_def)
  have held: "holds_lease (cluster_leases e s) ?d" using desired_shard_held [OF d] by (simp add: holds_lease_def)
  show ?thesis
  proof (cases "?d = ?cur")
    case True
    then have "assigned_to (ce_ring e) ?d (stored s)" using d by (auto simp: assigned_to_def map_get_def split: option.splits)
    then show ?thesis
      using drained_recovers [OF resp inv held _ _ key d] placed_recovers [of e k s] by (auto simp: placed_def)
  next
    case False
    then have "?d \<notin> {[], ?cur}" using d by simp
    then obtain s1 wi where s1: "(cluster_step False e)\<^sup>*\<^sup>* s (cluster_put e (item_write e wi (stored s1)) s1)" "cl_hist s1 = cl_hist s"
      "cl_leases s1 = cl_leases s" "wi_drain wi \<longleftrightarrow> holds_lease (cluster_leases e s) ?cur"
      by (rule item_step [OF resp inv key ns _ names])
    let ?s2 = "cluster_put e (item_write e wi (stored s1)) s1"
    have ls: "cluster_leases e s1 = cluster_leases e s" "cluster_leases e ?s2 = cluster_leases e s"
      by (simp_all add: cluster_leases_def s1(3))
    have "recovers e k ?s2"
    proof (cases "wi_drain wi")
      case True
      then have cur: "holds_lease (cluster_leases e s) ?cur" "?cur \<noteq> []" using s1(4) by (auto simp: holds_lease_def held_def)
      have "cluster_inv e ?s2" using cluster.run [OF s1(1) inv] by blast
      moreover have "assigned_to (ce_ring e) ?cur (stored ?s2)" "drained (ce_ring e) (stored ?s2)" "ForObject (stored ?s2) = ForObject (stored s1)"
        by (rule drain_written [OF _ cur(2) True], simp add: s1(2))+
      ultimately show ?thesis
        using drained_recovers [OF resp, of ?s2 ?cur k] cur(1) key d unfolding ls(2) by (metis s1(2))
    next
      case False
      then show ?thesis
        using released_placed [OF resp, of s1 k] key d by (intro placed_recovers) (simp add: item_write_def s1(2) ls(1))
    qed
    with s1(1) ls(2) show ?thesis by (rule recovers_run)
  qed
qed

text \<open>The first version stays.\<close>

lemma first_version_step:
  assumes "cluster_step False e s s'" and "cluster_inv e s"
  shows "cl_hist s' ! 0 = cl_hist s ! 0"
proof -
  have ne: "cl_hist s \<noteq> []" using assms(2) by (simp add: cluster_inv_def)
  have put: "cl_hist (cluster_put e obj s) ! 0 = cl_hist s ! 0" for obj
    using ne by (cases "cluster_admission e s obj") (simp_all add: cluster_put_Some nth_append)
  from assms(1) show ?thesis
  proof cases
    case (shard_reconciles sh req res)
    from assms(2) shard_reconciles(1,3) show ?thesis by (rule shard_effect) (simp_all add: put)
  next
    case (item_processed ls o' obj wi ops err w')
    then show ?thesis using item_effect [OF assms(2) item_processed(2,3,5,7)] put by auto
  qed (simp_all add: put)
qed

lemma first_version:
  assumes "(cluster_step False e)\<^sup>*\<^sup>* (cluster_init e obj) s" and "api_doc e"
  shows "cl_hist s ! 0 = versioned (ce_version e 0) obj"
  using assms(1)
proof (induction rule: rtranclp_induct)
  case (step s1 s2)
  then show ?case using first_version_step [of e s1 s2] cluster.run [OF step(1) cluster_inv_init [OF assms(2)]] by simp
qed (simp add: cluster_init_def)

section \<open>Properties\<close>

text \<open>C4: An object in a namespace that the ring selects can always be placed: from every state that the cluster reaches, whatever was drained,
  moved, crashed or lost before, as long as a shard is available, the API server accepts writes to the current version, the webhook
  answers and the lease caches have caught up, there is a run without another change of the leases after which the object is
  assigned to the shard its key hashes to and not drained.\<close>

theorem object_can_always_be_placed:
  assumes "responsive e (om_Namespace (po_Meta obj))" and "(cluster_step False e)\<^sup>*\<^sup>* (cluster_init e obj) s" and "ForObject (stored s) = Inr k"
    and "filter held (cluster_leases e s) \<noteq> []"
  shows "\<exists>s'. (cluster_step False e)\<^sup>*\<^sup>* s s' \<and> cluster_leases e s' = cluster_leases e s \<and>
    assigned_to (ce_ring e) (desired_shard (ce_hash e) (cluster_leases e s) k) (stored s') \<and> \<not> drained (ce_ring e) (stored s')"
proof -
  have inv: "cluster_inv e s"
    using cluster.run [OF assms(2) cluster_inv_init [OF responsiveD(1) [OF assms(1)]]] by simp
  have "om_Namespace (po_Meta (stored s)) = om_Namespace (po_Meta obj)"
    using first_version [OF assms(2) responsiveD(1) [OF assms(1)]] stored_same [OF inv] by (simp add: same_object_def ObjectKeyFromObject_def versioned_def)
  then have "recovers e k s"
    using object_recovers [OF assms(1) inv _ assms(3)] assms(4) by (simp add: desired_shard_empty_iff)
  then show ?thesis by (auto simp: recovers_def placed_def)
qed

lemma sample_responsive: "responsive sample_cluster_env ''default''"
proof -
  let ?cr = "hd (sto_rings (w_api sample_world))"
  have "\<exists>o' w'. NewOperation std_lib first_char_hash (ce_cfg sample_cluster_env) (ce_client sample_cluster_env) now ?cr \<lparr>w_api = s, w_ops = []\<rparr> = (Inr o', w') \<and>
      ''default'' \<in> op_Namespaces o'" for s now
    by (simp add: NewOperation_def sample_reads FromLeases_eq GetSelectedNamespaces_def std_lib_def observe_def Let_def split: option.split)
  then show ?thesis
    using sample_api sample_list writable_accepting [of sample_readers]
    by (simp add: responsive_def sample_reads(1) sample_cluster_env_def [symmetric])
qed

lemma object_can_always_be_placed_witness:
  "\<exists>s'. (cluster_step False sample_cluster_env)\<^sup>*\<^sup>* working_cluster s' \<and> assigned_to ''ring'' ''b'' (stored s') \<and> \<not> drained ''ring'' (stored s')"
proof -
  have resp: "responsive sample_cluster_env (om_Namespace (po_Meta (placed_object ''b'')))"
    using sample_responsive by (simp add: placed_object_facts)
  have ls: "cluster_leases sample_cluster_env working_cluster = map ring_lease_of [''b'']"
    by (rule sample_leases) (simp add: working_cluster_def sample_cluster_def)
  have "desired_shard first_char_hash (map ring_lease_of [''b'']) k = ''b''" for k
    using desired_member [of first_char_hash "map ring_lease_of [''b'']" k] members_empty [of "map ring_lease_of [''b'']"]
    by (cases "desired_shard first_char_hash (map ring_lease_of [''b'']) k = []") (auto simp: desired_shard_empty_iff members_iff)
  moreover have "ForObject (stored working_cluster) = Inr ''/Secret/default/foo''"
    by (simp add: working_cluster_def sample_cluster_def cluster_init_def placed_object_facts)
  ultimately show ?thesis
    using object_can_always_be_placed [OF resp working_cluster_reachable, of "''/Secret/default/foo''"]
    by (simp add: ls [simplified]) metis
qed

end
