(* ===== verification/Rollout.thy ===== *)
theory Rollout
  imports Recovery
begin

text \<open>
  A rolling update, executed with the functions of the program: for one membership after the other a resync of the sharder (the
  ring and the leases are read, the operation is built, the object is checked and its item processed) and then one
  reconciliation of every available shard on the version that the resync left. Every write goes through the text of its
  patch, the API server and the webhook handler of \<open>Cluster\<close>.
\<close>

section \<open>One round\<close>

definition resync_object :: "cluster_env \<Rightarrow> time \<Rightarrow> cluster \<Rightarrow> cluster" where
  "resync_object e now s =
     (case c_GetRing (ce_client e) s ([], ce_ring e) of
        Inl _ \<Rightarrow> s
      | Inr cr \<Rightarrow>
          (case NewOperation (ce_lib e) (ce_hash e) (ce_cfg e) (ce_client e) now cr \<lparr>w_api = s, w_ops = []\<rparr> of
             (Inl _, _) \<Rightarrow> s
           | (Inr o', _) \<Rightarrow>
               if om_Namespace (po_Meta (stored s)) \<notin> op_Namespaces o' then s
               else
                 (case workItemForObject (ce_lib e) o' (ce_resource e) False (stored s) of
                    Inr (Some wi) \<Rightarrow> w_api (snd (process_item (ce_lib e) (ce_client e) o' wi \<lparr>w_api = s, w_ops = []\<rparr>))
                  | _ \<Rightarrow> s)))"

definition shard_round :: "cluster_env \<Rightarrow> string \<Rightarrow> cluster \<Rightarrow> cluster" where
  "shard_round e sh s = snd (shard_Reconcile (cluster_reconciler e sh) ([], []) (s\<lparr>cl_cache := (cl_cache s)(sh := length (cl_hist s) - 1)\<rparr>))"

definition new_leases :: "lease list \<Rightarrow> cluster \<Rightarrow> cluster" where
  "new_leases ls s = s\<lparr>cl_leases := ls, cl_past := insert (cl_leases s) (cl_past s)\<rparr>"

definition membership_round :: "cluster_env \<Rightarrow> time \<Rightarrow> lease list \<Rightarrow> cluster \<Rightarrow> cluster" where
  "membership_round e now ls s = fold (shard_round e) (held_names (listed e ls)) (resync_object e now (new_leases ls s))"

definition rollout :: "cluster_env \<Rightarrow> time \<Rightarrow> lease list list \<Rightarrow> cluster \<Rightarrow> cluster" where
  "rollout e now lss s = fold (membership_round e now) lss s"

text \<open>How often the object is written: not at all if its shard does not change, once if its shard is gone, and twice, for the drain and its
  acknowledgement, if it has to leave an available shard.\<close>

definition round_cost :: "cluster_env \<Rightarrow> string \<Rightarrow> string \<Rightarrow> lease list \<Rightarrow> nat" where
  "round_cost e k old ls =
     (if desired_shard (ce_hash e) (listed e ls) k = old then 0 else if holds_lease (listed e ls) old then 2 else 1)"

fun rollout_cost :: "cluster_env \<Rightarrow> string \<Rightarrow> string \<Rightarrow> lease list list \<Rightarrow> nat" where
  "rollout_cost e k old [] = 0"
| "rollout_cost e k old (ls # lss) = round_cost e k old ls + rollout_cost e k (desired_shard (ce_hash e) (listed e ls) k) lss"

section \<open>Lemmas\<close>

definition ready :: "cluster_env \<Rightarrow> string \<Rightarrow> string \<Rightarrow> cluster \<Rightarrow> bool" where
  "ready e ns k s \<longleftrightarrow> cl_hist s \<noteq> [] \<and> object_version (stored s) = ce_version e (length (cl_hist s) - 1) \<and>
     om_Namespace (po_Meta (stored s)) = ns \<and> ForObject (stored s) = Inr k"

definition resides :: "cluster_env \<Rightarrow> string \<Rightarrow> cluster \<Rightarrow> bool" where
  "resides e sh s \<longleftrightarrow> assigned_to (ce_ring e) sh (stored s) \<and> \<not> drained (ce_ring e) (stored s)"

abbreviation freed :: "cluster_env \<Rightarrow> partial_object \<Rightarrow> partial_object" where
  "freed e obj \<equiv> set_labels obj ((object_labels obj)(LabelShard (ce_ring e) := None, LabelDrain (ce_ring e) := None))"

lemma assigned_get: "assigned_to ring sh obj \<Longrightarrow> map_get (om_Labels (po_Meta obj)) (LabelShard ring) = sh"
  by (simp add: assigned_to_def map_get_def)

lemma versioned_Namespace [simp]: "om_Namespace (po_Meta (versioned v obj)) = om_Namespace (po_Meta obj)"
  by (simp add: versioned_def)

lemma assign_object_Namespace [simp]: "om_Namespace (po_Meta (assign_object dh ls ring obj)) = om_Namespace (po_Meta obj)"
  by (simp add: assign_object_def split: sum.split)

text \<open>A write without the labels is assigned by the webhook.\<close>

lemma freed_written:
  assumes "responsive e ns" and "ready e ns k s" and "desired_shard (ce_hash e) (cluster_leases e s) k \<noteq> []"
  defines "s' \<equiv> cluster_put e (freed e (stored s)) s"
  shows "\<exists>obj. cl_hist s' = cl_hist s @ [obj]" and "ready e ns k s'" and "resides e (desired_shard (ce_hash e) (cluster_leases e s) k) s'"
proof -
  have k: "ForObject (stored s) = Inr k" "om_Namespace (po_Meta (stored s)) = ns" using assms(2) by (simp_all add: ready_def)
  have "cluster_admission e s (freed e (stored s)) = Some (assign_object (ce_hash e) (cluster_leases e s) (ce_ring e) (freed e (stored s)))"
    using responsive_admission [OF assms(1), of "freed e (stored s)" k s] k(1) by (simp add: map_has_def)
  from cluster_put_Some [OF this]
  have s': "cl_hist s' = cl_hist s @ [versioned (ce_version e (length (cl_hist s))) (assign_object (ce_hash e) (cluster_leases e s) (ce_ring e) (freed e (stored s)))]"
    by (simp add: s'_def)
  then show "\<exists>obj. cl_hist s' = cl_hist s @ [obj]" by blast
  show "ready e ns k s'" using k unfolding ready_def s' by simp
  show "resides e (desired_shard (ce_hash e) (cluster_leases e s) k) s'"
    using released_placed [OF assms(1) k(1) assms(3)] by (simp add: resides_def placed_def s'_def)
qed

lemma drain_ready:
  assumes "ready e ns k s" and "assigned_to (ce_ring e) cur (stored s)" and "cur \<noteq> []" and "wi_drain wi"
  defines "s' \<equiv> cluster_put e (item_write e wi (stored s)) s"
  shows "ready e ns k s'" and "assigned_to (ce_ring e) cur (stored s')" and "drained (ce_ring e) (stored s')"
    and "cl_hist s' = cl_hist s @ [stored s']"
proof -
  have cur: "cur = map_get (om_Labels (po_Meta (stored s))) (LabelShard (ce_ring e))" using assigned_get [OF assms(2)] by simp
  note d = drain_written [OF cur assms(3,4), folded s'_def]
  show "assigned_to (ce_ring e) cur (stored s')" "drained (ce_ring e) (stored s')" "cl_hist s' = cl_hist s @ [stored s']" by (fact d)+
  have "cluster_admission e s (drain_object (ce_ring e) (stored s)) = Some (drain_object (ce_ring e) (stored s))"
    using assms(2,3) by (intro cluster_admission_assigned) (simp add: assigned_get)
  from cluster_put_Some [OF this] assms(1,4) show "ready e ns k s'"
    by (simp add: ready_def s'_def item_write_def) (simp add: drain_object_def)
qed

text \<open>What a resync does with an object that resides on a shard.\<close>

lemma resync_cases:
  assumes resp: "responsive e ns" and ready: "ready e ns k s" and at: "assigned_to (ce_ring e) old (stored s)" "old \<noteq> []"
    and names: "distinct_names (cluster_leases e s)" and d: "desired_shard (ce_hash e) (cluster_leases e s) k \<noteq> []"
  obtains "desired_shard (ce_hash e) (cluster_leases e s) k = old" "resync_object e now s = s"
  | wi where "desired_shard (ce_hash e) (cluster_leases e s) k \<noteq> old" "holds_lease (cluster_leases e s) old" "wi_drain wi"
      "resync_object e now s = cluster_put e (item_write e wi (stored s)) s"
  | "desired_shard (ce_hash e) (cluster_leases e s) k \<noteq> old" "\<not> holds_lease (cluster_leases e s) old"
      "resync_object e now s = cluster_put e (freed e (stored s)) s"
proof -
  let ?ls = "cluster_leases e s" and ?d = "desired_shard (ce_hash e) (cluster_leases e s) k"
  obtain cr o' w' where op: "c_GetRing (ce_client e) s ([], ce_ring e) = Inr cr"
    "NewOperation (ce_lib e) (ce_hash e) (ce_cfg e) (ce_client e) now cr \<lparr>w_api = s, w_ops = []\<rparr> = (Inr o', w')" "ns \<in> op_Namespaces o'"
    "op_from (ce_hash e) ?ls now o'" "om_Name (cr_Meta (op_ControllerRing o')) = ce_ring e"
    by (rule responsive_operation [OF resp])
  have k: "ForObject (stored s) = Inr k" "om_Namespace (po_Meta (stored s)) = ns" "object_version (stored s) = ce_version e (length (cl_hist s) - 1)"
    using ready by (simp_all add: ready_def)
  have cur: "current_shard o' (stored s) = old" using current_shard_assigned [OF op(5) at(1)] .
  have run: "resync_object e now s = (case workItemForObject (ce_lib e) o' (ce_resource e) False (stored s) of
      Inr (Some wi) \<Rightarrow> w_api (snd (process_item (ce_lib e) (ce_client e) o' wi \<lparr>w_api = s, w_ops = []\<rparr>)) | _ \<Rightarrow> s)"
    using op(3) k(2) by (simp add: resync_object_def op(1,2))
  show thesis
  proof (cases "?d = old")
    case True
    then have "assigned_to (om_Name (cr_Meta (op_ControllerRing o'))) ?d (stored s)" using at(1) op(5) by simp
    from correctly_assigned_no_work [OF op(4) k(1) this, of "ce_lib e" "ce_resource e"] show thesis
      using True run that(1) by simp
  next
    case False
    then obtain wi where wi: "workItemForObject (ce_lib e) o' (ce_resource e) False (stored s) = Inr (Some wi)"
      using op(4) k(1) cur d by (auto simp: workItemForObject_Some object_key_def op_from_def desired_shard_def ForObject_Inr)
    have w: "resync_object e now s = cluster_put e (item_write e wi (stored s)) s"
      using item_written [OF resp wi op(5) k(3)] run wi by simp
    have "wi_drain wi \<longleftrightarrow> holds_lease ?ls old" using wi_drain_iff [OF op(4) names wi] cur by (simp add: holds_lease_def)
    then show thesis
      using False w that(2) [of wi] that(3) by (cases "wi_drain wi") (simp_all add: item_write_def)
  qed
qed

text \<open>What a shard does.\<close>

lemma shard_round_idle:
  assumes "ready e ns k s" and "\<not> (assigned_to (ce_ring e) sh (stored s) \<and> drained (ce_ring e) (stored s))"
  shows "cl_hist (shard_round e sh s) = cl_hist s" and "cl_leases (shard_round e sh s) = cl_leases s"
proof -
  let ?s = "s\<lparr>cl_cache := (cl_cache s)(sh := length (cl_hist s) - 1)\<rparr>"
  have "cl_hist s ! (length (cl_hist s) - 1) = stored s" using assms(1) by (simp add: ready_def last_conv_nth)
  then have "shard_round e sh s \<in> {?s, ?s\<lparr>cl_work := insert sh (cl_work s)\<rparr>}"
    using assms(2) unfolding shard_round_def
    by (subst shard_Reconcile_eq [where obj = "stored s"]) (auto simp: cluster_reconciler_def)
  then show "cl_hist (shard_round e sh s) = cl_hist s" "cl_leases (shard_round e sh s) = cl_leases s" by auto
qed

lemma shard_round_acknowledges:
  assumes "responsive e ns" and "ready e ns k s" and "assigned_to (ce_ring e) sh (stored s)" and "drained (ce_ring e) (stored s)"
    and "desired_shard (ce_hash e) (cluster_leases e s) k \<noteq> []"
  shows "\<exists>obj. cl_hist (shard_round e sh s) = cl_hist s @ [obj]" and "ready e ns k (shard_round e sh s)"
    and "resides e (desired_shard (ce_hash e) (cluster_leases e s) k) (shard_round e sh s)" and "cl_leases (shard_round e sh s) = cl_leases s"
proof -
  let ?s = "s\<lparr>cl_cache := (cl_cache s)(sh := length (cl_hist s) - 1)\<rparr>"
  have r: "ready e ns k ?s" "cluster_leases e ?s = cluster_leases e s" using assms(2) by (simp_all add: ready_def cluster_leases_def)
  have "cl_hist ?s ! cl_cache ?s sh = stored ?s" using assms(2) by (simp add: ready_def last_conv_nth)
  then have "shard_round e sh s = cluster_put e (freed e (stored ?s)) ?s"
    using drain_acknowledged [OF assms(1), of ?s sh k] assms(2-4) by (simp add: shard_round_def ready_def)
  then show "\<exists>obj. cl_hist (shard_round e sh s) = cl_hist s @ [obj]" "ready e ns k (shard_round e sh s)"
    "resides e (desired_shard (ce_hash e) (cluster_leases e s) k) (shard_round e sh s)" "cl_leases (shard_round e sh s) = cl_leases s"
    using freed_written [OF assms(1) r(1)] assms(5) r(2) by simp_all
qed

lemma ready_hist: "cl_hist s' = cl_hist s \<Longrightarrow> ready e ns k s' \<longleftrightarrow> ready e ns k s" "cl_hist s' = cl_hist s \<Longrightarrow> resides e sh s' \<longleftrightarrow> resides e sh s"
  by (simp_all add: ready_def resides_def)

lemma shards_idle:
  assumes "ready e ns k s" and "resides e sh s"
  shows "cl_hist (fold (shard_round e) shs s) = cl_hist s \<and> cl_leases (fold (shard_round e) shs s) = cl_leases s"
  using assms
proof (induction shs arbitrary: s)
  case (Cons x shs)
  have "\<not> (assigned_to (ce_ring e) x (stored s) \<and> drained (ce_ring e) (stored s))" using Cons.prems(2) by (simp add: resides_def)
  note i = shard_round_idle [OF Cons.prems(1) this]
  have "ready e ns k (shard_round e x s)" "resides e sh (shard_round e x s)" using Cons.prems ready_hist [OF i(1)] by simp_all
  from Cons.IH [OF this] show ?case using i by simp
qed simp

lemma shards_acknowledge:
  assumes "responsive e ns" and "ready e ns k s" and "assigned_to (ce_ring e) old (stored s)" and "drained (ce_ring e) (stored s)"
    and "desired_shard (ce_hash e) (cluster_leases e s) k \<noteq> []" and "old \<in> set shs"
  shows "(\<exists>obj. cl_hist (fold (shard_round e) shs s) = cl_hist s @ [obj]) \<and> ready e ns k (fold (shard_round e) shs s) \<and>
    resides e (desired_shard (ce_hash e) (cluster_leases e s) k) (fold (shard_round e) shs s) \<and> cl_leases (fold (shard_round e) shs s) = cl_leases s"
  using assms(2-)
proof (induction shs arbitrary: s)
  case (Cons x shs)
  show ?case
  proof (cases "x = old")
    case True
    note a = shard_round_acknowledges [OF assms(1) Cons.prems(1), of x] Cons.prems(2-4) True
    from shards_idle [of e ns k "shard_round e x s" _ shs] a show ?thesis
      using ready_hist [of "fold (shard_round e) shs (shard_round e x s)" "shard_round e x s"] by auto
  next
    case False
    then have "\<not> (assigned_to (ce_ring e) x (stored s) \<and> drained (ce_ring e) (stored s))"
      using Cons.prems(2) by (auto simp: assigned_to_def)
    note i = shard_round_idle [OF Cons.prems(1) this]
    have "cluster_leases e (shard_round e x s) = cluster_leases e s" using i(2) by (simp add: cluster_leases_def)
    then show ?thesis
      using Cons.IH [of "shard_round e x s"] Cons.prems False i ready_hist(1) [OF i(1)] by simp
  qed
qed simp

text \<open>A round.\<close>

lemma membership_round_places:
  fixes now :: time
  assumes resp: "responsive e ns" and ready: "ready e ns k s" and at: "resides e old s" "old \<noteq> []"
    and names: "distinct_names (listed e ls)" and some: "filter held (listed e ls) \<noteq> []"
  defines "s' \<equiv> membership_round e now ls s" and "d \<equiv> desired_shard (ce_hash e) (listed e ls) k"
  shows "ready e ns k s' \<and> resides e d s' \<and> d \<noteq> [] \<and> cl_leases s' = ls \<and> length (cl_hist s') = length (cl_hist s) + round_cost e k old ls"
proof -
  let ?s = "new_leases ls s"
  have s: "cl_hist ?s = cl_hist s" "cl_leases ?s = ls" "cluster_leases e ?s = listed e ls" by (simp_all add: new_leases_def cluster_leases_def)
  have r: "ready e ns k ?s" "assigned_to (ce_ring e) old (stored ?s)" "resides e old ?s"
    using ready at(1) s(1) by (simp_all add: ready_def resides_def)
  have d: "d \<noteq> []" using some by (simp add: d_def desired_shard_empty_iff)
  from resp r(1,2) at(2) show ?thesis
  proof (rule resync_cases [where now = now])
    show "distinct_names (cluster_leases e ?s)" using names by (simp only: s(3))
    show "desired_shard (ce_hash e) (cluster_leases e ?s) k \<noteq> []" using d by (simp add: s(3) d_def)
  next
    assume h: "desired_shard (ce_hash e) (cluster_leases e ?s) k = old" "resync_object e now ?s = ?s"
    then have "s' = fold (shard_round e) (held_names (listed e ls)) ?s" "d = old" by (simp_all add: s'_def membership_round_def d_def s(3))
    then show ?thesis
      using shards_idle [OF r(1,3), of "held_names (listed e ls)"] ready_hist [of s' ?s] r d s by (simp add: round_cost_def d_def)
  next
    fix wi
    assume h: "desired_shard (ce_hash e) (cluster_leases e ?s) k \<noteq> old" "holds_lease (cluster_leases e ?s) old" "wi_drain wi"
      "resync_object e now ?s = cluster_put e (item_write e wi (stored ?s)) ?s"
    let ?t = "cluster_put e (item_write e wi (stored ?s)) ?s"
    note dr = drain_ready [OF r(1,2) at(2) h(3)]
    have "old \<in> set (held_names (listed e ls))" using h(2) by (auto simp: s(3) holds_lease_def held_names_def)
    then have "(\<exists>obj. cl_hist s' = cl_hist ?t @ [obj]) \<and> ready e ns k s' \<and> resides e d s' \<and> cl_leases s' = ls"
      using shards_acknowledge [OF resp dr(1-3)] d s by (simp add: s'_def membership_round_def h(4) d_def)
    moreover have "length (cl_hist ?t) = Suc (length (cl_hist s))" using dr(4) s(1) by (metis length_append_singleton)
    ultimately show ?thesis using d h(1,2) by (auto simp: round_cost_def d_def s(3))
  next
    assume h: "desired_shard (ce_hash e) (cluster_leases e ?s) k \<noteq> old" "\<not> holds_lease (cluster_leases e ?s) old"
      "resync_object e now ?s = cluster_put e (freed e (stored ?s)) ?s"
    let ?t = "cluster_put e (freed e (stored ?s)) ?s"
    have "desired_shard (ce_hash e) (cluster_leases e ?s) k \<noteq> []" using d by (simp add: d_def s(3))
    note f = freed_written [OF resp r(1) this]
    have "cl_hist s' = cl_hist ?t \<and> cl_leases s' = ls"
      using shards_idle [OF f(2,3), of "held_names (listed e ls)"] s by (simp add: s'_def membership_round_def h(3))
    then show ?thesis
      using f ready_hist [of s' ?t] d h(1,2) s by (auto simp: round_cost_def d_def)
  qed
qed

lemma rollout_places:
  assumes "responsive e ns" and "ready e ns k s" and "resides e old s" "old \<noteq> []"
    and "\<forall>ls \<in> set lss. distinct_names (listed e ls) \<and> filter held (listed e ls) \<noteq> []" and "lss \<noteq> []"
  shows "resides e (desired_shard (ce_hash e) (listed e (last lss)) k) (rollout e now lss s) \<and> ForObject (stored (rollout e now lss s)) = Inr k \<and>
    cl_leases (rollout e now lss s) = last lss \<and> length (cl_hist (rollout e now lss s)) = length (cl_hist s) + rollout_cost e k old lss"
  using assms(2-)
proof (induction lss arbitrary: s old)
  case (Cons ls lss)
  have r: "ready e ns k (membership_round e now ls s) \<and> resides e (desired_shard (ce_hash e) (listed e ls) k) (membership_round e now ls s) \<and>
      desired_shard (ce_hash e) (listed e ls) k \<noteq> [] \<and> cl_leases (membership_round e now ls s) = ls \<and>
      length (cl_hist (membership_round e now ls s)) = length (cl_hist s) + round_cost e k old ls"
    by (rule membership_round_places [OF assms(1) Cons.prems(1-3)]) (use Cons.prems(4) in simp_all)
  show ?case
  proof (cases "lss = []")
    case True
    then show ?thesis using r by (simp add: rollout_def ready_def)
  next
    case False
    then show ?thesis
      using Cons.IH [of "membership_round e now ls s" "desired_shard (ce_hash e) (listed e ls) k"] r Cons.prems(4) by (simp add: rollout_def)
  qed
qed simp

section \<open>Properties\<close>

text \<open>C6: A rolling update converges, with as few writes as possible: starting from any reachable state in which the object is placed, whatever
  memberships the ring goes through, one after the other, as long as each has an available shard, the object is after each of them
  assigned to the shard that the membership hashes it to and not drained, and it was written not at all for a membership that does not
  change its shard, once when its shard was gone, and twice when it had to be drained from an available shard. The object is
  in a namespace that the ring selects, the API server and the webhook answer, and the caches have caught up.\<close>

theorem rolling_update_converges:
  assumes "responsive e (om_Namespace (po_Meta obj))" and "(cluster_step False e)\<^sup>*\<^sup>* (cluster_init e obj) s"
    and "ForObject (stored s) = Inr k" and "assigned_to (ce_ring e) old (stored s)" and "\<not> drained (ce_ring e) (stored s)" and "old \<noteq> []"
    and "\<forall>ls \<in> set lss. distinct_names (listed e ls) \<and> filter held (listed e ls) \<noteq> []" and "lss \<noteq> []"
  shows "assigned_to (ce_ring e) (desired_shard (ce_hash e) (listed e (last lss)) k) (stored (rollout e now lss s)) \<and>
    \<not> drained (ce_ring e) (stored (rollout e now lss s)) \<and> ForObject (stored (rollout e now lss s)) = Inr k \<and>
    length (cl_hist (rollout e now lss s)) = length (cl_hist s) + rollout_cost e k old lss"
proof -
  have inv: "cluster_inv e s"
    using cluster.run [OF assms(2) cluster_inv_init [OF responsiveD(1) [OF assms(1)]]] by simp
  have "om_Namespace (po_Meta (stored s)) = om_Namespace (po_Meta obj)"
    using first_version [OF assms(2) responsiveD(1) [OF assms(1)]] stored_same [OF inv]
    by (simp add: same_object_def ObjectKeyFromObject_def versioned_def)
  then have "ready e (om_Namespace (po_Meta obj)) k s" using inv assms(3) by (simp add: ready_def cluster_inv_def last_conv_nth)
  moreover have "resides e old s" using assms(4,5) by (simp add: resides_def)
  ultimately show ?thesis
    using rollout_places [OF assms(1) _ _ assms(6,7,8), of k s now] by (simp add: resides_def)
qed

lemma rolling_update_converges_witness:
  "assigned_to ''ring'' ''b'' (stored (rollout sample_cluster_env 0 [map ring_lease_of [''a'', ''b''], map ring_lease_of [''b'']] working_cluster)) \<and>
   length (cl_hist (rollout sample_cluster_env 0 [map ring_lease_of [''a'', ''b''], map ring_lease_of [''b'']] working_cluster)) = 4"
proof -
  let ?k = "''/Secret/default/foo''" and ?lss = "[map ring_lease_of [''a'', ''b''], map ring_lease_of [''b'']]"
  have resp: "responsive sample_cluster_env (om_Namespace (po_Meta (placed_object ''b'')))"
    using sample_responsive by (simp add: placed_object_facts)
  have w: "stored working_cluster = versioned (FormatInt 0) (placed_object ''b'')" "length (cl_hist working_cluster) = 1"
    by (simp_all add: working_cluster_def sample_cluster_def cluster_init_def)
  have b: "desired_shard first_char_hash (map ring_lease_of [''b'']) ?k = ''b''"
    using desired_member [of first_char_hash "map ring_lease_of [''b'']" ?k] members_empty [of "map ring_lease_of [''b'']"]
    by (cases "desired_shard first_char_hash (map ring_lease_of [''b'']) ?k = []") (auto simp: desired_shard_empty_iff members_iff)
  have ls: "listed sample_cluster_env [ring_lease_of ''b''] = [ring_lease_of ''b'']"
    "listed sample_cluster_env [ring_lease_of ''a'', ring_lease_of ''b''] = [ring_lease_of ''a'', ring_lease_of ''b'']"
    using sample_listed [of "[''b'']"] sample_listed [of "[''a'', ''b'']"] by simp_all
  have "rollout_cost sample_cluster_env ?k ''b'' ?lss = 3"
    using sample_hash b by (simp add: round_cost_def ls holds_lease_def)
  then show ?thesis
    using rolling_update_converges [OF resp working_cluster_reachable, of ?k "''b''" ?lss 0] b w
    by (simp add: placed_object_facts placed_not_drained ls)
qed

end
