(* ===== verification/Failover.thy ===== *)
theory Failover
  imports Setup Shardlease Rollout
begin

text \<open>
  What happens when a shard crashes, across the components: the shardlease controller notices that the lease was not
  renewed and acquires it, the event of this update goes through the watches of the assembled sharder to the sharder
  controller, whose resync moves the object of the shard, and the webhook assigns it to another shard with the same write.
\<close>

section \<open>Lemmas\<close>

text \<open>A resync moves the object of a shard whose lease is not held, and the webhook assigns it to a shard that holds its lease.\<close>

lemma resync_replaces:
  assumes "responsive e ns" and "ready e ns k s" and "assigned_to (ce_ring e) (om_Name (l_Meta a)) (stored s)" and "om_Name (l_Meta a) \<noteq> []"
    and names: "distinct_names (cluster_leases e s)" and a: "a \<in> set (cluster_leases e s)" "\<not> held a" and some: "filter held (cluster_leases e s) \<noteq> []"
  obtains obj l2 where "cl_hist (resync_object e now s) = cl_hist s @ [obj]" "l2 \<in> set (cluster_leases e s)" "held l2"
    "assigned_to (ce_ring e) (om_Name (l_Meta l2)) obj" "\<not> drained (ce_ring e) obj"
proof -
  let ?d = "desired_shard (ce_hash e) (cluster_leases e s) k"
  have free: "\<not> holds_lease (cluster_leases e s) (om_Name (l_Meta a))"
    using a names by (auto simp: holds_lease_def distinct_map dest: inj_onD)
  have d: "?d \<noteq> []" using some by (simp add: desired_shard_empty_iff)
  obtain l2 where l2: "l2 \<in> set (cluster_leases e s)" "held l2" "om_Name (l_Meta l2) = ?d" using desired_shard_held [OF d] by blast
  from assms(1-4) names d show thesis
  proof (rule resync_cases [where now = now])
    assume "?d = om_Name (l_Meta a)"
    then show thesis using free l2 by (auto simp: holds_lease_def)
  next
    assume "resync_object e now s = cluster_put e (freed e (stored s)) s"
    with freed_written [OF assms(1,2) d] that [of _ l2] l2 show thesis by (auto simp: resides_def)
  qed (use free in simp)
qed

section \<open>Properties\<close>

text \<open>C39: A crashed shard is replaced: when its lease has not been renewed for a lease duration after it expired, the
  reconciliation of the lease updates it to one that nobody holds; this update gives the sharder
  controller of the running process a request for the ring; and with the new lease, as long as another shard is available, the resync
  for this request writes every main object of the crashed shard in a namespace that the ring selects exactly once, without
  waiting for an acknowledgement, and the webhook assigns it with this write to an available shard. For the last part the API server
  accepts writes to the current version, the webhook answers and the lease caches have caught up.\<close>

theorem crashed_shard_is_replaced:
  assumes started: "app_run env pl c0 config = Some (Inr mgr)" and pl: "predicates_doc pl"
    and lease: "ring_lease c w req l" "complete l" "sane_times l now" "held l" "expires_at l + lease_secs l * Second \<le> now"
    and label: "labelled lib c now l w = (Inr l', w')" "l_Spec l' = l_Spec l" "om_Name (l_Meta l') = om_Name (l_Meta l)" "ring_of_lease l' = ring_of_lease l"
    and name: "om_Name (l_Meta l) \<noteq> IdentityShardLeaseController"
  shows "\<exists>a cs. snd (shardlease_Reconcile lib c now req w) = snd (c_UpdateLease c w' a) \<and> \<not> held a \<and> l_Meta a = l_Meta l' \<and>
    controller_named ''sharder'' mgr = Some cs \<and> ([], ring_of_lease l) \<in> set (deliver wd t (UpdateEvent (OLease l') (OLease a)) cs) \<and>
    (\<forall>e ns k s. responsive e ns \<and> ready e ns k s \<and> assigned_to (ce_ring e) (om_Name (l_Meta l)) (stored s) \<and>
       a \<in> set (cluster_leases e s) \<and> distinct_names (cluster_leases e s) \<and> filter held (cluster_leases e s) \<noteq> [] \<longrightarrow>
       (\<exists>obj l2. cl_hist (resync_object e t s) = cl_hist s @ [obj] \<and> l2 \<in> set (cluster_leases e s) \<and> held l2 \<and>
          assigned_to (ce_ring e) (om_Name (l_Meta l2)) obj \<and> \<not> drained (ce_ring e) obj))"
proof -
  let ?a = "acquire l' (ToTimes l now) now"
  have "ToState l now = Uncertain" using lease(4,5) by (simp add: ToState_spec [OF lease(2,3)] spec_state_def)
  then have upd: "snd (shardlease_Reconcile lib c now req w) = snd (c_UpdateLease c w' ?a)"
    by (simp add: Reconcile_ring_lease [OF lease(1)] label(1) act_on_state_def split: prod.splits sum.splits)
  have a: "\<not> held ?a" "l_Meta ?a = l_Meta l'" using label(3) name by (simp_all add: acquire_not_held acquire_fields)
  have meta: "om_Name (l_Meta ?a) = om_Name (l_Meta l)" using a(2) label(3) by simp
  have ring: "ring_of_lease ?a = ring_of_lease l" "ring_of_lease l \<noteq> []"
    using label(4) a(2) lease(1) by (simp_all add: ring_of_lease_def ring_lease_def)
  obtain sharder where sh: "sharder_AddToManager pl config no_deps = Some sharder"
    "mg_Controllers mgr = [controllerring_AddToManager pl no_deps, sharder, shardlease_AddToManager pl c0 no_deps]"
    by (rule app_run_Inr [OF started])
  have named: "controller_named ''sharder'' mgr = Some sharder"
    by (simp add: controller_named_def sh(2) sharder_setup(1) [OF sh(1)] controllerring_AddToManager_def Let_def)
  have "held l'" using lease(4) label(2,3) by (simp add: held_def)
  then have "sharder_LeasePredicate pl t (UpdateEvent (OLease l') (OLease ?a))"
    using a(1) ring label(4) by (auto simp: pred_defs predicates_docD [OF pl])
  then have ev: "([], ring_of_lease l) \<in> set (deliver wd t (UpdateEvent (OLease l') (OLease ?a)) sharder)"
    using ring by (simp add: sharder_delivery [OF sh(1)] lease_requests)
  have ne: "om_Name (l_Meta ?a) \<noteq> []" using lease(4) meta by (auto simp: held_def)
  have moves: "\<exists>obj l2. cl_hist (resync_object e t s) = cl_hist s @ [obj] \<and> l2 \<in> set (cluster_leases e s) \<and> held l2 \<and>
      assigned_to (ce_ring e) (om_Name (l_Meta l2)) obj \<and> \<not> drained (ce_ring e) obj"
    if h: "responsive e ns" "ready e ns k s" "assigned_to (ce_ring e) (om_Name (l_Meta l)) (stored s)" "?a \<in> set (cluster_leases e s)"
      "distinct_names (cluster_leases e s)" "filter held (cluster_leases e s) \<noteq> []" for e ns k s
    using resync_replaces [OF h(1,2) _ ne h(5,4) a(1) h(6), of t] h(3) meta by metis
  show ?thesis
    by (rule exI [of _ ?a], rule exI [of _ sharder]) (use upd a named ev moves in blast)
qed

text \<open>The lease of a crashed shard that carries the label of the ring, beside the lease of shard \<open>b\<close>.\<close>

lemma crashed_shard_is_replaced_witness:
  "\<exists>a. snd (shardlease_Reconcile std_lib store_client (120 * Second) ([], ''s1'') (sample_lease_store (labelled_lease ''s1'' ''uncertain'')))
       = snd (c_UpdateLease store_client (sample_lease_store (labelled_lease ''s1'' ''uncertain'')) a) \<and> \<not> held a \<and>
     (\<exists>obj. cl_hist (resync_object sample_cluster_env 0 (new_leases [a, ring_lease_of ''b''] (cluster_init sample_cluster_env (placed_object ''s1'')))) =
        [versioned (FormatInt 0) (placed_object ''s1''), obj] \<and> assigned_to ''ring'' ''b'' obj)"
proof -
  let ?l = "labelled_lease ''s1'' ''uncertain''" and ?w = "sample_lease_store (labelled_lease ''s1'' ''uncertain'')"
  have l: "complete ?l" "sane_times ?l (120 * Second)" "held ?l" "expires_at ?l + lease_secs ?l * Second \<le> 120 * Second"
    "om_Name (l_Meta ?l) = ''s1''"
    by (simp_all add: labelled_lease_def sample_lease_simps)
  have "ToState ?l (120 * Second) = Uncertain"
    using l(3,4) by (simp add: ToState_spec [OF l(1,2)] spec_state_def)
  then have label: "labelled std_lib store_client (120 * Second) ?l ?w = (Inr ?l, ?w)"
    by (simp add: labelled_def labelled_lease_labels StateFromString_def)
  have name: "om_Name (l_Meta ?l) \<noteq> IdentityShardLeaseController" by (simp add: l(5) IdentityShardLeaseController_def)
  obtain mgr where mgr: "app_run sample_setup_env std_pred_lib store_client (SetObjectDefaults_SharderConfig std_config_lib zero_config) = Some (Inr mgr)"
    using defaulted_sharder_starts [of std_pred_lib store_client std_config_lib zero_config] by (elim exE)
  from crashed_shard_is_replaced [OF mgr std_pred_lib_doc sample_ring_lease l(1-4) label refl refl refl name, where t = 0 and wd = ?w]
  obtain a cs where a: "snd (shardlease_Reconcile std_lib store_client (120 * Second) ([], ''s1'') ?w) = snd (c_UpdateLease store_client ?w a)"
      "\<not> held a" "l_Meta a = l_Meta ?l"
    and moves: "\<And>e ns k s. responsive e ns \<Longrightarrow> ready e ns k s \<Longrightarrow> assigned_to (ce_ring e) ''s1'' (stored s) \<Longrightarrow> a \<in> set (cluster_leases e s) \<Longrightarrow>
      distinct_names (cluster_leases e s) \<Longrightarrow> filter held (cluster_leases e s) \<noteq> [] \<Longrightarrow>
      \<exists>obj l2. cl_hist (resync_object e 0 s) = cl_hist s @ [obj] \<and> l2 \<in> set (cluster_leases e s) \<and> held l2 \<and>
        assigned_to (ce_ring e) (om_Name (l_Meta l2)) obj \<and> \<not> drained (ce_ring e) obj"
    unfolding l(5) by (elim exE conjE) (rule that, assumption+, meson)
  let ?s = "new_leases [a, ring_lease_of ''b''] (cluster_init sample_cluster_env (placed_object ''s1''))"
  have "selects (LeaseSelector (named_ring ''ring'')) (om_Labels (l_Meta ?l))"
    by (simp add: labelled_lease_def LeaseSelector_def named_ring_def LabelControllerRing_def LabelState_def)
  then have ls: "cluster_leases sample_cluster_env ?s = [a, ring_lease_of ''b'']" using a(3) by (simp add: new_leases_def cluster_leases_def listed_def)
  have st: "ready sample_cluster_env ''default'' ''/Secret/default/foo'' ?s" "assigned_to ''ring'' ''s1'' (stored ?s)"
    "cl_hist ?s = [versioned (FormatInt 0) (placed_object ''s1'')]"
    by (simp_all add: ready_def new_leases_def cluster_init_def placed_object_facts)
  have "\<exists>obj l2. cl_hist (resync_object sample_cluster_env 0 ?s) = cl_hist ?s @ [obj] \<and> l2 \<in> set (cluster_leases sample_cluster_env ?s) \<and> held l2 \<and>
      assigned_to (ce_ring sample_cluster_env) (om_Name (l_Meta l2)) obj \<and> \<not> drained (ce_ring sample_cluster_env) obj"
    by (rule moves [OF sample_responsive st(1)]) (use st(2) a(2,3) l(5) in \<open>simp_all add: ls\<close>)
  then show ?thesis using a(1,2) ls st(3) by auto
qed

end
