(* ===== verification/Templates.thy ===== *)
theory Templates
  imports Website
begin

text \<open>
  The templates of the webhosting operator, \<^verbatim>\<open>webhosting-operator/pkg/controllers/webhosting/templates\<close>: the two template
  files, their parsing when the package is initialised, their execution, the examples and the test server. Of Go's template
  language this is what the files use, text and fields \<^verbatim>\<open>{{ .A.B }}\<close>; of \<^verbatim>\<open>html/template\<close> it is the escaping
  of fields in HTML text. The filter for fields in style sheets is a parameter.
\<close>

section \<open>Template files\<close>

definition nginx_conf_tmpl :: string where
  "nginx_conf_tmpl = join_with newline
     [''server {'',
      ''    listen       80;'',
      ''    listen  [::]:80;'',
      ''    server_name  localhost;'',
      [],
      ''    # rewrite /namespace/name to / for requests proxied from Ingress controller'',
      ''    # this way, we don't need any Ingress controller specific configuration or objects'',
      ''    rewrite ^/{{ .Website.ObjectMeta.Namespace }}/{{ .Website.ObjectMeta.Name }}(.*)$ /$1 last;'',
      ''    location / {'',
      ''        root   /usr/share/nginx/html;'',
      ''        index  index.html;'',
      ''    }'',
      ''}'',
      []]"

definition index_tmpl :: string where
  "index_tmpl = join_with newline
     [''<html lang='' @ quote ''en-US'' @ ''>'',
      ''<head>'',
      ''  <title>{{ .Website.Name }}</title>'',
      ''  <style>'',
      ''      body {'',
      ''          background-color: {{ .Theme.Spec.Color }};'',
      ''          font-family: {{ .Theme.Spec.FontFamily }}, Arial, sans-serif;'',
      ''      }'',
      [],
      ''      .box {'',
      ''          background-color: #2D2D2D;'',
      ''          margin: 30px auto auto;'',
      ''          width: 50%;'',
      ''          border: 10px solid cornflowerblue;'',
      ''          padding: 20px;'',
      ''      }'',
      [],
      ''      h1 {'',
      ''          text-align: center;'',
      ''          color: coral;'',
      ''          font-size: 50px;'',
      ''      }'',
      [],
      ''      p {'',
      ''          color: white;'',
      ''          font-size: 20px;'',
      ''          font-family: '' @ quote ''Source Code Pro'' @ '', Menlo, Monaco, fixed-width, monospace;'',
      ''      }'',
      [],
      ''      a {'',
      ''          color: cornflowerblue;'',
      ''      }'',
      ''  </style>'',
      ''</head>'',
      ''<body>'',
      ''<div class='' @ quote ''box'' @ ''>'',
      ''  <h1>Welcome to {{ .Website.Name }}</h1>'',
      ''  <p>Server name: {{ .ServerName }}</p>'',
      ''  <p>This page is hosted on Kubernetes using'',
      ''    <a target='' @ quote ''_blank'',
      ''       href='' @ quote ''https://github.com/timebertt/kubernetes-controller-sharding/tree/main/webhosting-operator'' @ ''>'',
      ''      webhosting-operator</a>.'',
      ''  </p>'',
      ''</div>'',
      ''</body>'',
      ''</html>'',
      []]"

section \<open>Parsing\<close>

datatype tpl_node = TextNode string | FieldNode "string list"

text \<open>The text before and after the first two consecutive delimiters.\<close>

fun split_delim :: "char \<Rightarrow> string \<Rightarrow> (string \<times> string) option" where
  "split_delim d (a # b # cs) =
     (if a = d \<and> b = d then Some ([], cs) else map_option (\<lambda>(x, y). (a # x, y)) (split_delim d (b # cs)))"
| "split_delim d _ = None"

definition trim_spaces :: "string \<Rightarrow> string" where
  "trim_spaces s = rev (dropWhile (\<lambda>c. c = CHR '' '') (rev (dropWhile (\<lambda>c. c = CHR '' '') s)))"

definition ident_char :: "char \<Rightarrow> bool" where
  "ident_char c \<longleftrightarrow> (let n = (of_char c :: nat) in 65 \<le> n \<and> n \<le> 90 \<or> 97 \<le> n \<and> n \<le> 122)"

definition parse_field :: "string \<Rightarrow> go_error + string list" where
  "parse_field a =
     (case trim_spaces a of
        [] \<Rightarrow> Inl (errorf ''missing value for command'')
      | c # cs \<Rightarrow>
          if c = CHR ''.'' \<and> (\<forall>f \<in> set (split_char (CHR ''.'') cs). f \<noteq> [] \<and> list_all ident_char f)
          then Inr (split_char (CHR ''.'') cs) else Inl (errorf ''unexpected action''))"

lemma split_delim_length: "split_delim d s = Some (x, y) \<Longrightarrow> length y < length s"
  by (induction d s arbitrary: x y rule: split_delim.induct) (fastforce split: if_splits)+

function parse_template :: "string \<Rightarrow> go_error + tpl_node list" where
  "parse_template s =
     (case split_delim (CHR ''{'') s of
        None \<Rightarrow> Inr [TextNode s]
      | Some (t, r) \<Rightarrow>
          (case split_delim (CHR ''}'') r of
             None \<Rightarrow> Inl (errorf ''unclosed action'')
           | Some (a, r') \<Rightarrow>
               (case parse_field a of
                  Inl err \<Rightarrow> Inl err
                | Inr f \<Rightarrow>
                    (case parse_template r' of Inl err \<Rightarrow> Inl err | Inr ns \<Rightarrow> Inr (TextNode t # FieldNode f # ns)))))"
  by pat_completeness auto

termination by (relation "measure length") (auto dest!: split_delim_length)

declare parse_template.simps [simp del]

text \<open>The \<^verbatim>\<open>init\<close> functions: \<open>None\<close> is the panic on a template that cannot be parsed.\<close>

definition template_init :: "string \<Rightarrow> tpl_node list option" where
  "template_init text = (case parse_template text of Inl err \<Rightarrow> None | Inr tpl \<Rightarrow> Some tpl)"

definition nginxTpl :: "tpl_node list option" where "nginxTpl = template_init nginx_conf_tmpl"
definition indexTpl :: "tpl_node list option" where "indexTpl = template_init index_tmpl"

section \<open>Execution\<close>

text \<open>The fields of the data: the anonymous structs of the two render functions with the promoted fields of the metadata.\<close>

definition field_value :: "string \<Rightarrow> website \<Rightarrow> theme option \<Rightarrow> string list \<Rightarrow> string option" where
  "field_value serverName website theme path =
     (if path = [''ServerName''] then Some serverName
      else if path \<in> {[''Website'', ''Name''], [''Website'', ''ObjectMeta'', ''Name'']} then Some (om_Name (web_Meta website))
      else if path \<in> {[''Website'', ''Namespace''], [''Website'', ''ObjectMeta'', ''Namespace'']} then Some (om_Namespace (web_Meta website))
      else case theme of
        None \<Rightarrow> None
      | Some th \<Rightarrow>
          if path = [''Theme'', ''Spec'', ''Color''] then Some (ts_Color (th_Spec th))
          else if path = [''Theme'', ''Spec'', ''FontFamily''] then Some (ts_FontFamily (th_Spec th)) else None)"

text \<open>Execution writes as it goes: on an error the output so far has been written.\<close>

fun execute :: "(string list \<Rightarrow> string option) \<Rightarrow> tpl_node list \<Rightarrow> string \<times> go_error option" where
  "execute val [] = ([], None)"
| "execute val (TextNode t # ns) = (let (out, err) = execute val ns in (t @ out, err))"
| "execute val (FieldNode f # ns) =
     (case val f of
        None \<Rightarrow> ([], Some (errorf (''can't evaluate field '' @ join_with ''.'' f)))
      | Some v \<Rightarrow> (let (out, err) = execute val ns in (v @ out, err)))"

text \<open>\<^verbatim>\<open>html/template\<close>: a field in a style element goes through the style sheet filter, any other field is escaped.\<close>

definition html_escape_char :: "char \<Rightarrow> string" where
  "html_escape_char c =
     (if c = CHR 0x00 then [CHR 0xEF, CHR 0xBF, CHR 0xBD]
      else if c = CHR 0x22 then ''&#34;'' else if c = CHR ''&'' then ''&amp;'' else if c = CHR 0x27 then ''&#39;''
      else if c = CHR ''+'' then ''&#43;'' else if c = CHR ''<'' then ''&lt;'' else if c = CHR ''>'' then ''&gt;'' else [c])"

definition htmlEscaper :: "string \<Rightarrow> string" where
  "htmlEscaper s = concat (map html_escape_char s)"

fun contains :: "string \<Rightarrow> string \<Rightarrow> bool" where
  "contains [] p \<longleftrightarrow> p = []"
| "contains (c # cs) p \<longleftrightarrow> HasPrefix (c # cs) p \<or> contains cs p"

definition in_style :: "string \<Rightarrow> bool" where
  "in_style text \<longleftrightarrow> contains text ''<style>'' \<and> \<not> contains text ''</style>''"

fun html_execute :: "(string \<Rightarrow> string) \<Rightarrow> (string list \<Rightarrow> string option) \<Rightarrow> string \<Rightarrow> tpl_node list \<Rightarrow> string \<times> go_error option" where
  "html_execute css val text [] = ([], None)"
| "html_execute css val text (TextNode t # ns) = (let (out, err) = html_execute css val (text @ t) ns in (t @ out, err))"
| "html_execute css val text (FieldNode f # ns) =
     (case val f of
        None \<Rightarrow> ([], Some (errorf (''can't evaluate field '' @ join_with ''.'' f)))
      | Some v \<Rightarrow> (let (out, err) = html_execute css val text ns in ((if in_style text then css v else htmlEscaper v) @ out, err)))"

text \<open>The engine behind \<open>ExecuteIndexHTMLTemplate\<close>; \<open>None\<close> is a package that panicked when it was initialised.\<close>

definition executeIndex :: "(string \<Rightarrow> string) \<Rightarrow> string \<Rightarrow> website \<Rightarrow> theme \<Rightarrow> (string \<times> go_error option) option" where
  "executeIndex css serverName website theme =
     map_option (html_execute css (field_value serverName website (Some theme)) []) indexTpl"

definition executeNginx :: "string \<Rightarrow> website \<Rightarrow> (string \<times> go_error option) option" where
  "executeNginx serverName website = map_option (execute (field_value serverName website None)) nginxTpl"

section \<open>Examples and test server\<close>

definition CreateExamples :: "string \<times> website \<times> theme" where
  "CreateExamples =
     (''homepage-381fa2'',
      \<lparr>web_Meta = empty_meta\<lparr>om_Name := ''homepage'', om_Namespace := ''project-foo''\<rparr>, web_Spec = \<lparr>wsp_Theme = ''fancy''\<rparr>,
       web_Status = \<lparr>wst_ObservedGeneration = 0, wst_Phase = [], wst_LastTransitionTime = None\<rparr>\<rparr>,
      \<lparr>th_Meta = empty_meta\<lparr>om_Name := ''fancy''\<rparr>, th_Spec = \<lparr>ts_Color = ''darkcyan'', ts_FontFamily = ''Menlo''\<rparr>\<rparr>)"

text \<open>
  The response of the test server to any request: its status and body. A status is sent with the first byte of the body, so an
  error after some output only appends its text.
\<close>

definition testserver_handler :: "site_lib \<Rightarrow> nat \<times> string" where
  "testserver_handler sl =
     (let (serverName, website, theme) = CreateExamples in
      case ExecuteIndexHTMLTemplate sl serverName website theme of
        (out, None) \<Rightarrow> (200, out)
      | (out, Some err) \<Rightarrow> (if out = [] then 500 else 200, out @ ''internal server error: '' @ err_msg err @ newline))"

text \<open>\<^verbatim>\<open>main\<close> of the test server panics when the server ends with an error, and it never ends without.\<close>

definition testserver_main :: "go_error option \<Rightarrow> unit option" where
  "testserver_main listen_err = (case listen_err of Some err \<Rightarrow> None | None \<Rightarrow> Some ())"

section \<open>Lemmas\<close>

text \<open>Text without two consecutive delimiters that does not end with one.\<close>

fun clean :: "char \<Rightarrow> string \<Rightarrow> bool" where
  "clean d (a # b # cs) \<longleftrightarrow> \<not> (a = d \<and> b = d) \<and> clean d (b # cs)"
| "clean d [a] \<longleftrightarrow> a \<noteq> d"
| "clean d [] \<longleftrightarrow> True"

lemma split_delim_clean: "clean d t \<Longrightarrow> split_delim d (t @ d # d # r) = Some (t, r)"
  by (induction d t rule: clean.induct) auto

lemma split_delim_None: "clean d t \<Longrightarrow> split_delim d t = None"
  by (induction d t rule: clean.induct) auto

lemma parse_template_text: "clean (CHR ''{'') t \<Longrightarrow> parse_template t = Inr [TextNode t]"
  by (simp add: parse_template.simps [of t] split_delim_None)

lemma parse_template_field:
  assumes "clean (CHR ''{'') t" and "clean (CHR ''}'') a" and "parse_field a = Inr f" and "parse_template r = Inr ns"
  shows "parse_template (t @ ''{{'' @ a @ ''}}'' @ r) = Inr (TextNode t # FieldNode f # ns)"
  using assms split_delim_clean [of "CHR ''{''" t "a @ ''}}'' @ r"] split_delim_clean [of "CHR ''}''" a r]
  by (subst parse_template.simps) simp

text \<open>The pieces of the nginx configuration.\<close>

definition nginx_prefix :: string where
  "nginx_prefix = ''server {'' @ newline @ ''    listen       80;'' @ newline @ ''    listen  [::]:80;'' @ newline @ ''    server_name  localhost;'' @ newline @ newline @ ''    # rewrite /namespace/name to / for requests proxied from Ingress controller'' @ newline @ ''    # this way, we don't need any Ingress controller specific configuration or objects'' @ newline @ ''    rewrite ^/''"

definition nginx_suffix :: string where
  "nginx_suffix = ''(.*)$ /$1 last;'' @ newline @ ''    location / {'' @ newline @ ''        root   /usr/share/nginx/html;'' @ newline @ ''        index  index.html;'' @ newline @ ''    }'' @ newline @ ''}'' @ newline"

lemma nginx_pieces:
  "nginx_conf_tmpl = nginx_prefix @ ''{{'' @ '' .Website.ObjectMeta.Namespace '' @ ''}}'' @ ''/'' @ ''{{'' @ '' .Website.ObjectMeta.Name '' @ ''}}'' @ nginx_suffix"
  "join_with newline (nginx_lines ns n) = nginx_prefix @ ns @ ''/'' @ n @ nginx_suffix"
  by (simp_all add: nginx_conf_tmpl_def nginx_prefix_def nginx_suffix_def nginx_lines_def)

lemma nginx_clean: "clean (CHR ''{'') nginx_prefix" "clean (CHR ''{'') nginx_suffix"
  by (simp_all add: nginx_prefix_def nginx_suffix_def newline_def)

lemma nginxTpl_parsed: "nginxTpl = Some [TextNode nginx_prefix, FieldNode [''Website'', ''ObjectMeta'', ''Namespace''], TextNode ''/'',
     FieldNode [''Website'', ''ObjectMeta'', ''Name''], TextNode nginx_suffix]"
proof -
  have f: "parse_field '' .Website.ObjectMeta.Namespace '' = Inr [''Website'', ''ObjectMeta'', ''Namespace'']" "parse_field '' .Website.ObjectMeta.Name '' = Inr [''Website'', ''ObjectMeta'', ''Name'']"
    by code_simp+
  have "parse_template (''/'' @ ''{{'' @ '' .Website.ObjectMeta.Name '' @ ''}}'' @ nginx_suffix) =
      Inr [TextNode ''/'', FieldNode [''Website'', ''ObjectMeta'', ''Name''], TextNode nginx_suffix]"
    by (rule parse_template_field) (simp_all add: f parse_template_text nginx_clean)
  then show ?thesis
    unfolding nginxTpl_def template_init_def nginx_pieces(1)
    by (subst parse_template_field [OF nginx_clean(1) _ f(1)]) simp_all
qed

text \<open>The pieces of the page between its fields.\<close>

definition index_1 :: string where
  "index_1 = ''<html lang='' @ quote ''en-US'' @ ''>'' @ newline @ ''<head>'' @ newline @ ''  <title>''"

definition index_2 :: string where
  "index_2 = ''</title>'' @ newline @ ''  <style>'' @ newline @ ''      body {'' @ newline @ ''          background-color: ''"

definition index_3 :: string where
  "index_3 = '';'' @ newline @ ''          font-family: ''"

definition index_4 :: string where
  "index_4 = '', Arial, sans-serif;'' @ newline @ ''      }'' @ newline @ newline @ ''      .box {'' @ newline @
    ''          background-color: #2D2D2D;'' @ newline @ ''          margin: 30px auto auto;'' @ newline @
    ''          width: 50%;'' @ newline @ ''          border: 10px solid cornflowerblue;'' @ newline @
    ''          padding: 20px;'' @ newline @ ''      }'' @ newline @ newline @ ''      h1 {'' @ newline @
    ''          text-align: center;'' @ newline @ ''          color: coral;'' @ newline @ ''          font-size: 50px;'' @ newline @
    ''      }'' @ newline @ newline @ ''      p {'' @ newline @ ''          color: white;'' @ newline @
    ''          font-size: 20px;'' @ newline @
    ''          font-family: '' @ quote ''Source Code Pro'' @ '', Menlo, Monaco, fixed-width, monospace;'' @ newline @ ''      }'' @
    newline @ newline @ ''      a {'' @ newline @ ''          color: cornflowerblue;'' @ newline @ ''      }'' @ newline @
    ''  </style>'' @ newline @ ''</head>'' @ newline @ ''<body>'' @ newline @ ''<div class='' @ quote ''box'' @ ''>'' @ newline @
    ''  <h1>Welcome to ''"

definition index_5 :: string where
  "index_5 = ''</h1>'' @ newline @ ''  <p>Server name: ''"

definition index_6 :: string where
  "index_6 = ''</p>'' @ newline @ ''  <p>This page is hosted on Kubernetes using'' @ newline @ ''    <a target='' @ quote ''_blank'' @
    newline @
    ''       href='' @ quote ''https://github.com/timebertt/kubernetes-controller-sharding/tree/main/webhosting-operator'' @ ''>'' @
    newline @ ''      webhosting-operator</a>.'' @ newline @ ''  </p>'' @ newline @ ''</div>'' @ newline @ ''</body>'' @ newline @
    ''</html>'' @ newline"

lemmas index_defs = index_1_def index_2_def index_3_def index_4_def index_5_def index_6_def

lemma index_pieces: "index_tmpl = index_1 @ ''{{'' @ '' .Website.Name '' @ ''}}'' @ index_2 @ ''{{'' @ '' .Theme.Spec.Color '' @ ''}}'' @ index_3 @ ''{{'' @ '' .Theme.Spec.FontFamily '' @ ''}}'' @ index_4 @ ''{{'' @ '' .Website.Name '' @ ''}}'' @ index_5 @ ''{{'' @ '' .ServerName '' @ ''}}'' @ index_6"
  by (simp add: index_tmpl_def index_defs quote_def)

lemma index_clean: "clean (CHR ''{'') index_1" "clean (CHR ''{'') index_2" "clean (CHR ''{'') index_3" "clean (CHR ''{'') index_4" "clean (CHR ''{'') index_5" "clean (CHR ''{'') index_6"
  by (simp_all add: index_defs newline_def quote_def)

lemma index_fields: "parse_field '' .Website.Name '' = Inr [''Website'', ''Name'']" "parse_field '' .Theme.Spec.Color '' = Inr [''Theme'', ''Spec'', ''Color'']" "parse_field '' .Theme.Spec.FontFamily '' = Inr [''Theme'', ''Spec'', ''FontFamily'']" "parse_field '' .ServerName '' = Inr [''ServerName'']"
  by code_simp+

lemma indexTpl_parsed: "indexTpl = Some [TextNode index_1, FieldNode [''Website'', ''Name''], TextNode index_2, FieldNode [''Theme'', ''Spec'', ''Color''], TextNode index_3, FieldNode [''Theme'', ''Spec'', ''FontFamily''], TextNode index_4, FieldNode [''Website'', ''Name''], TextNode index_5, FieldNode [''ServerName''], TextNode index_6]"
proof -
  have "parse_template index_tmpl = Inr [TextNode index_1, FieldNode [''Website'', ''Name''], TextNode index_2, FieldNode [''Theme'', ''Spec'', ''Color''], TextNode index_3, FieldNode [''Theme'', ''Spec'', ''FontFamily''], TextNode index_4, FieldNode [''Website'', ''Name''], TextNode index_5, FieldNode [''ServerName''], TextNode index_6]"
    unfolding index_pieces by (intro parse_template_field parse_template_text index_clean index_fields) simp_all
  then show ?thesis by (simp add: indexTpl_def template_init_def)
qed

lemma HasPrefix_more: "HasPrefix t p \<Longrightarrow> HasPrefix (t @ s) p"
  by (metis HasPrefix_append HasPrefix_def append_assoc append_take_drop_id)

lemma contains_append: "contains t p \<Longrightarrow> contains (t @ s) p" "contains s p \<Longrightarrow> contains (t @ s) p"
proof -
  have "contains s []" by (cases s) (simp_all add: HasPrefix_def)
  then show "contains t p \<Longrightarrow> contains (t @ s) p"
    by (induction t) (auto dest: HasPrefix_more [where s = s])
  show "contains s p \<Longrightarrow> contains (t @ s) p" by (induction t) simp_all
qed

lemma index_styles: "\<not> in_style index_1" "in_style (index_1 @ index_2)" "in_style (index_1 @ index_2 @ index_3)"
  "contains index_4 ''</style>''"
  by (simp_all add: in_style_def index_1_def index_2_def index_3_def index_4_def newline_def quote_def HasPrefix_def)

lemma index_executed:
  "executeIndex css serverName website theme = Some (index_1 @ htmlEscaper (om_Name (web_Meta website)) @ index_2 @ css (ts_Color (th_Spec theme)) @
     index_3 @ css (ts_FontFamily (th_Spec theme)) @ index_4 @ htmlEscaper (om_Name (web_Meta website)) @ index_5 @ htmlEscaper serverName @ index_6, None)"
proof -
  have "\<not> in_style (index_1 @ index_2 @ index_3 @ index_4 @ rest)" for rest
    using index_styles(4) by (simp add: in_style_def contains_append)
  from this [of "[]"] this [of index_5] show ?thesis
    by (simp add: executeIndex_def indexTpl_parsed field_value_def index_styles)
qed

section \<open>Properties\<close>

text \<open>The templates always render: the package initialises without a panic and, for every website and theme, executing the parsed files
  succeeds. The configuration is the text that \<open>RenderNginxConf\<close> returns; in the page the names of the
  website and of the server are escaped as HTML text, colour and font go through the style sheet filter, and all the rest is the file.\<close>

theorem templates_render:
  "executeNginx serverName website = Some (case RenderNginxConf serverName website of Inr out \<Rightarrow> (out, None) | Inl err \<Rightarrow> ([], Some err)) \<and>
   executeIndex css serverName website theme = Some (index_1 @ htmlEscaper (om_Name (web_Meta website)) @ index_2 @ css (ts_Color (th_Spec theme)) @
     index_3 @ css (ts_FontFamily (th_Spec theme)) @ index_4 @ htmlEscaper (om_Name (web_Meta website)) @ index_5 @ htmlEscaper serverName @ index_6, None)"
  by (simp add: index_executed) (simp add: executeNginx_def nginxTpl_parsed field_value_def RenderNginxConf_def nginx_pieces(2))

text \<open>What is escaped cannot open or close a tag or an attribute.\<close>

lemma htmlEscaper_inert: "set (htmlEscaper s) \<inter> {CHR ''<'', CHR ''>'', CHR 0x22, CHR 0x27} = {}"
proof -
  have "set (html_escape_char c) \<inter> {CHR ''<'', CHR ''>'', CHR 0x22, CHR 0x27} = {}" for c by (auto simp: html_escape_char_def)
  then show ?thesis by (induction s) (auto simp: htmlEscaper_def)
qed

text \<open>The test server answers every request with the example page.\<close>

theorem testserver_serves_example:
  "testserver_handler (sl\<lparr>sl_ExecuteIndex := \<lambda>n website theme. the (executeIndex css n website theme)\<rparr>) =
     (200, index_1 @ ''homepage'' @ index_2 @ css ''darkcyan'' @ index_3 @ css ''Menlo'' @ index_4 @ ''homepage'' @ index_5 @ ''homepage-381fa2'' @ index_6)"
proof -
  have "htmlEscaper ''homepage'' = ''homepage''" "htmlEscaper ''homepage-381fa2'' = ''homepage-381fa2''"
    by (simp_all add: htmlEscaper_def html_escape_char_def)
  then show ?thesis
    by (simp add: testserver_handler_def CreateExamples_def ExecuteIndexHTMLTemplate_def index_executed)
qed

end
