(* ===== verification/Spec2Isabelle.thy ===== *)
theory Spec2Isabelle
  imports System Resync Webhook Predicates Shardlease Controllerring Shard_Controller Shard_Lease Options Exporter Checksum
    Website Webhosting_Options Webhosting_Metrics Tracker Measure Generator Scenario Setup Deepcopy Commands Failover
    Rebalance Recovery Rollout Templates
begin

text \<open>
  \<^bold>\<open>Verification of kubernetes-controller-sharding.\<close>

  The program makes Kubernetes controllers horizontally scalable. A \<^verbatim>\<open>ControllerRing\<close> declares which resources
  are distributed over the instances (shards) of a controller; every shard holds a \<^verbatim>\<open>Lease\<close>. The sharder
  watches both: it judges shards by their leases, builds a consistent hash ring of the available ones, assigns new
  objects by a mutating webhook and, when the membership changes, drains and moves objects. A shard only works on
  objects that are labelled with its name, and acknowledges a drain by removing the label. This root theory only
  collects the development; every component is a theory of its own.

  \<^bold>\<open>Foundations.\<close>
  \<^item> \<open>Prelude\<close>, \<open>Go_Strings\<close>, \<open>Rfc3339\<close>: Go's maps with nil, errors as values with a reason, 64-bit durations that wrap or
    saturate, strings and their library functions, timestamps as text.
  \<^item> \<open>Progress\<close>: the contract of a concurrent routine that comes to an end (locale \<open>progressing\<close>); instances are
    \<^verbatim>\<open>NTimesConcurrently\<close>, the tracker's map, and the two shutdown protocols.
  \<^item> \<open>K8s_Lib\<close>: the client of the API server as a record of functions over an abstract world, with what its
    documentation promises, and an executable store that satisfies it.
  \<^item> \<open>Go_Heap\<close>: cells, pointers, slices and maps; the contract \<open>copier\<close> of a deep copy and its closure
    under pointers, slices, maps and structs.

  \<^bold>\<open>The sharding core\<close> (\<^verbatim>\<open>pkg/\<close>).
  \<^item> \<open>Api_Types\<close> (\<^verbatim>\<open>pkg/apis/sharding/v1alpha1\<close>), \<open>Leases\<close> (\<^verbatim>\<open>pkg/sharding/leases\<close>), \<open>Consistent_Hash\<close>
    (\<^verbatim>\<open>pkg/sharding/consistenthash\<close>), \<open>Sharding_Key\<close> (\<^verbatim>\<open>pkg/sharding/key\<close>), \<open>Ring\<close> (\<^verbatim>\<open>pkg/sharding/ring\<close>),
    \<open>Predicates\<close> (\<^verbatim>\<open>pkg/sharding/predicate\<close>, \<^verbatim>\<open>pkg/sharding/handler\<close>, \<^verbatim>\<open>pkg/shard/controller/predicate.go\<close>).
    The state of a lease refines its specification on unbounded time; the binary search over sorted tokens returns the owner
    of the next token; joining and leaving nodes only move the keys they must; keys identify objects and agree between
    an owner and what it owns.
  \<^item> \<open>Webhook\<close> (\<^verbatim>\<open>pkg/webhook/sharder\<close>), \<open>Pager\<close> (\<^verbatim>\<open>pkg/utils/pager\<close>), \<open>Sharder\<close> and \<open>Resync\<close>
    (\<^verbatim>\<open>pkg/controller/sharder\<close>), \<open>Shardlease\<close>, \<open>Controllerring\<close> (\<^verbatim>\<open>pkg/controller\<close>). Each reconciliation is
    one function over the world with every error path; the buffered pager and the parallel resync are step relations over
    their goroutines and channels, shown to behave like the sequential code in every interleaving.
  \<^item> \<open>Shard_Controller\<close> and \<open>Shard_Lease\<close> (\<^verbatim>\<open>pkg/shard\<close>): the library that sharded controllers use.
  \<^item> \<open>System\<close>: the sharder, the webhook and any number of shards together, as a step relation on the labels of an
    object and the leases. The sharder and the webhook decide on lists of leases that may be out of date. No two shards work on an
    object, as long as no object is moved away from a shard that has regained its lease since the list was made.
    A request that the webhook cannot answer is denied.
  \<^item> \<open>Json\<close>, \<open>Cluster\<close>: the same system at the level of the code. The steps call \<open>NewOperation\<close>, \<open>workItemForObject\<close>,
    \<open>process_item\<close>, \<open>shard_Reconcile\<close> and \<open>Handle\<close>, with the namespace guard of the resync and leases from any earlier
    time; the API server applies the text of their patches, parsed as JSON and merged as
    RFC 7386 says, to the version they name, calls of the webhook may be lost and writes may be denied.
  \<^item> \<open>Cluster_Refinement\<close>, \<open>Exclusion\<close>, \<open>Recovery\<close>: every run of the code-level system is a run of \<open>System\<close> (locale \<open>refinement\<close>), so no
    two shards work on an object at a time, provided that no item is processed for an object whose shard has regained its lease since the
    leases were listed; the code does not check this, and without the
    proviso there is a run in which two shards do. From every reachable state with an available shard an object in a selected namespace can be
    placed, if the API server accepts writes and the caches have caught up.
  \<^item> \<open>Rebalance\<close>: all objects of a ring. A change of the membership compiles work for exactly the objects that the lost and the joined
    shards concern.
  \<^item> \<open>Rollout\<close>: a rolling update as a sequence of memberships. After each of them, the resync of the sharder, the shard's
    acknowledgement and the webhook, all through the code-level steps, leave the object where it belongs, with a known number of writes.
  \<^item> \<open>Failover\<close>: the way from a shard that stops renewing its lease to its objects being assigned to an available shard,
    through the shardlease controller, the watches of the assembled process (\<open>Setup\<close>), the sharder and the webhook.
  \<^item> \<open>Config\<close>, \<open>Options\<close>, \<open>Exporter\<close>, \<open>Setup\<close> (\<^verbatim>\<open>pkg/apis/config\<close>, \<^verbatim>\<open>cmd/sharder/app\<close>, \<^verbatim>\<open>pkg/metrics\<close>): defaults,
    manager options, metrics, and what the process registers with its manager; events are delivered through the
    registered watches, so that a change of membership is shown to reach the sharder's queue.
  \<^item> \<open>Deepcopy_Types\<close>, \<open>Deepcopy\<close> (all \<^verbatim>\<open>zz_generated.deepcopy.go\<close>): the structs as they are in memory and the generated
    copies. A copy denotes the value that the other theories use, shares no cell with the original and is not
    affected by later writes to it: this is what allows the other theories to treat objects as values.

  \<^bold>\<open>The example controllers and the experiments\<close> (\<^verbatim>\<open>cmd/checksum-controller\<close>, \<^verbatim>\<open>webhosting-operator\<close>).
  \<^item> \<open>Checksum\<close>; \<open>Webhosting_Types\<close>, \<open>Website\<close>, \<open>Webhosting_Options\<close>, \<open>Webhosting_Metrics\<close>: the controllers with
    the objects they create. Of an object that is sent, the API server keeps what the client set and populates the rest; reads are
    from a cache, and where a property needs it to be up to date this is a hypothesis (\<open>up_to_date\<close>). \<open>Templates\<close>: the files of the page and of the server configuration, their parsing and execution,
    the examples and the test server.
  \<^item> \<open>Tracker\<close>, \<open>Concurrently\<close>, \<open>Generator\<close>, \<open>Scenario\<close>, \<open>Measure\<close>: latency measurement, load generation, the
    scenarios and the evaluation of their results.
    The tracker is treated over histories of spec changes, ready events and reconciliations in any order.
  \<^item> \<open>Shutdown\<close>, \<open>Commands\<close>: how the processes start and end, from the parsed options to the exit code. Steps of the program are
    kept apart from what the environment may or may not do.

  \<^bold>\<open>Conventions.\<close> A struct is a record with the fields of the source, prefixed; an enumeration is a datatype. Fallible
  code returns \<open>go_error + 'a\<close>; where code can panic (nil dereference, out-of-range access, \<^verbatim>\<open>Must...\<close>) the result is
  an option, with \<open>None\<close> for the panic, and that it does not happen is proved. Times are unbounded integers in
  nanoseconds; durations are computed with the wrap-around and saturation of Go's 64-bit arithmetic where the code
  adds or subtracts them. Code outside the repository (API server, controller-runtime, client-go, the hash function,
  JSON, Prometheus) is a parameter; predicates named \<open>..._doc\<close> state what its documentation promises, and every property
  that assumes one has a witness with an instance.

  \<^bold>\<open>Termination and bounds.\<close> Loops are structural or have a measure. The one loop that need not end, over a
  measurement's cursor, is a \<open>partial_function\<close>, and that it returns is proved for the cursors of the program.
  Step relations come with measures that bound the length of every run. Only the JSON parser has fuel, the
  length of the text, and its round trip with the printer shows that this is enough.

  \<^bold>\<open>Not modelled.\<close> The style sheet filter of the HTML template engine (a parameter); parsing of
  flags, logging, signal handlers and HTTP transport (library calls); rounding of floating point rates; the description of
  Prometheus metrics beyond names, labels and values; test helpers. Go's memory model is modelled to the extent
  of goroutines that communicate by channels, locks and contexts: data races are not.
\<close>

end
